(* ===== verification/Prelude.thy ===== *)
theory Prelude
  imports Main "HOL-Library.Word" "HOL-Library.Multiset" "HOL-Library.Char_ord"
    "HOL-Library.List_Lexorder" "HOL-Library.Sublist"
begin

text \<open>
  Shared vocabulary of the development: the integer and byte types of the Go sources, Go
  error values with \<open>errors.Is\<close>, Go maps with their unspecified iteration order, and the
  generic facts on lists and maps that the component theories share.

  \<^item> Go's \<open>uint64\<close> is \<open>64 word\<close>; \<open>int\<close> and \<open>int64\<close> are HOL integers, and where the code
    computes with them the two's complement wrap-around is written out with \<open>wrap64\<close>.
  \<^item> Strings and byte slices are lists of characters, one character per byte. Fixed-size
    byte arrays of the gowaves library (digests, block ids, addresses) are byte strings too.
  \<^item> A Go map is a partial function. Ranging over it visits its keys in an order that the
    language leaves open, so every function that ranges over a map takes the order as an
    argument, and its theorems hold for every order that \<open>iter_order\<close> admits.
\<close>

section \<open>Machine integers and bytes\<close>

type_synonym uint64 = "64 word"
type_synonym uint32 = "32 word"
type_synonym bytes = string
type_synonym Digest = bytes
type_synonym BlockID = bytes
type_synonym WavesAddress = bytes

definition wrap64 :: "int \<Rightarrow> int" where
  "wrap64 x = signed_take_bit 63 x"

lemma wrap64_id [simp]: "- (2 ^ 63) \<le> x \<Longrightarrow> x < 2 ^ 63 \<Longrightarrow> wrap64 x = x"
  unfolding wrap64_def by (rule signed_take_bit_int_eq_self) auto

definition in_int64 :: "int \<Rightarrow> bool" where
  "in_int64 x \<longleftrightarrow> - (2 ^ 63) \<le> x \<and> x < 2 ^ 63"

lemma wrap64_in_int64 [simp]: "in_int64 x \<Longrightarrow> wrap64 x = x"
  by (simp add: in_int64_def)

definition MaxUint64 :: uint64 where
  "MaxUint64 = - 1"

lemma le_MaxUint64 [simp]: "x \<le> MaxUint64"
  by (simp add: MaxUint64_def)

section \<open>Go error values\<close>

text \<open>
  An error is a sentinel variable (compared by \<open>errors.Is\<close>), a formatted text, a wrapped
  error with its message, or several joined errors. \<open>Panic\<close> is no error value: it stands
  for a run-time panic, which leaves every function of the program that does not recover.
\<close>

datatype sentinel =
    ErrNotFound | ErrNoFullStatement | ErrBigHeightDifference | ErrStorageIsNotReady
  | ErrNoCommonBlocks | ErrLinearNotFound
  | ErrInsufficientPermissions | ErrIncorrectURL | ErrInvalidParameters | ErrServerClosed

datatype error =
    Sentinel sentinel
  | Errorf string
  | Wrap string error
  | Join "error list"
  | Panic string

fun errors_Is :: "error \<Rightarrow> sentinel \<Rightarrow> bool" where
  "errors_Is (Sentinel s) t = (s = t)"
| "errors_Is (Errorf _) t = False"
| "errors_Is (Wrap _ e) t = errors_Is e t"
| "errors_Is (Join es) t = list_ex (\<lambda>e. errors_Is e t) es"
| "errors_Is (Panic _) t = False"

fun is_panic :: "error \<Rightarrow> bool" where
  "is_panic (Panic _) = True"
| "is_panic _ = False"

text \<open>\<open>errors.Wrap\<close> and \<open>errors.Wrapf\<close>: a panic passes through unchanged.\<close>

fun wrapf :: "error \<Rightarrow> string \<Rightarrow> error" where
  "wrapf (Panic p) msg = Panic p"
| "wrapf e msg = Wrap msg e"

lemma errors_Is_wrapf [simp]: "errors_Is (wrapf e m) t = errors_Is e t"
  by (cases e) auto

lemma is_panic_wrapf [simp]: "is_panic (wrapf e m) = is_panic e"
  by (cases e) auto

text \<open>\<open>errors.Join\<close> drops nil errors and is nil when nothing is left.\<close>

definition errors_Join :: "error option list \<Rightarrow> error option" where
  "errors_Join es = (case List.map_filter id es of [] \<Rightarrow> None | xs \<Rightarrow> Some (Join xs))"

lemma errors_Join_None_iff: "errors_Join es = None \<longleftrightarrow> (\<forall>e \<in> set es. e = None)"
  by (induction es) (auto simp: errors_Join_def List.map_filter_def split: list.splits)

section \<open>Go maps\<close>

type_synonym ('k, 'v) gomap = "'k \<Rightarrow> 'v option"

definition iter_order :: "('k, 'v) gomap \<Rightarrow> 'k list \<Rightarrow> bool" where
  "iter_order m ks \<longleftrightarrow> distinct ks \<and> set ks = dom m"

lemma iter_order_empty [simp]: "iter_order (\<lambda>_. None) ks \<longleftrightarrow> ks = []"
  by (auto simp: iter_order_def)

lemma iter_order_ex: "finite (dom m) \<Longrightarrow> \<exists>ks. iter_order m ks"
  by (metis finite_distinct_list iter_order_def)

lemma iter_order_length: "iter_order m ks \<Longrightarrow> length ks = card (dom m)"
  by (metis distinct_card iter_order_def)

lemma iter_orderD: "iter_order m ks \<Longrightarrow> k \<in> set ks \<longleftrightarrow> (\<exists>v. m k = Some v)"
  by (auto simp: iter_order_def)

text \<open>\<open>m[k] = append(m[k], x)\<close>: a missing key reads as the nil slice.\<close>

definition map_append :: "('k, 'a list) gomap \<Rightarrow> 'k \<Rightarrow> 'a \<Rightarrow> ('k, 'a list) gomap" where
  "map_append m k x = m(k \<mapsto> (case m k of None \<Rightarrow> [] | Some xs \<Rightarrow> xs) @ [x])"

text \<open>
  The loop \<open>for _, x := range xs { split[f(x)] = append(split[f(x)], x) }\<close> that the
  sources write out for every way of splitting statements.
\<close>

fun group_loop :: "('a \<Rightarrow> 'k) \<Rightarrow> ('k, 'a list) gomap \<Rightarrow> 'a list \<Rightarrow> ('k, 'a list) gomap" where
  "group_loop f m [] = m"
| "group_loop f m (x # xs) = group_loop f (map_append m (f x) x) xs"

abbreviation group_by :: "('a \<Rightarrow> 'k) \<Rightarrow> 'a list \<Rightarrow> ('k, 'a list) gomap" where
  "group_by f xs \<equiv> group_loop f (\<lambda>_. None) xs"

lemma group_loop_lookup:
  "group_loop f m xs k =
     (if k \<in> f ` set xs \<or> m k \<noteq> None
      then Some ((case m k of None \<Rightarrow> [] | Some ys \<Rightarrow> ys) @ filter (\<lambda>x. f x = k) xs)
      else None)"
proof (induction xs arbitrary: m)
  case Nil
  then show ?case by (auto split: option.splits)
next
  case (Cons x xs)
  show ?case
    by (cases "f x = k") (auto simp: Cons.IH map_append_def split: option.splits)
qed

lemma group_by_lookup:
  "group_by f xs k = (if k \<in> f ` set xs then Some (filter (\<lambda>x. f x = k) xs) else None)"
  by (simp add: group_loop_lookup)

lemma dom_group_by: "dom (group_by f xs) = f ` set xs"
  by (auto simp: dom_def group_by_lookup split: if_splits)

lemma group_by_SomeD:
  assumes "group_by f xs k = Some ys"
  shows "ys = filter (\<lambda>x. f x = k) xs" "ys \<noteq> []" "k \<in> f ` set xs"
  using assms by (auto simp: group_by_lookup filter_empty_conv split: if_splits)

text \<open>A read of a missing key gives the zero value.\<close>

definition map_get :: "'v \<Rightarrow> ('k, 'v) gomap \<Rightarrow> 'k \<Rightarrow> 'v" where
  "map_get z m k = (case m k of None \<Rightarrow> z | Some v \<Rightarrow> v)"

lemma map_get_upd [simp]: "map_get z (m(k \<mapsto> v)) k' = (if k' = k then v else map_get z m k')"
  by (simp add: map_get_def)

lemma map_get_group_by: "map_get [] (group_by f xs) k = filter (\<lambda>x. f x = k) xs"
proof -
  have "filter (\<lambda>x. f x = k) xs = []" if "k \<notin> f ` set xs"
    using that by (auto simp: filter_empty_conv)
  then show ?thesis by (simp add: map_get_def group_by_lookup)
qed

section \<open>Lists\<close>

text \<open>
  \<open>sort.Strings\<close> orders by bytes, which is the lexicographic order of the character lists.
  \<open>sort.Slice\<close> is not stable; where its key is unique on the slice its result is
  determined, and \<open>sort_key\<close> computes it.
\<close>

lemma filter_eq_replicate: "filter (\<lambda>y. y = x) xs = replicate (count (mset xs) x) x"
  by (induction xs) auto

lemma sort_key_unique:
  assumes "mset ys = mset xs" and "sorted (map f ys)" and "inj_on f (set xs)"
  shows "ys = sort_key f xs"
proof (rule properties_for_sort_key [symmetric])
  fix k assume k: "k \<in> set ys"
  have eq: "set ys = set xs" by (metis assms(1) mset_eq_setD)
  have "filter (\<lambda>x. f k = f x) zs = filter (\<lambda>x. x = k) zs" if "set zs = set xs" for zs
    using that k eq assms(3) by (intro filter_cong) (auto dest: inj_onD)
  with eq show "filter (\<lambda>x. f k = f x) ys = filter (\<lambda>x. f k = f x) xs"
    by (simp add: filter_eq_replicate assms(1))
qed (use assms in auto)

lemma sorted_desc_unique:
  fixes f :: "'a \<Rightarrow> 'b :: linorder"
  assumes "sorted_wrt (\<lambda>a b. f b < f a) xs" "sorted_wrt (\<lambda>a b. f b < f a) ys" "set xs = set ys"
  shows "xs = ys"
proof -
  have str: "sorted_wrt (<) (map f (rev zs))" if "sorted_wrt (\<lambda>a b. f b < f a) zs" for zs
    using that by (simp add: sorted_wrt_map sorted_wrt_rev)
  have "inj_on f (set xs)"
    using str [OF assms(1)] by (simp add: strict_sorted_iff distinct_map)
  moreover have "map f (rev xs) = map f (rev ys)"
    using str [OF assms(1)] str [OF assms(2)] assms(3)
    by (intro sorted_distinct_set_unique) (simp_all add: strict_sorted_iff)
  ultimately have "rev xs = rev ys"
    using assms(3) by (simp add: inj_on_map_eq_map)
  then show ?thesis by simp
qed

lemma concat_map_if: "concat (map (\<lambda>x. if Q x then [f x] else []) xs) = map f (filter Q xs)"
  by (induction xs) auto

lemma Min_eq_Max:
  assumes "Min A = Max A" "finite A" "x \<in> A"
  shows "x = Max A"
  using Min_le [OF assms(2,3)] Max_ge [OF assms(2,3)] unfolding assms(1) by (rule antisym [rotated])

end
