(* ===== verification/GoLib.thy ===== *)
theory GoLib
  imports Prelude
begin

text \<open>
  The parts of Go's \<open>strings\<close> and \<open>strconv\<close> packages that the sources call, over byte
  strings: prefixes, splitting, joining and replacing, decimal and hexadecimal numbers.
  Case mapping, white space and quoting treat ASCII as Go does; a byte of a multi-byte rune
  is left as it is.
\<close>

section \<open>strings\<close>

definition HasPrefix :: "string \<Rightarrow> string \<Rightarrow> bool" where
  "HasPrefix s p = prefix p s"

definition TrimPrefix :: "string \<Rightarrow> string \<Rightarrow> string" where
  "TrimPrefix s p = (if prefix p s then drop (length p) s else s)"

definition Contains :: "string \<Rightarrow> string \<Rightarrow> bool" where
  "Contains s t = sublist t s"

lemma HasPrefix_append [simp]: "HasPrefix (p @ s) p"
  by (simp add: HasPrefix_def)

lemma TrimPrefix_append [simp]: "TrimPrefix (p @ s) p = s"
  by (simp add: TrimPrefix_def)

text \<open>\<open>strings.Split\<close> with a separator of one byte.\<close>

fun Split :: "char \<Rightarrow> string \<Rightarrow> string list" where
  "Split c [] = [[]]"
| "Split c (x # xs) =
     (if x = c then [] # Split c xs
      else (case Split c xs of [] \<Rightarrow> [[x]] | w # ws \<Rightarrow> (x # w) # ws))"

lemma Split_not_Nil [simp]: "Split c xs \<noteq> []"
  by (cases xs) (auto split: list.splits)

lemma Split_none: "c \<notin> set xs \<Longrightarrow> Split c xs = [xs]"
  by (induction xs) auto

lemma Split_append_sep: "c \<notin> set a \<Longrightarrow> Split c (a @ c # b) = a # Split c b"
  by (induction a) auto

fun strings_Join :: "string list \<Rightarrow> string \<Rightarrow> string" where
  "strings_Join [] sep = []"
| "strings_Join [w] sep = w"
| "strings_Join (w # v # ws) sep = w @ sep @ strings_Join (v # ws) sep"

lemma Split_Join:
  "ws \<noteq> [] \<Longrightarrow> \<forall>w \<in> set ws. c \<notin> set w \<Longrightarrow> Split c (strings_Join ws [c]) = ws"
proof (induction ws "[c]" rule: strings_Join.induct)
  case (3 w v ws)
  then show ?case by (simp add: Split_append_sep)
qed (auto simp: Split_none)

lemma Join_Split: "strings_Join (Split c s) [c] = s"
proof (induction s)
  case (Cons x xs)
  then show ?case by (cases "Split c xs" rule: strings_Join.cases [of "(_, [c])", simplified])
      (auto split: list.splits)
qed simp

text \<open>\<open>strings.ReplaceAll\<close> with a non-empty old string; \<open>Replace1\<close> is \<open>strings.Replace\<close> with n = 1.\<close>

function ReplaceAll :: "string \<Rightarrow> string \<Rightarrow> string \<Rightarrow> string" where
  "ReplaceAll s old new =
     (case s of [] \<Rightarrow> []
      | x # xs \<Rightarrow>
        if old \<noteq> [] \<and> prefix old s then new @ ReplaceAll (drop (length old) s) old new
        else x # ReplaceAll xs old new)"
  by pat_completeness auto
termination
  by (relation "measure (\<lambda>(s, old, new). length s)") (auto simp: Suc_le_eq)

declare ReplaceAll.simps [simp del]

lemma ReplaceAll_Nil [simp]: "ReplaceAll [] old new = []"
  by (subst ReplaceAll.simps) simp

lemma ReplaceAll_absent: "\<not> sublist old s \<Longrightarrow> ReplaceAll s old new = s"
proof (induction s)
  case (Cons x xs)
  then have "\<not> prefix old (x # xs)" "\<not> sublist old xs" by (auto simp: sublist_Cons_right)
  with Cons.IH show ?case by (subst ReplaceAll.simps) simp
qed simp

fun Replace1 :: "string \<Rightarrow> string \<Rightarrow> string \<Rightarrow> string" where
  "Replace1 [] old new = (if old = [] then new else [])"
| "Replace1 (x # xs) old new =
     (if prefix old (x # xs) then new @ drop (length old) (x # xs) else x # Replace1 xs old new)"

definition is_upper :: "char \<Rightarrow> bool" where
  "is_upper c \<longleftrightarrow> 65 \<le> (of_char c :: nat) \<and> (of_char c :: nat) \<le> 90"

definition lower_char :: "char \<Rightarrow> char" where
  "lower_char c = (if is_upper c then char_of (of_char c + 32 :: nat) else c)"

definition ToLower :: "string \<Rightarrow> string" where
  "ToLower s = map lower_char s"

lemma lower_char_not_upper: "\<not> is_upper (lower_char c)"
  by (auto simp: lower_char_def is_upper_def)

lemma ToLower_no_upper: "c \<in> set (ToLower s) \<Longrightarrow> \<not> is_upper c"
  by (auto simp: ToLower_def lower_char_not_upper)

definition is_space :: "char \<Rightarrow> bool" where
  "is_space c \<longleftrightarrow> c \<in> {CHR 0x20, CHR 0x09, CHR 0x0A, CHR 0x0B, CHR 0x0C, CHR 0x0D}"

definition TrimSpace :: "string \<Rightarrow> string" where
  "TrimSpace s = rev (dropWhile is_space (rev (dropWhile is_space s)))"

lemma set_TrimSpace: "set (TrimSpace s) \<subseteq> set s"
  by (auto simp: TrimSpace_def dest!: set_dropWhileD)

function Fields :: "string \<Rightarrow> string list" where
  "Fields s =
     (case dropWhile is_space s of [] \<Rightarrow> []
      | x # xs \<Rightarrow>
        takeWhile (\<lambda>c. \<not> is_space c) (x # xs) # Fields (dropWhile (\<lambda>c. \<not> is_space c) (x # xs)))"
  by pat_completeness auto
termination
proof (relation "measure length", goal_cases)
  case (2 s x xs)
  then have "\<not> is_space x" by (metis dropWhile_eq_Cons_conv)
  then have "length (dropWhile (\<lambda>c. \<not> is_space c) (x # xs)) \<le> length xs"
    by (simp add: length_dropWhile_le)
  also have "\<dots> < length s"
    using length_dropWhile_le [of is_space s] 2 by simp
  finally show ?case by simp
qed simp

declare Fields.simps [simp del]

section \<open>strconv\<close>

definition digit_char :: "nat \<Rightarrow> char" where
  "digit_char d = char_of (48 + d)"

fun dec_digits :: "nat \<Rightarrow> string" where
  "dec_digits n = (if n < 10 then [digit_char n] else dec_digits (n div 10) @ [digit_char (n mod 10)])"

declare dec_digits.simps [simp del]

definition FormatUint :: "uint64 \<Rightarrow> string" where
  "FormatUint n = dec_digits (unat n)"

definition FormatInt :: "int \<Rightarrow> string" where
  "FormatInt i = (if i < 0 then CHR ''-'' # dec_digits (nat (- i)) else dec_digits (nat i))"

text \<open>The value of a digit in \<open>strconv.ParseUint\<close>: \<open>0\<close> to \<open>9\<close>, then letters of either case.\<close>

definition digit_val :: "char \<Rightarrow> nat option" where
  "digit_val c =
     (let n = (of_char c :: nat); l = (of_char (lower_char c) :: nat) in
      if 48 \<le> n \<and> n \<le> 57 then Some (n - 48)
      else if 97 \<le> l \<and> l \<le> 122 then Some (l - 97 + 10)
      else None)"

fun parse_digits :: "nat \<Rightarrow> nat \<Rightarrow> string \<Rightarrow> nat option" where
  "parse_digits base acc [] = Some acc"
| "parse_digits base acc (c # cs) =
     (case digit_val c of
        None \<Rightarrow> None
      | Some d \<Rightarrow> if d < base then parse_digits base (acc * base + d) cs else None)"

text \<open>The error of the \<open>strconv\<close> functions; the number it quotes is left out of its text.\<close>

definition numError :: "string \<Rightarrow> string \<Rightarrow> error" where
  "numError fn what = Errorf (''strconv.'' @ fn @ '': '' @ what)"

definition ParseUint :: "nat \<Rightarrow> string \<Rightarrow> error + nat" where
  "ParseUint base s =
     (if s = [] then Inl (numError ''ParseUint'' ''invalid syntax'')
      else (case parse_digits base 0 s of
              None \<Rightarrow> Inl (numError ''ParseUint'' ''invalid syntax'')
            | Some n \<Rightarrow> if n < 2 ^ 64 then Inr n else Inl (numError ''ParseUint'' ''value out of range'')))"

definition ParseInt :: "nat \<Rightarrow> string \<Rightarrow> error + int" where
  "ParseInt base s =
     (let (neg, ds) =
        (case s of [] \<Rightarrow> (False, [])
         | c # cs \<Rightarrow> if c = CHR ''-'' then (True, cs) else if c = CHR ''+'' then (False, cs) else (False, s))
      in case ParseUint base ds of
           Inl e \<Rightarrow> Inl e
         | Inr n \<Rightarrow>
             if \<not> neg \<and> 2 ^ 63 \<le> n then Inl (numError ''ParseInt'' ''value out of range'')
             else if neg \<and> 2 ^ 63 < n then Inl (numError ''ParseInt'' ''value out of range'')
             else Inr (if neg then - int n else int n))"

definition Atoi :: "string \<Rightarrow> error + int" where
  "Atoi s = ParseInt 10 s"

text \<open>\<open>strconv.Quote\<close>, the verb \<open>%q\<close>, for ASCII; \<open>squote\<close> is the \<open>'%s'\<close> of error texts.\<close>

definition hex_digit :: "nat \<Rightarrow> char" where
  "hex_digit d = (if d < 10 then digit_char d else char_of (87 + d))"

definition quote_char :: "char \<Rightarrow> string" where
  "quote_char c =
     (let n = (of_char c :: nat); bs = CHR 0x5C in
      if n = 34 \<or> n = 92 then [bs, c]
      else if n = 7 then [bs, CHR ''a'']
      else if n = 8 then [bs, CHR ''b'']
      else if n = 9 then [bs, CHR ''t'']
      else if n = 10 then [bs, CHR ''n'']
      else if n = 11 then [bs, CHR ''v'']
      else if n = 12 then [bs, CHR ''f'']
      else if n = 13 then [bs, CHR ''r'']
      else if n < 32 \<or> n = 127 then [bs, CHR ''x'', hex_digit (n div 16), hex_digit (n mod 16)]
      else [c])"

definition Quote :: "string \<Rightarrow> string" where
  "Quote s = [CHR 0x22] @ concat (map quote_char s) @ [CHR 0x22]"

definition squote :: "string \<Rightarrow> string" where
  "squote s = [CHR 0x27] @ s @ [CHR 0x27]"

definition newline :: string where
  "newline = [CHR 0x0A]"

subsection \<open>Decimal numbers round trip\<close>

lemma of_char_digit: "d < 10 \<Longrightarrow> (of_char (digit_char d) :: nat) = 48 + d"
  by (simp add: digit_char_def)

lemma digit_val_digit [simp]: "d < 10 \<Longrightarrow> digit_val (digit_char d) = Some d"
  by (simp add: digit_val_def of_char_digit)

lemma of_char_hex: "10 \<le> d \<Longrightarrow> d < 16 \<Longrightarrow> (of_char (hex_digit d) :: nat) = 87 + d"
  by (simp add: hex_digit_def)

lemma digit_val_hex:
  assumes "d < 16"
  shows "digit_val (hex_digit d) = Some d"
proof (cases "d < 10")
  case True
  then show ?thesis by (simp add: hex_digit_def)
next
  case False
  with assms of_char_hex [of d] show ?thesis
    by (simp add: digit_val_def lower_char_def is_upper_def Let_def)
qed

lemma dec_digits_not_Nil [simp]: "dec_digits n \<noteq> []"
  by (subst dec_digits.simps) simp

lemma dec_digits_set: "c \<in> set (dec_digits n) \<Longrightarrow> \<exists>d < 10. c = digit_char d"
proof (induction n rule: dec_digits.induct)
  case (1 n)
  show ?case
  proof (cases "n < 10")
    case True
    with "1.prems" show ?thesis by (auto simp: dec_digits.simps [of n])
  next
    case False
    with "1.prems" have "c \<in> set (dec_digits (n div 10)) \<or> c = digit_char (n mod 10)"
      by (auto simp: dec_digits.simps [of n])
    then show ?thesis
      by (elim disjE) (use "1.IH" False in blast, auto intro!: exI [of _ "n mod 10"])
  qed
qed

lemma parse_digits_append:
  "parse_digits b acc (xs @ ys) =
     (case parse_digits b acc xs of None \<Rightarrow> None | Some a \<Rightarrow> parse_digits b a ys)"
  by (induction xs arbitrary: acc) (auto split: option.splits)

lemma parse_dec_digits [simp]: "parse_digits 10 0 (dec_digits n) = Some n"
proof (induction n rule: dec_digits.induct)
  case (1 n)
  show ?case
  proof (cases "n < 10")
    case True
    then show ?thesis by (simp add: dec_digits.simps [of n])
  next
    case False
    with "1.IH" show ?thesis
      by (simp add: dec_digits.simps [of n] parse_digits_append)
  qed
qed

lemma dec_digits_inj: "dec_digits m = dec_digits n \<Longrightarrow> m = n"
  by (metis option.inject parse_dec_digits)

lemma dec_digits_hd: "\<exists>d cs. d < 10 \<and> dec_digits n = digit_char d # cs"
  by (metis dec_digits_not_Nil dec_digits_set list.set_intros(1) neq_Nil_conv)

lemma digit_char_no_sign: "d < 10 \<Longrightarrow> digit_char d \<noteq> CHR ''-'' \<and> digit_char d \<noteq> CHR ''+''"
  by (rule conjI; rule notI; drule arg_cong [where f = "of_char :: char \<Rightarrow> nat"]) (simp_all add: of_char_digit)

lemma digit_char_no_bar: "d < 10 \<Longrightarrow> digit_char d \<noteq> CHR ''|''"
  by (rule notI; drule arg_cong [where f = "of_char :: char \<Rightarrow> nat"]) (simp add: of_char_digit)

lemma FormatInt_no_bar: "CHR ''|'' \<notin> set (FormatInt i)"
  by (auto simp: FormatInt_def dest!: dec_digits_set dest: digit_char_no_bar)

lemma ParseUint_dec_digits: "n < 2 ^ 64 \<Longrightarrow> ParseUint 10 (dec_digits n) = Inr n"
  by (simp add: ParseUint_def)

lemma ParseInt_FormatInt:
  assumes "in_int64 i"
  shows "ParseInt 10 (FormatInt i) = Inr i"
proof (cases "i < 0")
  case True
  then have "nat (- i) < 2 ^ 64" "\<not> 2 ^ 63 < nat (- i)" using assms by (auto simp: in_int64_def)
  with True show ?thesis
    by (simp add: ParseInt_def FormatInt_def ParseUint_dec_digits)
next
  case False
  obtain d cs where d: "d < 10" "dec_digits (nat i) = digit_char d # cs"
    using dec_digits_hd by blast
  from False assms have n: "nat i < 2 ^ 64" "\<not> 2 ^ 63 \<le> nat i" by (auto simp: in_int64_def)
  have "ParseInt 10 (dec_digits (nat i)) = Inr (int (nat i))"
    using n ParseUint_dec_digits [OF n(1)] digit_char_no_sign [OF d(1)]
    by (simp add: ParseInt_def d(2))
  with False show ?thesis by (simp add: FormatInt_def)
qed

lemma FormatInt_inj: "FormatInt i = FormatInt j \<Longrightarrow> in_int64 i \<Longrightarrow> in_int64 j \<Longrightarrow> i = j"
  by (metis ParseInt_FormatInt Inr_inject)

end
