(* ===== verification/Json.thy ===== *)
theory Json
  imports GoLib
begin

text \<open>
  JSON documents and the part of \<open>encoding/json\<close> that the sources rely on: structs are
  written as objects under their tags, \<open>omitempty\<close> leaves zero values out, and decoding
  walks over the members of an object in their order, finds the field whose tag matches the
  member name without regard to case, ignores the others, and goes on after a member of a
  wrong type, reporting the first such error at the end.

  The textual form of a document (its printing and parsing) is left out: a document is a
  value of \<open>json\<close>. A decoder takes the document and the value decoded into and returns the
  new value and the error, as \<open>json.Unmarshal\<close> leaves its target partly written on an error.
\<close>

datatype json =
    JNull
  | JBool bool
  | JNum int
  | JFloat string
  | JStr string
  | JArr "json list"
  | JObj "(string \<times> json) list"

type_synonym 'a decoder = "json \<Rightarrow> 'a \<Rightarrow> 'a \<times> error option"

definition typeError :: "string \<Rightarrow> error" where
  "typeError t = Errorf (''json: cannot unmarshal value into Go value of type '' @ t)"

fun first_err :: "error option \<Rightarrow> error option \<Rightarrow> error option" where
  "first_err (Some e) _ = Some e"
| "first_err None e = e"

definition dec_string :: "string decoder" where
  "dec_string v old =
     (case v of JNull \<Rightarrow> (old, None) | JStr s \<Rightarrow> (s, None) | _ \<Rightarrow> (old, Some (typeError ''string'')))"

definition dec_bool :: "bool decoder" where
  "dec_bool v old =
     (case v of JNull \<Rightarrow> (old, None) | JBool b \<Rightarrow> (b, None) | _ \<Rightarrow> (old, Some (typeError ''bool'')))"

definition dec_int64 :: "int decoder" where
  "dec_int64 v old =
     (case v of JNull \<Rightarrow> (old, None)
      | JNum n \<Rightarrow> if in_int64 n then (n, None) else (old, Some (typeError ''int64''))
      | _ \<Rightarrow> (old, Some (typeError ''int64'')))"

definition dec_uint64 :: "uint64 decoder" where
  "dec_uint64 v old =
     (case v of JNull \<Rightarrow> (old, None)
      | JNum n \<Rightarrow> if 0 \<le> n \<and> n < 2 ^ 64 then (word_of_int n, None) else (old, Some (typeError ''uint64''))
      | _ \<Rightarrow> (old, Some (typeError ''uint64'')))"

text \<open>A pointer: null makes it nil, any other value is decoded into the pointee.\<close>

definition dec_ptr :: "'a \<Rightarrow> 'a decoder \<Rightarrow> 'a option decoder" where
  "dec_ptr zero d v old =
     (case v of JNull \<Rightarrow> (None, None)
      | _ \<Rightarrow> (let (x, e) = d v (case old of None \<Rightarrow> zero | Some o' \<Rightarrow> o') in (Some x, e)))"

text \<open>A slice; nil and empty slices are not told apart.\<close>

fun dec_elems :: "'a \<Rightarrow> 'a decoder \<Rightarrow> json list \<Rightarrow> 'a list \<times> error option" where
  "dec_elems zero d [] = ([], None)"
| "dec_elems zero d (v # vs) =
     (let (x, e) = d v zero; (xs, es) = dec_elems zero d vs in (x # xs, first_err e es))"

definition dec_slice :: "string \<Rightarrow> 'a \<Rightarrow> 'a decoder \<Rightarrow> 'a list decoder" where
  "dec_slice t zero d v old =
     (case v of JNull \<Rightarrow> ([], None)
      | JArr vs \<Rightarrow> dec_elems zero d vs
      | _ \<Rightarrow> (old, Some (typeError t)))"

text \<open>A type of another package with its own \<open>UnmarshalJSON\<close>.\<close>

definition dec_custom :: "(json \<Rightarrow> error + 'a) \<Rightarrow> 'a decoder" where
  "dec_custom f v old = (case f v of Inl e \<Rightarrow> (old, Some e) | Inr x \<Rightarrow> (x, None))"

text \<open>Structs: a table of tags with the decoder of each field.\<close>

type_synonym 'r fields = "(string \<times> (json \<Rightarrow> 'r \<Rightarrow> 'r \<times> error option)) list"

definition field :: "string \<Rightarrow> 'a decoder \<Rightarrow> ('r \<Rightarrow> 'a) \<Rightarrow> ('a \<Rightarrow> 'r \<Rightarrow> 'r) \<Rightarrow>
    string \<times> (json \<Rightarrow> 'r \<Rightarrow> 'r \<times> error option)" where
  "field tag d get put = (tag, \<lambda>v r. let (x, e) = d v (get r) in (put x r, e))"

fun dec_members :: "'r fields \<Rightarrow> (string \<times> json) list \<Rightarrow> 'r \<Rightarrow> 'r \<times> error option" where
  "dec_members tbl [] r = (r, None)"
| "dec_members tbl ((k, v) # kvs) r =
     (case find (\<lambda>f. ToLower (fst f) = ToLower k) tbl of
        None \<Rightarrow> dec_members tbl kvs r
      | Some f \<Rightarrow>
          (let (r1, e1) = snd f v r; (r2, e2) = dec_members tbl kvs r1 in (r2, first_err e1 e2)))"

definition dec_struct :: "string \<Rightarrow> 'r fields \<Rightarrow> 'r decoder" where
  "dec_struct t tbl v r =
     (case v of JNull \<Rightarrow> (r, None)
      | JObj kvs \<Rightarrow> dec_members tbl kvs r
      | _ \<Rightarrow> (r, Some (typeError t)))"

text \<open>\<open>json.Unmarshal\<close> into a zero value, for callers that drop the value on an error.\<close>

definition Unmarshal :: "'r decoder \<Rightarrow> 'r \<Rightarrow> json \<Rightarrow> error + 'r" where
  "Unmarshal d zero v = (case d v zero of (r, None) \<Rightarrow> Inr r | (r, Some e) \<Rightarrow> Inl e)"

text \<open>A member written only when its value is not the zero value.\<close>

definition omitempty :: "bool \<Rightarrow> string \<Rightarrow> json \<Rightarrow> (string \<times> json) list" where
  "omitempty zero k v = (if zero then [] else [(k, v)])"

definition json_uint64 :: "uint64 \<Rightarrow> json" where
  "json_uint64 n = JNum (uint n)"

definition json_ptr :: "('a \<Rightarrow> json) \<Rightarrow> 'a option \<Rightarrow> json" where
  "json_ptr f p = (case p of None \<Rightarrow> JNull | Some x \<Rightarrow> f x)"

definition json_slice :: "('a \<Rightarrow> json) \<Rightarrow> 'a list \<Rightarrow> json" where
  "json_slice f xs = (if xs = [] then JNull else JArr (map f xs))"

section \<open>Facts for round trips\<close>

lemma dec_string_JStr [simp]: "dec_string (JStr s) old = (s, None)"
  by (simp add: dec_string_def)

lemma dec_bool_JBool [simp]: "dec_bool (JBool b) old = (b, None)"
  by (simp add: dec_bool_def)

lemma dec_int64_JNum [simp]: "in_int64 n \<Longrightarrow> dec_int64 (JNum n) old = (n, None)"
  by (simp add: dec_int64_def)

lemma dec_uint64_json [simp]: "dec_uint64 (json_uint64 n) old = (n, None)"
  using uint_bounded [of n] by (simp add: dec_uint64_def json_uint64_def)

lemma dec_ptr_json:
  assumes "\<And>x old. p = Some x \<Longrightarrow> d (f x) old = (x, None)" "\<And>x. f x \<noteq> JNull"
  shows "dec_ptr zero d (json_ptr f p) old = (p, None)"
proof (cases p)
  case (Some x)
  have "f x \<noteq> JNull" by (rule assms(2))
  then have "dec_ptr zero d (f x) old =
      (let (y, e) = d (f x) (case old of None \<Rightarrow> zero | Some o' \<Rightarrow> o') in (Some y, e))"
    by (cases "f x") (simp_all add: dec_ptr_def)
  with Some show ?thesis by (simp add: json_ptr_def assms(1))
qed (simp add: dec_ptr_def json_ptr_def)

lemma dec_elems_map:
  assumes "\<And>x old. x \<in> set xs \<Longrightarrow> d (f x) old = (x, None)"
  shows "dec_elems zero d (map f xs) = (xs, None)"
  using assms by (induction xs) auto

lemma dec_slice_json:
  assumes "\<And>x old. x \<in> set xs \<Longrightarrow> d (f x) old = (x, None)"
  shows "dec_slice t zero d (json_slice f xs) old = (xs, None)"
  using dec_elems_map [OF assms] by (simp add: dec_slice_def json_slice_def)

lemma dec_custom_Inr [simp]: "f v = Inr x \<Longrightarrow> dec_custom f v old = (x, None)"
  by (simp add: dec_custom_def)

lemma first_err_None [simp]: "first_err e None = e"
  by (cases e) auto

section \<open>The gowaves library\<close>

text \<open>
  Functions of the gowaves library, which is not part of the repository: its hash, the
  printed forms of its types and their JSON forms. They are a parameter of the model;
  \<open>gowaves_ok\<close> states what its documentation promises: hashes have 32 bytes and the JSON form
  of a value decodes to that value and is not null.
\<close>

record gowaves =
  FastHash :: "bytes \<Rightarrow> Digest"
  Digest_String :: "Digest \<Rightarrow> string"
  Digest_Hex :: "Digest \<Rightarrow> string"
  BlockID_String :: "BlockID \<Rightarrow> string"
  Address_String :: "WavesAddress \<Rightarrow> string"
  zeroBlockID :: BlockID
  json_BlockID :: "BlockID \<Rightarrow> json"
  unjson_BlockID :: "json \<Rightarrow> error + BlockID"
  json_Digest :: "Digest \<Rightarrow> json"
  unjson_Digest :: "json \<Rightarrow> error + Digest"
  json_Address :: "WavesAddress \<Rightarrow> json"
  unjson_Address :: "json \<Rightarrow> error + WavesAddress"

definition zeroDigest :: Digest where
  "zeroDigest = replicate 32 (CHR 0x00)"

definition zeroAddress :: WavesAddress where
  "zeroAddress = replicate 26 (CHR 0x00)"

definition gowaves_ok :: "gowaves \<Rightarrow> bool" where
  "gowaves_ok gw \<longleftrightarrow>
     (\<forall>x. length (FastHash gw x) = 32) \<and>
     (\<forall>b. unjson_BlockID gw (json_BlockID gw b) = Inr b \<and> json_BlockID gw b \<noteq> JNull) \<and>
     (\<forall>d. unjson_Digest gw (json_Digest gw d) = Inr d \<and> json_Digest gw d \<noteq> JNull) \<and>
     (\<forall>a. unjson_Address gw (json_Address gw a) = Inr a \<and> json_Address gw a \<noteq> JNull)"

lemma gowaves_okD:
  assumes "gowaves_ok gw"
  shows "length (FastHash gw x) = 32"
    "unjson_BlockID gw (json_BlockID gw b) = Inr b" "json_BlockID gw b \<noteq> JNull"
    "unjson_Digest gw (json_Digest gw d) = Inr d" "json_Digest gw d \<noteq> JNull"
    "unjson_Address gw (json_Address gw a) = Inr a" "json_Address gw a \<noteq> JNull"
  using assms by (auto simp: gowaves_ok_def)

text \<open>
  A concrete instance for witnesses: values print as themselves, and the hash is the first
  32 bytes of its input, padded with zero bytes.
\<close>

definition demo_unjson :: "json \<Rightarrow> error + bytes" where
  "demo_unjson v = (case v of JStr s \<Rightarrow> Inr s | _ \<Rightarrow> Inl (typeError ''string''))"

definition demo_gowaves :: gowaves where
  "demo_gowaves =
     \<lparr>FastHash = (\<lambda>x. take 32 (x @ zeroDigest)), Digest_String = id, Digest_Hex = id,
      BlockID_String = id, Address_String = id, zeroBlockID = [],
      json_BlockID = JStr, unjson_BlockID = demo_unjson,
      json_Digest = JStr, unjson_Digest = demo_unjson,
      json_Address = JStr, unjson_Address = demo_unjson\<rparr>"

lemma demo_gowaves_ok: "gowaves_ok demo_gowaves"
  by (auto simp: gowaves_ok_def demo_gowaves_def demo_unjson_def zeroDigest_def min_def)

end
