(* ===== verification/Statements.thy ===== *)
theory Statements
  imports Json
begin

text \<open>
  \<open>pkg/entities/statements.go\<close> and \<open>pkg/entities/node.go\<close>: node statements, their JSON form,
  the ways of splitting a list of statements, and the smallest and largest height.
\<close>

section \<open>Types\<close>

type_synonym NodeStatus = string

definition OK :: NodeStatus where "OK = ''OK''"
definition Incomplete :: NodeStatus where "Incomplete = ''incomplete''"
definition Unreachable :: NodeStatus where "Unreachable = ''unreachable''"
definition InvalidHeight :: NodeStatus where "InvalidHeight = ''invalid_height''"

lemma NodeStatus_distinct [simp]:
  "OK \<noteq> Incomplete" "OK \<noteq> Unreachable" "OK \<noteq> InvalidHeight"
  "Incomplete \<noteq> OK" "Incomplete \<noteq> Unreachable" "Incomplete \<noteq> InvalidHeight"
  "Unreachable \<noteq> OK" "Unreachable \<noteq> Incomplete" "Unreachable \<noteq> InvalidHeight"
  "InvalidHeight \<noteq> OK" "InvalidHeight \<noteq> Incomplete" "InvalidHeight \<noteq> Unreachable"
  by (simp_all add: OK_def Incomplete_def Unreachable_def InvalidHeight_def)

record StateHash =
  sh_BlockID :: BlockID
  sh_SumHash :: Digest

record NodeStatement =
  st_Node :: string
  st_Timestamp :: int
  st_Status :: NodeStatus
  st_Version :: string
  st_Height :: uint64
  st_StateHash :: "StateHash option"
  st_BaseTarget :: uint64
  st_BlockID :: "BlockID option"
  st_Generator :: "WavesAddress option"
  st_Challenged :: bool

definition zeroStatement :: NodeStatement where
  "zeroStatement =
     \<lparr>st_Node = [], st_Timestamp = 0, st_Status = [], st_Version = [], st_Height = 0,
      st_StateHash = None, st_BaseTarget = 0, st_BlockID = None, st_Generator = None,
      st_Challenged = False\<rparr>"

definition zeroStateHash :: "gowaves \<Rightarrow> StateHash" where
  "zeroStateHash gw = \<lparr>sh_BlockID = zeroBlockID gw, sh_SumHash = zeroDigest\<rparr>"

type_synonym Nodes = "string list"
type_synonym NodeStatements = "NodeStatement list"

section \<open>JSON\<close>

text \<open>\<open>StateHash.MarshalJSON\<close> and \<open>UnmarshalJSON\<close> go through \<open>stateHashJSON\<close>.\<close>

definition StateHash_MarshalJSON :: "gowaves \<Rightarrow> StateHash \<Rightarrow> json" where
  "StateHash_MarshalJSON gw s =
     JObj [(''blockId'', json_BlockID gw (sh_BlockID s)), (''stateHash'', json_Digest gw (sh_SumHash s))]"

definition stateHashJSON_fields :: "gowaves \<Rightarrow> StateHash fields" where
  "stateHashJSON_fields gw =
     [field ''blockId'' (dec_custom (unjson_BlockID gw)) sh_BlockID (\<lambda>x r. r\<lparr>sh_BlockID := x\<rparr>),
      field ''stateHash'' (dec_custom (unjson_Digest gw)) sh_SumHash (\<lambda>x r. r\<lparr>sh_SumHash := x\<rparr>)]"

definition StateHash_UnmarshalJSON :: "gowaves \<Rightarrow> StateHash decoder" where
  "StateHash_UnmarshalJSON gw v s =
     (case dec_struct ''stateHashJSON'' (stateHashJSON_fields gw) v (zeroStateHash gw) of
        (js, Some e) \<Rightarrow> (s, Some e)
      | (js, None) \<Rightarrow> (js, None))"

definition NodeStatement_json :: "gowaves \<Rightarrow> NodeStatement \<Rightarrow> json" where
  "NodeStatement_json gw s = JObj (
     [(''node'', JStr (st_Node s)),
      (''timestamp'', JNum (st_Timestamp s)),
      (''status'', JStr (st_Status s))] @
     omitempty (st_Version s = []) ''version'' (JStr (st_Version s)) @
     omitempty (st_Height s = 0) ''height'' (json_uint64 (st_Height s)) @
     omitempty (st_StateHash s = None) ''state_hash'' (json_ptr (StateHash_MarshalJSON gw) (st_StateHash s)) @
     omitempty (st_BaseTarget s = 0) ''base_target'' (json_uint64 (st_BaseTarget s)) @
     omitempty (st_BlockID s = None) ''block_id'' (json_ptr (json_BlockID gw) (st_BlockID s)) @
     omitempty (st_Generator s = None) ''generator'' (json_ptr (json_Address gw) (st_Generator s)) @
     omitempty (\<not> st_Challenged s) ''challenged'' (JBool (st_Challenged s)))"

definition NodeStatement_fields :: "gowaves \<Rightarrow> NodeStatement fields" where
  "NodeStatement_fields gw =
     [field ''node'' dec_string st_Node (\<lambda>x r. r\<lparr>st_Node := x\<rparr>),
      field ''timestamp'' dec_int64 st_Timestamp (\<lambda>x r. r\<lparr>st_Timestamp := x\<rparr>),
      field ''status'' dec_string st_Status (\<lambda>x r. r\<lparr>st_Status := x\<rparr>),
      field ''version'' dec_string st_Version (\<lambda>x r. r\<lparr>st_Version := x\<rparr>),
      field ''height'' dec_uint64 st_Height (\<lambda>x r. r\<lparr>st_Height := x\<rparr>),
      field ''state_hash'' (dec_ptr (zeroStateHash gw) (StateHash_UnmarshalJSON gw))
        st_StateHash (\<lambda>x r. r\<lparr>st_StateHash := x\<rparr>),
      field ''base_target'' dec_uint64 st_BaseTarget (\<lambda>x r. r\<lparr>st_BaseTarget := x\<rparr>),
      field ''block_id'' (dec_ptr (zeroBlockID gw) (dec_custom (unjson_BlockID gw)))
        st_BlockID (\<lambda>x r. r\<lparr>st_BlockID := x\<rparr>),
      field ''generator'' (dec_ptr zeroAddress (dec_custom (unjson_Address gw)))
        st_Generator (\<lambda>x r. r\<lparr>st_Generator := x\<rparr>),
      field ''challenged'' dec_bool st_Challenged (\<lambda>x r. r\<lparr>st_Challenged := x\<rparr>)]"

definition NodeStatement_Unmarshal :: "gowaves \<Rightarrow> json \<Rightarrow> error + NodeStatement" where
  "NodeStatement_Unmarshal gw v =
     Unmarshal (dec_struct ''entities.NodeStatement'' (NodeStatement_fields gw)) zeroStatement v"

lemma StateHash_json_not_null [simp]: "StateHash_MarshalJSON gw s \<noteq> JNull"
  by (simp add: StateHash_MarshalJSON_def)

lemma tag_lower:
  "ToLower ''blockId'' = ''blockid''" "ToLower ''stateHash'' = ''statehash''"
  "ToLower ''node'' = ''node''" "ToLower ''timestamp'' = ''timestamp''"
  "ToLower ''status'' = ''status''" "ToLower ''version'' = ''version''"
  "ToLower ''height'' = ''height''" "ToLower ''state_hash'' = ''state_hash''"
  "ToLower ''base_target'' = ''base_target''" "ToLower ''block_id'' = ''block_id''"
  "ToLower ''generator'' = ''generator''" "ToLower ''challenged'' = ''challenged''"
  by code_simp+

lemma StateHash_roundtrip [simp]:
  assumes "gowaves_ok gw"
  shows "StateHash_UnmarshalJSON gw (StateHash_MarshalJSON gw s) old = (s, None)"
  by (simp add: StateHash_UnmarshalJSON_def StateHash_MarshalJSON_def dec_struct_def
      stateHashJSON_fields_def field_def tag_lower gowaves_okD [OF assms])

section \<open>Operations on statement lists\<close>

definition Nodes_Sort :: "Nodes \<Rightarrow> Nodes" where
  "Nodes_Sort n = sort n"

definition SortByNodeAsc :: "NodeStatements \<Rightarrow> NodeStatements" where
  "SortByNodeAsc s = sort_key st_Node s"

definition Nodes_of :: "NodeStatements \<Rightarrow> Nodes" where
  "Nodes_of s = map st_Node s"

text \<open>
  \<open>SplitBySumStateHash\<close> reads \<open>statement.StateHash.SumHash\<close> of every statement with status
  \<open>OK\<close>; a nil pointer there is a run-time panic.
\<close>

fun SplitBySumStateHash_loop ::
    "(Digest, NodeStatements) gomap \<Rightarrow> NodeStatements \<Rightarrow> NodeStatements \<Rightarrow>
     error + (Digest, NodeStatements) gomap \<times> NodeStatements" where
  "SplitBySumStateHash_loop split without [] = Inr (split, without)"
| "SplitBySumStateHash_loop split without (s # ss) =
     (if st_Status s = OK then
        (case st_StateHash s of
           None \<Rightarrow> Inl (Panic ''nil pointer dereference'')
         | Some sh \<Rightarrow> SplitBySumStateHash_loop (map_append split (sh_SumHash sh) s) without ss)
      else SplitBySumStateHash_loop split (without @ [s]) ss)"

definition SplitBySumStateHash ::
    "NodeStatements \<Rightarrow> error + (Digest, NodeStatements) gomap \<times> NodeStatements" where
  "SplitBySumStateHash s = SplitBySumStateHash_loop (\<lambda>_. None) [] s"

definition SplitByNodeStatus :: "NodeStatements \<Rightarrow> (NodeStatus, NodeStatements) gomap" where
  "SplitByNodeStatus s = group_by st_Status s"

definition SplitByNodeHeight :: "NodeStatements \<Rightarrow> (uint64, NodeStatements) gomap" where
  "SplitByNodeHeight s = group_by st_Height s"

definition bucketHeight :: "uint64 \<Rightarrow> NodeStatement \<Rightarrow> uint64" where
  "bucketHeight sz s = st_Height s - st_Height s mod sz"

text \<open>Dividing by a bucket size of zero is a run-time panic.\<close>

definition SplitByNodeHeightBuckets ::
    "uint64 \<Rightarrow> NodeStatements \<Rightarrow> error + (uint64, NodeStatements) gomap" where
  "SplitByNodeHeightBuckets sz s =
     (if sz = 0 \<and> s \<noteq> [] then Inl (Panic ''integer divide by zero'')
      else Inr (group_by (bucketHeight sz) s))"

definition SplitByNodeVersion :: "NodeStatements \<Rightarrow> (string, NodeStatements) gomap" where
  "SplitByNodeVersion s = group_by st_Version s"

fun MinMax_loop :: "uint64 list \<Rightarrow> uint64 \<Rightarrow> uint64 \<Rightarrow> uint64 \<times> uint64" where
  "MinMax_loop [] mih mah = (mih, mah)"
| "MinMax_loop (h # hs) mih mah =
     MinMax_loop hs (if mih > h then h else mih) (if mah < h then h else mah)"

text \<open>The argument \<open>ks\<close> is the order in which the map is ranged over.\<close>

definition MinMaxHeight :: "uint64 list \<Rightarrow> (uint64, NodeStatements) gomap \<Rightarrow> uint64 \<times> uint64" where
  "MinMaxHeight ks s = (if ks = [] then (0, 0) else MinMax_loop ks MaxUint64 0)"

section \<open>Facts\<close>

lemma set_Nodes_Sort [simp]: "set (Nodes_Sort n) = set n"
  by (simp add: Nodes_Sort_def)

lemma SplitBySumStateHash_loop_eq:
  assumes "SplitBySumStateHash_loop sp wo ss = Inr (sp', wo')"
  shows "sp' = group_loop (\<lambda>s. sh_SumHash (the (st_StateHash s))) sp (filter (\<lambda>s. st_Status s = OK) ss)
         \<and> wo' = wo @ filter (\<lambda>s. st_Status s \<noteq> OK) ss
         \<and> (\<forall>s \<in> set ss. st_Status s = OK \<longrightarrow> st_StateHash s \<noteq> None)"
  using assms
  by (induction sp wo ss rule: SplitBySumStateHash_loop.induct)
     (auto split: if_splits option.splits)

lemma SplitBySumStateHash_total:
  assumes "\<forall>s \<in> set ss. st_Status s = OK \<longrightarrow> st_StateHash s \<noteq> None"
  shows "SplitBySumStateHash ss =
     Inr (group_by (\<lambda>s. sh_SumHash (the (st_StateHash s))) (filter (\<lambda>s. st_Status s = OK) ss),
          filter (\<lambda>s. st_Status s \<noteq> OK) ss)"
proof -
  have "\<exists>r. SplitBySumStateHash_loop sp wo ss = Inr r" for sp wo
    using assms
    by (induction sp wo ss rule: SplitBySumStateHash_loop.induct) (auto split: option.splits)
  then obtain sp' wo' where "SplitBySumStateHash ss = Inr (sp', wo')"
    unfolding SplitBySumStateHash_def by fastforce
  with SplitBySumStateHash_loop_eq [of "\<lambda>_. None" "[]" ss sp' wo'] show ?thesis
    by (simp add: SplitBySumStateHash_def)
qed

lemma SplitBySumStateHash_panic:
  assumes "s \<in> set ss" "st_Status s = OK" "st_StateHash s = None"
  shows "SplitBySumStateHash ss = Inl (Panic ''nil pointer dereference'')"
proof -
  have "SplitBySumStateHash_loop sp wo ss = Inl (Panic ''nil pointer dereference'')" for sp wo
    using assms
    by (induction sp wo ss rule: SplitBySumStateHash_loop.induct) (auto split: option.splits)
  then show ?thesis by (simp add: SplitBySumStateHash_def)
qed

lemma MinMax_loop_Min_Max:
  "MinMax_loop hs mih mah = (Min (insert mih (set hs)), Max (insert mah (set hs)))"
proof (induction hs arbitrary: mih mah)
  case Nil
  then show ?case by simp
next
  case (Cons h hs)
  have a: "Min (insert mih (insert h (set hs))) = Min (insert (min mih h) (set hs))"
    by (cases "hs = []") (auto simp: min.assoc)
  have b: "Max (insert mah (insert h (set hs))) = Max (insert (max mah h) (set hs))"
    by (cases "hs = []") (auto simp: max.assoc)
  have "MinMax_loop (h # hs) mih mah = MinMax_loop hs (min mih h) (max mah h)"
    by (auto simp: min_def max_def)
  then show ?case by (simp add: Cons.IH a b)
qed

lemma MinMaxHeight_eq:
  assumes "iter_order m ks" "ks \<noteq> []"
  shows "MinMaxHeight ks m = (Min (dom m), Max (dom m))"
proof -
  have ne: "set ks \<noteq> {}" using assms(2) by simp
  have "Min (insert MaxUint64 (set ks)) = Min (set ks)"
    using ne by (simp add: min_absorb2)
  moreover have "Max (insert 0 (set ks)) = Max (set ks)"
    using ne by (simp add: max_absorb2)
  moreover have "set ks = dom m" using assms(1) by (simp add: iter_order_def)
  ultimately show ?thesis
    using assms(2) by (simp add: MinMaxHeight_def MinMax_loop_Min_Max del: Min_insert Max_insert)
qed

lemma MinMaxHeight_statements:
  assumes "iter_order (SplitByNodeHeight ss) ks" "ss \<noteq> []"
  shows "MinMaxHeight ks (SplitByNodeHeight ss) = (Min (st_Height ` set ss), Max (st_Height ` set ss))"
proof -
  have "set ks = st_Height ` set ss"
    using assms(1) by (simp add: iter_order_def SplitByNodeHeight_def dom_group_by)
  with assms(2) have "ks \<noteq> []" by auto
  with assms(1) show ?thesis
    by (subst MinMaxHeight_eq) (simp_all add: SplitByNodeHeight_def dom_group_by)
qed

text \<open>A bucket height is the multiple of the bucket size at or below the height.\<close>

lemma bucketHeight_unat:
  "unat (bucketHeight sz s) = unat (st_Height s) - unat (st_Height s) mod unat sz"
  by (simp add: bucketHeight_def unat_sub_if' unat_mod_distrib word_le_nat_alt)

lemma bucketHeight_props:
  assumes "sz \<noteq> 0"
  shows "bucketHeight sz s \<le> st_Height s" "unat sz dvd unat (bucketHeight sz s)"
    "unat (st_Height s) < unat (bucketHeight sz s) + unat sz"
proof -
  have pos: "0 < unat sz" using assms by (simp add: unat_gt_0)
  show "bucketHeight sz s \<le> st_Height s" by (simp add: word_le_nat_alt bucketHeight_unat)
  show "unat sz dvd unat (bucketHeight sz s)"
    by (simp add: bucketHeight_unat minus_mod_eq_mult_div)
  show "unat (st_Height s) < unat (bucketHeight sz s) + unat sz"
    using mod_less_divisor [OF pos, of "unat (st_Height s)"] by (simp add: bucketHeight_unat)
qed

lemma NodeStatement_roundtrip_aux:
  assumes ok: "gowaves_ok gw" and ts: "in_int64 (st_Timestamp s)"
  shows "dec_struct ''entities.NodeStatement'' (NodeStatement_fields gw) (NodeStatement_json gw s) zeroStatement
    = (s, None)"
proof -
  let ?t = "NodeStatement_fields gw"
  let ?m = "dec_members ?t"
  note f = NodeStatement_fields_def field_def tag_lower
  have bid: "dec_ptr (zeroBlockID gw) (dec_custom (unjson_BlockID gw)) (json_ptr (json_BlockID gw) p) old = (p, None)" for p old
    by (rule dec_ptr_json) (simp_all add: gowaves_okD [OF ok])
  have addr: "dec_ptr zeroAddress (dec_custom (unjson_Address gw)) (json_ptr (json_Address gw) p) old = (p, None)" for p old
    by (rule dec_ptr_json) (simp_all add: gowaves_okD [OF ok])
  have sh: "dec_ptr (zeroStateHash gw) (StateHash_UnmarshalJSON gw) (json_ptr (StateHash_MarshalJSON gw) p) old = (p, None)" for p old
    by (rule dec_ptr_json) (simp_all add: ok)
  have m1: "?m ((''node'', JStr a) # kvs) r = ?m kvs (r\<lparr>st_Node := a\<rparr>)"
    "?m ((''timestamp'', JNum (st_Timestamp s)) # kvs) r = ?m kvs (r\<lparr>st_Timestamp := st_Timestamp s\<rparr>)"
    "?m ((''status'', JStr a) # kvs) r = ?m kvs (r\<lparr>st_Status := a\<rparr>)" for a kvs r
    by (simp_all add: f ts split: prod.splits)
  have m2: "?m (omitempty c ''version'' (JStr (st_Version s)) @ kvs) r
      = ?m kvs (if c then r else r\<lparr>st_Version := st_Version s\<rparr>)"
    "?m (omitempty c ''height'' (json_uint64 h) @ kvs) r = ?m kvs (if c then r else r\<lparr>st_Height := h\<rparr>)"
    "?m (omitempty c ''state_hash'' (json_ptr (StateHash_MarshalJSON gw) p) @ kvs) r
      = ?m kvs (if c then r else r\<lparr>st_StateHash := p\<rparr>)"
    "?m (omitempty c ''base_target'' (json_uint64 h) @ kvs) r = ?m kvs (if c then r else r\<lparr>st_BaseTarget := h\<rparr>)"
    "?m (omitempty c ''block_id'' (json_ptr (json_BlockID gw) b) @ kvs) r = ?m kvs (if c then r else r\<lparr>st_BlockID := b\<rparr>)"
    "?m (omitempty c ''generator'' (json_ptr (json_Address gw) g) @ kvs) r = ?m kvs (if c then r else r\<lparr>st_Generator := g\<rparr>)"
    "?m (omitempty c ''challenged'' (JBool x)) r = (if c then r else r\<lparr>st_Challenged := x\<rparr>, None)"
    for c h p b g x kvs r
    by (simp_all add: omitempty_def f sh bid addr split: prod.splits)
  show ?thesis
    by (simp add: dec_struct_def NodeStatement_json_def m1 m2 del: dec_members.simps)
       (cases s, simp add: zeroStatement_def)
qed

lemma NodeStatement_roundtrip:
  assumes "gowaves_ok gw" "in_int64 (st_Timestamp s)"
  shows "NodeStatement_Unmarshal gw (NodeStatement_json gw s) = Inr s"
  by (simp add: NodeStatement_Unmarshal_def Unmarshal_def NodeStatement_roundtrip_aux [OF assms])

end
