(* ===== verification/Events.thy ===== *)
theory Events
  imports Statements
begin

text \<open>
  \<open>pkg/entities/events.go\<close>: the events the scraper and the API produce. Go struct embedding is
  record extension, so a method of an embedded struct applies to the embedding one; an
  overridden method calls the one of the embedded struct, as in the source.
\<close>

section \<open>The structs\<close>

definition UndefinedHeight :: uint64 where
  "UndefinedHeight = 0"

record UnreachableEvent =
  ue_node :: string
  ue_ts :: int

record VersionEvent =
  ve_node :: string
  ve_ts :: int
  ve_v :: string

record HeightEvent = VersionEvent +
  he_h :: uint64

record BlockHeaderEvent = HeightEvent +
  bh_blockID :: "BlockID option"
  bh_generator :: "WavesAddress option"
  bh_challenged :: bool

record BaseTargetEvent = BlockHeaderEvent +
  bt_bs :: uint64

record StateHashEvent = BaseTargetEvent +
  she_sh :: "StateHash option"

text \<open>\<open>InvalidHeightEvent\<close> embeds \<open>HeightEvent\<close> and adds no field.\<close>

datatype Event =
    Ev_Unreachable UnreachableEvent
  | Ev_Version VersionEvent
  | Ev_Height HeightEvent
  | Ev_InvalidHeight HeightEvent
  | Ev_BlockHeader BlockHeaderEvent
  | Ev_BaseTarget BaseTargetEvent
  | Ev_StateHash StateHashEvent

section \<open>Constructors\<close>

definition NewUnreachableEvent :: "string \<Rightarrow> int \<Rightarrow> UnreachableEvent" where
  "NewUnreachableEvent node ts = \<lparr>ue_node = node, ue_ts = ts\<rparr>"

definition NewVersionEvent :: "string \<Rightarrow> int \<Rightarrow> string \<Rightarrow> VersionEvent" where
  "NewVersionEvent node ts ver = \<lparr>ve_node = node, ve_ts = ts, ve_v = ver\<rparr>"

definition NewHeightEvent :: "string \<Rightarrow> int \<Rightarrow> string \<Rightarrow> uint64 \<Rightarrow> HeightEvent" where
  "NewHeightEvent node ts v height =
     VersionEvent.extend (NewVersionEvent node ts v) (HeightEvent.fields height)"

definition NewInvalidHeightEvent :: "string \<Rightarrow> int \<Rightarrow> string \<Rightarrow> uint64 \<Rightarrow> HeightEvent" where
  "NewInvalidHeightEvent node ts v height = NewHeightEvent node ts v height"

definition NewBlockHeaderEvent ::
    "string \<Rightarrow> int \<Rightarrow> string \<Rightarrow> uint64 \<Rightarrow> BlockID option \<Rightarrow> WavesAddress option \<Rightarrow> bool \<Rightarrow> BlockHeaderEvent" where
  "NewBlockHeaderEvent node ts v h blockID generator challenged =
     HeightEvent.extend (NewHeightEvent node ts v h) (BlockHeaderEvent.fields blockID generator challenged)"

definition NewBaseTargetEvent ::
    "string \<Rightarrow> int \<Rightarrow> string \<Rightarrow> uint64 \<Rightarrow> uint64 \<Rightarrow> BlockID option \<Rightarrow> WavesAddress option \<Rightarrow> bool \<Rightarrow> BaseTargetEvent" where
  "NewBaseTargetEvent node ts v h bt blockID generator challenged =
     BlockHeaderEvent.extend (NewBlockHeaderEvent node ts v h blockID generator challenged)
       (BaseTargetEvent.fields bt)"

definition NewStateHashEvent ::
    "string \<Rightarrow> int \<Rightarrow> string \<Rightarrow> uint64 \<Rightarrow> StateHash option \<Rightarrow> uint64 \<Rightarrow> BlockID option \<Rightarrow> WavesAddress option \<Rightarrow> bool \<Rightarrow>
     StateHashEvent" where
  "NewStateHashEvent node ts v h sh bt blockID generator challenged =
     BaseTargetEvent.extend (NewBaseTargetEvent node ts v h bt blockID generator challenged)
       (StateHashEvent.fields sh)"

section \<open>Statements\<close>

definition UnreachableEvent_Statement :: "UnreachableEvent \<Rightarrow> NodeStatement" where
  "UnreachableEvent_Statement e =
     zeroStatement\<lparr>st_Node := ue_node e, st_Timestamp := ue_ts e, st_Status := Unreachable,
       st_Height := UndefinedHeight\<rparr>"

definition VersionEvent_Statement :: "'a VersionEvent_scheme \<Rightarrow> NodeStatement" where
  "VersionEvent_Statement e =
     zeroStatement\<lparr>st_Node := ve_node e, st_Timestamp := ve_ts e, st_Status := Incomplete,
       st_Version := ve_v e, st_Height := UndefinedHeight\<rparr>"

definition HeightEvent_Statement :: "'a HeightEvent_scheme \<Rightarrow> NodeStatement" where
  "HeightEvent_Statement e =
     (VersionEvent_Statement e)\<lparr>st_Status := Incomplete, st_Height := he_h e\<rparr>"

definition InvalidHeightEvent_Statement :: "HeightEvent \<Rightarrow> NodeStatement" where
  "InvalidHeightEvent_Statement e = (HeightEvent_Statement e)\<lparr>st_Status := InvalidHeight\<rparr>"

definition BlockHeaderEvent_Statement :: "'a BlockHeaderEvent_scheme \<Rightarrow> NodeStatement" where
  "BlockHeaderEvent_Statement e =
     (HeightEvent_Statement e)\<lparr>st_Status := Incomplete, st_BlockID := bh_blockID e,
       st_Generator := bh_generator e, st_Challenged := bh_challenged e\<rparr>"

definition BaseTargetEvent_Statement :: "'a BaseTargetEvent_scheme \<Rightarrow> NodeStatement" where
  "BaseTargetEvent_Statement e =
     (BlockHeaderEvent_Statement e)\<lparr>st_Status := Incomplete, st_BaseTarget := bt_bs e\<rparr>"

definition StateHashEvent_Statement :: "StateHashEvent \<Rightarrow> NodeStatement" where
  "StateHashEvent_Statement e =
     (BaseTargetEvent_Statement e)\<lparr>st_Status := OK, st_StateHash := she_sh e\<rparr>"

section \<open>The interface \<open>Event\<close>\<close>

fun Event_Node :: "Event \<Rightarrow> string" where
  "Event_Node (Ev_Unreachable e) = ue_node e"
| "Event_Node (Ev_Version e) = ve_node e"
| "Event_Node (Ev_Height e) = ve_node e"
| "Event_Node (Ev_InvalidHeight e) = ve_node e"
| "Event_Node (Ev_BlockHeader e) = ve_node e"
| "Event_Node (Ev_BaseTarget e) = ve_node e"
| "Event_Node (Ev_StateHash e) = ve_node e"

fun Event_Timestamp :: "Event \<Rightarrow> int" where
  "Event_Timestamp (Ev_Unreachable e) = ue_ts e"
| "Event_Timestamp (Ev_Version e) = ve_ts e"
| "Event_Timestamp (Ev_Height e) = ve_ts e"
| "Event_Timestamp (Ev_InvalidHeight e) = ve_ts e"
| "Event_Timestamp (Ev_BlockHeader e) = ve_ts e"
| "Event_Timestamp (Ev_BaseTarget e) = ve_ts e"
| "Event_Timestamp (Ev_StateHash e) = ve_ts e"

fun Event_Height :: "Event \<Rightarrow> uint64" where
  "Event_Height (Ev_Unreachable e) = UndefinedHeight"
| "Event_Height (Ev_Version e) = UndefinedHeight"
| "Event_Height (Ev_Height e) = he_h e"
| "Event_Height (Ev_InvalidHeight e) = he_h e"
| "Event_Height (Ev_BlockHeader e) = he_h e"
| "Event_Height (Ev_BaseTarget e) = he_h e"
| "Event_Height (Ev_StateHash e) = he_h e"

fun Event_Statement :: "Event \<Rightarrow> NodeStatement" where
  "Event_Statement (Ev_Unreachable e) = UnreachableEvent_Statement e"
| "Event_Statement (Ev_Version e) = VersionEvent_Statement e"
| "Event_Statement (Ev_Height e) = HeightEvent_Statement e"
| "Event_Statement (Ev_InvalidHeight e) = InvalidHeightEvent_Statement e"
| "Event_Statement (Ev_BlockHeader e) = BlockHeaderEvent_Statement e"
| "Event_Statement (Ev_BaseTarget e) = BaseTargetEvent_Statement e"
| "Event_Statement (Ev_StateHash e) = StateHashEvent_Statement e"

text \<open>\<open>WithTimestamp\<close> copies the struct and sets the copy's timestamp.\<close>

definition UnreachableEvent_WithTimestamp :: "UnreachableEvent \<Rightarrow> int \<Rightarrow> UnreachableEvent" where
  [simp]: "UnreachableEvent_WithTimestamp e ts = e\<lparr>ue_ts := ts\<rparr>"

definition VersionEvent_WithTimestamp :: "VersionEvent \<Rightarrow> int \<Rightarrow> VersionEvent" where
  [simp]: "VersionEvent_WithTimestamp e ts = e\<lparr>ve_ts := ts\<rparr>"

definition HeightEvent_WithTimestamp :: "HeightEvent \<Rightarrow> int \<Rightarrow> HeightEvent" where
  [simp]: "HeightEvent_WithTimestamp e ts = e\<lparr>ve_ts := ts\<rparr>"

definition InvalidHeightEvent_WithTimestamp :: "HeightEvent \<Rightarrow> int \<Rightarrow> HeightEvent" where
  [simp]: "InvalidHeightEvent_WithTimestamp e ts = e\<lparr>ve_ts := ts\<rparr>"

definition BlockHeaderEvent_WithTimestamp :: "BlockHeaderEvent \<Rightarrow> int \<Rightarrow> BlockHeaderEvent" where
  [simp]: "BlockHeaderEvent_WithTimestamp e ts = e\<lparr>ve_ts := ts\<rparr>"

definition BaseTargetEvent_WithTimestamp :: "BaseTargetEvent \<Rightarrow> int \<Rightarrow> BaseTargetEvent" where
  [simp]: "BaseTargetEvent_WithTimestamp e ts = e\<lparr>ve_ts := ts\<rparr>"

definition StateHashEvent_WithTimestamp :: "StateHashEvent \<Rightarrow> int \<Rightarrow> StateHashEvent" where
  [simp]: "StateHashEvent_WithTimestamp e ts = e\<lparr>ve_ts := ts\<rparr>"

fun Event_WithTimestamp :: "Event \<Rightarrow> int \<Rightarrow> Event" where
  "Event_WithTimestamp (Ev_Unreachable e) ts = Ev_Unreachable (UnreachableEvent_WithTimestamp e ts)"
| "Event_WithTimestamp (Ev_Version e) ts = Ev_Version (VersionEvent_WithTimestamp e ts)"
| "Event_WithTimestamp (Ev_Height e) ts = Ev_Height (HeightEvent_WithTimestamp e ts)"
| "Event_WithTimestamp (Ev_InvalidHeight e) ts = Ev_InvalidHeight (InvalidHeightEvent_WithTimestamp e ts)"
| "Event_WithTimestamp (Ev_BlockHeader e) ts = Ev_BlockHeader (BlockHeaderEvent_WithTimestamp e ts)"
| "Event_WithTimestamp (Ev_BaseTarget e) ts = Ev_BaseTarget (BaseTargetEvent_WithTimestamp e ts)"
| "Event_WithTimestamp (Ev_StateHash e) ts = Ev_StateHash (StateHashEvent_WithTimestamp e ts)"

lemmas Statement_defs =
  UnreachableEvent_Statement_def VersionEvent_Statement_def HeightEvent_Statement_def
  InvalidHeightEvent_Statement_def BlockHeaderEvent_Statement_def BaseTargetEvent_Statement_def
  StateHashEvent_Statement_def zeroStatement_def

lemmas New_event_defs =
  NewUnreachableEvent_def NewVersionEvent_def NewHeightEvent_def NewInvalidHeightEvent_def
  NewBlockHeaderEvent_def NewBaseTargetEvent_def NewStateHashEvent_def
  VersionEvent.defs HeightEvent.defs BlockHeaderEvent.defs BaseTargetEvent.defs StateHashEvent.defs

section \<open>The contract of \<open>EventProducerWithTimestamp\<close>\<close>

text \<open>
  What the private nodes handler relies on: restamping keeps the node and the rest of the
  statement, sets the timestamp, and the last restamping wins; the statement of an event
  carries the event's own node, timestamp and height.
\<close>

locale event_producer =
  fixes node :: "'e \<Rightarrow> string"
    and timestamp :: "'e \<Rightarrow> int"
    and height :: "'e \<Rightarrow> uint64"
    and statement :: "'e \<Rightarrow> NodeStatement"
    and with_ts :: "'e \<Rightarrow> int \<Rightarrow> 'e"
  assumes statement_node: "st_Node (statement e) = node e"
    and statement_ts: "st_Timestamp (statement e) = timestamp e"
    and statement_height: "st_Height (statement e) = height e"
    and with_ts_statement: "statement (with_ts e t) = (statement e)\<lparr>st_Timestamp := t\<rparr>"
    and with_ts_twice: "with_ts (with_ts e t) t' = with_ts e t'"
begin

lemma with_ts_node: "node (with_ts e t) = node e"
  by (metis statement_node with_ts_statement NodeStatement.select_convs(1) NodeStatement.surjective
      NodeStatement.update_convs(2))

lemma with_ts_timestamp: "timestamp (with_ts e t) = t"
  by (metis statement_ts with_ts_statement NodeStatement.select_convs(2) NodeStatement.surjective
      NodeStatement.update_convs(2))

lemma with_ts_height: "height (with_ts e t) = height e"
  by (metis statement_height with_ts_statement NodeStatement.select_convs(5) NodeStatement.surjective
      NodeStatement.update_convs(2))

end

interpretation event: event_producer Event_Node Event_Timestamp Event_Height Event_Statement Event_WithTimestamp
proof unfold_locales
  fix e :: Event and t t' :: int
  show "st_Node (Event_Statement e) = Event_Node e" by (cases e) (simp_all add: Statement_defs)
  show "st_Timestamp (Event_Statement e) = Event_Timestamp e" by (cases e) (simp_all add: Statement_defs)
  show "st_Height (Event_Statement e) = Event_Height e" by (cases e) (simp_all add: Statement_defs)
  show "Event_Statement (Event_WithTimestamp e t) = (Event_Statement e)\<lparr>st_Timestamp := t\<rparr>"
    by (cases e) (simp_all add: Statement_defs)
  show "Event_WithTimestamp (Event_WithTimestamp e t) t' = Event_WithTimestamp e t'" by (cases e) simp_all
qed

text \<open>Only a state hash event gives an \<open>OK\<close> statement, the only one that has a state hash.\<close>

lemma OK_statement_iff: "st_Status (Event_Statement e) = OK \<longleftrightarrow> (\<exists>s. e = Ev_StateHash s)"
  by (cases e) (simp_all add: Statement_defs)

end
