(* ===== verification/Alerts.thy ===== *)
theory Alerts
  imports Events
begin

text \<open>
  \<open>pkg/entities/alerts.go\<close>: alert types and names, the alert structs, and their methods. The
  method set of an alert is a record of its results, as an interface value carries its
  method table; \<open>Alert_methods\<close> dispatches on the dynamic type. \<open>time.Unix\<close> is the identity on
  seconds. The hash of the alert ids is the parameter \<open>FastHash gw\<close>.
\<close>

section \<open>Alert types and names\<close>

type_synonym AlertType = "8 word"
type_synonym AlertName = string

definition SimpleAlertType :: AlertType where "SimpleAlertType = 1"
definition UnreachableAlertType :: AlertType where "UnreachableAlertType = 2"
definition IncompleteAlertType :: AlertType where "IncompleteAlertType = 3"
definition InvalidHeightAlertType :: AlertType where "InvalidHeightAlertType = 4"
definition HeightAlertType :: AlertType where "HeightAlertType = 5"
definition StateHashAlertType :: AlertType where "StateHashAlertType = 6"
definition AlertFixedType :: AlertType where "AlertFixedType = 7"
definition BaseTargetAlertType :: AlertType where "BaseTargetAlertType = 8"
definition InternalErrorAlertType :: AlertType where "InternalErrorAlertType = 9"
definition ChallengedBlockAlertType :: AlertType where "ChallengedBlockAlertType = 10"
definition L2StuckAlertType :: AlertType where "L2StuckAlertType = 11"

lemmas AlertType_defs =
  SimpleAlertType_def UnreachableAlertType_def IncompleteAlertType_def InvalidHeightAlertType_def
  HeightAlertType_def StateHashAlertType_def AlertFixedType_def BaseTargetAlertType_def
  InternalErrorAlertType_def ChallengedBlockAlertType_def L2StuckAlertType_def

definition SimpleAlertName :: AlertName where "SimpleAlertName = ''SimpleAlert''"
definition UnreachableAlertName :: AlertName where "UnreachableAlertName = ''UnreachableAlert''"
definition IncompleteAlertName :: AlertName where "IncompleteAlertName = ''IncompleteAlert''"
definition InvalidHeightAlertName :: AlertName where "InvalidHeightAlertName = ''InvalidHeightAlert''"
definition HeightAlertName :: AlertName where "HeightAlertName = ''HeightAlert''"
definition StateHashAlertName :: AlertName where "StateHashAlertName = ''StateHashAlert''"
definition AlertFixedName :: AlertName where "AlertFixedName = ''Resolved''"
definition BaseTargetAlertName :: AlertName where "BaseTargetAlertName = ''BaseTargetAlert''"
definition InternalErrorName :: AlertName where "InternalErrorName = ''InternalErrorAlert''"
definition ChallengedBlockAlertName :: AlertName where "ChallengedBlockAlertName = ''ChallengedBlockAlert''"
definition L2StuckAlertName :: AlertName where "L2StuckAlertName = ''L2StuckAlert''"

lemmas AlertName_defs =
  SimpleAlertName_def UnreachableAlertName_def IncompleteAlertName_def InvalidHeightAlertName_def
  HeightAlertName_def StateHashAlertName_def AlertFixedName_def BaseTargetAlertName_def
  InternalErrorName_def ChallengedBlockAlertName_def L2StuckAlertName_def

definition GetAllAlertTypesAndNames :: "(AlertType, AlertName) gomap" where
  "GetAllAlertTypesAndNames =
     [SimpleAlertType \<mapsto> SimpleAlertName,
      UnreachableAlertType \<mapsto> UnreachableAlertName,
      IncompleteAlertType \<mapsto> IncompleteAlertName,
      InvalidHeightAlertType \<mapsto> InvalidHeightAlertName,
      HeightAlertType \<mapsto> HeightAlertName,
      StateHashAlertType \<mapsto> StateHashAlertName,
      AlertFixedType \<mapsto> AlertFixedName,
      BaseTargetAlertType \<mapsto> BaseTargetAlertName,
      InternalErrorAlertType \<mapsto> InternalErrorName,
      ChallengedBlockAlertType \<mapsto> ChallengedBlockAlertName,
      L2StuckAlertType \<mapsto> L2StuckAlertName]"

text \<open>The comma-ok result \<open>(name, ok)\<close> is an option.\<close>

definition AlertType_AlertName :: "AlertType \<Rightarrow> AlertName option" where
  "AlertType_AlertName t =
     (if t = SimpleAlertType then Some SimpleAlertName
      else if t = UnreachableAlertType then Some UnreachableAlertName
      else if t = IncompleteAlertType then Some IncompleteAlertName
      else if t = InvalidHeightAlertType then Some InvalidHeightAlertName
      else if t = HeightAlertType then Some HeightAlertName
      else if t = StateHashAlertType then Some StateHashAlertName
      else if t = AlertFixedType then Some AlertFixedName
      else if t = BaseTargetAlertType then Some BaseTargetAlertName
      else if t = InternalErrorAlertType then Some InternalErrorName
      else if t = ChallengedBlockAlertType then Some ChallengedBlockAlertName
      else if t = L2StuckAlertType then Some L2StuckAlertName
      else None)"

definition AlertType_Exist :: "AlertType \<Rightarrow> bool" where
  "AlertType_Exist t = (AlertType_AlertName t \<noteq> None)"

definition AlertName_AlertType :: "AlertName \<Rightarrow> AlertType option" where
  "AlertName_AlertType n =
     (if n = SimpleAlertName then Some SimpleAlertType
      else if n = UnreachableAlertName then Some UnreachableAlertType
      else if n = IncompleteAlertName then Some IncompleteAlertType
      else if n = InvalidHeightAlertName then Some InvalidHeightAlertType
      else if n = HeightAlertName then Some HeightAlertType
      else if n = StateHashAlertName then Some StateHashAlertType
      else if n = AlertFixedName then Some AlertFixedType
      else if n = BaseTargetAlertName then Some BaseTargetAlertType
      else if n = InternalErrorName then Some InternalErrorAlertType
      else if n = ChallengedBlockAlertName then Some ChallengedBlockAlertType
      else if n = L2StuckAlertName then Some L2StuckAlertType
      else None)"

lemma AlertType_cases:
  assumes "AlertType_AlertName t = Some n"
  shows "(t, n) \<in> {(SimpleAlertType, SimpleAlertName), (UnreachableAlertType, UnreachableAlertName),
     (IncompleteAlertType, IncompleteAlertName), (InvalidHeightAlertType, InvalidHeightAlertName),
     (HeightAlertType, HeightAlertName), (StateHashAlertType, StateHashAlertName),
     (AlertFixedType, AlertFixedName), (BaseTargetAlertType, BaseTargetAlertName),
     (InternalErrorAlertType, InternalErrorName), (ChallengedBlockAlertType, ChallengedBlockAlertName),
     (L2StuckAlertType, L2StuckAlertName)}"
  using assms by (auto simp: AlertType_AlertName_def split: if_splits)

lemma AlertName_cases:
  assumes "AlertName_AlertType n = Some t"
  shows "(t, n) \<in> {(SimpleAlertType, SimpleAlertName), (UnreachableAlertType, UnreachableAlertName),
     (IncompleteAlertType, IncompleteAlertName), (InvalidHeightAlertType, InvalidHeightAlertName),
     (HeightAlertType, HeightAlertName), (StateHashAlertType, StateHashAlertName),
     (AlertFixedType, AlertFixedName), (BaseTargetAlertType, BaseTargetAlertName),
     (InternalErrorAlertType, InternalErrorName), (ChallengedBlockAlertType, ChallengedBlockAlertName),
     (L2StuckAlertType, L2StuckAlertName)}"
  using assms by (auto simp: AlertName_AlertType_def split: if_splits)

lemma AlertType_name_iff: "AlertType_AlertName t = Some n \<longleftrightarrow> AlertName_AlertType n = Some t"
proof
  assume "AlertType_AlertName t = Some n"
  from AlertType_cases [OF this] show "AlertName_AlertType n = Some t"
    by (simp only: insert_iff empty_iff prod.inject)
       (elim disjE conjE FalseE; simp add: AlertName_AlertType_def AlertName_defs)
next
  assume "AlertName_AlertType n = Some t"
  from AlertName_cases [OF this] show "AlertType_AlertName t = Some n"
    by (simp only: insert_iff empty_iff prod.inject)
       (elim disjE conjE FalseE; simp add: AlertType_AlertName_def AlertType_defs)
qed

lemma GetAllAlertTypesAndNames_eq: "GetAllAlertTypesAndNames t = AlertType_AlertName t"
  by (simp add: GetAllAlertTypesAndNames_def AlertType_AlertName_def AlertType_defs)

section \<open>The alert structs\<close>

record SimpleAlert =
  sa_Timestamp :: int
  sa_Description :: string

record UnreachableAlert =
  ua_Timestamp :: int
  ua_Node :: string

record HeightGroup =
  hg_Height :: uint64
  hg_Nodes :: Nodes

record HeightAlert =
  ha_Timestamp :: int
  ha_MaxHeightGroup :: HeightGroup
  ha_OtherHeightGroup :: HeightGroup

record StateHashGroup =
  shg_Nodes :: Nodes
  shg_StateHash :: StateHash

record StateHashAlert =
  sha_Timestamp :: int
  sha_CurrentGroupsBucketHeight :: uint64
  sha_LastCommonStateHashExist :: bool
  sha_LastCommonStateHashHeight :: uint64
  sha_LastCommonStateHash :: StateHash
  sha_FirstGroup :: StateHashGroup
  sha_SecondGroup :: StateHashGroup

record BaseTargetValue =
  btv_Node :: string
  btv_BaseTarget :: uint64

record BaseTargetAlert =
  bta_Timestamp :: int
  bta_BaseTargetValues :: "BaseTargetValue list"
  bta_Threshold :: uint64

record InternalErrorAlert =
  iea_Timestamp :: int
  iea_Error :: string

record ChallengedBlockAlert =
  cba_Timestamp :: int
  cba_BlockID :: BlockID
  cba_Nodes :: Nodes

record L2StuckAlert =
  l2_L2Height :: uint64
  l2_L2Node :: string
  l2_Timestamp :: int

text \<open>
  The interface \<open>Alert\<close>: a value of one of the eleven struct types. \<open>IncompleteAlert\<close> and
  \<open>InvalidHeightAlert\<close> embed a node statement and add nothing.
\<close>

datatype Alert =
    A_Simple SimpleAlert
  | A_Unreachable UnreachableAlert
  | A_Incomplete NodeStatement
  | A_InvalidHeight NodeStatement
  | A_Height HeightAlert
  | A_StateHash StateHashAlert
  | A_Fixed int Alert
  | A_BaseTarget BaseTargetAlert
  | A_InternalError InternalErrorAlert
  | A_ChallengedBlock ChallengedBlockAlert
  | A_L2Stuck L2StuckAlert

definition NewSimpleAlert :: "int \<Rightarrow> string \<Rightarrow> SimpleAlert" where
  "NewSimpleAlert timestamp description = \<lparr>sa_Timestamp = timestamp, sa_Description = description\<rparr>"

text \<open>\<open>fmt.Sprintf("%v", err)\<close> for the messages of \<open>github.com/pkg/errors\<close> and joined errors.\<close>

fun sentinel_text :: "sentinel \<Rightarrow> string" where
  "sentinel_text ErrNotFound = ''not found''"
| "sentinel_text ErrNoFullStatement = ''no full statement''"
| "sentinel_text ErrBigHeightDifference = ''The height difference between nodes is more than 10''"
| "sentinel_text ErrStorageIsNotReady = ''The storage has not collected enough statements for status''"
| "sentinel_text ErrNoCommonBlocks = ''no common blocks''"
| "sentinel_text ErrLinearNotFound = ''not found''"
| "sentinel_text ErrInsufficientPermissions = ''insufficient permissions''"
| "sentinel_text ErrIncorrectURL = ''incorrect url''"
| "sentinel_text ErrInvalidParameters = ''invalid parameters''"
| "sentinel_text ErrServerClosed = ''http: Server closed''"

fun Error :: "error \<Rightarrow> string" where
  "Error (Sentinel s) = sentinel_text s"
| "Error (Errorf m) = m"
| "Error (Wrap m e) = m @ '': '' @ Error e"
| "Error (Join es) = strings_Join (map Error es) newline"
| "Error (Panic m) = m"

definition NewInternalErrorAlert :: "int \<Rightarrow> error \<Rightarrow> InternalErrorAlert" where
  "NewInternalErrorAlert timestamp err = \<lparr>iea_Timestamp = timestamp, iea_Error = Error err\<rparr>"

definition NewL2StuckAlert :: "int \<Rightarrow> uint64 \<Rightarrow> string \<Rightarrow> L2StuckAlert" where
  "NewL2StuckAlert timestamp l2Height l2Node =
     \<lparr>l2_L2Height = l2Height, l2_L2Node = l2Node, l2_Timestamp = timestamp\<rparr>"

section \<open>Methods\<close>

definition InfoLevel :: string where "InfoLevel = ''Info''"
definition WarnLevel :: string where "WarnLevel = ''Warning''"
definition ErrorLevel :: string where "ErrorLevel = ''Error''"

record AlertMethods =
  m_Name :: AlertName
  m_ID :: Digest
  m_Message :: string
  m_Time :: int
  m_Type :: AlertType
  m_Level :: string

definition SimpleAlert_methods :: "gowaves \<Rightarrow> SimpleAlert \<Rightarrow> AlertMethods" where
  "SimpleAlert_methods gw a =
     \<lparr>m_Name = SimpleAlertName,
      m_ID = FastHash gw (SimpleAlertName @ sa_Description a),
      m_Message = sa_Description a,
      m_Time = sa_Timestamp a, m_Type = SimpleAlertType, m_Level = InfoLevel\<rparr>"

definition UnreachableAlert_methods :: "gowaves \<Rightarrow> UnreachableAlert \<Rightarrow> AlertMethods" where
  "UnreachableAlert_methods gw a =
     \<lparr>m_Name = UnreachableAlertName,
      m_ID = FastHash gw (UnreachableAlertName @ ua_Node a),
      m_Message = ''Node '' @ ua_Node a @ '' is unreachable'',
      m_Time = ua_Timestamp a, m_Type = UnreachableAlertType, m_Level = ErrorLevel\<rparr>"

definition IncompleteAlert_methods :: "gowaves \<Rightarrow> NodeStatement \<Rightarrow> AlertMethods" where
  "IncompleteAlert_methods gw a =
     \<lparr>m_Name = IncompleteAlertName,
      m_ID = FastHash gw (IncompleteAlertName @ st_Node a),
      m_Message = ''Node '' @ Quote (st_Node a) @ '' ('' @ st_Version a @
        '') has incomplete statement info at height '' @ FormatUint (st_Height a),
      m_Time = st_Timestamp a, m_Type = IncompleteAlertType, m_Level = ErrorLevel\<rparr>"

definition InvalidHeightAlert_methods :: "gowaves \<Rightarrow> NodeStatement \<Rightarrow> AlertMethods" where
  "InvalidHeightAlert_methods gw a =
     \<lparr>m_Name = InvalidHeightAlertName,
      m_ID = FastHash gw (InvalidHeightAlertName @ st_Node a),
      m_Message = ''Node '' @ Quote (st_Node a) @ '' ('' @ st_Version a @ '') has invalid height '' @
        FormatUint (st_Height a),
      m_Time = st_Timestamp a, m_Type = InvalidHeightAlertType, m_Level = ErrorLevel\<rparr>"

definition HeightAlert_methods :: "gowaves \<Rightarrow> HeightAlert \<Rightarrow> AlertMethods" where
  "HeightAlert_methods gw a =
     \<lparr>m_Name = HeightAlertName,
      m_ID = FastHash gw (HeightAlertName @ concat (hg_Nodes (ha_OtherHeightGroup a))),
      m_Message = ''Some node(s) are '' @
        FormatUint (hg_Height (ha_MaxHeightGroup a) - hg_Height (ha_OtherHeightGroup a)) @
        '' blocks behind'' @ newline @ newline @
        ''First group with height '' @ FormatUint (hg_Height (ha_MaxHeightGroup a)) @ '':'' @ newline @
        strings_Join (hg_Nodes (ha_MaxHeightGroup a)) newline @ newline @ newline @
        ''Second group with height '' @ FormatUint (hg_Height (ha_OtherHeightGroup a)) @ '':'' @ newline @
        strings_Join (hg_Nodes (ha_OtherHeightGroup a)) newline,
      m_Time = ha_Timestamp a, m_Type = HeightAlertType, m_Level = ErrorLevel\<rparr>"

definition StateHashGroup_text :: "gowaves \<Rightarrow> string \<Rightarrow> StateHashGroup \<Rightarrow> string" where
  "StateHashGroup_text gw which g =
     which @ '' group has'' @ newline @
     ''BlockID: '' @ BlockID_String gw (sh_BlockID (shg_StateHash g)) @ newline @
     ''StateHash: '' @ Digest_Hex gw (sh_SumHash (shg_StateHash g)) @ newline @ newline @
     strings_Join (shg_Nodes g) newline"

definition StateHashAlert_Message :: "gowaves \<Rightarrow> StateHashAlert \<Rightarrow> string" where
  "StateHashAlert_Message gw a =
     ''Nodes have different statehashes at the same height '' @
       FormatUint (sha_CurrentGroupsBucketHeight a) @ newline @ newline @
     StateHashGroup_text gw ''First'' (sha_FirstGroup a) @ newline @ newline @ newline @
     StateHashGroup_text gw ''Second'' (sha_SecondGroup a) @
     (if sha_LastCommonStateHashExist a then
        newline @ newline @ newline @
        ''Fork occured after block '' @ FormatUint (sha_LastCommonStateHashHeight a) @ newline @
        ''Block ID: '' @ BlockID_String gw (sh_BlockID (sha_LastCommonStateHash a)) @ newline @
        ''Statehash: '' @ Digest_Hex gw (sh_SumHash (sha_LastCommonStateHash a))
      else [])"

definition StateHashAlert_methods :: "gowaves \<Rightarrow> StateHashAlert \<Rightarrow> AlertMethods" where
  "StateHashAlert_methods gw a =
     \<lparr>m_Name = StateHashAlertName,
      m_ID = FastHash gw (StateHashAlertName @
        (if sha_LastCommonStateHashExist a then
           FormatUint (sha_LastCommonStateHashHeight a) @
           Digest_String gw (sh_SumHash (sha_LastCommonStateHash a))
         else []) @
        concat (shg_Nodes (sha_FirstGroup a)) @ concat (shg_Nodes (sha_SecondGroup a))),
      m_Message = StateHashAlert_Message gw a,
      m_Time = sha_Timestamp a, m_Type = StateHashAlertType, m_Level = ErrorLevel\<rparr>"

text \<open>\<open>AlertFixed\<close> calls methods of the alert it holds: \<open>f\<close> is that alert's method table.\<close>

definition AlertFixed_methods :: "gowaves \<Rightarrow> int \<Rightarrow> AlertMethods \<Rightarrow> AlertMethods" where
  "AlertFixed_methods gw timestamp f =
     \<lparr>m_Name = AlertFixedName,
      m_ID = FastHash gw (AlertFixedName @ Digest_String gw (m_ID f)),
      m_Message = ''Alert has been fixed: '' @ m_Message f,
      m_Time = timestamp, m_Type = AlertFixedType, m_Level = InfoLevel\<rparr>"

definition BaseTargetAlert_methods :: "gowaves \<Rightarrow> BaseTargetAlert \<Rightarrow> AlertMethods" where
  "BaseTargetAlert_methods gw a =
     \<lparr>m_Name = BaseTargetAlertName,
      m_ID = FastHash gw (BaseTargetAlertName @ concat (map btv_Node (bta_BaseTargetValues a))),
      m_Message = ''Base target is greater than the threshold value. The threshold value is '' @
        FormatUint (bta_Threshold a) @ newline @ newline @
        concat (map (\<lambda>b. ''Node '' @ btv_Node b @ newline @ ''Base target: '' @
          FormatUint (btv_BaseTarget b) @ newline @ newline) (bta_BaseTargetValues a)),
      m_Time = bta_Timestamp a, m_Type = BaseTargetAlertType, m_Level = ErrorLevel\<rparr>"

definition InternalErrorAlert_methods :: "gowaves \<Rightarrow> InternalErrorAlert \<Rightarrow> AlertMethods" where
  "InternalErrorAlert_methods gw a =
     \<lparr>m_Name = InternalErrorName,
      m_ID = FastHash gw (InternalErrorName @ iea_Error a),
      m_Message = ''An internal error has occurred: '' @ iea_Error a,
      m_Time = iea_Timestamp a, m_Type = InternalErrorAlertType, m_Level = WarnLevel\<rparr>"

definition ChallengedBlockAlert_methods :: "gowaves \<Rightarrow> ChallengedBlockAlert \<Rightarrow> AlertMethods" where
  "ChallengedBlockAlert_methods gw c =
     \<lparr>m_Name = ChallengedBlockAlertName,
      m_ID = FastHash gw (ChallengedBlockAlertName @ BlockID_String gw (cba_BlockID c)),
      m_Message = ''Challenged block '' @ BlockID_String gw (cba_BlockID c) @
        '' is detected on nodes:'' @ newline @ strings_Join (cba_Nodes c) newline,
      m_Time = cba_Timestamp c, m_Type = ChallengedBlockAlertType, m_Level = WarnLevel\<rparr>"

definition L2StuckAlert_methods :: "gowaves \<Rightarrow> L2StuckAlert \<Rightarrow> AlertMethods" where
  "L2StuckAlert_methods gw a =
     \<lparr>m_Name = L2StuckAlertName,
      m_ID = FastHash gw (L2StuckAlertName @ l2_L2Node a @ FormatUint (l2_L2Height a)),
      m_Message = ''Node '' @ l2_L2Node a @ '' is at the same height for more than 5 minutes'',
      m_Time = l2_Timestamp a, m_Type = L2StuckAlertType, m_Level = ErrorLevel\<rparr>"

fun Alert_methods :: "gowaves \<Rightarrow> Alert \<Rightarrow> AlertMethods" where
  "Alert_methods gw (A_Simple a) = SimpleAlert_methods gw a"
| "Alert_methods gw (A_Unreachable a) = UnreachableAlert_methods gw a"
| "Alert_methods gw (A_Incomplete a) = IncompleteAlert_methods gw a"
| "Alert_methods gw (A_InvalidHeight a) = InvalidHeightAlert_methods gw a"
| "Alert_methods gw (A_Height a) = HeightAlert_methods gw a"
| "Alert_methods gw (A_StateHash a) = StateHashAlert_methods gw a"
| "Alert_methods gw (A_Fixed ts f) = AlertFixed_methods gw ts (Alert_methods gw f)"
| "Alert_methods gw (A_BaseTarget a) = BaseTargetAlert_methods gw a"
| "Alert_methods gw (A_InternalError a) = InternalErrorAlert_methods gw a"
| "Alert_methods gw (A_ChallengedBlock a) = ChallengedBlockAlert_methods gw a"
| "Alert_methods gw (A_L2Stuck a) = L2StuckAlert_methods gw a"

lemmas Alert_methods_defs =
  SimpleAlert_methods_def UnreachableAlert_methods_def IncompleteAlert_methods_def
  InvalidHeightAlert_methods_def HeightAlert_methods_def StateHashAlert_methods_def
  AlertFixed_methods_def BaseTargetAlert_methods_def InternalErrorAlert_methods_def
  ChallengedBlockAlert_methods_def L2StuckAlert_methods_def

abbreviation Alert_ID :: "gowaves \<Rightarrow> Alert \<Rightarrow> Digest" where
  "Alert_ID gw a \<equiv> m_ID (Alert_methods gw a)"

abbreviation Alert_Name :: "gowaves \<Rightarrow> Alert \<Rightarrow> AlertName" where
  "Alert_Name gw a \<equiv> m_Name (Alert_methods gw a)"

text \<open>The type does not depend on the library: \<open>Alert_Type\<close> computes it alone.\<close>

fun Alert_Type :: "Alert \<Rightarrow> AlertType" where
  "Alert_Type (A_Simple _) = SimpleAlertType"
| "Alert_Type (A_Unreachable _) = UnreachableAlertType"
| "Alert_Type (A_Incomplete _) = IncompleteAlertType"
| "Alert_Type (A_InvalidHeight _) = InvalidHeightAlertType"
| "Alert_Type (A_Height _) = HeightAlertType"
| "Alert_Type (A_StateHash _) = StateHashAlertType"
| "Alert_Type (A_Fixed _ _) = AlertFixedType"
| "Alert_Type (A_BaseTarget _) = BaseTargetAlertType"
| "Alert_Type (A_InternalError _) = InternalErrorAlertType"
| "Alert_Type (A_ChallengedBlock _) = ChallengedBlockAlertType"
| "Alert_Type (A_L2Stuck _) = L2StuckAlertType"

lemma m_Type_Alert_Type [simp]: "m_Type (Alert_methods gw a) = Alert_Type a"
  by (cases a) (simp_all add: Alert_methods_defs)

lemma Alert_Type_Name: "AlertType_AlertName (Alert_Type a) = Some (Alert_Name gw a)"
  by (cases a) (simp_all add: Alert_methods_defs AlertType_AlertName_def AlertType_defs)

definition Alert_String :: "gowaves \<Rightarrow> Alert \<Rightarrow> string" where
  "Alert_String gw a = Alert_Name gw a @ '': '' @ m_Message (Alert_methods gw a)"

lemma Alert_Level_known: "m_Level (Alert_methods gw a) \<in> {InfoLevel, WarnLevel, ErrorLevel}"
  by (cases a) (simp_all add: Alert_methods_defs)

end
