(* ===== verification/AlertsStorage.thy ===== *)
theory AlertsStorage
  imports Alerts
begin

text \<open>
  \<open>pkg/analysis/storage/alerts_storage.go\<close>: the storage that decides which alerts are sent. It
  holds per alert id a repeat counter, a backoff threshold and a vacuum quota. Part one
  translates the operations; part two states what a client of the storage relies on (locale
  \<open>alerts_store\<close>); part three shows that the storage is a product of independent cells, one
  per alert id, and derives confirmation, backoff and expiry from the single cell.
\<close>

section \<open>State\<close>

definition DefaultAlertVacuumQuota :: int where "DefaultAlertVacuumQuota = 5"
definition DefaultAlertBackoff :: int where "DefaultAlertBackoff = 2"

record alertInfo =
  ai_vacuumQuota :: int
  ai_repeats :: int
  ai_backoffThreshold :: int
  ai_confirmed :: bool
  ai_alert :: "Alert option"

text \<open>The zero value, which reading a missing key of the map yields: its alert is nil.\<close>

definition zeroAlertInfo :: alertInfo where
  "zeroAlertInfo =
     \<lparr>ai_vacuumQuota = 0, ai_repeats = 0, ai_backoffThreshold = 0, ai_confirmed = False, ai_alert = None\<rparr>"

type_synonym alertConfirmations = "(AlertType, int) gomap"

record AlertConfirmationsValue =
  ac_AlertType :: AlertType
  ac_Confirmations :: int

record AlertsStorage =
  as_alertBackoff :: int
  as_alertVacuumQuota :: int
  as_requiredConfirmations :: alertConfirmations
  as_internalStorage :: "(Digest, alertInfo) gomap"

section \<open>Construction\<close>

definition newAlertConfirmations :: "AlertConfirmationsValue list \<Rightarrow> alertConfirmations" where
  "newAlertConfirmations ccs =
     fold (\<lambda>cc m. m(ac_AlertType cc \<mapsto> ac_Confirmations cc)) ccs (\<lambda>_. None)"

type_synonym AlertsStorageOption = "AlertsStorage \<Rightarrow> AlertsStorage"

definition AlertBackoff :: "int \<Rightarrow> AlertsStorageOption" where
  "AlertBackoff backoff s = s\<lparr>as_alertBackoff := backoff\<rparr>"

definition AlertVacuumQuota :: "int \<Rightarrow> AlertsStorageOption" where
  "AlertVacuumQuota quota s = s\<lparr>as_alertVacuumQuota := quota\<rparr>"

definition AlertConfirmations :: "AlertConfirmationsValue list \<Rightarrow> AlertsStorageOption" where
  "AlertConfirmations confirmations s =
     s\<lparr>as_requiredConfirmations := newAlertConfirmations confirmations\<rparr>"

definition newAlertsStorage :: "int \<Rightarrow> int \<Rightarrow> alertConfirmations \<Rightarrow> AlertsStorage" where
  "newAlertsStorage alertBackoff alertVacuumQuota requiredConfirmations =
     \<lparr>as_alertBackoff = alertBackoff, as_alertVacuumQuota = alertVacuumQuota,
      as_requiredConfirmations = requiredConfirmations, as_internalStorage = (\<lambda>_. None)\<rparr>"

definition NewAlertsStorage :: "AlertsStorageOption list \<Rightarrow> AlertsStorage" where
  "NewAlertsStorage opts =
     fold (\<lambda>opt s. opt s) opts
       (newAlertsStorage DefaultAlertBackoff DefaultAlertVacuumQuota (newAlertConfirmations []))"

section \<open>Operations\<close>

definition PutAlert :: "gowaves \<Rightarrow> AlertsStorage \<Rightarrow> Alert \<Rightarrow> AlertsStorage \<times> bool" where
  "PutAlert gw s alert =
     (if as_alertVacuumQuota s \<le> 1 then (s, True)
      else
        let alertID = Alert_ID gw alert;
            old = map_get zeroAlertInfo (as_internalStorage s) alertID;
            repeats = wrap64 (ai_repeats old + 1);
            store = (\<lambda>info. s\<lparr>as_internalStorage := (as_internalStorage s)(alertID \<mapsto> info)\<rparr>)
        in
          if \<not> ai_confirmed old \<and> map_get 0 (as_requiredConfirmations s) (Alert_Type alert) \<le> repeats then
            (store \<lparr>ai_vacuumQuota = as_alertVacuumQuota s, ai_repeats = 1,
                    ai_backoffThreshold = as_alertBackoff s, ai_confirmed = True,
                    ai_alert = Some alert\<rparr>, True)
          else if ai_confirmed old \<and> ai_backoffThreshold old < repeats then
            (store \<lparr>ai_vacuumQuota = as_alertVacuumQuota s, ai_repeats = 1,
                    ai_backoffThreshold = wrap64 (as_alertBackoff s * ai_backoffThreshold old),
                    ai_confirmed = True, ai_alert = Some alert\<rparr>, True)
          else
            (store \<lparr>ai_vacuumQuota = as_alertVacuumQuota s, ai_repeats = repeats,
                    ai_backoffThreshold = ai_backoffThreshold old, ai_confirmed = ai_confirmed old,
                    ai_alert = Some alert\<rparr>, False))"

text \<open>
  The loop of \<open>Vacuum\<close> over the ids in the order \<open>ks\<close>. An entry of the map always holds an
  alert, so the list of fixed alerts, which in Go could hold a nil interface, is built with
  \<open>option\<close> entries and the invariant below shows that none is nil.
\<close>

fun Vacuum_loop ::
    "Digest list \<Rightarrow> (Digest, alertInfo) gomap \<Rightarrow> Alert option list \<Rightarrow>
     (Digest, alertInfo) gomap \<times> Alert option list" where
  "Vacuum_loop [] m fixed = (m, fixed)"
| "Vacuum_loop (i # ks) m fixed =
     (let info = map_get zeroAlertInfo m i;
          quota = wrap64 (ai_vacuumQuota info - 1);
          info' = info\<lparr>ai_vacuumQuota := quota\<rparr>
      in if quota \<le> 0
         then Vacuum_loop ks (m(i := None))
                (if ai_confirmed info' then fixed @ [ai_alert info'] else fixed)
         else Vacuum_loop ks (m(i \<mapsto> info')) fixed)"

definition Vacuum :: "Digest list \<Rightarrow> AlertsStorage \<Rightarrow> AlertsStorage \<times> Alert option list" where
  "Vacuum ks s =
     (let (m, fixed) = Vacuum_loop ks (as_internalStorage s) []
      in (s\<lparr>as_internalStorage := m\<rparr>, fixed))"

section \<open>One cell\<close>

text \<open>What happens to the entry of a single id.\<close>

type_synonym cell = "alertInfo option"

definition put_cell :: "AlertsStorage \<Rightarrow> cell \<Rightarrow> Alert \<Rightarrow> cell \<times> bool" where
  "put_cell s c alert =
     (let old = (case c of None \<Rightarrow> zeroAlertInfo | Some i \<Rightarrow> i);
          repeats = wrap64 (ai_repeats old + 1);
          confirm = (\<not> ai_confirmed old \<and>
            map_get 0 (as_requiredConfirmations s) (Alert_Type alert) \<le> repeats);
          again = (ai_confirmed old \<and> ai_backoffThreshold old < repeats)
      in if as_alertVacuumQuota s \<le> 1 then (c, True)
         else (Some \<lparr>ai_vacuumQuota = as_alertVacuumQuota s,
            ai_repeats = (if confirm \<or> again then 1 else repeats),
            ai_backoffThreshold =
              (if confirm then as_alertBackoff s
               else if again then wrap64 (as_alertBackoff s * ai_backoffThreshold old)
               else ai_backoffThreshold old),
            ai_confirmed = (confirm \<or> ai_confirmed old), ai_alert = Some alert\<rparr>,
            confirm \<or> again))"

definition vacuum_cell :: "cell \<Rightarrow> cell \<times> Alert option list" where
  "vacuum_cell c =
     (case c of
        None \<Rightarrow> (None, [])
      | Some i \<Rightarrow>
          if wrap64 (ai_vacuumQuota i - 1) \<le> 0
          then (None, if ai_confirmed i then [ai_alert i] else [])
          else (Some (i\<lparr>ai_vacuumQuota := wrap64 (ai_vacuumQuota i - 1)\<rparr>), []))"

lemma vacuum_cell_None [simp]: "vacuum_cell None = (None, [])"
  by (simp add: vacuum_cell_def)

definition with_cells :: "AlertsStorage \<Rightarrow> (Digest, alertInfo) gomap \<Rightarrow> AlertsStorage" where
  "with_cells s m = s\<lparr>as_internalStorage := m\<rparr>"

lemma with_cells_simps [simp]:
  "as_internalStorage (with_cells s m) = m"
  "as_alertBackoff (with_cells s m) = as_alertBackoff s"
  "as_alertVacuumQuota (with_cells s m) = as_alertVacuumQuota s"
  "as_requiredConfirmations (with_cells s m) = as_requiredConfirmations s"
  "with_cells (with_cells s m) m' = with_cells s m'"
  "with_cells s (as_internalStorage s) = s"
  by (simp_all add: with_cells_def)

lemma put_cell_with_cells [simp]: "put_cell (with_cells s m) c a = put_cell s c a"
  by (simp add: put_cell_def Let_def)

lemma PutAlert_cell:
  "PutAlert gw s a =
     (let d = Alert_ID gw a; (c, b) = put_cell s (as_internalStorage s d) a
      in (with_cells s ((as_internalStorage s)(d := c)), b))"
  by (simp add: PutAlert_def put_cell_def Let_def with_cells_def map_get_def fun_upd_idem
      split: option.split)

lemma Vacuum_loop_cells:
  assumes "distinct ks"
  shows "Vacuum_loop ks m fixed =
     ((\<lambda>d. if d \<in> set ks then fst (case m d of None \<Rightarrow> vacuum_cell (Some zeroAlertInfo)
                                   | Some i \<Rightarrow> vacuum_cell (Some i)) else m d),
      fixed @ concat (map (\<lambda>d. snd (case m d of None \<Rightarrow> vacuum_cell (Some zeroAlertInfo)
                                   | Some i \<Rightarrow> vacuum_cell (Some i))) ks))"
  using assms
proof (induction ks arbitrary: m fixed)
  case Nil
  then show ?case by simp
next
  case (Cons i ks)
  define c where "c = (\<lambda>d. case m d of None \<Rightarrow> vacuum_cell (Some zeroAlertInfo)
                                   | Some i \<Rightarrow> vacuum_cell (Some i))"
  have step: "Vacuum_loop (i # ks) m fixed = Vacuum_loop ks (m(i := fst (c i))) (fixed @ snd (c i))"
    by (auto simp: c_def vacuum_cell_def map_get_def Let_def split: option.splits)
  have i: "i \<notin> set ks" and ks: "distinct ks" using Cons.prems by auto
  have eq: "map (\<lambda>d. snd (case (m(i := fst (c i))) d of None \<Rightarrow> vacuum_cell (Some zeroAlertInfo)
      | Some i \<Rightarrow> vacuum_cell (Some i))) ks = map (\<lambda>d. snd (c d)) ks"
    using i by (auto simp: c_def)
  show ?case
    unfolding step Cons.IH [OF ks] eq c_def [symmetric]
    using i by (auto simp: c_def fun_eq_iff)
qed

lemma Vacuum_cells:
  assumes "iter_order (as_internalStorage s) ks"
  shows "Vacuum ks s =
     (with_cells s (\<lambda>d. fst (vacuum_cell (as_internalStorage s d))),
      concat (map (\<lambda>d. snd (vacuum_cell (as_internalStorage s d))) ks))"
proof -
  let ?m = "as_internalStorage s"
  have mem: "d \<in> set ks \<longleftrightarrow> ?m d \<noteq> None" for d
    using iter_orderD [OF assms] by auto
  have c: "(case ?m d of None \<Rightarrow> vacuum_cell (Some zeroAlertInfo) | Some i \<Rightarrow> vacuum_cell (Some i))
      = vacuum_cell (?m d)" if "d \<in> set ks" for d
    using that mem [of d] by auto
  have fst: "(\<lambda>d. if d \<in> set ks then fst (case ?m d of None \<Rightarrow> vacuum_cell (Some zeroAlertInfo)
      | Some i \<Rightarrow> vacuum_cell (Some i)) else ?m d) = (\<lambda>d. fst (vacuum_cell (?m d)))"
    using mem c by (auto simp: fun_eq_iff)
  have snd: "map (\<lambda>d. snd (case ?m d of None \<Rightarrow> vacuum_cell (Some zeroAlertInfo)
      | Some i \<Rightarrow> vacuum_cell (Some i))) ks = map (\<lambda>d. snd (vacuum_cell (?m d))) ks"
    using c by simp
  have d: "distinct ks" using assms by (simp add: iter_order_def)
  show ?thesis
    by (simp add: Vacuum_def Vacuum_loop_cells [OF d] fst snd with_cells_def)
qed

section \<open>The contract of the storage\<close>

text \<open>
  A client (the analyzer, the L2 analyzer) puts alerts and vacuums. A run is a sequence of
  these calls with what each gave: an alert to send, an alert held back, or the alerts that
  a vacuum declared fixed. The iteration order of each vacuum is any order of the map.
\<close>

datatype 'a store_op = OpPut 'a | OpVacuum
datatype 'a store_out = Sent 'a | Held 'a | Fixed 'a

inductive store_run ::
    "('s \<Rightarrow> 'a \<Rightarrow> 's \<times> bool) \<Rightarrow> ('k list \<Rightarrow> 's \<Rightarrow> 's \<times> 'a option list) \<Rightarrow> ('s \<Rightarrow> 'k list \<Rightarrow> bool) \<Rightarrow>
     's \<Rightarrow> 'a store_op list \<Rightarrow> 'a store_out list \<Rightarrow> 's \<Rightarrow> bool"
  for put vac ord where
  run_Nil: "store_run put vac ord s [] [] s"
| run_Put: "put s a = (s1, b) \<Longrightarrow> store_run put vac ord s1 ops outs s2 \<Longrightarrow>
    store_run put vac ord s (OpPut a # ops) ((if b then Sent a else Held a) # outs) s2"
| run_Vacuum: "ord s ks \<Longrightarrow> vac ks s = (s1, map Some fs) \<Longrightarrow> store_run put vac ord s1 ops outs s2 \<Longrightarrow>
    store_run put vac ord s (OpVacuum # ops) (map Fixed fs @ outs) s2"

inductive_simps store_run_simps:
  "store_run put vac ord s [] outs s'" "store_run put vac ord s (OpPut a # ops) outs s'"
  "store_run put vac ord s (OpVacuum # ops) outs s'"

locale alerts_store =
  fixes put :: "'s \<Rightarrow> 'a \<Rightarrow> 's \<times> bool"
    and vac :: "'k list \<Rightarrow> 's \<Rightarrow> 's \<times> 'a option list"
    and ord :: "'s \<Rightarrow> 'k list \<Rightarrow> bool"
    and inv :: "'s \<Rightarrow> bool"
    and ident :: "'a \<Rightarrow> 'k"
    and confirmed :: "'s \<Rightarrow> 'k set"
  assumes inv_put: "inv s \<Longrightarrow> inv (fst (put s a))"
    and inv_vac: "inv s \<Longrightarrow> ord s ks \<Longrightarrow> inv (fst (vac ks s))"
    and ord_ex: "inv s \<Longrightarrow> \<exists>ks. ord s ks"
    and confirmed_put: "inv s \<Longrightarrow>
      confirmed (fst (put s a)) \<subseteq> (if snd (put s a) then insert (ident a) (confirmed s) else confirmed s)"
    and vac_fixed: "inv s \<Longrightarrow> ord s ks \<Longrightarrow>
      \<exists>fs. snd (vac ks s) = map Some fs \<and> distinct (map ident fs) \<and> ident ` set fs \<subseteq> confirmed s \<and>
        confirmed (fst (vac ks s)) = confirmed s - ident ` set fs"
begin

lemma run_inv: "store_run put vac ord s ops outs s' \<Longrightarrow> inv s \<Longrightarrow> inv s'"
  by (induction rule: store_run.induct) (metis fst_conv inv_put inv_vac)+

lemma run_total: "inv s \<Longrightarrow> \<exists>outs s'. store_run put vac ord s ops outs s'"
proof (induction ops arbitrary: s)
  case Nil
  then show ?case by (blast intro: run_Nil)
next
  case (Cons p ops)
  show ?case
  proof (cases p)
    case (OpPut a)
    with Cons inv_put [of s a] show ?thesis by (metis run_Put surjective_pairing)
  next
    case OpVacuum
    from ord_ex [OF Cons.prems] obtain ks where ks: "ord s ks" by blast
    from vac_fixed [OF Cons.prems ks] obtain fs where "vac ks s = (fst (vac ks s), map Some fs)"
      by (metis surjective_pairing)
    with ks Cons.IH [OF inv_vac [OF Cons.prems ks]] OpVacuum show ?thesis by (metis run_Vacuum)
  qed
qed

text \<open>
  Before a fixed report of an id, either the id was sent with no fixed report of it after that, or
  it is one of those open from the start, with no fixed report so far.
\<close>

lemma fixed_split:
  assumes "map Fixed fs @ outs = xs @ Fixed a # ys"
  obtains (here) f1 f2 where "fs = f1 @ a # f2" "xs = map Fixed f1"
    | (later) xs' where "xs = map Fixed fs @ xs'" "outs = xs' @ Fixed a # ys"
proof -
  from assms obtain us where
    "map Fixed fs = xs @ us \<and> us @ outs = Fixed a # ys \<or> map Fixed fs @ us = xs \<and> outs = us @ Fixed a # ys"
    by (auto simp: append_eq_append_conv2)
  then show thesis
  proof
    assume "map Fixed fs = xs @ us \<and> us @ outs = Fixed a # ys"
    then show thesis using here later [of "[]"] by (cases us) (auto simp: map_eq_append_conv)
  qed (use later [of us] in simp)
qed

lemma fixed_after_sent_from:
  assumes "store_run put vac ord s ops outs s'" "inv s" "outs = xs @ Fixed a # ys"
  shows "ident a \<in> confirmed s \<and> (\<forall>c. Fixed c \<in> set xs \<longrightarrow> ident c \<noteq> ident a) \<or>
    (\<exists>us b vs. xs = us @ Sent b # vs \<and> ident b = ident a \<and> (\<forall>c. Fixed c \<in> set vs \<longrightarrow> ident c \<noteq> ident a))"
  using assms
proof (induction arbitrary: xs rule: store_run.induct)
  case (run_Nil s)
  then show ?case by simp
next
  case (run_Put s p s1 b ops outs s2)
  then obtain xs' where xs: "xs = (if b then Sent p else Held p) # xs'" and outs: "outs = xs' @ Fixed a # ys"
    by (cases xs) (auto split: if_splits)
  have "inv s1" using inv_put [OF run_Put.prems(1), of p] run_Put.hyps(1) by simp
  from run_Put.IH [OF this outs] show ?case
  proof
    assume c: "ident a \<in> confirmed s1 \<and> (\<forall>c. Fixed c \<in> set xs' \<longrightarrow> ident c \<noteq> ident a)"
    show ?thesis
    proof (cases "b \<and> ident p = ident a")
      case True
      then show ?thesis using xs c by (metis append_Nil)
    next
      case False
      with c confirmed_put [OF run_Put.prems(1), of p] run_Put.hyps(1)
      have "ident a \<in> confirmed s" by (auto split: if_splits)
      with c xs show ?thesis by (auto split: if_splits)
    qed
  qed (use xs in \<open>metis append_Cons\<close>)
next
  case (run_Vacuum s ks s1 fs ops outs s2)
  from vac_fixed [OF run_Vacuum.prems(1) run_Vacuum.hyps(1)] run_Vacuum.hyps(2)
  have fs: "distinct (map ident fs)" "ident ` set fs \<subseteq> confirmed s" "confirmed s1 = confirmed s - ident ` set fs"
    by (auto simp: inj_map_eq_map)
  have inv1: "inv s1" using inv_vac [OF run_Vacuum.prems(1) run_Vacuum.hyps(1)] run_Vacuum.hyps(2) by simp
  from run_Vacuum.prems(2) show ?case
  proof (cases rule: fixed_split)
    case (here f1 f2)
    with fs have "ident a \<in> confirmed s" "ident a \<notin> ident ` set f1" by auto
    then show ?thesis by (auto simp: here(2) image_iff)
  next
    case (later xs')
    from run_Vacuum.IH [OF inv1 later(2)] show ?thesis
    proof
      assume "ident a \<in> confirmed s1 \<and> (\<forall>c. Fixed c \<in> set xs' \<longrightarrow> ident c \<noteq> ident a)"
      with fs(3) later(1) show ?thesis by (auto simp: image_iff)
    qed (use later(1) in \<open>metis append_assoc\<close>)
  qed
qed

lemma fixed_after_sent:
  assumes "store_run put vac ord s ops (xs @ Fixed a # ys) s'" "inv s" "confirmed s = {}"
  shows "\<exists>us b vs. xs = us @ Sent b # vs \<and> ident b = ident a \<and> (\<forall>c. Fixed c \<in> set vs \<longrightarrow> ident c \<noteq> ident a)"
  using fixed_after_sent_from [OF assms(1,2) refl] assms(3) by simp

end

section \<open>The storage satisfies the contract\<close>

definition storage_ok :: "gowaves \<Rightarrow> AlertsStorage \<Rightarrow> bool" where
  "storage_ok gw s \<longleftrightarrow> finite (dom (as_internalStorage s)) \<and>
     (\<forall>d i. as_internalStorage s d = Some i \<longrightarrow> (\<exists>a. ai_alert i = Some a \<and> Alert_ID gw a = d))"

definition confirmed_ids :: "AlertsStorage \<Rightarrow> Digest set" where
  "confirmed_ids s = {d. \<exists>i. as_internalStorage s d = Some i \<and> ai_confirmed i}"

abbreviation vacuum_order :: "AlertsStorage \<Rightarrow> Digest list \<Rightarrow> bool" where
  "vacuum_order s ks \<equiv> iter_order (as_internalStorage s) ks"

lemma storage_okD:
  "storage_ok gw s \<Longrightarrow> as_internalStorage s d = Some i \<Longrightarrow> \<exists>a. ai_alert i = Some a \<and> Alert_ID gw a = d"
  by (simp add: storage_ok_def)

lemma put_cell_alert:
  "put_cell s c a = (Some i, b) \<Longrightarrow> c = Some i \<or> ai_alert i = Some a"
  by (auto simp: put_cell_def Let_def split: if_splits)

lemma put_cell_confirmed:
  "put_cell s c a = (Some i, b) \<Longrightarrow> ai_confirmed i \<Longrightarrow> b \<or> (\<exists>j. c = Some j \<and> ai_confirmed j)"
  by (auto simp: put_cell_def Let_def zeroAlertInfo_def split: if_splits option.splits)

lemma vacuum_cell_alert: "fst (vacuum_cell c) = Some i \<Longrightarrow> \<exists>j. c = Some j \<and> ai_alert i = ai_alert j \<and> ai_confirmed i = ai_confirmed j"
  by (auto simp: vacuum_cell_def split: option.splits if_splits)

lemma storage_ok_new [simp]: "storage_ok gw (newAlertsStorage b q req)"
  by (simp add: storage_ok_def newAlertsStorage_def)

lemma storage_ok_put:
  assumes "storage_ok gw s"
  shows "storage_ok gw (fst (PutAlert gw s a))"
proof -
  let ?d = "Alert_ID gw a"
  obtain c b where c: "put_cell s (as_internalStorage s ?d) a = (c, b)" by fastforce
  have "\<exists>x. ai_alert i = Some x \<and> Alert_ID gw x = ?d" if "c = Some i" for i
    using put_cell_alert [of s _ a i b] c that storage_okD [OF assms, of ?d i] by auto
  with assms c show ?thesis
    by (auto simp: PutAlert_cell storage_ok_def Let_def)
qed

lemma storage_ok_vacuum:
  assumes "storage_ok gw s" "vacuum_order s ks"
  shows "storage_ok gw (fst (Vacuum ks s))"
proof -
  have "dom (\<lambda>d. fst (vacuum_cell (as_internalStorage s d))) \<subseteq> dom (as_internalStorage s)"
    by (auto dest!: vacuum_cell_alert)
  with assms show ?thesis
    by (auto simp: Vacuum_cells storage_ok_def intro: finite_subset dest!: vacuum_cell_alert)
qed

text \<open>The alerts that vacuuming a cell of id \<open>d\<close> returns: at most one, of that id.\<close>

lemma vacuum_cell_fixed:
  assumes "storage_ok gw s"
  shows "\<exists>fs. snd (vacuum_cell (as_internalStorage s d)) = map Some fs \<and> length fs \<le> 1 \<and>
     (\<forall>a \<in> set fs. Alert_ID gw a = d) \<and>
     (fs \<noteq> [] \<longleftrightarrow> d \<in> confirmed_ids s \<and> fst (vacuum_cell (as_internalStorage s d)) = None)"
proof (cases "as_internalStorage s d")
  case None
  then show ?thesis by (simp add: confirmed_ids_def)
next
  case (Some i)
  with storage_okD [OF assms Some] obtain a where a: "ai_alert i = Some a" "Alert_ID gw a = d" by blast
  then have f: "[ai_alert i] = map Some [a]" by simp
  show ?thesis
  proof (cases "wrap64 (ai_vacuumQuota i - 1) \<le> 0 \<and> ai_confirmed i")
    case True
    with Some a show ?thesis
      by (intro exI [of _ "[a]"]) (simp add: vacuum_cell_def confirmed_ids_def)
  next
    case False
    with Some show ?thesis
      by (intro exI [of _ "[]"]) (auto simp: vacuum_cell_def confirmed_ids_def)
  qed
qed

lemma concat_fixed_ids:
  assumes "storage_ok gw s" "distinct ks"
  shows "\<exists>fs. concat (map (\<lambda>d. snd (vacuum_cell (as_internalStorage s d))) ks) = map Some fs \<and>
    distinct (map (Alert_ID gw) fs) \<and>
    Alert_ID gw ` set fs = {d \<in> set ks. d \<in> confirmed_ids s \<and> fst (vacuum_cell (as_internalStorage s d)) = None}"
  using assms(2)
proof (induction ks)
  case Nil
  then show ?case by simp
next
  case (Cons d ks)
  then obtain fs where fs: "concat (map (\<lambda>d. snd (vacuum_cell (as_internalStorage s d))) ks) = map Some fs"
    "distinct (map (Alert_ID gw) fs)"
    "Alert_ID gw ` set fs = {d \<in> set ks. d \<in> confirmed_ids s \<and> fst (vacuum_cell (as_internalStorage s d)) = None}"
    by auto
  from vacuum_cell_fixed [OF assms(1), of d] obtain gs where
    gs: "snd (vacuum_cell (as_internalStorage s d)) = map Some gs" "length gs \<le> 1" "\<forall>a \<in> set gs. Alert_ID gw a = d"
    "gs \<noteq> [] \<longleftrightarrow> d \<in> confirmed_ids s \<and> fst (vacuum_cell (as_internalStorage s d)) = None" by blast
  have "distinct (map (Alert_ID gw) gs)" "Alert_ID gw ` set gs = (if gs = [] then {} else {d})"
    using gs(2,3) by (cases gs; force)+
  moreover have "d \<notin> Alert_ID gw ` set fs" using fs(3) Cons.prems by auto
  ultimately show ?case
    using fs gs(1,4) by (intro exI [of _ "gs @ fs"]) auto
qed

interpretation as: alerts_store "PutAlert gw" Vacuum vacuum_order "storage_ok gw" "Alert_ID gw" confirmed_ids
  for gw
proof unfold_locales
  fix s a
  assume ok: "storage_ok gw s"
  show "storage_ok gw (fst (PutAlert gw s a))" using ok by (rule storage_ok_put)
  show "\<exists>ks. vacuum_order s ks"
    using ok by (intro iter_order_ex) (simp add: storage_ok_def)
  show "confirmed_ids (fst (PutAlert gw s a))
      \<subseteq> (if snd (PutAlert gw s a) then insert (Alert_ID gw a) (confirmed_ids s) else confirmed_ids s)"
    using put_cell_confirmed [of s "as_internalStorage s (Alert_ID gw a)" a]
    by (auto simp: PutAlert_cell confirmed_ids_def Let_def split: prod.splits if_splits)
next
  fix s ks
  assume ok: "storage_ok gw s" and ks: "vacuum_order s ks"
  show "storage_ok gw (fst (Vacuum ks s))" using ok ks by (rule storage_ok_vacuum)
  from ks have d: "distinct ks" and dom: "set ks = dom (as_internalStorage s)" by (auto simp: iter_order_def)
  from concat_fixed_ids [OF ok d] obtain fs where
    fs: "concat (map (\<lambda>d. snd (vacuum_cell (as_internalStorage s d))) ks) = map Some fs"
      "distinct (map (Alert_ID gw) fs)" and
    ids: "Alert_ID gw ` set fs = {d \<in> set ks. d \<in> confirmed_ids s \<and> fst (vacuum_cell (as_internalStorage s d)) = None}"
    by blast
  have "confirmed_ids s \<subseteq> set ks" using dom by (auto simp: confirmed_ids_def)
  moreover have "d \<in> confirmed_ids (fst (Vacuum ks s)) \<longleftrightarrow>
      d \<in> confirmed_ids s \<and> fst (vacuum_cell (as_internalStorage s d)) \<noteq> None" for d
    using ks by (auto simp: Vacuum_cells confirmed_ids_def vacuum_cell_def split: option.splits if_splits)
  ultimately have "confirmed_ids (fst (Vacuum ks s)) = confirmed_ids s - Alert_ID gw ` set fs"
    using ids by auto
  with ks fs ids show "\<exists>fs. snd (Vacuum ks s) = map Some fs \<and> distinct (map (Alert_ID gw) fs) \<and>
      Alert_ID gw ` set fs \<subseteq> confirmed_ids s \<and>
      confirmed_ids (fst (Vacuum ks s)) = confirmed_ids s - Alert_ID gw ` set fs"
    by (intro exI [of _ fs]) (simp add: Vacuum_cells, blast)
qed

abbreviation as_run ::
    "gowaves \<Rightarrow> AlertsStorage \<Rightarrow> Alert store_op list \<Rightarrow> Alert store_out list \<Rightarrow> AlertsStorage \<Rightarrow> bool" where
  "as_run gw \<equiv> store_run (PutAlert gw) Vacuum vacuum_order"

section \<open>The storage is a product of cells\<close>

fun cell_run :: "AlertsStorage \<Rightarrow> cell \<Rightarrow> Alert store_op list \<Rightarrow> cell \<times> Alert store_out list" where
  "cell_run s c [] = (c, [])"
| "cell_run s c (OpPut a # ops) =
     (let (c1, b) = put_cell s c a; (c2, outs) = cell_run s c1 ops
      in (c2, (if b then Sent a else Held a) # outs))"
| "cell_run s c (OpVacuum # ops) =
     (let (c1, fs) = vacuum_cell c; (c2, outs) = cell_run s c1 ops
      in (c2, map Fixed (List.map_filter id fs) @ outs))"

fun op_on :: "gowaves \<Rightarrow> Digest \<Rightarrow> Alert store_op \<Rightarrow> bool" where
  "op_on gw d (OpPut a) = (Alert_ID gw a = d)"
| "op_on gw d OpVacuum = True"

fun out_on :: "gowaves \<Rightarrow> Digest \<Rightarrow> Alert store_out \<Rightarrow> bool" where
  "out_on gw d (Sent a) = (Alert_ID gw a = d)"
| "out_on gw d (Held a) = (Alert_ID gw a = d)"
| "out_on gw d (Fixed a) = (Alert_ID gw a = d)"

lemma map_filter_map_Some [simp]: "List.map_filter id (map Some xs) = xs"
  by (induction xs) (simp_all add: List.map_filter_def)

lemma vacuum_proj:
  assumes ok: "storage_ok gw s" and ks: "vacuum_order s ks" and v: "Vacuum ks s = (s1, map Some fs)"
  shows "filter (out_on gw d) (map Fixed fs) = map Fixed (List.map_filter id (snd (vacuum_cell (as_internalStorage s d))))"
proof -
  have conc: "map Some (filter (\<lambda>a. Alert_ID gw a = d) fs)
     = (if d \<in> set ks then snd (vacuum_cell (as_internalStorage s d)) else [])"
    if "concat (map (\<lambda>d. snd (vacuum_cell (as_internalStorage s d))) ks) = map Some fs" "distinct ks" for ks fs
    using that
  proof (induction ks arbitrary: fs)
    case Nil
    then show ?case by simp
  next
    case (Cons e ks)
    from vacuum_cell_fixed [OF ok, of e] obtain gs where
      gs: "snd (vacuum_cell (as_internalStorage s e)) = map Some gs" "\<forall>a \<in> set gs. Alert_ID gw a = e" by blast
    with Cons.prems obtain fs' where fs': "fs = gs @ fs'"
      "concat (map (\<lambda>d. snd (vacuum_cell (as_internalStorage s d))) ks) = map Some fs'"
      by (auto simp: append_eq_map_conv inj_map_eq_map)
    have "filter (\<lambda>a. Alert_ID gw a = d) gs = (if e = d then gs else [])"
      using gs(2) by (auto simp: filter_empty_conv filter_id_conv)
    with Cons.IH [OF fs'(2)] Cons.prems(2) fs'(1) gs(1) show ?case by auto
  qed
  have "concat (map (\<lambda>d. snd (vacuum_cell (as_internalStorage s d))) ks) = map Some fs"
    using v by (simp add: Vacuum_cells [OF ks])
  from conc [OF this] ks have "map Some (filter (\<lambda>a. Alert_ID gw a = d) fs) = snd (vacuum_cell (as_internalStorage s d))"
    by (auto simp: iter_order_def domIff)
  then have "List.map_filter id (snd (vacuum_cell (as_internalStorage s d))) = filter (\<lambda>a. Alert_ID gw a = d) fs"
    by (metis map_filter_map_Some)
  then show ?thesis by (simp add: filter_map comp_def)
qed

lemma cell_run_with_cells [simp]: "cell_run (with_cells s m) c ops = cell_run s c ops"
  by (induction s c ops rule: cell_run.induct) (auto split: prod.splits)

lemma as_run_cell:
  assumes "as_run gw s ops outs s'" "storage_ok gw s"
  shows "cell_run s (as_internalStorage s d) (filter (op_on gw d) ops)
           = (as_internalStorage s' d, filter (out_on gw d) outs)
         \<and> (\<exists>m. s' = with_cells s m)"
  using assms
proof (induction rule: store_run.induct)
  case (run_Nil s)
  then show ?case by simp (metis with_cells_simps(6))
next
  case (run_Put s a s1 b ops outs s2)
  obtain c where c: "put_cell s (as_internalStorage s (Alert_ID gw a)) a = (c, b)"
    and s1: "s1 = with_cells s ((as_internalStorage s)(Alert_ID gw a := c))"
    using run_Put.hyps(1) by (auto simp: PutAlert_cell Let_def split: prod.splits)
  have "storage_ok gw s1" using as.inv_put [OF run_Put.prems, of a] run_Put.hyps(1) by simp
  from run_Put.IH [OF this] c show ?case by (auto simp: s1 split: prod.splits)
next
  case (run_Vacuum s ks s1 fs ops outs s2)
  have s1: "s1 = with_cells s (\<lambda>d. fst (vacuum_cell (as_internalStorage s d)))"
    using run_Vacuum.hyps(2) by (simp add: Vacuum_cells [OF run_Vacuum.hyps(1)])
  have "storage_ok gw s1" using as.inv_vac [OF run_Vacuum.prems run_Vacuum.hyps(1)] run_Vacuum.hyps(2) by simp
  from run_Vacuum.IH [OF this] vacuum_proj [OF run_Vacuum.prems run_Vacuum.hyps(1,2), of d] show ?case
    by (auto simp: s1 split: prod.splits)
qed

end
