(* ===== verification/AlertsPolicy.thy ===== *)
theory AlertsPolicy
  imports AlertsStorage
begin

text \<open>
  What the alerts storage promises, derived from the single cell of \<open>AlertsStorage\<close>: when a
  repeated alert is sent (confirmation, then exponential backoff), when it expires, that a
  fixed alert was sent before, and that the iteration order of a vacuum does not matter.
\<close>

section \<open>The sending schedule\<close>

text \<open>
  The counters of a cell that the decision to send depends on: confirmed, repeats, backoff
  threshold. \<open>schedule b c st n\<close> lists which of the next \<open>n\<close> alerts are sent, with backoff
  factor \<open>b\<close> and \<open>c\<close> required confirmations.
\<close>

type_synonym counters = "bool \<times> int \<times> int"

fun counters :: "cell \<Rightarrow> counters" where
  "counters None = (False, 0, 0)"
| "counters (Some i) = (ai_confirmed i, ai_repeats i, ai_backoffThreshold i)"

fun due :: "int \<Rightarrow> counters \<Rightarrow> bool" where
  "due c (conf, r, t) = (if conf then t < wrap64 (r + 1) else c \<le> wrap64 (r + 1))"

fun next_counters :: "int \<Rightarrow> int \<Rightarrow> counters \<Rightarrow> counters" where
  "next_counters b c (conf, r, t) =
     (if due c (conf, r, t) then (True, 1, if conf then wrap64 (b * t) else b)
      else (conf, wrap64 (r + 1), t))"

fun schedule :: "int \<Rightarrow> int \<Rightarrow> counters \<Rightarrow> nat \<Rightarrow> bool list" where
  "schedule b c st 0 = []"
| "schedule b c st (Suc n) = due c st # schedule b c (next_counters b c st) n"

abbreviation required :: "AlertsStorage \<Rightarrow> AlertType \<Rightarrow> int" where
  "required s t \<equiv> map_get 0 (as_requiredConfirmations s) t"

fun is_Sent :: "'a store_out \<Rightarrow> bool" where
  "is_Sent (Sent _) = True"
| "is_Sent _ = False"

fun is_Fixed :: "'a store_out \<Rightarrow> bool" where
  "is_Fixed (Fixed _) = True"
| "is_Fixed _ = False"

text \<open>An alert that arrives in every round: one put, then one vacuum.\<close>

definition rounds :: "Alert list \<Rightarrow> Alert store_op list" where
  "rounds as = concat (map (\<lambda>a. [OpPut a, OpVacuum]) as)"

lemma round_step:
  assumes "2 \<le> as_alertVacuumQuota s" "as_alertVacuumQuota s < 2 ^ 63"
  shows "\<exists>c'. counters c' = next_counters (as_alertBackoff s) (required s (Alert_Type a)) (counters c) \<and>
    cell_run s c (OpPut a # OpVacuum # ops) =
      (let (c2, outs) = cell_run s c' ops
       in (c2, (if due (required s (Alert_Type a)) (counters c) then Sent a else Held a) # outs))"
proof -
  obtain c1 b where c1: "put_cell s c a = (Some c1, b)" and q: "ai_vacuumQuota c1 = as_alertVacuumQuota s"
    and b: "b = due (required s (Alert_Type a)) (counters c)"
    and n: "counters (Some c1) = next_counters (as_alertBackoff s) (required s (Alert_Type a)) (counters c)"
    using assms by (cases c) (auto simp: put_cell_def Let_def zeroAlertInfo_def)
  let ?c2 = "c1\<lparr>ai_vacuumQuota := as_alertVacuumQuota s - 1\<rparr>"
  have v: "vacuum_cell (Some c1) = (Some ?c2, [])"
    using assms q by (simp add: vacuum_cell_def)
  show ?thesis
    using n b by (intro exI [of _ "Some ?c2"]) (simp add: c1 v List.map_filter_def split: prod.splits)
qed

lemma rounds_schedule:
  assumes "2 \<le> as_alertVacuumQuota s" "as_alertVacuumQuota s < 2 ^ 63" "\<forall>a \<in> set as. Alert_Type a = t"
  shows "map is_Sent (snd (cell_run s c (rounds as))) =
      schedule (as_alertBackoff s) (required s t) (counters c) (length as)
    \<and> (\<forall>x \<in> set (snd (cell_run s c (rounds as))). \<not> is_Fixed x)"
  using assms(3)
proof (induction as arbitrary: c)
  case Nil
  then show ?case by (simp add: rounds_def)
next
  case (Cons a as)
  have r: "rounds (a # as) = OpPut a # OpVacuum # rounds as" by (simp add: rounds_def)
  from Cons.prems have t: "Alert_Type a = t" and ih: "\<forall>a \<in> set as. Alert_Type a = t" by auto
  from round_step [OF assms(1,2), of a c "rounds as"] obtain c' where
    "counters c' = next_counters (as_alertBackoff s) (required s t) (counters c)"
    "cell_run s c (rounds (a # as)) =
      (let (c2, outs) = cell_run s c' (rounds as)
       in (c2, (if due (required s t) (counters c) then Sent a else Held a) # outs))"
    unfolding r t by blast
  with Cons.IH [OF ih, of c'] show ?case by (auto split: prod.splits)
qed

text \<open>A confirmed alert is held until its repeats exceed the threshold.\<close>

lemma schedule_hold:
  assumes "0 \<le> r" "r + int n \<le> t" "t < 2 ^ 63"
  shows "schedule b c (True, r, t) (n + m) = replicate n False @ schedule b c (True, r + int n, t) m"
  using assms
proof (induction n arbitrary: r)
  case (Suc n)
  then have "wrap64 (r + 1) = r + 1" by simp
  with Suc.IH [of "r + 1"] Suc.prems show ?case by (simp add: algebra_simps)
qed simp

lemma schedule_unconfirmed:
  assumes "0 \<le> r" "r + int n < c" "c < 2 ^ 63"
  shows "schedule b c (False, r, t) (n + m) = replicate n False @ schedule b c (False, r + int n, t) m"
  using assms
proof (induction n arbitrary: r)
  case (Suc n)
  then have "wrap64 (r + 1) = r + 1" by simp
  with Suc.IH [of "r + 1"] Suc.prems show ?case by (simp add: algebra_simps)
qed simp

definition gap :: "nat \<Rightarrow> nat \<Rightarrow> bool list" where
  "gap b i = replicate (b ^ i - 1) False @ [True]"

lemma schedule_gap:
  assumes "1 \<le> b" "int b ^ Suc i < 2 ^ 63"
  shows "schedule (int b) c (True, 1, int b ^ i) (b ^ i + m)
    = gap b i @ schedule (int b) c (True, 1, int b ^ Suc i) m"
proof -
  let ?k = "b ^ i - 1"
  have one: "1 \<le> b ^ i" using assms(1) by simp
  have le: "int b ^ i \<le> int b ^ Suc i" using assms(1) by simp
  with assms(2) have small: "int b ^ i < 2 ^ 63" by linarith
  have k: "1 + int ?k = int b ^ i" using one by (simp add: of_nat_diff)
  have w: "wrap64 (int b ^ i + 1) = int b ^ i + 1 \<or> int b ^ i + 1 = 2 ^ 63" using small by force
  show ?thesis
  proof (cases "int b ^ i + 1 = 2 ^ 63")
    case True
    then have "b \<noteq> 1" by auto
    with assms(1) have "2 * int b ^ i \<le> int b ^ Suc i" by simp
    with assms(2) True show ?thesis by simp
  next
    case False
    with w have w: "wrap64 (int b ^ i + 1) = int b ^ i + 1" by simp
    have w2: "wrap64 (int b * int b ^ i) = int b ^ Suc i" using assms(2) by (simp add: order_trans [of _ 0])
    have "schedule (int b) c (True, 1, int b ^ i) (?k + (Suc m))
        = replicate ?k False @ schedule (int b) c (True, int b ^ i, int b ^ i) (Suc m)"
      using schedule_hold [of 1 ?k "int b ^ i" "int b" c "Suc m"] small unfolding k by simp
    moreover have "?k + Suc m = b ^ i + m" using one by simp
    moreover have "schedule (int b) c (True, int b ^ i, int b ^ i) (Suc m)
        = True # schedule (int b) c (True, 1, int b ^ Suc i) m"
      unfolding w2 [symmetric] by (simp add: w)
    ultimately show ?thesis by (simp only: gap_def append_assoc append_Cons append_Nil)
  qed
qed

lemma schedule_gaps:
  assumes "1 \<le> b" "int b ^ (i + n) < 2 ^ 63"
  shows "schedule (int b) c (True, 1, int b ^ i) (sum_list (map (\<lambda>i. b ^ i) [i..<i + n]))
    = concat (map (gap b) [i..<i + n])"
  using assms(2)
proof (induction n arbitrary: i)
  case (Suc n)
  have up: "[i..<i + Suc n] = i # [Suc i..<Suc i + n]" by (simp add: upt_conv_Cons)
  have "int b ^ Suc i \<le> int b ^ (i + Suc n)" using assms(1) by (intro power_increasing) auto
  with Suc.prems have s: "int b ^ Suc i < 2 ^ 63" by linarith
  from Suc.prems have "int b ^ (Suc i + n) < 2 ^ 63" by simp
  from Suc.IH [OF this] schedule_gap [OF assms(1) s] show ?case unfolding up by simp
qed simp

text \<open>The number of alerts until the first is sent: the required confirmations, at least one.\<close>

definition first_after :: "int \<Rightarrow> nat" where
  "first_after c = nat (max 1 c)"

lemma schedule_from_start:
  assumes "1 \<le> b" "int b ^ Suc j < 2 ^ 63" "c < 2 ^ 63"
  shows "schedule (int b) c (False, 0, 0) (first_after c + sum_list (map (\<lambda>i. b ^ i) [1..<Suc j]))
    = replicate (first_after c - 1) False @ True # concat (map (gap b) [1..<Suc j])"
proof -
  define m where "m = sum_list (map (\<lambda>i. b ^ i) [1..<Suc j])"
  let ?n = "first_after c - 1" and ?m = m
  have n: "int ?n = max 1 c - 1" "first_after c + ?m = ?n + Suc ?m" by (auto simp: first_after_def)
  have held: "schedule (int b) c (False, 0, 0) (?n + Suc ?m)
      = replicate ?n False @ schedule (int b) c (False, int ?n, 0) (Suc ?m)"
  proof (cases "1 \<le> c")
    case True
    with n(1) have "0 + int ?n < c" by simp
    from schedule_unconfirmed [OF order_refl this assms(3), of "int b" 0 "Suc m"] show ?thesis
      by (simp del: schedule.simps)
  next
    case False
    then show ?thesis by (simp add: first_after_def)
  qed
  have w: "wrap64 (int ?n + 1) = max 1 c" using n(1) assms(3) by simp
  have "schedule (int b) c (False, int ?n, 0) (Suc ?m) = True # schedule (int b) c (True, 1, int b ^ 1) ?m"
    using w by simp
  also have "schedule (int b) c (True, 1, int b ^ 1) ?m = concat (map (gap b) [1..<Suc j])"
    using schedule_gaps [of b 1 j c] assms(1,2) by (simp add: m_def)
  finally show ?thesis using held n(2) by (simp add: m_def del: schedule.simps upt_Suc)
qed

section \<open>Expiry\<close>

lemma cell_vacuums:
  assumes "1 \<le> ai_vacuumQuota i" "ai_vacuumQuota i < 2 ^ 63" "ai_alert i = Some a"
  shows "cell_run s (Some i) (replicate n OpVacuum) =
    (if int n < ai_vacuumQuota i then (Some (i\<lparr>ai_vacuumQuota := ai_vacuumQuota i - int n\<rparr>), [])
     else (None, if ai_confirmed i then [Fixed a] else []))"
  using assms
proof (induction n arbitrary: i)
  case 0
  then show ?case by simp
next
  case (Suc n)
  have none: "cell_run s None (replicate m OpVacuum) = (None, [])" for m
    by (induction m) (simp_all add: List.map_filter_def)
  from Suc.prems have w: "wrap64 (ai_vacuumQuota i - 1) = ai_vacuumQuota i - 1" by simp
  show ?case
  proof (cases "ai_vacuumQuota i \<le> 1")
    case True
    with Suc.prems w show ?thesis by (simp add: vacuum_cell_def none List.map_filter_def)
  next
    case False
    let ?i = "i\<lparr>ai_vacuumQuota := ai_vacuumQuota i - 1\<rparr>"
    from False w have "vacuum_cell (Some i) = (Some ?i, [])" by (simp add: vacuum_cell_def)
    with Suc.IH [of ?i] Suc.prems False show ?thesis
      by (simp add: List.map_filter_def algebra_simps)
  qed
qed

section \<open>Properties\<close>

text \<open>A storage used in the witnesses: two confirmations for simple alerts, the default backoff.\<close>

definition demo_storage :: AlertsStorage where
  "demo_storage = NewAlertsStorage
     [AlertConfirmations [\<lparr>ac_AlertType = SimpleAlertType, ac_Confirmations = 2\<rparr>]]"

definition demo_alert :: Alert where
  "demo_alert = A_Simple (NewSimpleAlert 7 ''x'')"

lemma demo_storage_simps [simp]:
  "storage_ok gw demo_storage" "as_alertVacuumQuota demo_storage = 5" "as_alertBackoff demo_storage = 2"
  "as_internalStorage demo_storage = (\<lambda>_. None)" "required demo_storage (Alert_Type demo_alert) = 2"
  by (simp_all add: demo_storage_def NewAlertsStorage_def AlertConfirmations_def newAlertConfirmations_def
      newAlertsStorage_def storage_ok_def DefaultAlertBackoff_def DefaultAlertVacuumQuota_def map_get_def
      demo_alert_def)

lemma iter_order_singleton: "iter_order [d \<mapsto> v] ks \<longleftrightarrow> ks = [d]"
proof
  assume k: "iter_order [d \<mapsto> v] ks"
  then have s: "set ks = {d}" by (simp add: iter_order_def)
  have "length ks = 1" using iter_order_length [OF k] by simp
  then obtain e where "ks = [e]" by (cases ks) simp_all
  with s show "ks = [d]" by simp
qed (simp add: iter_order_def)

lemma rounds_on:
  "\<forall>a \<in> set as. Alert_ID gw a = d \<Longrightarrow> filter (op_on gw d) (rounds as) = rounds as"
  by (induction as) (auto simp: rounds_def)

text \<open>C1: The sending schedule. Whatever else happens in the storage, an alert that is new to it
  and then arrives once in every round (with one vacuum per round) is first sent when it has
  arrived as often as its type requires confirmations (at least once), then after \<open>b\<close> more
  arrivals, then after \<open>b\<^sup>2\<close>, and so on with gaps \<open>b\<^sup>i\<close>; in between it is held back, and it is
  never reported as fixed.\<close>

theorem sending_schedule:
  assumes "as_run gw s ops outs s'" "storage_ok gw s" "as_internalStorage s d = None"
    and "filter (op_on gw d) ops = rounds as" "\<forall>a \<in> set as. Alert_Type a = t"
    and "2 \<le> as_alertVacuumQuota s" "as_alertVacuumQuota s < 2 ^ 63"
    and "as_alertBackoff s = int b" "1 \<le> b" "int b ^ Suc j < 2 ^ 63" "required s t < 2 ^ 63"
    and "length as = first_after (required s t) + sum_list (map (\<lambda>i. b ^ i) [1..<Suc j])"
  shows "map is_Sent (filter (out_on gw d) outs) =
      replicate (first_after (required s t) - 1) False @ True #
        concat (map (\<lambda>i. replicate (b ^ i - 1) False @ [True]) [1..<Suc j])
    \<and> (\<forall>a. Fixed a \<notin> set (filter (out_on gw d) outs))"
proof -
  have outs: "filter (out_on gw d) outs = snd (cell_run s None (rounds as))"
    using as_run_cell [OF assms(1,2), of d] assms(3,4) by simp
  from rounds_schedule [OF assms(6,7,5), of None] show ?thesis
    unfolding outs using schedule_from_start [OF assms(9,10,11)] assms(8,12)
    by (force simp: gap_def [abs_def])
qed

theorem sending_schedule_witness:
  "\<exists>outs s'. as_run demo_gowaves demo_storage (rounds (replicate 8 demo_alert)) outs s' \<and>
    map is_Sent (filter (out_on demo_gowaves (Alert_ID demo_gowaves demo_alert)) outs) =
      [False, True, False, True, False, False, False, True]"
proof -
  let ?as = "replicate 8 demo_alert" and ?d = "Alert_ID demo_gowaves demo_alert"
  obtain outs s' where r: "as_run demo_gowaves demo_storage (rounds ?as) outs s'"
    using as.run_total by (metis demo_storage_simps(1))
  have n: "length ?as = first_after (required demo_storage (Alert_Type demo_alert)) +
      sum_list (map (\<lambda>i. 2 ^ i) [1..<Suc 2])"
    unfolding demo_storage_simps first_after_def by (simp add: numeral_2_eq_2 upt_rec)
  have "filter (op_on demo_gowaves ?d) (rounds ?as) = rounds ?as" by (rule rounds_on) simp
  from sending_schedule [where j = 2 and b = 2, OF r _ _ this _ _ _ _ _ _ _ n] r show ?thesis
    by (auto simp: first_after_def upt_rec numeral_2_eq_2)
qed

text \<open>C2: Expiry. After an alert arrives and then stays away, its entry survives every vacuum
  but the last of its quota; with the vacuum that uses the quota up the entry is forgotten,
  and the alert is reported as fixed, once, exactly if it was confirmed.\<close>

theorem alert_expires:
  assumes "as_run gw s ops outs s'" "storage_ok gw s"
    and "2 \<le> as_alertVacuumQuota s" "as_alertVacuumQuota s < 2 ^ 63"
    and "filter (op_on gw (Alert_ID gw a)) ops = OpPut a # replicate n OpVacuum"
  shows "if int n < as_alertVacuumQuota s
     then Alert_ID gw a \<in> dom (as_internalStorage s') \<and>
       filter (out_on gw (Alert_ID gw a)) outs = [if snd (PutAlert gw s a) then Sent a else Held a]
     else Alert_ID gw a \<notin> dom (as_internalStorage s') \<and>
       filter (out_on gw (Alert_ID gw a)) outs = (if snd (PutAlert gw s a) then Sent a else Held a) #
         (if Alert_ID gw a \<in> confirmed_ids (fst (PutAlert gw s a)) then [Fixed a] else [])"
proof -
  let ?d = "Alert_ID gw a"
  obtain i b where c: "put_cell s (as_internalStorage s ?d) a = (Some i, b)"
    and i: "ai_vacuumQuota i = as_alertVacuumQuota s" "ai_alert i = Some a"
    using assms(3) by (auto simp: put_cell_def Let_def)
  have put: "snd (PutAlert gw s a) = b" "?d \<in> confirmed_ids (fst (PutAlert gw s a)) \<longleftrightarrow> ai_confirmed i"
    using c by (auto simp: PutAlert_cell confirmed_ids_def)
  let ?r = "cell_run s (Some i) (replicate n OpVacuum)"
  from as_run_cell [OF assms(1,2), of ?d] assms(5) c
  have "as_internalStorage s' ?d = fst ?r"
    "filter (out_on gw ?d) outs = (if b then Sent a else Held a) # snd ?r"
    by (auto split: prod.splits)
  with cell_vacuums [of i a s n] i assms(3,4) show ?thesis by (simp add: put domIff)
qed

theorem alert_expires_witness:
  "\<exists>outs s'. as_run demo_gowaves demo_storage
      (OpPut demo_alert # OpPut demo_alert # replicate 5 OpVacuum) outs s' \<and>
    filter (out_on demo_gowaves (Alert_ID demo_gowaves demo_alert)) outs
      = [Held demo_alert, Sent demo_alert, Fixed demo_alert]"
proof -
  let ?gw = demo_gowaves and ?s1 = "fst (PutAlert demo_gowaves demo_storage demo_alert)"
  have ok: "storage_ok ?gw ?s1" by (rule as.inv_put) simp
  obtain outs s' where r: "as_run ?gw ?s1 (OpPut demo_alert # replicate 5 OpVacuum) outs s'"
    using as.run_total [OF ok] by metis
  have q: "as_alertVacuumQuota ?s1 = 5" "snd (PutAlert ?gw demo_storage demo_alert) = False"
    "snd (PutAlert ?gw ?s1 demo_alert) = True"
    "Alert_ID ?gw demo_alert \<in> confirmed_ids (fst (PutAlert ?gw ?s1 demo_alert))"
    by (simp_all add: PutAlert_cell put_cell_def Let_def zeroAlertInfo_def confirmed_ids_def)
  have f: "filter (op_on ?gw (Alert_ID ?gw demo_alert)) (OpPut demo_alert # replicate 5 OpVacuum)
      = OpPut demo_alert # replicate 5 OpVacuum" by simp
  have "store_run (PutAlert ?gw) Vacuum vacuum_order demo_storage
      (OpPut demo_alert # OpPut demo_alert # replicate 5 OpVacuum) (Held demo_alert # outs) s'"
    using run_Put [OF _ r, of demo_storage demo_alert False] q(2) by (metis prod.collapse)
  moreover from alert_expires [OF r ok _ _ f] q
  have "filter (out_on ?gw (Alert_ID ?gw demo_alert)) outs = [Sent demo_alert, Fixed demo_alert]"
    by simp
  ultimately show ?thesis by (metis filter.simps(2) out_on.simps(2))
qed

text \<open>A storage that started empty reports an alert as fixed only after an alert with the same
  id was sent, and not twice for one sending: between that sending and the report no other
  alert with this id was reported as fixed. This holds for every backoff, quota and
  confirmation setting, every sequence of calls and every iteration order.\<close>

theorem fixed_only_after_sent:
  assumes "as_run gw (newAlertsStorage b q req) ops (xs @ Fixed a # ys) s'"
  shows "\<exists>us e vs. xs = us @ Sent e # vs \<and> Alert_ID gw e = Alert_ID gw a \<and>
    (\<forall>c. Fixed c \<in> set vs \<longrightarrow> Alert_ID gw c \<noteq> Alert_ID gw a)"
  by (rule as.fixed_after_sent [OF assms])
     (simp_all add: confirmed_ids_def newAlertsStorage_def storage_ok_def)

theorem fixed_only_after_sent_witness:
  "\<exists>us e vs. [Sent demo_alert] = us @ Sent e # vs \<and>
    Alert_ID demo_gowaves e = Alert_ID demo_gowaves demo_alert \<and>
    (\<forall>c. Fixed c \<in> set vs \<longrightarrow> Alert_ID demo_gowaves c \<noteq> Alert_ID demo_gowaves demo_alert)"
proof -
  let ?gw = demo_gowaves and ?s = "newAlertsStorage 2 2 (\<lambda>_. None)" and ?d = "Alert_ID demo_gowaves demo_alert"
  let ?s1 = "fst (PutAlert ?gw ?s demo_alert)"
  have ok: "storage_ok ?gw ?s1" by (rule as.inv_put) simp
  obtain outs s' where r: "as_run ?gw ?s1 [OpVacuum, OpVacuum] outs s'"
    using as.run_total [OF ok] by metis
  have put: "PutAlert ?gw ?s demo_alert = (?s1, True)"
    "as_internalStorage ?s1 = [?d \<mapsto> \<lparr>ai_vacuumQuota = 2, ai_repeats = 1, ai_backoffThreshold = 2,
       ai_confirmed = True, ai_alert = Some demo_alert\<rparr>]"
    by (simp_all add: PutAlert_cell put_cell_def Let_def zeroAlertInfo_def newAlertsStorage_def map_get_def)
  from r obtain ks1 s2 fs1 o1 ks2 fs2 s3 where
    v: "vacuum_order ?s1 ks1" "Vacuum ks1 ?s1 = (s2, map Some fs1)"
       "vacuum_order s2 ks2" "Vacuum ks2 s2 = (s3, map Some fs2)" "outs = map Fixed fs1 @ map Fixed fs2"
    by (auto simp: store_run_simps)
  have "ks1 = [?d]" using v(1) put(2)
    by (simp add: iter_order_singleton)
  with v(2) put(2) have one: "fs1 = []" "as_internalStorage s2 = [?d \<mapsto> \<lparr>ai_vacuumQuota = 1, ai_repeats = 1,
       ai_backoffThreshold = 2, ai_confirmed = True, ai_alert = Some demo_alert\<rparr>]"
    by (auto simp: Vacuum_def map_get_def Let_def)
  have "ks2 = [?d]" using v(3) one(2)
    by (simp add: iter_order_singleton)
  with v(4) one(2) have "fs2 = [demo_alert]" by (auto simp: Vacuum_def map_get_def Let_def)
  with v(5) one(1) have "outs = [Fixed demo_alert]" by simp
  with run_Put [OF put(1) r] have "as_run ?gw ?s [OpPut demo_alert, OpVacuum, OpVacuum] ([Sent demo_alert] @ Fixed demo_alert # []) s'"
    by simp
  from fixed_only_after_sent [OF this] show ?thesis .
qed

text \<open>C3: Alerts do not interfere. What the storage sends, holds back and reports as fixed for one
  alert id, and the entry it keeps, depend only on the arrivals of that id and the vacuums,
  not on other alerts and not on the iteration orders of the vacuums.\<close>

theorem alerts_do_not_interfere:
  assumes "as_run gw s ops outs s1" "as_run gw s ops' outs' s2" "storage_ok gw s"
    and "filter (op_on gw d) ops = filter (op_on gw d) ops'"
  shows "filter (out_on gw d) outs = filter (out_on gw d) outs' \<and>
    as_internalStorage s1 d = as_internalStorage s2 d"
  using as_run_cell [OF assms(1,3), of d] as_run_cell [OF assms(2,3), of d] assms(4) by simp

theorem alerts_do_not_interfere_witness:
  "\<exists>outs s1 outs' s2. let d = Alert_ID demo_gowaves demo_alert; other = A_Simple (NewSimpleAlert 7 ''y'') in
    as_run demo_gowaves demo_storage [OpPut demo_alert, OpVacuum] outs s1 \<and>
    as_run demo_gowaves demo_storage [OpPut other, OpPut demo_alert, OpPut other, OpVacuum] outs' s2 \<and>
    filter (out_on demo_gowaves d) outs = filter (out_on demo_gowaves d) outs' \<and>
    as_internalStorage s1 d = as_internalStorage s2 d"
proof -
  let ?gw = demo_gowaves and ?other = "A_Simple (NewSimpleAlert 7 ''y'')"
  obtain outs s1 where r1: "as_run ?gw demo_storage [OpPut demo_alert, OpVacuum] outs s1"
    using as.run_total by (metis demo_storage_simps(1))
  obtain outs' s2 where r2: "as_run ?gw demo_storage [OpPut ?other, OpPut demo_alert, OpPut ?other, OpVacuum] outs' s2"
    using as.run_total by (metis demo_storage_simps(1))
  have "Alert_ID ?gw ?other \<noteq> Alert_ID ?gw demo_alert"
    by (simp add: demo_alert_def SimpleAlert_methods_def NewSimpleAlert_def demo_gowaves_def SimpleAlertName_def)
  then have "filter (op_on ?gw (Alert_ID ?gw demo_alert)) [OpPut demo_alert, OpVacuum] =
      filter (op_on ?gw (Alert_ID ?gw demo_alert)) [OpPut ?other, OpPut demo_alert, OpPut ?other, OpVacuum]"
    by simp
  from alerts_do_not_interfere [OF r1 r2 _ this] r1 r2 show ?thesis unfolding Let_def by auto
qed

end
