(* ===== verification/EventKeys.thy ===== *)
theory EventKeys
  imports Events
begin

text \<open>
  \<open>pkg/storing/events/keys.go\<close>: the database key of a statement. Besides printing and parsing,
  the order of the keys matters, because the storage reads the statements of a node in key
  order and takes it for the order of their timestamps.
\<close>

section \<open>Keys\<close>

definition statementKeyNodePartPrefix :: string where
  "statementKeyNodePartPrefix = ''node:''"

definition statementKeyTimestampPartPrefix :: string where
  "statementKeyTimestampPartPrefix = ''ts:''"

definition statementKeyPartSeparator :: char where
  "statementKeyPartSeparator = CHR ''|''"

record statementKey =
  sk_node :: string
  sk_timestamp :: int

definition newStatementKey :: "string \<Rightarrow> string \<Rightarrow> string" where
  "newStatementKey node timestamp =
     statementKeyNodePartPrefix @ node @ [statementKeyPartSeparator] @
     statementKeyTimestampPartPrefix @ timestamp"

definition statementKey_String :: "statementKey \<Rightarrow> string" where
  "statementKey_String s = newStatementKey (sk_node s) (FormatInt (sk_timestamp s))"

definition newStatementKeyFromString :: "string \<Rightarrow> error + statementKey" where
  "newStatementKeyFromString key =
     (case Split statementKeyPartSeparator key of
        [nodePart, timestampPart] \<Rightarrow>
          if \<not> HasPrefix nodePart statementKeyNodePartPrefix then
            Inl (Errorf (''statement node key part '' @ Quote nodePart @
              '' doesn't have required prefix '' @ Quote statementKeyNodePartPrefix))
          else if \<not> HasPrefix timestampPart statementKeyTimestampPartPrefix then
            Inl (Errorf (''statement timestamp key part '' @ Quote nodePart @
              '' doesn't have required prefix '' @ Quote statementKeyTimestampPartPrefix))
          else
            (let nodeURL = TrimPrefix nodePart statementKeyNodePartPrefix;
                 timestamp = TrimPrefix timestampPart statementKeyTimestampPartPrefix
             in case ParseInt 10 timestamp of
                  Inl err \<Rightarrow> Inl (wrapf err
                    (''failed to parse timestamp value to int from statement key '' @ Quote key))
                | Inr ts \<Rightarrow> Inr \<lparr>sk_node = nodeURL, sk_timestamp = ts\<rparr>)
      | _ \<Rightarrow> Inl (Errorf (''invalid statement key '' @ Quote key)))"

lemmas key_defs =
  statementKeyNodePartPrefix_def statementKeyTimestampPartPrefix_def statementKeyPartSeparator_def
  newStatementKey_def statementKey_String_def

text \<open>A node name that holds no separator; every URL the node storage accepts is one.\<close>

definition key_node :: "string \<Rightarrow> bool" where
  "key_node n \<longleftrightarrow> statementKeyPartSeparator \<notin> set n"

lemma Split_key:
  assumes "key_node n" "statementKeyPartSeparator \<notin> set t"
  shows "Split statementKeyPartSeparator (newStatementKey n t) =
    [statementKeyNodePartPrefix @ n, statementKeyTimestampPartPrefix @ t]"
proof -
  have "statementKeyPartSeparator \<notin> set (statementKeyNodePartPrefix @ n)"
    "statementKeyPartSeparator \<notin> set (statementKeyTimestampPartPrefix @ t)"
    using assms by (auto simp: key_defs key_node_def)
  then show ?thesis
    using Split_append_sep [of statementKeyPartSeparator "statementKeyNodePartPrefix @ n" "statementKeyTimestampPartPrefix @ t"]
    by (simp add: newStatementKey_def Split_none)
qed

lemma parse_key:
  assumes "key_node n" "in_int64 ts"
  shows "newStatementKeyFromString (newStatementKey n (FormatInt ts)) = Inr \<lparr>sk_node = n, sk_timestamp = ts\<rparr>"
proof -
  have "statementKeyPartSeparator \<notin> set (FormatInt ts)"
    using FormatInt_no_bar by (simp add: statementKeyPartSeparator_def)
  from Split_key [OF assms(1) this] show ?thesis
    by (simp add: newStatementKeyFromString_def ParseInt_FormatInt [OF assms(2)])
qed

section \<open>A codec\<close>

text \<open>
  Printing and parsing as a contract: what is printed parses back. It gives injectivity, and
  is shared by the other printed forms of the program.
\<close>

locale codec =
  fixes valid :: "'a \<Rightarrow> bool"
    and print :: "'a \<Rightarrow> 'b"
    and parse :: "'b \<Rightarrow> error + 'a"
  assumes parse_print: "valid x \<Longrightarrow> parse (print x) = Inr x"
begin

lemma print_inj: "valid x \<Longrightarrow> valid y \<Longrightarrow> print x = print y \<Longrightarrow> x = y"
  by (metis Inr_inject parse_print)

lemma inj_on_print: "inj_on print (Collect valid)"
  by (auto intro: inj_onI print_inj)

lemma print_parse: "parse s = Inr x \<Longrightarrow> valid x \<Longrightarrow> parse (print x) = parse s"
  by (simp add: parse_print)

end

definition valid_key :: "statementKey \<Rightarrow> bool" where
  "valid_key k \<longleftrightarrow> key_node (sk_node k) \<and> in_int64 (sk_timestamp k)"

interpretation key: codec valid_key statementKey_String newStatementKeyFromString
  by unfold_locales (simp add: valid_key_def statementKey_String_def parse_key)

interpretation statement_json: codec "\<lambda>s. gowaves_ok gw \<and> in_int64 (st_Timestamp s)"
  "NodeStatement_json gw" "NodeStatement_Unmarshal gw" for gw
  by unfold_locales (simp add: NodeStatement_roundtrip)

text \<open>Every key that parses has the node and the timestamp written in it.\<close>

section \<open>The order of keys\<close>

lemma append_same_length_less:
  fixes xs ys :: string
  assumes "length xs = length ys"
  shows "xs @ [c] < ys @ [d] \<longleftrightarrow> xs < ys \<or> xs = ys \<and> c < d"
  using assms by (induction xs ys rule: list_induct2) auto

lemma digit_char_less: "d < 10 \<Longrightarrow> e < 10 \<Longrightarrow> digit_char d < digit_char e \<longleftrightarrow> d < e"
  by (simp add: less_char_def of_char_digit)

lemma less_div_mod:
  fixes m n :: nat
  shows "m < n \<longleftrightarrow> m div 10 < n div 10 \<or> m div 10 = n div 10 \<and> m mod 10 < n mod 10"
proof -
  have "m = 10 * (m div 10) + m mod 10" "n = 10 * (n div 10) + n mod 10" "m mod 10 < 10" "n mod 10 < 10"
    by simp_all
  then show ?thesis by linarith
qed

lemma dec_digits_less:
  assumes "length (dec_digits m) = length (dec_digits n)"
  shows "dec_digits m < dec_digits n \<longleftrightarrow> m < n"
  using assms
proof (induction m arbitrary: n rule: dec_digits.induct)
  case (1 m)
  show ?case
  proof (cases "m < 10")
    case True
    have "length (dec_digits k) = 1 \<longleftrightarrow> k < 10" for k
      using dec_digits_not_Nil [of "k div 10"] by (auto simp: dec_digits.simps [of k])
    with True "1.prems" have "n < 10" by metis
    with True show ?thesis
      by (simp add: dec_digits.simps [of m] dec_digits.simps [of n] digit_char_less)
  next
    case False
    have len: "length (dec_digits k) = 1 \<longleftrightarrow> k < 10" for k
      using dec_digits_not_Nil [of "k div 10"] by (auto simp: dec_digits.simps [of k])
    with False "1.prems" have n: "\<not> n < 10" by metis
    with False "1.prems" have l: "length (dec_digits (m div 10)) = length (dec_digits (n div 10))"
      by (simp add: dec_digits.simps [of m] dec_digits.simps [of n])
    have eq: "dec_digits (m div 10) = dec_digits (n div 10) \<longleftrightarrow> m div 10 = n div 10"
      by (metis dec_digits_inj)
    have m': "dec_digits m = dec_digits (m div 10) @ [digit_char (m mod 10)]"
      and n': "dec_digits n = dec_digits (n div 10) @ [digit_char (n mod 10)]"
      using False n by (simp_all add: dec_digits.simps [of m] dec_digits.simps [of n])
    have "dec_digits m < dec_digits n \<longleftrightarrow>
        m div 10 < n div 10 \<or> m div 10 = n div 10 \<and> m mod 10 < n mod 10"
      unfolding m' n' append_same_length_less [OF l] "1.IH" [OF False l] eq
      by (subst digit_char_less) simp_all
    also have "\<dots> \<longleftrightarrow> m < n" by (rule less_div_mod [symmetric])
    finally show ?thesis .
  qed
qed

text \<open>Non-negative timestamps with as many digits: the keys of a node are ordered as the timestamps.\<close>

definition same_digits :: "int \<Rightarrow> int \<Rightarrow> bool" where
  "same_digits t u \<longleftrightarrow> 0 \<le> t \<and> 0 \<le> u \<and> length (FormatInt t) = length (FormatInt u)"

lemma append_less_cancel: "(p :: string) @ xs < p @ ys \<longleftrightarrow> xs < ys"
  by (induction p) auto

lemma key_less_iff:
  assumes "same_digits t u"
  shows "newStatementKey n (FormatInt t) < newStatementKey n (FormatInt u) \<longleftrightarrow> t < u"
  using assms dec_digits_less [of "nat t" "nat u"]
  by (auto simp: newStatementKey_def append_less_cancel same_digits_def FormatInt_def)

end
