(* ===== verification/EventsStorage.thy ===== *)
theory EventsStorage
  imports EventKeys Alerts
begin

text \<open>
  \<open>pkg/storing/events/events.go\<close>: the storage of node statements on top of the key-value store
  \<open>buntdb\<close>, which is a parameter: the record \<open>buntDB\<close> holds the transaction operations the code
  calls, over an unspecified database state \<open>'d\<close>. Stored values are JSON documents. Statements
  that expire do so between the calls, in the database state.
\<close>

section \<open>The database\<close>

record 'd buntDB =
  tx_Get :: "'d \<Rightarrow> string \<Rightarrow> error + json"
  tx_Set :: "'d \<Rightarrow> string \<Rightarrow> json \<Rightarrow> int \<Rightarrow> error + 'd"
  tx_Len :: "'d \<Rightarrow> error + int"
  tx_AscendKeys :: "'d \<Rightarrow> string \<Rightarrow> (string \<times> json) list \<times> error option"
  tx_DescendKeys :: "'d \<Rightarrow> string \<Rightarrow> (string \<times> json) list \<times> error option"

record 'd Storage =
  s_db :: 'd
  s_retentionDuration :: int

definition depthCommonHeightSearch :: nat where "depthCommonHeightSearch = 50"
definition heightDifference :: uint64 where "heightDifference = 50"

section \<open>Views\<close>

text \<open>
  The callback of a view: it folds the statements into an accumulator (the variables the Go
  closure captures) and says whether to go on. The loop stops at the first \<open>false\<close> and at the
  first value that is no statement.
\<close>

fun view_loop ::
    "gowaves \<Rightarrow> ('a \<Rightarrow> NodeStatement \<Rightarrow> 'a \<times> bool) \<Rightarrow> 'a \<Rightarrow> (string \<times> json) list \<Rightarrow> 'a \<times> error option" where
  "view_loop gw iter acc [] = (acc, None)"
| "view_loop gw iter acc ((key, val) # kvs) =
     (case NodeStatement_Unmarshal gw val of
        Inl e \<Rightarrow> (acc, Some (wrapf e (''failed to unmarshal NodeStatement by key '' @ Quote key)))
      | Inr st \<Rightarrow>
          let (acc', more) = iter acc st
          in if more then view_loop gw iter acc' kvs else (acc', None))"

definition couple_errors :: "error option \<Rightarrow> error option \<Rightarrow> error option" where
  "couple_errors dbErr unmarshalErr =
     (case (dbErr, unmarshalErr) of
        (Some e, Some u) \<Rightarrow> Some (wrapf e (Error u))
      | (None, Some u) \<Rightarrow> Some u
      | (e, None) \<Rightarrow> e)"

definition viewByKeyPatternWithDescendKeys ::
    "gowaves \<Rightarrow> 'd buntDB \<Rightarrow> 'd Storage \<Rightarrow> string \<Rightarrow> ('a \<Rightarrow> NodeStatement \<Rightarrow> 'a \<times> bool) \<Rightarrow> 'a \<Rightarrow>
     'a \<times> error option" where
  "viewByKeyPatternWithDescendKeys gw bd s pat iter acc =
     (let (kvs, dbErr) = tx_DescendKeys bd (s_db s) pat;
          (acc', unmarshalErr) = view_loop gw iter acc kvs
      in (acc', couple_errors dbErr unmarshalErr))"

definition viewByKeyPatternWithAscendKeys ::
    "gowaves \<Rightarrow> 'd buntDB \<Rightarrow> 'd Storage \<Rightarrow> string \<Rightarrow> ('a \<Rightarrow> NodeStatement \<Rightarrow> 'a \<times> bool) \<Rightarrow> 'a \<Rightarrow>
     'a \<times> error option" where
  "viewByKeyPatternWithAscendKeys gw bd s pat iter acc =
     (let (kvs, dbErr) = tx_AscendKeys bd (s_db s) pat;
          (acc', unmarshalErr) = view_loop gw iter acc kvs
      in (acc', couple_errors dbErr unmarshalErr))"

definition ViewStatementsByNodeWithDescendKeys ::
    "gowaves \<Rightarrow> 'd buntDB \<Rightarrow> 'd Storage \<Rightarrow> string \<Rightarrow> ('a \<Rightarrow> NodeStatement \<Rightarrow> 'a \<times> bool) \<Rightarrow> 'a \<Rightarrow>
     'a \<times> error option" where
  "ViewStatementsByNodeWithDescendKeys gw bd s node iter acc =
     (case viewByKeyPatternWithDescendKeys gw bd s (newStatementKey node ''*'') iter acc of
        (acc', Some err) \<Rightarrow> (acc', Some (wrapf err
          (''failed to execute ViewStatementsByNodeWithDescendKeys for node '' @ Quote node)))
      | (acc', None) \<Rightarrow> (acc', None))"

definition ViewStatementsByTimestamp ::
    "gowaves \<Rightarrow> 'd buntDB \<Rightarrow> 'd Storage \<Rightarrow> int \<Rightarrow> ('a \<Rightarrow> NodeStatement \<Rightarrow> 'a \<times> bool) \<Rightarrow> 'a \<Rightarrow>
     'a \<times> error option" where
  "ViewStatementsByTimestamp gw bd s timestamp iter acc =
     (case viewByKeyPatternWithDescendKeys gw bd s (newStatementKey ''*'' (FormatInt timestamp)) iter acc of
        (acc', Some err) \<Rightarrow> (acc', Some (wrapf err
          (''failed to execute ViewStatementsByTimestamp for timestamp '' @ FormatInt timestamp)))
      | (acc', None) \<Rightarrow> (acc', None))"

section \<open>Reading and writing\<close>

definition GetStatement ::
    "gowaves \<Rightarrow> 'd buntDB \<Rightarrow> 'd Storage \<Rightarrow> string \<Rightarrow> int \<Rightarrow> error + NodeStatement" where
  "GetStatement gw bd s nodeURL timestamp =
     (let key = statementKey_String \<lparr>sk_node = nodeURL, sk_timestamp = timestamp\<rparr> in
      case tx_Get bd (s_db s) key of
        Inl err \<Rightarrow> Inl (wrapf err (''failed to get node statement from db by key '' @ Quote key))
      | Inr val \<Rightarrow>
          (case NodeStatement_Unmarshal gw val of
             Inl err \<Rightarrow> Inl (wrapf err ''failed to unmarshal node statement'')
           | Inr statement \<Rightarrow> Inr statement))"

text \<open>
  \<open>makeValue\<close> marshals the statement of the event. Its fields are numbers, strings, and hashes and ids
  of gowaves, whose encoders are total functions here; so it has no error, and \<open>PutEvent\<close>
  has no branch for one.
\<close>

definition makeValue :: "gowaves \<Rightarrow> Event \<Rightarrow> json" where
  "makeValue gw e = NodeStatement_json gw (Event_Statement e)"

definition PutEvent ::
    "gowaves \<Rightarrow> 'd buntDB \<Rightarrow> 'd Storage \<Rightarrow> Event \<Rightarrow> 'd Storage \<times> error option" where
  "PutEvent gw bd s event =
     (let v = makeValue gw event;
          key = statementKey_String \<lparr>sk_node = Event_Node event, sk_timestamp = Event_Timestamp event\<rparr>
      in case tx_Set bd (s_db s) key v (s_retentionDuration s) of
           Inl err \<Rightarrow> (s, Some (wrapf err ''failed to store event''))
         | Inr d \<Rightarrow> (s\<lparr>s_db := d\<rparr>, None))"

definition StatementsCount :: "'d buntDB \<Rightarrow> 'd Storage \<Rightarrow> error + int" where
  "StatementsCount bd s =
     (case tx_Len bd (s_db s) of
        Inl err \<Rightarrow> Inl (wrapf err ''failed to query statements'')
      | Inr cnt \<Rightarrow> Inr cnt)"

text \<open>The callback that \<open>EarliestHeight\<close> and \<open>LatestHeight\<close> share; \<open>h\<close> is the captured variable.\<close>

definition first_full_height :: "uint64 \<Rightarrow> NodeStatement \<Rightarrow> uint64 \<times> bool" where
  "first_full_height h s = (if st_StateHash s \<noteq> None then (st_Height s, False) else (h, True))"

definition EarliestHeight :: "gowaves \<Rightarrow> 'd buntDB \<Rightarrow> 'd Storage \<Rightarrow> string \<Rightarrow> error + uint64" where
  "EarliestHeight gw bd s node =
     (case viewByKeyPatternWithAscendKeys gw bd s (newStatementKey node ''*'') first_full_height 0 of
        (h, Some err) \<Rightarrow> Inl (wrapf err (''failed to get earliest height for node '' @ squote node))
      | (h, None) \<Rightarrow>
          if h = 0 then Inl (wrapf (Sentinel ErrNoFullStatement)
            (''no full statement at earliest height for node '' @ squote node))
          else Inr h)"

definition LatestHeight :: "gowaves \<Rightarrow> 'd buntDB \<Rightarrow> 'd Storage \<Rightarrow> string \<Rightarrow> error + uint64" where
  "LatestHeight gw bd s node =
     (case viewByKeyPatternWithDescendKeys gw bd s (newStatementKey node ''*'') first_full_height 0 of
        (h, Some err) \<Rightarrow> Inl (wrapf err (''failed to get latest height for node '' @ squote node))
      | (h, None) \<Rightarrow>
          if h = 0 then Inl (wrapf (Sentinel ErrNoFullStatement)
            (''no full statement at latest height for node '' @ squote node))
          else Inr h)"

text \<open>The captured variables \<open>st\<close>, \<open>notFound\<close>, \<open>notFoundFull\<close>.\<close>

definition full_at_step ::
    "uint64 \<Rightarrow> NodeStatement \<times> bool \<times> bool \<Rightarrow> NodeStatement \<Rightarrow> (NodeStatement \<times> bool \<times> bool) \<times> bool" where
  "full_at_step height acc s =
     (case acc of (st, notFound, notFoundFull) \<Rightarrow>
        if st_Height s \<noteq> 0 \<and> st_Height s < height then ((s, notFound, notFoundFull), False)
        else
          let notFound = (st_Height s \<noteq> height);
              notFoundFull = (notFound \<or> st_StateHash s = None)
          in ((s, notFound, notFoundFull), notFoundFull))"

definition GetFullStatementAtHeight ::
    "gowaves \<Rightarrow> 'd buntDB \<Rightarrow> 'd Storage \<Rightarrow> string \<Rightarrow> uint64 \<Rightarrow> error + NodeStatement" where
  "GetFullStatementAtHeight gw bd s node height =
     (case viewByKeyPatternWithDescendKeys gw bd s (newStatementKey node ''*'') (full_at_step height)
             (zeroStatement, True, True) of
        (_, Some err) \<Rightarrow> Inl (wrapf err (''failed to get node statement at height '' @ FormatUint height @
          '' for node '' @ squote node))
      | ((st, notFound, notFoundFull), None) \<Rightarrow>
          if notFound then Inl (wrapf (Sentinel ErrNoFullStatement) (''no any statement at height '' @
            FormatUint height @ '' for node '' @ squote node))
          else if notFoundFull then Inl (wrapf (Sentinel ErrNoFullStatement) (''no full statement at height '' @
            FormatUint height @ '' for node '' @ squote node))
          else Inr st)"

definition FoundStatementAtHeight ::
    "gowaves \<Rightarrow> 'd buntDB \<Rightarrow> 'd Storage \<Rightarrow> string \<Rightarrow> uint64 \<Rightarrow> error + bool" where
  "FoundStatementAtHeight gw bd s node height =
     (case GetFullStatementAtHeight gw bd s node height of
        Inl err \<Rightarrow>
          if errors_Is err ErrNoFullStatement then Inr False
          else Inl (wrapf err (''failed to get the last state hash at height '' @ FormatUint height @
            '' for node '' @ squote node))
      | Inr _ \<Rightarrow> Inr True)"

definition StateHashAtHeight ::
    "gowaves \<Rightarrow> 'd buntDB \<Rightarrow> 'd Storage \<Rightarrow> string \<Rightarrow> uint64 \<Rightarrow> error + StateHash" where
  "StateHashAtHeight gw bd s node height =
     (case GetFullStatementAtHeight gw bd s node height of
        Inl err \<Rightarrow> Inl (wrapf err (''failed to get state hash for node '' @ squote node @
          '' at height '' @ FormatUint height))
      | Inr st \<Rightarrow>
          (case st_StateHash st of
             None \<Rightarrow> Inl (Panic ''nil pointer dereference'')
           | Some sh \<Rightarrow> Inr sh))"

section \<open>Statements on a common height\<close>

abbreviation statement_stub :: "string \<Rightarrow> NodeStatus \<Rightarrow> uint64 \<Rightarrow> NodeStatement" where
  "statement_stub node status h \<equiv> zeroStatement\<lparr>st_Node := node, st_Status := status, st_Height := h\<rparr>"

text \<open>The loops range over the map \<open>nodesList\<close>; \<open>ks\<close> is the order.\<close>

fun findMinCommonLatestHeight ::
    "gowaves \<Rightarrow> 'd buntDB \<Rightarrow> 'd Storage \<Rightarrow> string list \<Rightarrow> NodeStatement list \<Rightarrow> (string, bool) gomap \<Rightarrow>
     uint64 \<Rightarrow> uint64 \<Rightarrow> error + NodeStatement list \<times> (string, bool) gomap \<times> uint64 \<times> uint64" where
  "findMinCommonLatestHeight gw bd s [] nodesHeights nodesList minHeight maxHeight =
     Inr (nodesHeights, nodesList, minHeight, maxHeight)"
| "findMinCommonLatestHeight gw bd s (node # ks) nodesHeights nodesList minHeight maxHeight =
     (case LatestHeight gw bd s node of
        Inl err \<Rightarrow>
          if \<not> errors_Is err ErrNoFullStatement then
            Inl (wrapf err (''failed to get the latest height for node '' @ squote node))
          else findMinCommonLatestHeight gw bd s ks (nodesHeights @ [statement_stub node Unreachable 0])
                 (nodesList(node \<mapsto> False)) minHeight maxHeight
      | Inr h \<Rightarrow>
          if h = 0 then findMinCommonLatestHeight gw bd s ks (nodesHeights @ [statement_stub node Unreachable 0])
                 (nodesList(node \<mapsto> False)) minHeight maxHeight
          else findMinCommonLatestHeight gw bd s ks (nodesHeights @ [statement_stub node OK h]) nodesList
                 (if h < minHeight then h else minHeight) (if h > maxHeight then h else maxHeight))"

fun findMinCommonSpecificHeight ::
    "gowaves \<Rightarrow> 'd buntDB \<Rightarrow> 'd Storage \<Rightarrow> string list \<Rightarrow> uint64 \<Rightarrow> error + NodeStatement list" where
  "findMinCommonSpecificHeight gw bd s [] minHeight = Inr []"
| "findMinCommonSpecificHeight gw bd s (node # ks) minHeight =
     (case FoundStatementAtHeight gw bd s node minHeight of
        Inl err \<Rightarrow> Inl (wrapf err (''failed to find min common specific height '' @ FormatUint minHeight @
          '' for node '' @ squote node))
      | Inr found \<Rightarrow>
          (case findMinCommonSpecificHeight gw bd s ks minHeight of
             Inl err \<Rightarrow> Inl err
           | Inr rest \<Rightarrow>
               Inr ((if found then statement_stub node OK minHeight else statement_stub node Unreachable 0) # rest)))"

text \<open>
  The inner loop of iteration \<open>i\<close> over the heights found so far: it gives \<open>sameHeight\<close> and the
  height to try next.
\<close>

fun compare_heights ::
    "nat \<Rightarrow> (string, bool) gomap \<Rightarrow> uint64 \<Rightarrow> bool \<Rightarrow> NodeStatement list \<Rightarrow> bool \<times> uint64" where
  "compare_heights i nodesList minHeight sameHeight [] = (sameHeight, minHeight)"
| "compare_heights i nodesList minHeight sameHeight (node # rest) =
     (if st_Height node \<noteq> minHeight \<and> map_get False nodesList (st_Node node) then
        if i > 0 then (False, minHeight - 1)
        else compare_heights i nodesList minHeight False rest
      else compare_heights i nodesList minHeight sameHeight rest)"

text \<open>The outer loop with \<open>n\<close> iterations left; \<open>kss i\<close> is the map order of iteration \<open>i\<close>.\<close>

fun common_height_loop ::
    "gowaves \<Rightarrow> 'd buntDB \<Rightarrow> 'd Storage \<Rightarrow> (nat \<Rightarrow> string list) \<Rightarrow> (string, bool) gomap \<Rightarrow> nat \<Rightarrow> nat \<Rightarrow>
     NodeStatement list \<Rightarrow> uint64 \<Rightarrow> error + uint64" where
  "common_height_loop gw bd s kss nodesList 0 i nodesHeights minHeight = Inr minHeight"
| "common_height_loop gw bd s kss nodesList (Suc n) i nodesHeights minHeight =
     (case compare_heights i nodesList minHeight True nodesHeights of
        (sameHeight, minHeight) \<Rightarrow>
          if sameHeight then Inr minHeight
          else (case findMinCommonSpecificHeight gw bd s (kss i) minHeight of
                  Inl err \<Rightarrow> Inl (wrapf err ''failed to find min common specific height'')
                | Inr nodesHeights \<Rightarrow>
                    common_height_loop gw bd s kss nodesList n (Suc i) nodesHeights minHeight))"

fun findStatementsOnHeight ::
    "gowaves \<Rightarrow> 'd buntDB \<Rightarrow> 'd Storage \<Rightarrow> string list \<Rightarrow> (string, bool) gomap \<Rightarrow> uint64 \<Rightarrow>
     error + NodeStatement list" where
  "findStatementsOnHeight gw bd s [] nodesList height = Inr []"
| "findStatementsOnHeight gw bd s (node # ks) nodesList height =
     (let continue = (\<lambda>st. case findStatementsOnHeight gw bd s ks nodesList height of
            Inl err \<Rightarrow> Inl err | Inr rest \<Rightarrow> Inr (st # rest))
      in if \<not> map_get False nodesList node then continue (statement_stub node Unreachable 0)
         else (case GetFullStatementAtHeight gw bd s node height of
            Inl storErr \<Rightarrow>
              if \<not> errors_Is storErr ErrNoFullStatement then
                Inl (wrapf storErr (''failed to find statement at height '' @ FormatUint height @
                  '' for node '' @ squote node))
              else continue (statement_stub node Unreachable 0)
          | Inr statement \<Rightarrow>
              continue (if st_Height statement = height then statement
                        else statement_stub node Unreachable 0)))"

text \<open>
  The result has both Go return values: the statements and the error. \<open>kl\<close>, \<open>kss\<close> and \<open>kf\<close> are
  the orders of the first, the middle and the last loops over the nodes.
\<close>

definition FindAllStatementsOnCommonHeight ::
    "gowaves \<Rightarrow> 'd buntDB \<Rightarrow> 'd Storage \<Rightarrow> string list \<Rightarrow> (nat \<Rightarrow> string list) \<Rightarrow> string list \<Rightarrow> string list \<Rightarrow>
     NodeStatement list \<times> error option" where
  "FindAllStatementsOnCommonHeight gw bd s kl kss kf nodes =
     (let nodesList = (\<lambda>n. if n \<in> set nodes then Some True else None) in
      case findMinCommonLatestHeight gw bd s kl [] nodesList MaxUint64 0 of
        Inl err \<Rightarrow> ([], Some (wrapf err ''failed to find min common latest height for nodes''))
      | Inr (nodesHeights, nodesList, minHeight, maxHeight) \<Rightarrow>
          if maxHeight - minHeight > heightDifference then
            (nodesHeights, Some (Sentinel ErrBigHeightDifference))
          else (case common_height_loop gw bd s kss nodesList depthCommonHeightSearch 0 nodesHeights minHeight of
                  Inl err \<Rightarrow> ([], Some err)
                | Inr h \<Rightarrow>
                    (case findStatementsOnHeight gw bd s kf nodesList h of
                       Inl err \<Rightarrow> ([], Some err)
                     | Inr sts \<Rightarrow> (sts, None))))"

end
