(* ===== verification/EventsHistory.thy ===== *)
theory EventsHistory
  imports EventsStorage
begin

text \<open>
  What the events storage promises. The documented behaviour of \<open>buntdb\<close> is the predicate
  \<open>buntdb_laws\<close>; \<open>store_ok\<close> is the invariant that every stored value is the JSON form of a
  statement under the statement's key. Under them the storage is a map from node and timestamp
  to statement (\<open>stored\<close>), a view visits the statements of a node in the order of \<open>history\<close>, and
  the height queries are searches in that list.
\<close>

section \<open>The documented behaviour of the database\<close>

text \<open>
  \<open>cont\<close> gives the unexpired pairs of a database state, \<open>glob pat key\<close> is the pattern match of
  key iteration, in which \<open>*\<close> stands for any characters, \<open>?\<close> for one, and a backslash quotes.
\<close>

definition literal :: "string \<Rightarrow> bool" where
  "literal p \<longleftrightarrow> set p \<inter> {CHR ''*'', CHR ''?'', CHR 0x5C} = {}"

definition keys_matching :: "(string, json) gomap \<Rightarrow> (string \<Rightarrow> bool) \<Rightarrow> (string \<times> json) list" where
  "keys_matching m P = map (\<lambda>k. (k, the (m k))) (sorted_list_of_set {k \<in> dom m. P k})"

definition buntdb_laws ::
    "'d buntDB \<Rightarrow> ('d \<Rightarrow> (string, json) gomap) \<Rightarrow> (string \<Rightarrow> string \<Rightarrow> bool) \<Rightarrow> bool" where
  "buntdb_laws bd cont glob \<longleftrightarrow>
     (\<forall>d. finite (dom (cont d))) \<and>
     (\<forall>d k. tx_Get bd d k = (case cont d k of None \<Rightarrow> Inl (Sentinel ErrNotFound) | Some v \<Rightarrow> Inr v)) \<and>
     (\<forall>d k v ttl. 0 < ttl \<longrightarrow> (\<exists>d'. tx_Set bd d k v ttl = Inr d' \<and> cont d' = (cont d)(k \<mapsto> v))) \<and>
     (\<forall>d. tx_Len bd d = Inr (int (card (dom (cont d))))) \<and>
     (\<forall>d p. tx_AscendKeys bd d p = (keys_matching (cont d) (glob p), None)) \<and>
     (\<forall>d p. tx_DescendKeys bd d p = (rev (keys_matching (cont d) (glob p)), None)) \<and>
     (\<forall>p q k. literal p \<and> literal q \<longrightarrow> (glob (p @ ''*'' @ q) k \<longleftrightarrow> (\<exists>m. k = p @ m @ q)))"

lemma buntdb_lawsD:
  assumes "buntdb_laws bd cont glob"
  shows "finite (dom (cont d))"
    and "tx_Get bd d k = (case cont d k of None \<Rightarrow> Inl (Sentinel ErrNotFound) | Some v \<Rightarrow> Inr v)"
    and "0 < ttl \<Longrightarrow> \<exists>d'. tx_Set bd d k v ttl = Inr d' \<and> cont d' = (cont d)(k \<mapsto> v)"
    and "tx_Len bd d = Inr (int (card (dom (cont d))))"
    and "tx_AscendKeys bd d p = (keys_matching (cont d) (glob p), None)"
    and "tx_DescendKeys bd d p = (rev (keys_matching (cont d) (glob p)), None)"
    and "literal p \<Longrightarrow> literal q \<Longrightarrow> glob (p @ ''*'' @ q) k \<longleftrightarrow> (\<exists>m. k = p @ m @ q)"
  using assms by (simp_all add: buntdb_laws_def)

section \<open>The invariant of the storage\<close>

definition node_ok :: "string \<Rightarrow> bool" where
  "node_ok n \<longleftrightarrow> key_node n \<and> literal n"

abbreviation statement_key :: "NodeStatement \<Rightarrow> string" where
  "statement_key st \<equiv> statementKey_String \<lparr>sk_node = st_Node st, sk_timestamp = st_Timestamp st\<rparr>"

definition store_ok ::
    "gowaves \<Rightarrow> 'd buntDB \<Rightarrow> ('d \<Rightarrow> (string, json) gomap) \<Rightarrow> (string \<Rightarrow> string \<Rightarrow> bool) \<Rightarrow> 'd Storage \<Rightarrow> bool" where
  "store_ok gw bd cont glob s \<longleftrightarrow>
     gowaves_ok gw \<and> buntdb_laws bd cont glob \<and> 0 < s_retentionDuration s \<and>
     (\<forall>k v. cont (s_db s) k = Some v \<longrightarrow>
        (\<exists>st. k = statement_key st \<and> v = NodeStatement_json gw st \<and>
              node_ok (st_Node st) \<and> in_int64 (st_Timestamp st)))"

lemma store_okD:
  assumes "store_ok gw bd cont glob s"
  shows "gowaves_ok gw" "buntdb_laws bd cont glob" "0 < s_retentionDuration s"
    and "cont (s_db s) k = Some v \<Longrightarrow> \<exists>st. k = statement_key st \<and> v = NodeStatement_json gw st \<and>
      node_ok (st_Node st) \<and> in_int64 (st_Timestamp st)"
  using assms unfolding store_ok_def by blast+

text \<open>The storage as a map, and the statements of a node in descending key order.\<close>

definition decode :: "gowaves \<Rightarrow> json \<Rightarrow> NodeStatement" where
  "decode gw v = (case NodeStatement_Unmarshal gw v of Inl _ \<Rightarrow> zeroStatement | Inr st \<Rightarrow> st)"

definition stored :: "gowaves \<Rightarrow> ('d \<Rightarrow> (string, json) gomap) \<Rightarrow> 'd Storage \<Rightarrow> string \<Rightarrow> int \<Rightarrow> NodeStatement option" where
  "stored gw cont s node ts =
     map_option (decode gw) (cont (s_db s) (statementKey_String \<lparr>sk_node = node, sk_timestamp = ts\<rparr>))"

definition matching :: "gowaves \<Rightarrow> ('d \<Rightarrow> (string, json) gomap) \<Rightarrow> 'd Storage \<Rightarrow> (string \<Rightarrow> bool) \<Rightarrow> NodeStatement list" where
  "matching gw cont s P = rev (map (decode gw \<circ> snd) (keys_matching (cont (s_db s)) P))"

definition history :: "gowaves \<Rightarrow> ('d \<Rightarrow> (string, json) gomap) \<Rightarrow> 'd Storage \<Rightarrow> string \<Rightarrow> NodeStatement list" where
  "history gw cont s node = matching gw cont s (prefix (newStatementKey node []))"

lemma decode_json [simp]:
  "gowaves_ok gw \<Longrightarrow> in_int64 (st_Timestamp st) \<Longrightarrow> decode gw (NodeStatement_json gw st) = st"
  by (simp add: decode_def NodeStatement_roundtrip)

lemma stored_SomeD:
  assumes "store_ok gw bd cont glob s" "stored gw cont s node ts = Some st" "node_ok node" "in_int64 ts"
  shows "st_Node st = node" "st_Timestamp st = ts"
proof -
  from assms(2) obtain v where v: "cont (s_db s) (statementKey_String \<lparr>sk_node = node, sk_timestamp = ts\<rparr>) = Some v"
    "st = decode gw v" by (auto simp: stored_def)
  from store_okD(4) [OF assms(1) v(1)] obtain st' where
    st': "statementKey_String \<lparr>sk_node = node, sk_timestamp = ts\<rparr> = statement_key st'"
    "v = NodeStatement_json gw st'" "node_ok (st_Node st')" "in_int64 (st_Timestamp st')" by blast
  have "st = st'" using v(2) st' store_okD(1) [OF assms(1)] by simp
  with key.print_inj [OF _ _ st'(1)] st'(3,4) assms(3,4) show "st_Node st = node" "st_Timestamp st = ts"
    by (auto simp: valid_key_def node_ok_def)
qed

section \<open>Writing\<close>

definition event_ok :: "Event \<Rightarrow> bool" where
  "event_ok e \<longleftrightarrow> node_ok (Event_Node e) \<and> in_int64 (Event_Timestamp e)"

lemma PutEvent_stored:
  assumes "store_ok gw bd cont glob s" "event_ok e"
  shows "\<exists>s'. PutEvent gw bd s e = (s', None) \<and> store_ok gw bd cont glob s' \<and>
    s_retentionDuration s' = s_retentionDuration s \<and>
    (\<forall>n ts. node_ok n \<and> in_int64 ts \<longrightarrow> stored gw cont s' n ts =
      (if n = Event_Node e \<and> ts = Event_Timestamp e then Some (Event_Statement e) else stored gw cont s n ts))"
proof -
  let ?k = "statementKey_String \<lparr>sk_node = Event_Node e, sk_timestamp = Event_Timestamp e\<rparr>"
  note ok = store_okD [OF assms(1)]
  from buntdb_lawsD(3) [OF ok(2) ok(3)] obtain d' where
    d': "tx_Set bd (s_db s) ?k (makeValue gw e) (s_retentionDuration s) = Inr d'"
      "cont d' = (cont (s_db s))(?k \<mapsto> makeValue gw e)" by blast
  let ?s = "s\<lparr>s_db := d'\<rparr>"
  have node: "node_ok (st_Node (Event_Statement e))" "in_int64 (st_Timestamp (Event_Statement e))"
    using assms(2) by (simp_all add: event_ok_def event.statement_node event.statement_ts)
  have key: "statement_key (Event_Statement e) = ?k"
    by (simp add: event.statement_node event.statement_ts)
  have "store_ok gw bd cont glob ?s"
    using assms(1) node key unfolding store_ok_def
    by (auto simp: d' makeValue_def split: if_splits) (metis key)
  moreover have "stored gw cont ?s n ts =
      (if n = Event_Node e \<and> ts = Event_Timestamp e then Some (Event_Statement e) else stored gw cont s n ts)"
    if "node_ok n" "in_int64 ts" for n ts
    using key.print_inj [of "\<lparr>sk_node = n, sk_timestamp = ts\<rparr>" "\<lparr>sk_node = Event_Node e, sk_timestamp = Event_Timestamp e\<rparr>"]
      that assms(2) ok(1) node
    by (auto simp: stored_def d' makeValue_def valid_key_def node_ok_def event_ok_def)
  ultimately show ?thesis
    using d' by (intro exI [of _ ?s]) (simp add: PutEvent_def)
qed

lemma GetStatement_stored:
  assumes "store_ok gw bd cont glob s" "node_ok node" "in_int64 ts"
  shows "GetStatement gw bd s node ts =
    (case stored gw cont s node ts of
       None \<Rightarrow> Inl (wrapf (Sentinel ErrNotFound) (''failed to get node statement from db by key '' @
         Quote (statementKey_String \<lparr>sk_node = node, sk_timestamp = ts\<rparr>)))
     | Some st \<Rightarrow> Inr st)"
proof (cases "cont (s_db s) (statementKey_String \<lparr>sk_node = node, sk_timestamp = ts\<rparr>)")
  case None
  then show ?thesis
    by (simp add: GetStatement_def stored_def buntdb_lawsD(2) [OF store_okD(2) [OF assms(1)]])
next
  case (Some v)
  from store_okD(4) [OF assms(1) Some] obtain st where
    "v = NodeStatement_json gw st" "in_int64 (st_Timestamp st)" by blast
  with Some show ?thesis
    by (simp add: GetStatement_def stored_def buntdb_lawsD(2) [OF store_okD(2) [OF assms(1)]]
        NodeStatement_roundtrip store_okD(1) [OF assms(1)] decode_def)
qed

section \<open>Views\<close>

fun iter_until :: "('a \<Rightarrow> 'b \<Rightarrow> 'a \<times> bool) \<Rightarrow> 'a \<Rightarrow> 'b list \<Rightarrow> 'a" where
  "iter_until f acc [] = acc"
| "iter_until f acc (x # xs) = (let (acc', more) = f acc x in if more then iter_until f acc' xs else acc')"

lemma iter_until_collect: "iter_until (\<lambda>acc x. (acc @ [x], True)) acc xs = acc @ xs"
  by (induction xs arbitrary: acc) auto

lemma iter_until_map: "iter_until (\<lambda>acc x. (acc @ [f x], True)) acc xs = acc @ map f xs"
  by (induction xs arbitrary: acc) auto

lemma view_loop_decodes:
  assumes "\<forall>(k, v) \<in> set kvs. \<exists>st. NodeStatement_Unmarshal gw v = Inr st"
  shows "view_loop gw f acc kvs = (iter_until f acc (map (decode gw \<circ> snd) kvs), None)"
  using assms
proof (induction kvs arbitrary: acc)
  case (Cons kv kvs)
  obtain k v where kv: "kv = (k, v)" by fastforce
  with Cons.prems obtain st where "NodeStatement_Unmarshal gw v = Inr st" by auto
  with Cons show ?case by (simp add: kv decode_def split: prod.splits)
qed simp

lemma keys_matching_mem:
  assumes "store_ok gw bd cont glob s" "(k, v) \<in> set (keys_matching (cont (s_db s)) P)"
  shows "P k \<and> (\<exists>st. k = statement_key st \<and> decode gw v = st \<and> NodeStatement_Unmarshal gw v = Inr st \<and>
    node_ok (st_Node st) \<and> in_int64 (st_Timestamp st) \<and> stored gw cont s (st_Node st) (st_Timestamp st) = Some st)"
proof -
  have fin: "finite {k \<in> dom (cont (s_db s)). P k}"
    using buntdb_lawsD(1) [OF store_okD(2) [OF assms(1)], of "s_db s"] by simp
  from assms(2) have k: "k \<in> dom (cont (s_db s))" "P k" "v = the (cont (s_db s) k)"
    using fin by (auto simp: keys_matching_def)
  then have "cont (s_db s) k = Some v" by auto
  from store_okD(4) [OF assms(1) this] obtain st where
    "k = statement_key st" "v = NodeStatement_json gw st" "node_ok (st_Node st)" "in_int64 (st_Timestamp st)" by blast
  with k \<open>cont (s_db s) k = Some v\<close> store_okD(1) [OF assms(1)] show ?thesis
    by (auto simp: NodeStatement_roundtrip stored_def)
qed

lemma view_descend:
  assumes "store_ok gw bd cont glob s" "\<And>k. glob pat k = P k"
  shows "viewByKeyPatternWithDescendKeys gw bd s pat f acc = (iter_until f acc (matching gw cont s P), None)"
proof -
  have g: "glob pat = P" using assms(2) by blast
  have "view_loop gw f acc (rev (keys_matching (cont (s_db s)) P))
      = (iter_until f acc (map (decode gw \<circ> snd) (rev (keys_matching (cont (s_db s)) P))), None)"
    using keys_matching_mem [OF assms(1)] by (intro view_loop_decodes) fastforce
  then show ?thesis
    by (simp add: viewByKeyPatternWithDescendKeys_def buntdb_lawsD(6) [OF store_okD(2) [OF assms(1)]] g
        couple_errors_def matching_def rev_map)
qed

lemma view_ascend:
  assumes "store_ok gw bd cont glob s" "\<And>k. glob pat k = P k"
  shows "viewByKeyPatternWithAscendKeys gw bd s pat f acc = (iter_until f acc (rev (matching gw cont s P)), None)"
proof -
  have g: "glob pat = P" using assms(2) by blast
  have "view_loop gw f acc (keys_matching (cont (s_db s)) P)
      = (iter_until f acc (map (decode gw \<circ> snd) (keys_matching (cont (s_db s)) P)), None)"
    using keys_matching_mem [OF assms(1)] by (intro view_loop_decodes) fastforce
  then show ?thesis
    by (simp add: viewByKeyPatternWithAscendKeys_def buntdb_lawsD(5) [OF store_okD(2) [OF assms(1)]] g
        couple_errors_def matching_def)
qed

lemma matching_mem:
  assumes "store_ok gw bd cont glob s" "st \<in> set (matching gw cont s P)"
  shows "P (statement_key st)" "node_ok (st_Node st)" "in_int64 (st_Timestamp st)"
    "stored gw cont s (st_Node st) (st_Timestamp st) = Some st"
proof -
  from assms(2) obtain k v where "(k, v) \<in> set (keys_matching (cont (s_db s)) P)" "st = decode gw v"
    by (auto simp: matching_def)
  with keys_matching_mem [OF assms(1), of k v P]
  show "P (statement_key st)" "node_ok (st_Node st)" "in_int64 (st_Timestamp st)"
    "stored gw cont s (st_Node st) (st_Timestamp st) = Some st" by auto
qed

lemma matching_complete:
  assumes "store_ok gw bd cont glob s" "stored gw cont s n ts = Some st" "node_ok n" "in_int64 ts"
    "P (statementKey_String \<lparr>sk_node = n, sk_timestamp = ts\<rparr>)"
  shows "st \<in> set (matching gw cont s P)"
proof -
  let ?k = "statementKey_String \<lparr>sk_node = n, sk_timestamp = ts\<rparr>"
  have fin: "finite {k \<in> dom (cont (s_db s)). P k}"
    using buntdb_lawsD(1) [OF store_okD(2) [OF assms(1)], of "s_db s"] by simp
  from assms(2) obtain v where v: "cont (s_db s) ?k = Some v" "st = decode gw v" by (auto simp: stored_def)
  with assms(5) fin have "(?k, v) \<in> set (keys_matching (cont (s_db s)) P)"
    by (auto simp: keys_matching_def image_iff intro!: bexI [of _ ?k])
  with v(2) show ?thesis by (force simp: matching_def)
qed

section \<open>The statements of a node\<close>

lemma key_prefix_node:
  assumes "key_node n" "key_node m" "prefix (newStatementKey n []) (newStatementKey m t)"
  shows "n = m"
proof -
  let ?P = "\<lambda>c. c \<noteq> statementKeyPartSeparator"
  have tw: "takeWhile ?P (a @ statementKeyPartSeparator # r) = a" if "key_node a" for a r
    using that by (subst takeWhile_append2) (auto simp: key_node_def)
  from assms(3) obtain r where "m @ [statementKeyPartSeparator] @ statementKeyTimestampPartPrefix @ t =
      n @ [statementKeyPartSeparator] @ statementKeyTimestampPartPrefix @ r"
    by (auto simp: newStatementKey_def prefix_def)
  from arg_cong [where f = "takeWhile ?P", OF this] show ?thesis
    using tw assms(1,2) by simp
qed

lemma literal_append [simp]: "literal (p @ q) \<longleftrightarrow> literal p \<and> literal q"
  by (auto simp: literal_def)

lemma literal_key: "literal n \<Longrightarrow> literal (newStatementKey n [])"
  by (auto simp: literal_def key_defs)

lemma glob_node:
  assumes "store_ok gw bd cont glob s" "node_ok node"
  shows "glob (newStatementKey node ''*'') k = prefix (newStatementKey node []) k"
proof -
  have "glob (newStatementKey node [] @ ''*'' @ []) k \<longleftrightarrow> (\<exists>m. k = newStatementKey node [] @ m @ [])"
    using assms(2) literal_key
    by (intro buntdb_lawsD(7) [OF store_okD(2) [OF assms(1)]]) (auto simp: node_ok_def literal_def)
  then show ?thesis by (simp add: newStatementKey_def prefix_def)
qed

lemma history_node: "store_ok gw bd cont glob s \<Longrightarrow> node_ok n \<Longrightarrow> st \<in> set (history gw cont s n) \<Longrightarrow> st_Node st = n"
  unfolding history_def using matching_mem [of gw bd cont glob s st]
  by (metis key_prefix_node node_ok_def statementKey.select_convs(1) statementKey_String_def)

lemma set_history:
  assumes "store_ok gw bd cont glob s" "node_ok n"
  shows "set (history gw cont s n) = {st. \<exists>ts. in_int64 ts \<and> stored gw cont s n ts = Some st}"
proof (intro set_eqI iffI)
  fix st assume st: "st \<in> set (history gw cont s n)"
  from history_node [OF assms st] matching_mem(3,4) [OF assms(1) st [unfolded history_def]]
  show "st \<in> {st. \<exists>ts. in_int64 ts \<and> stored gw cont s n ts = Some st}" by auto
next
  fix st assume "st \<in> {st. \<exists>ts. in_int64 ts \<and> stored gw cont s n ts = Some st}"
  then obtain ts where "in_int64 ts" "stored gw cont s n ts = Some st" by blast
  with matching_complete [OF assms(1) this(2) assms(2)] show "st \<in> set (history gw cont s n)"
    by (auto simp: history_def statementKey_String_def newStatementKey_def prefix_def)
qed

lemma matching_sorted:
  assumes "store_ok gw bd cont glob s"
  shows "sorted_wrt (\<lambda>a b. statement_key b < statement_key a) (matching gw cont s P)"
proof -
  let ?K = "{k \<in> dom (cont (s_db s)). P k}"
  have fin: "finite ?K" using buntdb_lawsD(1) [OF store_okD(2) [OF assms], of "s_db s"] by simp
  have key: "statement_key (decode gw (the (cont (s_db s) k))) = k" if "k \<in> ?K" for k
  proof -
    from that obtain v where v: "cont (s_db s) k = Some v" by auto
    from store_okD(4) [OF assms v] store_okD(1) [OF assms] show ?thesis using v by auto
  qed
  have "sorted_wrt (<) (sorted_list_of_set ?K)" by simp
  then have "sorted_wrt (\<lambda>a b. statement_key (decode gw (the (cont (s_db s) a))) <
      statement_key (decode gw (the (cont (s_db s) b)))) (sorted_list_of_set ?K)"
    by (rule sorted_wrt_mono_rel [rotated]) (use key fin in auto)
  then show ?thesis
    by (simp add: matching_def keys_matching_def sorted_wrt_rev sorted_wrt_map comp_def)
qed

text \<open>With timestamps of the same number of digits, the history is ordered by time, newest first.\<close>

lemma history_newest_first:
  assumes "store_ok gw bd cont glob s" "node_ok n"
    and "\<forall>a \<in> set (history gw cont s n). \<forall>b \<in> set (history gw cont s n). same_digits (st_Timestamp a) (st_Timestamp b)"
  shows "sorted_wrt (\<lambda>a b. st_Timestamp b < st_Timestamp a) (history gw cont s n)"
proof -
  have "sorted_wrt (\<lambda>a b. statement_key b < statement_key a) (history gw cont s n)"
    unfolding history_def by (rule matching_sorted [OF assms(1)])
  then show ?thesis
    by (rule sorted_wrt_mono_rel [rotated])
       (use assms(3) history_node [OF assms(1,2)] in \<open>auto simp: statementKey_String_def key_less_iff\<close>)
qed

lemma view_node:
  assumes "store_ok gw bd cont glob s" "node_ok node"
  shows "viewByKeyPatternWithDescendKeys gw bd s (newStatementKey node ''*'') f acc
      = (iter_until f acc (history gw cont s node), None)"
    "viewByKeyPatternWithAscendKeys gw bd s (newStatementKey node ''*'') f acc
      = (iter_until f acc (rev (history gw cont s node)), None)"
    "ViewStatementsByNodeWithDescendKeys gw bd s node f acc = (iter_until f acc (history gw cont s node), None)"
  by (simp_all add: history_def ViewStatementsByNodeWithDescendKeys_def
      view_descend [OF assms(1) glob_node [OF assms]] view_ascend [OF assms(1) glob_node [OF assms]])

text \<open>The statements of one timestamp, in descending order of their nodes.\<close>

definition at_timestamp :: "gowaves \<Rightarrow> ('d \<Rightarrow> (string, json) gomap) \<Rightarrow> 'd Storage \<Rightarrow> int \<Rightarrow> NodeStatement list" where
  "at_timestamp gw cont s ts = matching gw cont s
     (\<lambda>k. \<exists>m. k = statementKeyNodePartPrefix @ m @ [statementKeyPartSeparator] @ statementKeyTimestampPartPrefix @ FormatInt ts)"

lemma FormatInt_literal: "literal (FormatInt i)"
proof -
  have "digit_char d \<notin> {CHR ''*'', CHR ''?'', CHR 0x5C}" if "d < 10" for d
  proof -
    have "(of_char (digit_char d) :: nat) \<ge> 48 \<and> (of_char (digit_char d) :: nat) < 58"
      using that by (simp add: of_char_digit)
    then show ?thesis by auto
  qed
  then show ?thesis by (fastforce simp: literal_def FormatInt_def dest!: dec_digits_set)
qed

lemma view_timestamp:
  assumes "store_ok gw bd cont glob s"
  shows "ViewStatementsByTimestamp gw bd s ts f acc = (iter_until f acc (at_timestamp gw cont s ts), None)"
proof -
  have "glob (newStatementKey ''*'' (FormatInt ts)) k \<longleftrightarrow> (\<exists>m. k = statementKeyNodePartPrefix @ m @
      [statementKeyPartSeparator] @ statementKeyTimestampPartPrefix @ FormatInt ts)" for k
    using buntdb_lawsD(7) [OF store_okD(2) [OF assms], of statementKeyNodePartPrefix
        "[statementKeyPartSeparator] @ statementKeyTimestampPartPrefix @ FormatInt ts" k]
    using FormatInt_literal by (auto simp: newStatementKey_def literal_def key_defs)
  then show ?thesis
    by (simp add: ViewStatementsByTimestamp_def at_timestamp_def view_descend [OF assms])
qed

lemma set_at_timestamp:
  assumes "store_ok gw bd cont glob s" "in_int64 ts"
  shows "set (at_timestamp gw cont s ts) = {st. \<exists>n. node_ok n \<and> stored gw cont s n ts = Some st}"
proof (intro set_eqI iffI)
  fix st assume st: "st \<in> set (at_timestamp gw cont s ts)"
  note m = matching_mem [OF assms(1) st [unfolded at_timestamp_def]]
  from m(1) obtain n where "statement_key st = newStatementKey n (FormatInt ts)"
    by (auto simp: newStatementKey_def)
  moreover have "key_node (st_Node st)" using m(2) by (simp add: node_ok_def)
  ultimately have "st_Timestamp st = ts"
  proof -
    assume eq: "statement_key st = newStatementKey n (FormatInt ts)" and kn: "key_node (st_Node st)"
    let ?P = "\<lambda>c. c \<noteq> statementKeyPartSeparator"
    have tw: "takeWhile ?P (rev (xs @ statementKeyPartSeparator # statementKeyTimestampPartPrefix @ FormatInt i))
        = rev (statementKeyTimestampPartPrefix @ FormatInt i)" for xs i
    proof -
      have "\<forall>c \<in> set (rev (statementKeyTimestampPartPrefix @ FormatInt i)). ?P c"
        using FormatInt_no_bar [of i] by (auto simp: key_defs)
      then show ?thesis
        using takeWhile_append2 [of "rev (statementKeyTimestampPartPrefix @ FormatInt i)" ?P "statementKeyPartSeparator # rev xs"]
        by simp
    qed
    from eq have "takeWhile ?P (rev (statement_key st)) = takeWhile ?P (rev (newStatementKey n (FormatInt ts)))" by simp
    then have "FormatInt (st_Timestamp st) = FormatInt ts"
      using tw [of "statementKeyNodePartPrefix @ st_Node st" "st_Timestamp st"]
        tw [of "statementKeyNodePartPrefix @ n" ts]
      by (simp add: statementKey_String_def newStatementKey_def del: rev_append)
    then show ?thesis using FormatInt_inj m(3) assms(2) by blast
  qed
  with m show "st \<in> {st. \<exists>n. node_ok n \<and> stored gw cont s n ts = Some st}" by auto
next
  fix st assume "st \<in> {st. \<exists>n. node_ok n \<and> stored gw cont s n ts = Some st}"
  then obtain n where "node_ok n" "stored gw cont s n ts = Some st" by blast
  with matching_complete [OF assms(1) this(2,1) assms(2)] show "st \<in> set (at_timestamp gw cont s ts)"
    by (auto simp: at_timestamp_def statementKey_String_def newStatementKey_def)
qed

section \<open>Heights\<close>

abbreviation full :: "NodeStatement \<Rightarrow> bool" where
  "full st \<equiv> st_StateHash st \<noteq> None"

definition full_at :: "uint64 \<Rightarrow> NodeStatement list \<Rightarrow> NodeStatement option" where
  "full_at h xs = find (\<lambda>s. st_Height s = h \<and> full s) (takeWhile (\<lambda>s. st_Height s = 0 \<or> h \<le> st_Height s) xs)"

definition newest_full_height :: "NodeStatement list \<Rightarrow> uint64 option" where
  "newest_full_height xs = (case find full xs of
     None \<Rightarrow> None | Some st \<Rightarrow> if st_Height st = 0 then None else Some (st_Height st))"

lemma iter_first_full: "iter_until first_full_height h xs = (case find full xs of None \<Rightarrow> h | Some st \<Rightarrow> st_Height st)"
  by (induction xs) (auto simp: first_full_height_def)

lemma full_at_step_simps:
  "\<not> (st_Height s = 0 \<or> h \<le> st_Height s) \<Longrightarrow> full_at_step h (st, nf, nff) s = ((s, nf, nff), False)"
  "st_Height s = 0 \<or> h \<le> st_Height s \<Longrightarrow> full_at_step h acc s =
    ((s, st_Height s \<noteq> h, st_Height s \<noteq> h \<or> \<not> full s), st_Height s \<noteq> h \<or> \<not> full s)"
  by (auto simp: full_at_step_def Let_def split: prod.splits)

lemma iter_full_at:
  "iter_until (full_at_step h) (st, nf, True) xs = r \<Longrightarrow>
   (case full_at h xs of Some st' \<Rightarrow> r = (st', False, False) | None \<Rightarrow> snd (snd r))"
proof (induction xs arbitrary: st nf)
  case Nil
  then show ?case by (auto simp: full_at_def)
next
  case (Cons x xs)
  show ?case
  proof (cases "st_Height x = 0 \<or> h \<le> st_Height x")
    case False
    with Cons.prems show ?thesis
      by (simp add: full_at_step_simps(1) [OF False] full_at_def) auto
  next
    case True
    note step = full_at_step_simps(2) [OF True]
    show ?thesis
    proof (cases "st_Height x = h \<and> full x")
      case hit: True
      with Cons.prems True show ?thesis by (auto simp: step full_at_def)
    next
      case False
      then have b: "(st_Height x \<noteq> h \<or> \<not> full x) = True" by blast
      with Cons.prems have "iter_until (full_at_step h) (x, st_Height x \<noteq> h, True) xs = r"
        unfolding iter_until.simps step b by simp
      from Cons.IH [OF this] True False show ?thesis by (auto simp: full_at_def)
    qed
  qed
qed

lemma GetFull_full_at:
  assumes "store_ok gw bd cont glob s" "node_ok node"
  shows "(case full_at h (history gw cont s node) of
      Some st \<Rightarrow> GetFullStatementAtHeight gw bd s node h = Inr st
    | None \<Rightarrow> \<exists>e. GetFullStatementAtHeight gw bd s node h = Inl e \<and> errors_Is e ErrNoFullStatement \<and> \<not> is_panic e)"
  using iter_full_at [OF refl, of h zeroStatement True "history gw cont s node"]
  by (auto simp: GetFullStatementAtHeight_def view_node [OF assms] split: option.splits prod.splits)

lemma full_at_SomeD:
  assumes "full_at h xs = Some st"
  shows "st \<in> set xs" "st_Height st = h" "full st"
  using assms unfolding full_at_def by (auto simp: find_Some_iff dest!: nth_mem set_takeWhileD)

lemma LatestHeight_newest:
  assumes "store_ok gw bd cont glob s" "node_ok node"
  shows "(case newest_full_height (history gw cont s node) of
      Some h \<Rightarrow> LatestHeight gw bd s node = Inr h
    | None \<Rightarrow> \<exists>e. LatestHeight gw bd s node = Inl e \<and> errors_Is e ErrNoFullStatement \<and> \<not> is_panic e)"
  by (auto simp: LatestHeight_def view_node [OF assms] iter_first_full newest_full_height_def split: option.splits)

lemma EarliestHeight_oldest:
  assumes "store_ok gw bd cont glob s" "node_ok node"
  shows "(case newest_full_height (rev (history gw cont s node)) of
      Some h \<Rightarrow> EarliestHeight gw bd s node = Inr h
    | None \<Rightarrow> \<exists>e. EarliestHeight gw bd s node = Inl e \<and> errors_Is e ErrNoFullStatement \<and> \<not> is_panic e)"
  by (auto simp: EarliestHeight_def view_node [OF assms] iter_first_full newest_full_height_def split: option.splits)

lemma newest_full_height_pos: "newest_full_height xs = Some h \<Longrightarrow> h \<noteq> 0"
  by (auto simp: newest_full_height_def split: option.splits if_splits)

end
