(* ===== verification/EventsPolicy.thy ===== *)
theory EventsPolicy
  imports EventsHistory
begin

text \<open>
  The properties of the events storage: reading back what was written, the order of a view,
  the statement at a height, and the search for a common height of several nodes. The
  witnesses run on \<open>demo_db\<close>, a database that keeps its pairs in a list.
\<close>

section \<open>A concrete database\<close>

definition demo_glob :: "string \<Rightarrow> string \<Rightarrow> bool" where
  "demo_glob pat k \<longleftrightarrow>
     (let p = takeWhile (\<lambda>c. c \<noteq> CHR ''*'') pat; q = tl (dropWhile (\<lambda>c. c \<noteq> CHR ''*'') pat)
      in prefix p k \<and> suffix q (drop (length p) k))"

type_synonym demo_pairs = "(string \<times> json) list"

definition demo_db :: "demo_pairs buntDB" where
  "demo_db =
     \<lparr>tx_Get = (\<lambda>d k. case map_of d k of None \<Rightarrow> Inl (Sentinel ErrNotFound) | Some v \<Rightarrow> Inr v),
      tx_Set = (\<lambda>d k v ttl. if 0 < ttl then Inr ((k, v) # d) else Inr d),
      tx_Len = (\<lambda>d. Inr (int (card (dom (map_of d))))),
      tx_AscendKeys = (\<lambda>d p. (keys_matching (map_of d) (demo_glob p), None)),
      tx_DescendKeys = (\<lambda>d p. (rev (keys_matching (map_of d) (demo_glob p)), None))\<rparr>"

lemma demo_glob_star:
  assumes "literal p" "literal q"
  shows "demo_glob (p @ ''*'' @ q) k \<longleftrightarrow> (\<exists>m. k = p @ m @ q)"
proof -
  have "\<forall>c \<in> set p. c \<noteq> CHR ''*''" using assms(1) by (auto simp: literal_def)
  then have "takeWhile (\<lambda>c. c \<noteq> CHR ''*'') (p @ ''*'' @ q) = p"
    "dropWhile (\<lambda>c. c \<noteq> CHR ''*'') (p @ ''*'' @ q) = ''*'' @ q"
    by (simp_all add: takeWhile_append2 dropWhile_append2)
  then have "demo_glob (p @ ''*'' @ q) k \<longleftrightarrow> prefix p k \<and> suffix q (drop (length p) k)"
    by (simp add: demo_glob_def)
  also have "\<dots> \<longleftrightarrow> (\<exists>m. k = p @ m @ q)"
    by (metis append_eq_conv_conj prefix_def suffix_def)
  finally show ?thesis .
qed

lemma demo_db_laws: "buntdb_laws demo_db map_of demo_glob"
  unfolding buntdb_laws_def using demo_glob_star
  by (auto simp: demo_db_def finite_dom_map_of split: option.splits)

definition demo_events :: "demo_pairs Storage" where
  "demo_events = \<lparr>s_db = [], s_retentionDuration = 60\<rparr>"

abbreviation demo_ok :: "demo_pairs Storage \<Rightarrow> bool" where
  "demo_ok \<equiv> store_ok demo_gowaves demo_db map_of demo_glob"

lemma demo_events_ok: "demo_ok demo_events"
  by (simp add: store_ok_def demo_events_def demo_gowaves_ok demo_db_laws)

text \<open>Storing a list of events, one after the other.\<close>

fun put_all :: "gowaves \<Rightarrow> 'd buntDB \<Rightarrow> 'd Storage \<Rightarrow> Event list \<Rightarrow> 'd Storage" where
  "put_all gw bd s [] = s"
| "put_all gw bd s (e # es) = put_all gw bd (fst (PutEvent gw bd s e)) es"

lemma put_all_ok:
  "store_ok gw bd cont glob s \<Longrightarrow> \<forall>e \<in> set es. event_ok e \<Longrightarrow> store_ok gw bd cont glob (put_all gw bd s es)"
proof (induction es arbitrary: s)
  case (Cons e es)
  with PutEvent_stored [of gw bd cont glob s e] show ?case by force
qed simp

lemma stored_put_all:
  assumes "store_ok gw bd cont glob s" "\<forall>e \<in> set es. event_ok e" "node_ok n" "in_int64 ts"
  shows "stored gw cont (put_all gw bd s es) n ts =
    (case find (\<lambda>e. Event_Node e = n \<and> Event_Timestamp e = ts) (rev es) of
       Some e \<Rightarrow> Some (Event_Statement e) | None \<Rightarrow> stored gw cont s n ts)"
  using assms(1,2)
proof (induction es arbitrary: s)
  case (Cons e es)
  have find_app: "find P (xs @ [x]) = (case find P xs of None \<Rightarrow> if P x then Some x else None | r \<Rightarrow> r)"
    for P :: "Event \<Rightarrow> bool" and xs x by (induction xs) auto
  have e: "event_ok e" using Cons.prems(2) by simp
  from PutEvent_stored [OF Cons.prems(1) e] obtain s' where
    s': "PutEvent gw bd s e = (s', None)" "store_ok gw bd cont glob s'"
    "stored gw cont s' n ts = (if n = Event_Node e \<and> ts = Event_Timestamp e then Some (Event_Statement e)
       else stored gw cont s n ts)" using assms(3,4) by blast
  with Cons show ?case by (auto simp: find_app split: option.splits)
qed simp

lemma dec_digits_small: "n < 10 \<Longrightarrow> dec_digits n = [digit_char n]"
  by (simp add: dec_digits.simps [of n])

lemma stored_demo_events: "stored gw map_of demo_events n ts = None"
  by (simp add: stored_def demo_events_def)

lemma in_int64_small [simp]: "in_int64 0" "in_int64 1" "in_int64 (numeral k) \<longleftrightarrow> (numeral k :: int) < 2 ^ 63"
  by (simp_all add: in_int64_def order_trans [of _ 0])

lemma demo_node [simp]: "node_ok ''a''" "node_ok ''b''" "node_ok ''c''"
  by (simp_all add: node_ok_def key_node_def literal_def statementKeyPartSeparator_def)

text \<open>The history of a node from its stored statements, for timestamps of the same length.\<close>

lemma history_eqI:
  assumes "store_ok gw bd cont glob s" "node_ok n"
    and "\<And>ts st. in_int64 ts \<Longrightarrow> stored gw cont s n ts = Some st \<Longrightarrow> st \<in> set xs"
    and "\<And>st. st \<in> set xs \<Longrightarrow> in_int64 (st_Timestamp st) \<and> stored gw cont s n (st_Timestamp st) = Some st"
    and "sorted_wrt (\<lambda>a b. st_Timestamp b < st_Timestamp a) xs"
    and "\<forall>a \<in> set xs. \<forall>b \<in> set xs. same_digits (st_Timestamp a) (st_Timestamp b)"
  shows "history gw cont s n = xs"
proof (rule sorted_desc_unique [where f = st_Timestamp])
  show set: "set (history gw cont s n) = set xs"
    using set_history [OF assms(1,2)] assms(3,4) by blast
  show "sorted_wrt (\<lambda>a b. st_Timestamp b < st_Timestamp a) (history gw cont s n)"
    by (rule history_newest_first [OF assms(1,2)]) (simp add: set assms(6))
qed (rule assms(5))

lemma same_digits_small: "0 \<le> t \<Longrightarrow> t < 10 \<Longrightarrow> 0 \<le> u \<Longrightarrow> u < 10 \<Longrightarrow> same_digits t u"
  by (simp add: same_digits_def FormatInt_def dec_digits_small nat_less_iff)

definition demo_hash :: StateHash where
  "demo_hash = \<lparr>sh_BlockID = ''B'', sh_SumHash = zeroDigest\<rparr>"

definition demo_event :: "string \<Rightarrow> int \<Rightarrow> uint64 \<Rightarrow> StateHash \<Rightarrow> Event" where
  "demo_event node ts h sh = Ev_StateHash (NewStateHashEvent node ts ''v'' h (Some sh) 1 None None False)"

abbreviation demo_full :: "string \<Rightarrow> int \<Rightarrow> uint64 \<Rightarrow> Event" where
  "demo_full node ts h \<equiv> demo_event node ts h demo_hash"

lemma demo_event_simps [simp]:
  "Event_Node (demo_event node ts h sh) = node" "Event_Timestamp (demo_event node ts h sh) = ts"
  "st_Timestamp (Event_Statement (demo_event node ts h sh)) = ts"
  "st_Node (Event_Statement (demo_event node ts h sh)) = node"
  "st_Height (Event_Statement (demo_event node ts h sh)) = h"
  "st_StateHash (Event_Statement (demo_event node ts h sh)) = Some sh"
  "st_Status (Event_Statement (demo_event node ts h sh)) = OK"
  "event_ok (demo_event node ts h sh) \<longleftrightarrow> node_ok node \<and> in_int64 ts"
  by (simp_all add: demo_event_def New_event_defs Statement_defs event_ok_def)

text \<open>Node \<open>a\<close> at heights 10 and 11, node \<open>b\<close> at height 10.\<close>

definition demo_chain_events :: "Event list" where
  "demo_chain_events = [demo_full ''a'' 1 10, demo_full ''b'' 1 10, demo_full ''a'' 2 11]"

definition demo_chain :: "demo_pairs Storage" where
  "demo_chain = put_all demo_gowaves demo_db demo_events demo_chain_events"

lemma demo_chain_ok: "demo_ok demo_chain"
  unfolding demo_chain_def by (rule put_all_ok [OF demo_events_ok]) (simp add: demo_chain_events_def)

lemma demo_chain_stored:
  assumes "node_ok n" "in_int64 ts"
  shows "stored demo_gowaves map_of demo_chain n ts =
    (if n = ''a'' \<and> ts = 2 then Some (Event_Statement (demo_full ''a'' 2 11))
     else if n = ''b'' \<and> ts = 1 then Some (Event_Statement (demo_full ''b'' 1 10))
     else if n = ''a'' \<and> ts = 1 then Some (Event_Statement (demo_full ''a'' 1 10)) else None)"
proof -
  have es: "\<forall>e \<in> set demo_chain_events. event_ok e" by (simp add: demo_chain_events_def)
  show ?thesis
    unfolding demo_chain_def stored_put_all [OF demo_events_ok es assms]
    by (auto simp: demo_chain_events_def stored_demo_events)
qed

lemma demo_chain_history [simp]:
  "history demo_gowaves map_of demo_chain ''a'' =
     [Event_Statement (demo_full ''a'' 2 11), Event_Statement (demo_full ''a'' 1 10)]"
  "history demo_gowaves map_of demo_chain ''b'' = [Event_Statement (demo_full ''b'' 1 10)]"
  by (rule history_eqI [OF demo_chain_ok];
      auto simp: demo_chain_stored same_digits_small split: if_splits)+

section \<open>Reading and writing\<close>

text \<open>C4: What an event wrote is read back, and nothing else changes: storing an event succeeds, keeps
  the invariant of the storage, makes \<open>GetStatement\<close> return the event's statement for its node
  and timestamp, and leaves the result for every other node or timestamp as it was.\<close>

theorem put_then_get:
  assumes "store_ok gw bd cont glob s" "event_ok e"
  shows "snd (PutEvent gw bd s e) = None \<and>
    store_ok gw bd cont glob (fst (PutEvent gw bd s e)) \<and>
    GetStatement gw bd (fst (PutEvent gw bd s e)) (Event_Node e) (Event_Timestamp e) = Inr (Event_Statement e) \<and>
    (\<forall>n ts. node_ok n \<and> in_int64 ts \<and> (n, ts) \<noteq> (Event_Node e, Event_Timestamp e) \<longrightarrow>
       GetStatement gw bd (fst (PutEvent gw bd s e)) n ts = GetStatement gw bd s n ts)"
proof -
  from PutEvent_stored [OF assms] obtain s' where s': "PutEvent gw bd s e = (s', None)" "store_ok gw bd cont glob s'"
    "\<forall>n ts. node_ok n \<and> in_int64 ts \<longrightarrow> stored gw cont s' n ts =
      (if n = Event_Node e \<and> ts = Event_Timestamp e then Some (Event_Statement e) else stored gw cont s n ts)"
    by blast
  have e: "node_ok (Event_Node e)" "in_int64 (Event_Timestamp e)" using assms(2) by (simp_all add: event_ok_def)
  show ?thesis
    using s' e by (auto simp: GetStatement_stored [OF s'(2)] GetStatement_stored [OF assms(1)])
qed

theorem put_then_get_witness:
  "GetStatement demo_gowaves demo_db
     (fst (PutEvent demo_gowaves demo_db demo_events (Ev_Version (NewVersionEvent ''a'' 5 ''v1'')))) ''a'' 5
   = Inr (zeroStatement\<lparr>st_Node := ''a'', st_Timestamp := 5, st_Status := Incomplete, st_Version := ''v1''\<rparr>)"
proof -
  have e: "event_ok (Ev_Version (NewVersionEvent ''a'' 5 ''v1''))"
    by (simp add: event_ok_def NewVersionEvent_def in_int64_def)
  from put_then_get [OF demo_events_ok e] show ?thesis
    by (simp add: NewVersionEvent_def Statement_defs UndefinedHeight_def)
qed

text \<open>C5: The order of a view. \<open>ViewStatementsByNodeWithDescendKeys\<close> passes to its callback exactly the
  stored statements of the node until the callback stops it, and, when the timestamps are
  non-negative with the same number of digits, from the newest to the oldest.\<close>

theorem view_newest_first:
  assumes "store_ok gw bd cont glob s" "node_ok node"
    and "\<forall>t u. in_int64 t \<and> in_int64 u \<and> stored gw cont s node t \<noteq> None \<and> stored gw cont s node u \<noteq> None
      \<longrightarrow> same_digits t u"
  shows "\<exists>sts. sorted_wrt (\<lambda>a b. st_Timestamp b < st_Timestamp a) sts \<and>
    set sts = {st. \<exists>ts. in_int64 ts \<and> stored gw cont s node ts = Some st} \<and>
    (\<forall>iter acc. ViewStatementsByNodeWithDescendKeys gw bd s node iter acc = (iter_until iter acc sts, None))"
proof (intro exI conjI allI)
  show "sorted_wrt (\<lambda>a b. st_Timestamp b < st_Timestamp a) (history gw cont s node)"
    using set_history [OF assms(1,2)] stored_SomeD [OF assms(1) _ assms(2)] assms(3)
    by (intro history_newest_first [OF assms(1,2)]) fastforce
qed (simp_all add: set_history [OF assms(1,2)] view_node [OF assms(1,2)])

theorem view_newest_first_witness:
  "ViewStatementsByNodeWithDescendKeys demo_gowaves demo_db demo_chain ''a''
     (\<lambda>acc st. (acc @ [st_Timestamp st], True)) [] = ([2, 1], None)"
proof -
  have dig: "\<forall>t u. in_int64 t \<and> in_int64 u \<and> stored demo_gowaves map_of demo_chain ''a'' t \<noteq> None \<and>
      stored demo_gowaves map_of demo_chain ''a'' u \<noteq> None \<longrightarrow> same_digits t u"
    by (auto simp: demo_chain_stored same_digits_small split: if_splits)
  from view_newest_first [OF demo_chain_ok demo_node(1) dig] obtain sts where
    s: "sorted_wrt (\<lambda>a b. st_Timestamp b < st_Timestamp a) sts"
      "set sts = {s. \<exists>ts. in_int64 ts \<and> stored demo_gowaves map_of demo_chain ''a'' ts = Some s}"
      "\<forall>iter (acc :: int list). ViewStatementsByNodeWithDescendKeys demo_gowaves demo_db demo_chain ''a'' iter acc
         = (iter_until iter acc sts, None)"
    by blast
  have "set sts = set (history demo_gowaves map_of demo_chain ''a'')"
    unfolding s(2) set_history [OF demo_chain_ok demo_node(1)] by (rule refl)
  then have "sts = [Event_Statement (demo_full ''a'' 2 11), Event_Statement (demo_full ''a'' 1 10)]"
    using s(1) by (intro sorted_desc_unique [where f = st_Timestamp]) simp_all
  then show ?thesis using s(3) by (simp add: iter_until_map)
qed

end
