(* ===== verification/CommonHeight.thy ===== *)
theory CommonHeight
  imports EventsPolicy
begin

text \<open>
  \<open>FindAllStatementsOnCommonHeight\<close> of \<open>pkg/storing/events/events.go\<close>: what the search for a
  height that all nodes share returns, for every order in which the map of nodes is ranged over.
\<close>

section \<open>The loops in terms of the histories\<close>

definition lats :: "('n \<Rightarrow> uint64 option) \<Rightarrow> 'n list \<Rightarrow> uint64 list" where
  "lats lat ks = List.map_filter lat ks"

lemma lats_simps [simp]:
  "lats lat [] = []"
  "lats lat (k # ks) = (case lat k of None \<Rightarrow> lats lat ks | Some h \<Rightarrow> h # lats lat ks)"
  by (auto simp: lats_def List.map_filter_def split: option.splits)

lemma set_lats: "set (lats lat ks) = {h. \<exists>k \<in> set ks. lat k = Some h}"
  by (auto simp: lats_def List.map_filter_def image_iff) (metis option.sel)

lemma fold_min_Min: "fold min xs (a :: uint64) = Min (insert a (set xs))"
  using Min.set_eq_fold [of a xs] by simp

lemma fold_max_Max: "fold max xs (a :: uint64) = Max (insert a (set xs))"
  using Max.set_eq_fold [of a xs] by simp

definition mismatch :: "(string, bool) gomap \<Rightarrow> uint64 \<Rightarrow> NodeStatement list \<Rightarrow> bool" where
  "mismatch nodesList h ns \<longleftrightarrow> (\<exists>n \<in> set ns. st_Height n \<noteq> h \<and> map_get False nodesList (st_Node n))"

lemma compare_heights_eq:
  "compare_heights i nodesList h same ns =
     (if mismatch nodesList h ns then (False, if 0 < i then h - 1 else h) else (same, h))"
  by (induction i nodesList h same ns rule: compare_heights.induct) (auto simp: mismatch_def)

definition latest :: "gowaves \<Rightarrow> ('d \<Rightarrow> (string, json) gomap) \<Rightarrow> 'd Storage \<Rightarrow> string \<Rightarrow> uint64 option" where
  "latest gw cont s n = newest_full_height (history gw cont s n)"

definition full_statement :: "gowaves \<Rightarrow> ('d \<Rightarrow> (string, json) gomap) \<Rightarrow> 'd Storage \<Rightarrow> uint64 \<Rightarrow> string \<Rightarrow> NodeStatement option" where
  "full_statement gw cont s h n = full_at h (history gw cont s n)"

lemma LatestHeight_cases:
  assumes "store_ok gw bd cont glob s" "node_ok n"
  obtains e where "latest gw cont s n = None" "LatestHeight gw bd s n = Inl e" "errors_Is e ErrNoFullStatement"
  | h where "latest gw cont s n = Some h" "LatestHeight gw bd s n = Inr h" "h \<noteq> 0"
  using LatestHeight_newest [OF assms] newest_full_height_pos [of "history gw cont s n"]
  by (cases "latest gw cont s n") (auto simp: latest_def)

lemma GetFull_cases:
  assumes "store_ok gw bd cont glob s" "node_ok n"
  obtains e where "full_statement gw cont s h n = None" "GetFullStatementAtHeight gw bd s n h = Inl e"
      "errors_Is e ErrNoFullStatement"
  | st where "full_statement gw cont s h n = Some st" "GetFullStatementAtHeight gw bd s n h = Inr st"
      "st_Height st = h" "full st"
  using GetFull_full_at [OF assms, of h] full_at_SomeD [of h "history gw cont s n"]
  by (cases "full_statement gw cont s h n") (auto simp: full_statement_def)

definition latest_entry :: "uint64 option \<Rightarrow> string \<Rightarrow> NodeStatement" where
  "latest_entry l n = (case l of None \<Rightarrow> statement_stub n Unreachable 0 | Some h \<Rightarrow> statement_stub n OK h)"

lemma findMinCommonLatestHeight_eq:
  assumes "store_ok gw bd cont glob s" "\<forall>n \<in> set ks. node_ok n"
  shows "findMinCommonLatestHeight gw bd s ks acc nl mi ma =
    Inr (acc @ map (\<lambda>n. latest_entry (latest gw cont s n) n) ks,
         (\<lambda>n. if n \<in> set ks \<and> latest gw cont s n = None then Some False else nl n),
         fold min (lats (latest gw cont s) ks) mi, fold max (lats (latest gw cont s) ks) ma)"
  using assms(2)
proof (induction ks arbitrary: acc nl mi ma)
  case (Cons n ks)
  then have n: "node_ok n" and ks: "\<forall>n \<in> set ks. node_ok n" by auto
  have mm: "(if h < mi then h else mi) = min h mi" "(if h > ma then h else ma) = max h ma" for h
    by (auto simp: min_def max_def)
  show ?case
    using assms(1) n
  proof (cases rule: LatestHeight_cases)
    case (1 e)
    then show ?thesis by (auto simp: Cons.IH [OF ks] latest_entry_def fun_eq_iff)
  next
    case (2 h)
    then show ?thesis by (auto simp: Cons.IH [OF ks] latest_entry_def mm fun_eq_iff)
  qed
qed simp

definition found_entry :: "uint64 \<Rightarrow> NodeStatement option \<Rightarrow> string \<Rightarrow> NodeStatement" where
  "found_entry h f n = (if f = None then statement_stub n Unreachable 0 else statement_stub n OK h)"

lemma findMinCommonSpecificHeight_eq:
  assumes "store_ok gw bd cont glob s" "\<forall>n \<in> set ks. node_ok n"
  shows "findMinCommonSpecificHeight gw bd s ks h =
    Inr (map (\<lambda>n. found_entry h (full_statement gw cont s h n) n) ks)"
  using assms(2)
proof (induction ks)
  case (Cons n ks)
  then have n: "node_ok n" by simp
  show ?case
    using assms(1) n
    by (cases rule: GetFull_cases [where h = h])
       (use Cons in \<open>auto simp: FoundStatementAtHeight_def found_entry_def\<close>)
qed simp

definition entry :: "(string, bool) gomap \<Rightarrow> NodeStatement option \<Rightarrow> string \<Rightarrow> NodeStatement" where
  "entry nl f n = (if \<not> map_get False nl n then statement_stub n Unreachable 0
     else case f of None \<Rightarrow> statement_stub n Unreachable 0 | Some st \<Rightarrow> st)"

lemma findStatementsOnHeight_eq:
  assumes "store_ok gw bd cont glob s" "\<forall>n \<in> set ks. node_ok n"
  shows "findStatementsOnHeight gw bd s ks nl h =
    Inr (map (\<lambda>n. entry nl (full_statement gw cont s h n) n) ks)"
  using assms(2)
proof (induction ks)
  case (Cons n ks)
  then have n: "node_ok n" by simp
  show ?case
    using assms(1) n
    by (cases rule: GetFull_cases [where h = h]) (use Cons in \<open>auto simp: entry_def Let_def\<close>)
qed simp

lemma common_height_loop_total:
  assumes "store_ok gw bd cont glob s" "\<forall>i. \<forall>n \<in> set (kss i). node_ok n"
  shows "\<exists>h. common_height_loop gw bd s kss nl k i ns mh = Inr h"
proof (induction k arbitrary: i ns mh)
  case (Suc k)
  show ?case
    by (simp add: compare_heights_eq findMinCommonSpecificHeight_eq [OF assms(1)] assms(2) Suc.IH)
qed simp

text \<open>The nodes of a list that have some full statement; they decide whether a height is common.\<close>

definition common_at :: "gowaves \<Rightarrow> ('d \<Rightarrow> (string, json) gomap) \<Rightarrow> 'd Storage \<Rightarrow> string list \<Rightarrow> uint64 \<Rightarrow> bool" where
  "common_at gw cont s nodes h \<longleftrightarrow>
     (\<forall>n \<in> set nodes. latest gw cont s n \<noteq> None \<longrightarrow> full_statement gw cont s h n \<noteq> None)"

lemma mismatch_found:
  assumes "set ks = set nodes" "h \<noteq> 0"
    and "\<And>n. n \<in> set nodes \<Longrightarrow> map_get False nl n \<longleftrightarrow> latest gw cont s n \<noteq> None"
  shows "mismatch nl h (map (\<lambda>n. found_entry h (full_statement gw cont s h n) n) ks) \<longleftrightarrow> \<not> common_at gw cont s nodes h"
proof -
  have "mismatch nl h (map f ks) \<longleftrightarrow> (\<exists>n \<in> set ks. st_Height (f n) \<noteq> h \<and> map_get False nl (st_Node (f n)))" for f
    by (simp add: mismatch_def)
  then show ?thesis using assms by (auto simp: found_entry_def common_at_def)
qed

lemma common_height_loop_finds:
  assumes "store_ok gw bd cont glob s" "\<forall>i. set (kss i) = set nodes" "\<forall>n \<in> set nodes. node_ok n"
    and reach: "\<And>n. n \<in> set nodes \<Longrightarrow> map_get False nl n \<longleftrightarrow> latest gw cont s n \<noteq> None"
    and H: "H \<noteq> 0" "H \<le> mh" "unat mh - unat H \<le> k" "common_at gw cont s nodes H"
    and "0 < i" "ns = map (\<lambda>n. found_entry mh (full_statement gw cont s mh n) n) ks" "set ks = set nodes"
  shows "\<exists>h. common_height_loop gw bd s kss nl k i ns mh = Inr h \<and> H \<le> h \<and> h \<le> mh \<and>
    common_at gw cont s nodes h \<and> (\<forall>h'. h < h' \<and> h' \<le> mh \<longrightarrow> \<not> common_at gw cont s nodes h')"
  using H(2,3) assms(9-)
proof (induction k arbitrary: mh i ns ks)
  case 0
  then have "mh = H" by (simp add: word_le_nat_alt word_unat_eq_iff)
  then show ?case using H(4) by auto
next
  case (Suc k)
  have mh: "mh \<noteq> 0" using H(1) Suc.prems(1) by auto
  have mm: "mismatch nl mh ns \<longleftrightarrow> \<not> common_at gw cont s nodes mh"
    unfolding Suc.prems(4) using mismatch_found [OF Suc.prems(5) mh] reach by blast
  show ?case
  proof (cases "common_at gw cont s nodes mh")
    case True
    with mm Suc.prems(1) show ?thesis by (auto simp: compare_heights_eq)
  next
    case False
    with H(4) have "H \<noteq> mh" by auto
    with Suc.prems(1) have lt: "H < mh" by simp
    have dec: "unat (mh - 1) = unat mh - 1" using mh by (simp add: unat_minus_one)
    have le: "H \<le> mh - 1" and k: "unat (mh - 1) - unat H \<le> k"
      using lt Suc.prems(2) dec by (auto simp: word_le_nat_alt word_less_nat_alt)
    have nodes: "\<forall>n \<in> set (kss i). node_ok n" using assms(2,3) by simp
    have loop: "common_height_loop gw bd s kss nl (Suc k) i ns mh =
        common_height_loop gw bd s kss nl k (Suc i)
          (map (\<lambda>n. found_entry (mh - 1) (full_statement gw cont s (mh - 1) n) n) (kss i)) (mh - 1)"
      using False mm Suc.prems(3)
      by (simp add: compare_heights_eq findMinCommonSpecificHeight_eq [OF assms(1) nodes])
    from Suc.IH [OF le k _ refl, of "Suc i" "kss i"] assms(2) obtain h where
      h: "common_height_loop gw bd s kss nl (Suc k) i ns mh = Inr h" "H \<le> h" "h \<le> mh - 1"
      "common_at gw cont s nodes h" "\<forall>h'. h < h' \<and> h' \<le> mh - 1 \<longrightarrow> \<not> common_at gw cont s nodes h'"
      unfolding loop by auto
    have "h' \<le> mh - 1" if "h' \<le> mh" "h' \<noteq> mh" for h'
      using that dec mh by (auto simp: word_le_nat_alt word_unat_eq_iff)
    moreover have "h \<le> mh" using h(3) dec mh by (simp add: word_le_nat_alt)
    ultimately show ?thesis using h False by blast
  qed
qed

section \<open>The search\<close>

definition node_orders :: "string list \<Rightarrow> string list \<Rightarrow> (nat \<Rightarrow> string list) \<Rightarrow> string list \<Rightarrow> bool" where
  "node_orders nodes kl kss kf \<longleftrightarrow>
     set kl = set nodes \<and> (\<forall>i. set (kss i) = set nodes) \<and> set kf = set nodes \<and> distinct kf"

definition reachable :: "gowaves \<Rightarrow> ('d \<Rightarrow> (string, json) gomap) \<Rightarrow> 'd Storage \<Rightarrow> string list \<Rightarrow> (string, bool) gomap" where
  "reachable gw cont s nodes = (\<lambda>n. if n \<in> set nodes then Some (latest gw cont s n \<noteq> None) else None)"

lemma reachable_get [simp]:
  "map_get False (reachable gw cont s nodes) n \<longleftrightarrow> n \<in> set nodes \<and> latest gw cont s n \<noteq> None"
  by (simp add: reachable_def map_get_def)

lemma FindAll_eq:
  assumes "store_ok gw bd cont glob s" "\<forall>n \<in> set nodes. node_ok n" "node_orders nodes kl kss kf"
  defines "mi \<equiv> fold min (lats (latest gw cont s) kl) MaxUint64"
    and "ma \<equiv> fold max (lats (latest gw cont s) kl) 0"
  shows "FindAllStatementsOnCommonHeight gw bd s kl kss kf nodes =
    (if ma - mi > heightDifference then
       (map (\<lambda>n. latest_entry (latest gw cont s n) n) kl, Some (Sentinel ErrBigHeightDifference))
     else case common_height_loop gw bd s kss (reachable gw cont s nodes) 50 0
            (map (\<lambda>n. latest_entry (latest gw cont s n) n) kl) mi of
          Inl e \<Rightarrow> ([], Some e)
        | Inr h \<Rightarrow> (map (\<lambda>n. entry (reachable gw cont s nodes) (full_statement gw cont s h n) n) kf, None))"
proof -
  have ks: "\<forall>n \<in> set kl. node_ok n" "\<forall>n \<in> set kf. node_ok n" "set kl = set nodes"
    using assms(2,3) by (auto simp: node_orders_def)
  have nl: "(\<lambda>n. if n \<in> set kl \<and> latest gw cont s n = None then Some False
      else if n \<in> set nodes then Some True else None) = reachable gw cont s nodes"
    using ks(3) by (auto simp: reachable_def fun_eq_iff)
  show ?thesis
    unfolding mi_def ma_def FindAllStatementsOnCommonHeight_def Let_def
      findMinCommonLatestHeight_eq [OF assms(1) ks(1)] findStatementsOnHeight_eq [OF assms(1) ks(2)]
      depthCommonHeightSearch_def
    by (simp add: nl split: sum.split)
qed

lemma st_Node_entry:
  assumes "store_ok gw bd cont glob s" "node_ok n"
  shows "st_Node (entry nl (full_statement gw cont s h n) n) = n"
    and "entry nl (full_statement gw cont s h n) n = statement_stub n Unreachable 0 \<or>
      st_Height (entry nl (full_statement gw cont s h n) n) = h \<and> full (entry nl (full_statement gw cont s h n) n) \<and>
      GetStatement gw bd s n (st_Timestamp (entry nl (full_statement gw cont s h n) n))
        = Inr (entry nl (full_statement gw cont s h n) n)"
proof -
  have "st_Node st = n \<and> GetStatement gw bd s n (st_Timestamp st) = Inr st \<and> st_Height st = h \<and> full st"
    if "full_statement gw cont s h n = Some st" for st
  proof -
    from that have st: "st \<in> set (history gw cont s n)" "st_Height st = h" "full st"
      using full_at_SomeD [of h "history gw cont s n" st] by (auto simp: full_statement_def)
    from st(1) obtain ts where ts: "in_int64 ts" "stored gw cont s n ts = Some st"
      using set_history [OF assms] by auto
    from stored_SomeD [OF assms(1) ts(2) assms(2) ts(1)] st ts assms show ?thesis
      by (simp add: GetStatement_stored [OF assms])
  qed
  then show "st_Node (entry nl (full_statement gw cont s h n) n) = n"
    "entry nl (full_statement gw cont s h n) n = statement_stub n Unreachable 0 \<or>
      st_Height (entry nl (full_statement gw cont s h n) n) = h \<and> full (entry nl (full_statement gw cont s h n) n) \<and>
      GetStatement gw bd s n (st_Timestamp (entry nl (full_statement gw cont s h n) n))
        = Inr (entry nl (full_statement gw cont s h n) n)"
    by (auto simp: entry_def split: option.splits)
qed

text \<open>C6: \<open>FindAllStatementsOnCommonHeight\<close> either reports a big height difference or answers, for each
  requested node exactly once, with a statement: all the statements it gives share one
  height, have a state hash and are the stored ones, except for nodes it marks unreachable.
  It has no other outcome, whatever the orders in which the nodes are visited.\<close>

theorem statements_share_height:
  assumes "store_ok gw bd cont glob s" "\<forall>n \<in> set nodes. node_ok n" "node_orders nodes kl kss kf"
  shows "snd (FindAllStatementsOnCommonHeight gw bd s kl kss kf nodes) = Some (Sentinel ErrBigHeightDifference) \<or>
    snd (FindAllStatementsOnCommonHeight gw bd s kl kss kf nodes) = None \<and>
    map st_Node (fst (FindAllStatementsOnCommonHeight gw bd s kl kss kf nodes)) = kf \<and>
    (\<exists>h. \<forall>st \<in> set (fst (FindAllStatementsOnCommonHeight gw bd s kl kss kf nodes)).
       st = statement_stub (st_Node st) Unreachable 0 \<or>
       st_Height st = h \<and> full st \<and> GetStatement gw bd s (st_Node st) (st_Timestamp st) = Inr st)"
proof -
  let ?nl = "reachable gw cont s nodes"
  have kf: "\<forall>n \<in> set kf. node_ok n" and kss: "\<forall>i. \<forall>n \<in> set (kss i). node_ok n"
    using assms(2,3) by (auto simp: node_orders_def)
  obtain h where h: "common_height_loop gw bd s kss ?nl 50 0 (map (\<lambda>n. latest_entry (latest gw cont s n) n) kl)
      (fold min (lats (latest gw cont s) kl) MaxUint64) = Inr h"
    using common_height_loop_total [OF assms(1) kss] by blast
  have map: "map st_Node (map (\<lambda>n. entry ?nl (full_statement gw cont s h n) n) kf) = kf"
    using st_Node_entry(1) [OF assms(1)] kf by (simp add: map_idI)
  have each: "\<forall>st \<in> set (map (\<lambda>n. entry ?nl (full_statement gw cont s h n) n) kf).
      st = statement_stub (st_Node st) Unreachable 0 \<or>
      st_Height st = h \<and> full st \<and> GetStatement gw bd s (st_Node st) (st_Timestamp st) = Inr st"
  proof
    fix st assume "st \<in> set (map (\<lambda>n. entry ?nl (full_statement gw cont s h n) n) kf)"
    then obtain n where n: "n \<in> set kf" "st = entry ?nl (full_statement gw cont s h n) n" by auto
    then show "st = statement_stub (st_Node st) Unreachable 0 \<or>
      st_Height st = h \<and> full st \<and> GetStatement gw bd s (st_Node st) (st_Timestamp st) = Inr st"
      using st_Node_entry [OF assms(1), of n ?nl h] kf by simp
  qed
  show ?thesis
  proof (cases "fold max (lats (latest gw cont s) kl) 0 - fold min (lats (latest gw cont s) kl) MaxUint64 > heightDifference")
    case True
    then show ?thesis by (simp add: FindAll_eq [OF assms])
  next
    case False
    then have eq: "FindAllStatementsOnCommonHeight gw bd s kl kss kf nodes
        = (map (\<lambda>n. entry ?nl (full_statement gw cont s h n) n) kf, None)"
      by (simp add: FindAll_eq [OF assms] h)
    show ?thesis
      unfolding eq fst_conv snd_conv using map each by blast
  qed
qed

theorem statements_share_height_witness:
  "map st_Node (fst (FindAllStatementsOnCommonHeight demo_gowaves demo_db demo_chain
     [''a'', ''b''] (\<lambda>_. [''b'', ''a'']) [''b'', ''a''] [''a'', ''b''])) = [''b'', ''a'']"
proof -
  have nodes: "\<forall>n \<in> set [''a'', ''b'']. node_ok n" by simp
  have ord: "node_orders [''a'', ''b''] [''a'', ''b''] (\<lambda>_. [''b'', ''a'']) [''b'', ''a'']"
    by (auto simp: node_orders_def)
  let ?l = "latest demo_gowaves map_of demo_chain"
  have small: "\<not> heightDifference < fold max (lats ?l [''a'', ''b'']) 0 - fold min (lats ?l [''a'', ''b'']) MaxUint64"
    by (simp add: latest_def newest_full_height_def heightDifference_def MaxUint64_def)
  have "\<forall>i. \<forall>n \<in> set ((\<lambda>_. [''b'', ''a'']) (i :: nat)). node_ok n" by simp
  from common_height_loop_total [OF demo_chain_ok this] obtain h where
    h: "common_height_loop demo_gowaves demo_db demo_chain (\<lambda>_. [''b'', ''a''])
      (reachable demo_gowaves map_of demo_chain [''a'', ''b'']) 50 0
      (map (\<lambda>n. latest_entry (?l n) n) [''a'', ''b'']) (fold min (lats ?l [''a'', ''b'']) MaxUint64) = Inr h"
    by blast
  have "snd (FindAllStatementsOnCommonHeight demo_gowaves demo_db demo_chain
     [''a'', ''b''] (\<lambda>_. [''b'', ''a'']) [''b'', ''a''] [''a'', ''b'']) = None"
    unfolding FindAll_eq [OF demo_chain_ok nodes ord] h if_not_P [OF small] by simp
  with statements_share_height [OF demo_chain_ok nodes ord] show ?thesis by simp
qed

text \<open>The latest heights lie between the lowest of them and 50 blocks above it.\<close>

lemma heights_in_range:
  assumes "m \<in> set hs" "\<forall>h \<in> set hs. m \<le> h \<and> unat h - unat m \<le> 50"
  shows "fold min hs MaxUint64 = m" "\<not> fold max hs 0 - m > heightDifference"
proof -
  show "fold min hs MaxUint64 = m"
    unfolding fold_min_Min by (rule Min_eqI) (use assms in auto)
  have "Max (insert 0 (set hs)) = Max (set hs)"
    using assms(1) by (subst Max_insert) (auto simp: max_absorb2)
  moreover have "Max (set hs) \<in> set hs" using assms(1) by (intro Max_in) auto
  ultimately have "fold max hs 0 \<in> set hs" by (simp only: fold_max_Max)
  with assms(2) show "\<not> fold max hs 0 - m > heightDifference"
    by (auto simp: heightDifference_def word_less_nat_alt unat_sub)
qed

text \<open>C7: What the search answers when there is something to find. Let the nodes that have a full
  statement differ by at most 50 blocks in their latest heights, let \<open>m\<close> be the smallest of
  these, and let \<open>H\<close> be a height at most 49 below \<open>m\<close> at which each of them has a full
  statement. Then the search does not fail. When the latest heights differ, it answers with
  the greatest height up to \<open>m\<close> at which each of them has a full statement, so none of them
  is reported as unreachable. When they agree, the search looks no further and answers with
  \<open>m\<close> itself; a node whose newest statement with a hash lies behind a lower statement without
  one then has no full statement at \<open>m\<close> and is reported as unreachable, although \<open>H\<close> exists.\<close>

theorem common_height_found:
  assumes "store_ok gw bd cont glob s" "\<forall>n \<in> set nodes. node_ok n" "node_orders nodes kl kss kf"
    and "latest gw cont s n0 = Some m" "n0 \<in> set nodes"
    and "\<forall>n \<in> set nodes. \<forall>h. latest gw cont s n = Some h \<longrightarrow> m \<le> h \<and> unat h - unat m \<le> 50"
    and "H \<noteq> 0" "H \<le> m" "unat m - unat H \<le> 49" "common_at gw cont s nodes H"
  shows "\<exists>h. FindAllStatementsOnCommonHeight gw bd s kl kss kf nodes =
      (map (\<lambda>n. case (if latest gw cont s n = None then None else full_statement gw cont s h n) of
         None \<Rightarrow> statement_stub n Unreachable 0 | Some st \<Rightarrow> st) kf, None) \<and>
    H \<le> h \<and> h \<le> m \<and>
    (if \<forall>n \<in> set nodes. latest gw cont s n \<in> {None, Some m} then h = m
     else common_at gw cont s nodes h \<and> (\<forall>h'. h < h' \<and> h' \<le> m \<longrightarrow> \<not> common_at gw cont s nodes h'))"
proof -
  let ?L = "latest gw cont s" and ?nl = "reachable gw cont s nodes"
  let ?ns = "map (\<lambda>n. latest_entry (?L n) n) kl"
  have kl: "set kl = set nodes" and kss: "\<forall>i. set (kss i) = set nodes" and kf: "set kf = set nodes"
    using assms(3) by (auto simp: node_orders_def)
  have ls: "set (lats ?L kl) = {h. \<exists>n \<in> set nodes. ?L n = Some h}" by (simp add: set_lats kl)
  have mem: "m \<in> set (lats ?L kl)" using assms(4,5) ls by auto
  have low: "\<forall>h \<in> set (lats ?L kl). m \<le> h \<and> unat h - unat m \<le> 50" using assms(6) ls by auto
  note range = heights_in_range [OF mem low]
  have eq: "map (\<lambda>n. entry ?nl (full_statement gw cont s h n) n) kf
      = map (\<lambda>n. case (if ?L n = None then None else full_statement gw cont s h n) of
         None \<Rightarrow> statement_stub n Unreachable 0 | Some st \<Rightarrow> st) kf" for h
    using kf by (auto simp: entry_def split: option.splits)
  have agree: "mismatch ?nl m ?ns \<longleftrightarrow> \<not> (\<forall>n \<in> set nodes. ?L n \<in> {None, Some m})"
    by (auto simp: mismatch_def latest_entry_def kl split: option.splits)
  show ?thesis
  proof (cases "mismatch ?nl m ?ns")
    case False
    then have "common_height_loop gw bd s kss ?nl 50 0 ?ns m = Inr m"
      by (simp add: numeral_eq_Suc compare_heights_eq)
    with False agree assms(8) range(2) show ?thesis
      by (intro exI [of _ m]) (simp add: FindAll_eq [OF assms(1-3)] range(1) eq)
  next
    case True
    have nodes: "\<forall>n \<in> set (kss 0). node_ok n" using assms(2) kss by simp
    have step: "common_height_loop gw bd s kss ?nl 50 0 ?ns m = common_height_loop gw bd s kss ?nl 49 1
        (map (\<lambda>n. found_entry m (full_statement gw cont s m n) n) (kss 0)) m"
      using True by (simp add: numeral_eq_Suc compare_heights_eq findMinCommonSpecificHeight_eq [OF assms(1) nodes])
    have "\<exists>h. common_height_loop gw bd s kss ?nl 49 1
        (map (\<lambda>n. found_entry m (full_statement gw cont s m n) n) (kss 0)) m = Inr h \<and> H \<le> h \<and> h \<le> m \<and>
      common_at gw cont s nodes h \<and> (\<forall>h'. h < h' \<and> h' \<le> m \<longrightarrow> \<not> common_at gw cont s nodes h')"
      using common_height_loop_finds [where nl = ?nl and mh = m and k = 49 and i = 1 and ks = "kss 0",
          OF assms(1) kss assms(2) _ assms(7-10) _ refl] kss by simp
    then obtain h where h: "common_height_loop gw bd s kss ?nl 50 0 ?ns m = Inr h" "H \<le> h" "h \<le> m"
      "common_at gw cont s nodes h" "\<forall>h'. h < h' \<and> h' \<le> m \<longrightarrow> \<not> common_at gw cont s nodes h'"
      unfolding step by blast
    from True agree have no: "\<not> (\<forall>n \<in> set nodes. ?L n \<in> {None, Some m})" by simp
    with h range(2) show ?thesis
      unfolding if_not_P [OF no]
      by (intro exI [of _ h]) (simp add: FindAll_eq [OF assms(1-3)] range(1) eq)
  qed
qed

theorem common_height_found_witness:
  "FindAllStatementsOnCommonHeight demo_gowaves demo_db demo_chain
     [''a'', ''b''] (\<lambda>_. [''b'', ''a'']) [''b'', ''a''] [''a'', ''b''] =
   ([Event_Statement (demo_full ''b'' 1 10), Event_Statement (demo_full ''a'' 1 10)], None)"
proof -
  have nodes: "\<forall>n \<in> set [''a'', ''b'']. node_ok n" by simp
  have ord: "node_orders [''a'', ''b''] [''a'', ''b''] (\<lambda>_. [''b'', ''a'']) [''b'', ''a'']"
    by (auto simp: node_orders_def)
  have l: "latest demo_gowaves map_of demo_chain ''a'' = Some 11"
    "latest demo_gowaves map_of demo_chain ''b'' = Some 10"
    by (simp_all add: latest_def newest_full_height_def)
  have f: "full_statement demo_gowaves map_of demo_chain 10 ''a'' = Some (Event_Statement (demo_full ''a'' 1 10))"
    "full_statement demo_gowaves map_of demo_chain 10 ''b'' = Some (Event_Statement (demo_full ''b'' 1 10))"
    by (simp_all add: full_statement_def full_at_def)
  have "\<exists>h. FindAllStatementsOnCommonHeight demo_gowaves demo_db demo_chain
      [''a'', ''b''] (\<lambda>_. [''b'', ''a'']) [''b'', ''a''] [''a'', ''b''] =
      (map (\<lambda>n. case (if latest demo_gowaves map_of demo_chain n = None then None
          else full_statement demo_gowaves map_of demo_chain h n) of
         None \<Rightarrow> statement_stub n Unreachable 0 | Some st \<Rightarrow> st) [''b'', ''a''], None) \<and>
    10 \<le> h \<and> h \<le> 10 \<and>
    (if \<forall>n \<in> set [''a'', ''b'']. latest demo_gowaves map_of demo_chain n \<in> {None, Some 10} then h = 10
     else common_at demo_gowaves map_of demo_chain [''a'', ''b''] h \<and>
       (\<forall>h'. h < h' \<and> h' \<le> 10 \<longrightarrow> \<not> common_at demo_gowaves map_of demo_chain [''a'', ''b''] h'))"
    by (rule common_height_found [OF demo_chain_ok nodes ord l(2)]) (simp_all add: l common_at_def f)
  then show ?thesis by (elim exE conjE) (simp add: l f)
qed

end
