(* ===== verification/ForkFinder.thy ===== *)
theory ForkFinder
  imports CommonHeight
begin

text \<open>
  \<open>pkg/analysis/finders/fork_finder.go\<close>: the last common block and the last common state hash of
  two nodes. Both searches bisect the heights that both nodes cover; the loop may in principle
  not end (the midpoint wraps around for heights from \<open>2\<^sup>6\<^sup>3\<close> on), so it is a partial function, and
  that it ends is proved for smaller heights. What the two bisections share is the locale
  \<open>height_query\<close> of \<open>ForkPolicy\<close>.
\<close>

section \<open>Bisection\<close>

text \<open>
  The loop of both functions, for a query \<open>different\<close>: \<open>None\<close> is a loop that runs for ever; a
  failing query ends it with its error. The result is the final value of the variable \<open>r\<close>.
\<close>

partial_function (option) bisect ::
    "(uint64 \<Rightarrow> error + bool) \<Rightarrow> uint64 \<Rightarrow> uint64 \<Rightarrow> uint64 \<Rightarrow> (error + uint64) option" where
  "bisect different start stop r =
     (if start \<le> stop then
        let middle = (start + stop) div 2 in
        case different middle of
          Inl stgErr \<Rightarrow> Some (Inl stgErr)
        | Inr d \<Rightarrow>
            if d then bisect different start (middle - 1) (middle - 1)
            else bisect different (middle + 1) stop middle
      else Some (Inr r))"

declare bisect.simps [code]

lemma bisect_empty: "\<not> start \<le> stop \<Longrightarrow> bisect different start stop r = Some (Inr r)"
  by (subst bisect.simps) simp

section \<open>The finder\<close>

text \<open>The field \<open>linearSearchParams\<close> is a pointer to a struct of one field.\<close>

record ForkFinder =
  ff_linearSearchParams :: "uint64 option"

definition NewForkFinder :: ForkFinder where
  "NewForkFinder = \<lparr>ff_linearSearchParams = None\<rparr>"

definition WithLinearSearchParams :: "ForkFinder \<Rightarrow> uint64 \<Rightarrow> ForkFinder" where
  "WithLinearSearchParams f searchDepth = f\<lparr>ff_linearSearchParams := Some searchDepth\<rparr>"

text \<open>The queries: \<open>pick\<close> is the field of the state hash that is compared.\<close>

definition different_at ::
    "(StateHash \<Rightarrow> 'v) \<Rightarrow> gowaves \<Rightarrow> 'd buntDB \<Rightarrow> 'd Storage \<Rightarrow> string \<Rightarrow> string \<Rightarrow> uint64 \<Rightarrow> error + bool" where
  "different_at pick gw bd s a b h =
     (case StateHashAtHeight gw bd s a h of
        Inl err \<Rightarrow> Inl err
      | Inr shA \<Rightarrow>
          (case StateHashAtHeight gw bd s b h of
             Inl err \<Rightarrow> Inl err
           | Inr shB \<Rightarrow> Inr (pick shA \<noteq> pick shB)))"

definition differentBlocksAt ::
    "gowaves \<Rightarrow> 'd buntDB \<Rightarrow> 'd Storage \<Rightarrow> string \<Rightarrow> string \<Rightarrow> uint64 \<Rightarrow> error + bool" where
  "differentBlocksAt = different_at sh_BlockID"

definition differentStateHashesAt ::
    "gowaves \<Rightarrow> 'd buntDB \<Rightarrow> 'd Storage \<Rightarrow> string \<Rightarrow> string \<Rightarrow> uint64 \<Rightarrow> error + bool" where
  "differentStateHashesAt = different_at sh_SumHash"

text \<open>The error text for the earliest height of the second node names the first one, as the code does.\<close>

definition search_range ::
    "gowaves \<Rightarrow> 'd buntDB \<Rightarrow> 'd Storage \<Rightarrow> string \<Rightarrow> string \<Rightarrow> string \<Rightarrow> error + uint64 \<times> uint64" where
  "search_range gw bd s nodeA nodeB blamedB =
     (case EarliestHeight gw bd s nodeA of
        Inl err \<Rightarrow> Inl (wrapf err (''no earliest statement for node '' @ squote nodeA))
      | Inr startA \<Rightarrow>
     (case EarliestHeight gw bd s nodeB of
        Inl err \<Rightarrow> Inl (wrapf err (''no earliest statement for node '' @ squote blamedB))
      | Inr startB \<Rightarrow>
     (case LatestHeight gw bd s nodeA of
        Inl err \<Rightarrow> Inl (wrapf err (''no latest statement for node '' @ squote nodeA))
      | Inr stopA \<Rightarrow>
     (case LatestHeight gw bd s nodeB of
        Inl err \<Rightarrow> Inl (wrapf err (''no latest statement for node '' @ squote nodeB))
      | Inr stopB \<Rightarrow> Inr (max startA startB, min stopA stopB)))))"

definition no_common_blocks :: "uint64 \<Rightarrow> uint64 \<Rightarrow> error" where
  "no_common_blocks start stop = wrapf (Sentinel ErrNoCommonBlocks)
     (''no common blocks in range ['' @ FormatUint start @ '', '' @ FormatUint stop @ '']'')"

definition FindLastCommonBlock ::
    "gowaves \<Rightarrow> 'd buntDB \<Rightarrow> 'd Storage \<Rightarrow> string \<Rightarrow> string \<Rightarrow> (error + uint64 \<times> BlockID) option" where
  "FindLastCommonBlock gw bd s nodeA nodeB =
     (case search_range gw bd s nodeA nodeB nodeA of
        Inl err \<Rightarrow> Some (Inl err)
      | Inr (start, stop) \<Rightarrow>
          (case bisect (differentBlocksAt gw bd s nodeA nodeB) start stop 0 of
             None \<Rightarrow> None
           | Some (Inl stgErr) \<Rightarrow> Some (Inl stgErr)
           | Some (Inr r) \<Rightarrow> Some (
               if r < start then Inl (no_common_blocks start stop)
               else case StateHashAtHeight gw bd s nodeA r of
                      Inl err \<Rightarrow> Inl (wrapf err (''no block ID at height '' @ FormatUint r))
                    | Inr sh \<Rightarrow> Inr (r, sh_BlockID sh))))"

text \<open>The linear search with \<open>n\<close> steps of its depth left, at offset \<open>i\<close>.\<close>

fun linear_loop ::
    "gowaves \<Rightarrow> 'd buntDB \<Rightarrow> 'd Storage \<Rightarrow> string \<Rightarrow> string \<Rightarrow> uint64 \<Rightarrow> uint64 \<Rightarrow> nat \<Rightarrow> uint64 \<Rightarrow>
     error + uint64 \<times> StateHash" where
  "linear_loop gw bd s nodeA nodeB start stop 0 i =
     Inl (wrapf (Sentinel ErrLinearNotFound) (''linear search failed for nodes '' @ squote nodeA @
       '' and '' @ squote nodeB))"
| "linear_loop gw bd s nodeA nodeB start stop (Suc n) i =
     (if stop - start > i then
        let h = stop - i in
        case differentStateHashesAt gw bd s nodeA nodeB h of
          Inl err \<Rightarrow>
            if errors_Is err ErrNoFullStatement then linear_loop gw bd s nodeA nodeB start stop n (i + 1)
            else Inl (wrapf err (''failed to get statement for nodes '' @ squote nodeA @ '' and '' @
              squote nodeB @ '' at height '' @ FormatUint h))
        | Inr True \<Rightarrow> linear_loop gw bd s nodeA nodeB start stop n (i + 1)
        | Inr False \<Rightarrow>
            (case StateHashAtHeight gw bd s nodeA h of
               Inl err \<Rightarrow> Inl (wrapf err (''no statehash at height '' @ FormatUint h))
             | Inr sh \<Rightarrow> Inr (h, sh))
      else linear_loop gw bd s nodeA nodeB start stop 0 i)"

definition tryLinearStateHashSearch ::
    "gowaves \<Rightarrow> 'd buntDB \<Rightarrow> 'd Storage \<Rightarrow> ForkFinder \<Rightarrow> string \<Rightarrow> string \<Rightarrow> uint64 \<Rightarrow> uint64 \<Rightarrow>
     error + uint64 \<times> StateHash" where
  "tryLinearStateHashSearch gw bd s f nodeA nodeB start stop =
     (case ff_linearSearchParams f of
        None \<Rightarrow> Inl (wrapf (Sentinel ErrLinearNotFound) ''no linear search params provided'')
      | Some searchDepth \<Rightarrow> linear_loop gw bd s nodeA nodeB start stop (unat searchDepth) 0)"

definition binsearch_query ::
    "gowaves \<Rightarrow> 'd buntDB \<Rightarrow> 'd Storage \<Rightarrow> string \<Rightarrow> string \<Rightarrow> uint64 \<Rightarrow> error + bool" where
  "binsearch_query gw bd s nodeA nodeB h =
     (case differentStateHashesAt gw bd s nodeA nodeB h of
        Inl stgErr \<Rightarrow> Inl (wrapf stgErr (''binsearch failed for nodes '' @ squote nodeA @
          '' and '' @ squote nodeB @ '' at height '' @ FormatUint h))
      | Inr d \<Rightarrow> Inr d)"

definition FindLastCommonStateHash ::
    "gowaves \<Rightarrow> 'd buntDB \<Rightarrow> 'd Storage \<Rightarrow> ForkFinder \<Rightarrow> string \<Rightarrow> string \<Rightarrow> (error + uint64 \<times> StateHash) option" where
  "FindLastCommonStateHash gw bd s f nodeA nodeB =
     (case search_range gw bd s nodeA nodeB nodeB of
        Inl err \<Rightarrow> Some (Inl err)
      | Inr (start, stop) \<Rightarrow>
          let binary = (\<lambda>_. case bisect (binsearch_query gw bd s nodeA nodeB) start stop 0 of
             None \<Rightarrow> None
           | Some (Inl stgErr) \<Rightarrow> Some (Inl stgErr)
           | Some (Inr r) \<Rightarrow> Some (
               if r < start then Inl (no_common_blocks start stop)
               else case StateHashAtHeight gw bd s nodeA r of
                      Inl err \<Rightarrow> Inl (wrapf err (''no statehash ID at height '' @ FormatUint r))
                    | Inr sh \<Rightarrow> Inr (r, sh)))
          in case tryLinearStateHashSearch gw bd s f nodeA nodeB start stop of
               Inl err \<Rightarrow>
                 if is_panic err then Some (Inl err)
                 else if \<not> errors_Is err ErrLinearNotFound then
                   Some (Inl (wrapf err (''linear statehash search failed for nodes '' @ squote nodeA @
                     '' and '' @ squote nodeB)))
                 else binary ()
             | Inr (h, sh) \<Rightarrow> Some (Inr (h, sh)))"

section \<open>The bisection loop\<close>

text \<open>
  A rule for the loop: it ends when the heights are below \<open>2\<^sup>6\<^sup>3\<close> and positive, with an error of the
  query or with a height \<open>r\<close> for which the invariant \<open>I\<close> holds on the empty range \<open>[r + 1, r]\<close>.
\<close>

lemma middle_bounds:
  fixes a b :: uint64
  assumes "a \<le> b" "b < 2 ^ 63"
  shows "a \<le> (a + b) div 2" "(a + b) div 2 \<le> b" "unat ((a + b) div 2) = (unat a + unat b) div 2"
proof -
  have b: "unat b < 2 ^ 63" using assms(2) by (simp add: word_less_nat_alt)
  have ab: "unat a \<le> unat b" using assms(1) by (simp add: word_le_nat_alt)
  have "unat (a + b) = unat a + unat b" using ab b by (subst unat_add_lem [THEN iffD1]) auto
  then show m: "unat ((a + b) div 2) = (unat a + unat b) div 2" by (simp add: unat_div)
  show "a \<le> (a + b) div 2" "(a + b) div 2 \<le> b" using ab m by (simp_all add: word_le_nat_alt)
qed

definition outcome ::
    "(uint64 \<Rightarrow> uint64 \<Rightarrow> bool) \<Rightarrow> (uint64 \<Rightarrow> error + bool) \<Rightarrow> uint64 \<Rightarrow> uint64 \<Rightarrow> error + uint64 \<Rightarrow> bool" where
  "outcome I different start stop x \<longleftrightarrow>
     (case x of Inl e \<Rightarrow> \<exists>m. start \<le> m \<and> m \<le> stop \<and> different m = Inl e
      | Inr r \<Rightarrow> I (r + 1) r \<and> start \<le> r + 1 \<and> r \<le> stop)"

lemma outcome_simps [simp]:
  "outcome I different start stop (Inl e) \<longleftrightarrow> (\<exists>m. start \<le> m \<and> m \<le> stop \<and> different m = Inl e)"
  "outcome I different start stop (Inr r) \<longleftrightarrow> I (r + 1) r \<and> start \<le> r + 1 \<and> r \<le> stop"
  by (simp_all add: outcome_def)

lemma outcome_mono:
  "outcome I different a b x \<Longrightarrow> start \<le> a \<Longrightarrow> b \<le> stop \<Longrightarrow> outcome I different start stop x"
  by (cases x) (auto intro: order_trans)

lemma middle_word:
  fixes a b :: uint64
  assumes "0 < a" "a \<le> b" "b < 2 ^ 63"
  shows "unat ((a + b) div 2 + 1) = Suc (unat ((a + b) div 2))" "Suc (unat ((a + b) div 2 - 1)) = unat ((a + b) div 2)"
    "unat a \<le> unat ((a + b) div 2)" "unat ((a + b) div 2) \<le> unat b"
proof -
  note mid = middle_bounds [OF assms(2,3)]
  show b: "unat a \<le> unat ((a + b) div 2)" "unat ((a + b) div 2) \<le> unat b" using mid by (simp_all add: word_le_nat_alt)
  with assms(3) show "unat ((a + b) div 2 + 1) = Suc (unat ((a + b) div 2))"
    by (subst unat_add_lem [THEN iffD1]) (auto simp: word_less_nat_alt)
  have "0 < unat ((a + b) div 2)" using b(1) assms(1) by (simp add: word_less_nat_alt)
  then show "Suc (unat ((a + b) div 2 - 1)) = unat ((a + b) div 2)" by (auto simp: unat_minus_one unat_gt_0)
qed

lemma bisect_step:
  assumes "start \<le> stop" "m = (start + stop) div 2"
  shows "bisect different start stop r =
    (case different m of Inl e \<Rightarrow> Some (Inl e)
     | Inr d \<Rightarrow> if d then bisect different start (m - 1) (m - 1) else bisect different (m + 1) stop m)"
  using assms(1) by (subst bisect.simps) (simp add: Let_def assms(2) split: sum.split)

text \<open>The invariant survives every comparison inside a range, hence inside a part of it.\<close>

definition narrows :: "(uint64 \<Rightarrow> uint64 \<Rightarrow> bool) \<Rightarrow> (uint64 \<Rightarrow> error + bool) \<Rightarrow> uint64 \<Rightarrow> uint64 \<Rightarrow> bool" where
  "narrows I different start stop \<longleftrightarrow>
     (\<forall>a b m. I a b \<and> start \<le> a \<and> b \<le> stop \<and> a \<le> m \<and> m \<le> b \<longrightarrow>
        (different m = Inr False \<longrightarrow> I (m + 1) b) \<and> (different m = Inr True \<longrightarrow> I a (m - 1)))"

lemma narrows_mono: "narrows I different start stop \<Longrightarrow> start \<le> a \<Longrightarrow> b \<le> stop \<Longrightarrow> narrows I different a b"
  unfolding narrows_def by (meson order_trans)

lemma narrowsD:
  assumes "narrows I different start stop" "I start stop" "start \<le> m" "m \<le> stop"
  shows "different m = Inr False \<Longrightarrow> I (m + 1) stop" "different m = Inr True \<Longrightarrow> I start (m - 1)"
  using assms unfolding narrows_def by blast+

lemma bisect_narrows:
  assumes "0 < start" "stop < 2 ^ 63" "unat start \<le> unat stop + 1" "I start stop" "start = stop + 1 \<Longrightarrow> r = stop"
    and "narrows I different start stop"
  shows "\<exists>x. bisect different start stop r = Some x \<and> outcome I different start stop x"
  using assms
proof (induction "unat stop + 1 - unat start" arbitrary: start stop r rule: less_induct)
  case less
  show ?case
  proof (cases "start \<le> stop")
    case False
    have "unat (stop + 1) = unat stop + 1"
      using less.prems(2) by (subst unat_add_lem [THEN iffD1]) (auto simp: word_less_nat_alt)
    with False less.prems(3) have "start = stop + 1" by (simp add: word_le_nat_alt word_unat_eq_iff)
    with False less.prems(4,5) show ?thesis by (simp add: bisect_empty)
  next
    case True
    define m where "m = (start + stop) div 2"
    note w = middle_word [OF less.prems(1) True less.prems(2), folded m_def]
    have mid: "start \<le> m" "m \<le> stop" using w(3,4) by (simp_all add: word_le_nat_alt)
    note step = bisect_step [OF True m_def, of different r]
    note I = narrowsD [OF less.prems(6,4) mid]
    show ?thesis
    proof (cases "different m")
      case (Inl e)
      with mid show ?thesis by (auto simp: step)
    next
      case (Inr d)
      show ?thesis
      proof (cases d)
        case True
        have le: "m - 1 \<le> stop" using w by (simp add: word_le_nat_alt)
        have "\<exists>x. bisect different start (m - 1) (m - 1) = Some x \<and> outcome I different start (m - 1) x"
          by (rule less.hyps [OF _ less.prems(1) order.strict_trans1 [OF le less.prems(2)] _ I(2)])
            (use w Inr True narrows_mono [OF less.prems(6) order_refl le] in auto)
        with Inr True le show ?thesis by (auto simp: step intro: outcome_mono [OF _ order_refl])
      next
        case False
        have le: "start \<le> m + 1" using w by (simp add: word_le_nat_alt)
        have "\<exists>x. bisect different (m + 1) stop m = Some x \<and> outcome I different (m + 1) stop x"
          by (rule less.hyps [OF _ _ less.prems(2) _ I(1)])
            (use w Inr False narrows_mono [OF less.prems(6) le order_refl] in \<open>auto simp: word_less_nat_alt\<close>)
        with Inr False le show ?thesis by (auto simp: step intro: outcome_mono)
      qed
    qed
  qed
qed

lemma bisect_rule:
  assumes "0 < start" "stop < 2 ^ 63" "unat start \<le> unat stop + 1" "I start stop"
    and "start = stop + 1 \<Longrightarrow> r = stop"
    and up: "\<And>a b m. I a b \<Longrightarrow> start \<le> a \<Longrightarrow> b \<le> stop \<Longrightarrow> a \<le> m \<Longrightarrow> m \<le> b \<Longrightarrow> different m = Inr False \<Longrightarrow> I (m + 1) b"
    and down: "\<And>a b m. I a b \<Longrightarrow> start \<le> a \<Longrightarrow> b \<le> stop \<Longrightarrow> a \<le> m \<Longrightarrow> m \<le> b \<Longrightarrow> different m = Inr True \<Longrightarrow> I a (m - 1)"
  shows "\<exists>x. bisect different start stop r = Some x \<and> outcome I different start stop x"
  by (rule bisect_narrows [where I = I, OF assms(1-5)]) (use up down in \<open>auto simp: narrows_def\<close>)

lemma unat_Suc:
  fixes r stop :: uint64
  assumes "r \<le> stop" "stop < 2 ^ 63"
  shows "unat (r + 1) = unat r + 1"
  using assms by (subst unat_add_lem [THEN iffD1]) (auto simp: word_less_nat_alt word_le_nat_alt)

text \<open>A height that the loop returns inside the range was compared and found equal.\<close>

lemma bisect_sound:
  assumes "0 < start" "start \<le> stop" "stop < 2 ^ 63" "bisect different start stop 0 = Some (Inr r)" "start \<le> r"
  shows "different r = Inr False \<and> r \<le> stop"
proof -
  let ?I = "\<lambda>a b. a = start \<or> different (a - 1) = Inr False"
  have ne: "start \<noteq> stop + 1"
    using unat_Suc [OF order_refl assms(3)] assms(2) by (auto simp: word_le_nat_alt)
  have "\<exists>x. bisect different start stop 0 = Some x \<and> outcome ?I different start stop x"
    by (rule bisect_rule [where I = ?I]) (use assms ne in \<open>auto simp: word_le_nat_alt\<close>)
  with assms(4) have r: "?I (r + 1) r" "r \<le> stop" by auto
  have "r + 1 \<noteq> start" using unat_Suc [OF r(2) assms(3)] assms(5) by (auto simp: word_le_nat_alt)
  with r show ?thesis by auto
qed

text \<open>The loop ends, and an error it returns is one of the query.\<close>

lemma bisect_total:
  assumes "0 < start" "stop < 2 ^ 63"
  shows "\<exists>x. bisect different start stop r = Some x \<and>
    (\<forall>e. x = Inl e \<longrightarrow> (\<exists>m. start \<le> m \<and> m \<le> stop \<and> different m = Inl e))"
proof (cases "start \<le> stop")
  case True
  have "start \<noteq> stop + 1"
    using unat_Suc [OF order_refl assms(2)] True by (auto simp: word_le_nat_alt)
  with bisect_rule [where I = "\<lambda>_ _. True" and start = start and stop = stop and r = r and different = different] assms True
  show ?thesis by (fastforce simp: word_le_nat_alt split: sum.splits)
next
  case False
  then show ?thesis by (subst bisect.simps) simp
qed

text \<open>For a query that answers everywhere and stays \<open>different\<close> above, the loop finds the boundary.\<close>

lemma bisect_boundary:
  assumes "0 < start" "start \<le> stop" "stop < 2 ^ 63"
    and total: "\<And>h. start \<le> h \<Longrightarrow> h \<le> stop \<Longrightarrow> different h = Inr (D h)"
    and mono: "\<And>h h'. start \<le> h \<Longrightarrow> h \<le> h' \<Longrightarrow> h' \<le> stop \<Longrightarrow> D h \<Longrightarrow> D h'"
  shows "\<exists>r. bisect different start stop 0 = Some (Inr r) \<and> start \<le> r + 1 \<and> r \<le> stop \<and>
    (\<forall>h. start \<le> h \<and> h \<le> stop \<longrightarrow> (D h \<longleftrightarrow> r < h))"
proof -
  let ?I = "\<lambda>a b. (\<forall>h. start \<le> h \<and> h < a \<longrightarrow> \<not> D h) \<and> (\<forall>h. b < h \<and> h \<le> stop \<longrightarrow> D h)"
  have ne: "start \<noteq> stop + 1"
    using unat_Suc [OF order_refl assms(3)] assms(2) by (auto simp: word_le_nat_alt)
  have "\<exists>x. bisect different start stop 0 = Some x \<and> outcome ?I different start stop x"
  proof (rule bisect_rule [where I = ?I])
    fix a b m
    assume I: "?I a b" and ab: "start \<le> a" "b \<le> stop" "a \<le> m" "m \<le> b"
    have m: "start \<le> m" "m \<le> stop" using ab by (meson order_trans)+
    have u: "unat (m + 1) = unat m + 1" by (rule unat_Suc [OF m(2) assms(3)])
    show "?I (m + 1) b" if "different m = Inr False"
    proof -
      have "\<not> D m" using total [OF m] that by simp
      moreover have "h \<le> m" if "h < m + 1" for h using that u by (simp add: word_le_nat_alt word_less_nat_alt)
      ultimately show ?thesis using I m mono by (meson order_trans)
    qed
    show "?I a (m - 1)" if "different m = Inr True"
    proof -
      have "D m" using total [OF m] that by simp
      moreover have "0 < m" using m(1) assms(1) by (meson order.strict_trans2)
      then have "unat (m - 1) = unat m - 1" by (simp add: unat_minus_one)
      then have "m \<le> h" if "m - 1 < h" for h using that by (simp add: word_le_nat_alt word_less_nat_alt)
      ultimately show ?thesis using I m mono by (meson order_trans)
    qed
  qed (use assms(1-3) ne in \<open>auto simp: word_le_nat_alt word_less_nat_alt\<close>)
  then obtain x where x: "bisect different start stop 0 = Some x" "outcome ?I different start stop x" by blast
  then obtain r where r: "x = Inr r" "?I (r + 1) r" "start \<le> r + 1" "r \<le> stop"
    using total by (cases x) auto
  have "h < r + 1 \<longleftrightarrow> h \<le> r" for h
    using unat_Suc [OF r(4) assms(3)] by (auto simp: word_le_nat_alt word_less_nat_alt)
  with x(1) r show ?thesis by (intro exI [of _ r]) (auto simp: not_less)
qed

end
