(* ===== verification/ForkPolicy.thy ===== *)
theory ForkPolicy
  imports ForkFinder
begin

text \<open>
  The properties of the fork finder, over the events storage: both searches end, a common
  height they report is one, and on chains that fork once the last common block is found.
\<close>

section \<open>The contract of a comparison\<close>

text \<open>
  What the bisections rely on: a query compares the values of two nodes at a height and
  passes on the errors of reading them. It is provided twice, for block ids and for state
  hashes.
\<close>

locale height_query =
  fixes value_at :: "'n \<Rightarrow> uint64 \<Rightarrow> error + 'v"
    and query :: "'n \<Rightarrow> 'n \<Rightarrow> uint64 \<Rightarrow> error + bool"
    and annotate :: "'n \<Rightarrow> 'n \<Rightarrow> uint64 \<Rightarrow> error \<Rightarrow> error"
  assumes query_eq: "query a b h =
     (case value_at a h of
        Inl e \<Rightarrow> Inl (annotate a b h e)
      | Inr x \<Rightarrow> (case value_at b h of
          Inl e \<Rightarrow> Inl (annotate a b h e)
        | Inr y \<Rightarrow> Inr (x \<noteq> y)))"
begin

lemma query_same_iff: "query a b h = Inr False \<longleftrightarrow> (\<exists>v. value_at a h = Inr v \<and> value_at b h = Inr v)"
  by (auto simp: query_eq split: sum.splits)

lemma query_commutes: "query a b h = Inr d \<longleftrightarrow> query b a h = Inr d"
  by (auto simp: query_eq split: sum.splits)

lemma found_agrees:
  assumes "0 < start" "start \<le> stop" "stop < 2 ^ 63"
    and "bisect (query a b) start stop 0 = Some (Inr r)" "start \<le> r"
  shows "\<exists>v. value_at a r = Inr v \<and> value_at b r = Inr v"
  using bisect_sound [OF assms] query_same_iff by blast

lemma last_agreement:
  assumes "0 < start" "start \<le> stop" "stop < 2 ^ 63"
    and "\<And>h. start \<le> h \<Longrightarrow> h \<le> stop \<Longrightarrow> value_at a h = Inr (va h) \<and> value_at b h = Inr (vb h)"
    and "\<And>h h'. start \<le> h \<Longrightarrow> h \<le> h' \<Longrightarrow> h' \<le> stop \<Longrightarrow> va h' = vb h' \<Longrightarrow> va h = vb h"
  shows "\<exists>r. bisect (query a b) start stop 0 = Some (Inr r) \<and> start \<le> r + 1 \<and> r \<le> stop \<and>
    (\<forall>h. start \<le> h \<and> h \<le> stop \<longrightarrow> (va h = vb h \<longleftrightarrow> h \<le> r))"
proof -
  have "\<exists>r. bisect (query a b) start stop 0 = Some (Inr r) \<and> start \<le> r + 1 \<and> r \<le> stop \<and>
    (\<forall>h. start \<le> h \<and> h \<le> stop \<longrightarrow> (va h \<noteq> vb h \<longleftrightarrow> r < h))"
    by (rule bisect_boundary [OF assms(1-3)]) (use assms(4,5) in \<open>auto simp: query_eq\<close>)
  then show ?thesis by (metis not_less)
qed

end

abbreviation block_at :: "gowaves \<Rightarrow> 'd buntDB \<Rightarrow> 'd Storage \<Rightarrow> string \<Rightarrow> uint64 \<Rightarrow> error + BlockID" where
  "block_at gw bd s n h \<equiv> map_sum id sh_BlockID (StateHashAtHeight gw bd s n h)"

abbreviation hash_at :: "gowaves \<Rightarrow> 'd buntDB \<Rightarrow> 'd Storage \<Rightarrow> string \<Rightarrow> uint64 \<Rightarrow> error + Digest" where
  "hash_at gw bd s n h \<equiv> map_sum id sh_SumHash (StateHashAtHeight gw bd s n h)"

interpretation blocks: height_query "block_at gw bd s" "differentBlocksAt gw bd s" "\<lambda>_ _ _ e. e" for gw bd s
  by unfold_locales (auto simp: differentBlocksAt_def different_at_def split: sum.splits)

interpretation hashes: height_query "hash_at gw bd s" "binsearch_query gw bd s"
  "\<lambda>a b h e. wrapf e (''binsearch failed for nodes '' @ squote a @ '' and '' @ squote b @
     '' at height '' @ FormatUint h)" for gw bd s
  by unfold_locales (auto simp: binsearch_query_def differentStateHashesAt_def different_at_def split: sum.splits)

section \<open>State hashes and the range of heights\<close>

abbreviation earliest :: "gowaves \<Rightarrow> ('d \<Rightarrow> (string, json) gomap) \<Rightarrow> 'd Storage \<Rightarrow> string \<Rightarrow> uint64 option" where
  "earliest gw cont s n \<equiv> newest_full_height (rev (history gw cont s n))"

lemma StateHashAtHeight_cases:
  assumes "store_ok gw bd cont glob s" "node_ok n"
  obtains e where "full_statement gw cont s h n = None" "StateHashAtHeight gw bd s n h = Inl e"
      "errors_Is e ErrNoFullStatement" "\<not> is_panic e"
  | st sh where "full_statement gw cont s h n = Some st" "StateHashAtHeight gw bd s n h = Inr sh"
      "st_StateHash st = Some sh"
proof (cases "full_statement gw cont s h n")
  case None
  with GetFull_full_at [OF assms, of h] obtain e where
    "GetFullStatementAtHeight gw bd s n h = Inl e" "errors_Is e ErrNoFullStatement" "\<not> is_panic e"
    by (auto simp: full_statement_def)
  with None that(1) show ?thesis by (auto simp: StateHashAtHeight_def)
next
  case (Some st)
  with GetFull_full_at [OF assms, of h] have "GetFullStatementAtHeight gw bd s n h = Inr st"
    by (auto simp: full_statement_def)
  moreover from Some obtain sh where "st_StateHash st = Some sh"
    using full_at_SomeD [of h "history gw cont s n" st] by (auto simp: full_statement_def)
  ultimately show ?thesis using Some that(2) by (auto simp: StateHashAtHeight_def)
qed

lemma search_range_cases:
  assumes "store_ok gw bd cont glob s" "node_ok a" "node_ok b"
  obtains e where "search_range gw bd s a b bl = Inl e" "errors_Is e ErrNoFullStatement"
  | sa sb ta tb where "earliest gw cont s a = Some sa" "earliest gw cont s b = Some sb"
      "latest gw cont s a = Some ta" "latest gw cont s b = Some tb"
      "search_range gw bd s a b bl = Inr (max sa sb, min ta tb)" "0 < max sa sb"
proof -
  consider e where "search_range gw bd s a b bl = Inl e" "errors_Is e ErrNoFullStatement"
    | sa sb ta tb where "earliest gw cont s a = Some sa" "earliest gw cont s b = Some sb"
      "latest gw cont s a = Some ta" "latest gw cont s b = Some tb"
      "search_range gw bd s a b bl = Inr (max sa sb, min ta tb)"
    using EarliestHeight_oldest [OF assms(1,2)] EarliestHeight_oldest [OF assms(1,3)]
      LatestHeight_newest [OF assms(1,2)] LatestHeight_newest [OF assms(1,3)]
    by (auto simp: search_range_def latest_def split: option.splits)
  then show ?thesis
  proof cases
    case 2
    have "0 < sa" using newest_full_height_pos [OF 2(1)] by (simp add: word_greater_zero_iff)
    then have "0 < max sa sb" by (simp add: less_max_iff_disj)
    with 2 that(2) show ?thesis by blast
  qed (use that(1) in blast)
qed

section \<open>Properties\<close>

text \<open>C8: The fork searches end. On a storage whose latest heights for one of the nodes are below
  \<open>2\<^sup>6\<^sup>3\<close> (beyond it the midpoint of the bisection would wrap around) \<open>FindLastCommonBlock\<close> and
  \<open>FindLastCommonStateHash\<close> return a result or an error, never a panic, with and without a
  linear search first.\<close>

theorem fork_search_ends:
  assumes "store_ok gw bd cont glob s" "node_ok a" "node_ok b"
    and "\<forall>h. latest gw cont s a = Some h \<longrightarrow> h < 2 ^ 63"
  shows "(\<exists>x. FindLastCommonBlock gw bd s a b = Some x) \<and>
    (\<exists>y. FindLastCommonStateHash gw bd s f a b = Some y)"
proof
  show "\<exists>x. FindLastCommonBlock gw bd s a b = Some x"
    using assms(1-3)
  proof (cases rule: search_range_cases [where bl = a])
    case (1 e)
    then show ?thesis by (simp add: FindLastCommonBlock_def)
  next
    case (2 sa sb ta tb)
    have "min ta tb < 2 ^ 63" using assms(4) 2(3) by (simp add: min_less_iff_disj)
    with bisect_total [OF 2(6), of "min ta tb" "differentBlocksAt gw bd s a b" 0] 2(5) show ?thesis
      by (auto simp: FindLastCommonBlock_def split: sum.splits)
  qed
  show "\<exists>y. FindLastCommonStateHash gw bd s f a b = Some y"
    using assms(1-3)
  proof (cases rule: search_range_cases [where bl = b])
    case (1 e)
    then show ?thesis by (simp add: FindLastCommonStateHash_def)
  next
    case (2 sa sb ta tb)
    have "min ta tb < 2 ^ 63" using assms(4) 2(3) by (simp add: min_less_iff_disj)
    with bisect_total [OF 2(6), of "min ta tb" "binsearch_query gw bd s a b" 0] 2(5) show ?thesis
      by (auto simp: FindLastCommonStateHash_def Let_def split: sum.splits)
  qed
qed

lemma linear_loop_sound:
  "linear_loop gw bd s a b start stop n i = Inr (h, sh) \<Longrightarrow>
    StateHashAtHeight gw bd s a h = Inr sh \<and>
    (\<exists>sh'. StateHashAtHeight gw bd s b h = Inr sh' \<and> sh_SumHash sh' = sh_SumHash sh)"
proof (induction n arbitrary: i)
  case (Suc n)
  from Suc.prems show ?case
    by (auto simp: Let_def differentStateHashesAt_def different_at_def Suc.IH
        split: if_splits sum.splits bool.splits)
qed simp

text \<open>The demo storage: node \<open>a\<close> at heights 10 and 11, node \<open>b\<close> at height 10, with one block.\<close>

lemma demo_chain_heights [simp]:
  "latest demo_gowaves map_of demo_chain ''a'' = Some 11" "latest demo_gowaves map_of demo_chain ''b'' = Some 10"
  "earliest demo_gowaves map_of demo_chain ''a'' = Some 10" "earliest demo_gowaves map_of demo_chain ''b'' = Some 10"
  by (simp_all add: latest_def newest_full_height_def)

lemma demo_chain_hash [simp]:
  "StateHashAtHeight demo_gowaves demo_db demo_chain ''a'' 10 = Inr demo_hash"
  "StateHashAtHeight demo_gowaves demo_db demo_chain ''b'' 10 = Inr demo_hash"
  using GetFull_full_at [OF demo_chain_ok demo_node(1), of 10] GetFull_full_at [OF demo_chain_ok demo_node(2), of 10]
  by (simp_all add: StateHashAtHeight_def full_at_def)

theorem fork_search_ends_witness:
  "(\<exists>x. FindLastCommonBlock demo_gowaves demo_db demo_chain ''a'' ''b'' = Some x) \<and>
   (\<exists>y. FindLastCommonStateHash demo_gowaves demo_db demo_chain (WithLinearSearchParams NewForkFinder 5) ''a'' ''b'' = Some y)"
  by (rule fork_search_ends [OF demo_chain_ok]) simp_all

lemma common_hash:
  assumes "store_ok gw bd cont glob s" "node_ok a" "node_ok b"
    and "\<forall>h. latest gw cont s a = Some h \<longrightarrow> h < 2 ^ 63"
    and "FindLastCommonStateHash gw bd s f a b = Some (Inr (h, sh))"
  shows "StateHashAtHeight gw bd s a h = Inr sh \<and>
    (\<exists>sh'. StateHashAtHeight gw bd s b h = Inr sh' \<and> sh_SumHash sh' = sh_SumHash sh)"
  using assms(1-3)
proof (cases rule: search_range_cases [where bl = b])
  case (1 e)
  with assms(5) show ?thesis by (simp add: FindLastCommonStateHash_def)
next
  case (2 sa sb ta tb)
  let ?lo = "max sa sb" and ?hi = "min ta tb"
  have hi: "?hi < 2 ^ 63" using assms(4) 2(3) by (simp add: min_less_iff_disj)
  consider (linear) "tryLinearStateHashSearch gw bd s f a b ?lo ?hi = Inr (h, sh)"
    | (binary) "bisect (binsearch_query gw bd s a b) ?lo ?hi 0 = Some (Inr h)" "\<not> h < ?lo"
        "StateHashAtHeight gw bd s a h = Inr sh"
    using assms(5) 2(5)
    by (auto simp: FindLastCommonStateHash_def Let_def split: sum.splits option.splits if_splits)
  then show ?thesis
  proof cases
    case linear
    then obtain d where "linear_loop gw bd s a b ?lo ?hi d 0 = Inr (h, sh)"
      by (auto simp: tryLinearStateHashSearch_def split: option.splits)
    then show ?thesis by (rule linear_loop_sound)
  next
    case binary
    have "?lo \<le> ?hi"
    proof (rule ccontr)
      assume "\<not> ?lo \<le> ?hi"
      from bisect_empty [OF this] binary(1) have "h = 0" by (simp only: option.inject sum.inject)
      with binary(2) 2(6) show False by simp
    qed
    from hashes.found_agrees [OF 2(6) this hi binary(1)] binary(2,3) show ?thesis
      by (auto simp: map_sum_def not_less split: sum.splits)
  qed
qed

text \<open>C9: Soundness of the state hash search. When \<open>FindLastCommonStateHash\<close> returns a height and a
  state hash, the hash is the one the storage has for the first node at this height, and the
  storage has the same sum hash for the second node at this height; this holds for the linear
  and for the binary search, without assuming anything on how the chains differ.\<close>

theorem common_state_hash_sound:
  assumes "store_ok gw bd cont glob s" "node_ok a" "node_ok b"
    and "\<forall>h. latest gw cont s a = Some h \<longrightarrow> h < 2 ^ 63"
    and "FindLastCommonStateHash gw bd s f a b = Some (Inr (h, sh))"
  shows "StateHashAtHeight gw bd s a h = Inr sh \<and>
    (\<exists>sh'. StateHashAtHeight gw bd s b h = Inr sh' \<and> sh_SumHash sh' = sh_SumHash sh)"
  using assms by (rule common_hash)

lemma demo_search_range:
  "search_range demo_gowaves demo_db demo_chain ''a'' ''b'' ''b'' = Inr (10, 10)"
  using EarliestHeight_oldest [OF demo_chain_ok demo_node(1)] EarliestHeight_oldest [OF demo_chain_ok demo_node(2)]
    LatestHeight_newest [OF demo_chain_ok demo_node(1)] LatestHeight_newest [OF demo_chain_ok demo_node(2)]
  by (simp add: search_range_def newest_full_height_def)

theorem common_state_hash_sound_witness:
  "StateHashAtHeight demo_gowaves demo_db demo_chain ''a'' 10 = Inr demo_hash \<and>
    (\<exists>sh'. StateHashAtHeight demo_gowaves demo_db demo_chain ''b'' 10 = Inr sh' \<and>
      sh_SumHash sh' = sh_SumHash demo_hash)"
proof -
  have "bisect (binsearch_query demo_gowaves demo_db demo_chain ''a'' ''b'') 10 10 0 = Some (Inr 10)"
    by (subst bisect.simps)
       (simp add: binsearch_query_def differentStateHashesAt_def different_at_def bisect_empty)
  then have "FindLastCommonStateHash demo_gowaves demo_db demo_chain NewForkFinder ''a'' ''b'' = Some (Inr (10, demo_hash))"
    by (simp add: FindLastCommonStateHash_def demo_search_range tryLinearStateHashSearch_def NewForkFinder_def)
  from common_state_hash_sound [OF demo_chain_ok demo_node(1,2) _ this] show ?thesis by simp
qed

text \<open>C10: The last common block. If both nodes have a full statement at every height they share, and
  their block ids agree at every height below one where they agree (a fork), then
  \<open>FindLastCommonBlock\<close> returns the greatest shared height at which the block ids agree, with
  that block id, or \<open>ErrNoCommonBlocks\<close> when they agree nowhere in the range.\<close>

theorem last_common_block:
  assumes "store_ok gw bd cont glob s" "node_ok a" "node_ok b"
    and "earliest gw cont s a = Some sa" "earliest gw cont s b = Some sb"
    and "latest gw cont s a = Some ta" "latest gw cont s b = Some tb"
    and "max sa sb \<le> min ta tb" "min ta tb < 2 ^ 63"
    and "\<And>h. max sa sb \<le> h \<Longrightarrow> h \<le> min ta tb \<Longrightarrow>
      block_at gw bd s a h = Inr (va h) \<and> block_at gw bd s b h = Inr (vb h)"
    and "\<And>h h'. max sa sb \<le> h \<Longrightarrow> h \<le> h' \<Longrightarrow> h' \<le> min ta tb \<Longrightarrow> va h' = vb h' \<Longrightarrow> va h = vb h"
  shows "if va (max sa sb) = vb (max sa sb)
    then \<exists>r. FindLastCommonBlock gw bd s a b = Some (Inr (r, va r)) \<and> max sa sb \<le> r \<and> r \<le> min ta tb \<and>
      (\<forall>h. max sa sb \<le> h \<and> h \<le> min ta tb \<longrightarrow> (va h = vb h \<longleftrightarrow> h \<le> r))
    else \<exists>e. FindLastCommonBlock gw bd s a b = Some (Inl e) \<and> errors_Is e ErrNoCommonBlocks"
proof -
  let ?lo = "max sa sb" and ?hi = "min ta tb"
  have "0 < sa" using newest_full_height_pos [OF assms(4)] by (simp add: word_greater_zero_iff)
  then have lo: "0 < ?lo" by (simp add: less_max_iff_disj)
  have range: "search_range gw bd s a b a = Inr (?lo, ?hi)"
    using assms(4-7) EarliestHeight_oldest [OF assms(1,2)] EarliestHeight_oldest [OF assms(1,3)]
      LatestHeight_newest [OF assms(1,2)] LatestHeight_newest [OF assms(1,3)]
    by (simp add: search_range_def latest_def)
  obtain r where r: "bisect (differentBlocksAt gw bd s a b) ?lo ?hi 0 = Some (Inr r)" "?lo \<le> r + 1" "r \<le> ?hi"
    "\<forall>h. ?lo \<le> h \<and> h \<le> ?hi \<longrightarrow> (va h = vb h \<longleftrightarrow> h \<le> r)"
    using blocks.last_agreement [OF lo assms(8,9), of gw bd s a va b vb] assms(10,11) by blast
  show ?thesis
  proof (cases "va ?lo = vb ?lo")
    case True
    with r(4) assms(8) have "?lo \<le> r" by blast
    moreover from assms(10) [OF this r(3)] obtain sh where
      "StateHashAtHeight gw bd s a r = Inr sh" "sh_BlockID sh = va r"
      by (auto simp: map_sum_def split: sum.splits)
    ultimately show ?thesis
      using True r by (simp add: FindLastCommonBlock_def range not_less [symmetric])
  next
    case False
    with r(4) assms(8) have "\<not> ?lo \<le> r" by blast
    then have "r < ?lo" by (simp only: not_le)
    with False r(1) show ?thesis by (simp add: FindLastCommonBlock_def range no_common_blocks_def)
  qed
qed

theorem last_common_block_witness:
  "\<exists>r. FindLastCommonBlock demo_gowaves demo_db demo_chain ''a'' ''b'' = Some (Inr (r, ''B'')) \<and> r = 10"
proof -
  have one: "h = 10" if "(10 :: uint64) \<le> h" "h \<le> 10" for h using that by simp
  have "if (\<lambda>_. ''B'') (max (10 :: uint64) 10) = (\<lambda>_. ''B'') (max (10 :: uint64) 10)
    then \<exists>r. FindLastCommonBlock demo_gowaves demo_db demo_chain ''a'' ''b'' = Some (Inr (r, (\<lambda>_. ''B'') r)) \<and>
      max 10 10 \<le> r \<and> r \<le> min 11 10 \<and>
      (\<forall>h. max 10 10 \<le> h \<and> h \<le> min 11 10 \<longrightarrow> ((\<lambda>_. ''B'') h = (\<lambda>_. ''B'') h \<longleftrightarrow> h \<le> r))
    else \<exists>e. FindLastCommonBlock demo_gowaves demo_db demo_chain ''a'' ''b'' = Some (Inl e) \<and> errors_Is e ErrNoCommonBlocks"
    by (rule last_common_block [OF demo_chain_ok demo_node(1,2)])
       (auto dest!: one simp: demo_hash_def newest_full_height_def)
  then show ?thesis using one by auto
qed

end
