(* ===== verification/Criteria.thy ===== *)
theory Criteria
  imports ForkPolicy
begin

text \<open>
  \<open>pkg/analysis/criteria\<close>: the criteria that turn statements into alerts. A criterion writes to a
  channel and may return an error; its model gives the alerts it has sent by then, in order,
  and the error. Options are pointers, nil meaning the defaults; where a criterion ranges over
  a map, the order is an argument. The state hash criterion runs the fork finder, whose result
  \<open>None\<close> is a search that does not end.
\<close>

type_synonym criterion_result = "Alert list \<times> error option"

section \<open>Base target\<close>

record BaseTargetCriterionOptions =
  bto_Threshold :: uint64

definition NewBaseTargetCriterion ::
    "BaseTargetCriterionOptions option \<Rightarrow> error + BaseTargetCriterionOptions" where
  "NewBaseTargetCriterion opts =
     (case opts of
        None \<Rightarrow> Inl (Errorf ''provided <nil> base target criterion options'')
      | Some o' \<Rightarrow> Inr o')"

fun mostFrequent_loop :: "(uint64, uint64) gomap \<Rightarrow> uint64 \<Rightarrow> uint64 \<Rightarrow> NodeStatements \<Rightarrow> uint64" where
  "mostFrequent_loop m maxBT maxKey [] = maxKey"
| "mostFrequent_loop m maxBT maxKey (s # ss) =
     (if st_BaseTarget s = 0 then mostFrequent_loop m maxBT maxKey ss
      else
        let v = st_BaseTarget s; n = map_get 0 m v + 1; m' = m(v \<mapsto> n)
        in if n > maxBT then mostFrequent_loop m' n v ss else mostFrequent_loop m' maxBT maxKey ss)"

definition mostFrequentBaseTarget :: "NodeStatements \<Rightarrow> uint64" where
  "mostFrequentBaseTarget statements = mostFrequent_loop (\<lambda>_. None) 0 0 statements"

definition BaseTarget_Analyze :: "BaseTargetCriterionOptions \<Rightarrow> int \<Rightarrow> NodeStatements \<Rightarrow> Alert list" where
  "BaseTarget_Analyze opts ts statements =
     (if mostFrequentBaseTarget statements \<le> bto_Threshold opts then []
      else [A_BaseTarget
        \<lparr>bta_Timestamp = ts,
         bta_BaseTargetValues =
           map (\<lambda>s. \<lparr>btv_Node = st_Node s, btv_BaseTarget = st_BaseTarget s\<rparr>) statements,
         bta_Threshold = bto_Threshold opts\<rparr>])"

section \<open>Challenged blocks\<close>

fun challenged_loop :: "(BlockID, Nodes) gomap \<Rightarrow> NodeStatements \<Rightarrow> (BlockID, Nodes) gomap" where
  "challenged_loop m [] = m"
| "challenged_loop m (s # ss) =
     (case st_BlockID s of
        Some blockID \<Rightarrow> if st_Challenged s then challenged_loop (map_append m blockID (st_Node s)) ss
                        else challenged_loop m ss
      | None \<Rightarrow> challenged_loop m ss)"

definition ChallengedBlock_Analyze :: "BlockID list \<Rightarrow> int \<Rightarrow> NodeStatements \<Rightarrow> Alert list" where
  "ChallengedBlock_Analyze ks timestamp statements =
     map (\<lambda>blockID. A_ChallengedBlock
        \<lparr>cba_Timestamp = timestamp, cba_BlockID = blockID,
         cba_Nodes = Nodes_Sort (map_get [] (challenged_loop (\<lambda>_. None) statements) blockID)\<rparr>) ks"

section \<open>Heights\<close>

record HeightCriterionOptions =
  hco_MaxHeightDiff :: uint64

definition defaultMaxHeightDiff :: uint64 where "defaultMaxHeightDiff = 3"

definition NewHeightCriterion :: "HeightCriterionOptions option \<Rightarrow> HeightCriterionOptions" where
  "NewHeightCriterion opts =
     (case opts of None \<Rightarrow> \<lparr>hco_MaxHeightDiff = defaultMaxHeightDiff\<rparr> | Some o' \<Rightarrow> o')"

text \<open>\<open>mks\<close> and \<open>ks\<close> are the orders of the two loops over the map: in \<open>MinMaxHeight\<close> and in \<open>Analyze\<close>.\<close>

definition Height_Analyze ::
    "HeightCriterionOptions \<Rightarrow> uint64 list \<Rightarrow> uint64 list \<Rightarrow> int \<Rightarrow> NodeStatements \<Rightarrow> Alert list" where
  "Height_Analyze opts mks ks timestamp statements =
     (let split = SplitByNodeHeight statements; (minHeight, maxHeight) = MinMaxHeight mks split
      in if minHeight = maxHeight then []
         else
           let sortedMaxGroup = Nodes_Sort (Nodes_of (map_get [] split maxHeight))
           in concat (map (\<lambda>height.
                if maxHeight - height > hco_MaxHeightDiff opts then
                  [A_Height
                    \<lparr>ha_Timestamp = timestamp,
                     ha_MaxHeightGroup = \<lparr>hg_Height = maxHeight, hg_Nodes = sortedMaxGroup\<rparr>,
                     ha_OtherHeightGroup = \<lparr>hg_Height = height,
                       hg_Nodes = Nodes_Sort (Nodes_of (map_get [] split height))\<rparr>\<rparr>]
                else []) ks))"

section \<open>Streaks\<close>

text \<open>
  The callback that the incomplete and the unreachable criterion share: \<open>counts\<close> tells which
  statements lengthen the streak; the accumulator holds \<open>streak\<close> and \<open>depth\<close>.
\<close>

definition streak_step ::
    "(NodeStatement \<Rightarrow> bool) \<Rightarrow> int \<Rightarrow> int \<Rightarrow> int \<times> int \<Rightarrow> NodeStatement \<Rightarrow> (int \<times> int) \<times> bool" where
  "streak_step counts Streak Depth acc s =
     (let streak = (if counts s then wrap64 (fst acc + 1) else 0);
          depth = wrap64 (snd acc + 1)
      in ((streak, depth), \<not> (streak \<ge> Streak \<or> depth \<ge> Depth)))"

record IncompleteCriterionOptions =
  ico_Streak :: int
  ico_Depth :: int
  ico_ConsiderPrevUnreachableAsIncomplete :: bool

definition NewIncompleteCriterion :: "IncompleteCriterionOptions option \<Rightarrow> IncompleteCriterionOptions" where
  "NewIncompleteCriterion opts =
     (case opts of
        None \<Rightarrow> \<lparr>ico_Streak = 3, ico_Depth = 5, ico_ConsiderPrevUnreachableAsIncomplete = True\<rparr>
      | Some o' \<Rightarrow> o')"

definition incomplete_counts :: "IncompleteCriterionOptions \<Rightarrow> NodeStatement \<Rightarrow> bool" where
  "incomplete_counts opts statement =
     (st_Status statement = Incomplete \<or>
      ico_ConsiderPrevUnreachableAsIncomplete opts \<and> st_Status statement = Unreachable)"

definition Incomplete_analyzeNode ::
    "gowaves \<Rightarrow> 'd buntDB \<Rightarrow> 'd Storage \<Rightarrow> IncompleteCriterionOptions \<Rightarrow> NodeStatement \<Rightarrow> criterion_result" where
  "Incomplete_analyzeNode gw bd es opts statement =
     (case ViewStatementsByNodeWithDescendKeys gw bd es (st_Node statement)
             (streak_step (incomplete_counts opts) (ico_Streak opts) (ico_Depth opts)) (0, 0) of
        (_, Some err) \<Rightarrow> ([], Some (wrapf err
          (''failed to analyze '' @ Quote (st_Node statement) @ '' by incomplete criterion'')))
      | ((streak, depth), None) \<Rightarrow>
          (if streak \<ge> ico_Streak opts then [A_Incomplete statement] else [], None))"

text \<open>The loop of \<open>Analyze\<close>: it stops at the first node whose analysis fails.\<close>

fun analyze_nodes :: "('s \<Rightarrow> criterion_result) \<Rightarrow> 's list \<Rightarrow> criterion_result" where
  "analyze_nodes f [] = ([], None)"
| "analyze_nodes f (s # ss) =
     (case f s of
        (sent, Some err) \<Rightarrow> (sent, Some err)
      | (sent, None) \<Rightarrow> (case analyze_nodes f ss of (subsequent, err) \<Rightarrow> (sent @ subsequent, err)))"

definition Incomplete_Analyze ::
    "gowaves \<Rightarrow> 'd buntDB \<Rightarrow> 'd Storage \<Rightarrow> IncompleteCriterionOptions \<Rightarrow> NodeStatements \<Rightarrow> criterion_result" where
  "Incomplete_Analyze gw bd es opts statements =
     analyze_nodes (Incomplete_analyzeNode gw bd es opts) statements"

record UnreachableCriterionOptions =
  uco_Streak :: int
  uco_Depth :: int

definition NewUnreachableCriterion :: "UnreachableCriterionOptions option \<Rightarrow> UnreachableCriterionOptions" where
  "NewUnreachableCriterion opts =
     (case opts of None \<Rightarrow> \<lparr>uco_Streak = 3, uco_Depth = 5\<rparr> | Some o' \<Rightarrow> o')"

definition unreachable_counts :: "NodeStatement \<Rightarrow> bool" where
  "unreachable_counts statement = (st_Status statement = Unreachable)"

definition Unreachable_analyzeNode ::
    "gowaves \<Rightarrow> 'd buntDB \<Rightarrow> 'd Storage \<Rightarrow> UnreachableCriterionOptions \<Rightarrow> int \<Rightarrow> string \<Rightarrow> criterion_result" where
  "Unreachable_analyzeNode gw bd es opts timestamp node =
     (case ViewStatementsByNodeWithDescendKeys gw bd es node
             (streak_step unreachable_counts (uco_Streak opts) (uco_Depth opts)) (0, 0) of
        (_, Some err) \<Rightarrow> ([], Some (wrapf err
          (''failed to analyze '' @ Quote node @ '' by unreachable criterion'')))
      | ((streak, depth), None) \<Rightarrow>
          (if streak \<ge> uco_Streak opts
           then [A_Unreachable \<lparr>ua_Timestamp = timestamp, ua_Node = node\<rparr>] else [], None))"

definition Unreachable_Analyze ::
    "gowaves \<Rightarrow> 'd buntDB \<Rightarrow> 'd Storage \<Rightarrow> UnreachableCriterionOptions \<Rightarrow> int \<Rightarrow> NodeStatements \<Rightarrow> criterion_result" where
  "Unreachable_Analyze gw bd es opts timestamp statements =
     analyze_nodes (\<lambda>s. Unreachable_analyzeNode gw bd es opts timestamp (st_Node s)) statements"

section \<open>State hashes\<close>

record StateHashCriterionOptions =
  sco_MaxForkDepth :: uint32
  sco_HeightBucketSize :: uint32

definition NewStateHashCriterion :: "StateHashCriterionOptions option \<Rightarrow> StateHashCriterionOptions" where
  "NewStateHashCriterion opts =
     (case opts of
        None \<Rightarrow> \<lparr>sco_MaxForkDepth = 3, sco_HeightBucketSize = 3\<rparr>
      | Some o' \<Rightarrow> o')"

fun getAllStatementsAtBucketHeight ::
    "gowaves \<Rightarrow> 'd buntDB \<Rightarrow> 'd Storage \<Rightarrow> NodeStatements \<Rightarrow> uint64 \<Rightarrow> error + NodeStatements" where
  "getAllStatementsAtBucketHeight gw bd es [] bucket = Inr []"
| "getAllStatementsAtBucketHeight gw bd es (statement # rest) bucket =
     (let continue = (\<lambda>sts. case getAllStatementsAtBucketHeight gw bd es rest bucket of
            Inl err \<Rightarrow> Inl err | Inr subsequent \<Rightarrow> Inr (sts @ subsequent))
      in if st_Height statement = bucket then continue [statement]
         else (case GetFullStatementAtHeight gw bd es (st_Node statement) bucket of
                 Inl err \<Rightarrow>
                   if \<not> errors_Is err ErrNoFullStatement then
                     Inl (wrapf err (''failed to analyze statehash for nodes at bucketHeight='' @ FormatUint bucket))
                   else continue []
               | Inr st \<Rightarrow> continue [st]))"

text \<open>The conversion of \<open>uint64\<close> to \<open>int64\<close> is \<open>sint\<close>; the difference wraps around.\<close>

definition forkDepth :: "uint64 \<Rightarrow> uint64 \<Rightarrow> int" where
  "forkDepth bucket common = wrap64 (sint bucket - sint common)"

definition StateHashGroup_of ::
    "(Digest, NodeStatements) gomap \<Rightarrow> StateHash \<Rightarrow> StateHashGroup" where
  "StateHashGroup_of splitStateHash sh =
     \<lparr>shg_Nodes = Nodes_Sort (Nodes_of (map_get [] splitStateHash (sh_SumHash sh))), shg_StateHash = sh\<rparr>"

definition handleSamplesPair ::
    "gowaves \<Rightarrow> 'd buntDB \<Rightarrow> 'd Storage \<Rightarrow> StateHashCriterionOptions \<Rightarrow> uint64 \<Rightarrow> int \<Rightarrow> ForkFinder \<Rightarrow>
     NodeStatement \<Rightarrow> NodeStatement \<Rightarrow> (Digest, NodeStatements) gomap \<Rightarrow> criterion_result option" where
  "handleSamplesPair gw bd es opts bucket timestamp ff first second splitStateHash =
     (let go = (\<lambda>exist common commonSh.
        let depth = forkDepth bucket common;
            alarm = (depth > uint (sco_MaxForkDepth opts) \<or> depth \<ge> uint (sco_HeightBucketSize opts))
        in if depth = 0 \<and> \<not> alarm then ([], None)
           else (case (st_StateHash first, st_StateHash second) of
             (Some sh1, Some sh2) \<Rightarrow>
               (if alarm then [A_StateHash
                  \<lparr>sha_Timestamp = timestamp,
                   sha_CurrentGroupsBucketHeight = bucket,
                   sha_LastCommonStateHashExist = exist,
                   sha_LastCommonStateHashHeight = common,
                   sha_LastCommonStateHash = commonSh,
                   sha_FirstGroup = StateHashGroup_of splitStateHash sh1,
                   sha_SecondGroup = StateHashGroup_of splitStateHash sh2\<rparr>]
                else [], None)
           | _ \<Rightarrow> ([], Some (Panic ''nil pointer dereference''))))
      in case FindLastCommonStateHash gw bd es ff (st_Node first) (st_Node second) of
           None \<Rightarrow> None
         | Some (Inl err) \<Rightarrow> Some (
             if errors_Is err ErrNoFullStatement then ([], None)
             else if errors_Is err ErrNoCommonBlocks then go False 0 (zeroStateHash gw)
             else ([], Some (wrapf err (''failed to find last common state hash for nodes '' @
               Quote (st_Node first) @ '' and '' @ Quote (st_Node second)))))
         | Some (Inr (h, sh)) \<Rightarrow> Some (go True h sh))"

text \<open>Running steps that send alerts and may fail or not end: the first failure stops the rest.\<close>

fun run_steps :: "criterion_result option list \<Rightarrow> criterion_result option" where
  "run_steps [] = Some ([], None)"
| "run_steps (r # rs) =
     (case r of
        None \<Rightarrow> None
      | Some (sent, Some err) \<Rightarrow> Some (sent, Some err)
      | Some (sent, None) \<Rightarrow>
          (case run_steps rs of None \<Rightarrow> None | Some (subsequent, err) \<Rightarrow> Some (sent @ subsequent, err)))"

fun sample_pairs :: "NodeStatements \<Rightarrow> (NodeStatement \<times> NodeStatement) list" where
  "sample_pairs [] = []"
| "sample_pairs (s # ss) = map (Pair s) ss @ sample_pairs ss"

text \<open>\<open>fmt\<close> prints a slice of strings as its elements between brackets; \<open>dks\<close> orders the digests.\<close>

definition analyzeNodesOnSameHeight ::
    "gowaves \<Rightarrow> 'd buntDB \<Rightarrow> 'd Storage \<Rightarrow> StateHashCriterionOptions \<Rightarrow> Digest list \<Rightarrow> uint64 \<Rightarrow> int \<Rightarrow>
     NodeStatements \<Rightarrow> criterion_result option" where
  "analyzeNodesOnSameHeight gw bd es opts dks bucket timestamp statements =
     (case SplitBySumStateHash statements of
        Inl p \<Rightarrow> Some ([], Some p)
      | Inr (splitStateHash, others) \<Rightarrow>
          if others \<noteq> [] then Some ([], Some (Errorf (''failed to analyze nodes at height '' @
            FormatUint bucket @ '' by statehash criterion ['' @ strings_Join (Nodes_of others) '' '' @ '']'')))
          else if length dks \<le> 1 then Some ([], None)
          else
            let samples = SortByNodeAsc (map (\<lambda>d. hd (map_get [] splitStateHash d)) dks);
                ff = WithLinearSearchParams NewForkFinder (ucast (sco_MaxForkDepth opts + 1))
            in run_steps (map (\<lambda>(first, second).
                 handleSamplesPair gw bd es opts bucket timestamp ff first second splitStateHash)
                 (sample_pairs samples)))"

text \<open>The height that a bucket is compared at, and the statements at it.\<close>

definition bucket_statements ::
    "gowaves \<Rightarrow> 'd buntDB \<Rightarrow> 'd Storage \<Rightarrow> uint64 list \<Rightarrow> uint64 \<Rightarrow> NodeStatements \<Rightarrow> error + uint64 \<times> NodeStatements" where
  "bucket_statements gw bd es hks bucket nodeStatements =
     (let (minHeight, maxHeight) = MinMaxHeight hks (SplitByNodeHeight nodeStatements)
      in if minHeight = maxHeight then Inr (minHeight, nodeStatements)
         else (case getAllStatementsAtBucketHeight gw bd es nodeStatements bucket of
                 Inl err \<Rightarrow> Inl err
               | Inr statementsAtBucketHeight \<Rightarrow> Inr (bucket, statementsAtBucketHeight)))"

definition analyze_bucket ::
    "gowaves \<Rightarrow> 'd buntDB \<Rightarrow> 'd Storage \<Rightarrow> StateHashCriterionOptions \<Rightarrow> uint64 list \<Rightarrow> Digest list \<Rightarrow> int \<Rightarrow>
     uint64 \<Rightarrow> NodeStatements \<Rightarrow> criterion_result option" where
  "analyze_bucket gw bd es opts hks dks ts bucket nodeStatements =
     (case bucket_statements gw bd es hks bucket nodeStatements of
        Inl err \<Rightarrow> Some ([], Some err)
      | Inr (bucket, statementsAtBucketHeight) \<Rightarrow>
          (case analyzeNodesOnSameHeight gw bd es opts dks bucket ts statementsAtBucketHeight of
             None \<Rightarrow> None
           | Some (sent, Some err) \<Rightarrow> Some (sent, Some (wrapf err
               (''failed to analyze statehash for nodes at bucketHeight='' @ FormatUint bucket)))
           | Some (sent, None) \<Rightarrow> Some (sent, None)))"

text \<open>\<open>bks\<close> orders the buckets, \<open>hks\<close> and \<open>dks\<close> the heights and the digests of each bucket.\<close>

definition StateHash_Analyze ::
    "gowaves \<Rightarrow> 'd buntDB \<Rightarrow> 'd Storage \<Rightarrow> StateHashCriterionOptions \<Rightarrow> uint64 list \<Rightarrow>
     (uint64 \<Rightarrow> uint64 list) \<Rightarrow> (uint64 \<Rightarrow> Digest list) \<Rightarrow> int \<Rightarrow> NodeStatements \<Rightarrow> criterion_result option" where
  "StateHash_Analyze gw bd es opts bks hks dks ts statements =
     (case SplitByNodeHeightBuckets (ucast (sco_HeightBucketSize opts)) statements of
        Inl p \<Rightarrow> Some ([], Some p)
      | Inr splitByBucketHeight \<Rightarrow>
          run_steps (map (\<lambda>b. analyze_bucket gw bd es opts (hks b) (dks b) ts b
            (map_get [] splitByBucketHeight b)) bks))"

end
