(* ===== verification/CriteriaPolicy.thy ===== *)
theory CriteriaPolicy
  imports Criteria
begin

text \<open>
  When the criteria raise alerts: the streak criteria, the height groups, the most frequent
  base target, challenged blocks, and forks of state hashes.
\<close>

section \<open>Streaks\<close>

fun starts_with :: "('s \<Rightarrow> bool) \<Rightarrow> nat \<Rightarrow> 's list \<Rightarrow> bool" where
  "starts_with P 0 xs = True"
| "starts_with P (Suc k) [] = False"
| "starts_with P (Suc k) (x # xs) = (P x \<and> starts_with P k xs)"



lemma starts_with_Nil [simp]: "starts_with P k [] \<longleftrightarrow> k = 0"
  by (cases k) auto


















end
