(* ===== verification/CriteriaAlerts.thy ===== *)
theory CriteriaAlerts
  imports CriteriaPolicy
begin

text \<open>
  The criteria that compare nodes with each other: the height groups, the most frequent base
  target, challenged blocks, and the samples of different state hashes.
\<close>

section \<open>Heights\<close>

text \<open>C11: The height criterion. With statements whose greatest height is \<open>m\<close>, it raises one alert for
  each height that lies more than \<open>MaxHeightDiff\<close> below \<open>m\<close> and no other alert; the alert names
  the nodes at \<open>m\<close> and the nodes at that height, each group sorted. Only the order of the alerts
  depends on the order in which the map of heights is ranged over.\<close>

theorem height_alerts:
  assumes "statements \<noteq> []" "iter_order (SplitByNodeHeight statements) mks"
    and "iter_order (SplitByNodeHeight statements) ks"
  shows "mset (Height_Analyze opts mks ks ts statements) =
    (let m = Max (st_Height ` set statements);
         group = (\<lambda>h. \<lparr>hg_Height = h, hg_Nodes = sort (map st_Node (filter (\<lambda>s. st_Height s = h) statements))\<rparr>)
     in image_mset (\<lambda>h. A_Height \<lparr>ha_Timestamp = ts, ha_MaxHeightGroup = group m, ha_OtherHeightGroup = group h\<rparr>)
          (mset_set {h \<in> st_Height ` set statements. m - h > hco_MaxHeightDiff opts}))"
proof -
  let ?hs = "st_Height ` set statements"
  let ?m = "Max ?hs"
  let ?group = "\<lambda>h. \<lparr>hg_Height = h, hg_Nodes = sort (map st_Node (filter (\<lambda>s. st_Height s = h) statements))\<rparr>"
  let ?alert = "\<lambda>h. A_Height \<lparr>ha_Timestamp = ts, ha_MaxHeightGroup = ?group ?m, ha_OtherHeightGroup = ?group h\<rparr>"
  have mm: "MinMaxHeight mks (SplitByNodeHeight statements) = (Min ?hs, ?m)"
    by (rule MinMaxHeight_statements [OF assms(2,1)])
  have ks: "distinct ks" "set ks = ?hs"
    using assms(3) by (simp_all add: iter_order_def SplitByNodeHeight_def dom_group_by)
  have group: "Nodes_Sort (Nodes_of (map_get [] (SplitByNodeHeight statements) h)) = hg_Nodes (?group h)" for h
    by (simp add: SplitByNodeHeight_def map_get_group_by Nodes_Sort_def Nodes_of_def)
  have ms: "mset (map ?alert (filter (\<lambda>h. ?m - h > hco_MaxHeightDiff opts) ks)) =
      image_mset ?alert (mset_set {h \<in> ?hs. ?m - h > hco_MaxHeightDiff opts})"
    using ks mset_set_set [of "filter (\<lambda>h. ?m - h > hco_MaxHeightDiff opts) ks"]
    by (simp add: mset_map [symmetric] del: mset_map) (simp add: mset_map)
  show ?thesis
  proof (cases "Min ?hs = ?m")
    case True
    then have "h = ?m" if "h \<in> ?hs" for h using that by (intro Min_eq_Max [OF True]) simp_all
    then have empty: "{h \<in> ?hs. ?m - h > hco_MaxHeightDiff opts} = {}" by auto
    have "Height_Analyze opts mks ks ts statements = []"
      by (simp add: Height_Analyze_def mm True)
    then show ?thesis by (simp only: Let_def empty) simp
  next
    case False
    then have "Height_Analyze opts mks ks ts statements =
        map ?alert (filter (\<lambda>h. ?m - h > hco_MaxHeightDiff opts) ks)"
      by (simp add: Height_Analyze_def mm group concat_map_if)
    with ms show ?thesis by (simp only: Let_def)
  qed
qed

definition demo_statement :: "string \<Rightarrow> uint64 \<Rightarrow> uint64 \<Rightarrow> NodeStatement" where
  "demo_statement node h bt = zeroStatement\<lparr>st_Node := node, st_Height := h, st_BaseTarget := bt, st_Status := OK\<rparr>"

lemma demo_statement_simps [simp]:
  "st_Node (demo_statement n h bt) = n" "st_Height (demo_statement n h bt) = h"
  "st_BaseTarget (demo_statement n h bt) = bt"
  by (simp_all add: demo_statement_def)

theorem height_alerts_witness:
  "mset (Height_Analyze (NewHeightCriterion None) [10, 5] [5, 10] 7
      [demo_statement ''b'' 10 1, demo_statement ''c'' 5 1, demo_statement ''a'' 10 1]) =
    {# A_Height \<lparr>ha_Timestamp = 7, ha_MaxHeightGroup = \<lparr>hg_Height = 10, hg_Nodes = [''a'', ''b'']\<rparr>,
        ha_OtherHeightGroup = \<lparr>hg_Height = 5, hg_Nodes = [''c'']\<rparr>\<rparr> #}"
proof -
  let ?ss = "[demo_statement ''b'' 10 1, demo_statement ''c'' 5 1, demo_statement ''a'' 10 1]"
  have o1: "iter_order (SplitByNodeHeight ?ss) [10, 5]" and o2: "iter_order (SplitByNodeHeight ?ss) [5, 10]"
    by (simp_all add: iter_order_def SplitByNodeHeight_def dom_group_by insert_commute del: group_loop.simps)
  have hs: "st_Height ` set ?ss = {10, 5}" by auto
  have far: "{h \<in> {10, 5}. 10 - h > hco_MaxHeightDiff (NewHeightCriterion None)} = {5 :: uint64}"
    by (auto simp: NewHeightCriterion_def defaultMaxHeightDiff_def)
  have m: "Max {10, 5 :: uint64} = 10" by simp
  have srt: "sort [''b'', ''a''] = [''a'', ''b'']" by (simp add: less_eq_char_def less_char_def)
  show ?thesis
    using height_alerts [OF _ o1 o2, of "NewHeightCriterion None" 7]
    unfolding hs m Let_def far by (simp add: srt)
qed

section \<open>Base target\<close>

fun bt_count :: "uint64 \<Rightarrow> NodeStatements \<Rightarrow> nat" where
  "bt_count v [] = 0"
| "bt_count v (s # ss) = (if st_BaseTarget s = v then 1 else 0) + bt_count v ss"

lemma bt_count_filter: "bt_count v ss = length (filter (\<lambda>s. st_BaseTarget s = v) ss)"
  by (induction ss) auto

lemma bt_count_0: "bt_count v ss = 0 \<longleftrightarrow> (\<forall>s \<in> set ss. st_BaseTarget s \<noteq> v)"
  by (induction ss) auto

text \<open>The greatest count so far is \<open>mb\<close>, that of \<open>k\<close>, or zero when nothing was counted.\<close>

definition bt_max :: "(uint64, uint64) gomap \<Rightarrow> uint64 \<Rightarrow> uint64 \<Rightarrow> (uint64 \<Rightarrow> nat) \<Rightarrow> bool" where
  "bt_max m mb k c \<longleftrightarrow> (\<forall>v. v \<noteq> 0 \<longrightarrow> unat (map_get 0 m v) = c v \<and> c v \<le> unat mb) \<and>
     (if k = 0 then mb = 0 else c k = unat mb)"

lemma bt_max_step:
  assumes "bt_max m mb k c" "v \<noteq> 0" "Suc (c v) < 2 ^ 64" "n = map_get 0 m v + 1"
  shows "bt_max (m(v \<mapsto> n)) (if n > mb then n else mb) (if n > mb then v else k) (c(v := Suc (c v)))"
proof -
  from assms(1,2) have "unat (map_get 0 m v) = c v" by (simp add: bt_max_def)
  with assms(3,4) have "unat n = Suc (c v)" by (subst assms(4), subst unat_add_lem [THEN iffD1]) auto
  with assms(1,2) show ?thesis
    by (auto simp: bt_max_def word_less_nat_alt not_less split: if_splits)
qed

lemma bt_max_loop:
  assumes "bt_max m mb k c" "\<And>v. v \<noteq> 0 \<Longrightarrow> c v + length ss < 2 ^ 64"
  shows "\<exists>m' mb'. bt_max m' mb' (mostFrequent_loop m mb k ss) (\<lambda>v. c v + bt_count v ss)"
  using assms
proof (induction ss arbitrary: m mb k c)
  case Nil
  then show ?case by auto
next
  case (Cons s ss)
  let ?v = "st_BaseTarget s"
  show ?case
  proof (cases "?v = 0")
    case True
    have "\<exists>m' mb'. bt_max m' mb' (mostFrequent_loop m mb k ss) (\<lambda>v. c v + bt_count v ss)"
      by (rule Cons.IH [OF Cons.prems(1)]) (use Cons.prems(2) in force)
    moreover have "bt_max m' mb' k' (\<lambda>v. c v + bt_count v (s # ss)) \<longleftrightarrow> bt_max m' mb' k' (\<lambda>v. c v + bt_count v ss)" for m' mb' k'
      using True by (auto simp: bt_max_def)
    ultimately show ?thesis using True by simp
  next
    case False
    let ?n = "map_get 0 m ?v + 1" and ?c = "c(?v := Suc (c ?v))"
    let ?mb = "if ?n > mb then ?n else mb" and ?k = "if ?n > mb then ?v else k"
    have "bt_max (m(?v \<mapsto> ?n)) ?mb ?k ?c"
      using bt_max_step [OF Cons.prems(1) False] Cons.prems(2) [OF False] by simp
    then have "\<exists>m' mb'. bt_max m' mb' (mostFrequent_loop (m(?v \<mapsto> ?n)) ?mb ?k ss) (\<lambda>v. ?c v + bt_count v ss)"
      by (rule Cons.IH) (use Cons.prems(2) in force)
    moreover have "(\<lambda>v. ?c v + bt_count v ss) = (\<lambda>v. c v + bt_count v (s # ss))" by auto
    moreover have "mostFrequent_loop m mb k (s # ss) = mostFrequent_loop (m(?v \<mapsto> ?n)) ?mb ?k ss"
      using False by (simp add: Let_def)
    ultimately show ?thesis by (simp only:)
  qed
qed

lemma mostFrequent_loop_occurs: "mostFrequent_loop m mb k ss \<noteq> k \<Longrightarrow> 0 < bt_count (mostFrequent_loop m mb k ss) ss"
  by (induction ss arbitrary: m mb k) (auto simp: Let_def split: if_splits)

lemma mostFrequentBaseTarget_max:
  assumes "length ss < 2 ^ 64"
  shows "v \<noteq> 0 \<Longrightarrow> bt_count v ss \<le> (if mostFrequentBaseTarget ss = 0 then 0 else bt_count (mostFrequentBaseTarget ss) ss)"
    "mostFrequentBaseTarget ss \<noteq> 0 \<Longrightarrow> 0 < bt_count (mostFrequentBaseTarget ss) ss"
proof -
  have "bt_max (\<lambda>_. None) 0 0 (\<lambda>_. 0)" by (simp add: bt_max_def map_get_def)
  from bt_max_loop [OF this, of ss] assms obtain m mb where
    "bt_max m mb (mostFrequentBaseTarget ss) (\<lambda>v. bt_count v ss)" by (auto simp: mostFrequentBaseTarget_def)
  then show "v \<noteq> 0 \<Longrightarrow> bt_count v ss \<le> (if mostFrequentBaseTarget ss = 0 then 0 else bt_count (mostFrequentBaseTarget ss) ss)"
    by (auto simp: bt_max_def split: if_splits)
  show "mostFrequentBaseTarget ss \<noteq> 0 \<Longrightarrow> 0 < bt_count (mostFrequentBaseTarget ss) ss"
    unfolding mostFrequentBaseTarget_def by (rule mostFrequent_loop_occurs)
qed

text \<open>C12: The most frequent base target. The result is a base target that occurs at least as often as
  any other among the statements that have one, and zero exactly when none has; hence the
  base target criterion raises its single alert exactly when this value exceeds the threshold.\<close>

theorem base_target_most_frequent:
  assumes "length statements < 2 ^ 64"
  shows "(mostFrequentBaseTarget statements = 0 \<longleftrightarrow> (\<forall>s \<in> set statements. st_BaseTarget s = 0)) \<and>
    (\<forall>v. v \<noteq> 0 \<longrightarrow> length (filter (\<lambda>s. st_BaseTarget s = v) statements) \<le>
      (if mostFrequentBaseTarget statements = 0 then 0
       else length (filter (\<lambda>s. st_BaseTarget s = mostFrequentBaseTarget statements) statements))) \<and>
    (BaseTarget_Analyze opts ts statements = [] \<longleftrightarrow> mostFrequentBaseTarget statements \<le> bto_Threshold opts)"
proof -
  define r where "r = mostFrequentBaseTarget statements"
  let ?r = r
  have r: "\<forall>v. v \<noteq> 0 \<longrightarrow> bt_count v statements \<le> (if ?r = 0 then 0 else bt_count ?r statements)"
    "?r \<noteq> 0 \<longrightarrow> 0 < bt_count ?r statements"
    using mostFrequentBaseTarget_max [OF assms] unfolding r_def by blast+
  have "?r = 0 \<longleftrightarrow> (\<forall>s \<in> set statements. st_BaseTarget s = 0)"
  proof
    assume "?r = 0"
    then have "\<forall>v. v \<noteq> 0 \<longrightarrow> bt_count v statements = 0" using r(1) by simp
    then show "\<forall>s \<in> set statements. st_BaseTarget s = 0" by (auto simp: bt_count_0)
  next
    assume "\<forall>s \<in> set statements. st_BaseTarget s = 0"
    then have "v \<noteq> 0 \<longrightarrow> bt_count v statements = 0" for v by (auto simp: bt_count_0)
    with r(2) show "?r = 0" by force
  qed
  with r(1) [unfolded bt_count_filter] show ?thesis
    unfolding BaseTarget_Analyze_def r_def [symmetric] by (intro conjI) (assumption | simp)+
qed

theorem base_target_most_frequent_witness:
  "mostFrequentBaseTarget [demo_statement ''a'' 1 7, demo_statement ''b'' 1 0, demo_statement ''c'' 1 7,
     demo_statement ''d'' 1 9] \<noteq> 0 \<and>
   (BaseTarget_Analyze \<lparr>bto_Threshold = 8\<rparr> 3 [demo_statement ''a'' 1 7] = [])"
  using base_target_most_frequent [of "[demo_statement ''a'' 1 7, demo_statement ''b'' 1 0,
      demo_statement ''c'' 1 7, demo_statement ''d'' 1 9]" "\<lparr>bto_Threshold = 8\<rparr>" 3]
    base_target_most_frequent [of "[demo_statement ''a'' 1 7]" "\<lparr>bto_Threshold = 8\<rparr>" 3]
  by (auto simp: mostFrequentBaseTarget_def map_get_def)

section \<open>Challenged blocks\<close>

lemma challenged_loop_lookup:
  "challenged_loop m ss b =
     (if m b \<noteq> None \<or> (\<exists>s \<in> set ss. st_Challenged s \<and> st_BlockID s = Some b)
      then Some ((case m b of None \<Rightarrow> [] | Some ns \<Rightarrow> ns) @
        map st_Node (filter (\<lambda>s. st_Challenged s \<and> st_BlockID s = Some b) ss))
      else None)"
proof (induction ss arbitrary: m)
  case Nil
  then show ?case by (auto split: option.splits)
next
  case (Cons s ss)
  show ?case
  proof (cases "st_BlockID s")
    case None
    then show ?thesis by (simp add: Cons.IH)
  next
    case (Some b')
    show ?thesis
      by (cases "st_Challenged s"; cases "b' = b")
         (auto simp: Some Cons.IH map_append_def split: option.splits)
  qed
qed

text \<open>Challenged blocks. For each block id that some statement reports as challenged, and for no
  other, the criterion raises exactly one alert; it lists, sorted, the nodes whose statements
  report that block as challenged. Only the order of the alerts depends on the order in which
  the map of blocks is ranged over.\<close>

theorem challenged_block_alerts:
  assumes "iter_order (challenged_loop (\<lambda>_. None) statements) ks"
  shows "mset (ChallengedBlock_Analyze ks ts statements) =
    image_mset (\<lambda>b. A_ChallengedBlock
        \<lparr>cba_Timestamp = ts, cba_BlockID = b,
         cba_Nodes = sort (map st_Node (filter (\<lambda>s. st_Challenged s \<and> st_BlockID s = Some b) statements))\<rparr>)
      (mset_set {b. \<exists>s \<in> set statements. st_Challenged s \<and> st_BlockID s = Some b})"
proof -
  let ?m = "challenged_loop (\<lambda>_. None) statements"
  let ?nodes = "\<lambda>b. sort (map st_Node (filter (\<lambda>s. st_Challenged s \<and> st_BlockID s = Some b) statements))"
  have ks: "distinct ks" "set ks = {b. \<exists>s \<in> set statements. st_Challenged s \<and> st_BlockID s = Some b}"
    using assms by (auto simp: iter_order_def challenged_loop_lookup dom_def split: if_splits)
  have "ChallengedBlock_Analyze ks ts statements
      = map (\<lambda>b. A_ChallengedBlock \<lparr>cba_Timestamp = ts, cba_BlockID = b, cba_Nodes = ?nodes b\<rparr>) ks"
    unfolding ChallengedBlock_Analyze_def using ks(2)
    by (intro map_cong) (auto simp: map_get_def challenged_loop_lookup Nodes_Sort_def)
  then show ?thesis
    using mset_set_set [OF ks(1)] unfolding ks(2) by simp
qed

theorem challenged_block_alerts_witness:
  "ChallengedBlock_Analyze [''X''] 4
     [zeroStatement\<lparr>st_Node := ''n'', st_BlockID := Some ''X'', st_Challenged := True\<rparr>,
      zeroStatement\<lparr>st_Node := ''m'', st_BlockID := Some ''Y''\<rparr>] =
   [A_ChallengedBlock \<lparr>cba_Timestamp = 4, cba_BlockID = ''X'', cba_Nodes = [''n'']\<rparr>]"
proof -
  let ?ss = "[zeroStatement\<lparr>st_Node := ''n'', st_BlockID := Some ''X'', st_Challenged := True\<rparr>,
      zeroStatement\<lparr>st_Node := ''m'', st_BlockID := Some ''Y''\<rparr>]"
  have ord: "iter_order (challenged_loop (\<lambda>_. None) ?ss) [''X'']"
    by (auto simp: iter_order_def zeroStatement_def map_append_def)
  have set: "{b. \<exists>s \<in> set ?ss. st_Challenged s \<and> st_BlockID s = Some b} = {''X''}"
    by (auto simp: zeroStatement_def)
  show ?thesis
    using challenged_block_alerts [OF ord, of 4] unfolding set
    by (simp add: zeroStatement_def)
qed

section \<open>State hashes\<close>

lemma run_steps_sent:
  "run_steps rs = Some (sent, e) \<Longrightarrow> a \<in> set sent \<Longrightarrow> \<exists>r sent' e'. r \<in> set rs \<and> r = Some (sent', e') \<and> a \<in> set sent'"
proof (induction rs arbitrary: sent e)
  case (Cons r rs)
  then show ?case
    by (force split: option.splits prod.splits)
qed simp

lemma sample_pairs_sub:
  "(a, b) \<in> set (sample_pairs ss) \<Longrightarrow> \<exists>us vs ws. ss = us @ a # vs @ b # ws"
proof (induction ss)
  case (Cons s ss)
  then consider "a = s" "b \<in> set ss" | "(a, b) \<in> set (sample_pairs ss)" by auto
  then show ?case
  proof cases
    case 1
    then show ?thesis by (metis append_Nil split_list)
  next
    case 2
    with Cons.IH show ?thesis by (metis append_Cons)
  qed
qed simp

lemma pair_alert:
  assumes "handleSamplesPair gw bd es opts bucket ts ff first second split = Some (sent, e)" "a \<in> set sent"
  shows "\<exists>al sh1 sh2. a = A_StateHash al \<and> st_StateHash first = Some sh1 \<and> st_StateHash second = Some sh2 \<and>
    sha_CurrentGroupsBucketHeight al = bucket \<and> sha_Timestamp al = ts \<and>
    sha_FirstGroup al = StateHashGroup_of split sh1 \<and> sha_SecondGroup al = StateHashGroup_of split sh2 \<and>
    (let depth = forkDepth bucket (sha_LastCommonStateHashHeight al)
     in depth > uint (sco_MaxForkDepth opts) \<or> depth \<ge> uint (sco_HeightBucketSize opts)) \<and>
    (sha_LastCommonStateHashExist al \<longrightarrow>
       FindLastCommonStateHash gw bd es ff (st_Node first) (st_Node second) =
         Some (Inr (sha_LastCommonStateHashHeight al, sha_LastCommonStateHash al)))"
  using assms
  by (auto simp: handleSamplesPair_def Let_def split: option.splits sum.splits if_splits prod.splits)

text \<open>The samples are one statement of each group, and no two have the same hash.\<close>

lemma in_split_group:
  assumes "SplitBySumStateHash statements = Inr (split, others)"
  shows "s \<in> set (map_get [] split d) \<longleftrightarrow>
    s \<in> set statements \<and> st_Status s = OK \<and> (\<exists>sh. st_StateHash s = Some sh \<and> sh_SumHash sh = d)"
  using SplitBySumStateHash_loop_eq [of "\<lambda>_. None" "[]" statements split others] assms
  by (auto simp: SplitBySumStateHash_def map_get_group_by)

lemma split_sample:
  assumes "SplitBySumStateHash statements = Inr (split, others)" "iter_order split dks" "d \<in> set dks"
  shows "hd (map_get [] split d) \<in> set (map_get [] split d)"
proof -
  have "split = group_by (\<lambda>s. sh_SumHash (the (st_StateHash s))) (filter (\<lambda>s. st_Status s = OK) statements)"
    using SplitBySumStateHash_loop_eq [of "\<lambda>_. None" "[]" statements split others] assms(1)
    by (simp add: SplitBySumStateHash_def)
  then have "map_get [] split d \<noteq> []"
    using assms(3) iter_orderD [OF assms(2)] by (auto simp: map_get_def dest: group_by_SomeD)
  then show ?thesis by simp
qed

lemma samples_in_groups:
  assumes "SplitBySumStateHash statements = Inr (split, others)" "iter_order split dks"
    and "s \<in> set (SortByNodeAsc (map (\<lambda>d. hd (map_get [] split d)) dks))" "st_StateHash s = Some sh"
  shows "s \<in> set (map_get [] split (sh_SumHash sh))"
proof -
  from assms(3) obtain d where d: "d \<in> set dks" "s = hd (map_get [] split d)" by (auto simp: SortByNodeAsc_def)
  with split_sample [OF assms(1,2) d(1)] in_split_group [OF assms(1), of s d] assms(4) show ?thesis by auto
qed

lemma samples_distinct:
  assumes "SplitBySumStateHash statements = Inr (split, others)" "iter_order split dks"
  shows "distinct (map (\<lambda>s. sh_SumHash (the (st_StateHash s)))
    (SortByNodeAsc (map (\<lambda>d. hd (map_get [] split d)) dks)))" (is "distinct (map ?f (SortByNodeAsc (map ?g dks)))")
proof -
  have "?f (?g d) = d" if "d \<in> set dks" for d
    using split_sample [OF assms that] in_split_group [OF assms(1), of "?g d" d] by auto
  then have "map ?f (map ?g dks) = dks" by (simp add: map_idI)
  then have "mset (map ?f (map ?g dks)) = mset dks" by simp
  then have "mset (map ?f (SortByNodeAsc (map ?g dks))) = mset dks"
    unfolding SortByNodeAsc_def by (simp only: mset_map mset_sort)
  with assms(2) show ?thesis by (metis iter_order_def mset_eq_imp_distinct_iff)
qed

text \<open>C13: State hash alerts. Let the criterion analyse statements at one height, taken from a valid
  storage, and raise an alert. Then the alert is about two different sum hashes; its groups
  are, sorted, all nodes with the one and all nodes with the other; and the fork is deeper
  than \<open>MaxForkDepth\<close> or reaches the bucket size. If the alert reports a last common state hash,
  two nodes, one of each group, have equal sum hashes in the storage at that height.\<close>

theorem state_hash_alert_sound:
  assumes "store_ok gw bd cont glob es" "\<forall>s \<in> set statements. node_ok (st_Node s)"
    and "\<forall>n h. node_ok n \<and> latest gw cont es n = Some h \<longrightarrow> h < 2 ^ 63"
    and "SplitBySumStateHash statements = Inr (split, others)" "iter_order split dks"
    and "analyzeNodesOnSameHeight gw bd es opts dks bucket ts statements = Some (sent, e)" "a \<in> set sent"
  shows "\<exists>al d1 d2 n1 n2. a = A_StateHash al \<and> d1 \<noteq> d2 \<and>
    shg_Nodes (sha_FirstGroup al) = sort (map st_Node (map_get [] split d1)) \<and>
    shg_Nodes (sha_SecondGroup al) = sort (map st_Node (map_get [] split d2)) \<and>
    sh_SumHash (shg_StateHash (sha_FirstGroup al)) = d1 \<and> sh_SumHash (shg_StateHash (sha_SecondGroup al)) = d2 \<and>
    n1 \<in> set (shg_Nodes (sha_FirstGroup al)) \<and> n2 \<in> set (shg_Nodes (sha_SecondGroup al)) \<and>
    (let depth = forkDepth bucket (sha_LastCommonStateHashHeight al)
     in depth > uint (sco_MaxForkDepth opts) \<or> depth \<ge> uint (sco_HeightBucketSize opts)) \<and>
    (sha_LastCommonStateHashExist al \<longrightarrow>
       (\<exists>sh. StateHashAtHeight gw bd es n1 (sha_LastCommonStateHashHeight al) = Inr (sha_LastCommonStateHash al) \<and>
          StateHashAtHeight gw bd es n2 (sha_LastCommonStateHashHeight al) = Inr sh \<and>
          sh_SumHash sh = sh_SumHash (sha_LastCommonStateHash al)))"
proof -
  let ?samples = "SortByNodeAsc (map (\<lambda>d. hd (map_get [] split d)) dks)"
  from assms(4,6,7) obtain r sent' e' first second where
    pair: "(first, second) \<in> set (sample_pairs ?samples)"
    and r: "handleSamplesPair gw bd es opts bucket ts
      (WithLinearSearchParams NewForkFinder (ucast (sco_MaxForkDepth opts + 1))) first second split = Some (sent', e')"
      "a \<in> set sent'"
    unfolding analyzeNodesOnSameHeight_def
    by (auto simp: Let_def split: if_splits dest!: run_steps_sent) metis
  from pair_alert [OF r] obtain al sh1 sh2 where
    al: "a = A_StateHash al" "st_StateHash first = Some sh1" "st_StateHash second = Some sh2"
      "sha_FirstGroup al = StateHashGroup_of split sh1" "sha_SecondGroup al = StateHashGroup_of split sh2"
      "let depth = forkDepth bucket (sha_LastCommonStateHashHeight al)
       in depth > uint (sco_MaxForkDepth opts) \<or> depth \<ge> uint (sco_HeightBucketSize opts)"
      "sha_LastCommonStateHashExist al \<longrightarrow>
       FindLastCommonStateHash gw bd es (WithLinearSearchParams NewForkFinder (ucast (sco_MaxForkDepth opts + 1)))
         (st_Node first) (st_Node second) = Some (Inr (sha_LastCommonStateHashHeight al, sha_LastCommonStateHash al))"
    by blast
  from sample_pairs_sub [OF pair] obtain us vs ws where sm: "?samples = us @ first # vs @ second # ws" by blast
  have ne12: "sh_SumHash sh1 \<noteq> sh_SumHash sh2"
    using samples_distinct [OF assms(4,5)] unfolding sm by (auto simp: al(2,3))
  have mem: "first \<in> set ?samples" "second \<in> set ?samples" unfolding sm by simp_all
  from samples_in_groups [OF assms(4,5) mem(1) al(2)] samples_in_groups [OF assms(4,5) mem(2) al(3)]
  have g: "first \<in> set (map_get [] split (sh_SumHash sh1))" "second \<in> set (map_get [] split (sh_SumHash sh2))" .
  have ok: "node_ok (st_Node first)" "node_ok (st_Node second)"
    using g in_split_group [OF assms(4)] assms(2) by auto
  have common: "\<exists>sh. StateHashAtHeight gw bd es (st_Node first) (sha_LastCommonStateHashHeight al) = Inr (sha_LastCommonStateHash al) \<and>
      StateHashAtHeight gw bd es (st_Node second) (sha_LastCommonStateHashHeight al) = Inr sh \<and>
      sh_SumHash sh = sh_SumHash (sha_LastCommonStateHash al)" if "sha_LastCommonStateHashExist al"
    using common_hash [OF assms(1) ok _ al(7) [rule_format, OF that]] assms(3) ok by blast
  show ?thesis
    using al(1,4-6) ne12 g common
    by (intro exI [of _ al] exI [of _ "sh_SumHash sh1"] exI [of _ "sh_SumHash sh2"]
        exI [of _ "st_Node first"] exI [of _ "st_Node second"])
       (simp add: StateHashGroup_of_def Nodes_Sort_def Nodes_of_def)
qed

text \<open>Two nodes that agree at height 10 and differ at height 11.\<close>

definition demo_hash_at :: "string \<Rightarrow> StateHash" where
  "demo_hash_at d = \<lparr>sh_BlockID = ''B'', sh_SumHash = d\<rparr>"

definition demo_fork_events :: "Event list" where
  "demo_fork_events = [demo_full ''a'' 1 10, demo_full ''b'' 1 10,
     demo_event ''a'' 2 11 (demo_hash_at ''1''), demo_event ''b'' 2 11 (demo_hash_at ''2'')]"

definition demo_fork :: "demo_pairs Storage" where
  "demo_fork = put_all demo_gowaves demo_db demo_events demo_fork_events"

lemma demo_fork_ok: "demo_ok demo_fork"
  unfolding demo_fork_def by (rule put_all_ok [OF demo_events_ok]) (simp add: demo_fork_events_def)

lemma demo_fork_stored:
  assumes "node_ok n" "in_int64 ts"
  shows "stored demo_gowaves map_of demo_fork n ts =
    (if n = ''b'' \<and> ts = 2 then Some (Event_Statement (demo_event ''b'' 2 11 (demo_hash_at ''2'')))
     else if n = ''a'' \<and> ts = 2 then Some (Event_Statement (demo_event ''a'' 2 11 (demo_hash_at ''1'')))
     else if n = ''b'' \<and> ts = 1 then Some (Event_Statement (demo_full ''b'' 1 10))
     else if n = ''a'' \<and> ts = 1 then Some (Event_Statement (demo_full ''a'' 1 10)) else None)"
proof -
  have es: "\<forall>e \<in> set demo_fork_events. event_ok e" by (simp add: demo_fork_events_def)
  show ?thesis
    unfolding demo_fork_def stored_put_all [OF demo_events_ok es assms]
    by (auto simp: demo_fork_events_def stored_demo_events)
qed

lemma demo_fork_history [simp]:
  "history demo_gowaves map_of demo_fork ''a'' =
     [Event_Statement (demo_event ''a'' 2 11 (demo_hash_at ''1'')), Event_Statement (demo_full ''a'' 1 10)]"
  "history demo_gowaves map_of demo_fork ''b'' =
     [Event_Statement (demo_event ''b'' 2 11 (demo_hash_at ''2'')), Event_Statement (demo_full ''b'' 1 10)]"
  by (rule history_eqI [OF demo_fork_ok];
      auto simp: demo_fork_stored same_digits_small split: if_splits)+

lemma demo_fork_latest:
  assumes "node_ok n" "latest demo_gowaves map_of demo_fork n = Some h"
  shows "h < 2 ^ 63"
proof -
  from assms(2) obtain st where st: "st \<in> set (history demo_gowaves map_of demo_fork n)" "st_Height st = h"
    by (auto simp: latest_def newest_full_height_def find_Some_iff split: option.splits if_splits dest!: nth_mem)
  then have "h = 10 \<or> h = 11"
    unfolding set_history [OF demo_fork_ok assms(1)] by (auto simp: demo_fork_stored [OF assms(1)] split: if_splits)
  then show ?thesis by auto
qed

lemma demo_fork_hash [simp]:
  "StateHashAtHeight demo_gowaves demo_db demo_fork ''a'' 10 = Inr demo_hash"
  "StateHashAtHeight demo_gowaves demo_db demo_fork ''b'' 10 = Inr demo_hash"
  "StateHashAtHeight demo_gowaves demo_db demo_fork ''a'' 11 = Inr (demo_hash_at ''1'')"
  "StateHashAtHeight demo_gowaves demo_db demo_fork ''b'' 11 = Inr (demo_hash_at ''2'')"
  using GetFull_full_at [OF demo_fork_ok demo_node(1), of 10] GetFull_full_at [OF demo_fork_ok demo_node(2), of 10]
    GetFull_full_at [OF demo_fork_ok demo_node(1), of 11] GetFull_full_at [OF demo_fork_ok demo_node(2), of 11]
  by (simp_all add: StateHashAtHeight_def full_at_def)

lemma demo_fork_range:
  "search_range demo_gowaves demo_db demo_fork ''a'' ''b'' ''b'' = Inr (10, 11)"
  using EarliestHeight_oldest [OF demo_fork_ok demo_node(1)] EarliestHeight_oldest [OF demo_fork_ok demo_node(2)]
    LatestHeight_newest [OF demo_fork_ok demo_node(1)] LatestHeight_newest [OF demo_fork_ok demo_node(2)]
  by (simp add: search_range_def newest_full_height_def)

lemma demo_fork_finds:
  "FindLastCommonStateHash demo_gowaves demo_db demo_fork (WithLinearSearchParams NewForkFinder 1) ''a'' ''b''
    = Some (Inr (10, demo_hash))"
proof -
  have q: "binsearch_query demo_gowaves demo_db demo_fork ''a'' ''b'' 10 = Inr False"
    "binsearch_query demo_gowaves demo_db demo_fork ''a'' ''b'' 11 = Inr True"
    by (simp_all add: binsearch_query_def differentStateHashesAt_def different_at_def demo_hash_at_def)
  have b2: "bisect (binsearch_query demo_gowaves demo_db demo_fork ''a'' ''b'') 11 11 10 = Some (Inr 10)"
    by (subst bisect.simps) (simp add: q bisect_empty)
  have "bisect (binsearch_query demo_gowaves demo_db demo_fork ''a'' ''b'') 10 11 0 = Some (Inr 10)"
    by (subst bisect.simps) (simp add: q b2)
  moreover have "tryLinearStateHashSearch demo_gowaves demo_db demo_fork (WithLinearSearchParams NewForkFinder 1)
      ''a'' ''b'' 10 11 = Inl (wrapf (Sentinel ErrLinearNotFound)
        (''linear search failed for nodes '' @ squote ''a'' @ '' and '' @ squote ''b''))"
    by (simp add: tryLinearStateHashSearch_def WithLinearSearchParams_def NewForkFinder_def
        differentStateHashesAt_def different_at_def demo_hash_at_def numeral_eq_Suc)
  ultimately show ?thesis
    by (simp add: FindLastCommonStateHash_def demo_fork_range)
qed

definition demo_fork_statements :: NodeStatements where
  "demo_fork_statements = [Event_Statement (demo_event ''b'' 2 11 (demo_hash_at ''2'')),
     Event_Statement (demo_event ''a'' 2 11 (demo_hash_at ''1''))]"

theorem state_hash_alert_sound_witness:
  "\<exists>sent al. analyzeNodesOnSameHeight demo_gowaves demo_db demo_fork
      \<lparr>sco_MaxForkDepth = 0, sco_HeightBucketSize = 3\<rparr> [''2'', ''1''] 11 9 demo_fork_statements = Some (sent, None) \<and>
    A_StateHash al \<in> set sent \<and>
    shg_StateHash (sha_FirstGroup al) \<noteq> shg_StateHash (sha_SecondGroup al)"
proof -
  let ?opts = "\<lparr>sco_MaxForkDepth = 0, sco_HeightBucketSize = 3\<rparr>"
  let ?S1 = "Event_Statement (demo_event ''a'' 2 11 (demo_hash_at ''1''))"
    and ?S2 = "Event_Statement (demo_event ''b'' 2 11 (demo_hash_at ''2''))"
  let ?split = "[''2'' \<mapsto> [?S2], ''1'' \<mapsto> [?S1]]"
  have split: "SplitBySumStateHash demo_fork_statements = Inr (?split, [])"
    by (simp add: SplitBySumStateHash_def demo_fork_statements_def demo_hash_at_def map_append_def)
  have ord: "iter_order ?split [''2'', ''1'']" by (auto simp: iter_order_def)
  have srt: "SortByNodeAsc [?S2, ?S1] = [?S1, ?S2]"
    by (simp add: SortByNodeAsc_def less_eq_char_def less_char_def)
  have depth: "forkDepth 11 10 = 1" by (simp add: forkDepth_def)
  obtain al where run: "analyzeNodesOnSameHeight demo_gowaves demo_db demo_fork ?opts [''2'', ''1''] 11 9
      demo_fork_statements = Some ([A_StateHash al], None)"
    unfolding analyzeNodesOnSameHeight_def split
    by (simp add: map_get_def srt handleSamplesPair_def demo_fork_finds depth Let_def)
  have low: "\<forall>n h. node_ok n \<and> latest demo_gowaves map_of demo_fork n = Some h \<longrightarrow> h < 2 ^ 63"
    using demo_fork_latest by blast
  from state_hash_alert_sound [OF demo_fork_ok _ low split ord run, of "A_StateHash al"]
  have "shg_StateHash (sha_FirstGroup al) \<noteq> shg_StateHash (sha_SecondGroup al)"
    by (auto simp: demo_fork_statements_def)
  with run show ?thesis by (intro exI [of _ "[A_StateHash al]"] exI [of _ al]) simp
qed

end
