(* ===== verification/Notifications.thy ===== *)
theory Notifications
  imports Alerts
begin

text \<open>
  \<open>pkg/entities/notifications.go\<close>: what the scraper and the private nodes handler tell the
  analyzer. \<open>NodesGatheringWithError\<close> wraps another notification, which may be nil; its
  methods call those of the wrapped one but drop their results, as the code does.
\<close>

datatype Notification =
    NodesGatheringComplete "string list" int
  | NodesGatheringError "error option" int
  | NodesGatheringWithError "Notification option" "error option"

definition NewNodesGatheringComplete :: "string list \<Rightarrow> int \<Rightarrow> Notification" where
  "NewNodesGatheringComplete nodes ts = NodesGatheringComplete nodes ts"

definition NewNodesGatheringError :: "error option \<Rightarrow> int \<Rightarrow> Notification" where
  "NewNodesGatheringError err ts = NodesGatheringError err ts"

definition NewNodesGatheringWithError :: "Notification option \<Rightarrow> error option \<Rightarrow> Notification" where
  "NewNodesGatheringWithError inner err = NodesGatheringWithError inner err"

fun n_Timestamp :: "Notification \<Rightarrow> int" where
  "n_Timestamp (NodesGatheringComplete nodes ts) = ts"
| "n_Timestamp (NodesGatheringError err ts) = ts"
| "n_Timestamp (NodesGatheringWithError inner err) = 0"

fun n_Nodes :: "Notification \<Rightarrow> string list" where
  "n_Nodes (NodesGatheringComplete nodes ts) = nodes"
| "n_Nodes (NodesGatheringError err ts) = []"
| "n_Nodes (NodesGatheringWithError inner err) = []"

fun n_NodesCount :: "Notification \<Rightarrow> int" where
  "n_NodesCount (NodesGatheringComplete nodes ts) = int (length nodes)"
| "n_NodesCount (NodesGatheringError err ts) = 0"
| "n_NodesCount (NodesGatheringWithError inner err) = 0"

fun n_Error :: "Notification \<Rightarrow> error option" where
  "n_Error (NodesGatheringComplete nodes ts) = None"
| "n_Error (NodesGatheringError err ts) = err"
| "n_Error (NodesGatheringWithError (Some inner) err) = errors_Join [err, n_Error inner]"
| "n_Error (NodesGatheringWithError None err) = err"

end
