(* ===== verification/Analyzer.thy ===== *)
theory Analyzer
  imports AlertsPolicy CriteriaAlerts Notifications
begin

text \<open>
  \<open>pkg/analysis/analyzer.go\<close>: for each notification the analyzer reads the statements of its
  timestamp, runs seven criteria in their own goroutines, and a proxy goroutine passes the
  alerts through the alerts storage to the output channel, vacuuming the storage at the end.
  The channels are unbuffered, so a run is an interleaving of the outputs of the criteria: the
  step relation \<open>proxy\<close> receives the next alert of any of them.
\<close>

section \<open>Construction\<close>

record AnalyzerOptions =
  ao_AlertBackoff :: int
  ao_AlertVacuumQuota :: int
  ao_AlertConfirmations :: "AlertConfirmationsValue list option"
  ao_UnreachableCriteriaOpts :: "UnreachableCriterionOptions option"
  ao_IncompleteCriteriaOpts :: "IncompleteCriterionOptions option"
  ao_HeightCriteriaOpts :: "HeightCriterionOptions option"
  ao_StateHashCriteriaOpts :: "StateHashCriterionOptions option"
  ao_BaseTargetCriterionOpts :: "BaseTargetCriterionOptions option"
  ao_ChallengeCriterionOpts :: "unit option"

definition zeroAnalyzerOptions :: AnalyzerOptions where
  "zeroAnalyzerOptions =
     \<lparr>ao_AlertBackoff = 0, ao_AlertVacuumQuota = 0, ao_AlertConfirmations = None,
      ao_UnreachableCriteriaOpts = None, ao_IncompleteCriteriaOpts = None, ao_HeightCriteriaOpts = None,
      ao_StateHashCriteriaOpts = None, ao_BaseTargetCriterionOpts = None, ao_ChallengeCriterionOpts = None\<rparr>"

definition heightAlertConfirmationsDefault :: int where "heightAlertConfirmationsDefault = 2"

text \<open>\<open>NewAnalyzer\<close> fills in the defaults and makes the alerts storage.\<close>

definition NewAnalyzer :: "AnalyzerOptions option \<Rightarrow> AnalyzerOptions \<times> AlertsStorage" where
  "NewAnalyzer opts =
     (let opts = (case opts of None \<Rightarrow> zeroAnalyzerOptions | Some o' \<Rightarrow> o');
          opts = (if ao_AlertBackoff opts = 0 then opts\<lparr>ao_AlertBackoff := DefaultAlertBackoff\<rparr> else opts);
          opts = (if ao_AlertVacuumQuota opts = 0
                  then opts\<lparr>ao_AlertVacuumQuota := DefaultAlertVacuumQuota\<rparr> else opts);
          confs = (case ao_AlertConfirmations opts of
                     None \<Rightarrow> [\<lparr>ac_AlertType = HeightAlertType, ac_Confirmations = heightAlertConfirmationsDefault\<rparr>]
                   | Some cs \<Rightarrow> cs);
          opts = opts\<lparr>ao_AlertConfirmations := Some confs\<rparr>
      in (opts, NewAlertsStorage
           [AlertBackoff (ao_AlertBackoff opts), AlertVacuumQuota (ao_AlertVacuumQuota opts),
            AlertConfirmations confs]))"

section \<open>The criteria\<close>

text \<open>The orders in which the criteria range over their maps during one analysis.\<close>

record map_orders =
  mo_challenged :: "BlockID list"
  mo_minmax :: "uint64 list"
  mo_heights :: "uint64 list"
  mo_buckets :: "uint64 list"
  mo_bucket_heights :: "uint64 \<Rightarrow> uint64 list"
  mo_digests :: "uint64 \<Rightarrow> Digest list"

text \<open>
  \<open>joinSlicesSeq2\<close>, an iterator: the consumer \<open>yield\<close> gets the index, the value and its own state, and
  tells whether it goes on. \<open>seq_values\<close> is what ranging over such an iterator runs through.
\<close>

type_synonym ('e, 's) yield = "nat \<Rightarrow> 'e \<Rightarrow> 's \<Rightarrow> 's \<times> bool"

fun join_slice :: "('e, 's) yield \<Rightarrow> nat \<Rightarrow> 'e list \<Rightarrow> 's \<Rightarrow> 's \<times> nat \<times> bool" where
  "join_slice yield i [] s = (s, i, True)"
| "join_slice yield i (v # vs) s =
     (case yield i v s of (s, goes_on) \<Rightarrow> if goes_on then join_slice yield (Suc i) vs s else (s, i, False))"

fun join_slices :: "('e, 's) yield \<Rightarrow> nat \<Rightarrow> 'e list list \<Rightarrow> 's \<Rightarrow> 's" where
  "join_slices yield i [] s = s"
| "join_slices yield i (vs # slices) s =
     (case join_slice yield i vs s of (s, i, goes_on) \<Rightarrow> if goes_on then join_slices yield i slices s else s)"

definition joinSlicesSeq2 :: "'e list list \<Rightarrow> ('e, 's) yield \<Rightarrow> 's \<Rightarrow> 's" where
  "joinSlicesSeq2 slices yield s = join_slices yield 0 slices s"

definition seq_values :: "(('e, 'e list) yield \<Rightarrow> 'e list \<Rightarrow> 'e list) \<Rightarrow> 'e list" where
  "seq_values seq = seq (\<lambda>i v values. (values @ [v], True)) []"

lemma join_slice_all: "join_slice (\<lambda>i v s. (f v s, True)) i vs s = (fold f vs s, i + length vs, True)"
  by (induction vs arbitrary: i s) simp_all

lemma joinSlicesSeq2_fold: "joinSlicesSeq2 slices (\<lambda>i v s. (f v s, True)) s = fold f (concat slices) s"
proof -
  have "join_slices (\<lambda>i v s. (f v s, True)) i slices s = fold f (concat slices) s" for i
    by (induction slices arbitrary: i s) (simp_all add: join_slice_all)
  then show ?thesis by (simp add: joinSlicesSeq2_def)
qed

lemma seq_values_join [simp]: "seq_values (joinSlicesSeq2 slices) = concat slices"
proof -
  have "fold (\<lambda>v values. values @ [v]) xs acc = acc @ xs" for xs acc :: "'a list"
    by (induction xs arbitrary: acc) simp_all
  then show ?thesis by (simp add: seq_values_def joinSlicesSeq2_fold)
qed

text \<open>
  \<open>statusSplit\<close>, each group sorted by node, and the results of the seven routines. A routine
  that does not end is \<open>None\<close>.
\<close>

definition statusSplit :: "NodeStatements \<Rightarrow> NodeStatus \<Rightarrow> NodeStatements" where
  "statusSplit statements status = SortByNodeAsc (map_get [] (SplitByNodeStatus statements) status)"

definition criteriaRoutines ::
    "gowaves \<Rightarrow> 'd buntDB \<Rightarrow> 'd Storage \<Rightarrow> AnalyzerOptions \<Rightarrow> map_orders \<Rightarrow> NodeStatements \<Rightarrow> int \<Rightarrow>
     criterion_result option list" where
  "criteriaRoutines gw bd es opts ords statements timestamp =
     (let split = statusSplit statements in
     [Some (Incomplete_Analyze gw bd es (NewIncompleteCriterion (ao_IncompleteCriteriaOpts opts)) (split Incomplete)),
      Some (map A_InvalidHeight (split InvalidHeight), None),
      Some (ChallengedBlock_Analyze (mo_challenged ords) timestamp
        (seq_values (joinSlicesSeq2 [split Incomplete, split OK])), None),
      Some (Unreachable_Analyze gw bd es (NewUnreachableCriterion (ao_UnreachableCriteriaOpts opts)) timestamp
        (split Unreachable)),
      Some (Height_Analyze (NewHeightCriterion (ao_HeightCriteriaOpts opts)) (mo_minmax ords) (mo_heights ords)
        timestamp (split OK), None),
      StateHash_Analyze gw bd es (NewStateHashCriterion (ao_StateHashCriteriaOpts opts)) (mo_buckets ords)
        (mo_bucket_heights ords) (mo_digests ords) timestamp (split OK),
      Some (case NewBaseTargetCriterion (ao_BaseTargetCriterionOpts opts) of
              Inl err \<Rightarrow> ([], Some err)
            | Inr criterion \<Rightarrow> (BaseTarget_Analyze criterion timestamp (split OK), None))])"

text \<open>Each order is one of the keys of the map that its loop ranges over.\<close>

definition orders_ok ::
    "gowaves \<Rightarrow> 'd buntDB \<Rightarrow> 'd Storage \<Rightarrow> AnalyzerOptions \<Rightarrow> map_orders \<Rightarrow> NodeStatements \<Rightarrow> bool" where
  "orders_ok gw bd es opts ords statements \<longleftrightarrow>
     (let ok = statusSplit statements OK;
          bucketSize = ucast (sco_HeightBucketSize (NewStateHashCriterion (ao_StateHashCriteriaOpts opts)))
      in iter_order (challenged_loop (\<lambda>_. None) (statusSplit statements Incomplete @ ok)) (mo_challenged ords) \<and>
         iter_order (SplitByNodeHeight ok) (mo_minmax ords) \<and>
         iter_order (SplitByNodeHeight ok) (mo_heights ords) \<and>
         (\<forall>buckets. SplitByNodeHeightBuckets bucketSize ok = Inr buckets \<longrightarrow>
            iter_order buckets (mo_buckets ords) \<and>
            (\<forall>b \<in> dom buckets.
               iter_order (SplitByNodeHeight (map_get [] buckets b)) (mo_bucket_heights ords b) \<and>
               (\<forall>h sts split others.
                  bucket_statements gw bd es (mo_bucket_heights ords b) b (map_get [] buckets b) = Inr (h, sts) \<and>
                  SplitBySumStateHash sts = Inr (split, others) \<longrightarrow> iter_order split (mo_digests ords b)))))"

text \<open>What a routine's goroutine writes to \<open>criteriaOut\<close>: its alerts, then an alert for its error.\<close>

definition routine_output :: "int \<Rightarrow> criterion_result \<Rightarrow> Alert list" where
  "routine_output timestamp r =
     (case r of (sent, err) \<Rightarrow>
        sent @ (case err of None \<Rightarrow> [] | Some e \<Rightarrow> [A_InternalError (NewInternalErrorAlert timestamp e)]))"

section \<open>The proxy\<close>

text \<open>
  \<open>proxy gw ts qs s out s'\<close>: with \<open>qs\<close> the alerts the routines have still to send and the alerts
  storage \<open>s\<close>, the proxy may write the alerts \<open>out\<close> and leave the storage \<open>s'\<close>. It stops only when
  the routines are done, and then vacuums.
\<close>

inductive proxy ::
    "gowaves \<Rightarrow> int \<Rightarrow> Alert list list \<Rightarrow> AlertsStorage \<Rightarrow> Alert list \<Rightarrow> AlertsStorage \<Rightarrow> bool"
  for gw ts where
  receive: "i < length qs \<Longrightarrow> qs ! i = alert # q \<Longrightarrow> PutAlert gw s alert = (s1, sendAlertNow) \<Longrightarrow>
    proxy gw ts (qs[i := q]) s1 out s2 \<Longrightarrow>
    proxy gw ts qs s ((if sendAlertNow then [alert] else []) @ out) s2"
| finish: "\<forall>q \<in> set qs. q = [] \<Longrightarrow> vacuum_order s ks \<Longrightarrow> Vacuum ks s = (s1, map Some vacuumedAlerts) \<Longrightarrow>
    proxy gw ts qs s (map (A_Fixed ts) vacuumedAlerts) s1"

section \<open>Notifications\<close>

text \<open>
  The results of \<open>analyze\<close>, \<open>processNotification\<close> and \<open>Start\<close> are relations: the error returned, the
  alerts written, the new alerts storage. A panic in a goroutine ends the program, so there is
  no result for it.
\<close>

inductive analyze ::
    "gowaves \<Rightarrow> 'd buntDB \<Rightarrow> 'd Storage \<Rightarrow> AnalyzerOptions \<Rightarrow> AlertsStorage \<Rightarrow> Notification \<Rightarrow>
     error option \<Rightarrow> Alert list \<Rightarrow> AlertsStorage \<Rightarrow> bool"
  for gw bd es opts s n where
  analyze_view_fails:
    "ViewStatementsByTimestamp gw bd es (n_Timestamp n) (\<lambda>acc st. (acc @ [st], True)) [] = (statements, Some err) \<Longrightarrow>
     analyze gw bd es opts s n (Some (wrapf err ''failed to analyze nodes statements'')) [] s"
| analyze_runs:
    "ViewStatementsByTimestamp gw bd es (n_Timestamp n) (\<lambda>acc st. (acc @ [st], True)) [] = (statements, None) \<Longrightarrow>
     orders_ok gw bd es opts ords statements \<Longrightarrow>
     criteriaRoutines gw bd es opts ords statements (n_Timestamp n) = map Some rs \<Longrightarrow>
     \<forall>r \<in> set rs. case snd r of Some e \<Rightarrow> \<not> is_panic e | None \<Rightarrow> True \<Longrightarrow>
     proxy gw (n_Timestamp n) (map (routine_output (n_Timestamp n)) rs) s out s' \<Longrightarrow>
     analyze gw bd es opts s n None out s'"

inductive processNotification ::
    "gowaves \<Rightarrow> 'd buntDB \<Rightarrow> 'd Storage \<Rightarrow> AnalyzerOptions \<Rightarrow> AlertsStorage \<Rightarrow> Notification \<Rightarrow>
     error option \<Rightarrow> Alert list \<Rightarrow> AlertsStorage \<Rightarrow> bool"
  for gw bd es opts s n where
  nothing_to_analyze:
    "n_NodesCount n = 0 \<Longrightarrow>
     processNotification gw bd es opts s n None
       (case n_Error n of None \<Rightarrow> [] | Some e \<Rightarrow> [A_InternalError (NewInternalErrorAlert (n_Timestamp n) e)]) s"
| count_fails:
    "n_NodesCount n \<noteq> 0 \<Longrightarrow> StatementsCount bd es = Inl err \<Longrightarrow>
     processNotification gw bd es opts s n (Some (wrapf err ''failed to get statements count''))
       (case n_Error n of None \<Rightarrow> [] | Some e \<Rightarrow> [A_InternalError (NewInternalErrorAlert (n_Timestamp n) e)]) s"
| analyzed:
    "n_NodesCount n \<noteq> 0 \<Longrightarrow> StatementsCount bd es = Inr cnt \<Longrightarrow> analyze gw bd es opts s n err out s' \<Longrightarrow>
     processNotification gw bd es opts s n
       (case err of None \<Rightarrow> None | Some e \<Rightarrow> Some (wrapf e ''failed to analyze nodes statements''))
       ((case n_Error n of None \<Rightarrow> [] | Some e \<Rightarrow> [A_InternalError (NewInternalErrorAlert (n_Timestamp n) e)]) @ out) s'"

text \<open>
  The loop of \<open>Start\<close>: between two notifications the events storage may change, so each comes
  with the storage it meets; \<open>now\<close> is the time at which a failure is reported.
\<close>

inductive Start ::
    "gowaves \<Rightarrow> 'd buntDB \<Rightarrow> AnalyzerOptions \<Rightarrow> AlertsStorage \<Rightarrow> ('d Storage \<times> Notification) list \<Rightarrow>
     Alert list \<Rightarrow> AlertsStorage \<Rightarrow> bool"
  for gw bd opts where
  closed: "Start gw bd opts s [] [] s"
| notified:
    "processNotification gw bd es opts s n err out s1 \<Longrightarrow>
     Start gw bd opts s1 ns out2 s2 \<Longrightarrow>
     report = (case err of None \<Rightarrow> [] | Some e \<Rightarrow>
       [A_InternalError (NewInternalErrorAlert now (wrapf e ''analyzer: failed to process notification''))]) \<Longrightarrow>
     Start gw bd opts s ((es, n) # ns) (out @ report @ out2) s2"

end
