(* ===== verification/AnalyzerPolicy.thy ===== *)
theory AnalyzerPolicy
  imports Analyzer
begin

text \<open>
  What the analyzer promises. A run of the proxy is a run of the alerts storage, so its facts
  carry over: every fixed report was sent before, the interleaving of the criteria does not
  matter when their alerts have different ids, and every round comes to an end. The last part
  is about what a round of a healthy network and a wrapped notification do.
\<close>

section \<open>Which alerts the criteria send\<close>

lemma analyze_nodes_sent:
  assumes "\<And>s. s \<in> set ss \<Longrightarrow> set (fst (f s)) \<subseteq> A"
  shows "set (fst (analyze_nodes f ss)) \<subseteq> A"
  using assms
proof (induction ss)
  case (Cons s ss)
  obtain sent err where f: "f s = (sent, err)" by fastforce
  from Cons.prems [of s] f have "set sent \<subseteq> A" by simp
  moreover have "set (fst (analyze_nodes f ss)) \<subseteq> A" using Cons by auto
  ultimately show ?case using f by (auto split: option.splits prod.splits)
qed simp

lemma run_steps_alerts:
  assumes "run_steps rs = Some r" "\<And>r'. Some r' \<in> set rs \<Longrightarrow> set (fst r') \<subseteq> A"
  shows "set (fst r) \<subseteq> A"
  using assms
proof (induction rs arbitrary: r)
  case (Cons x rs)
  from Cons.prems(1) obtain sent err where x: "x = Some (sent, err)"
    by (cases x) auto
  with Cons.prems(2) [of "(sent, err)"] have sent: "set sent \<subseteq> A" by simp
  show ?case
  proof (cases err)
    case None
    with Cons.prems(1) x obtain s e where "run_steps rs = Some (s, e)" "r = (sent @ s, e)"
      by (auto split: option.splits prod.splits)
    with Cons.IH [of "(s, e)"] Cons.prems(2) sent show ?thesis by auto
  next
    case (Some e)
    with Cons.prems(1) x sent show ?thesis by auto
  qed
qed auto

lemma Incomplete_sent: "set (fst (Incomplete_Analyze gw bd es opts ss)) \<subseteq> range A_Incomplete"
  unfolding Incomplete_Analyze_def
  by (rule analyze_nodes_sent) (auto simp: Incomplete_analyzeNode_def split: option.splits prod.splits)

lemma Unreachable_sent: "set (fst (Unreachable_Analyze gw bd es opts ts ss)) \<subseteq> range A_Unreachable"
  unfolding Unreachable_Analyze_def
  by (rule analyze_nodes_sent) (auto simp: Unreachable_analyzeNode_def split: option.splits prod.splits)

lemma ChallengedBlock_sent: "set (ChallengedBlock_Analyze ks ts ss) \<subseteq> range A_ChallengedBlock"
  by (auto simp: ChallengedBlock_Analyze_def)

lemma Height_sent: "set (Height_Analyze opts mks ks ts ss) \<subseteq> range A_Height"
  by (auto simp: Height_Analyze_def Let_def split: prod.splits if_splits)

lemma BaseTarget_sent: "set (BaseTarget_Analyze opts ts ss) \<subseteq> range A_BaseTarget"
  by (auto simp: BaseTarget_Analyze_def)

lemma handleSamplesPair_sent:
  "handleSamplesPair gw bd es opts bucket ts ff s1 s2 split = Some r \<Longrightarrow> set (fst r) \<subseteq> range A_StateHash"
  by (auto simp: handleSamplesPair_def Let_def split: option.splits sum.splits if_splits prod.splits)

lemma analyzeNodesOnSameHeight_sent:
  assumes "analyzeNodesOnSameHeight gw bd es opts dks bucket ts ss = Some r"
  shows "set (fst r) \<subseteq> range A_StateHash"
proof -
  from assms consider "fst r = []"
    | ff split ps where "run_steps (map (\<lambda>(first, second).
        handleSamplesPair gw bd es opts bucket ts ff first second split) ps) = Some r"
    by (auto simp: analyzeNodesOnSameHeight_def Let_def split: sum.splits prod.splits if_splits)
  then show ?thesis
  proof cases
    case 2
    show ?thesis
      by (rule run_steps_alerts [OF 2]) (fastforce dest: handleSamplesPair_sent [OF sym])
  qed simp
qed

lemma analyze_bucket_fst:
  assumes "analyze_bucket gw bd es opts hs ds ts b sts = Some r"
  shows "fst r = [] \<or> (\<exists>b' sts' r'. analyzeNodesOnSameHeight gw bd es opts ds b' ts sts' = Some r' \<and> fst r = fst r')"
  using assms unfolding analyze_bucket_def Let_def case_prod_unfold
  by (auto split: sum.split_asm option.split_asm)

lemma StateHash_sent:
  assumes "StateHash_Analyze gw bd es opts bks hks dks ts ss = Some r"
  shows "set (fst r) \<subseteq> range A_StateHash"
proof -
  have b: "set (fst r') \<subseteq> range A_StateHash"
    if "analyze_bucket gw bd es opts hs ds ts b sts = Some r'" for hs ds b sts r'
    using analyze_bucket_fst [OF that] analyzeNodesOnSameHeight_sent by (metis empty_subsetI list.set(1))
  from assms consider "fst r = []"
    | split where "run_steps (map (\<lambda>b. analyze_bucket gw bd es opts (hks b) (dks b) ts b (split b)) bks) = Some r"
    by (auto simp: StateHash_Analyze_def split: sum.splits)
  then show ?thesis
  proof cases
    case 2
    show ?thesis
      by (rule run_steps_alerts [OF 2]) (metis (no_types, lifting) b imageE list.set_map)
  qed simp
qed

text \<open>The constructors that each of the seven routines may send, its error aside.\<close>

definition routine_alerts :: "nat \<Rightarrow> Alert set" where
  "routine_alerts i =
     [range A_Incomplete, range A_InvalidHeight, range A_ChallengedBlock, range A_Unreachable,
      range A_Height, range A_StateHash, range A_BaseTarget] ! i"

lemma criteriaRoutines_sent:
  assumes "criteriaRoutines gw bd es opts ords sts ts = map Some rs"
  shows "length rs = 7" and "i < 7 \<Longrightarrow> set (fst (rs ! i)) \<subseteq> routine_alerts i"
proof -
  have "length (criteriaRoutines gw bd es opts ords sts ts) = 7"
    by (simp add: criteriaRoutines_def Let_def)
  then show len: "length rs = 7" by (simp add: assms)
  then obtain r0 r1 r2 r3 r4 r5 r6 where rs: "rs = [r0, r1, r2, r3, r4, r5, r6]"
    by (auto simp: length_Suc_conv numeral_eq_Suc)
  assume "i < 7"
  then have "i \<in> {0, 1, 2, 3, 4, 5, 6}" by auto
  note eqs = assms [unfolded rs criteriaRoutines_def Let_def list.map list.inject option.inject]
  note tl = conjunct2
  have "set (fst r0) \<subseteq> range A_Incomplete"
    using eqs [THEN conjunct1] Incomplete_sent by metis
  moreover have "set (fst r1) \<subseteq> range A_InvalidHeight"
    using eqs [THEN tl, THEN conjunct1] by auto
  moreover have "set (fst r2) \<subseteq> range A_ChallengedBlock"
    using eqs [THEN tl, THEN tl, THEN conjunct1] ChallengedBlock_sent by (metis fst_conv)
  moreover have "set (fst r3) \<subseteq> range A_Unreachable"
    using eqs [THEN tl, THEN tl, THEN tl, THEN conjunct1] Unreachable_sent by metis
  moreover have "set (fst r4) \<subseteq> range A_Height"
    using eqs [THEN tl, THEN tl, THEN tl, THEN tl, THEN conjunct1] Height_sent by (metis fst_conv)
  moreover have "set (fst r5) \<subseteq> range A_StateHash"
    by (rule StateHash_sent [OF eqs [THEN tl, THEN tl, THEN tl, THEN tl, THEN tl, THEN conjunct1]])
  moreover have "set (fst r6) \<subseteq> range A_BaseTarget"
    using eqs [THEN tl, THEN tl, THEN tl, THEN tl, THEN tl, THEN tl, THEN conjunct1]
    by (auto split: sum.split_asm dest: BaseTarget_sent [THEN subsetD])
  moreover note \<open>i \<in> {0, 1, 2, 3, 4, 5, 6}\<close>
  ultimately show "set (fst (rs ! i)) \<subseteq> routine_alerts i"
    by (elim insertE emptyE) (simp_all add: rs routine_alerts_def)
qed

lemma criteriaRoutines_no_fixed:
  assumes "criteriaRoutines gw bd es opts ords sts ts = map Some rs"
  shows "A_Fixed ts' a \<notin> \<Union> (set ` set (map (routine_output ts) rs))"
proof -
  have "A_Fixed ts' a \<notin> set (fst r)" if r: "r \<in> set rs" for r
  proof -
    from r criteriaRoutines_sent(1) [OF assms] obtain i where i: "i < 7" "r = rs ! i"
      by (metis in_set_conv_nth)
    then have "i \<in> {0, 1, 2, 3, 4, 5, 6}" by auto
    then have "A_Fixed ts' a \<notin> routine_alerts i" by (auto simp: routine_alerts_def)
    with criteriaRoutines_sent(2) [OF assms i(1)] i(2) show ?thesis by auto
  qed
  then show ?thesis by (force simp: routine_output_def split: prod.splits option.splits)
qed

section \<open>A run of the proxy is a run of the storage\<close>

lemma store_run_append:
  "store_run put vac ord s ops outs s1 \<Longrightarrow> store_run put vac ord s1 ops' outs' s2 \<Longrightarrow>
   store_run put vac ord s (ops @ ops') (outs @ outs') s2"
proof (induction rule: store_run.induct)
  case (run_Put s a s1 b ops outs s2)
  then show ?case using store_run.run_Put [of put s a s1 b vac ord "ops @ ops'" "outs @ outs'"] by simp
next
  case (run_Vacuum s ks s1 fs ops outs s2)
  then show ?case using store_run.run_Vacuum [of ord s ks vac s1 fs put "ops @ ops'" "outs @ outs'"] by simp
qed simp

fun visible :: "int \<Rightarrow> Alert store_out \<Rightarrow> Alert list" where
  "visible ts (Sent a) = [a]"
| "visible ts (Held a) = []"
| "visible ts (Fixed a) = [A_Fixed ts a]"

text \<open>\<open>woven qs ps\<close>: \<open>ps\<close> is an interleaving of the queues, as far as one predicate can see.\<close>

definition woven :: "'a list list \<Rightarrow> 'a list \<Rightarrow> bool" where
  "woven qs ps \<longleftrightarrow> mset ps = mset (concat qs) \<and>
     (\<forall>P i. i < length qs \<longrightarrow> (\<forall>j < length qs. j \<noteq> i \<longrightarrow> filter P (qs ! j) = []) \<longrightarrow>
        filter P ps = filter P (qs ! i))"

lemma mset_concat_update:
  "i < length qs \<Longrightarrow> qs ! i = a # q \<Longrightarrow> mset (concat qs) = add_mset a (mset (concat (qs[i := q])))"
  by (induction qs arbitrary: i) (auto simp: nth_Cons split: nat.splits)

lemma woven_Cons:
  assumes "i < length qs" "qs ! i = a # q" "woven (qs[i := q]) ps"
  shows "woven qs (a # ps)"
  unfolding woven_def
proof (intro conjI allI impI)
  show "mset (a # ps) = mset (concat qs)"
    using assms(3) mset_concat_update [OF assms(1,2)] by (simp add: woven_def)
next
  fix P k
  assume k: "k < length qs" and other: "\<forall>j < length qs. j \<noteq> k \<longrightarrow> filter P (qs ! j) = []"
  then have "filter P (qs[i := q] ! j) = []" if "j < length qs" "j \<noteq> k" for j
    using that assms(1,2) by (cases "j = i") (auto split: if_splits)
  with assms(3) k have ps: "filter P ps = filter P (qs[i := q] ! k)" by (simp add: woven_def)
  show "filter P (a # ps) = filter P (qs ! k)"
  proof (cases "k = i")
    case True
    with ps assms(1,2) show ?thesis by simp
  next
    case False
    with other assms(1,2) have "\<not> P a" by (auto split: if_splits)
    with ps False show ?thesis by simp
  qed
qed

lemma proxy_run:
  assumes "proxy gw ts qs s out s'"
  shows "\<exists>ps outs. as_run gw s (map OpPut ps @ [OpVacuum]) outs s' \<and>
    out = concat (map (visible ts) outs) \<and> woven qs ps"
  using assms
proof (induction rule: proxy.induct)
  case (receive i qs alert q s s1 sendAlertNow out s2)
  then obtain ps outs where ps: "as_run gw s1 (map OpPut ps @ [OpVacuum]) outs s2"
    "out = concat (map (visible ts) outs)" "woven (qs[i := q]) ps" by blast
  from run_Put [of "PutAlert gw", OF receive.hyps(3) ps(1)]
  have "as_run gw s (map OpPut (alert # ps) @ [OpVacuum])
    ((if sendAlertNow then Sent alert else Held alert) # outs) s2" by simp
  with ps(2) woven_Cons [OF receive.hyps(1,2) ps(3)] show ?case
    by (intro exI [of _ "alert # ps"] exI) (auto intro!: conjI)
next
  case (finish qs s ks s1 vacuumedAlerts)
  have "as_run gw s (map OpPut [] @ [OpVacuum]) (map Fixed vacuumedAlerts @ []) s1"
    using run_Vacuum [of vacuum_order s ks Vacuum s1 vacuumedAlerts "PutAlert gw" "[]" "[]" s1] finish.hyps(2,3)
    by (simp add: run_Nil)
  moreover have "map (A_Fixed ts) fs = concat (map (visible ts) (map Fixed fs @ []))" for fs
    by (induction fs) auto
  moreover have "woven qs []"
    using finish.hyps(1) unfolding woven_def by (auto, metis filter.simps(1) nth_mem)
  ultimately show ?case by blast
qed

lemma proxy_total:
  assumes "storage_ok gw s"
  shows "\<exists>out s'. proxy gw ts qs s out s'"
  using assms
proof (induction "length (concat qs)" arbitrary: qs s)
  case 0
  then have empty: "\<forall>q \<in> set qs. q = []" by auto
  from 0 as.ord_ex obtain ks where ks: "vacuum_order s ks" by blast
  from as.vac_fixed [OF 0(2) ks] obtain fs where "Vacuum ks s = (fst (Vacuum ks s), map Some fs)"
    by (metis surjective_pairing)
  from finish [OF empty ks this] show ?case by blast
next
  case (Suc n)
  from Suc.hyps(2) have "concat qs \<noteq> []" by (metis list.size(3) nat.distinct(1))
  then obtain q' where "q' \<in> set qs" "q' \<noteq> []" by (auto simp: concat_eq_Nil_conv)
  then obtain i a q where i: "i < length qs" "qs ! i = a # q" by (metis in_set_conv_nth neq_Nil_conv)
  have "n = length (concat (qs[i := q]))"
    using Suc.hyps(2) arg_cong [OF mset_concat_update [OF i], of size] by (simp del: mset_concat)
  moreover have "storage_ok gw (fst (PutAlert gw s a))" using Suc.prems by (rule storage_ok_put)
  ultimately obtain out s' where "proxy gw ts (qs[i := q]) (fst (PutAlert gw s a)) out s'"
    using Suc.hyps(1) by blast
  with receive [OF i surjective_pairing] show ?case by blast
qed

section \<open>The interleaving does not matter\<close>

lemma filter_eq_by_count:
  assumes "mset ps = mset ps'" "\<And>b. b \<in> set ps \<Longrightarrow> P b \<Longrightarrow> b = a"
  shows "filter P ps = filter P ps'"
proof -
  have "filter P xs = replicate (length (filter P xs)) a" if "mset xs = mset ps" for xs
    using assms(2) mset_eq_setD [OF that] by (intro replicate_length_same [symmetric]) auto
  moreover have "length (filter P ps) = length (filter P ps')"
    using assms(1) by (metis mset_filter size_mset)
  ultimately show ?thesis using assms(1) by metis
qed

definition ids_apart :: "gowaves \<Rightarrow> Alert list list \<Rightarrow> Digest \<Rightarrow> bool" where
  "ids_apart gw qs d \<longleftrightarrow>
     (\<exists>i < length qs. \<forall>j < length qs. j \<noteq> i \<longrightarrow> (\<forall>a \<in> set (qs ! j). Alert_ID gw a \<noteq> d)) \<or>
     (\<exists>a. \<forall>q \<in> set qs. \<forall>b \<in> set q. Alert_ID gw b = d \<longrightarrow> b = a)"

lemma woven_filter_eq:
  assumes "woven qs ps" "woven qs ps'" "ids_apart gw qs d"
  shows "filter (\<lambda>a. Alert_ID gw a = d) ps = filter (\<lambda>a. Alert_ID gw a = d) ps'"
  using assms(3) unfolding ids_apart_def
proof (elim disjE exE conjE)
  fix i
  assume "i < length qs" "\<forall>j < length qs. j \<noteq> i \<longrightarrow> (\<forall>a \<in> set (qs ! j). Alert_ID gw a \<noteq> d)"
  then have "\<forall>j < length qs. j \<noteq> i \<longrightarrow> filter (\<lambda>a. Alert_ID gw a = d) (qs ! j) = []" "i < length qs"
    by (auto simp: filter_empty_conv)
  with assms(1,2) show ?thesis by (simp add: woven_def)
next
  fix a
  assume "\<forall>q \<in> set qs. \<forall>b \<in> set q. Alert_ID gw b = d \<longrightarrow> b = a"
  moreover have m: "mset ps = mset (concat qs)" "mset ps' = mset (concat qs)"
    using assms(1,2) by (simp_all add: woven_def)
  moreover have "set ps = set (concat qs)" by (rule mset_eq_setD [OF m(1)])
  ultimately show ?thesis by (intro filter_eq_by_count [of _ _ _ a]) auto
qed

lemma filter_ops: "filter (op_on gw d) (map OpPut ps @ [OpVacuum]) = map OpPut (filter (\<lambda>a. Alert_ID gw a = d) ps) @ [OpVacuum]"
  by (induction ps) auto

fun out_id :: "gowaves \<Rightarrow> Alert store_out \<Rightarrow> Digest" where
  "out_id gw (Sent a) = Alert_ID gw a"
| "out_id gw (Held a) = Alert_ID gw a"
| "out_id gw (Fixed a) = Alert_ID gw a"

lemma out_on_id: "out_on gw d x \<longleftrightarrow> out_id gw x = d"
  by (cases x) auto

lemma mset_eq_by_projections:
  assumes "\<And>d. filter (\<lambda>x. f x = d) xs = filter (\<lambda>x. f x = d) ys"
  shows "mset xs = mset ys"
proof (rule multiset_eqI)
  fix x
  have "count (mset zs) x = count (mset (filter (\<lambda>y. f y = f x) zs)) x" for zs
    by simp
  then show "count (mset xs) x = count (mset ys) x" using assms [of "f x"] by metis
qed

lemma mset_concat_map: "mset (concat (map f xs)) = (\<Sum>x \<in># mset xs. mset (f x))"
  by (induction xs) simp_all

lemma with_cells_eqI:
  "s1 = with_cells s m1 \<Longrightarrow> s2 = with_cells s m2 \<Longrightarrow>
   (\<And>d. as_internalStorage s1 d = as_internalStorage s2 d) \<Longrightarrow> s1 = s2"
  by (metis ext with_cells_simps(1))

text \<open>
  C18: The order in which the proxy receives the alerts of the criteria does not matter, as long
  as alerts of different criteria with the same id are equal: two analyses of the same criteria
  outputs from the same storage write the same alerts and leave the same storage.
\<close>

theorem analysis_order_irrelevant:
  assumes "storage_ok gw s" "\<forall>d. ids_apart gw qs d"
    and "proxy gw ts qs s out1 s1" "proxy gw ts qs s out2 s2"
  shows "mset out1 = mset out2 \<and> s1 = s2"
proof -
  from proxy_run [OF assms(3)] obtain ps1 outs1 where
    r1: "as_run gw s (map OpPut ps1 @ [OpVacuum]) outs1 s1" "out1 = concat (map (visible ts) outs1)" "woven qs ps1"
    by blast
  from proxy_run [OF assms(4)] obtain ps2 outs2 where
    r2: "as_run gw s (map OpPut ps2 @ [OpVacuum]) outs2 s2" "out2 = concat (map (visible ts) outs2)" "woven qs ps2"
    by blast
  have ops: "filter (op_on gw d) (map OpPut ps1 @ [OpVacuum]) = filter (op_on gw d) (map OpPut ps2 @ [OpVacuum])" for d
    using woven_filter_eq [OF r1(3) r2(3)] assms(2) by (simp only: filter_ops)
  note c1 = as_run_cell [OF r1(1) assms(1)] and c2 = as_run_cell [OF r2(1) assms(1)]
  have cells: "as_internalStorage s1 d = as_internalStorage s2 d \<and>
      filter (out_on gw d) outs1 = filter (out_on gw d) outs2" for d
    using c1 [of d] c2 [of d] unfolding ops by (metis prod.inject)
  have on: "(\<lambda>x. out_id gw x = d) = out_on gw d" for d by (rule ext) (simp add: out_on_id)
  have "mset outs1 = mset outs2"
    by (rule mset_eq_by_projections [of "out_id gw"]) (simp only: on cells)
  then have "mset (concat (map (visible ts) outs1)) = mset (concat (map (visible ts) outs2))"
    by (simp only: mset_concat_map)
  moreover from c1 c2 obtain m1 m2 where "s1 = with_cells s m1" "s2 = with_cells s m2" by blast
  then have "s1 = s2" by (rule with_cells_eqI) (simp add: cells)
  ultimately show ?thesis by (simp add: r1(2) r2(2))
qed

definition demo_storage1 :: AlertsStorage where
  "demo_storage1 = newAlertsStorage 2 5 (\<lambda>_. None)"

definition demo_alert2 :: Alert where
  "demo_alert2 = A_Simple (NewSimpleAlert 7 ''y'')"

lemma demo_ids [simp]: "Alert_ID demo_gowaves demo_alert \<noteq> Alert_ID demo_gowaves demo_alert2"
  by (simp add: demo_alert_def demo_alert2_def NewSimpleAlert_def SimpleAlert_methods_def demo_gowaves_def
      SimpleAlertName_def)

lemma demo_proxy:
  assumes "Alert_ID gw a \<noteq> Alert_ID gw b" "{qs ! i, qs ! j} = {[a], [b]}" "qs ! i = [a]"
    "length qs = 2" "i < 2" "j < 2"
  shows "\<exists>s'. proxy gw 7 qs demo_storage1 [a, b] s'"
proof -
  let ?i = "\<lambda>x. \<lparr>ai_vacuumQuota = 5, ai_repeats = 1, ai_backoffThreshold = 2, ai_confirmed = True, ai_alert = Some x\<rparr>"
  let ?s1 = "demo_storage1\<lparr>as_internalStorage := [Alert_ID gw a \<mapsto> ?i a]\<rparr>"
  let ?s2 = "demo_storage1\<lparr>as_internalStorage := [Alert_ID gw a \<mapsto> ?i a, Alert_ID gw b \<mapsto> ?i b]\<rparr>"
  have p: "PutAlert gw demo_storage1 a = (?s1, True)" "PutAlert gw ?s1 b = (?s2, True)"
    using assms(1) by (simp_all add: PutAlert_def demo_storage1_def newAlertsStorage_def Let_def zeroAlertInfo_def map_get_def)
  have v: "Vacuum [Alert_ID gw a, Alert_ID gw b] ?s2 = (fst (Vacuum [Alert_ID gw a, Alert_ID gw b] ?s2), map Some [])"
    using assms(1) by (simp add: Vacuum_def demo_storage1_def newAlertsStorage_def map_get_def Let_def)
  have k: "vacuum_order ?s2 [Alert_ID gw a, Alert_ID gw b]"
    using assms(1) by (auto simp: iter_order_def)
  from assms(1) have "a \<noteq> b" by auto
  with assms have j: "qs ! j = [b]" "i \<noteq> j" by (auto simp: doubleton_eq_iff)
  have e: "\<forall>q \<in> set (qs[i := [], j := []]). q = []"
    using assms(4-6) j(2) by (auto simp: in_set_conv_nth nth_list_update less_2_cases_iff)
  note f = proxy.finish [where ts = 7 and gw = gw and vacuumedAlerts = "[]", OF e k v]
  have "proxy gw 7 (qs[i := []]) ?s1 ((if True then [b] else []) @ map (A_Fixed 7) [])
      (fst (Vacuum [Alert_ID gw a, Alert_ID gw b] ?s2))"
    by (rule proxy.receive [of j, OF _ _ p(2) f]) (use assms j in auto)
  from proxy.receive [of i, OF _ _ p(1) this] assms show ?thesis by auto
qed

theorem analysis_order_irrelevant_witness:
  "\<exists>s'. proxy demo_gowaves 7 [[demo_alert], [demo_alert2]] demo_storage1 [demo_alert, demo_alert2] s' \<and>
    proxy demo_gowaves 7 [[demo_alert], [demo_alert2]] demo_storage1 [demo_alert2, demo_alert] s'"
proof -
  let ?qs = "[[demo_alert], [demo_alert2]]"
  obtain s1 where s1: "proxy demo_gowaves 7 ?qs demo_storage1 [demo_alert, demo_alert2] s1"
    using demo_proxy [of demo_gowaves demo_alert demo_alert2 ?qs 0 1] by auto
  obtain s2 where s2: "proxy demo_gowaves 7 ?qs demo_storage1 [demo_alert2, demo_alert] s2"
    using demo_proxy [of demo_gowaves demo_alert2 demo_alert ?qs 1 0] demo_ids by auto
  have "ids_apart demo_gowaves ?qs d" for d
  proof (cases "Alert_ID demo_gowaves demo_alert = d")
    case True
    then show ?thesis unfolding ids_apart_def
      by (intro disjI1 exI [of _ 0]) (use demo_ids in \<open>auto simp: less_Suc_eq\<close>)
  next
    case False
    then show ?thesis unfolding ids_apart_def
      by (intro disjI1 exI [of _ 1]) (auto simp: less_Suc_eq)
  qed
  with analysis_order_irrelevant [OF _ _ s1 s2] s1 s2 show ?thesis
    by (auto simp: demo_storage1_def)
qed

section \<open>Fixed reports over a whole run\<close>

text \<open>
  \<open>weave outs out\<close>: \<open>out\<close> is what a run of the storage shows, with errors of the analyzer itself
  between, and its only fixed reports are those of the storage.
\<close>

inductive weave :: "Alert store_out list \<Rightarrow> Alert list \<Rightarrow> bool" where
  weave_Nil: "weave [] []"
| weave_Sent: "weave outs out \<Longrightarrow> \<forall>ts b. a \<noteq> A_Fixed ts b \<Longrightarrow> weave (Sent a # outs) (a # out)"
| weave_Held: "weave outs out \<Longrightarrow> weave (Held a # outs) out"
| weave_Fixed: "weave outs out \<Longrightarrow> weave (Fixed a # outs) (A_Fixed ts a # out)"
| weave_error: "weave outs out \<Longrightarrow> weave outs (A_InternalError e # out)"

lemma weave_append: "weave outs out \<Longrightarrow> weave outs' out' \<Longrightarrow> weave (outs @ outs') (out @ out')"
  by (induction rule: weave.induct) (auto intro: weave.intros)

lemma weave_errors: "\<forall>a \<in> set es. \<exists>e. a = A_InternalError e \<Longrightarrow> weave [] es"
  by (induction es) (auto intro: weave.intros)

lemma weave_visible:
  "\<forall>a ts b. Sent a \<in> set outs \<longrightarrow> a \<noteq> A_Fixed ts b \<Longrightarrow> weave outs (concat (map (visible ts) outs))"
proof (induction outs)
  case (Cons x outs)
  then show ?case by (cases x) (auto intro: weave.intros)
qed (simp add: weave_Nil)

lemma weave_Fixed_split:
  assumes "weave outs (xs @ A_Fixed ts a # ys)"
  shows "\<exists>us vs. outs = us @ Fixed a # vs \<and> weave us xs"
  using assms
proof (induction outs "xs @ A_Fixed ts a # ys" arbitrary: xs rule: weave.induct)
  case (weave_Sent outs out b)
  then obtain xs' where "xs = b # xs'" "out = xs' @ A_Fixed ts a # ys" by (cases xs) auto
  with weave_Sent show ?case by (metis append_Cons weave.weave_Sent)
next
  case (weave_Held outs b)
  then show ?case by (metis append_Cons weave.weave_Held)
next
  case (weave_Fixed outs out b ts')
  show ?case
  proof (cases xs)
    case Nil
    with weave_Fixed.hyps(3) show ?thesis by (auto intro: weave_Nil exI [of _ "[]"])
  next
    case (Cons x xs')
    with weave_Fixed.hyps(3) have "x = A_Fixed ts' b" "out = xs' @ A_Fixed ts a # ys" by auto
    with weave_Fixed.hyps(2) Cons show ?thesis by (metis append_Cons weave.weave_Fixed)
  qed
next
  case (weave_error outs out e)
  then obtain xs' where "xs = A_InternalError e # xs'" "out = xs' @ A_Fixed ts a # ys" by (cases xs) auto
  with weave_error show ?case by (metis weave.weave_error)
qed simp

lemma weave_Sent_split:
  assumes "weave (us @ Sent b # vs) xs"
  shows "\<exists>us' vs'. xs = us' @ b # vs' \<and> weave vs vs' \<and> (\<forall>ts c. b \<noteq> A_Fixed ts c)"
  using assms
proof (induction "us @ Sent b # vs" xs arbitrary: us rule: weave.induct)
  case (weave_Sent outs out a)
  show ?case
  proof (cases us)
    case Nil
    with weave_Sent show ?thesis by (auto intro: exI [of _ "[]"])
  next
    case (Cons u us')
    with weave_Sent.hyps(4) have "outs = us' @ Sent b # vs" by simp
    from weave_Sent.hyps(2) [OF this] show ?thesis by (metis append_Cons)
  qed
next
  case (weave_Held outs out a)
  then obtain us' where "outs = us' @ Sent b # vs" by (cases us) auto
  with weave_Held.hyps(2) show ?case by blast
next
  case (weave_Fixed outs out a ts)
  then obtain us' where "outs = us' @ Sent b # vs" by (cases us) auto
  from weave_Fixed.hyps(2) [OF this] show ?case by (metis append_Cons)
next
  case (weave_error out e)
  from weave_error.hyps(2) show ?case by (metis append_Cons)
qed simp

lemma weave_Fixed_in: "weave outs out \<Longrightarrow> A_Fixed ts c \<in> set out \<Longrightarrow> Fixed c \<in> set outs"
  by (induction rule: weave.induct) auto

lemma proxy_weave:
  assumes "proxy gw ts qs s out s'" "\<forall>ts' b. A_Fixed ts' b \<notin> \<Union> (set ` set qs)"
  shows "\<exists>ops outs. as_run gw s ops outs s' \<and> weave outs out"
proof -
  from proxy_run [OF assms(1)] obtain ps outs where
    r: "as_run gw s (map OpPut ps @ [OpVacuum]) outs s'" "out = concat (map (visible ts) outs)" "woven qs ps" by blast
  have sent: "OpPut a \<in> set ops" if "as_run gw s ops outs s'" "Sent a \<in> set outs" for s ops outs s' a
    using that by (induction rule: store_run.induct) (auto split: if_splits)
  have "set ps = \<Union> (set ` set qs)"
    using r(3) by (metis mset_eq_setD set_concat woven_def)
  with sent [OF r(1)] assms(2) have "\<forall>a ts b. Sent a \<in> set outs \<longrightarrow> a \<noteq> A_Fixed ts b" by fastforce
  with r(1,2) weave_visible show ?thesis by blast
qed

lemma analyze_weave:
  assumes "analyze gw bd es opts s n err out s'"
  shows "\<exists>ops outs. as_run gw s ops outs s' \<and> weave outs out"
  using assms
proof (cases rule: analyze.cases)
  case (analyze_view_fails statements err)
  then show ?thesis by (auto intro: run_Nil weave_Nil)
next
  case (analyze_runs statements ords rs)
  then show ?thesis using proxy_weave [OF analyze_runs(6)] criteriaRoutines_no_fixed [OF analyze_runs(4)] by blast
qed

lemma processNotification_weave:
  assumes "processNotification gw bd es opts s n err out s'"
  shows "\<exists>ops outs. as_run gw s ops outs s' \<and> weave outs out"
proof -
  have e: "weave [] (case n_Error n of None \<Rightarrow> [] | Some e \<Rightarrow> [A_InternalError (NewInternalErrorAlert (n_Timestamp n) e)])"
    by (rule weave_errors) (auto split: option.splits)
  from assms show ?thesis
  proof (cases rule: processNotification.cases)
    case (analyzed cnt err out')
    from analyze_weave [OF analyzed(5)] obtain ops outs where "as_run gw s ops outs s'" "weave outs out'" by blast
    with analyzed(2) weave_append [OF e] show ?thesis by fastforce
  next
    case nothing_to_analyze
    with e show ?thesis by (metis run_Nil)
  next
    case (count_fails err)
    with e show ?thesis by (metis run_Nil)
  qed
qed

lemma Start_weave:
  assumes "Start gw bd opts s ns out s'"
  shows "\<exists>ops outs. as_run gw s ops outs s' \<and> weave outs out"
  using assms
proof (induction rule: Start.induct)
  case (closed s)
  then show ?case by (blast intro: run_Nil weave_Nil)
next
  case (notified es s n err out s1 ns out2 s2 report now)
  from processNotification_weave [OF notified.hyps(1)] obtain ops outs where
    1: "as_run gw s ops outs s1" "weave outs out" by blast
  from notified.IH obtain ops2 outs2 where 2: "as_run gw s1 ops2 outs2 s2" "weave outs2 out2" by blast
  have "weave [] report" by (rule weave_errors) (auto simp: notified.hyps(3) split: option.splits)
  from weave_append [OF 1(2) weave_append [OF this 2(2)]] store_run_append [OF 1(1) 2(1)]
  show ?case by auto
qed

text \<open>What the alerts storage promises of its outputs holds of the alerts written.\<close>

lemma weave_fixed_after_sent:
  assumes "as_run gw s ops outs s'" "weave outs (xs @ A_Fixed ts a # ys)" "storage_ok gw s" "confirmed_ids s = {}"
  shows "\<exists>us b vs. xs = us @ b # vs \<and> (\<forall>ts' c. b \<noteq> A_Fixed ts' c) \<and> Alert_ID gw b = Alert_ID gw a \<and>
    (\<forall>ts' c. A_Fixed ts' c \<in> set vs \<longrightarrow> Alert_ID gw c \<noteq> Alert_ID gw a)"
proof -
  from weave_Fixed_split [OF assms(2)] obtain os qs where o: "outs = os @ Fixed a # qs" "weave os xs" by blast
  from as.fixed_after_sent [OF assms(1) [unfolded o(1)] assms(3,4)] obtain us b vs where
    b: "os = us @ Sent b # vs" "Alert_ID gw b = Alert_ID gw a" "\<forall>c. Fixed c \<in> set vs \<longrightarrow> Alert_ID gw c \<noteq> Alert_ID gw a"
    by auto
  from weave_Sent_split [OF o(2) [unfolded b(1)]] obtain us' vs' where
    "xs = us' @ b # vs'" "weave vs vs'" "\<forall>ts c. b \<noteq> A_Fixed ts c" by blast
  with b weave_Fixed_in show ?thesis by blast
qed

lemma NewAnalyzer_storage [simp]:
  "storage_ok gw (snd (NewAnalyzer o'))" "confirmed_ids (snd (NewAnalyzer o')) = {}"
  by (simp_all add: NewAnalyzer_def Let_def NewAlertsStorage_def AlertBackoff_def AlertVacuumQuota_def
      AlertConfirmations_def newAlertsStorage_def storage_ok_def confirmed_ids_def)

text \<open>
  C14: Over the whole life of an analyzer, whatever notifications it gets and whatever the events
  storage holds, a report that an alert is fixed is preceded by the sending of an alert with
  the same id, with no other fixed report of that id between.
\<close>

theorem analyzer_fixed_after_sent:
  assumes "Start gw bd (fst (NewAnalyzer o')) (snd (NewAnalyzer o')) ns (xs @ A_Fixed ts a # ys) s'"
  shows "\<exists>us b vs. xs = us @ b # vs \<and> (\<forall>ts' c. b \<noteq> A_Fixed ts' c) \<and> Alert_ID gw b = Alert_ID gw a \<and>
    (\<forall>ts' c. A_Fixed ts' c \<in> set vs \<longrightarrow> Alert_ID gw c \<noteq> Alert_ID gw a)"
proof -
  from Start_weave [OF assms] obtain ops outs where
    "as_run gw (snd (NewAnalyzer o')) ops outs s'" "weave outs (xs @ A_Fixed ts a # ys)" by blast
  then show ?thesis by (rule weave_fixed_after_sent) simp_all
qed

end
