(* ===== verification/AnalyzerRounds.thy ===== *)
theory AnalyzerRounds
  imports AnalyzerPolicy
begin

text \<open>
  Single rounds of the analyzer: a healthy network gives no alert, a notification that wraps
  another one is not analyzed, and a run in which an alert is sent and later reported as fixed.
\<close>

section \<open>Rounds\<close>

lemma statusSplit_filter: "statusSplit sts st = SortByNodeAsc (filter (\<lambda>s. st_Status s = st) sts)"
  by (simp add: statusSplit_def SplitByNodeStatus_def map_get_group_by)

lemma SortByNodeAsc_set [simp]: "set (SortByNodeAsc ss) = set ss"
  by (simp add: SortByNodeAsc_def)

lemma SortByNodeAsc_Nil [simp]: "SortByNodeAsc [] = []"
  by (simp add: SortByNodeAsc_def)

lemma proxy_silent:
  assumes "proxy gw ts qs s out s'" "\<forall>q \<in> set qs. q = []" "storage_ok gw s"
  shows "\<exists>fs. out = map (A_Fixed ts) fs \<and> Alert_ID gw ` set fs \<subseteq> confirmed_ids s"
  using assms
proof (cases rule: proxy.cases)
  case receive
  with assms(2) show ?thesis by (metis list.distinct(1) nth_mem)
next
  case (finish ks vacuumedAlerts)
  with as.vac_fixed [OF assms(3) finish(3)] show ?thesis by (auto simp: inj_map_eq_map)
qed

lemma mostFrequent_le:
  "\<forall>s \<in> set ss. st_BaseTarget s \<le> b \<Longrightarrow> mk \<le> b \<Longrightarrow> mostFrequent_loop m mx mk ss \<le> b"
  by (induction m mx mk ss rule: mostFrequent_loop.induct) (auto simp: Let_def)

lemma group_by_same:
  "xs \<noteq> [] \<Longrightarrow> \<forall>x \<in> set xs. f x = d \<Longrightarrow> group_by f xs = [d \<mapsto> xs]"
  by (auto simp: fun_eq_iff group_by_lookup filter_id_conv neq_Nil_conv)

lemma run_steps_silent:
  "\<forall>r \<in> set rs. r = Some ([], None) \<Longrightarrow> run_steps rs = Some ([], None)"
  by (induction rs) auto

lemma MinMaxHeight_same:
  assumes "\<forall>s \<in> set ss. st_Height s = h" "iter_order (SplitByNodeHeight ss) ks"
  shows "fst (MinMaxHeight ks (SplitByNodeHeight ss)) = snd (MinMaxHeight ks (SplitByNodeHeight ss))"
proof (cases "ss = []")
  case True
  with assms(2) have "ks = []" by (simp add: SplitByNodeHeight_def)
  then show ?thesis by (simp add: MinMaxHeight_def)
next
  case False
  moreover have "st_Height ` set ss = {h}" using False assms(1) by (auto simp: neq_Nil_conv)
  ultimately show ?thesis using MinMaxHeight_statements [OF assms(2)] by simp
qed

text \<open>A round in which all nodes agree: same height, same state hash, nothing challenged.\<close>

definition healthy :: "uint64 \<Rightarrow> uint64 \<Rightarrow> Digest \<Rightarrow> NodeStatement \<Rightarrow> bool" where
  "healthy b h d st \<longleftrightarrow> st_Status st = OK \<and> st_Height st = h \<and> st_BaseTarget st \<le> b \<and> \<not> st_Challenged st \<and>
     (\<exists>sh. st_StateHash st = Some sh \<and> sh_SumHash sh = d)"

lemma healthy_StateHash:
  assumes "\<forall>st \<in> set ss. healthy b h d st" "sco_HeightBucketSize (NewStateHashCriterion o') \<noteq> 0"
    and "\<And>buckets. SplitByNodeHeightBuckets (ucast (sco_HeightBucketSize (NewStateHashCriterion o'))) ss = Inr buckets \<Longrightarrow>
      iter_order buckets bks \<and>
      (\<forall>b \<in> dom buckets. iter_order (SplitByNodeHeight (map_get [] buckets b)) (hks b) \<and>
        (\<forall>h sts split others. bucket_statements gw bd es (hks b) b (map_get [] buckets b) = Inr (h, sts) \<and>
           SplitBySumStateHash sts = Inr (split, others) \<longrightarrow> iter_order split (dks b)))"
  shows "StateHash_Analyze gw bd es (NewStateHashCriterion o') bks hks dks ts ss = Some ([], None)"
proof -
  let ?sz = "ucast (sco_HeightBucketSize (NewStateHashCriterion o')) :: uint64"
  let ?buckets = "group_by (bucketHeight ?sz) ss"
  have "uint (ucast w :: uint64) = uint w" for w :: uint32
    using uint_lt2p [of w] by (simp add: unsigned_ucast_eq take_bit_int_eq_self)
  from this [of "sco_HeightBucketSize (NewStateHashCriterion o')"] have "?sz \<noteq> 0"
    using assms(2) by (metis uint_0_eq uint_0_iff)
  then have split: "SplitByNodeHeightBuckets ?sz ss = Inr ?buckets" by (simp add: SplitByNodeHeightBuckets_def)
  note ord = assms(3) [OF split]
  have "analyze_bucket gw bd es (NewStateHashCriterion o') (hks c) (dks c) ts c (map_get [] ?buckets c) = Some ([], None)"
    if "c \<in> set bks" for c
  proof -
    let ?xs = "map_get [] ?buckets c"
    from that ord have c: "c \<in> dom ?buckets" by (auto simp: iter_order_def)
    note o = conjunct1 [OF bspec [OF conjunct2 [OF ord] c]] conjunct2 [OF bspec [OF conjunct2 [OF ord] c]]
    have xs: "?xs \<noteq> []" "\<forall>st \<in> set ?xs. healthy b h d st"
      using c assms(1) by (auto simp: map_get_group_by dom_group_by filter_empty_conv)
    then have hs: "\<forall>st \<in> set ?xs. st_Height st = h" by (simp add: healthy_def)
    from MinMaxHeight_same [OF hs o(1)] have bs:
      "bucket_statements gw bd es (hks c) c ?xs = Inr (fst (MinMaxHeight (hks c) (SplitByNodeHeight ?xs)), ?xs)"
      by (cases "MinMaxHeight (hks c) (SplitByNodeHeight ?xs)") (simp add: bucket_statements_def)
    have ok: "filter (\<lambda>s. st_Status s = OK) ?xs = ?xs" "filter (\<lambda>s. st_Status s \<noteq> OK) ?xs = []"
      using xs(2) by (auto simp: filter_id_conv filter_empty_conv healthy_def)
    have "SplitBySumStateHash ?xs = Inr (group_by (\<lambda>s. sh_SumHash (the (st_StateHash s))) ?xs, [])"
      using SplitBySumStateHash_total [of ?xs] xs(2) unfolding ok by (force simp: healthy_def)
    also have "group_by (\<lambda>s. sh_SumHash (the (st_StateHash s))) ?xs = [d \<mapsto> ?xs]"
      using xs by (intro group_by_same) (auto simp: healthy_def)
    finally have sp: "SplitBySumStateHash ?xs = Inr ([d \<mapsto> ?xs], [])" .
    with o(2) bs have "iter_order [d \<mapsto> ?xs] (dks c)" by blast
    then have "length (dks c) \<le> 1" using iter_order_length by fastforce
    then show ?thesis by (simp add: analyze_bucket_def bs analyzeNodesOnSameHeight_def sp)
  qed
  then show ?thesis
    unfolding StateHash_Analyze_def split by (auto intro!: run_steps_silent)
qed


lemma healthy_routines:
  assumes "\<forall>st \<in> set sts. healthy (bto_Threshold bto) h d st"
    and "ao_BaseTargetCriterionOpts opts = Some bto"
    and "sco_HeightBucketSize (NewStateHashCriterion (ao_StateHashCriteriaOpts opts)) \<noteq> 0"
    and "orders_ok gw bd es opts ords sts"
  shows "criteriaRoutines gw bd es opts ords sts ts = replicate 7 (Some ([], None))"
proof -
  have none: "filter (\<lambda>s. st_Status s = st) sts = []" if "st \<noteq> OK" for st
    using assms(1) that by (auto simp: filter_empty_conv healthy_def)
  let ?ok = "statusSplit sts OK"
  have ok: "\<forall>st \<in> set ?ok. healthy (bto_Threshold bto) h d st"
    using assms(1) by (simp add: statusSplit_filter)
  note ord = assms(4) [unfolded orders_ok_def Let_def]
  have "challenged_loop (\<lambda>_. None) ss = (\<lambda>_. None)" if "\<forall>st \<in> set ss. healthy (bto_Threshold bto) h d st" for ss
    using that by (induction ss) (auto simp: healthy_def split: option.splits)
  then have ch: "mo_challenged ords = []"
    using ord ok none by (simp add: statusSplit_filter)
  have hs: "\<forall>s \<in> set ?ok. st_Height s = h" using ok by (simp add: healthy_def)
  have height: "Height_Analyze o' (mo_minmax ords) (mo_heights ords) ts ?ok = []" for o' ts
    using MinMaxHeight_same [OF hs, of "mo_minmax ords"] ord
    by (cases "MinMaxHeight (mo_minmax ords) (SplitByNodeHeight ?ok)") (simp add: Height_Analyze_def)
  have "mostFrequentBaseTarget ?ok \<le> bto_Threshold bto"
    unfolding mostFrequentBaseTarget_def using ok by (intro mostFrequent_le) (simp_all add: healthy_def)
  then have bt: "BaseTarget_Analyze bto ts ?ok = []" for ts by (simp add: BaseTarget_Analyze_def)
  have sh: "StateHash_Analyze gw bd es (NewStateHashCriterion (ao_StateHashCriteriaOpts opts)) (mo_buckets ords)
      (mo_bucket_heights ords) (mo_digests ords) ts ?ok = Some ([], None)" for ts
    by (rule healthy_StateHash [OF ok assms(3)]) (use ord in blast)
  show ?thesis
    unfolding criteriaRoutines_def Let_def height sh assms(2)
    by (simp add: statusSplit_filter none Incomplete_Analyze_def Unreachable_Analyze_def ChallengedBlock_Analyze_def ch
        NewBaseTargetCriterion_def bt [unfolded statusSplit_filter] numeral_eq_Suc)
qed

text \<open>Every loop over a map has an order: the maps are finite.\<close>

lemma finite_challenged: "finite (dom m) \<Longrightarrow> finite (dom (challenged_loop m ss))"
  by (induction m ss rule: challenged_loop.induct) (auto simp: map_append_def split: option.splits)

lemma finite_group_by [simp]: "finite (dom (group_by f xs))"
  by (simp add: dom_group_by)

lemma finite_sum_split: "SplitBySumStateHash sts = Inr (split, others) \<Longrightarrow> finite (dom split)"
  using SplitBySumStateHash_loop_eq [of "\<lambda>_. None" "[]" sts split others]
  by (simp add: SplitBySumStateHash_def)

lemma orders_exist: "\<exists>ords. orders_ok gw bd es opts ords sts"
proof -
  let ?ok = "statusSplit sts OK"
    and ?sz = "ucast (sco_HeightBucketSize (NewStateHashCriterion (ao_StateHashCriteriaOpts opts))) :: uint64"
  let ?ord = "\<lambda>m. SOME ks. iter_order m ks"
  have ord: "iter_order m (?ord m)" if "finite (dom m)" for m :: "('k, 'v) gomap"
    by (rule someI_ex) (rule iter_order_ex [OF that])
  have ord2: "iter_order m (SOME ks. iter_order m ks)" if "finite (dom m)" for m :: "(uint64, NodeStatements) gomap"
    by (rule someI_ex) (rule iter_order_ex [OF that])
  let ?buckets = "group_by (bucketHeight ?sz) ?ok"
  let ?hs = "\<lambda>b. ?ord (SplitByNodeHeight (map_get [] ?buckets b))"
  let ?ds = "\<lambda>b. case bucket_statements gw bd es (?hs b) b (map_get [] ?buckets b) of Inl _ \<Rightarrow> []
     | Inr (h, sts) \<Rightarrow> (case SplitBySumStateHash sts of Inl _ \<Rightarrow> [] | Inr (split, others) \<Rightarrow> SOME ks. iter_order split ks)"
  have ds: "iter_order split (?ds b)"
    if "bucket_statements gw bd es (?hs b) b (map_get [] ?buckets b) = Inr (h, sts)"
      "SplitBySumStateHash sts = Inr (split, others)" for b h sts split others
    unfolding that sum.case prod.case by (rule someI_ex) (rule iter_order_ex [OF finite_sum_split [OF that(2)]])
  let ?ords = "\<lparr>mo_challenged = SOME ks. iter_order (challenged_loop (\<lambda>_. None) (statusSplit sts Incomplete @ ?ok)) ks,
    mo_minmax = ?ord (SplitByNodeHeight ?ok), mo_heights = ?ord (SplitByNodeHeight ?ok),
    mo_buckets = ?ord ?buckets, mo_bucket_heights = ?hs, mo_digests = ?ds\<rparr>"
  have "orders_ok gw bd es opts ?ords sts"
    unfolding orders_ok_def Let_def
  proof (intro conjI allI impI ballI; (elim conjE)?)
    show "iter_order (challenged_loop (\<lambda>_. None) (statusSplit sts Incomplete @ ?ok)) (mo_challenged ?ords)"
      unfolding map_orders.simps by (rule someI_ex) (intro iter_order_ex finite_challenged, simp)
  next
    fix buckets
    assume "SplitByNodeHeightBuckets ?sz ?ok = Inr buckets"
    then have b: "buckets = ?buckets" by (simp add: SplitByNodeHeightBuckets_def split: if_splits)
    show "iter_order buckets (mo_buckets ?ords)" unfolding b map_orders.simps by (rule ord2) simp
    show "iter_order (SplitByNodeHeight (map_get [] buckets c)) (mo_bucket_heights ?ords c)" for c
      unfolding b map_orders.simps SplitByNodeHeight_def by (rule ord2) simp
    show "iter_order split (mo_digests ?ords c)"
      if "bucket_statements gw bd es (mo_bucket_heights ?ords c) c (map_get [] buckets c) = Inr (h, sts')"
        "SplitBySumStateHash sts' = Inr (split, others)" for c h sts' split others
      using ds that unfolding b map_orders.simps by blast
  qed (simp_all add: ord2 SplitByNodeHeight_def)
  then show ?thesis by blast
qed

text \<open>
  C17: A healthy round sends no alert. When all statements of the round are from nodes that agree
  (status \<open>OK\<close>, one height, one state hash, no challenged block, base target within the
  threshold), the analysis comes to an end, succeeds, and writes nothing but reports of fixed
  alerts, each for an id that the storage held as confirmed.
\<close>

theorem healthy_round_silent:
  assumes "storage_ok gw s"
    and "ViewStatementsByTimestamp gw bd es (n_Timestamp n) (\<lambda>acc st. (acc @ [st], True)) [] = (sts, None)"
    and "\<forall>st \<in> set sts. healthy (bto_Threshold bto) h d st"
    and "ao_BaseTargetCriterionOpts opts = Some bto"
    and "sco_HeightBucketSize (NewStateHashCriterion (ao_StateHashCriteriaOpts opts)) \<noteq> 0"
  shows "(\<exists>out s'. analyze gw bd es opts s n None out s') \<and>
    (\<forall>err out s'. analyze gw bd es opts s n err out s' \<longrightarrow> err = None \<and>
      (\<exists>fs. out = map (A_Fixed (n_Timestamp n)) fs \<and> Alert_ID gw ` set fs \<subseteq> confirmed_ids s))"
proof (intro conjI allI impI)
  let ?rs = "replicate 7 ([], None) :: criterion_result list"
  have m: "replicate 7 (Some ([], None)) = map Some ?rs" by simp
  obtain ords where ords: "orders_ok gw bd es opts ords sts" using orders_exist by blast
  obtain out s' where "proxy gw (n_Timestamp n) (map (routine_output (n_Timestamp n)) ?rs) s out s'"
    using proxy_total [OF assms(1)] by blast
  from analyze_runs [OF assms(2) ords _ _ this] healthy_routines [OF assms(3-5) ords] m
  show "\<exists>out s'. analyze gw bd es opts s n None out s'" by (metis in_set_replicate option.simps(4) snd_conv)
next
  fix err out s'
  assume "analyze gw bd es opts s n err out s'"
  then have "err = None \<and> (\<exists>fs. out = map (A_Fixed (n_Timestamp n)) fs \<and> Alert_ID gw ` set fs \<subseteq> confirmed_ids s)"
  proof (cases rule: analyze.cases)
    case analyze_view_fails
    with assms(2) show ?thesis by simp
  next
    case (analyze_runs statements ords rs)
    with assms(2) have sts: "statements = sts" by simp
    note run = analyze_runs(3-6) [unfolded sts]
    from run(2) healthy_routines [OF assms(3-5) run(1)] have "map Some rs = map Some (replicate 7 ([], None))" by simp
    then have "rs = replicate 7 ([], None)" by (simp only: inj_map_eq_map inj_Some)
    then have "\<forall>q \<in> set (map (routine_output (n_Timestamp n)) rs). q = []" by (auto simp: routine_output_def)
    from proxy_silent [OF run(4) this assms(1)] analyze_runs(1) show ?thesis by simp
  qed
  then show "err = None" "\<exists>fs. out = map (A_Fixed (n_Timestamp n)) fs \<and> Alert_ID gw ` set fs \<subseteq> confirmed_ids s"
    by blast+
qed

lemma view_round:
  assumes "store_ok gw bd cont glob es"
  shows "ViewStatementsByTimestamp gw bd es ts (\<lambda>acc st. (acc @ [st], True)) [] = (at_timestamp gw cont es ts, None)"
  by (simp add: view_timestamp [OF assms] iter_until_collect)

theorem healthy_round_silent_witness:
  "\<exists>s'. analyze demo_gowaves demo_db demo_chain (zeroAnalyzerOptions\<lparr>ao_BaseTargetCriterionOpts := Some \<lparr>bto_Threshold = 5\<rparr>\<rparr>)
     demo_storage1 (NewNodesGatheringComplete [''a'', ''b''] 1) None [] s'"
proof -
  let ?opts = "zeroAnalyzerOptions\<lparr>ao_BaseTargetCriterionOpts := Some \<lparr>bto_Threshold = 5\<rparr>\<rparr>"
  let ?n = "NewNodesGatheringComplete [''a'', ''b''] 1"
  have ok: "storage_ok demo_gowaves demo_storage1" by (simp add: demo_storage1_def)
  have n: "n_Timestamp ?n = 1" by (simp add: NewNodesGatheringComplete_def)
  have "healthy 5 10 zeroDigest st" if st: "st \<in> set (at_timestamp demo_gowaves map_of demo_chain 1)" for st
  proof -
    from st obtain m where "node_ok m" "stored demo_gowaves map_of demo_chain m 1 = Some st"
      by (auto simp: set_at_timestamp [OF demo_chain_ok])
    then have "st = Event_Statement (demo_full ''b'' 1 10) \<or> st = Event_Statement (demo_full ''a'' 1 10)"
      by (auto simp: demo_chain_stored split: if_splits)
    then show ?thesis
      by (auto simp: healthy_def demo_hash_def demo_event_def New_event_defs Statement_defs)
  qed
  then have h: "\<forall>st \<in> set (at_timestamp demo_gowaves map_of demo_chain 1). healthy (bto_Threshold \<lparr>bto_Threshold = 5\<rparr>) 10 zeroDigest st"
    by simp
  from healthy_round_silent [where gw = demo_gowaves and s = demo_storage1 and bd = demo_db and es = demo_chain
      and n = ?n and opts = ?opts, OF ok _ h] view_round [OF demo_chain_ok]
  obtain out s' where run: "analyze demo_gowaves demo_db demo_chain ?opts demo_storage1 ?n None out s'"
    and "\<exists>fs. out = map (A_Fixed (n_Timestamp ?n)) fs \<and> Alert_ID demo_gowaves ` set fs \<subseteq> confirmed_ids demo_storage1"
    by (fastforce simp: n zeroAnalyzerOptions_def NewStateHashCriterion_def)
  moreover have "confirmed_ids demo_storage1 = {}"
    by (simp add: demo_storage1_def confirmed_ids_def newAlertsStorage_def)
  ultimately show ?thesis by auto
qed

text \<open>
  A notification that wraps another one is never analyzed: \<open>NodesGatheringWithError\<close> drops the
  results of the wrapped notification, so \<open>processNotification\<close> reports the errors with timestamp
  0 and stops, whatever nodes the wrapped notification names.
\<close>

theorem wrapped_notification_not_analyzed:
  "processNotification gw bd es opts s (NewNodesGatheringWithError (Some inner) e) err out s' \<longleftrightarrow>
   err = None \<and> s' = s \<and>
   out = (case errors_Join [e, n_Error inner] of None \<Rightarrow> []
          | Some x \<Rightarrow> [A_InternalError (NewInternalErrorAlert 0 x)])"
  by (auto simp: NewNodesGatheringWithError_def processNotification.simps cong: option.case_cong)

section \<open>An alert sent and fixed\<close>

lemma distinct_singleton_list:
  assumes "\<And>x. x \<in> set xs \<Longrightarrow> x = a" "a \<in> set xs" "distinct xs"
  shows "xs = [a]"
proof -
  from assms obtain ys where xs: "xs = a # ys" by (cases xs) auto
  from assms(1,3) have "ys = []" unfolding xs by (cases ys) (auto dest: assms(1) simp: xs)
  with xs show ?thesis by simp
qed

lemma distinct_matching:
  assumes "store_ok gw bd cont glob s"
  shows "distinct (matching gw cont s P)"
proof -
  let ?ks = "sorted_list_of_set {k \<in> dom (cont (s_db s)). P k}"
  have "statement_key (decode gw (the (cont (s_db s) k))) = k" if "k \<in> set ?ks" for k
  proof -
    have "(k, the (cont (s_db s) k)) \<in> set (keys_matching (cont (s_db s)) P)"
      using that by (simp add: keys_matching_def)
    with keys_matching_mem [OF assms] show ?thesis by auto
  qed
  then have "map (statement_key \<circ> (\<lambda>k. decode gw (the (cont (s_db s) k)))) ?ks = map id ?ks"
    by (intro map_cong) auto
  then have "distinct (map statement_key (map (\<lambda>k. decode gw (the (cont (s_db s) k))) ?ks))"
    by (simp only: map_map) (simp add: list.map_id)
  then have "distinct (map (\<lambda>k. decode gw (the (cont (s_db s) k))) ?ks)"
    by (rule distinct_map [THEN iffD1, THEN conjunct1])
  then show ?thesis by (simp add: matching_def keys_matching_def comp_def)
qed

definition demo_invalid :: Event where
  "demo_invalid = Ev_InvalidHeight (NewInvalidHeightEvent ''a'' 1 ''v'' 1)"

definition demo_round :: "demo_pairs Storage" where
  "demo_round = put_all demo_gowaves demo_db demo_events [demo_invalid]"

lemma demo_invalid_simps [simp]:
  "Event_Node demo_invalid = ''a''" "Event_Timestamp demo_invalid = 1" "event_ok demo_invalid"
  "st_Status (Event_Statement demo_invalid) = InvalidHeight"
  by (simp_all add: demo_invalid_def New_event_defs event_ok_def Statement_defs in_int64_def)

lemma demo_round_ok: "demo_ok demo_round"
  unfolding demo_round_def by (rule put_all_ok [OF demo_events_ok]) simp

lemma demo_round_view:
  "at_timestamp demo_gowaves map_of demo_round 1 = [Event_Statement demo_invalid]"
  "at_timestamp demo_gowaves map_of demo_round 2 = []"
proof -
  have es: "\<forall>e \<in> set [demo_invalid]. event_ok e" by simp
  have st: "stored demo_gowaves map_of demo_round n ts =
      (if n = ''a'' \<and> ts = 1 then Some (Event_Statement demo_invalid) else None)" if "node_ok n" "in_int64 ts" for n ts
    unfolding demo_round_def stored_put_all [OF demo_events_ok es that]
    by (auto simp: stored_demo_events)
  have "set (at_timestamp demo_gowaves map_of demo_round 2) = {}"
    by (auto simp: set_at_timestamp [OF demo_round_ok] st in_int64_def)
  then show "at_timestamp demo_gowaves map_of demo_round 2 = []" by simp
  have "st = Event_Statement demo_invalid" if "st \<in> set (at_timestamp demo_gowaves map_of demo_round 1)" for st
    using that by (auto simp: set_at_timestamp [OF demo_round_ok] st split: if_splits)
  moreover have "Event_Statement demo_invalid \<in> set (at_timestamp demo_gowaves map_of demo_round 1)"
    unfolding set_at_timestamp [OF demo_round_ok in_int64_small(2)]
    using st [OF demo_node(1) in_int64_small(2)] demo_node(1)
    by (intro CollectI exI [of _ "''a''"]) simp
  moreover have "distinct (at_timestamp demo_gowaves map_of demo_round 1)"
    unfolding at_timestamp_def by (rule distinct_matching [OF demo_round_ok])
  ultimately show "at_timestamp demo_gowaves map_of demo_round 1 = [Event_Statement demo_invalid]"
    by (rule distinct_singleton_list)
qed

definition demo_orders :: map_orders where
  "demo_orders = \<lparr>mo_challenged = [], mo_minmax = [], mo_heights = [], mo_buckets = [],
     mo_bucket_heights = (\<lambda>_. []), mo_digests = (\<lambda>_. [])\<rparr>"

definition demo_options :: AnalyzerOptions where
  "demo_options = zeroAnalyzerOptions\<lparr>ao_AlertVacuumQuota := 2, ao_AlertConfirmations := Some [],
     ao_BaseTargetCriterionOpts := Some \<lparr>bto_Threshold = 5\<rparr>\<rparr>"

abbreviation demo_new :: "AnalyzerOptions \<times> AlertsStorage" where
  "demo_new \<equiv> NewAnalyzer (Some demo_options)"

lemma demo_routines:
  assumes "\<forall>st \<in> set sts. st_Status st = InvalidHeight"
  shows "orders_ok gw bd es (fst demo_new) demo_orders sts"
    and "criteriaRoutines gw bd es (fst demo_new) demo_orders sts ts =
      map Some [([], None), (map A_InvalidHeight (SortByNodeAsc sts), None), ([], None), ([], None), ([], None),
        ([], None), ([], None)]"
proof -
  have f: "filter (\<lambda>s. st_Status s = InvalidHeight) sts = sts" and
    e: "st \<noteq> InvalidHeight \<Longrightarrow> filter (\<lambda>s. st_Status s = st) sts = []" for st
    using assms by (auto simp: filter_id_conv filter_empty_conv)
  have b: "SplitByNodeHeightBuckets sz [] = Inr (\<lambda>_. None)" for sz
    by (simp add: SplitByNodeHeightBuckets_def)
  show "orders_ok gw bd es (fst demo_new) demo_orders sts"
    by (simp add: orders_ok_def statusSplit_filter e b demo_orders_def SplitByNodeHeight_def)
  show "criteriaRoutines gw bd es (fst demo_new) demo_orders sts ts =
      map Some [([], None), (map A_InvalidHeight (SortByNodeAsc sts), None), ([], None), ([], None), ([], None),
        ([], None), ([], None)]"
    by (simp add: criteriaRoutines_def statusSplit_filter e f b demo_orders_def SplitByNodeHeight_def
        Incomplete_Analyze_def Unreachable_Analyze_def ChallengedBlock_Analyze_def Height_Analyze_def
        StateHash_Analyze_def MinMaxHeight_def NewBaseTargetCriterion_def demo_options_def NewAnalyzer_def Let_def
        zeroAnalyzerOptions_def BaseTarget_Analyze_def mostFrequentBaseTarget_def)
qed

lemma demo_process:
  assumes "ViewStatementsByTimestamp gw bd es ts (\<lambda>acc st. (acc @ [st], True)) [] = (sts, None)"
    and "\<forall>st \<in> set sts. st_Status st = InvalidHeight" "StatementsCount bd es = Inr c"
    and "proxy gw ts [[], map A_InvalidHeight (SortByNodeAsc sts), [], [], [], [], []] s out s'"
  shows "processNotification gw bd es (fst demo_new) s (NewNodesGatheringComplete [x] ts) None out s'"
proof -
  let ?n = "NewNodesGatheringComplete [x] ts"
  have n: "n_Timestamp ?n = ts" "n_NodesCount ?n = 1" "n_Error ?n = None"
    by (simp_all add: NewNodesGatheringComplete_def)
  have "analyze gw bd es (fst demo_new) s ?n None out s'"
    by (rule analyze_runs [OF _ demo_routines(1) demo_routines(2)])
       (use assms in \<open>auto simp: n routine_output_def\<close>)
  from analyzed [where n = ?n, OF _ assms(3) this] show ?thesis by (simp add: n)
qed

text \<open>A run of the analyzer in which an alert is sent and reported as fixed.\<close>

lemma demo_analyzer_run:
  "\<exists>s'. Start demo_gowaves demo_db (fst demo_new) (snd demo_new)
      [(demo_round, NewNodesGatheringComplete [''a''] 1), (demo_round, NewNodesGatheringComplete [''a''] 2)]
      [A_InvalidHeight (Event_Statement demo_invalid), A_Fixed 2 (A_InvalidHeight (Event_Statement demo_invalid))] s'"
proof -
  let ?st = "Event_Statement demo_invalid"
  let ?a = "A_InvalidHeight ?st" and ?gw = demo_gowaves and ?s = "snd demo_new"
  let ?d = "Alert_ID ?gw ?a"
  let ?info = "\<lambda>q. \<lparr>ai_vacuumQuota = q, ai_repeats = 1, ai_backoffThreshold = 2, ai_confirmed = True, ai_alert = Some ?a\<rparr>"
  let ?s1 = "?s\<lparr>as_internalStorage := [?d \<mapsto> ?info 2]\<rparr>" and ?s2 = "?s\<lparr>as_internalStorage := [?d \<mapsto> ?info 1]\<rparr>"
  note new = NewAnalyzer_def demo_options_def zeroAnalyzerOptions_def NewAlertsStorage_def AlertBackoff_def
    AlertVacuumQuota_def AlertConfirmations_def newAlertsStorage_def newAlertConfirmations_def DefaultAlertBackoff_def
  have put: "PutAlert ?gw ?s ?a = (?s1, True)"
    by (simp add: PutAlert_def new Let_def zeroAlertInfo_def map_get_def)
  have v1: "Vacuum [?d] ?s1 = (?s2, map Some [])" by (simp add: Vacuum_def map_get_def Let_def)
  have v2: "Vacuum [?d] ?s2 = (?s2\<lparr>as_internalStorage := (as_internalStorage ?s2)(?d := None)\<rparr>, map Some [?a])"
    by (simp add: Vacuum_def map_get_def Let_def)
  have o: "vacuum_order ?s1 [?d]" "vacuum_order ?s2 [?d]" by (simp_all add: iter_order_def)
  have "proxy ?gw 1 ([[], [?a], [], [], [], [], []][1 := []]) ?s1 (map (A_Fixed 1) []) ?s2"
    by (rule proxy.finish [OF _ o(1) v1]) simp
  from proxy.receive [of 1, OF _ _ put this]
  have p1: "proxy ?gw 1 [[], map A_InvalidHeight (SortByNodeAsc [?st]), [], [], [], [], []] ?s [?a] ?s2"
    by (simp add: SortByNodeAsc_def)
  have p2: "proxy ?gw 2 [[], map A_InvalidHeight (SortByNodeAsc []), [], [], [], [], []] ?s2 (map (A_Fixed 2) [?a])
      (?s2\<lparr>as_internalStorage := (as_internalStorage ?s2)(?d := None)\<rparr>)"
    by (rule proxy.finish [OF _ o(2) v2]) (simp add: SortByNodeAsc_def)
  have cnt: "StatementsCount demo_db demo_round = Inr (int (card (dom (map_of (s_db demo_round)))))"
    by (simp add: StatementsCount_def demo_db_def)
  have r1: "processNotification ?gw demo_db demo_round (fst demo_new) ?s (NewNodesGatheringComplete [''a''] 1) None [?a] ?s2"
    by (rule demo_process [OF _ _ cnt p1]) (simp_all add: view_round [OF demo_round_ok] demo_round_view)
  have r2: "processNotification ?gw demo_db demo_round (fst demo_new) ?s2 (NewNodesGatheringComplete [''a''] 2) None
      (map (A_Fixed 2) [?a]) (?s2\<lparr>as_internalStorage := (as_internalStorage ?s2)(?d := None)\<rparr>)"
    by (rule demo_process [OF _ _ cnt p2]) (simp_all add: view_round [OF demo_round_ok] demo_round_view)
  show ?thesis
    using Start.notified [OF r1 Start.notified [OF r2 Start.closed refl] refl, of 0 0] by auto
qed

theorem analyzer_fixed_after_sent_witness:
  "\<exists>a s'. Start demo_gowaves demo_db (fst demo_new) (snd demo_new)
      [(demo_round, NewNodesGatheringComplete [''a''] 1), (demo_round, NewNodesGatheringComplete [''a''] 2)]
      [a, A_Fixed 2 a] s' \<and>
    (\<exists>us b vs. [a] = us @ b # vs \<and> Alert_ID demo_gowaves b = Alert_ID demo_gowaves a)"
proof -
  let ?a = "A_InvalidHeight (Event_Statement demo_invalid)" and ?gw = demo_gowaves
  from demo_analyzer_run obtain s' where run: "Start ?gw demo_db (fst demo_new) (snd demo_new)
      [(demo_round, NewNodesGatheringComplete [''a''] 1), (demo_round, NewNodesGatheringComplete [''a''] 2)]
      ([?a] @ A_Fixed 2 ?a # []) s'" by auto
  from analyzer_fixed_after_sent [OF run] obtain us b vs where
    "[?a] = us @ b # vs" "Alert_ID ?gw b = Alert_ID ?gw ?a" by blast
  with run show ?thesis unfolding append.simps by blast
qed

end
