(* ===== verification/NodesStorage.thy ===== *)
theory NodesStorage
  imports Statements
begin

text \<open>
  \<open>pkg/storing/nodes\<close> with \<open>pkg/entities/node.go\<close> and \<open>validations.go\<close>: the registry of monitored
  nodes. It is kept in memory as two lists, the common and the specific (private) nodes, and
  written as one JSON document to a file or to a Vault secret after every change.

  The world outside (the file system, the Vault server) is a value of a type variable, passed
  to and returned by the operations that touch it; the functions of \<open>os\<close>, of the Vault client
  and of \<open>net/url\<close> are records of parameters. The bytes of a file are what \<open>json.Unmarshal\<close> sees
  in them: a document or a syntax error. Locks are left out: every operation runs alone, and
  the slice that \<open>Nodes\<close> shares with its caller is its value at the time of the call.
\<close>

section \<open>Node URLs\<close>

text \<open>A \<open>*url.URL\<close>: its scheme, and the parts that the sources never look into.\<close>

record goURL =
  url_Scheme :: string
  url_rest :: string

record neturl =
  url_Parse :: "string \<Rightarrow> error + goURL"
  url_String :: "goURL \<Rightarrow> string"

definition HTTPScheme :: string where "HTTPScheme = ''http''"
definition HTTPSScheme :: string where "HTTPSScheme = ''https''"
definition defaultScheme :: string where "defaultScheme = ''http''"

definition CheckAndUpdateURL :: "neturl \<Rightarrow> string \<Rightarrow> error + string" where
  "CheckAndUpdateURL nu s =
     (case url_Parse nu (if Contains s ''//'' then s else ''//'' @ s) of
        Inl err \<Rightarrow> Inl (wrapf err (''failed to parse URL '' @ s))
      | Inr u \<Rightarrow>
          (let u = (if url_Scheme u = [] then u\<lparr>url_Scheme := HTTPScheme\<rparr> else u)
           in if url_Scheme u \<noteq> ''http'' \<and> url_Scheme u \<noteq> ''https''
              then Inl (Errorf (''unsupported URL scheme '' @ url_Scheme u))
              else Inr (url_String nu u)))"

definition ValidateNodeURL :: "neturl \<Rightarrow> string \<Rightarrow> error + string" where
  "ValidateNodeURL nu s =
     (case url_Parse nu (if Contains s ''//'' then s else ''//'' @ s) of
        Inl err \<Rightarrow> Inl err
      | Inr u \<Rightarrow>
          (let u = (if url_Scheme u = [] then u\<lparr>url_Scheme := defaultScheme\<rparr> else u)
           in if url_Scheme u \<noteq> ''http'' \<and> url_Scheme u \<noteq> ''https''
              then Inl (Errorf (''unsupported URL scheme '' @ squote (url_Scheme u)))
              else Inr (url_String nu u)))"

section \<open>Lists of nodes\<close>

record Node =
  nd_URL :: string
  nd_Enabled :: bool
  nd_Alias :: string

definition zeroNode :: Node where
  "zeroNode = \<lparr>nd_URL = [], nd_Enabled = False, nd_Alias = []\<rparr>"

text \<open>\<open>i\<close> is the index of the head; the loop stops at the first index beyond a non-zero limit.\<close>

fun queryNodes_loop :: "(Node \<Rightarrow> bool) \<Rightarrow> int \<Rightarrow> int \<Rightarrow> Node list \<Rightarrow> Node list" where
  "queryNodes_loop iter limit i [] = []"
| "queryNodes_loop iter limit i (node # rest) =
     (if limit \<noteq> 0 \<and> i > limit then []
      else (if iter node then [node] else []) @ queryNodes_loop iter limit (i + 1) rest)"

definition queryNodes :: "Node list \<Rightarrow> (Node \<Rightarrow> bool) \<Rightarrow> int \<Rightarrow> Node list" where
  "queryNodes n iter limit = queryNodes_loop iter limit 0 n"

fun FindNodeByURL :: "Node list \<Rightarrow> string \<Rightarrow> Node option" where
  "FindNodeByURL [] url = None"
| "FindNodeByURL (node # n) url = (if nd_URL node = url then Some node else FindNodeByURL n url)"

fun nodes_Update :: "Node list \<Rightarrow> Node \<Rightarrow> Node list \<times> bool" where
  "nodes_Update [] updated = ([], False)"
| "nodes_Update (node # n) updated =
     (if nd_URL node = nd_URL updated then (updated # n, True)
      else (case nodes_Update n updated of (n', b) \<Rightarrow> (node # n', b)))"

definition appendIfNew :: "Node list \<Rightarrow> string \<Rightarrow> Node list \<times> bool" where
  "appendIfNew ns url =
     (if \<exists>node \<in> set ns. nd_URL node = url then (ns, False)
      else (ns @ [\<lparr>nd_URL = url, nd_Enabled = True, nd_Alias = []\<rparr>], True))"

text \<open>\<open>deleteIfFound\<close> puts the last element in the place of the found one and cuts the list.\<close>

fun index_of_URL :: "Node list \<Rightarrow> string \<Rightarrow> nat option" where
  "index_of_URL [] url = None"
| "index_of_URL (node # ns) url =
     (if nd_URL node = url then Some 0 else map_option Suc (index_of_URL ns url))"

definition deleteIfFound :: "Node list \<Rightarrow> string \<Rightarrow> Node list \<times> bool" where
  "deleteIfFound ns url =
     (case index_of_URL ns url of
        None \<Rightarrow> (ns, False)
      | Some i \<Rightarrow> (take (length ns - 1) (ns[i := ns ! (length ns - 1)]), True))"

section \<open>The database\<close>

record dbStruct =
  db_CommonNodes :: "Node list"
  db_SpecificNodes :: "Node list"

definition zeroDB :: dbStruct where
  "zeroDB = \<lparr>db_CommonNodes = [], db_SpecificNodes = []\<rparr>"

definition Node_json :: "Node \<Rightarrow> json" where
  "Node_json n = JObj [(''url'', JStr (nd_URL n)), (''enabled'', JBool (nd_Enabled n)), (''alias'', JStr (nd_Alias n))]"

definition Node_fields :: "Node fields" where
  "Node_fields =
     [field ''url'' dec_string nd_URL (\<lambda>x r. r\<lparr>nd_URL := x\<rparr>),
      field ''enabled'' dec_bool nd_Enabled (\<lambda>x r. r\<lparr>nd_Enabled := x\<rparr>),
      field ''alias'' dec_string nd_Alias (\<lambda>x r. r\<lparr>nd_Alias := x\<rparr>)]"

definition dec_Nodes :: "Node list decoder" where
  "dec_Nodes = dec_slice ''nodes.nodes'' zeroNode (dec_struct ''entities.Node'' Node_fields)"

definition dbStruct_MarshalJSON :: "dbStruct \<Rightarrow> json" where
  "dbStruct_MarshalJSON db =
     JObj [(''common_nodes'', json_slice Node_json (db_CommonNodes db)),
           (''specific_nodes'', json_slice Node_json (db_SpecificNodes db))]"

definition dbStruct_fields :: "dbStruct fields" where
  "dbStruct_fields =
     [field ''common_nodes'' dec_Nodes db_CommonNodes (\<lambda>x r. r\<lparr>db_CommonNodes := x\<rparr>),
      field ''specific_nodes'' dec_Nodes db_SpecificNodes (\<lambda>x r. r\<lparr>db_SpecificNodes := x\<rparr>)]"

type_synonym document = "error + json"

definition dbStruct_UnmarshalJSON :: "document \<Rightarrow> error + dbStruct" where
  "dbStruct_UnmarshalJSON data =
     (case data of
        Inl err \<Rightarrow> Inl err
      | Inr v \<Rightarrow> Unmarshal (dec_struct ''nodes.alias'' dbStruct_fields) zeroDB v)"

definition newDBStructFromJSON :: "document \<Rightarrow> error + dbStruct" where
  "newDBStructFromJSON data =
     (case dbStruct_UnmarshalJSON data of
        Inl err \<Rightarrow> Inl (wrapf err ''failed to create nodes db'')
      | Inr db \<Rightarrow> Inr db)"

definition db_Nodes :: "dbStruct \<Rightarrow> bool \<Rightarrow> Node list" where
  "db_Nodes db specific = (if specific then db_SpecificNodes db else db_CommonNodes db)"

section \<open>The storage\<close>

type_synonym 'w syncDBStructFn = "dbStruct \<Rightarrow> 'w \<Rightarrow> 'w \<times> error option"

record 'w JSONStorage =
  js_db :: dbStruct
  js_syncDBStruct :: "'w syncDBStructFn"

definition nodeNotFoundErr :: "string \<Rightarrow> error" where
  "nodeNotFoundErr url = Errorf (''nodeRecord '' @ squote url @ '' was not found in the storage'')"

definition syncDB :: "'w JSONStorage \<Rightarrow> 'w \<Rightarrow> 'w \<times> error option" where
  "syncDB s w = js_syncDBStruct s (js_db s) w"

definition JSONStorage_Nodes :: "'w JSONStorage \<Rightarrow> bool \<Rightarrow> Node list" where
  "JSONStorage_Nodes s specific = db_Nodes (js_db s) specific"

definition EnabledNodes :: "'w JSONStorage \<Rightarrow> Node list" where
  "EnabledNodes s = queryNodes (db_CommonNodes (js_db s)) nd_Enabled 0"

definition EnabledSpecificNodes :: "'w JSONStorage \<Rightarrow> Node list" where
  "EnabledSpecificNodes s = queryNodes (db_SpecificNodes (js_db s)) nd_Enabled 0"

text \<open>The operations that change the storage return it, the world and the error.\<close>

definition Update :: "'w JSONStorage \<Rightarrow> 'w \<Rightarrow> Node \<Rightarrow> 'w JSONStorage \<times> 'w \<times> error option" where
  "Update s w node =
     (let db = js_db s;
          (common, updated) = nodes_Update (db_CommonNodes db) node;
          (specific, updated) = (if \<not> updated then nodes_Update (db_SpecificNodes db) node
                                 else (db_SpecificNodes db, updated));
          s = s\<lparr>js_db := \<lparr>db_CommonNodes = common, db_SpecificNodes = specific\<rparr>\<rparr>
      in if \<not> updated then (s, w, Some (nodeNotFoundErr (nd_URL node)))
         else (case syncDB s w of
                 (w', Some err) \<Rightarrow> (s, w', Some (wrapf err (''failed to update node '' @ squote (nd_URL node))))
               | (w', None) \<Rightarrow> (s, w', None)))"

definition bool_text :: "bool \<Rightarrow> string" where
  "bool_text b = (if b then ''true'' else ''false'')"

definition InsertIfNew ::
    "'w JSONStorage \<Rightarrow> 'w \<Rightarrow> string \<Rightarrow> bool \<Rightarrow> 'w JSONStorage \<times> 'w \<times> bool \<times> error option" where
  "InsertIfNew s w url specific =
     (let db = js_db s;
          (db, appended) =
            (if specific then
               (case appendIfNew (db_SpecificNodes db) url of (ns, a) \<Rightarrow> (db\<lparr>db_SpecificNodes := ns\<rparr>, a))
             else
               (case appendIfNew (db_CommonNodes db) url of (ns, a) \<Rightarrow> (db\<lparr>db_CommonNodes := ns\<rparr>, a)));
          s = s\<lparr>js_db := db\<rparr>
      in if \<not> appended then (s, w, appended, None)
         else (case syncDB s w of
                 (w', Some err) \<Rightarrow> (s, w', False, Some (wrapf err
                    (''failed to insert new node '' @ squote url @ '' (specific='' @ bool_text specific @ '')'')))
               | (w', None) \<Rightarrow> (s, w', appended, None)))"

definition Delete :: "'w JSONStorage \<Rightarrow> 'w \<Rightarrow> string \<Rightarrow> 'w JSONStorage \<times> 'w \<times> error option" where
  "Delete s w url =
     (let db = js_db s;
          (common, deleted) = deleteIfFound (db_CommonNodes db) url;
          (specific, deleted) = (if \<not> deleted then deleteIfFound (db_SpecificNodes db) url
                                 else (db_SpecificNodes db, deleted));
          s = s\<lparr>js_db := \<lparr>db_CommonNodes = common, db_SpecificNodes = specific\<rparr>\<rparr>
      in if \<not> deleted then (s, w, Some (nodeNotFoundErr url))
         else (case syncDB s w of
                 (w', Some err) \<Rightarrow> (s, w', Some (wrapf err (''failed to delete node '' @ squote url)))
               | (w', None) \<Rightarrow> (s, w', None)))"

definition FindAlias :: "'w JSONStorage \<Rightarrow> string \<Rightarrow> error + string" where
  "FindAlias s url =
     (case FindNodeByURL (db_CommonNodes (js_db s)) url of
        Some n \<Rightarrow> Inr (nd_Alias n)
      | None \<Rightarrow> (case FindNodeByURL (db_SpecificNodes (js_db s)) url of
          Some n \<Rightarrow> Inr (nd_Alias n)
        | None \<Rightarrow> Inl (nodeNotFoundErr url)))"

text \<open>\<open>populate\<close>: the loop over the given nodes, then one sync if any was new.\<close>

fun populate_loop ::
    "neturl \<Rightarrow> string list \<Rightarrow> string list \<Rightarrow> Node list \<Rightarrow> bool \<Rightarrow> Node list \<times> bool \<times> error option" where
  "populate_loop nu [] validated common needSync = (common, needSync, None)"
| "populate_loop nu (n # nodes) validated common needSync =
     (case ValidateNodeURL nu n of
        Inl err \<Rightarrow> (common, needSync, Some (wrapf err (''failed to validate node '' @ squote n)))
      | Inr url \<Rightarrow>
          if url \<in> set validated then (common, needSync, Some (Errorf (''found duplicate for node '' @ squote n)))
          else (case appendIfNew common url of
                  (common, appended) \<Rightarrow> populate_loop nu nodes (url # validated) common (needSync \<or> appended)))"

definition populate ::
    "neturl \<Rightarrow> 'w JSONStorage \<Rightarrow> 'w \<Rightarrow> string list \<Rightarrow> 'w JSONStorage \<times> 'w \<times> error option" where
  "populate nu s w nodes =
     (case populate_loop nu nodes [] (db_CommonNodes (js_db s)) False of
        (common, needSync, err) \<Rightarrow>
          (let s = s\<lparr>js_db := (js_db s)\<lparr>db_CommonNodes := common\<rparr>\<rparr>
           in case err of
                Some e \<Rightarrow> (s, w, Some e)
              | None \<Rightarrow>
                  if \<not> needSync then (s, w, None)
                  else (case syncDB s w of
                          (w', Some err) \<Rightarrow> (s, w', Some (wrapf err ''failed to populate nodes db''))
                        | (w', None) \<Rightarrow> (s, w', None))))"

section \<open>Files\<close>

record 'w os =
  os_Stat :: "'w \<Rightarrow> string \<Rightarrow> error option"
  os_isNotExist :: "error \<Rightarrow> bool"
  os_ReadFile :: "'w \<Rightarrow> string \<Rightarrow> error + document"
  os_WriteFile :: "'w \<Rightarrow> string \<Rightarrow> document \<Rightarrow> 'w \<times> error option"
  filepath_Clean :: "string \<Rightarrow> string"

definition syncToFile :: "'w os \<Rightarrow> string \<Rightarrow> 'w syncDBStructFn" where
  "syncToFile fs path db w =
     (case os_WriteFile fs w path (Inr (dbStruct_MarshalJSON db)) of
        (w', Some err) \<Rightarrow> (w', Some (wrapf err (''failed to write nodes db data to file '' @ squote path)))
      | (w', None) \<Rightarrow> (w', None))"

definition createDBFileIfNotExist :: "'w os \<Rightarrow> 'w \<Rightarrow> string \<Rightarrow> 'w \<times> error option" where
  "createDBFileIfNotExist fs w path =
     (case os_Stat fs w path of
        None \<Rightarrow> (w, None)
      | Some err \<Rightarrow>
          if os_isNotExist fs err then os_WriteFile fs w path (Inr (dbStruct_MarshalJSON zeroDB))
          else (w, Some (wrapf err ''failed to get stat for file'')))"

definition NewJSONFileStorage ::
    "'w os \<Rightarrow> neturl \<Rightarrow> 'w \<Rightarrow> string \<Rightarrow> string list \<Rightarrow> 'w \<times> (error + 'w JSONStorage)" where
  "NewJSONFileStorage fs nu w path nodes =
     (let path = filepath_Clean fs path
      in case createDBFileIfNotExist fs w path of
           (w, Some err) \<Rightarrow> (w, Inl (wrapf err (''failed to create and init nodes db file '' @ squote path)))
         | (w, None) \<Rightarrow>
             (case os_ReadFile fs w path of
                Inl err \<Rightarrow> (w, Inl (wrapf err ''failed to read nodes file''))
              | Inr data \<Rightarrow>
                  (case newDBStructFromJSON data of
                     Inl err \<Rightarrow> (w, Inl (wrapf err ''failed to create new db struct from JSON data''))
                   | Inr db \<Rightarrow>
                       (case populate nu \<lparr>js_db = db, js_syncDBStruct = syncToFile fs path\<rparr> w nodes of
                          (s, w, Some err) \<Rightarrow> (w, Inl (wrapf err ''failed to populate nodes storage''))
                        | (s, w, None) \<Rightarrow> (w, Inr s)))))"

section \<open>Vault\<close>

text \<open>
  The key-value engine of a Vault client: reading a secret gives its data, a map from keys to
  values, of which the storage only accepts strings (\<open>None\<close> is a value of another type).
\<close>

type_synonym vaultData = "(string, document option) gomap"

record 'w vault =
  vt_Get :: "'w \<Rightarrow> string \<Rightarrow> string \<Rightarrow> error + vaultData"
  vt_Put :: "'w \<Rightarrow> string \<Rightarrow> string \<Rightarrow> vaultData \<Rightarrow> 'w \<times> error option"
  vt_isNotFound :: "error \<Rightarrow> bool"

definition vaultDefaultNodesDataKey :: string where
  "vaultDefaultNodesDataKey = ''nodemon.nodes.json''"

record nodesJSONVaultStorage =
  nv_mountPath :: string
  nv_secretPath :: string
  nv_dataKey :: string

definition newNodesJSONVaultStorage :: "string \<Rightarrow> string \<Rightarrow> nodesJSONVaultStorage" where
  "newNodesJSONVaultStorage mountPath secretPath =
     \<lparr>nv_mountPath = mountPath, nv_secretPath = secretPath, nv_dataKey = vaultDefaultNodesDataKey\<rparr>"

definition putNodes :: "'w vault \<Rightarrow> nodesJSONVaultStorage \<Rightarrow> 'w syncDBStructFn" where
  "putNodes vt s db w =
     vt_Put vt w (nv_mountPath s) (nv_secretPath s) [nv_dataKey s \<mapsto> Some (Inr (dbStruct_MarshalJSON db))]"

definition getNodes :: "'w vault \<Rightarrow> nodesJSONVaultStorage \<Rightarrow> 'w \<Rightarrow> error + dbStruct" where
  "getNodes vt s w =
     (case vt_Get vt w (nv_mountPath s) (nv_secretPath s) of
        Inl err \<Rightarrow> if vt_isNotFound vt err then Inr zeroDB else Inl err
      | Inr secret \<Rightarrow>
          (case secret (nv_dataKey s) of
             None \<Rightarrow> Inr zeroDB
           | Some None \<Rightarrow> Inl (Errorf ''invalid type by nodes vault key: exptected (string), got another'')
           | Some (Some data) \<Rightarrow> dbStruct_UnmarshalJSON data))"

definition NewJSONVaultStorage ::
    "'w vault \<Rightarrow> neturl \<Rightarrow> 'w \<Rightarrow> string \<Rightarrow> string \<Rightarrow> string list \<Rightarrow> 'w \<times> (error + 'w JSONStorage)" where
  "NewJSONVaultStorage vt nu w mountPath secretPath nodes =
     (let vaultStor = newNodesJSONVaultStorage mountPath secretPath
      in case getNodes vt vaultStor w of
           Inl err \<Rightarrow> (w, Inl err)
         | Inr db \<Rightarrow>
             (case populate nu \<lparr>js_db = db, js_syncDBStruct = putNodes vt vaultStor\<rparr> w nodes of
                (s, w, Some err) \<Rightarrow> (w, Inl (wrapf err ''failed to populate nodes storage''))
              | (s, w, None) \<Rightarrow> (w, Inr s)))"

end
