(* ===== verification/NodesPolicy.thy ===== *)
theory NodesPolicy
  imports NodesStorage
begin

text \<open>
  The contract of the nodes storage: two finite maps from URLs to nodes, of which the lists are
  an implementation (refinement), and a document on disk from which a restart gets the same
  storage back.
\<close>

section \<open>The abstract registry\<close>

text \<open>The common nodes (\<open>False\<close>) and the specific ones (\<open>True\<close>), by URL.\<close>

type_synonym registry = "bool \<Rightarrow> (string, Node) gomap"

datatype node_op = OpUpdate Node | OpInsert string bool | OpDelete string

definition new_node :: "string \<Rightarrow> Node" where
  "new_node url = \<lparr>nd_URL = url, nd_Enabled = True, nd_Alias = []\<rparr>"

lemma new_node_URL [simp]: "nd_URL (new_node url) = url"
  by (simp add: new_node_def)

definition reg_place :: "registry \<Rightarrow> string \<Rightarrow> bool option" where
  "reg_place A url = (if A False url \<noteq> None then Some False else if A True url \<noteq> None then Some True else None)"

text \<open>The new registry, and whether the operation applied.\<close>

fun reg_step :: "registry \<Rightarrow> node_op \<Rightarrow> registry \<times> bool" where
  "reg_step A (OpUpdate n) =
     (case reg_place A (nd_URL n) of None \<Rightarrow> (A, False)
      | Some sp \<Rightarrow> (A(sp := (A sp)(nd_URL n \<mapsto> n)), True))"
| "reg_step A (OpInsert url sp) =
     (if A sp url = None then (A(sp := (A sp)(url \<mapsto> new_node url)), True) else (A, False))"
| "reg_step A (OpDelete url) =
     (case reg_place A url of None \<Rightarrow> (A, False) | Some sp \<Rightarrow> (A(sp := (A sp)(url := None)), True))"

text \<open>
  What a user of the storage relies on: each operation acts on the abstract registry as the
  specification does, whatever happens outside.
\<close>

locale node_registry =
  fixes step :: "'s \<Rightarrow> 'w \<Rightarrow> node_op \<Rightarrow> 's \<times> 'w \<times> error option"
    and abs :: "'s \<Rightarrow> registry"
    and ok :: "'s \<Rightarrow> bool"
  assumes step_ok: "ok s \<Longrightarrow> ok (fst (step s w p))"
    and step_abs: "ok s \<Longrightarrow> abs (fst (step s w p)) = fst (reg_step (abs s) p)"
begin

lemma run_refines:
  "ok s \<Longrightarrow> ok (fst (foldl (\<lambda>(s, w) p. (fst (step s w p), fst (snd (step s w p)))) (s, w) ops)) \<and>
   abs (fst (foldl (\<lambda>(s, w) p. (fst (step s w p), fst (snd (step s w p)))) (s, w) ops)) =
     foldl (\<lambda>A p. fst (reg_step A p)) (abs s) ops"
  by (induction ops arbitrary: s w) (simp_all add: step_ok step_abs)

end

section \<open>Lists of nodes as maps\<close>

abbreviation urls :: "Node list \<Rightarrow> string list" where
  "urls \<equiv> map nd_URL"

definition nodes_abs :: "Node list \<Rightarrow> (string, Node) gomap" where
  "nodes_abs ns url = find (\<lambda>n. nd_URL n = url) ns"

lemma nodes_abs_simps [simp]:
  "nodes_abs [] url = None"
  "nodes_abs (n # ns) url = (if nd_URL n = url then Some n else nodes_abs ns url)"
  by (simp_all add: nodes_abs_def)

lemma nodes_abs_append:
  "nodes_abs (ns @ ms) url = (case nodes_abs ns url of None \<Rightarrow> nodes_abs ms url | Some n \<Rightarrow> Some n)"
  by (induction ns) auto

lemma nodes_abs_None_iff [simp]: "nodes_abs ns url = None \<longleftrightarrow> url \<notin> set (urls ns)"
  by (induction ns) auto

lemma nodes_abs_absent [simp]: "url \<notin> nd_URL ` set ns \<Longrightarrow> nodes_abs ns url = None"
  by simp

lemma nodes_abs_Some_iff:
  "distinct (urls ns) \<Longrightarrow> nodes_abs ns url = Some n \<longleftrightarrow> n \<in> set ns \<and> nd_URL n = url"
  by (induction ns) auto

lemma FindNodeByURL_abs: "FindNodeByURL ns url = nodes_abs ns url"
  by (induction ns) auto

lemma queryNodes_all: "queryNodes ns P 0 = filter P ns"
proof -
  have "queryNodes_loop P 0 i ns = filter P ns" for i
    by (induction ns arbitrary: i) auto
  then show ?thesis by (simp add: queryNodes_def)
qed

lemma nodes_Update_abs:
  "nodes_Update ns u = (ns', b) \<Longrightarrow> urls ns' = urls ns \<and> (b \<longleftrightarrow> nd_URL u \<in> set (urls ns)) \<and>
   nodes_abs ns' = (if b then (nodes_abs ns)(nd_URL u \<mapsto> u) else nodes_abs ns)"
proof (induction ns arbitrary: ns')
  case (Cons n ns)
  then show ?case
    by (cases "nd_URL n = nd_URL u"; cases "nodes_Update ns u") (auto simp: fun_eq_iff)
qed simp

lemma appendIfNew_abs:
  "appendIfNew ns url = (if url \<in> set (urls ns) then (ns, False) else (ns @ [new_node url], True))"
  by (auto simp: appendIfNew_def new_node_def)

lemma nodes_abs_snoc: "url \<notin> set (urls ns) \<Longrightarrow> nodes_abs (ns @ [new_node url]) = (nodes_abs ns)(url \<mapsto> new_node url)"
  by (rule ext) (simp add: nodes_abs_append split: option.split)

lemma index_of_URL_Some:
  "index_of_URL ns url = Some i \<Longrightarrow> i < length ns \<and> nd_URL (ns ! i) = url"
  by (induction ns arbitrary: i) (auto split: if_splits simp: nth_Cons split: nat.splits)

lemma index_of_URL_None: "index_of_URL ns url = None \<longleftrightarrow> url \<notin> set (urls ns)"
  by (induction ns) auto

text \<open>Swapping with the last element and cutting removes one element.\<close>

lemma mset_swap_remove:
  assumes "i < length xs"
  shows "add_mset (xs ! i) (mset (take (length xs - 1) (xs[i := xs ! (length xs - 1)]))) = mset xs"
proof -
  from assms obtain ys z where xs: "xs = ys @ [z]" by (cases xs rule: rev_cases) auto
  show ?thesis
  proof (cases "i < length ys")
    case True
    have "add_mset (ys ! i) (mset (ys[i := z])) = add_mset z (mset ys)"
      using True by (simp add: mset_update)
    with True xs show ?thesis by (simp add: list_update_append nth_append)
  next
    case False
    with assms xs have "i = length ys" by simp
    with xs show ?thesis by simp
  qed
qed

lemma deleteIfFound_abs:
  assumes "distinct (urls ns)" "deleteIfFound ns url = (ns', b)"
  shows "distinct (urls ns') \<and> (b \<longleftrightarrow> url \<in> set (urls ns)) \<and> nodes_abs ns' = (nodes_abs ns)(url := None)"
proof (cases "index_of_URL ns url")
  case None
  with assms show ?thesis
    by (auto simp: deleteIfFound_def index_of_URL_None fun_eq_iff)
next
  case (Some i)
  note i = index_of_URL_Some [OF Some]
  have ns': "ns' = take (length ns - 1) (ns[i := ns ! (length ns - 1)])" "b"
    using assms(2) by (simp_all add: deleteIfFound_def Some)
  have m: "add_mset (ns ! i) (mset ns') = mset ns"
    unfolding ns' by (rule mset_swap_remove) (use i in simp)
  have "add_mset url (mset (urls ns')) = mset (urls ns)"
    using arg_cong [OF m, of "image_mset nd_URL"] i by simp
  then have "mset (url # urls ns') = mset (urls ns)" by simp
  from mset_eq_imp_distinct_iff [OF this] assms(1)
  have d: "distinct (urls ns')" "url \<notin> set (urls ns')" by simp_all
  have "nodes_abs ns' u = ((nodes_abs ns)(url := None)) u" for u
  proof (cases "u = url")
    case True
    with d(2) show ?thesis by simp
  next
    case False
    have "set ns = insert (ns ! i) (set ns')" using arg_cong [OF m, of set_mset] by simp
    with False i have "n \<in> set ns' \<and> nd_URL n = u \<longleftrightarrow> n \<in> set ns \<and> nd_URL n = u" for n by auto
    then have "nodes_abs ns' u = Some n \<longleftrightarrow> nodes_abs ns u = Some n" for n
      by (simp add: nodes_abs_Some_iff [OF d(1)] nodes_abs_Some_iff [OF assms(1)])
    with False show ?thesis by (metis fun_upd_other option.exhaust)
  qed
  with d ns'(2) i show ?thesis by (auto simp: fun_eq_iff)
qed

section \<open>The storage refines the registry\<close>

definition db_ok :: "dbStruct \<Rightarrow> bool" where
  "db_ok db \<longleftrightarrow> distinct (urls (db_CommonNodes db)) \<and> distinct (urls (db_SpecificNodes db))"

definition db_abs :: "dbStruct \<Rightarrow> registry" where
  "db_abs db sp = nodes_abs (db_Nodes db sp)"

text \<open>One operation of the storage, its result reduced to the error.\<close>

fun js_step :: "'w JSONStorage \<Rightarrow> 'w \<Rightarrow> node_op \<Rightarrow> 'w JSONStorage \<times> 'w \<times> error option" where
  "js_step s w (OpUpdate n) = Update s w n"
| "js_step s w (OpInsert url sp) = (case InsertIfNew s w url sp of (s', w', b, err) \<Rightarrow> (s', w', err))"
| "js_step s w (OpDelete url) = Delete s w url"

lemma registry_eqI: "A False = B False \<Longrightarrow> A True = B True \<Longrightarrow> A = (B :: registry)"
  by (rule ext) (metis (full_types))

lemma js_step_refines:
  assumes "db_ok (js_db s)"
  shows "db_ok (js_db (fst (js_step s w p))) \<and>
    db_abs (js_db (fst (js_step s w p))) = fst (reg_step (db_abs (js_db s)) p)"
proof (cases p)
  case (OpUpdate n)
  obtain c b where c: "nodes_Update (db_CommonNodes (js_db s)) n = (c, b)" by fastforce
  obtain d b' where d: "nodes_Update (db_SpecificNodes (js_db s)) n = (d, b')" by fastforce
  note facts = nodes_Update_abs [OF c] nodes_Update_abs [OF d]
  have "js_db (fst (js_step s w p)) =
      \<lparr>db_CommonNodes = c, db_SpecificNodes = (if b then db_SpecificNodes (js_db s) else d)\<rparr>"
    by (auto simp: OpUpdate Update_def c d Let_def split: prod.splits option.splits)
  with facts assms show ?thesis
    by (auto simp: OpUpdate db_ok_def db_abs_def db_Nodes_def reg_place_def intro!: registry_eqI split: if_splits)
next
  case (OpInsert url sp)
  have "js_db (fst (js_step s w p)) =
      (if sp then (js_db s)\<lparr>db_SpecificNodes := fst (appendIfNew (db_SpecificNodes (js_db s)) url)\<rparr>
       else (js_db s)\<lparr>db_CommonNodes := fst (appendIfNew (db_CommonNodes (js_db s)) url)\<rparr>)"
    by (auto simp: OpInsert InsertIfNew_def Let_def split: prod.splits option.splits)
  with assms show ?thesis
    by (auto simp: OpInsert db_ok_def db_abs_def db_Nodes_def appendIfNew_abs nodes_abs_snoc
        intro!: registry_eqI)
next
  case (OpDelete url)
  obtain c b where c: "deleteIfFound (db_CommonNodes (js_db s)) url = (c, b)" by fastforce
  obtain d b' where d: "deleteIfFound (db_SpecificNodes (js_db s)) url = (d, b')" by fastforce
  have db: "js_db (fst (js_step s w p)) =
      \<lparr>db_CommonNodes = c, db_SpecificNodes = (if b then db_SpecificNodes (js_db s) else d)\<rparr>"
    by (auto simp: OpDelete Delete_def c d Let_def split: prod.splits option.splits)
  from deleteIfFound_abs [OF _ c] deleteIfFound_abs [OF _ d] assms
  have "distinct (urls c)" "b \<longleftrightarrow> url \<in> set (urls (db_CommonNodes (js_db s)))"
    "nodes_abs c = (nodes_abs (db_CommonNodes (js_db s)))(url := None)"
    "distinct (urls d)" "b' \<longleftrightarrow> url \<in> set (urls (db_SpecificNodes (js_db s)))"
    "nodes_abs d = (nodes_abs (db_SpecificNodes (js_db s)))(url := None)"
    by (simp_all add: db_ok_def)
  with db assms show ?thesis
    by (auto simp: OpDelete db_ok_def db_abs_def db_Nodes_def reg_place_def fun_upd_idem intro!: registry_eqI
        split: if_splits)
qed

interpretation registry: node_registry js_step "\<lambda>s. db_abs (js_db s)" "\<lambda>s. db_ok (js_db s)"
  by unfold_locales (simp_all add: js_step_refines)

section \<open>Documents\<close>

lemma Node_json_dec [simp]: "dec_struct t Node_fields (Node_json n) old = (n, None)"
  by (simp add: dec_struct_def Node_json_def Node_fields_def field_def ToLower_def lower_char_def is_upper_def)

lemma dec_Nodes_json [simp]: "dec_Nodes (json_slice Node_json ns) old = (ns, None)"
  unfolding dec_Nodes_def by (rule dec_slice_json) simp

lemma db_roundtrip: "newDBStructFromJSON (Inr (dbStruct_MarshalJSON db)) = Inr db"
  by (simp add: newDBStructFromJSON_def dbStruct_UnmarshalJSON_def dbStruct_MarshalJSON_def Unmarshal_def
      dec_struct_def dbStruct_fields_def field_def ToLower_def lower_char_def is_upper_def)

section \<open>Runs\<close>

fun run_ops :: "'w JSONStorage \<Rightarrow> 'w \<Rightarrow> node_op list \<Rightarrow> 'w JSONStorage \<times> 'w" where
  "run_ops s w [] = (s, w)"
| "run_ops s w (p # ops) = (case js_step s w p of (s', w', err) \<Rightarrow> run_ops s' w' ops)"

lemma run_ops_foldl:
  "run_ops s w ops = foldl (\<lambda>(s, w) p. (fst (js_step s w p), fst (snd (js_step s w p)))) (s, w) ops"
  by (induction ops arbitrary: s w) (simp_all add: case_prod_unfold)

text \<open>
  C19: The nodes storage implements two finite maps. Starting from lists without duplicate URLs,
  every sequence of updates, insertions and deletions keeps them without duplicates, and the
  maps the lists stand for change exactly as the abstract registry does, whatever the outside
  world answers; listing the enabled nodes gives the enabled nodes of the map.
\<close>

theorem nodes_storage_refines:
  assumes "db_ok (js_db s)" "run_ops s w ops = (s', w')"
  shows "db_ok (js_db s') \<and>
    db_abs (js_db s') = foldl (\<lambda>A p. fst (reg_step A p)) (db_abs (js_db s)) ops \<and>
    set (EnabledNodes s') = {n. nd_Enabled n \<and> db_abs (js_db s') False (nd_URL n) = Some n} \<and>
    set (EnabledSpecificNodes s') = {n. nd_Enabled n \<and> db_abs (js_db s') True (nd_URL n) = Some n}"
proof -
  from registry.run_refines [of s w ops] assms
  have "db_ok (js_db s')" "db_abs (js_db s') = foldl (\<lambda>A p. fst (reg_step A p)) (db_abs (js_db s)) ops"
    by (simp_all add: run_ops_foldl)
  moreover have "set (filter nd_Enabled ns) = {n. nd_Enabled n \<and> nodes_abs ns (nd_URL n) = Some n}"
    if "distinct (urls ns)" for ns
    using that by (auto simp: nodes_abs_Some_iff)
  then have "set (EnabledNodes s') = {n. nd_Enabled n \<and> db_abs (js_db s') False (nd_URL n) = Some n}"
    "set (EnabledSpecificNodes s') = {n. nd_Enabled n \<and> db_abs (js_db s') True (nd_URL n) = Some n}"
    using \<open>db_ok (js_db s')\<close>
    by (simp_all add: EnabledNodes_def EnabledSpecificNodes_def queryNodes_all db_abs_def db_Nodes_def db_ok_def)
  ultimately show ?thesis by blast
qed

section \<open>Files\<close>

text \<open>
  A file system without failures: what is written is read, and a file can be read iff \<open>Stat\<close>
  finds it; \<open>Stat\<close> fails in no other way.
\<close>

definition reliable_fs :: "'w os \<Rightarrow> bool" where
  "reliable_fs fs \<longleftrightarrow>
     (\<forall>w p d. \<exists>w'. os_WriteFile fs w p d = (w', None) \<and> os_ReadFile fs w' p = Inr d) \<and>
     (\<forall>w p. os_Stat fs w p = None \<longleftrightarrow> (\<exists>d. os_ReadFile fs w p = Inr d)) \<and>
     (\<forall>w p e. os_Stat fs w p = Some e \<longrightarrow> os_isNotExist fs e)"

definition file_holds :: "'w os \<Rightarrow> 'w \<Rightarrow> string \<Rightarrow> dbStruct \<Rightarrow> bool" where
  "file_holds fs w path db \<longleftrightarrow> (\<exists>d. os_ReadFile fs w path = Inr d \<and> newDBStructFromJSON d = Inr db)"

lemma syncToFile_holds:
  assumes "reliable_fs fs"
  shows "\<exists>w'. syncToFile fs path db w = (w', None) \<and> file_holds fs w' path db"
proof -
  from assms obtain w' where "os_WriteFile fs w path (Inr (dbStruct_MarshalJSON db)) = (w', None)"
    "os_ReadFile fs w' path = Inr (Inr (dbStruct_MarshalJSON db))"
    by (metis (no_types, lifting) reliable_fs_def)
  then show ?thesis by (auto simp: syncToFile_def file_holds_def db_roundtrip)
qed

text \<open>What every operation does to the memory and the file, when syncing works.\<close>

definition synced :: "'w os \<Rightarrow> string \<Rightarrow> 'w JSONStorage \<Rightarrow> 'w \<Rightarrow> bool" where
  "synced fs path s w \<longleftrightarrow> js_syncDBStruct s = syncToFile fs path \<and> file_holds fs w path (js_db s)"

lemma synced_same [simp]:
  "synced fs path (s\<lparr>js_db := \<lparr>db_CommonNodes = db_CommonNodes (js_db s), db_SpecificNodes = db_SpecificNodes (js_db s)\<rparr>\<rparr>) w
   = synced fs path s w"
  by (cases "js_db s") (simp add: synced_def)

lemma nodes_Update_absent: "nodes_Update ns u = (ns', False) \<Longrightarrow> ns' = ns"
  by (induction ns arbitrary: ns') (auto split: if_splits prod.splits)

lemma deleteIfFound_absent: "deleteIfFound ns url = (ns', False) \<Longrightarrow> ns' = ns"
  by (auto simp: deleteIfFound_def split: option.splits)

lemma synced_sync:
  assumes "reliable_fs fs" "synced fs path s w"
  obtains w' where "syncDB (s\<lparr>js_db := db\<rparr>) w = (w', None)" "synced fs path (s\<lparr>js_db := db\<rparr>) w'"
proof -
  from syncToFile_holds [OF assms(1), of path db w] obtain w' where
    "syncToFile fs path db w = (w', None)" "file_holds fs w' path db" by blast
  with assms(2) that [of w'] show ?thesis by (simp add: synced_def syncDB_def)
qed

lemma js_step_synced:
  assumes "reliable_fs fs" "synced fs path s w" "js_step s w p = (s', w', err)"
  shows "synced fs path s' w'"
proof (cases p)
  case (OpUpdate n)
  obtain c b where c: "nodes_Update (db_CommonNodes (js_db s)) n = (c, b)" by fastforce
  obtain d b' where d: "nodes_Update (db_SpecificNodes (js_db s)) n = (d, b')" by fastforce
  let ?db = "\<lparr>db_CommonNodes = c, db_SpecificNodes = (if b then db_SpecificNodes (js_db s) else d)\<rparr>"
  show ?thesis
  proof (cases "b \<or> b'")
    case True
    obtain w1 where "syncDB (s\<lparr>js_db := ?db\<rparr>) w = (w1, None)" "synced fs path (s\<lparr>js_db := ?db\<rparr>) w1"
      by (rule synced_sync [OF assms(1,2)])
    with True assms(3) show ?thesis by (auto simp: OpUpdate Update_def c d Let_def split: if_splits)
  next
    case False
    with assms(2,3) c d show ?thesis
      by (auto simp: OpUpdate Update_def Let_def dest!: nodes_Update_absent)
  qed
next
  case (OpInsert url sp)
  let ?db = "if sp then (js_db s)\<lparr>db_SpecificNodes := fst (appendIfNew (db_SpecificNodes (js_db s)) url)\<rparr>
    else (js_db s)\<lparr>db_CommonNodes := fst (appendIfNew (db_CommonNodes (js_db s)) url)\<rparr>"
  obtain w1 where "syncDB (s\<lparr>js_db := ?db\<rparr>) w = (w1, None)" "synced fs path (s\<lparr>js_db := ?db\<rparr>) w1"
    by (rule synced_sync [OF assms(1,2)])
  with assms(2,3) show ?thesis
    by (auto simp: OpInsert InsertIfNew_def appendIfNew_abs Let_def split: if_splits)
next
  case (OpDelete url)
  obtain c b where c: "deleteIfFound (db_CommonNodes (js_db s)) url = (c, b)" by fastforce
  obtain d b' where d: "deleteIfFound (db_SpecificNodes (js_db s)) url = (d, b')" by fastforce
  let ?db = "\<lparr>db_CommonNodes = c, db_SpecificNodes = (if b then db_SpecificNodes (js_db s) else d)\<rparr>"
  show ?thesis
  proof (cases "b \<or> b'")
    case True
    obtain w1 where "syncDB (s\<lparr>js_db := ?db\<rparr>) w = (w1, None)" "synced fs path (s\<lparr>js_db := ?db\<rparr>) w1"
      by (rule synced_sync [OF assms(1,2)])
    with True assms(3) show ?thesis by (auto simp: OpDelete Delete_def c d Let_def split: if_splits)
  next
    case False
    with assms(2,3) c d show ?thesis
      by (auto simp: OpDelete Delete_def Let_def dest!: deleteIfFound_absent)
  qed
qed

lemma run_ops_synced:
  "reliable_fs fs \<Longrightarrow> synced fs path s w \<Longrightarrow> run_ops s w ops = (s', w') \<Longrightarrow> synced fs path s' w'"
  by (induction ops arbitrary: s w) (auto split: prod.splits dest: js_step_synced)

lemma populate_unchanged:
  "populate_loop nu nodes v common need = (common', False, None) \<Longrightarrow> common' = common \<and> \<not> need"
proof (induction nodes arbitrary: v common need)
  case (Cons n nodes)
  then obtain url where u: "ValidateNodeURL nu n = Inr url" "url \<notin> set v"
    by (auto split: sum.splits if_splits)
  with Cons show ?case
    by (cases "url \<in> set (urls common)") (auto simp: appendIfNew_abs split: if_splits)
qed simp

lemma populate_synced:
  assumes "reliable_fs fs" "synced fs path s w" "populate nu s w nodes = (s', w', None)"
  shows "synced fs path s' w'"
proof -
  obtain common need err where l: "populate_loop nu nodes [] (db_CommonNodes (js_db s)) False = (common, need, err)"
    by (cases "populate_loop nu nodes [] (db_CommonNodes (js_db s)) False") auto
  with assms(3) have err: "err = None" by (auto simp: populate_def Let_def split: option.splits)
  show ?thesis
  proof (cases need)
    case True
    obtain w1 where "syncDB (s\<lparr>js_db := (js_db s)\<lparr>db_CommonNodes := common\<rparr>\<rparr>) w = (w1, None)"
      "synced fs path (s\<lparr>js_db := (js_db s)\<lparr>db_CommonNodes := common\<rparr>\<rparr>) w1"
      by (rule synced_sync [OF assms(1,2)])
    with True l err assms(3) show ?thesis by (auto simp: populate_def)
  next
    case False
    with l err have "populate_loop nu nodes [] (db_CommonNodes (js_db s)) False = (common, False, None)" by simp
    from populate_unchanged [OF this] have "common = db_CommonNodes (js_db s)" by simp
    with False l err assms(2,3) show ?thesis by (auto simp: populate_def Let_def synced_def)
  qed
qed

lemma NewJSONFileStorage_synced:
  assumes "reliable_fs fs" "NewJSONFileStorage fs nu w path nodes = (w', Inr s)"
  shows "synced fs (filepath_Clean fs path) s w'"
proof -
  let ?p = "filepath_Clean fs path"
  from assms(2) obtain w1 d db where
    1: "os_ReadFile fs w1 ?p = Inr d" "newDBStructFromJSON d = Inr db"
      "populate nu \<lparr>js_db = db, js_syncDBStruct = syncToFile fs ?p\<rparr> w1 nodes = (s, w', None)"
    unfolding NewJSONFileStorage_def Let_def
    by (simp split: prod.split_asm option.split_asm sum.split_asm)
  have "synced fs ?p \<lparr>js_db = db, js_syncDBStruct = syncToFile fs ?p\<rparr> w1"
    using 1(1,2) by (auto simp: synced_def file_holds_def)
  from populate_synced [OF assms(1) this 1(3)] show ?thesis .
qed

text \<open>
  C22: A restart gets the storage back. On a file system that does not fail, opening a storage,
  running any operations and opening the same path again without nodes to add gives the same
  storage, and changes no file.
\<close>

theorem storage_survives_restart:
  assumes "reliable_fs fs" "NewJSONFileStorage fs nu w path nodes = (w0, Inr s0)"
    and "run_ops s0 w0 ops = (s1, w1)"
  shows "NewJSONFileStorage fs nu w1 path [] = (w1, Inr s1)"
proof -
  let ?p = "filepath_Clean fs path"
  from run_ops_synced [OF assms(1) NewJSONFileStorage_synced [OF assms(1,2)] assms(3)]
  have sync: "js_syncDBStruct s1 = syncToFile fs ?p" and "file_holds fs w1 ?p (js_db s1)"
    by (simp_all add: synced_def)
  then obtain d where d: "os_ReadFile fs w1 ?p = Inr d" "newDBStructFromJSON d = Inr (js_db s1)"
    by (auto simp: file_holds_def)
  have "os_Stat fs w1 ?p = None" using assms(1) d(1) by (auto simp: reliable_fs_def)
  with d sync show ?thesis
    by (simp add: NewJSONFileStorage_def Let_def createDBFileIfNotExist_def populate_def Let_def)
qed

section \<open>Populating\<close>

lemma populate_loop_result:
  "populate_loop nu nodes v common need = (common', need', None) \<Longrightarrow>
   \<exists>us. list_all2 (\<lambda>n u. ValidateNodeURL nu n = Inr u) nodes us \<and> distinct us \<and> set us \<inter> set v = {} \<and>
     common' = common @ map new_node (filter (\<lambda>u. u \<notin> set (urls common)) us)"
proof (induction nodes arbitrary: v common need)
  case (Cons n nodes)
  then obtain url where u: "ValidateNodeURL nu n = Inr url" "url \<notin> set v"
    by (auto split: sum.splits if_splits)
  let ?c = "if url \<in> set (urls common) then common else common @ [new_node url]"
  from u Cons.prems obtain need1 where
    "populate_loop nu nodes (url # v) ?c need1 = (common', need', None)"
    by (auto simp: appendIfNew_abs split: if_splits)
  from Cons.IH [OF this] obtain us where us: "list_all2 (\<lambda>n u. ValidateNodeURL nu n = Inr u) nodes us" "distinct us"
    "set us \<inter> set (url # v) = {}" "common' = ?c @ map new_node (filter (\<lambda>u. u \<notin> set (urls ?c)) us)" by blast
  have "filter (\<lambda>u. u \<notin> set (urls ?c)) us = filter (\<lambda>u. u \<notin> set (urls common)) us"
    using us(3) by (intro filter_cong) auto
  with us u show ?case by (intro exI [of _ "url # us"]) auto
qed simp

text \<open>
  Populating the storage from the command line. When it succeeds, the given nodes are valid
  URLs without duplicates after validation, the common nodes that were there are kept with
  their settings, and each URL that was missing is appended as an enabled node, in order; the
  specific nodes are as before and no URL is registered twice.
\<close>

theorem populate_appends_missing:
  assumes "db_ok (js_db s)" "populate nu s w nodes = (s', w', None)"
  shows "\<exists>us. list_all2 (\<lambda>n u. ValidateNodeURL nu n = Inr u) nodes us \<and> distinct us \<and>
    db_CommonNodes (js_db s') = db_CommonNodes (js_db s) @
      map (\<lambda>u. \<lparr>nd_URL = u, nd_Enabled = True, nd_Alias = []\<rparr>)
        (filter (\<lambda>u. \<forall>n \<in> set (db_CommonNodes (js_db s)). nd_URL n \<noteq> u) us) \<and>
    db_SpecificNodes (js_db s') = db_SpecificNodes (js_db s) \<and> db_ok (js_db s')"
proof -
  let ?common = "db_CommonNodes (js_db s)"
  from assms(2) obtain common need where
    l: "populate_loop nu nodes [] ?common False = (common, need, None)" and
    s': "js_db s' = (js_db s)\<lparr>db_CommonNodes := common\<rparr>"
    by (auto simp: populate_def Let_def split: prod.splits option.splits if_splits)
  from populate_loop_result [OF l] obtain us where
    us: "list_all2 (\<lambda>n u. ValidateNodeURL nu n = Inr u) nodes us" "distinct us"
      "common = ?common @ map new_node (filter (\<lambda>u. u \<notin> set (urls ?common)) us)" by blast
  have nn: "new_node = (\<lambda>u. \<lparr>nd_URL = u, nd_Enabled = True, nd_Alias = []\<rparr>)"
    by (simp add: fun_eq_iff new_node_def)
  have f: "filter (\<lambda>u. u \<notin> set (urls ?common)) us = filter (\<lambda>u. \<forall>n \<in> set ?common. nd_URL n \<noteq> u) us"
    by (rule filter_cong) auto
  have "map nd_URL (map new_node xs) = xs" for xs by (induction xs) simp_all
  then have "distinct (urls common)"
    using assms(1) us(2) unfolding us(3) by (auto simp: db_ok_def)
  moreover have "db_CommonNodes (js_db s') = ?common @ map (\<lambda>u. \<lparr>nd_URL = u, nd_Enabled = True, nd_Alias = []\<rparr>)
      (filter (\<lambda>u. \<forall>n \<in> set ?common. nd_URL n \<noteq> u) us)"
    unfolding s' us(3) f nn by simp
  moreover have "db_SpecificNodes (js_db s') = db_SpecificNodes (js_db s)" "db_CommonNodes (js_db s') = common"
    by (simp_all add: s')
  moreover have "db_ok (js_db s')"
    using assms(1) \<open>distinct (urls common)\<close> by (simp add: db_ok_def s')
  ultimately show ?thesis using us(1,2) by blast
qed

text \<open>
  A new node whose sync fails is reported as not inserted, but it is registered: it stays in
  memory and the next poll will query it.
\<close>

theorem unsynced_insert_stays:
  assumes "url \<notin> nd_URL ` set (db_CommonNodes (js_db s))"
    and "\<And>db. js_syncDBStruct s db w = (w', Some e)"
  shows "case InsertIfNew s w url False of (s', w1, inserted, err) \<Rightarrow>
    \<not> inserted \<and> err \<noteq> None \<and> \<lparr>nd_URL = url, nd_Enabled = True, nd_Alias = []\<rparr> \<in> set (EnabledNodes s')"
proof -
  have "appendIfNew (db_CommonNodes (js_db s)) url = (db_CommonNodes (js_db s) @ [new_node url], True)"
    using assms(1) by (simp add: appendIfNew_abs)
  then show ?thesis
    by (simp add: InsertIfNew_def Let_def syncDB_def assms(2) EnabledNodes_def queryNodes_all new_node_def)
qed

section \<open>Witnesses\<close>

text \<open>A file system that keeps its files in a map, and URLs that are their own text.\<close>

definition demo_os :: "(string, document) gomap os" where
  "demo_os = \<lparr>os_Stat = (\<lambda>w p. case w p of None \<Rightarrow> Some (Errorf ''no such file'') | Some _ \<Rightarrow> None),
     os_isNotExist = (\<lambda>e. True),
     os_ReadFile = (\<lambda>w p. case w p of None \<Rightarrow> Inl (Errorf ''no such file'') | Some d \<Rightarrow> Inr d),
     os_WriteFile = (\<lambda>w p d. (w(p \<mapsto> d), None)), filepath_Clean = id\<rparr>"

definition demo_neturl :: neturl where
  "demo_neturl = \<lparr>url_Parse = (\<lambda>s. Inr \<lparr>url_Scheme = [], url_rest = TrimPrefix s ''//''\<rparr>),
     url_String = (\<lambda>u. url_Scheme u @ ''://'' @ url_rest u)\<rparr>"

lemma demo_os_simps [simp]:
  "os_Stat demo_os w p = (case w p of None \<Rightarrow> Some (Errorf ''no such file'') | Some _ \<Rightarrow> None)"
  "os_isNotExist demo_os e"
  "os_ReadFile demo_os w p = (case w p of None \<Rightarrow> Inl (Errorf ''no such file'') | Some d \<Rightarrow> Inr d)"
  "os_WriteFile demo_os w p d = (w(p \<mapsto> d), None)" "filepath_Clean demo_os p = p"
  by (simp_all add: demo_os_def)

lemma demo_validate [simp]: "ValidateNodeURL demo_neturl ''x'' = Inr ''http://x''"
  by (simp add: ValidateNodeURL_def demo_neturl_def Contains_def defaultScheme_def TrimPrefix_def sublist_Cons_right)

lemma demo_os_reliable: "reliable_fs demo_os"
  by (auto simp: reliable_fs_def split: option.splits)

definition demo_nodes_storage :: "(string, document) gomap JSONStorage" where
  "demo_nodes_storage = \<lparr>js_db = \<lparr>db_CommonNodes = [new_node ''x'', new_node ''y'', new_node ''z''], db_SpecificNodes = []\<rparr>,
     js_syncDBStruct = syncToFile demo_os ''f''\<rparr>"

theorem nodes_storage_refines_witness:
  "\<exists>s' w'. run_ops demo_nodes_storage (\<lambda>_. None) [OpDelete ''x'', OpInsert ''p'' True] = (s', w') \<and>
    db_ok (js_db s') \<and> set (EnabledNodes s') = {new_node ''y'', new_node ''z''}"
proof -
  obtain s' w' where run: "run_ops demo_nodes_storage (\<lambda>_. None) [OpDelete ''x'', OpInsert ''p'' True] = (s', w')"
    by fastforce
  have ok: "db_ok (js_db demo_nodes_storage)" by (simp add: demo_nodes_storage_def db_ok_def)
  note r = nodes_storage_refines [OF ok run]
  have "EnabledNodes s' = [new_node ''z'', new_node ''y'']"
    using run by (auto simp: demo_nodes_storage_def Delete_def InsertIfNew_def deleteIfFound_def appendIfNew_abs
        syncDB_def syncToFile_def EnabledNodes_def queryNodes_all new_node_def)
  then show ?thesis using run r by (intro exI [of _ s'] exI [of _ w']) (simp add: insert_commute)
qed

theorem storage_survives_restart_witness:
  "\<exists>w0 s0 w1 s1. NewJSONFileStorage demo_os demo_neturl (\<lambda>_. None) ''f'' [''x''] = (w0, Inr s0) \<and>
    run_ops s0 w0 [OpInsert ''p'' True] = (s1, w1) \<and>
    NewJSONFileStorage demo_os demo_neturl w1 ''f'' [] = (w1, Inr s1)"
proof -
  obtain w0 s0 where 1: "NewJSONFileStorage demo_os demo_neturl (\<lambda>_. None) ''f'' [''x''] = (w0, Inr s0)"
    by (simp add: NewJSONFileStorage_def Let_def createDBFileIfNotExist_def db_roundtrip populate_def zeroDB_def
        appendIfNew_def syncDB_def syncToFile_def)
  obtain s1 w1 where 2: "run_ops s0 w0 [OpInsert ''p'' True] = (s1, w1)" by fastforce
  from storage_survives_restart [OF demo_os_reliable 1 2] 1 2 show ?thesis by blast
qed

theorem populate_appends_missing_witness:
  "\<exists>s' w'. populate demo_neturl demo_nodes_storage (\<lambda>_. None) [''x''] = (s', w', None) \<and> db_ok (js_db s')"
proof -
  have ok: "db_ok (js_db demo_nodes_storage)" by (simp add: demo_nodes_storage_def db_ok_def)
  obtain s' w' where run: "populate demo_neturl demo_nodes_storage (\<lambda>_. None) [''x''] = (s', w', None)"
    by (simp add: populate_def demo_nodes_storage_def appendIfNew_abs new_node_def syncDB_def syncToFile_def)
  from populate_appends_missing [OF ok run] run show ?thesis by blast
qed

theorem unsynced_insert_stays_witness:
  "case InsertIfNew \<lparr>js_db = zeroDB, js_syncDBStruct = (\<lambda>db w. (w, Some (Errorf ''disk full'')))\<rparr> () ''x'' False of
    (s', w1, inserted, err) \<Rightarrow>
      \<not> inserted \<and> err \<noteq> None \<and> \<lparr>nd_URL = ''x'', nd_Enabled = True, nd_Alias = []\<rparr> \<in> set (EnabledNodes s')"
  by (rule unsynced_insert_stays [of _ _ _ "()" "Errorf ''disk full''"]) (simp_all add: zeroDB_def)

end
