(* ===== verification/Scraper.thy ===== *)
theory Scraper
  imports EventsStorage Notifications NodesStorage
begin

text \<open>
  \<open>pkg/scraping\<close>: one poll of the monitored nodes. The HTTP client of the gowaves library is the
  record \<open>nodeAPI\<close> of parameters, one function per request, already applied to the time limit;
  the wrappers of \<open>client.go\<close> keep the parts of the answers that the scraper uses. The nodes
  are queried concurrently, so the events of a poll arrive in any order: it is an argument.
\<close>

section \<open>The node client\<close>

text \<open>\<open>client.Headers\<close>, as far as it is used; \<open>hd_Challenged\<close> is \<open>ChallengedHeader != nil\<close>.\<close>

record Headers =
  hd_ID :: BlockID
  hd_Generator :: WavesAddress
  hd_Challenged :: bool
  hd_BaseTarget :: uint64

record nodeAPI =
  api_Version :: "string \<Rightarrow> error + string"
  api_Height :: "string \<Rightarrow> error + uint64"
  api_HeadersAt :: "string \<Rightarrow> uint64 \<Rightarrow> error + Headers"
  api_StateHash :: "string \<Rightarrow> uint64 \<Rightarrow> error + BlockID \<times> Digest"

definition client_version :: "nodeAPI \<Rightarrow> string \<Rightarrow> error + string" where
  "client_version api url = api_Version api url"

definition client_height :: "nodeAPI \<Rightarrow> string \<Rightarrow> error + uint64" where
  "client_height api url = api_Height api url"

definition client_stateHash :: "nodeAPI \<Rightarrow> string \<Rightarrow> uint64 \<Rightarrow> error + StateHash" where
  "client_stateHash api url height =
     (case api_StateHash api url height of
        Inl err \<Rightarrow> Inl err
      | Inr (blockID, sumHash) \<Rightarrow> Inr \<lparr>sh_BlockID = blockID, sh_SumHash = sumHash\<rparr>)"

definition client_blockHeader :: "nodeAPI \<Rightarrow> string \<Rightarrow> uint64 \<Rightarrow> error + Headers" where
  "client_blockHeader api url height = api_HeadersAt api url height"

definition client_baseTarget :: "nodeAPI \<Rightarrow> string \<Rightarrow> uint64 \<Rightarrow> error + uint64" where
  "client_baseTarget api url height =
     (case client_blockHeader api url height of
        Inl err \<Rightarrow> Inl err
      | Inr header \<Rightarrow> Inr (hd_BaseTarget header))"

section \<open>Querying a node\<close>

definition minValidHeight :: uint64 where "minValidHeight = 2"

text \<open>Each request that fails ends the query with the event for what is known so far.\<close>

definition queryNode :: "nodeAPI \<Rightarrow> string \<Rightarrow> int \<Rightarrow> Event" where
  "queryNode api url ts =
     (case client_version api url of
        Inl err \<Rightarrow> Ev_Unreachable (NewUnreachableEvent url ts)
      | Inr v \<Rightarrow>
     (case client_height api url of
        Inl err \<Rightarrow> Ev_Version (NewVersionEvent url ts v)
      | Inr h \<Rightarrow>
     if h < minValidHeight then Ev_InvalidHeight (NewInvalidHeightEvent url ts v h) else
     (case client_blockHeader api url h of
        Inl err \<Rightarrow> Ev_Height (NewHeightEvent url ts v h)
      | Inr blockHeader \<Rightarrow>
          let blockID = hd_ID blockHeader; generator = hd_Generator blockHeader;
              challenged = hd_Challenged blockHeader;
              h = h - 1
          in
     (case client_baseTarget api url h of
        Inl err \<Rightarrow> Ev_BlockHeader (NewBlockHeaderEvent url ts v h (Some blockID) (Some generator) challenged)
      | Inr bs \<Rightarrow>
     (case client_stateHash api url h of
        Inl err \<Rightarrow> Ev_BaseTarget (NewBaseTargetEvent url ts v h bs (Some blockID) (Some generator) challenged)
      | Inr sh \<Rightarrow>
          Ev_StateHash (NewStateHashEvent url ts v h (Some sh) bs (Some blockID) (Some generator) challenged))))))"

section \<open>A poll\<close>

text \<open>The verb \<open>%T\<close> of an event.\<close>

fun Event_type :: "Event \<Rightarrow> string" where
  "Event_type (Ev_Unreachable e) = ''*entities.UnreachableEvent''"
| "Event_type (Ev_Version e) = ''*entities.VersionEvent''"
| "Event_type (Ev_Height e) = ''*entities.HeightEvent''"
| "Event_type (Ev_InvalidHeight e) = ''*entities.InvalidHeightEvent''"
| "Event_type (Ev_BlockHeader e) = ''*entities.BlockHeaderEvent''"
| "Event_type (Ev_BaseTarget e) = ''*entities.BaseTargetEvent''"
| "Event_type (Ev_StateHash e) = ''*entities.StateHashEvent''"

text \<open>What \<open>queryNodes\<close> may deliver: one event per node, in any order.\<close>

definition queryNodes_deliver :: "nodeAPI \<Rightarrow> Node list \<Rightarrow> int \<Rightarrow> Event list \<Rightarrow> bool" where
  "queryNodes_deliver api nodes now evs \<longleftrightarrow> mset evs = mset (map (\<lambda>n. queryNode api (nd_URL n) now) nodes)"

fun collect_events ::
    "gowaves \<Rightarrow> 'd buntDB \<Rightarrow> 'd Storage \<Rightarrow> Event list \<Rightarrow> 'd Storage \<times> error list" where
  "collect_events gw bd es [] = (es, [])"
| "collect_events gw bd es (e # evs) =
     (case PutEvent gw bd es e of
        (es', Some err) \<Rightarrow>
          (case collect_events gw bd es' evs of (es'', errs) \<Rightarrow>
             (es'', wrapf err (''scraper: failed to collect event '' @ squote (Event_type e) @ '' from node '' @
                Event_Node e @ '': '' @ Error err) # errs))
      | (es', None) \<Rightarrow> collect_events gw bd es' evs)"

text \<open>\<open>enabled\<close> is the answer of the nodes storage, \<open>evs\<close> the events as they arrive.\<close>

definition poll ::
    "gowaves \<Rightarrow> 'd buntDB \<Rightarrow> error + Node list \<Rightarrow> Event list \<Rightarrow> int \<Rightarrow> 'd Storage \<Rightarrow>
     'd Storage \<times> Notification list" where
  "poll gw bd enabled evs now es =
     (let (enabledNodes, notifications) =
            (case enabled of
               Inl storageErr \<Rightarrow> ([], [NewNodesGatheringError
                 (Some (wrapf storageErr ''scraper: failed to get nodes from storage'')) now])
             | Inr ns \<Rightarrow> (ns, []));
          (es, errs) = collect_events gw bd es evs
      in if errs \<noteq> [] then
           let sumErr = wrapf (Join errs)
                 (''scraper: failed to collect '' @ FormatInt (int (length errs)) @ '' events'')
           in (es, notifications @ [NewNodesGatheringError (Some sumErr) now])
         else (es, notifications @ [NewNodesGatheringComplete (map nd_URL enabledNodes) now]))"

text \<open>The loop of \<open>Start\<close>: a poll per tick; each comes with the answers it gets.\<close>

inductive scraper_run ::
    "gowaves \<Rightarrow> 'd buntDB \<Rightarrow> 'd Storage \<Rightarrow> Notification list \<Rightarrow> 'd Storage \<Rightarrow> bool" for gw bd where
  scraper_done: "poll gw bd enabled evs now es = (es', out) \<Longrightarrow>
    queryNodes_deliver api (case enabled of Inl _ \<Rightarrow> [] | Inr ns \<Rightarrow> ns) now evs \<Longrightarrow> scraper_run gw bd es out es'"
| scraper_tick: "poll gw bd enabled evs now es = (es', out) \<Longrightarrow>
    queryNodes_deliver api (case enabled of Inl _ \<Rightarrow> [] | Inr ns \<Rightarrow> ns) now evs \<Longrightarrow>
    scraper_run gw bd es' out' es'' \<Longrightarrow> scraper_run gw bd es (out @ out') es''"

end
