(* ===== verification/PrivateNodes.thy ===== *)
theory PrivateNodes
  imports Scraper
begin

text \<open>
  \<open>pkg/storing/specific/private_nodes.go\<close>: private nodes push their statements to the HTTP API,
  which keeps the last event of each node; whenever the scraper reports a finished poll, the
  handler stores those events under the timestamp of the poll and adds the nodes to the
  notification. Locks are left out; the order of the loop over the map is an argument.
\<close>

type_synonym privateNodesEvents = "(string, Event) gomap"

definition unsafeWrite :: "privateNodesEvents \<Rightarrow> Event \<Rightarrow> privateNodesEvents" where
  "unsafeWrite p producer = p(Event_Node producer \<mapsto> producer)"

definition newPrivateNodesEvents :: "Event list \<Rightarrow> privateNodesEvents" where
  "newPrivateNodesEvents initial = foldl unsafeWrite (\<lambda>_. None) initial"

definition private_Write :: "privateNodesEvents \<Rightarrow> Event \<Rightarrow> privateNodesEvents" where
  "private_Write p producer = unsafeWrite p producer"

definition unsafeWriteInitialStateForSpecificNodes ::
    "privateNodesEvents \<Rightarrow> string \<Rightarrow> int \<Rightarrow> privateNodesEvents" where
  "unsafeWriteInitialStateForSpecificNodes p node ts =
     (if p node \<noteq> None then p else unsafeWrite p (Ev_Unreachable (NewUnreachableEvent node ts)))"

definition WriteInitialStateForSpecificNode :: "privateNodesEvents \<Rightarrow> string \<Rightarrow> int \<Rightarrow> privateNodesEvents" where
  "WriteInitialStateForSpecificNode p node ts = unsafeWriteInitialStateForSpecificNodes p node ts"

text \<open>The nodes storage appears as its answer to \<open>EnabledSpecificNodes\<close>.\<close>

definition filterPrivateNodes :: "privateNodesEvents \<Rightarrow> error + Node list \<Rightarrow> privateNodesEvents \<times> error option" where
  "filterPrivateNodes p specific =
     (case specific of
        Inl err \<Rightarrow> (p, Some (wrapf err ''privateNodesEvents: failed to get specific nodes''))
      | Inr specificNodesList \<Rightarrow>
          ((\<lambda>node. if node \<in> nd_URL ` set specificNodesList then p node else None), None))"

text \<open>The handler is its events; the storages are arguments of its operations.\<close>

definition NewPrivateNodesHandler :: "Event list \<Rightarrow> privateNodesEvents" where
  "NewPrivateNodesHandler initial = newPrivateNodesEvents initial"

definition NewPrivateNodesHandlerWithUnreachableInitialState ::
    "error + Node list \<Rightarrow> int \<Rightarrow> error + privateNodesEvents" where
  "NewPrivateNodesHandlerWithUnreachableInitialState specific ts =
     (case specific of
        Inl err \<Rightarrow> Inl (wrapf err ''failed to get specific nodes'')
      | Inr privateNodes \<Rightarrow>
          Inr (foldl (\<lambda>p node. unsafeWriteInitialStateForSpecificNodes p (nd_URL node) ts)
                 (NewPrivateNodesHandler []) privateNodes))"

definition putPrivateNodesEvent ::
    "gowaves \<Rightarrow> 'd buntDB \<Rightarrow> 'd Storage \<Rightarrow> Event \<Rightarrow> 'd Storage \<times> error option" where
  "putPrivateNodesEvent gw bd es ev =
     (case PutEvent gw bd es ev of
        (es', Some err) \<Rightarrow> (es', Some (wrapf err (''failed to put event ('' @ Event_type ev @ '') for node '' @ Event_Node ev)))
      | (es', None) \<Rightarrow> (es', None))"

fun putPrivate_loop ::
    "gowaves \<Rightarrow> 'd buntDB \<Rightarrow> privateNodesEvents \<Rightarrow> int \<Rightarrow> string list \<Rightarrow> 'd Storage \<Rightarrow>
     'd Storage \<times> Nodes \<times> error option list" where
  "putPrivate_loop gw bd p ts [] es = (es, [], [])"
| "putPrivate_loop gw bd p ts (node # nodes) es =
     (case p node of
        None \<Rightarrow> putPrivate_loop gw bd p ts nodes es
      | Some eventProducer \<Rightarrow>
          (case putPrivateNodesEvent gw bd es (Event_WithTimestamp eventProducer ts) of
             (es', Some err) \<Rightarrow>
               (case putPrivate_loop gw bd p ts nodes es' of (es'', nodesList, errs) \<Rightarrow>
                  (es'', nodesList,
                   Some (wrapf err (''privateNodesHandler: failed to put event for private node '' @ node)) # errs))
           | (es', None) \<Rightarrow>
               (case putPrivate_loop gw bd p ts nodes es' of (es'', nodesList, errs) \<Rightarrow>
                  (es'', node # nodesList, errs))))"

text \<open>\<open>ks\<close> is an order of the map.\<close>

definition putPrivateNodesEvents ::
    "gowaves \<Rightarrow> 'd buntDB \<Rightarrow> privateNodesEvents \<Rightarrow> int \<Rightarrow> string list \<Rightarrow> 'd Storage \<Rightarrow>
     'd Storage \<times> Nodes \<times> error option" where
  "putPrivateNodesEvents gw bd p ts ks es =
     (case putPrivate_loop gw bd p ts ks es of (es', nodesList, errs) \<Rightarrow> (es', nodesList, errors_Join errs))"

text \<open>
  One round of \<open>handlePrivateEvents\<close>: the notification received, the state after it, and the
  notifications sent on.
\<close>

definition handlePrivateEvent ::
    "gowaves \<Rightarrow> 'd buntDB \<Rightarrow> error + Node list \<Rightarrow> (privateNodesEvents \<Rightarrow> string list) \<Rightarrow> Notification \<Rightarrow>
     'd Storage \<Rightarrow> privateNodesEvents \<Rightarrow> 'd Storage \<times> privateNodesEvents \<times> Notification list" where
  "handlePrivateEvent gw bd specific order notification es p =
     (if n_Error notification \<noteq> None then (es, p, [notification])
      else
        let ts = n_Timestamp notification;
            (p, filterErr) = filterPrivateNodes p specific;
            failed = (case filterErr of None \<Rightarrow> [] | Some err \<Rightarrow> [NewNodesGatheringError (Some err) ts]);
            (es, storedPrivateNodes, err) = putPrivateNodesEvents gw bd p ts (order p) es;
            notification = (if storedPrivateNodes \<noteq> []
              then NewNodesGatheringComplete (n_Nodes notification @ storedPrivateNodes) ts else notification);
            notification = (case err of None \<Rightarrow> notification
              | Some e \<Rightarrow> NewNodesGatheringWithError (Some notification) (Some e))
        in (es, p, failed @ [notification]))"

text \<open>
  The handler between the scraper and the analyzer. Between two notifications private nodes
  write their events and the scraper stores those of its next poll.
\<close>

inductive handlePrivateEvents ::
    "gowaves \<Rightarrow> 'd buntDB \<Rightarrow> 'd Storage \<Rightarrow> privateNodesEvents \<Rightarrow> Notification list \<Rightarrow>
     Notification list \<Rightarrow> 'd Storage \<Rightarrow> privateNodesEvents \<Rightarrow> bool" for gw bd where
  private_closed: "handlePrivateEvents gw bd es p [] [] es p"
| private_write: "handlePrivateEvents gw bd es (private_Write p e) ns out es' p' \<Longrightarrow>
    handlePrivateEvents gw bd es p ns out es' p'"
| private_stored: "PutEvent gw bd es e = (es1, err) \<Longrightarrow>
    handlePrivateEvents gw bd es1 p ns out es' p' \<Longrightarrow> handlePrivateEvents gw bd es p ns out es' p'"
| private_notified: "iter_order (fst (filterPrivateNodes p specific)) (order (fst (filterPrivateNodes p specific))) \<Longrightarrow>
    handlePrivateEvent gw bd specific order n es p = (es1, p1, out) \<Longrightarrow>
    handlePrivateEvents gw bd es1 p1 ns out' es' p' \<Longrightarrow>
    handlePrivateEvents gw bd es p (n # ns) (out @ out') es' p'"

end
