(* ===== verification/CollectionPolicy.thy ===== *)
theory CollectionPolicy
  imports PrivateNodes EventsPolicy Analyzer
begin

text \<open>
  From the nodes to the analyzer: what a poll stores, what the private nodes handler adds, and
  which statements the analysis of the round reads.
\<close>

section \<open>Querying a node\<close>

lemma Event_queryNode [simp]:
  "Event_Node (queryNode api url ts) = url" "Event_Timestamp (queryNode api url ts) = ts"
  by (auto simp: queryNode_def Let_def New_event_defs split: sum.split)

lemma event_ok_queryNode [simp]: "event_ok (queryNode api url ts) \<longleftrightarrow> node_ok url \<and> in_int64 ts"
  by (simp add: event_ok_def)

text \<open>
  What a query tells. The statement of a queried node carries its URL and the timestamp of the
  poll; it is unreachable iff the version request fails, of invalid height iff the node answers
  with a height below 2, and \<open>OK\<close> iff all five requests succeed. An \<open>OK\<close> statement describes
  the block before the reported height \<open>h\<close>: its height is \<open>h - 1\<close> and its state hash and base
  target are those of \<open>h - 1\<close>, while block id, generator and the challenged flag are of \<open>h\<close>.
\<close>

theorem queryNode_statement:
  "st_Node (Event_Statement (queryNode api url ts)) = url \<and>
   st_Timestamp (Event_Statement (queryNode api url ts)) = ts \<and>
   (st_Status (Event_Statement (queryNode api url ts)) = Unreachable \<longleftrightarrow> (\<exists>e. api_Version api url = Inl e)) \<and>
   (st_Status (Event_Statement (queryNode api url ts)) = InvalidHeight \<longleftrightarrow>
      (\<exists>v h. api_Version api url = Inr v \<and> api_Height api url = Inr h \<and> h < 2)) \<and>
   (st_Status (Event_Statement (queryNode api url ts)) = OK \<longleftrightarrow>
      (\<exists>v h top prev b d. api_Version api url = Inr v \<and> api_Height api url = Inr h \<and> 2 \<le> h \<and>
         api_HeadersAt api url h = Inr top \<and> api_HeadersAt api url (h - 1) = Inr prev \<and>
         api_StateHash api url (h - 1) = Inr (b, d) \<and>
         Event_Statement (queryNode api url ts) =
           \<lparr>st_Node = url, st_Timestamp = ts, st_Status = OK, st_Version = v, st_Height = h - 1,
            st_StateHash = Some \<lparr>sh_BlockID = b, sh_SumHash = d\<rparr>, st_BaseTarget = hd_BaseTarget prev,
            st_BlockID = Some (hd_ID top), st_Generator = Some (hd_Generator top),
            st_Challenged = hd_Challenged top\<rparr>))"
  by (auto simp: queryNode_def Let_def New_event_defs Statement_defs client_version_def client_height_def
      client_stateHash_def client_blockHeader_def client_baseTarget_def minValidHeight_def not_less
      split: sum.split)

section \<open>A poll\<close>

lemma collect_events_put_all:
  "store_ok gw bd cont glob es \<Longrightarrow> \<forall>e \<in> set evs. event_ok e \<Longrightarrow>
   collect_events gw bd es evs = (put_all gw bd es evs, [])"
proof (induction evs arbitrary: es)
  case (Cons e evs)
  then obtain es' where "PutEvent gw bd es e = (es', None)" "store_ok gw bd cont glob es'"
    using PutEvent_stored [OF Cons.prems(1), of e] by auto
  with Cons show ?case by simp
qed simp

lemma stored_put_all_at:
  assumes "store_ok gw bd cont glob s" "\<forall>e \<in> set es. event_ok e \<and> Event_Timestamp e = now"
    and "\<forall>e \<in> set es. \<forall>e' \<in> set es. Event_Node e = Event_Node e' \<longrightarrow> e = e'" "node_ok n" "in_int64 ts"
  shows "(\<forall>e \<in> set es. Event_Node e = n \<and> ts = now \<longrightarrow> stored gw cont (put_all gw bd s es) n ts = Some (Event_Statement e)) \<and>
    ((ts \<noteq> now \<or> n \<notin> Event_Node ` set es) \<longrightarrow> stored gw cont (put_all gw bd s es) n ts = stored gw cont s n ts)"
proof -
  have ok: "\<forall>e \<in> set es. event_ok e" using assms(2) by blast
  let ?P = "\<lambda>e. Event_Node e = n \<and> Event_Timestamp e = ts"
  have "find ?P (rev es) = Some e" if "e \<in> set es" "Event_Node e = n" "ts = now" for e
  proof (cases "find ?P (rev es)")
    case None
    with that assms(2) show ?thesis by (auto simp: find_None_iff)
  next
    case (Some e')
    then obtain i where "i < length (rev es)" "rev es ! i = e'" "Event_Node e' = n"
      by (auto simp: find_Some_iff)
    then have "e' \<in> set es" "Event_Node e' = n" by (metis nth_mem set_rev)+
    with that assms(3) have "e' = e" by blast
    with Some show ?thesis by simp
  qed
  moreover have "find ?P (rev es) = None" if "ts \<noteq> now \<or> n \<notin> Event_Node ` set es"
    using that assms(2) by (auto simp: find_None_iff)
  ultimately show ?thesis
    unfolding stored_put_all [OF assms(1) ok assms(4,5)] by auto
qed

lemma round_stored:
  assumes "store_ok gw bd cont glob s" "set evs = ev ` N" "in_int64 now"
    and "\<forall>n \<in> N. node_ok n \<and> Event_Node (ev n) = n \<and> Event_Timestamp (ev n) = now"
  shows "store_ok gw bd cont glob (put_all gw bd s evs)"
    and "node_ok n \<Longrightarrow> in_int64 ts \<Longrightarrow> stored gw cont (put_all gw bd s evs) n ts =
      (if ts = now \<and> n \<in> N then Some (Event_Statement (ev n)) else stored gw cont s n ts)"
proof -
  have ok: "\<forall>e \<in> set evs. event_ok e \<and> Event_Timestamp e = now" using assms(2-4) by (auto simp: event_ok_def)
  have same: "\<forall>e \<in> set evs. \<forall>e' \<in> set evs. Event_Node e = Event_Node e' \<longrightarrow> e = e'" using assms(2,4) by auto
  have nodes: "Event_Node ` set evs = N" using assms(2,4) by force
  show "store_ok gw bd cont glob (put_all gw bd s evs)" by (rule put_all_ok [OF assms(1)]) (use ok in blast)
  assume n: "node_ok n" "in_int64 ts"
  have "ev n \<in> set evs \<and> Event_Node (ev n) = n" if "n \<in> N" using that assms(2,4) by auto
  with stored_put_all_at [OF assms(1) ok same n] nodes show "stored gw cont (put_all gw bd s evs) n ts =
      (if ts = now \<and> n \<in> N then Some (Event_Statement (ev n)) else stored gw cont s n ts)" by auto
qed

lemma poll_round:
  assumes "store_ok gw bd cont glob es" "\<forall>n \<in> set nodes. node_ok (nd_URL n)" "in_int64 now"
    and "queryNodes_deliver api nodes now evs" "poll gw bd (Inr nodes) evs now es = (es', out)"
  shows "out = [NodesGatheringComplete (map nd_URL nodes) now] \<and> store_ok gw bd cont glob es' \<and>
    (\<forall>n ts. node_ok n \<and> in_int64 ts \<longrightarrow> stored gw cont es' n ts =
      (if ts = now \<and> n \<in> nd_URL ` set nodes then Some (Event_Statement (queryNode api n now))
       else stored gw cont es n ts))"
proof -
  have evs: "set evs = (\<lambda>n. queryNode api n now) ` nd_URL ` set nodes"
  proof -
    have "set evs = (\<lambda>n. queryNode api (nd_URL n) now) ` set nodes"
      using assms(4) by (metis list.set_map mset_eq_setD queryNodes_deliver_def)
    then show ?thesis by (simp add: image_image)
  qed
  have N: "\<forall>n \<in> nd_URL ` set nodes. node_ok n \<and> Event_Node (queryNode api n now) = n \<and>
      Event_Timestamp (queryNode api n now) = now" using assms(2) by auto
  then have ok: "\<forall>e \<in> set evs. event_ok e" using assms(3) by (auto simp: evs)
  have "es' = put_all gw bd es evs" "out = [NodesGatheringComplete (map nd_URL nodes) now]"
    using assms(5) by (auto simp: poll_def collect_events_put_all [OF assms(1) ok] NewNodesGatheringComplete_def)
  with round_stored [OF assms(1) evs assms(3) N] show ?thesis by simp
qed

text \<open>
  A poll stores the round. On a storage that works, with node URLs that fit into keys, a poll
  sends exactly one notification, that all enabled nodes were gathered at the time of the poll;
  then the storage holds under that time the statement of each queried node, in whatever order
  the answers arrived, and everything else is as it was.
\<close>

theorem poll_stores_round:
  assumes "store_ok gw bd cont glob es" "\<forall>n \<in> set nodes. node_ok (nd_URL n)" "in_int64 now"
    and "queryNodes_deliver api nodes now evs" "poll gw bd (Inr nodes) evs now es = (es', out)"
  shows "out = [NodesGatheringComplete (map nd_URL nodes) now] \<and> store_ok gw bd cont glob es' \<and>
    (\<forall>n ts. node_ok n \<and> in_int64 ts \<longrightarrow> stored gw cont es' n ts =
      (if ts = now \<and> n \<in> nd_URL ` set nodes then Some (Event_Statement (queryNode api n now))
       else stored gw cont es n ts))"
  by (rule poll_round [OF assms])

section \<open>Private nodes\<close>

lemma putPrivate_loop_put_all:
  "store_ok gw bd cont glob es \<Longrightarrow> \<forall>n \<in> set ks. node_ok n \<and> (\<exists>e. p n = Some e \<and> Event_Node e = n) \<Longrightarrow> in_int64 ts \<Longrightarrow>
   putPrivate_loop gw bd p ts ks es = (put_all gw bd es (map (\<lambda>n. Event_WithTimestamp (the (p n)) ts) ks), ks, [])"
proof (induction ks arbitrary: es)
  case (Cons n ks)
  then obtain e where e: "p n = Some e" "Event_Node e = n" "node_ok n" by auto
  let ?e = "Event_WithTimestamp e ts"
  have "event_ok ?e" using e Cons.prems(3) by (simp add: event_ok_def event.with_ts_node event.with_ts_timestamp)
  with Cons obtain es' where "PutEvent gw bd es ?e = (es', None)" "store_ok gw bd cont glob es'"
    using PutEvent_stored [OF Cons.prems(1), of ?e] by auto
  with Cons e show ?case by (simp add: putPrivateNodesEvent_def)
qed simp

text \<open>Every event of the private nodes is filed under its own node.\<close>

definition private_ok :: "privateNodesEvents \<Rightarrow> bool" where
  "private_ok p \<longleftrightarrow> finite (dom p) \<and> (\<forall>n e. p n = Some e \<longrightarrow> Event_Node e = n \<and> node_ok n)"

lemma private_ok_write: "private_ok p \<Longrightarrow> node_ok (Event_Node e) \<Longrightarrow> private_ok (private_Write p e)"
  by (auto simp: private_ok_def private_Write_def unsafeWrite_def)

lemma private_ok_filter: "private_ok p \<Longrightarrow> private_ok (fst (filterPrivateNodes p specific))"
  by (auto simp: private_ok_def filterPrivateNodes_def split: sum.split if_splits intro: rev_finite_subset)

lemma private_round:
  assumes "store_ok gw bd cont glob es" "private_ok p" "in_int64 ts"
    and "\<forall>q. finite (dom q) \<longrightarrow> iter_order q (order q)"
    and "handlePrivateEvent gw bd (Inr specific) order (NodesGatheringComplete nodes ts) es p = (es', p', out)"
  shows "(\<exists>pns. out = [NodesGatheringComplete (nodes @ pns) ts] \<and> distinct pns \<and> set pns = dom p') \<and>
    (\<forall>n. p' n = (if n \<in> nd_URL ` set specific then p n else None)) \<and> store_ok gw bd cont glob es' \<and>
    (\<forall>n t. node_ok n \<and> in_int64 t \<longrightarrow> stored gw cont es' n t =
      (case p' n of Some e \<Rightarrow> if t = ts then Some ((Event_Statement e)\<lparr>st_Timestamp := ts\<rparr>) else stored gw cont es n t
       | None \<Rightarrow> stored gw cont es n t))"
proof -
  define q where "q = (\<lambda>n. if n \<in> nd_URL ` set specific then p n else None)"
  define ev where "ev = (\<lambda>n. Event_WithTimestamp (the (q n)) ts)"
  have qok: "private_ok q"
    using private_ok_filter [OF assms(2), of "Inr specific"] by (simp add: filterPrivateNodes_def q_def)
  then have ks: "distinct (order q)" "set (order q) = dom q" using assms(4) by (auto simp: iter_order_def private_ok_def)
  have mem: "\<forall>n \<in> set (order q). node_ok n \<and> (\<exists>e. q n = Some e \<and> Event_Node e = n)"
    using qok unfolding ks(2) private_ok_def by fast
  then have N: "\<forall>n \<in> dom q. node_ok n \<and> Event_Node (ev n) = n \<and> Event_Timestamp (ev n) = ts"
    unfolding ks(2) by (force simp: ev_def event.with_ts_node event.with_ts_timestamp)
  note loop = putPrivate_loop_put_all [OF assms(1) mem assms(3), folded ev_def]
  have res: "es' = put_all gw bd es (map ev (order q))" "p' = q" "out = [NodesGatheringComplete (nodes @ order q) ts]"
    using assms(5) unfolding handlePrivateEvent_def filterPrivateNodes_def sum.case Let_def prod.case
      putPrivateNodesEvents_def n_Timestamp.simps q_def [symmetric] loop
    by (auto simp: errors_Join_def List.map_filter_def NewNodesGatheringComplete_def)
  have evs: "set (map ev (order q)) = ev ` dom q" by (simp add: ks(2))
  note st = round_stored [OF assms(1) evs assms(3) N, folded res(1)]
  have "stored gw cont es' n t = (case q n of Some e \<Rightarrow> if t = ts then Some ((Event_Statement e)\<lparr>st_Timestamp := ts\<rparr>)
      else stored gw cont es n t | None \<Rightarrow> stored gw cont es n t)" if "node_ok n" "in_int64 t" for n t
    unfolding st(2) [OF that] by (cases "q n") (auto simp: ev_def event.with_ts_statement)
  with ks st(1) show ?thesis unfolding res(2,3) by (auto simp: q_def)
qed

text \<open>
  The private nodes join the round. When a poll of \<open>nodes\<close> at time \<open>ts\<close> is passed on, on a
  storage that works, the handler sends one notification naming the polled nodes and the
  private ones that are still enabled; the last event of each of these is stored under \<open>ts\<close>
  with nothing else of its statement changed, the events of other nodes are forgotten, and
  the rest of the storage is as it was.
\<close>

theorem private_nodes_join_round:
  assumes "store_ok gw bd cont glob es" "private_ok p" "in_int64 ts"
    and "\<forall>q. finite (dom q) \<longrightarrow> iter_order q (order q)"
    and "handlePrivateEvent gw bd (Inr specific) order (NodesGatheringComplete nodes ts) es p = (es', p', out)"
  shows "(\<exists>pns. out = [NodesGatheringComplete (nodes @ pns) ts] \<and> distinct pns \<and> set pns = dom p') \<and>
    (\<forall>n. p' n = (if n \<in> nd_URL ` set specific then p n else None)) \<and> store_ok gw bd cont glob es' \<and>
    (\<forall>n t. node_ok n \<and> in_int64 t \<longrightarrow> stored gw cont es' n t =
      (case p' n of Some e \<Rightarrow> if t = ts then Some ((Event_Statement e)\<lparr>st_Timestamp := ts\<rparr>) else stored gw cont es n t
       | None \<Rightarrow> stored gw cont es n t))"
  by (rule private_round [OF assms])


section \<open>A whole round\<close>

lemma view_at_timestamp:
  assumes "store_ok gw bd cont glob es"
  shows "ViewStatementsByTimestamp gw bd es ts (\<lambda>acc st. (acc @ [st], True)) [] = (at_timestamp gw cont es ts, None)"
  by (simp add: view_timestamp [OF assms] iter_until_collect)

text \<open>The statements of a round in which private nodes take precedence over polled ones.\<close>

lemma round_statements:
  assumes "\<And>n. node_ok n \<Longrightarrow> now_stored n =
      (case p2 n of Some e \<Rightarrow> Some (pushed e) | None \<Rightarrow> if n \<in> polled then Some (answer n) else None)"
    and "\<forall>n \<in> polled. node_ok n" "\<forall>n \<in> dom p2. node_ok n"
  shows "{st. \<exists>n. node_ok n \<and> now_stored n = Some st} =
    {answer u | u. u \<in> polled \<and> u \<notin> dom p2} \<union> {pushed e | u e. p2 u = Some e}" (is "?L = ?A \<union> ?B")
proof (intro set_eqI iffI)
  fix st assume "st \<in> ?L"
  then obtain n where n: "node_ok n" "now_stored n = Some st" by blast
  with assms(1) [OF n(1)] show "st \<in> ?A \<union> ?B" by (cases "p2 n") (auto simp: domIff split: if_splits)
next
  fix st assume "st \<in> ?A \<union> ?B"
  then consider u where "u \<in> polled" "p2 u = None" "st = answer u" | u e where "p2 u = Some e" "st = pushed e"
    by (auto simp: domIff)
  then show "st \<in> ?L"
  proof cases
    case 1
    with assms(2) have "node_ok u" by blast
    with 1 assms(1) [OF this] show ?thesis by auto
  next
    case 2
    with assms(3) have "node_ok u" by blast
    with 2 assms(1) [OF this] show ?thesis by auto
  qed
qed

text \<open>
  C24: The analyzer reads the round. After a poll at a time that the storage holds no statements
  for, followed by the private nodes handler, the analyzer's view of that time succeeds and
  shows exactly one statement per polled node and per private node that is still enabled: the
  private node's own where it has one, the answer to the scraper otherwise. The notification
  that starts the analysis names all of them.
\<close>

theorem analyzer_reads_round:
  assumes "store_ok gw bd cont glob es" "\<forall>n \<in> set nodes. node_ok (nd_URL n)" "in_int64 now" "private_ok p"
    and "\<forall>n. node_ok n \<longrightarrow> stored gw cont es n now = None"
    and "queryNodes_deliver api nodes now evs" "\<forall>q. finite (dom q) \<longrightarrow> iter_order q (order q)"
    and "poll gw bd (Inr nodes) evs now es = (es1, [note])"
    and "handlePrivateEvent gw bd (Inr specific) order note es1 p = (es2, p2, out)"
  shows "\<exists>pns sts. out = [NodesGatheringComplete (map nd_URL nodes @ pns) now] \<and>
    set pns = {n \<in> nd_URL ` set specific. p n \<noteq> None} \<and>
    ViewStatementsByTimestamp gw bd es2 now (\<lambda>acc st. (acc @ [st], True)) [] = (sts, None) \<and>
    set sts = {Event_Statement (queryNode api u now) | u. u \<in> nd_URL ` set nodes \<and> u \<notin> set pns} \<union>
      {(Event_Statement e)\<lparr>st_Timestamp := now\<rparr> | u e. u \<in> set pns \<and> p u = Some e}"
proof -
  from poll_round [OF assms(1-3,6,8)] have note_eq: "note = NodesGatheringComplete (map nd_URL nodes) now"
    and ok1: "store_ok gw bd cont glob es1"
    and st1: "\<And>n. node_ok n \<Longrightarrow> stored gw cont es1 n now =
      (if n \<in> nd_URL ` set nodes then Some (Event_Statement (queryNode api n now)) else None)"
    using assms(3,5) by auto
  from private_round [OF ok1 assms(4,3,7) assms(9) [unfolded note_eq]] obtain pns where
    out: "out = [NodesGatheringComplete (map nd_URL nodes @ pns) now]" "set pns = dom p2" and
    p2: "\<And>n. p2 n = (if n \<in> nd_URL ` set specific then p n else None)" and ok2: "store_ok gw bd cont glob es2" and
    st2: "\<And>n. node_ok n \<Longrightarrow> stored gw cont es2 n now =
      (case p2 n of Some e \<Rightarrow> Some ((Event_Statement e)\<lparr>st_Timestamp := now\<rparr>) | None \<Rightarrow> stored gw cont es1 n now)"
    using assms(3) by (fastforce split: option.splits)
  have priv: "set pns = {n \<in> nd_URL ` set specific. p n \<noteq> None}" using out(2) by (auto simp: p2 dom_def)
  have "node_ok n \<Longrightarrow> stored gw cont es2 n now = (case p2 n of Some e \<Rightarrow> Some ((Event_Statement e)\<lparr>st_Timestamp := now\<rparr>)
      | None \<Rightarrow> if n \<in> nd_URL ` set nodes then Some (Event_Statement (queryNode api n now)) else None)" for n
    using st1 [of n] st2 [of n] by (simp split: option.splits)
  moreover have "\<forall>n \<in> dom p2. node_ok n"
    using assms(4) unfolding private_ok_def by (auto simp: p2 split: if_splits)
  ultimately have "{st. \<exists>n. node_ok n \<and> stored gw cont es2 n now = Some st} =
      {Event_Statement (queryNode api u now) | u. u \<in> nd_URL ` set nodes \<and> u \<notin> dom p2} \<union>
      {(Event_Statement e)\<lparr>st_Timestamp := now\<rparr> | u e. p2 u = Some e}"
    using assms(2) by (intro round_statements) auto
  moreover have "p2 u = Some e \<longleftrightarrow> u \<in> dom p2 \<and> p u = Some e" for u e
    by (auto simp: p2 split: if_splits)
  ultimately have "set (at_timestamp gw cont es2 now) =
      {Event_Statement (queryNode api u now) | u. u \<in> nd_URL ` set nodes \<and> u \<notin> set pns} \<union>
      {(Event_Statement e)\<lparr>st_Timestamp := now\<rparr> | u e. u \<in> set pns \<and> p u = Some e}"
    unfolding set_at_timestamp [OF ok2 assms(3)] out(2) by simp
  then show ?thesis
    using out(1) priv view_at_timestamp [OF ok2] by (intro exI [of _ pns] exI [of _ "at_timestamp gw cont es2 now"]) simp
qed

text \<open>
  One private node whose event cannot be stored stops the analysis of the round: the handler
  then wraps the notification, and the analyzer, given what the handler sends last, reports an
  internal error with timestamp 0, analyzes no node and vacuums no alert.
\<close>

theorem private_failure_stops_analysis:
  assumes "n_Error note = None" "filterPrivateNodes p specific = (q, None)"
    and "putPrivateNodesEvents gw bd q (n_Timestamp note) (order q) es = (es1, stored', Some e)"
    and "handlePrivateEvent gw bd specific order note es p = (es', p', out)"
  shows "\<exists>m. out = [m] \<and> (\<forall>opts s err alerts s'. processNotification gw bd es' opts s m err alerts s' \<longrightarrow>
    s' = s \<and> err = None \<and> alerts = [A_InternalError (NewInternalErrorAlert 0 (Join [e]))])"
proof -
  let ?inner = "if stored' \<noteq> [] then NewNodesGatheringComplete (n_Nodes note @ stored') (n_Timestamp note) else note"
  have out: "out = [NewNodesGatheringWithError (Some ?inner) (Some e)]"
    using assms by (simp add: handlePrivateEvent_def Let_def split: if_splits)
  moreover have "n_Error ?inner = None" using assms(1) by (simp add: NewNodesGatheringComplete_def)
  ultimately show ?thesis
    by (auto simp: NewNodesGatheringWithError_def processNotification.simps errors_Join_def List.map_filter_def)
qed

section \<open>Witnesses\<close>

text \<open>Two nodes: one that answers every request and one that does not answer.\<close>

definition demo_api :: nodeAPI where
  "demo_api = \<lparr>api_Version = (\<lambda>u. if u = ''a'' then Inr ''v1'' else Inl (Errorf ''timeout'')),
     api_Height = (\<lambda>u. Inr 10),
     api_HeadersAt = (\<lambda>u h. Inr \<lparr>hd_ID = ''B'', hd_Generator = ''G'', hd_Challenged = False, hd_BaseTarget = 7\<rparr>),
     api_StateHash = (\<lambda>u h. Inr (''B'', ''S''))\<rparr>"

definition demo_order :: "(string, 'v) gomap \<Rightarrow> string list" where
  "demo_order m = sorted_list_of_set (dom m)"

lemma demo_order_ok: "\<forall>q. finite (dom q) \<longrightarrow> iter_order q (demo_order q)"
  by (simp add: iter_order_def demo_order_def)

abbreviation demo_node_of :: "string \<Rightarrow> Node" where
  "demo_node_of u \<equiv> \<lparr>nd_URL = u, nd_Enabled = True, nd_Alias = []\<rparr>"

definition demo_private :: privateNodesEvents where
  "demo_private = private_Write (\<lambda>_. None) (Ev_Version (NewVersionEvent ''c'' 3 ''v0''))"

lemma demo_private_eq: "demo_private = [''c'' \<mapsto> Ev_Version (NewVersionEvent ''c'' 3 ''v0'')]"
  by (simp add: demo_private_def private_Write_def unsafeWrite_def NewVersionEvent_def)

lemma demo_private_ok: "private_ok demo_private"
  unfolding demo_private_def
  by (rule private_ok_write) (simp_all add: private_ok_def NewVersionEvent_def)

abbreviation demo_answers :: "Event list" where
  "demo_answers \<equiv> [queryNode demo_api ''b'' 5, queryNode demo_api ''a'' 5]"

lemma demo_deliver: "queryNodes_deliver demo_api [demo_node_of ''a'', demo_node_of ''b''] 5 demo_answers"
  by (simp add: queryNodes_deliver_def add_mset_commute)

theorem poll_stores_round_witness:
  "\<exists>es' out. poll demo_gowaves demo_db (Inr [demo_node_of ''a'', demo_node_of ''b'']) demo_answers 5 demo_events = (es', out) \<and>
    out = [NodesGatheringComplete [''a'', ''b''] 5] \<and>
    stored demo_gowaves map_of es' ''b'' 5 = Some (Event_Statement (Ev_Unreachable (NewUnreachableEvent ''b'' 5)))"
proof -
  obtain es' out where run: "poll demo_gowaves demo_db (Inr [demo_node_of ''a'', demo_node_of ''b'']) demo_answers 5
      demo_events = (es', out)" by fastforce
  have n: "\<forall>n \<in> set [demo_node_of ''a'', demo_node_of ''b'']. node_ok (nd_URL n)" by simp
  have q: "queryNode demo_api ''b'' 5 = Ev_Unreachable (NewUnreachableEvent ''b'' 5)"
    by (simp add: queryNode_def client_version_def demo_api_def)
  from poll_round [OF demo_events_ok n _ demo_deliver run] run q show ?thesis by auto
qed

theorem private_nodes_join_round_witness:
  "\<exists>es' p' out. handlePrivateEvent demo_gowaves demo_db (Inr [demo_node_of ''c'']) demo_order
      (NodesGatheringComplete [''a''] 5) demo_events demo_private = (es', p', out) \<and>
    (\<exists>pns. out = [NodesGatheringComplete (''a'' # pns) 5] \<and> set pns = {''c''})"
proof -
  obtain es' p' out where run: "handlePrivateEvent demo_gowaves demo_db (Inr [demo_node_of ''c'']) demo_order
      (NodesGatheringComplete [''a''] 5) demo_events demo_private = (es', p', out)" by (metis surj_pair)
  have ts: "in_int64 5" by simp
  note r = private_nodes_join_round [OF demo_events_ok demo_private_ok ts demo_order_ok run]
  have "p' = demo_private"
    using conjunct1 [OF conjunct2 [OF r]] by (intro ext) (simp add: demo_private_eq)
  then have "dom p' = {''c''}" by (simp add: demo_private_eq)
  with conjunct1 [OF r] run show ?thesis by (metis append_Cons append_Nil)
qed

theorem analyzer_reads_round_witness:
  "\<exists>es1 es2 p2 sts pns. poll demo_gowaves demo_db (Inr [demo_node_of ''a'', demo_node_of ''b'']) demo_answers 5 demo_events
      = (es1, [NodesGatheringComplete [''a'', ''b''] 5]) \<and>
    handlePrivateEvent demo_gowaves demo_db (Inr [demo_node_of ''c'']) demo_order (NodesGatheringComplete [''a'', ''b''] 5)
      es1 demo_private = (es2, p2, [NodesGatheringComplete ([''a'', ''b''] @ pns) 5]) \<and> set pns = {''c''} \<and>
    ViewStatementsByTimestamp demo_gowaves demo_db es2 5 (\<lambda>acc st. (acc @ [st], True)) [] = (sts, None) \<and>
    st_Node ` set sts = {''a'', ''b'', ''c''}"
proof -
  let ?nodes = "[demo_node_of ''a'', demo_node_of ''b'']"
  have n: "\<forall>n \<in> set ?nodes. node_ok (nd_URL n)" and ts: "in_int64 5" by simp_all
  obtain es1 out1 where poll: "poll demo_gowaves demo_db (Inr ?nodes) demo_answers 5 demo_events = (es1, out1)" by fastforce
  from poll_round [OF demo_events_ok n ts demo_deliver poll] have out1: "out1 = [NodesGatheringComplete [''a'', ''b''] 5]"
    by simp
  obtain es2 p2 out where run: "handlePrivateEvent demo_gowaves demo_db (Inr [demo_node_of ''c'']) demo_order
      (NodesGatheringComplete [''a'', ''b''] 5) es1 demo_private = (es2, p2, out)" by (metis surj_pair)
  have none: "\<forall>n. node_ok n \<longrightarrow> stored demo_gowaves map_of demo_events n 5 = None" by (simp add: stored_demo_events)
  from analyzer_reads_round [OF demo_events_ok n ts demo_private_ok none demo_deliver demo_order_ok poll [unfolded out1] run]
  obtain pns sts where r: "out = [NodesGatheringComplete (map nd_URL ?nodes @ pns) 5]"
    "set pns = {n \<in> nd_URL ` set [demo_node_of ''c'']. demo_private n \<noteq> None}"
    "ViewStatementsByTimestamp demo_gowaves demo_db es2 5 (\<lambda>acc st. (acc @ [st], True)) [] = (sts, None)"
    "set sts = {Event_Statement (queryNode demo_api u 5) | u. u \<in> nd_URL ` set ?nodes \<and> u \<notin> set pns} \<union>
      {(Event_Statement e)\<lparr>st_Timestamp := 5\<rparr> | u e. u \<in> set pns \<and> demo_private u = Some e}"
    by (elim exE conjE) (rule that)
  note c = demo_private_eq
  have "set pns = {''c''}" using r(2) by (auto simp: c)
  moreover have "set sts = {Event_Statement (queryNode demo_api ''a'' 5), Event_Statement (queryNode demo_api ''b'' 5),
      (Event_Statement (Ev_Version (NewVersionEvent ''c'' 3 ''v0'')))\<lparr>st_Timestamp := 5\<rparr>}"
    unfolding r(4) \<open>set pns = {''c''}\<close> by (auto simp: c)
  then have "st_Node ` set sts = {''a'', ''b'', ''c''}"
    by (simp add: event.statement_node Statement_defs NewVersionEvent_def)
  moreover have "out = [NodesGatheringComplete ([''a'', ''b''] @ pns) 5]" using r(1) by simp
  ultimately show ?thesis using poll [unfolded out1] run r(3) by blast
qed

theorem private_failure_stops_analysis_witness:
  "\<exists>es' p' m. handlePrivateEvent demo_gowaves (demo_db\<lparr>tx_Set := \<lambda>_ _ _ _. Inl (Errorf ''read-only'')\<rparr>)
      (Inr [demo_node_of ''c'']) demo_order (NodesGatheringComplete [''a''] 5) demo_events demo_private = (es', p', [m]) \<and>
    (\<forall>opts s err alerts s'. processNotification demo_gowaves (demo_db\<lparr>tx_Set := \<lambda>_ _ _ _. Inl (Errorf ''read-only'')\<rparr>)
       es' opts s m err alerts s' \<longrightarrow> s' = s)"
proof -
  let ?bd = "demo_db\<lparr>tx_Set := \<lambda>_ _ _ _. Inl (Errorf ''read-only'')\<rparr>" and ?n = "NodesGatheringComplete [''a''] 5"
  obtain es' p' out where run: "handlePrivateEvent demo_gowaves ?bd (Inr [demo_node_of ''c'']) demo_order ?n
      demo_events demo_private = (es', p', out)" by (metis surj_pair)
  have f: "filterPrivateNodes demo_private (Inr [demo_node_of ''c'']) = (demo_private, None)"
    by (auto simp: filterPrivateNodes_def demo_private_def private_Write_def unsafeWrite_def NewVersionEvent_def fun_eq_iff)
  obtain es1 st e where put: "putPrivateNodesEvents demo_gowaves ?bd demo_private (n_Timestamp ?n) (demo_order demo_private) demo_events
      = (es1, st, Some e)"
    by (simp add: putPrivateNodesEvents_def demo_order_def demo_private_def private_Write_def unsafeWrite_def NewVersionEvent_def
        putPrivateNodesEvent_def PutEvent_def errors_Join_def List.map_filter_def Let_def)
  from private_failure_stops_analysis [OF _ f put run] run show ?thesis by auto
qed

end
