(* ===== verification/Tools.thy ===== *)
theory Tools
  imports Prelude
begin

text \<open>
  \<open>pkg/tools/processing.go\<close>: channels merged into one. A channel that is closed after its
  messages is the list of them; the goroutines of the fan-in take turns in any order. With the
  context of \<open>FanInSeqCtx\<close> cancelled the output is a prefix of such a run, and a message that
  was being passed on is lost.
\<close>

inductive FanInSeq :: "'a list list \<Rightarrow> 'a list \<Rightarrow> bool" where
  fan_in_closed: "\<forall>q \<in> set ins. q = [] \<Longrightarrow> FanInSeq ins []"
| fan_in_pass: "i < length ins \<Longrightarrow> ins ! i = alert # q \<Longrightarrow> FanInSeq (ins[i := q]) out \<Longrightarrow>
    FanInSeq ins (alert # out)"

inductive FanInSeqCtx :: "'a list list \<Rightarrow> 'a list \<Rightarrow> bool" where
  fan_in_done: "FanInSeqCtx ins []"
| fan_in_ctx_pass: "i < length ins \<Longrightarrow> ins ! i = alert # q \<Longrightarrow> FanInSeqCtx (ins[i := q]) out \<Longrightarrow>
    FanInSeqCtx ins (alert # out)"

definition FanIn :: "'a list list \<Rightarrow> 'a list \<Rightarrow> bool" where
  "FanIn inputs out \<longleftrightarrow> FanInSeq inputs out"

lemma mset_concat_upd:
  "i < length qs \<Longrightarrow> qs ! i = a # q \<Longrightarrow> mset (concat qs) = add_mset a (mset (concat (qs[i := q])))"
  by (induction qs arbitrary: i) (auto simp: nth_Cons split: nat.splits)

lemma FanInSeq_total: "\<exists>out. FanInSeq ins out"
proof (induction "length (concat ins)" arbitrary: ins)
  case 0
  then have "\<forall>q \<in> set ins. q = []" by auto
  then show ?case by (blast intro: fan_in_closed)
next
  case (Suc n)
  from Suc.hyps(2) have "concat ins \<noteq> []" by (metis list.size(3) nat.distinct(1))
  then obtain q' where "q' \<in> set ins" "q' \<noteq> []" by (auto simp: concat_eq_Nil_conv)
  then obtain i a q where i: "i < length ins" "ins ! i = a # q" by (metis in_set_conv_nth neq_Nil_conv)
  have "n = length (concat (ins[i := q]))"
    using Suc.hyps(2) arg_cong [OF mset_concat_upd [OF i], of size] by (simp del: mset_concat)
  with Suc.hyps(1) fan_in_pass [OF i] show ?case by blast
qed

text \<open>
  Merging channels loses nothing, invents nothing and keeps the order of each channel: every
  run of the fan-in outputs exactly the messages of its inputs, each input is a subsequence of
  the output, and there is a run, that is, the output is closed in the end.
\<close>

theorem fan_in_faithful:
  "(\<exists>out. FanIn ins out) \<and>
   (\<forall>out. \<not> FanIn ins out \<or> mset out = mset (concat ins) \<and> (\<forall>q. q \<in> set ins \<longrightarrow> subseq q out))"
proof -
  have "mset out = mset (concat ins) \<and> (\<forall>q \<in> set ins. subseq q out)" if "FanInSeq ins out" for out
    using that
  proof (induction rule: FanInSeq.induct)
    case (fan_in_closed ins)
    then show ?case by auto
  next
    case (fan_in_pass i ins alert q out)
    have "subseq q' (alert # out)" if q': "q' \<in> set ins" for q'
    proof -
      from q' obtain j where j: "j < length ins" "ins ! j = q'" by (auto simp: in_set_conv_nth)
      show ?thesis
      proof (cases "j = i")
        case True
        with j fan_in_pass.hyps have "q' = alert # q" by simp
        moreover have "subseq q out" using fan_in_pass by (simp add: set_update_memI)
        ultimately show ?thesis by simp
      next
        case False
        with j fan_in_pass.hyps have "q' \<in> set (ins[i := q])" by (metis length_list_update nth_list_update_neq nth_mem)
        with fan_in_pass.IH show ?thesis by blast
      qed
    qed
    with fan_in_pass mset_concat_upd [OF fan_in_pass.hyps(1,2)] show ?case by simp
  qed
  with FanInSeq_total [of ins] show ?thesis unfolding FanIn_def by blast
qed

theorem fan_in_faithful_witness:
  "\<exists>out. FanIn [[1, 2], [3 :: nat]] out \<and> mset out = {#1, 2, 3#}"
proof -
  from fan_in_faithful [of "[[1, 2], [3 :: nat]]"] obtain out where
    "FanIn [[1, 2], [3 :: nat]] out" "mset out = mset (concat [[1, 2], [3 :: nat]])" by blast
  then show ?thesis by (intro exI [of _ out]) (simp add: add_mset_commute)
qed

end
