(* ===== verification/L2.thy ===== *)
theory L2
  imports AlertsStorage Tools
begin

text \<open>
  \<open>pkg/analysis/l2\<close>: the watchdog of layer-2 nodes. A collector asks a node for its height every
  minute over JSON-RPC; the analyzer raises an alert when the collector fails and when the
  height has not changed for five minutes, and passes both through an alerts storage of its own.

  Times are nanoseconds, as \<open>time.Duration\<close>. The HTTP exchange is the record \<open>l2http\<close> of
  parameters; \<open>l2_parse\<close> reads the text of a JSON document.
\<close>

section \<open>Constants\<close>

definition Second :: int where "Second = 1000000000"
definition Minute :: int where "Minute = 60 * Second"
definition heightCollectorTimeout :: int where "heightCollectorTimeout = 1 * Minute"
definition l2NodesSameHeightTimerDuration :: int where "l2NodesSameHeightTimerDuration = 5 * Minute"
definition maxResponseSize :: nat where "maxResponseSize = 1024"

definition defaultAlertVacuumQuota :: int where
  "defaultAlertVacuumQuota = l2NodesSameHeightTimerDuration div heightCollectorTimeout + 1 + 2"

definition collectorErrorAlertConfirmations :: int where "collectorErrorAlertConfirmations = 3"

definition unix :: "int \<Rightarrow> int" where
  "unix t = t div Second"

section \<open>Collecting a height\<close>

definition hexStringToInt :: "string \<Rightarrow> error + int" where
  "hexStringToInt hexString = ParseInt 16 (TrimPrefix hexString ''0x'')"

record l2response =
  rs_Jsonrpc :: string
  rs_ID :: string
  rs_Result :: string

definition l2response_fields :: "l2response fields" where
  "l2response_fields =
     [field ''jsonrpc'' dec_string rs_Jsonrpc (\<lambda>x r. r\<lparr>rs_Jsonrpc := x\<rparr>),
      field ''id'' dec_string rs_ID (\<lambda>x r. r\<lparr>rs_ID := x\<rparr>),
      field ''result'' dec_string rs_Result (\<lambda>x r. r\<lparr>rs_Result := x\<rparr>)]"

definition l2response_Unmarshal :: "json \<Rightarrow> error + l2response" where
  "l2response_Unmarshal v =
     Unmarshal (dec_struct ''l2.response'' l2response_fields) \<lparr>rs_Jsonrpc = [], rs_ID = [], rs_Result = []\<rparr> v"

text \<open>A response: the declared length, the status, what reading the body gives, closing it.\<close>

record httpResponse =
  hr_ContentLength :: int
  hr_StatusCode :: int
  hr_Body :: "error + bytes"
  hr_Close :: "error option"

record l2http =
  l2_ParseRequestURI :: "string \<Rightarrow> error option"
  l2_NewRequest :: "string \<Rightarrow> json \<Rightarrow> error option"
  l2_Do :: "string \<Rightarrow> json \<Rightarrow> (string \<times> string) list \<Rightarrow> error + httpResponse"
  l2_parse :: "bytes \<Rightarrow> error + json"
  l2_Version :: string
  l2_TimeFormat :: "int \<Rightarrow> string"

definition setHeaders :: "string \<Rightarrow> string \<Rightarrow> string \<Rightarrow> string \<Rightarrow> (string \<times> string) list" where
  "setHeaders userAgent requestID timeSend timeoutStr =
     [(''Content-Type'', ''application/json''), (''Accept'', ''application/json''),
      (''User-Agent'', userAgent), (''X-Request-ID'', requestID), (''X-Request-Time'', timeSend),
      (''X-Request-Timeout'', timeoutStr)]"

definition l2_requestBody :: json where
  "l2_requestBody = JObj [(''id'', JStr ''1''), (''jsonrpc'', JStr ''2.0''), (''method'', JStr ''eth_blockNumber''),
     (''params'', JArr [])]"

text \<open>The height in the answer, without the deferred calls.\<close>

definition l2_read_height :: "l2http \<Rightarrow> httpResponse \<Rightarrow> error + uint64" where
  "l2_read_height hc resp =
     (if hr_ContentLength resp > int maxResponseSize then
        Inl (Errorf (''response body is too large ('' @ FormatInt (hr_ContentLength resp) @ '' bytes, max is '' @
          FormatInt (int maxResponseSize) @ '')''))
      else (case hr_Body resp of
        Inl err \<Rightarrow> Inl (wrapf err ''failed to read response body'')
      | Inr all \<Rightarrow>
          let body = take maxResponseSize all in
          if hr_StatusCode resp \<noteq> 200 then Inl (Errorf (''received non-200 response, body='' @ Quote body))
          else (case (case l2_parse hc body of Inl err \<Rightarrow> Inl err | Inr v \<Rightarrow> l2response_Unmarshal v) of
            Inl uErr \<Rightarrow> Inl (wrapf uErr ''failed to unmarshal response'')
          | Inr res \<Rightarrow>
              (case hexStringToInt (rs_Result res) of
                 Inl err \<Rightarrow> Inl (wrapf err ''failed to convert hex string height to integer'')
               | Inr height \<Rightarrow>
                   if height < 0 then Inl (Errorf (''the received height is negative: '' @ FormatInt height))
                   else Inr (word_of_int height)))))"

text \<open>
  The result pair: on a failure to close the body the height comes with an error. The deferred
  functions run in reverse order: first the body is closed, then the error is wrapped.
\<close>

definition collectL2Height :: "l2http \<Rightarrow> string \<Rightarrow> int \<Rightarrow> uint64 \<times> error option" where
  "collectL2Height hc url now =
     (case l2_ParseRequestURI hc url of
        Some err \<Rightarrow> (0, Some (wrapf err ''invalid node URL''))
      | None \<Rightarrow>
     (case l2_NewRequest hc url l2_requestBody of
        Some err \<Rightarrow> (0, Some (wrapf err ''failed to build a HTTP request to l2 node''))
      | None \<Rightarrow>
          let userAgent = ''nodemon/'' @ l2_Version hc;
              timeoutStr = ''5s'';
              annotate = (\<lambda>e. wrapf e (''failed to collect l2 height by '' @ squote userAgent @ '' with '' @
                squote timeoutStr @ '' timeout''));
              requestID = userAgent @ ''-'' @ url @ ''-'' @ FormatInt now
          in case l2_Do hc url l2_requestBody (setHeaders userAgent requestID (l2_TimeFormat hc now) timeoutStr) of
               Inl err \<Rightarrow> (0, Some (annotate (wrapf err ''failed to send request to l2 node'')))
             | Inr resp \<Rightarrow>
                 let (height, runErr) = (case l2_read_height hc resp of Inl e \<Rightarrow> (0, Some e) | Inr h \<Rightarrow> (h, None));
                     runErr = (case hr_Close resp of
                        None \<Rightarrow> runErr
                      | Some clErr \<Rightarrow> errors_Join [runErr, Some (wrapf clErr ''failed to close L2 height response body'')])
                 in (height, map_option annotate runErr)))"

section \<open>The analyzer\<close>

record L2Node =
  l2n_URL :: string
  l2n_Name :: string

record heightCollectorResponse =
  hc_height :: uint64
  hc_err :: "error option"

text \<open>What the loop holds, with the time of the last event and the time the timer fires next.\<close>

record L2State =
  l2_clock :: int
  l2_timer :: int
  l2_alerts :: AlertsStorage
  l2_lastHeight :: uint64

datatype L2Event = HeightResponse int heightCollectorResponse | TimerFired int

fun L2Event_time :: "L2Event \<Rightarrow> int" where
  "L2Event_time (HeightResponse t r) = t"
| "L2Event_time (TimerFired t) = t"

definition l2_start :: "int \<Rightarrow> L2State" where
  "l2_start now =
     \<lparr>l2_clock = now, l2_timer = now + l2NodesSameHeightTimerDuration,
      l2_alerts = NewAlertsStorage [AlertVacuumQuota defaultAlertVacuumQuota,
        AlertConfirmations [\<lparr>ac_AlertType = SimpleAlertType, ac_Confirmations = collectorErrorAlertConfirmations\<rparr>]],
      l2_lastHeight = 0\<rparr>"

definition putAndSendAlert :: "gowaves \<Rightarrow> AlertsStorage \<Rightarrow> Alert \<Rightarrow> AlertsStorage \<times> Alert list" where
  "putAndSendAlert gw s alert =
     (case PutAlert gw s alert of (s', sendNow) \<Rightarrow> (s', if sendNow then [alert] else []))"

text \<open>\<open>vacuumAlerts\<close>: each fixed alert gets the time at which it is sent, from \<open>stamps\<close>.\<close>

inductive vacuumAlerts :: "AlertsStorage \<Rightarrow> AlertsStorage \<Rightarrow> Alert list \<Rightarrow> bool" where
  vacuumed: "vacuum_order s ks \<Longrightarrow> Vacuum ks s = (s', map Some vacuumedAlerts) \<Longrightarrow>
    length stamps = length vacuumedAlerts \<Longrightarrow> vacuumAlerts s s' (map2 A_Fixed stamps vacuumedAlerts)"

definition failed_alert :: "string \<Rightarrow> int \<Rightarrow> error \<Rightarrow> Alert" where
  "failed_alert name t err = A_Simple (NewSimpleAlert (unix t)
     (''Failed to update height for L2 node '' @ Quote name @ '': '' @ Error err))"

definition new_height :: "L2State \<Rightarrow> int \<Rightarrow> uint64 \<Rightarrow> L2State" where
  "new_height st t height =
     (if height \<noteq> l2_lastHeight st
      then st\<lparr>l2_lastHeight := height, l2_timer := t + l2NodesSameHeightTimerDuration\<rparr> else st)"

text \<open>One round of the loop for one event; a failed response skips the vacuum.\<close>

inductive l2_step :: "gowaves \<Rightarrow> L2Node \<Rightarrow> L2State \<Rightarrow> L2Event \<Rightarrow> Alert list \<Rightarrow> L2State \<Rightarrow> bool"
  for gw node where
  response_failed: "l2_clock st \<le> t \<Longrightarrow> hc_err response = Some err \<Longrightarrow>
    putAndSendAlert gw (l2_alerts st) (failed_alert (l2n_Name node) t err) = (s, out) \<Longrightarrow>
    l2_step gw node st (HeightResponse t response) out
      (st\<lparr>l2_clock := t, l2_alerts := s, l2_timer := t + l2NodesSameHeightTimerDuration\<rparr>)"
| response_height: "l2_clock st \<le> t \<Longrightarrow> hc_err response = None \<Longrightarrow>
    vacuumAlerts (l2_alerts st) s out \<Longrightarrow>
    l2_step gw node st (HeightResponse t response) out
      ((new_height st t (hc_height response))\<lparr>l2_clock := t, l2_alerts := s\<rparr>)"
| timer_fired: "l2_clock st \<le> t \<Longrightarrow> l2_timer st \<le> t \<Longrightarrow>
    putAndSendAlert gw (l2_alerts st)
      (A_L2Stuck (NewL2StuckAlert (unix t) (l2_lastHeight st) (l2n_Name node))) = (s1, out1) \<Longrightarrow>
    vacuumAlerts s1 s2 out2 \<Longrightarrow>
    l2_step gw node st (TimerFired t) (out1 @ out2)
      (st\<lparr>l2_clock := t, l2_alerts := s2, l2_timer := t + l2NodesSameHeightTimerDuration\<rparr>)"

inductive_simps l2_step_simps:
  "l2_step gw node st (HeightResponse t r) out st'" "l2_step gw node st (TimerFired t) out st'"

text \<open>The loop runs until the context is done: after any number of events.\<close>

inductive analyzerLoop :: "gowaves \<Rightarrow> L2Node \<Rightarrow> L2State \<Rightarrow> L2Event list \<Rightarrow> Alert list \<Rightarrow> L2State \<Rightarrow> bool"
  for gw node where
  loop_done: "analyzerLoop gw node st [] [] st"
| loop_event: "l2_step gw node st e out1 st1 \<Longrightarrow> analyzerLoop gw node st1 es out2 st2 \<Longrightarrow>
    analyzerLoop gw node st (e # es) (out1 @ out2) st2"

inductive_simps analyzerLoop_simps:
  "analyzerLoop gw node st [] out st'" "analyzerLoop gw node st (e # es) out st'"

text \<open>
  \<open>runCollector\<close>: what it sends, with the time of each delivery. A height is collected at once and
  then at each tick, against the services that answer at that time; the next collection waits for
  the delivery and for its tick, of which the first comes one timeout after the start. \<open>prev\<close> is the
  time of the last delivery and \<open>tick\<close> the earliest time of the next collection.
\<close>

inductive runCollector :: "string \<Rightarrow> int \<Rightarrow> int \<Rightarrow> (int \<times> heightCollectorResponse) list \<Rightarrow> bool" for nodeURL where
  collector_done: "runCollector nodeURL prev tick []"
| collector_sends: "prev \<le> began \<Longrightarrow> tick \<le> began \<Longrightarrow> began \<le> t \<Longrightarrow>
    collectL2Height hc nodeURL began = (hc_height response, hc_err response) \<Longrightarrow>
    runCollector nodeURL t (tick + heightCollectorTimeout) rest \<Longrightarrow>
    runCollector nodeURL prev tick ((t, response) # rest)"

fun L2Event_response :: "L2Event \<Rightarrow> (int \<times> heightCollectorResponse) option" where
  "L2Event_response (HeightResponse t response) = Some (t, response)"
| "L2Event_response (TimerFired t) = None"

text \<open>\<open>RunL2Analyzer\<close>: the responses of the loop are those of the collector; \<open>RunL2Analyzers\<close> merges the alerts.\<close>

inductive RunL2Analyzer :: "gowaves \<Rightarrow> L2Node \<Rightarrow> int \<Rightarrow> Alert list \<Rightarrow> bool" where
  "runCollector (l2n_URL node) now now (List.map_filter L2Event_response es) \<Longrightarrow>
   analyzerLoop gw node (l2_start now) es out st \<Longrightarrow> RunL2Analyzer gw node now out"

definition RunL2Analyzers :: "gowaves \<Rightarrow> L2Node list \<Rightarrow> int \<Rightarrow> Alert list \<Rightarrow> bool" where
  "RunL2Analyzers gw nodes now out \<longleftrightarrow>
     (\<exists>outs. list_all2 (\<lambda>node o'. RunL2Analyzer gw node now o') nodes outs \<and> FanInSeq outs out)"

end
