(* ===== verification/L2Policy.thy ===== *)
theory L2Policy
  imports L2 AnalyzerPolicy
begin

text \<open>
  What the layer-2 watchdog promises: the heights it reads, when the stuck alert is justified,
  when it is reported as fixed, and that a fixed report follows an alert.
\<close>

section \<open>Reading heights\<close>

fun hex_digits :: "nat \<Rightarrow> string" where
  "hex_digits n = (if n < 16 then [hex_digit n] else hex_digits (n div 16) @ [hex_digit (n mod 16)])"

declare hex_digits.simps [simp del]

lemma parse_hex_digits: "parse_digits 16 0 (hex_digits n) = Some n"
proof (induction n rule: hex_digits.induct)
  case (1 n)
  show ?case
  proof (cases "n < 16")
    case True
    then show ?thesis by (simp add: hex_digits.simps [of n] digit_val_hex)
  next
    case False
    with "1.IH" show ?thesis
      by (simp add: hex_digits.simps [of n] parse_digits_append digit_val_hex)
  qed
qed

lemma hex_digits_hd: "\<exists>d cs. d < 16 \<and> hex_digits n = hex_digit d # cs"
proof (induction n rule: hex_digits.induct)
  case (1 n)
  then show ?case by (cases "n < 16") (auto simp: hex_digits.simps [of n])
qed

lemma hex_digit_no_sign:
  assumes "d < 16"
  shows "hex_digit d \<noteq> CHR ''-'' \<and> hex_digit d \<noteq> CHR ''+''"
proof (cases "d < 10")
  case True
  then show ?thesis using digit_char_no_sign by (simp add: hex_digit_def)
next
  case False
  with assms of_char_hex [of d] show ?thesis by auto
qed

text \<open>
  The height of a layer-2 node is read back exactly: for every height that fits into an
  \<open>int64\<close>, the JSON-RPC answer that prints it in hexadecimal after \<open>0x\<close> gives this height.
\<close>

theorem l2_height_read_back:
  assumes "n < 2 ^ 63" "hr_ContentLength resp \<le> 1024" "hr_StatusCode resp = 200" "hr_Body resp = Inr body"
    and "l2_parse hc (take 1024 body) = Inr (JObj [(''jsonrpc'', JStr ''2.0''), (''id'', JStr ''1''),
      (''result'', JStr (''0x'' @ hex_digits n))])"
  shows "l2_read_height hc resp = Inr (of_nat n)"
proof -
  from hex_digits_hd obtain d cs where d: "d < 16" "hex_digits n = hex_digit d # cs" by blast
  have "ParseInt 16 (hex_digits n) = Inr (int n)"
    using assms(1) hex_digit_no_sign [OF d(1)] parse_hex_digits [of n]
    by (simp add: ParseInt_def ParseUint_def d(2))
  then have h: "hexStringToInt (''0x'' @ hex_digits n) = Inr (int n)"
    by (simp add: hexStringToInt_def TrimPrefix_def)
  have u: "l2response_Unmarshal (JObj [(''jsonrpc'', JStr ''2.0''), (''id'', JStr ''1''),
      (''result'', JStr (''0x'' @ hex_digits n))]) =
      Inr \<lparr>rs_Jsonrpc = ''2.0'', rs_ID = ''1'', rs_Result = ''0x'' @ hex_digits n\<rparr>"
    by (simp add: l2response_Unmarshal_def Unmarshal_def dec_struct_def l2response_fields_def field_def
        ToLower_def lower_char_def is_upper_def)
  show ?thesis
    using assms(2-5) u h by (simp add: l2_read_height_def maxResponseSize_def Let_def)
qed

definition demo_l2http :: l2http where
  "demo_l2http = \<lparr>l2_ParseRequestURI = (\<lambda>_. None), l2_NewRequest = (\<lambda>_ _. None), l2_Do = (\<lambda>_ _ _. Inl (Errorf ''down'')),
     l2_parse = (\<lambda>_. Inr (JObj [(''jsonrpc'', JStr ''2.0''), (''id'', JStr ''1''), (''result'', JStr ''0x1f'')])),
     l2_Version = ''v'', l2_TimeFormat = (\<lambda>_. ''t'')\<rparr>"

theorem l2_height_read_back_witness:
  "l2_read_height demo_l2http \<lparr>hr_ContentLength = -1, hr_StatusCode = 200, hr_Body = Inr ''{}'', hr_Close = None\<rparr> = Inr 31"
proof -
  have "hex_digits 31 = ''1f''" by code_simp
  then show ?thesis
    using l2_height_read_back [of 31 "\<lparr>hr_ContentLength = -1, hr_StatusCode = 200, hr_Body = Inr ''{}'', hr_Close = None\<rparr>"
        "''{}''" demo_l2http] by (simp add: demo_l2http_def)
qed

section \<open>The rhythm of the collector\<close>

text \<open>The collector keeps its pace: the response \<open>n\<close> is not delivered before \<open>n\<close> timeouts have passed.\<close>

lemma collector_pace:
  "runCollector url prev tick trs \<Longrightarrow> n < length trs \<Longrightarrow> tick + int n * heightCollectorTimeout \<le> fst (trs ! n)"
proof (induction arbitrary: n rule: runCollector.induct)
  case (collector_sends prev began tick t hc response rest)
  then show ?case by (cases n) (auto simp: algebra_simps)
qed simp

text \<open>So at most one response comes per minute, and one more.\<close>

lemma collector_bound:
  assumes "runCollector url now now trs" "\<forall>(t, response) \<in> set trs. t \<le> now + d"
  shows "int (length trs) \<le> d div Minute + 1 \<or> trs = []"
proof (cases trs rule: rev_cases)
  case (snoc us tr)
  from collector_pace [OF assms(1), of "length us"] assms(2) snoc
  have "int (length us) * Minute \<le> d" by (cases tr) (auto simp: heightCollectorTimeout_def nth_append)
  then have "int (length us) \<le> d div Minute"
    using zdiv_mono1 [of "int (length us) * Minute" d Minute] by (simp add: Minute_def Second_def)
  with snoc show ?thesis by simp
qed simp

section \<open>The stuck alert\<close>

lemma l2_step_clock: "l2_step gw node st e out st' \<Longrightarrow> l2_clock st \<le> L2Event_time e \<and> l2_clock st' = L2Event_time e"
  by (induction rule: l2_step.induct) simp_all

text \<open>\<open>calm st es\<close>: every response after the last reset of the timer gave the last height.\<close>

definition calm :: "L2State \<Rightarrow> L2Event list \<Rightarrow> bool" where
  "calm st es \<longleftrightarrow> (\<forall>t r. HeightResponse t r \<in> set es \<longrightarrow> l2_timer st - l2NodesSameHeightTimerDuration < t \<longrightarrow>
     hc_err r = None \<and> hc_height r = l2_lastHeight st)"

lemma l2_step_calm:
  assumes "l2_step gw node st e out st'" "calm st es" "\<forall>e \<in> set es. L2Event_time e \<le> l2_clock st"
  shows "calm st' (es @ [e])"
  using assms
proof (induction rule: l2_step.induct)
  case (response_failed st t response err s out)
  then show ?case by (force simp: calm_def)
next
  case (response_height st t response s out)
  then show ?case by (force simp: calm_def new_height_def)
next
  case (timer_fired st t s1 out1 s2 out2)
  then show ?case by (force simp: calm_def)
qed

lemma analyzerLoop_calm:
  assumes "analyzerLoop gw node st es out st'" "calm st before" "\<forall>e \<in> set before. L2Event_time e \<le> l2_clock st"
  shows "calm st' (before @ es) \<and> (\<forall>e \<in> set (before @ es). L2Event_time e \<le> l2_clock st')"
  using assms
proof (induction arbitrary: before rule: analyzerLoop.induct)
  case (loop_event st e out1 st1 es out2 st2)
  from l2_step_calm [OF loop_event.hyps(1) loop_event.prems] have c: "calm st1 (before @ [e])" .
  have "\<forall>e' \<in> set (before @ [e]). L2Event_time e' \<le> l2_clock st1"
    using l2_step_clock [OF loop_event.hyps(1)] loop_event.prems(2) by fastforce
  from loop_event.IH [OF c this] show ?case by simp
qed simp

text \<open>
  C31: A stuck alert is justified. When the timer fires at time \<open>t\<close>, every answer of the node in
  the five minutes before was a success with the height that the alert names, and the alert is
  put with that height; a failed request or a new height restarts the five minutes.
\<close>

theorem stuck_alert_justified:
  assumes "analyzerLoop gw node (l2_start now) es out st" "l2_step gw node st (TimerFired t) out' st'"
  shows "(\<forall>u r. HeightResponse u r \<in> set es \<and> t - 5 * 60 * 1000000000 < u \<longrightarrow>
      hc_err r = None \<and> hc_height r = l2_lastHeight st) \<and>
    (\<forall>a \<in> set out'. (\<exists>b s. a = A_Fixed b s) \<or>
      a = A_L2Stuck \<lparr>l2_L2Height = l2_lastHeight st, l2_L2Node = l2n_Name node, l2_Timestamp = unix t\<rparr>)"
proof
  have "calm st es" using analyzerLoop_calm [OF assms(1), of "[]"] by (simp add: calm_def)
  moreover have "l2_timer st \<le> t" using assms(2) by (auto simp: l2_step_simps)
  ultimately show "\<forall>u r. HeightResponse u r \<in> set es \<and> t - 5 * 60 * 1000000000 < u \<longrightarrow>
      hc_err r = None \<and> hc_height r = l2_lastHeight st"
    by (force simp: calm_def l2NodesSameHeightTimerDuration_def Minute_def Second_def)
  from assms(2) show "\<forall>a \<in> set out'. (\<exists>b s. a = A_Fixed b s) \<or>
      a = A_L2Stuck \<lparr>l2_L2Height = l2_lastHeight st, l2_L2Node = l2n_Name node, l2_Timestamp = unix t\<rparr>"
    by (auto elim!: vacuumAlerts.cases simp: l2_step_simps putAndSendAlert_def NewL2StuckAlert_def in_set_zip
        split: prod.splits if_splits)
qed

section \<open>The alerts storage of the watchdog\<close>

fun l2_ops :: "L2Node \<Rightarrow> L2Event \<Rightarrow> uint64 \<Rightarrow> Alert store_op list" where
  "l2_ops node (HeightResponse t r) h =
     (case hc_err r of Some err \<Rightarrow> [OpPut (failed_alert (l2n_Name node) t err)] | None \<Rightarrow> [OpVacuum])"
| "l2_ops node (TimerFired t) h = [OpPut (A_L2Stuck (NewL2StuckAlert (unix t) h (l2n_Name node))), OpVacuum]"

lemma vacuumAlerts_run:
  assumes "vacuumAlerts s s' out"
  shows "\<exists>outs. as_run gw s [OpVacuum] outs s' \<and> weave outs out \<and> (\<forall>x \<in> set outs. is_Fixed x)"
  using assms
proof (cases rule: vacuumAlerts.cases)
  case (vacuumed ks vacuumedAlerts stamps)
  have "as_run gw s [OpVacuum] (map Fixed vacuumedAlerts @ []) s'"
    using run_Vacuum [of vacuum_order s ks Vacuum s' vacuumedAlerts "PutAlert gw" "[]" "[]" s'] vacuumed(2,3)
    by (simp add: run_Nil)
  moreover have "weave (map Fixed fs) (map2 A_Fixed ts fs)" if "length ts = length fs" for ts fs
    using that by (induction ts fs rule: list_induct2) (auto intro: weave.intros)
  ultimately show ?thesis using vacuumed(1,4) by (intro exI [of _ "map Fixed vacuumedAlerts @ []"]) auto
qed

lemma putAndSend_run:
  assumes "putAndSendAlert gw s a = (s', out)" "\<forall>t b. a \<noteq> A_Fixed t b"
  shows "\<exists>x. as_run gw s [OpPut a] [x] s' \<and> weave [x] out"
proof -
  obtain b where b: "PutAlert gw s a = (s', b)" "out = (if b then [a] else [])"
    using assms(1) by (auto simp: putAndSendAlert_def split: prod.splits)
  have "as_run gw s [OpPut a] [if b then Sent a else Held a] s'" by (rule run_Put [of "PutAlert gw", OF b(1) run_Nil])
  moreover have "weave [if b then Sent a else Held a] out" using assms(2) b(2) by (auto intro: weave.intros)
  ultimately show ?thesis by blast
qed

lemma l2_step_run:
  assumes "l2_step gw node st e out st'"
  shows "\<exists>outs. as_run gw (l2_alerts st) (l2_ops node e (l2_lastHeight st)) outs (l2_alerts st') \<and> weave outs out"
  using assms
proof (induction rule: l2_step.induct)
  case (response_failed st t response err s out)
  from putAndSend_run [OF response_failed(3)] show ?case by (auto simp: response_failed failed_alert_def)
next
  case (response_height st t response s out)
  from vacuumAlerts_run [OF response_height(3)] show ?case by (auto simp: response_height)
next
  case (timer_fired st t s1 out1 s2 out2)
  from putAndSend_run [OF timer_fired(3)] obtain x where
    1: "as_run gw (l2_alerts st) [OpPut (A_L2Stuck (NewL2StuckAlert (unix t) (l2_lastHeight st) (l2n_Name node)))] [x] s1"
      "weave [x] out1" by auto
  from vacuumAlerts_run [OF timer_fired(4)] obtain outs where 2: "as_run gw s1 [OpVacuum] outs s2" "weave outs out2" by blast
  from store_run_append [OF 1(1) 2(1)] weave_append [OF 1(2) 2(2)] show ?case by auto
qed

lemma analyzerLoop_run:
  assumes "analyzerLoop gw node st es out st'"
  shows "\<exists>ops outs. as_run gw (l2_alerts st) ops outs (l2_alerts st') \<and> weave outs out"
  using assms
proof (induction rule: analyzerLoop.induct)
  case (loop_done st)
  then show ?case by (blast intro: run_Nil weave_Nil)
next
  case (loop_event st e out1 st1 es out2 st2)
  then show ?case using l2_step_run [OF loop_event.hyps(1)] by (metis store_run_append weave_append)
qed

lemma l2_start_alerts [simp]:
  "storage_ok gw (l2_alerts (l2_start now))" "confirmed_ids (l2_alerts (l2_start now)) = {}"
  "as_alertVacuumQuota (l2_alerts (l2_start now)) = 8"
  by (simp_all add: l2_start_def NewAlertsStorage_def AlertVacuumQuota_def AlertConfirmations_def newAlertsStorage_def
      storage_ok_def confirmed_ids_def defaultAlertVacuumQuota_def l2NodesSameHeightTimerDuration_def
      heightCollectorTimeout_def Minute_def Second_def)

text \<open>
  The watchdog reports an alert as fixed only after it sent an alert with the same id, and not
  twice for one sending, whatever the node answers and whenever the timer fires.
\<close>

lemma l2_fixed_after_sent:
  assumes "analyzerLoop gw node (l2_start now) es (xs @ A_Fixed ts a # ys) st"
  shows "\<exists>us b vs. xs = us @ b # vs \<and> (\<forall>ts' c. b \<noteq> A_Fixed ts' c) \<and> Alert_ID gw b = Alert_ID gw a \<and>
    (\<forall>ts' c. A_Fixed ts' c \<in> set vs \<longrightarrow> Alert_ID gw c \<noteq> Alert_ID gw a)"
proof -
  from analyzerLoop_run [OF assms] obtain ops outs where
    "as_run gw (l2_alerts (l2_start now)) ops outs (l2_alerts st)" "weave outs (xs @ A_Fixed ts a # ys)" by blast
  then show ?thesis by (rule weave_fixed_after_sent) simp_all
qed

section \<open>A stuck node that recovers\<close>

fun good_response :: "L2Event \<Rightarrow> bool" where
  "good_response (HeightResponse t r) = (hc_err r = None)"
| "good_response (TimerFired t) = False"

text \<open>The alerts of one id, and the reports that they are fixed.\<close>

fun concerns :: "gowaves \<Rightarrow> Digest \<Rightarrow> Alert \<Rightarrow> bool" where
  "concerns gw d (A_Fixed ts a) = (Alert_ID gw a = d)"
| "concerns gw d a = (Alert_ID gw a = d)"

lemma concerns_id: "\<forall>ts b. a \<noteq> A_Fixed ts b \<Longrightarrow> concerns gw d a = (Alert_ID gw a = d)"
  by (cases a) simp_all

abbreviation l2_cell :: "L2State \<Rightarrow> Digest \<Rightarrow> cell" where
  "l2_cell st d \<equiv> as_internalStorage (l2_alerts st) d"

text \<open>No alert about a failed request has the id \<open>d\<close>.\<close>

definition never_failed_id :: "gowaves \<Rightarrow> L2Node \<Rightarrow> Digest \<Rightarrow> bool" where
  "never_failed_id gw node d \<longleftrightarrow> (\<forall>t err. Alert_ID gw (failed_alert (l2n_Name node) t err) \<noteq> d)"

text \<open>The storage of a watchdog: its options stay those of the start.\<close>

definition watchdog_ok :: "gowaves \<Rightarrow> L2State \<Rightarrow> bool" where
  "watchdog_ok gw st \<longleftrightarrow> storage_ok gw (l2_alerts st) \<and> (\<exists>m. l2_alerts st = with_cells (l2_alerts (l2_start 0)) m)"

lemma watchdog_ok_start [simp]: "watchdog_ok gw (l2_start now)"
proof -
  have "l2_alerts (l2_start now) = with_cells (l2_alerts (l2_start 0)) (as_internalStorage (l2_alerts (l2_start 0)))"
    by (simp add: l2_start_def)
  then show ?thesis unfolding watchdog_ok_def by (metis l2_start_alerts(1))
qed

lemma watchdog_ok_step: "l2_step gw node st e out st' \<Longrightarrow> watchdog_ok gw st \<Longrightarrow> watchdog_ok gw st'"
  using l2_step_run as.run_inv as_run_cell unfolding watchdog_ok_def by (metis with_cells_simps(5))

lemma watchdog_ok_loop: "analyzerLoop gw node st es out st' \<Longrightarrow> watchdog_ok gw st \<Longrightarrow> watchdog_ok gw st'"
  by (induction rule: analyzerLoop.induct) (auto intro: watchdog_ok_step)

lemma watchdog_put:
  assumes "watchdog_ok gw st" "\<forall>i. c = Some i \<longrightarrow> ai_confirmed i" "Alert_Type a \<noteq> SimpleAlertType"
  shows "\<exists>i b. put_cell (l2_alerts st) c a = (Some i, b) \<and> ai_confirmed i \<and> ai_vacuumQuota i = 8 \<and> ai_alert i = Some a \<and>
    (c = None \<longrightarrow> b)"
  using assms
  by (cases c) (auto simp: watchdog_ok_def put_cell_def Let_def zeroAlertInfo_def l2_start_def NewAlertsStorage_def
    AlertVacuumQuota_def AlertConfirmations_def newAlertsStorage_def newAlertConfirmations_def map_get_def
    defaultAlertVacuumQuota_def l2NodesSameHeightTimerDuration_def heightCollectorTimeout_def Minute_def Second_def)

lemma put_effect:
  assumes "putAndSendAlert gw s a = (s', out)"
  shows "s' = fst (PutAlert gw s a)"
    and "as_internalStorage s' = (as_internalStorage s)(Alert_ID gw a := fst (put_cell s (as_internalStorage s (Alert_ID gw a)) a))"
    and "out = (if snd (put_cell s (as_internalStorage s (Alert_ID gw a)) a) then [a] else [])"
proof -
  obtain c b where "put_cell s (as_internalStorage s (Alert_ID gw a)) a = (c, b)" by fastforce
  with assms show "s' = fst (PutAlert gw s a)"
    "as_internalStorage s' = (as_internalStorage s)(Alert_ID gw a := fst (put_cell s (as_internalStorage s (Alert_ID gw a)) a))"
    "out = (if snd (put_cell s (as_internalStorage s (Alert_ID gw a)) a) then [a] else [])"
    by (auto simp: putAndSendAlert_def PutAlert_cell Let_def)
qed

text \<open>What one step does to the cell of one id.\<close>

lemma filter_fixed:
  "length ts = length fs \<Longrightarrow>
    \<exists>us. length us = length (filter (\<lambda>a. Alert_ID gw a = d) fs) \<and>
      filter (concerns gw d) (map2 A_Fixed ts fs) = map2 A_Fixed us (filter (\<lambda>a. Alert_ID gw a = d) fs)"
proof (induction ts fs rule: list_induct2)
  case (Cons t ts f fs)
  then obtain us where "length us = length (filter (\<lambda>a. Alert_ID gw a = d) fs)"
    "filter (concerns gw d) (map2 A_Fixed ts fs) = map2 A_Fixed us (filter (\<lambda>a. Alert_ID gw a = d) fs)" by blast
  then show ?case by (intro exI [of _ "if Alert_ID gw f = d then t # us else us"]) simp
qed simp

lemma vacuum_step:
  assumes "vacuumAlerts s s' out" "storage_ok gw s"
  shows "as_internalStorage s' d = fst (vacuum_cell (as_internalStorage s d))"
    and "\<exists>us. length us = length (List.map_filter id (snd (vacuum_cell (as_internalStorage s d)))) \<and>
      filter (concerns gw d) out = map2 A_Fixed us (List.map_filter id (snd (vacuum_cell (as_internalStorage s d))))"
proof -
  from assms(1) obtain ks fs ts where v: "vacuum_order s ks" "Vacuum ks s = (s', map Some fs)" "length ts = length fs"
    "out = map2 A_Fixed ts fs" by (cases rule: vacuumAlerts.cases) blast
  then show "as_internalStorage s' d = fst (vacuum_cell (as_internalStorage s d))"
    by (simp add: Vacuum_cells [OF v(1)] flip: v(2)) (metis fst_conv v(2) Vacuum_cells [OF v(1)] with_cells_simps(1))
  from vacuum_proj [OF assms(2) v(1,2), of d]
  have "filter (\<lambda>a. Alert_ID gw a = d) fs = List.map_filter id (snd (vacuum_cell (as_internalStorage s d)))"
    by (simp add: filter_map comp_def inj_map_eq_map inj_def)
  with filter_fixed [OF v(3), of gw d] v(4)
  show "\<exists>us. length us = length (List.map_filter id (snd (vacuum_cell (as_internalStorage s d)))) \<and>
      filter (concerns gw d) out = map2 A_Fixed us (List.map_filter id (snd (vacuum_cell (as_internalStorage s d))))"
    by simp
qed

lemma failed_step:
  assumes "l2_step gw node st (HeightResponse t r) out st'" "hc_err r = Some err" "never_failed_id gw node d"
  shows "l2_cell st' d = l2_cell st d \<and> filter (concerns gw d) out = []"
proof -
  define a where "a = failed_alert (l2n_Name node) t err"
  have a: "Alert_ID gw a \<noteq> d" "\<not> concerns gw d a"
    using assms(3) by (auto simp: never_failed_id_def a_def concerns_id failed_alert_def)
  from assms(1,2) have "putAndSendAlert gw (l2_alerts st) a = (l2_alerts st', out)"
    by (auto simp: l2_step_simps a_def)
  with a put_effect [OF this] show ?thesis by simp
qed

lemma good_step:
  assumes "l2_step gw node st (HeightResponse t r) out st'" "hc_err r = None"
  shows "vacuumAlerts (l2_alerts st) (l2_alerts st') out"
  using assms by (auto simp: l2_step_simps)

lemma timer_step:
  assumes "l2_step gw node st (TimerFired t) out st'" "watchdog_ok gw st"
    and a: "a = A_L2Stuck (NewL2StuckAlert (unix t) (l2_lastHeight st) (l2n_Name node))"
    and d: "d = Alert_ID gw a" and conf: "\<forall>i. l2_cell st d = Some i \<longrightarrow> ai_confirmed i"
  shows "(\<exists>i. l2_cell st' d = Some i \<and> ai_confirmed i \<and> ai_vacuumQuota i = 7 \<and> ai_alert i = Some a) \<and>
    filter (concerns gw d) out \<in> {[], [a]} \<and> (l2_cell st d = None \<longrightarrow> filter (concerns gw d) out = [a])"
proof -
  from assms(1) obtain s1 out1 out2 where s: "putAndSendAlert gw (l2_alerts st) a = (s1, out1)"
    "vacuumAlerts s1 (l2_alerts st') out2" "out = out1 @ out2" by (auto simp: l2_step_simps a)
  have "Alert_Type a \<noteq> SimpleAlertType" by (simp add: a AlertType_defs)
  from watchdog_put [OF assms(2) conf this] obtain i b where
    i: "put_cell (l2_alerts st) (l2_cell st d) a = (Some i, b)" "ai_confirmed i" "ai_vacuumQuota i = 8" "ai_alert i = Some a"
      "l2_cell st d = None \<longrightarrow> b" by (elim exE conjE) (rule that)
  with put_effect [OF s(1)] d have s1: "as_internalStorage s1 d = Some i" "out1 = (if b then [a] else [])"
    "s1 = fst (PutAlert gw (l2_alerts st) a)" by simp_all
  have "storage_ok gw s1" unfolding s1(3) by (rule as.inv_put) (use assms(2) in \<open>simp add: watchdog_ok_def\<close>)
  note v = vacuum_step [OF s(2) this, of d]
  have cell: "vacuum_cell (Some i) = (Some (i\<lparr>ai_vacuumQuota := 7\<rparr>), [])" by (simp add: vacuum_cell_def i(3))
  from v(2) have "filter (concerns gw d) out2 = []" by (simp add: s1(1) cell)
  moreover have "filter (concerns gw d) out1 = out1" using d concerns_id [of a gw d] by (simp add: s1(2) a)
  ultimately have "filter (concerns gw d) out = (if b then [a] else [])" by (simp add: s(3) s1(2))
  with v(1) i show ?thesis by (simp add: s1(1) cell)
qed

text \<open>Entries of stuck alerts are confirmed, and one of their alerts was sent.\<close>

lemma step_confirmed:
  assumes "l2_step gw node st e out st'" "watchdog_ok gw st" "never_failed_id gw node d"
    and "\<forall>i. l2_cell st d = Some i \<longrightarrow> ai_confirmed i"
  shows "\<forall>i. l2_cell st' d = Some i \<longrightarrow> ai_confirmed i \<and> (l2_cell st d = None \<longrightarrow> (\<exists>b \<in> set out. concerns gw d b))"
proof (cases e)
  case (HeightResponse t r)
  show ?thesis
  proof (cases "hc_err r")
    case None
    with HeightResponse good_step assms(1) have "vacuumAlerts (l2_alerts st) (l2_alerts st') out" by blast
    moreover have "storage_ok gw (l2_alerts st)" using assms(2) by (simp add: watchdog_ok_def)
    ultimately have c: "l2_cell st' d = fst (vacuum_cell (l2_cell st d))" by (rule vacuum_step)
    then show ?thesis using assms(4) by (cases "l2_cell st d") (auto dest: vacuum_cell_alert)
  next
    case (Some err)
    with HeightResponse failed_step [OF _ Some assms(3)] assms(1,4) show ?thesis by auto
  qed
next
  case (TimerFired t)
  let ?a = "A_L2Stuck (NewL2StuckAlert (unix t) (l2_lastHeight st) (l2n_Name node))"
  show ?thesis
  proof (cases "Alert_ID gw ?a = d")
    case True
    have "\<exists>b \<in> set out. concerns gw d b" if "filter (concerns gw d) out = [?a]"
    proof -
      from that have "?a \<in> set (filter (concerns gw d) out)" by simp
      then show ?thesis unfolding set_filter by blast
    qed
    then show ?thesis
      using timer_step [OF assms(1) [unfolded TimerFired] assms(2) refl True [symmetric] assms(4)] by auto
  next
    case False
    from assms(1) obtain s1 out1 out2 where s: "putAndSendAlert gw (l2_alerts st) ?a = (s1, out1)"
      "vacuumAlerts s1 (l2_alerts st') out2" by (auto simp: l2_step_simps TimerFired)
    from put_effect [OF s(1)] False have s1: "as_internalStorage s1 d = l2_cell st d" "s1 = fst (PutAlert gw (l2_alerts st) ?a)"
      by simp_all
    have "storage_ok gw s1" unfolding s1(2) by (rule as.inv_put) (use assms(2) in \<open>simp add: watchdog_ok_def\<close>)
    from vacuum_step(1) [OF s(2) this] s1(1) assms(4) show ?thesis
      by (cases "l2_cell st d") (auto dest: vacuum_cell_alert)
  qed
qed

lemma loop_confirmed:
  assumes "analyzerLoop gw node st es out st'" "watchdog_ok gw st" "never_failed_id gw node d"
    and "\<forall>i. l2_cell st d = Some i \<longrightarrow> ai_confirmed i"
  shows "\<forall>i. l2_cell st' d = Some i \<longrightarrow> ai_confirmed i \<and> (l2_cell st d = None \<longrightarrow> (\<exists>b \<in> set out. concerns gw d b))"
  using assms
proof (induction rule: analyzerLoop.induct)
  case (loop_event st e out1 st1 es out2 st2)
  note s = step_confirmed [OF loop_event.hyps(1) loop_event.prems]
  from loop_event.IH [OF watchdog_ok_step [OF loop_event.hyps(1) loop_event.prems(1)] assms(3)] s
  show ?case by (cases "l2_cell st1 d") auto
qed simp

text \<open>Between two firings of the timer only good answers use up the quota.\<close>

lemma calm_run_None:
  assumes "analyzerLoop gw node st es out st'" "\<forall>t. TimerFired t \<notin> set es" "watchdog_ok gw st" "never_failed_id gw node d"
    and "l2_cell st d = None"
  shows "filter (concerns gw d) out = []"
  using assms
proof (induction rule: analyzerLoop.induct)
  case (loop_event st e out1 st1 es out2 st2)
  then obtain t r where e: "e = HeightResponse t r" by (cases e) auto
  have "l2_cell st1 d = None \<and> filter (concerns gw d) out1 = []"
  proof (cases "hc_err r")
    case None
    from vacuum_step [OF good_step [OF loop_event.hyps(1) [unfolded e] None], of gw d] loop_event.prems(2,4)
    show ?thesis by (simp add: watchdog_ok_def)
  next
    case (Some err)
    with failed_step [OF loop_event.hyps(1) [unfolded e] Some assms(4)] loop_event.prems(4) show ?thesis by simp
  qed
  with loop_event.IH watchdog_ok_step [OF loop_event.hyps(1)] loop_event.prems show ?case by simp
qed simp

lemma calm_run_Some:
  assumes "analyzerLoop gw node st es out st'" "\<forall>t. TimerFired t \<notin> set es" "watchdog_ok gw st" "never_failed_id gw node d"
    and "l2_cell st d = Some i" "1 \<le> ai_vacuumQuota i" "ai_vacuumQuota i < 2 ^ 63" "ai_alert i = Some a" "ai_confirmed i"
  shows "if int (length (filter good_response es)) < ai_vacuumQuota i then filter (concerns gw d) out = []
    else (\<exists>ts. filter (concerns gw d) out = [A_Fixed ts a])"
  using assms
proof (induction arbitrary: i rule: analyzerLoop.induct)
  case (loop_event st e out1 st1 es out2 st2)
  then obtain t r where e: "e = HeightResponse t r" by (cases e) auto
  have rest: "\<forall>t. TimerFired t \<notin> set es" and ok: "watchdog_ok gw st1" "storage_ok gw (l2_alerts st)"
    using loop_event.prems watchdog_ok_step [OF loop_event.hyps(1)] by (simp_all add: watchdog_ok_def)
  show ?case
  proof (cases "hc_err r")
    case (Some err)
    with failed_step [OF loop_event.hyps(1) [unfolded e] Some assms(4)] loop_event.IH [OF rest ok(1) assms(4), of i]
      loop_event.prems show ?thesis by (simp add: e)
  next
    case None
    note v = vacuum_step [OF good_step [OF loop_event.hyps(1) [unfolded e] None] ok(2), of d]
    have w: "wrap64 (ai_vacuumQuota i - 1) = ai_vacuumQuota i - 1" using loop_event.prems(5,6) by simp
    show ?thesis
    proof (cases "ai_vacuumQuota i = 1")
      case True
      then have "vacuum_cell (l2_cell st d) = (None, [Some a])" using loop_event.prems by (simp add: vacuum_cell_def)
      with v have "l2_cell st1 d = None" "\<exists>ts. filter (concerns gw d) out1 = [A_Fixed ts a]"
        by (auto simp: List.map_filter_def length_Suc_conv)
      with calm_run_None [OF loop_event.hyps(2) rest ok(1) assms(4)] True show ?thesis by (auto simp: e None)
    next
      case False
      let ?i = "i\<lparr>ai_vacuumQuota := ai_vacuumQuota i - 1\<rparr>"
      have "vacuum_cell (l2_cell st d) = (Some ?i, [])" using loop_event.prems(4,5) w False by (simp add: vacuum_cell_def)
      with v loop_event.IH [OF rest ok(1) assms(4), of ?i] loop_event.prems(5-8) False show ?thesis
        by (auto simp: e None)
    qed
  qed
qed simp

text \<open>Whatever the state of the watchdog, it can take the next good answer.\<close>

lemma good_run_exists:
  assumes "storage_ok gw (l2_alerts st)" "\<forall>e \<in> set es. good_response e"
    and "sorted (map L2Event_time es)" "\<forall>e \<in> set es. l2_clock st \<le> L2Event_time e"
  shows "\<exists>out st'. analyzerLoop gw node st es out st'"
  using assms
proof (induction es arbitrary: st)
  case Nil
  then show ?case by (blast intro: loop_done)
next
  case (Cons e es)
  then obtain t r where e: "e = HeightResponse t r" "hc_err r = None" by (cases e) auto
  from as.ord_ex [OF Cons.prems(1)] obtain ks where ks: "vacuum_order (l2_alerts st) ks" by blast
  from as.vac_fixed [OF Cons.prems(1) ks] obtain s fs where v: "Vacuum ks (l2_alerts st) = (s, map Some fs)"
    by (metis surjective_pairing)
  have ok: "storage_ok gw s" using as.inv_vac [OF Cons.prems(1) ks] v by simp
  let ?st = "(new_height st t (hc_height r))\<lparr>l2_clock := t, l2_alerts := s\<rparr>"
  have "vacuumAlerts (l2_alerts st) s (map2 A_Fixed (replicate (length fs) t) fs)"
    by (rule vacuumed [OF ks v]) simp
  with response_height e Cons.prems(4) have 1: "l2_step gw node st e (map2 A_Fixed (replicate (length fs) t) fs) ?st"
    by simp
  have "\<exists>out st'. analyzerLoop gw node ?st es out st'"
    by (rule Cons.IH) (use Cons.prems ok e in auto)
  with loop_event [OF 1] show ?case by blast
qed

lemma timer_exists:
  assumes "storage_ok gw (l2_alerts st)" "l2_clock st \<le> t" "l2_timer st \<le> t"
  shows "\<exists>out st'. l2_step gw node st (TimerFired t) out st' \<and> l2_clock st' = t \<and> storage_ok gw (l2_alerts st')"
proof -
  let ?a = "A_L2Stuck (NewL2StuckAlert (unix t) (l2_lastHeight st) (l2n_Name node))"
  obtain s1 out1 where p: "putAndSendAlert gw (l2_alerts st) ?a = (s1, out1)" by fastforce
  then obtain b where "PutAlert gw (l2_alerts st) ?a = (s1, b)"
    by (auto simp: putAndSendAlert_def split: prod.splits)
  with as.inv_put [OF assms(1), of ?a] have ok: "storage_ok gw s1" by simp
  from as.ord_ex [OF ok] obtain ks where ks: "vacuum_order s1 ks" by blast
  from as.vac_fixed [OF ok ks] obtain s2 fs where v: "Vacuum ks s1 = (s2, map Some fs)" by (metis surjective_pairing)
  have "storage_ok gw s2" using as.inv_vac [OF ok ks] v by simp
  moreover have "vacuumAlerts s1 s2 (map2 A_Fixed (replicate (length fs) 300) fs)" by (rule vacuumed [OF ks v]) simp
  ultimately show ?thesis using timer_fired [OF assms(2,3) p] by fastforce
qed

text \<open>
  C32: A stuck node that recovers. Whatever happened before, let the timer of the watchdog fire,
  and let the collector then answer any number of times before it fires again. If no alert with
  the id of the stuck alert was seen before, the stuck alert is sent at once, and otherwise at
  most once, as the storage has it; and exactly the seventh good answer after the timer reports
  it as fixed, once, with the height at which the node was stuck. Failed requests in between do not
  count. No alert about a failed request is taken to have the id of the stuck alert.
\<close>

theorem l2_stuck_reported_fixed:
  assumes "analyzerLoop gw node (l2_start now) pre out0 st0"
    and "analyzerLoop gw node st0 (TimerFired t # es) out st" "\<forall>u. TimerFired u \<notin> set es"
    and "a = A_L2Stuck (NewL2StuckAlert (unix t) (l2_lastHeight st0) (l2n_Name node))" "d = Alert_ID gw a"
    and "never_failed_id gw node d"
  shows "\<exists>sent. sent \<in> {[], [a]} \<and> ((\<forall>b \<in> set out0. \<not> concerns gw d b) \<longrightarrow> sent = [a]) \<and>
    (if length (filter good_response es) < 7 then filter (concerns gw d) out = sent
     else (\<exists>ts. filter (concerns gw d) out = sent @ [A_Fixed ts a]))"
proof -
  from assms(2) obtain out1 st1 out2 where step: "l2_step gw node st0 (TimerFired t) out1 st1"
    and rest: "analyzerLoop gw node st1 es out2 st" and out: "out = out1 @ out2"
    by (auto simp: analyzerLoop_simps)
  have ok: "watchdog_ok gw st0" using watchdog_ok_loop [OF assms(1)] by simp
  have none: "l2_cell (l2_start now) d = None"
    by (simp add: l2_start_def NewAlertsStorage_def AlertVacuumQuota_def AlertConfirmations_def newAlertsStorage_def)
  from loop_confirmed [OF assms(1) watchdog_ok_start assms(6)] none
  have conf: "\<forall>i. l2_cell st0 d = Some i \<longrightarrow> ai_confirmed i \<and> (\<exists>b \<in> set out0. concerns gw d b)" by simp
  then have "\<forall>i. l2_cell st0 d = Some i \<longrightarrow> ai_confirmed i" by simp
  note timer = timer_step [OF step ok assms(4,5) this]
  from conjunct1 [OF timer] obtain i where
    i: "l2_cell st1 d = Some i" "ai_confirmed i" "ai_vacuumQuota i = 7" "ai_alert i = Some a" by (elim exE conjE) (rule that)
  from conjunct2 [OF timer] have sent: "filter (concerns gw d) out1 \<in> {[], [a]}"
    "l2_cell st0 d = None \<longrightarrow> filter (concerns gw d) out1 = [a]" by simp_all
  have now: "(\<forall>b \<in> set out0. \<not> concerns gw d b) \<longrightarrow> filter (concerns gw d) out1 = [a]"
    using sent(2) conf by (metis option.exhaust)
  have calm: "if length (filter good_response es) < 7 then filter (concerns gw d) out2 = []
      else (\<exists>ts. filter (concerns gw d) out2 = [A_Fixed ts a])"
    using calm_run_Some [OF rest assms(3) watchdog_ok_step [OF step ok] assms(6) i(1) _ _ i(4,2)] by (simp add: i(3))
  have "if length (filter good_response es) < 7 then filter (concerns gw d) out = filter (concerns gw d) out1
      else (\<exists>ts. filter (concerns gw d) out = filter (concerns gw d) out1 @ [A_Fixed ts a])"
    using calm unfolding out by (simp split: if_splits)
  with sent(1) now show ?thesis by blast
qed

text \<open>
  A run for the witnesses: the first answer comes late, the height stays the same, the timer fires
  and the node answers again.
\<close>

abbreviation demo_l2node :: L2Node where
  "demo_l2node \<equiv> \<lparr>l2n_URL = ''u'', l2n_Name = ''n''\<rparr>"

definition demo_answer :: "int \<Rightarrow> L2Event" where
  "demo_answer t = HeightResponse t \<lparr>hc_height = 5, hc_err = None\<rparr>"

lemma demo_answer_simps [simp]: "good_response (demo_answer t)" "L2Event_time (demo_answer t) = t" "demo_answer t \<noteq> TimerFired u"
  by (simp_all add: demo_answer_def)

lemma demo_recovery:
  "\<exists>st0 out st. analyzerLoop demo_gowaves demo_l2node (l2_start 0) [demo_answer 300000000000] [] st0 \<and> l2_lastHeight st0 = 5 \<and>
    analyzerLoop demo_gowaves demo_l2node st0 (TimerFired 600000000000 # replicate n (demo_answer 600000000000)) out st"
proof -
  have "\<exists>out st. analyzerLoop demo_gowaves demo_l2node (l2_start 0) [demo_answer 300000000000] out st"
    by (rule good_run_exists) (simp_all, simp add: l2_start_def)
  then obtain out0 st0 where r: "analyzerLoop demo_gowaves demo_l2node (l2_start 0) [demo_answer 300000000000] out0 st0" by blast
  then obtain o1 where s: "l2_step demo_gowaves demo_l2node (l2_start 0) (demo_answer 300000000000) o1 st0" "out0 = o1"
    by (auto simp: analyzerLoop_simps)
  then have st: "l2_clock st0 = 300000000000" "l2_timer st0 = 600000000000" "l2_lastHeight st0 = 5"
    and v: "vacuumAlerts (l2_alerts (l2_start 0)) (l2_alerts st0) o1"
    by (auto simp: demo_answer_def new_height_def l2_start_def l2NodesSameHeightTimerDuration_def Minute_def Second_def
        l2_step_simps)
  have "as_internalStorage (l2_alerts (l2_start 0)) = (\<lambda>_. None)"
    by (simp add: l2_start_def NewAlertsStorage_def AlertVacuumQuota_def AlertConfirmations_def newAlertsStorage_def)
  with v have "out0 = []" by (auto elim!: vacuumAlerts.cases simp: iter_order_def Vacuum_def s(2))
  with r have r: "analyzerLoop demo_gowaves demo_l2node (l2_start 0) [demo_answer 300000000000] [] st0" by simp
  have "storage_ok demo_gowaves (l2_alerts st0)" using watchdog_ok_loop [OF r watchdog_ok_start] by (simp add: watchdog_ok_def)
  from timer_exists [OF this, of 600000000000 demo_l2node] st obtain out1 st1 where
    1: "l2_step demo_gowaves demo_l2node st0 (TimerFired 600000000000) out1 st1"
      "l2_clock st1 = 600000000000" "storage_ok demo_gowaves (l2_alerts st1)" by auto
  have "\<exists>out st'. analyzerLoop demo_gowaves demo_l2node st1 (replicate n (demo_answer 600000000000)) out st'"
    by (rule good_run_exists [OF 1(3)]) (simp_all add: 1(2))
  with loop_event [OF 1(1)] r st(3) show ?thesis by blast
qed

lemma demo_never_failed: "never_failed_id demo_gowaves demo_l2node (Alert_ID demo_gowaves (A_L2Stuck a))"
  by (simp add: never_failed_id_def failed_alert_def SimpleAlert_methods_def L2StuckAlert_methods_def demo_gowaves_def
      SimpleAlertName_def L2StuckAlertName_def)

theorem l2_stuck_reported_fixed_witness:
  "\<exists>st0 out st ts. analyzerLoop demo_gowaves demo_l2node (l2_start 0) [demo_answer 300000000000] [] st0 \<and>
    analyzerLoop demo_gowaves demo_l2node st0 (TimerFired 600000000000 # replicate 7 (demo_answer 600000000000)) out st \<and>
    filter (concerns demo_gowaves (Alert_ID demo_gowaves (A_L2Stuck (NewL2StuckAlert 600 5 ''n'')))) out =
      [A_L2Stuck (NewL2StuckAlert 600 5 ''n''), A_Fixed ts (A_L2Stuck (NewL2StuckAlert 600 5 ''n''))]"
proof -
  let ?a = "A_L2Stuck (NewL2StuckAlert 600 5 ''n'')"
  from demo_recovery [of 7] obtain st0 out st where
    r: "analyzerLoop demo_gowaves demo_l2node (l2_start 0) [demo_answer 300000000000] [] st0" "l2_lastHeight st0 = 5"
      "analyzerLoop demo_gowaves demo_l2node st0 (TimerFired 600000000000 # replicate 7 (demo_answer 600000000000)) out st"
    by blast
  have a: "?a = A_L2Stuck (NewL2StuckAlert (unix 600000000000) (l2_lastHeight st0) (l2n_Name demo_l2node))"
    by (simp add: r(2) unix_def Second_def)
  have no: "\<forall>u. TimerFired u \<notin> set (replicate 7 (demo_answer 600000000000))" by (auto dest: sym)
  from l2_stuck_reported_fixed [OF r(1,3) no a refl demo_never_failed] r show ?thesis by auto
qed

theorem stuck_alert_justified_witness:
  "\<exists>st out' st'. analyzerLoop demo_gowaves demo_l2node (l2_start 0) [demo_answer 300000000000] [] st \<and>
    l2_step demo_gowaves demo_l2node st (TimerFired 600000000000) out' st' \<and>
    (\<forall>a \<in> set out'. (\<exists>b s. a = A_Fixed b s) \<or>
      a = A_L2Stuck \<lparr>l2_L2Height = 5, l2_L2Node = ''n'', l2_Timestamp = 600\<rparr>)"
proof -
  from demo_recovery [of 0] obtain st out st2 where
    r: "analyzerLoop demo_gowaves demo_l2node (l2_start 0) [demo_answer 300000000000] [] st" "l2_lastHeight st = 5"
      "analyzerLoop demo_gowaves demo_l2node st [TimerFired 600000000000] out st2" by auto
  then obtain out' st' where t: "l2_step demo_gowaves demo_l2node st (TimerFired 600000000000) out' st'"
    by (auto simp: analyzerLoop_simps)
  from stuck_alert_justified [OF r(1) t] r t show ?thesis by (auto simp: unix_def Second_def)
qed

end
