(* ===== verification/L2Failures.thy ===== *)
theory L2Failures
  imports L2Policy
begin

text \<open>
  When the watchdog reports that a layer-2 node cannot be reached: the confirmations of the alerts
  storage and the pace of the collector together.
\<close>

section \<open>Confirmations\<close>

text \<open>What is stored for an id after \<open>k\<close> puts of alerts that need \<open>n\<close> confirmations.\<close>

definition confirmed_by :: "int \<Rightarrow> nat \<Rightarrow> cell \<Rightarrow> bool" where
  "confirmed_by n k c \<longleftrightarrow>
     (case c of None \<Rightarrow> True
      | Some i \<Rightarrow> 0 \<le> ai_repeats i \<and> ai_repeats i \<le> int k \<and> (ai_confirmed i \<longrightarrow> n \<le> int k))"

lemma confirmed_by_put:
  assumes "confirmed_by n k c" "1 < as_alertVacuumQuota s" "required s (Alert_Type a) = n" "k < 2 ^ 62"
    and "put_cell s c a = (c', b)"
  shows "confirmed_by n (Suc k) c' \<and> (b \<longrightarrow> n \<le> int (Suc k))"
proof (cases c)
  case None
  with assms show ?thesis
    by (auto simp: put_cell_def Let_def confirmed_by_def zeroAlertInfo_def)
next
  case (Some i)
  with assms(1,4) have w: "wrap64 (ai_repeats i + 1) = ai_repeats i + 1"
    by (auto simp: confirmed_by_def)
  from Some assms show ?thesis
    by (auto simp: put_cell_def Let_def confirmed_by_def w split: if_splits)
qed

lemma confirmed_by_vacuum: "confirmed_by n k c \<Longrightarrow> confirmed_by n k (fst (vacuum_cell c))"
  by (auto simp: confirmed_by_def vacuum_cell_def split: option.splits)

definition puts_of :: "gowaves \<Rightarrow> Digest \<Rightarrow> Alert store_op list \<Rightarrow> nat" where
  "puts_of gw d ops = length (filter (\<lambda>p. \<exists>a. p = OpPut a \<and> Alert_ID gw a = d) ops)"

lemma puts_of_simps [simp]:
  "puts_of gw d [] = 0" "puts_of gw d (OpVacuum # ops) = puts_of gw d ops"
  "puts_of gw d (OpPut a # ops) = (if Alert_ID gw a = d then 1 else 0) + puts_of gw d ops"
  "puts_of gw d (ops @ ops') = puts_of gw d ops + puts_of gw d ops'"
  by (simp_all add: puts_of_def)

lemma cell_run_sent:
  assumes "1 < as_alertVacuumQuota s" "confirmed_by n k c" "k + length ops < 2 ^ 62"
    and "\<forall>a. OpPut a \<in> set ops \<longrightarrow> Alert_ID gw a = d \<and> required s (Alert_Type a) = n" "Sent a \<in> set (snd (cell_run s c ops))"
  shows "n \<le> int (k + puts_of gw d ops)"
  using assms(2-)
proof (induction ops arbitrary: k c)
  case (Cons p ops)
  show ?case
  proof (cases p)
    case (OpPut e)
    obtain c1 b where c1: "put_cell s c e = (c1, b)" by fastforce
    from confirmed_by_put [OF Cons.prems(1) assms(1) _ _ c1] Cons.prems(2,3) OpPut
    have c1': "confirmed_by n (Suc k) c1" "b \<longrightarrow> n \<le> int (Suc k)" by simp_all
    show ?thesis
    proof (cases "Sent a \<in> set (snd (cell_run s c1 ops))")
      case True
      with Cons.IH [OF c1'(1)] Cons.prems(2,3) OpPut show ?thesis by auto
    next
      case False
      with Cons.prems(3,4) OpPut c1 c1'(2) show ?thesis by (auto split: prod.splits if_splits)
    qed
  next
    case OpVacuum
    then have "Sent a \<in> set (snd (cell_run s (fst (vacuum_cell c)) ops))"
      using Cons.prems(4) by (auto split: prod.splits)
    with Cons.IH [OF confirmed_by_vacuum [OF Cons.prems(1)]] Cons.prems(2,3) OpVacuum show ?thesis by auto
  qed
qed simp

text \<open>
  An alert is sent only when alerts with its id were put as often as its type requires: in a run from a
  storage that does not know the id, where all alerts with this id need \<open>n\<close> confirmations.
\<close>

lemma sent_needs_puts:
  assumes "as_run gw s ops outs s'" "storage_ok gw s" "as_internalStorage s (Alert_ID gw a) = None" "Sent a \<in> set outs"
    and "1 < as_alertVacuumQuota s" "length ops < 2 ^ 62"
    and "\<forall>b. OpPut b \<in> set ops \<and> Alert_ID gw b = Alert_ID gw a \<longrightarrow> required s (Alert_Type b) = n"
  shows "n \<le> int (puts_of gw (Alert_ID gw a) ops)"
proof -
  let ?d = "Alert_ID gw a"
  let ?ops = "filter (op_on gw ?d) ops"
  have run: "cell_run s None ?ops = (as_internalStorage s' ?d, filter (out_on gw ?d) outs)"
    using as_run_cell [OF assms(1,2), of ?d] assms(3) by simp
  have "n \<le> int (0 + puts_of gw ?d ?ops)"
  proof (rule cell_run_sent [OF assms(5)])
    show "Sent a \<in> set (snd (cell_run s None ?ops))" using assms(4) by (simp add: run)
    show "0 + length ?ops < 2 ^ 62" using assms(6) by (simp add: order.strict_trans1 [OF length_filter_le])
    show "\<forall>b. OpPut b \<in> set ?ops \<longrightarrow> Alert_ID gw b = ?d \<and> required s (Alert_Type b) = n" using assms(7) by simp
  qed (simp add: confirmed_by_def)
  moreover have "puts_of gw ?d ?ops = puts_of gw ?d ops"
    unfolding puts_of_def filter_filter by (rule arg_cong [of _ _ length], rule filter_cong) auto
  ultimately show ?thesis by simp
qed

section \<open>What the loop puts\<close>

definition failed_with :: "gowaves \<Rightarrow> L2Node \<Rightarrow> Digest \<Rightarrow> L2Event \<Rightarrow> bool" where
  "failed_with gw node d e \<longleftrightarrow> (\<exists>t r err. e = HeightResponse t r \<and> hc_err r = Some err \<and>
     Alert_ID gw (failed_alert (l2n_Name node) t err) = d)"

text \<open>The ids of the stuck alerts differ from \<open>d\<close>.\<close>

definition never_stuck_id :: "gowaves \<Rightarrow> L2Node \<Rightarrow> Digest \<Rightarrow> bool" where
  "never_stuck_id gw node d \<longleftrightarrow> (\<forall>t h. Alert_ID gw (A_L2Stuck (NewL2StuckAlert t h (l2n_Name node))) \<noteq> d)"

lemma l2_ops_puts:
  assumes "never_stuck_id gw node d"
  shows "puts_of gw d (l2_ops node e h) = (if failed_with gw node d e then 1 else 0)"
    and "OpPut b \<in> set (l2_ops node e h) \<Longrightarrow> Alert_ID gw b = d \<Longrightarrow> Alert_Type b = SimpleAlertType"
    and "length (l2_ops node e h) \<le> 2"
  using assms
  by (cases e; auto simp: failed_with_def never_stuck_id_def failed_alert_def split: option.splits)+

lemma analyzerLoop_puts:
  assumes "analyzerLoop gw node st es out st'" "never_stuck_id gw node d"
  shows "\<exists>ops outs. as_run gw (l2_alerts st) ops outs (l2_alerts st') \<and> weave outs out \<and> length ops \<le> 2 * length es \<and>
    puts_of gw d ops = length (filter (failed_with gw node d) es) \<and>
    (\<forall>b. OpPut b \<in> set ops \<and> Alert_ID gw b = d \<longrightarrow> Alert_Type b = SimpleAlertType)"
  using assms(1)
proof (induction rule: analyzerLoop.induct)
  case (loop_done st)
  show ?case by (intro exI [of _ "[]"]) (simp add: run_Nil weave_Nil)
next
  case (loop_event st e out1 st1 es out2 st2)
  from l2_step_run [OF loop_event.hyps(1)] obtain outs1 where
    1: "as_run gw (l2_alerts st) (l2_ops node e (l2_lastHeight st)) outs1 (l2_alerts st1)" "weave outs1 out1" by blast
  from loop_event.IH obtain ops outs where
    2: "as_run gw (l2_alerts st1) ops outs (l2_alerts st2)" "weave outs out2" "length ops \<le> 2 * length es"
      "puts_of gw d ops = length (filter (failed_with gw node d) es)"
      "\<forall>b. OpPut b \<in> set ops \<and> Alert_ID gw b = d \<longrightarrow> Alert_Type b = SimpleAlertType" by blast
  note puts = l2_ops_puts [OF assms(2), where e = e and h = "l2_lastHeight st"]
  show ?case
    using store_run_append [OF 1(1) 2(1)] weave_append [OF 1(2) 2(2)] 2(3-5) puts
    by (intro exI [of _ "l2_ops node e (l2_lastHeight st) @ ops"] exI [of _ "outs1 @ outs"]) auto
qed

lemma weave_shown: "weave outs out \<Longrightarrow> a \<in> set out \<Longrightarrow> a = A_Simple x \<Longrightarrow> Sent a \<in> set outs"
  by (induction rule: weave.induct) auto

lemma loop_times:
  "analyzerLoop gw node st es out st' \<Longrightarrow> l2_clock st \<le> l2_clock st' \<and> (\<forall>e \<in> set es. L2Event_time e \<le> l2_clock st')"
  by (induction rule: analyzerLoop.induct) (auto dest: l2_step_clock)

lemma loop_snoc:
  "analyzerLoop gw node st es out st1 \<Longrightarrow> l2_step gw node st1 e out' st2 \<Longrightarrow> analyzerLoop gw node st (es @ [e]) (out @ out') st2"
proof (induction rule: analyzerLoop.induct)
  case (loop_done st)
  then show ?case using analyzerLoop.loop_event [OF _ analyzerLoop.loop_done] by fastforce
next
  case (loop_event st e1 out1 st1 es out2 st2)
  then show ?case using analyzerLoop.loop_event by fastforce
qed

lemma responses_of: "failed_with gw node d e \<Longrightarrow> L2Event_response e \<noteq> None"
  by (auto simp: failed_with_def)

lemma length_responses: "length (filter (failed_with gw node d) es) \<le> length (List.map_filter L2Event_response es)"
  by (induction es) (auto simp: List.map_filter_def dest: responses_of)

lemma response_time: "(t, r) \<in> set (List.map_filter L2Event_response es) \<Longrightarrow> \<exists>e \<in> set es. L2Event_time e = t"
  by (force simp: List.map_filter_def elim: L2Event_response.elims)

section \<open>When a failure is reported\<close>

text \<open>
  C30: A node that cannot be reached is reported only after three failures. When the watchdog
  sends an alert about failed requests in the step of an event, three requests up to this event
  have failed with this message, and at least two minutes have passed since the start; no id of
  a stuck alert is taken to be the id of the alert.
\<close>

theorem l2_failure_confirmed:
  assumes "runCollector (l2n_URL node) now now (List.map_filter L2Event_response (es @ [e]))"
    and "analyzerLoop gw node (l2_start now) es out st" "l2_step gw node st e out' st'" "A_Simple a \<in> set out'"
    and "never_stuck_id gw node (Alert_ID gw (A_Simple a))" "length es < 2 ^ 60"
  shows "3 \<le> length (filter (failed_with gw node (Alert_ID gw (A_Simple a))) (es @ [e])) \<and> now + 2 * Minute \<le> L2Event_time e"
proof -
  let ?d = "Alert_ID gw (A_Simple a)"
  note run = loop_snoc [OF assms(2,3)]
  from analyzerLoop_puts [OF run assms(5)] obtain ops outs where
    r: "as_run gw (l2_alerts (l2_start now)) ops outs (l2_alerts st')" "weave outs (out @ out')"
      "length ops \<le> 2 * length (es @ [e])" "puts_of gw ?d ops = length (filter (failed_with gw node ?d) (es @ [e]))"
      "\<forall>b. OpPut b \<in> set ops \<and> Alert_ID gw b = ?d \<longrightarrow> Alert_Type b = SimpleAlertType" by blast
  have start: "as_internalStorage (l2_alerts (l2_start now)) ?d = None" "required (l2_alerts (l2_start now)) SimpleAlertType = 3"
    by (simp_all add: l2_start_def NewAlertsStorage_def AlertVacuumQuota_def AlertConfirmations_def newAlertsStorage_def
        collectorErrorAlertConfirmations_def newAlertConfirmations_def map_get_def)
  have "Sent (A_Simple a) \<in> set outs" using weave_shown [OF r(2)] assms(4) by simp
  moreover have "length ops < 2 ^ 62" using r(3) assms(6) by simp
  ultimately have three: "3 \<le> length (filter (failed_with gw node ?d) (es @ [e]))"
    using sent_needs_puts [OF r(1) _ start(1), of 3] r(4,5) start(2) by simp
  let ?trs = "List.map_filter L2Event_response (es @ [e])"
  from three length_responses [of gw node ?d "es @ [e]"] have "2 < length ?trs" by linarith
  from collector_pace [OF assms(1) this] have pace: "now + 2 * Minute \<le> fst (?trs ! 2)"
    by (simp add: heightCollectorTimeout_def)
  from \<open>2 < length ?trs\<close> have "?trs ! 2 \<in> set ?trs" by (rule nth_mem)
  then obtain e' where "e' \<in> set (es @ [e])" "L2Event_time e' = fst (?trs ! 2)"
    using response_time by (metis prod.collapse)
  moreover have "L2Event_time e' \<le> L2Event_time e" if "e' \<in> set (es @ [e])" for e'
    using loop_times [OF run] that l2_step_clock [OF assms(3)] by auto
  ultimately show ?thesis using three pace by fastforce
qed

section \<open>Witness\<close>

text \<open>A node that is down, asked at the start and after each of two minutes.\<close>

definition demo_down :: heightCollectorResponse where
  "demo_down = (case collectL2Height demo_l2http (l2n_URL demo_l2node) 0 of (h, err) \<Rightarrow> \<lparr>hc_height = h, hc_err = err\<rparr>)"

definition demo_failure :: "int \<Rightarrow> L2Event" where
  "demo_failure k = HeightResponse (k * Minute) demo_down"

lemma demo_down_collected: "collectL2Height demo_l2http ''u'' t = (hc_height demo_down, hc_err demo_down)"
  by (simp add: demo_down_def collectL2Height_def demo_l2http_def Let_def)

lemma demo_down_err: obtains err where "hc_err demo_down = Some err"
  using that by (simp add: demo_down_def collectL2Height_def demo_l2http_def Let_def)

lemma demo_collector:
  "runCollector (l2n_URL demo_l2node) 0 0 (List.map_filter L2Event_response ([demo_failure 0, demo_failure 1] @ [demo_failure 2]))"
proof -
  have "runCollector ''u'' 0 0 [(0 * Minute, demo_down), (1 * Minute, demo_down), (2 * Minute, demo_down)]"
    by (intro collector_sends [OF _ _ order_refl demo_down_collected] collector_done)
       (simp_all add: heightCollectorTimeout_def Minute_def Second_def)
  then show ?thesis by (simp add: List.map_filter_def demo_failure_def)
qed

text \<open>The third failure is sent.\<close>

lemma demo_failing_step:
  assumes "l2_clock st \<le> k * Minute" "hc_err demo_down = Some err"
  shows "l2_step gw demo_l2node st (demo_failure k) (snd (putAndSendAlert gw (l2_alerts st) (failed_alert ''n'' (k * Minute) err)))
    (st\<lparr>l2_clock := k * Minute, l2_alerts := fst (putAndSendAlert gw (l2_alerts st) (failed_alert ''n'' (k * Minute) err)),
      l2_timer := k * Minute + l2NodesSameHeightTimerDuration\<rparr>)"
  unfolding demo_failure_def by (rule l2_step.response_failed [OF assms]) simp

lemma failed_alert_id: "Alert_ID gw (failed_alert n t err) = Alert_ID gw (failed_alert n 0 err)"
  by (simp add: failed_alert_def SimpleAlert_methods_def NewSimpleAlert_def)

lemma demo_third:
  "let put = \<lambda>s k. putAndSendAlert gw s (failed_alert ''n'' (k * Minute) err)
   in snd (put (fst (put (fst (put (l2_alerts (l2_start now)) 0)) 1)) 2) = [failed_alert ''n'' (2 * Minute) err]"
proof -
  have type: "Alert_Type (failed_alert n t err) = SimpleAlertType" for n t by (simp add: failed_alert_def)
  have req: "map_get 0 (newAlertConfirmations [\<lparr>ac_AlertType = SimpleAlertType, ac_Confirmations = 3\<rparr>]) SimpleAlertType = 3"
    by (simp add: newAlertConfirmations_def map_get_def)
  show ?thesis
    unfolding putAndSendAlert_def PutAlert_cell Let_def
    by (simp add: failed_alert_id [of gw "''n''" 120000000000 err] failed_alert_id [of gw "''n''" 60000000000 err] put_cell_def type l2_start_def NewAlertsStorage_def AlertVacuumQuota_def
        AlertConfirmations_def newAlertsStorage_def collectorErrorAlertConfirmations_def zeroAlertInfo_def req with_cells_def
        defaultAlertVacuumQuota_def l2NodesSameHeightTimerDuration_def heightCollectorTimeout_def Minute_def Second_def)
qed

lemma demo_never_stuck: "never_stuck_id demo_gowaves demo_l2node (Alert_ID demo_gowaves (failed_alert ''n'' t err))"
  by (simp add: never_stuck_id_def failed_alert_def SimpleAlert_methods_def L2StuckAlert_methods_def demo_gowaves_def
      SimpleAlertName_def L2StuckAlertName_def)

theorem l2_failure_confirmed_witness:
  "\<exists>out st out' st' a. analyzerLoop demo_gowaves demo_l2node (l2_start 0) [demo_failure 0, demo_failure 1] out st \<and>
    l2_step demo_gowaves demo_l2node st (demo_failure 2) out' st' \<and> A_Simple a \<in> set out' \<and>
    length (filter (failed_with demo_gowaves demo_l2node (Alert_ID demo_gowaves (A_Simple a)))
      ([demo_failure 0, demo_failure 1] @ [demo_failure 2])) = 3"
proof -
  obtain err where err: "hc_err demo_down = Some err" by (rule demo_down_err)
  let ?a = "failed_alert ''n'' (2 * Minute) err"
  have m: "0 < Minute" by (simp add: Minute_def Second_def)
  note step = demo_failing_step [OF _ err, of _ _ demo_gowaves]
  obtain st1 st2 st3 o1 o2 where
    1: "l2_step demo_gowaves demo_l2node (l2_start 0) (demo_failure 0) o1 st1" and
    2: "l2_step demo_gowaves demo_l2node st1 (demo_failure 1) o2 st2" and
    3: "l2_step demo_gowaves demo_l2node st2 (demo_failure 2) [?a] st3"
  proof -
    let ?put = "\<lambda>s k. fst (putAndSendAlert demo_gowaves s (failed_alert ''n'' (k * Minute) err))"
    let ?next = "\<lambda>st k. st\<lparr>l2_clock := k * Minute, l2_alerts := ?put (l2_alerts st) k,
      l2_timer := k * Minute + l2NodesSameHeightTimerDuration\<rparr>"
    have "l2_clock (l2_start 0) \<le> 0 * Minute" by (simp add: l2_start_def)
    from step [OF this] have 1: "l2_step demo_gowaves demo_l2node (l2_start 0) (demo_failure 0)
      (snd (putAndSendAlert demo_gowaves (l2_alerts (l2_start 0)) (failed_alert ''n'' (0 * Minute) err))) (?next (l2_start 0) 0)" .
    have 2: "l2_step demo_gowaves demo_l2node (?next (l2_start 0) 0) (demo_failure 1)
      (snd (putAndSendAlert demo_gowaves (l2_alerts (?next (l2_start 0) 0)) (failed_alert ''n'' (1 * Minute) err)))
      (?next (?next (l2_start 0) 0) 1)" by (rule step) (use m in simp)
    have 3: "l2_step demo_gowaves demo_l2node (?next (?next (l2_start 0) 0) 1) (demo_failure 2)
      (snd (putAndSendAlert demo_gowaves (l2_alerts (?next (?next (l2_start 0) 0) 1)) (failed_alert ''n'' (2 * Minute) err)))
      (?next (?next (?next (l2_start 0) 0) 1) 2)" by (rule step) (use m in simp)
    moreover have "snd (putAndSendAlert demo_gowaves (l2_alerts (?next (?next (l2_start 0) 0) 1)) (failed_alert ''n'' (2 * Minute) err)) = [?a]"
      using demo_third [of demo_gowaves err 0] by (simp add: Let_def)
    ultimately show thesis using that [OF 1 2] by simp
  qed
  have loop: "analyzerLoop demo_gowaves demo_l2node (l2_start 0) [demo_failure 0, demo_failure 1] (o1 @ o2 @ []) st2"
    by (intro loop_event [OF 1] loop_event [OF 2] loop_done)
  obtain a where a: "?a = A_Simple a" by (simp add: failed_alert_def)
  have "3 \<le> length (filter (failed_with demo_gowaves demo_l2node (Alert_ID demo_gowaves (A_Simple a)))
      ([demo_failure 0, demo_failure 1] @ [demo_failure 2]))"
    using l2_failure_confirmed [OF demo_collector loop 3, of a] demo_never_stuck [of "2 * Minute" err] by (simp add: a)
  moreover have "length (filter P [x, y, z]) \<le> 3" for P and x y z :: L2Event by simp
  ultimately have "length (filter (failed_with demo_gowaves demo_l2node (Alert_ID demo_gowaves (A_Simple a)))
      ([demo_failure 0, demo_failure 1] @ [demo_failure 2])) = 3" by (simp add: le_antisym del: filter.simps)
  with loop 3 a show ?thesis by (metis list.set_intros(1))
qed

end
