(* ===== verification/AlertsJson.thy ===== *)
theory AlertsJson
  imports Alerts
begin

text \<open>
  The JSON forms of the alerts of \<open>pkg/entities/alerts.go\<close>: the struct tags, and the methods
  \<open>MarshalJSON\<close> and \<open>UnmarshalJSON\<close> of \<open>AlertFixed\<close>, which carries the type of the alert it
  holds. Alerts travel in this form from the analyzer to the bots.
\<close>

section \<open>Writing\<close>

definition json_Nodes :: "Nodes \<Rightarrow> json" where
  "json_Nodes ns = json_slice JStr ns"

definition SimpleAlert_json :: "SimpleAlert \<Rightarrow> json" where
  "SimpleAlert_json a = JObj [(''timestamp'', JNum (sa_Timestamp a)), (''description'', JStr (sa_Description a))]"

definition UnreachableAlert_json :: "UnreachableAlert \<Rightarrow> json" where
  "UnreachableAlert_json a = JObj [(''timestamp'', JNum (ua_Timestamp a)), (''node'', JStr (ua_Node a))]"

definition HeightGroup_json :: "HeightGroup \<Rightarrow> json" where
  "HeightGroup_json g = JObj [(''height'', json_uint64 (hg_Height g)), (''group'', json_Nodes (hg_Nodes g))]"

definition HeightAlert_json :: "HeightAlert \<Rightarrow> json" where
  "HeightAlert_json a = JObj [(''timestamp'', JNum (ha_Timestamp a)),
     (''max_height_group'', HeightGroup_json (ha_MaxHeightGroup a)),
     (''other_height_group'', HeightGroup_json (ha_OtherHeightGroup a))]"

definition StateHashGroup_json :: "gowaves \<Rightarrow> StateHashGroup \<Rightarrow> json" where
  "StateHashGroup_json gw g = JObj [(''nodes'', json_Nodes (shg_Nodes g)),
     (''state_hash'', StateHash_MarshalJSON gw (shg_StateHash g))]"

definition StateHashAlert_json :: "gowaves \<Rightarrow> StateHashAlert \<Rightarrow> json" where
  "StateHashAlert_json gw a = JObj [(''timestamp'', JNum (sha_Timestamp a)),
     (''current_groups_bucket_height'', json_uint64 (sha_CurrentGroupsBucketHeight a)),
     (''last_common_state_hash_exist'', JBool (sha_LastCommonStateHashExist a)),
     (''last_common_state_hash_height'', json_uint64 (sha_LastCommonStateHashHeight a)),
     (''last_common_state_hash'', StateHash_MarshalJSON gw (sha_LastCommonStateHash a)),
     (''first_group'', StateHashGroup_json gw (sha_FirstGroup a)),
     (''second_group'', StateHashGroup_json gw (sha_SecondGroup a))]"

definition BaseTargetValue_json :: "BaseTargetValue \<Rightarrow> json" where
  "BaseTargetValue_json b = JObj [(''node'', JStr (btv_Node b)), (''base_target'', json_uint64 (btv_BaseTarget b))]"

definition BaseTargetAlert_json :: "BaseTargetAlert \<Rightarrow> json" where
  "BaseTargetAlert_json a = JObj [(''timestamp'', JNum (bta_Timestamp a)),
     (''thresh_holds'', json_slice BaseTargetValue_json (bta_BaseTargetValues a)),
     (''default_value'', json_uint64 (bta_Threshold a))]"

definition InternalErrorAlert_json :: "InternalErrorAlert \<Rightarrow> json" where
  "InternalErrorAlert_json a = JObj [(''timestamp'', JNum (iea_Timestamp a)), (''error'', JStr (iea_Error a))]"

definition ChallengedBlockAlert_json :: "gowaves \<Rightarrow> ChallengedBlockAlert \<Rightarrow> json" where
  "ChallengedBlockAlert_json gw a = JObj [(''timestamp'', JNum (cba_Timestamp a)),
     (''block_id'', json_BlockID gw (cba_BlockID a)), (''nodes'', json_Nodes (cba_Nodes a))]"

definition L2StuckAlert_json :: "L2StuckAlert \<Rightarrow> json" where
  "L2StuckAlert_json a = JObj [(''l2_height'', json_uint64 (l2_L2Height a)), (''l2_node'', JStr (l2_L2Node a)),
     (''timestamp'', JNum (l2_Timestamp a))]"

text \<open>\<open>AlertFixed.MarshalJSON\<close>: the descriptor, then the fields of the shadowed struct.\<close>

definition AlertFixed_MarshalJSON :: "int \<Rightarrow> AlertType \<Rightarrow> json \<Rightarrow> json" where
  "AlertFixed_MarshalJSON timestamp fixedType fixed =
     JObj [(''fixed_alert_type'', JNum (uint fixedType)), (''timestamp'', JNum timestamp), (''fixed'', fixed)]"

fun Alert_json :: "gowaves \<Rightarrow> Alert \<Rightarrow> json" where
  "Alert_json gw (A_Simple a) = SimpleAlert_json a"
| "Alert_json gw (A_Unreachable a) = UnreachableAlert_json a"
| "Alert_json gw (A_Incomplete a) = NodeStatement_json gw a"
| "Alert_json gw (A_InvalidHeight a) = NodeStatement_json gw a"
| "Alert_json gw (A_Height a) = HeightAlert_json a"
| "Alert_json gw (A_StateHash a) = StateHashAlert_json gw a"
| "Alert_json gw (A_Fixed ts f) = AlertFixed_MarshalJSON ts (Alert_Type f) (Alert_json gw f)"
| "Alert_json gw (A_BaseTarget a) = BaseTargetAlert_json a"
| "Alert_json gw (A_InternalError a) = InternalErrorAlert_json a"
| "Alert_json gw (A_ChallengedBlock a) = ChallengedBlockAlert_json gw a"
| "Alert_json gw (A_L2Stuck a) = L2StuckAlert_json a"

section \<open>Reading\<close>

definition dec_uint8 :: "8 word decoder" where
  "dec_uint8 v old =
     (case v of JNull \<Rightarrow> (old, None)
      | JNum n \<Rightarrow> if 0 \<le> n \<and> n < 256 then (word_of_int n, None) else (old, Some (typeError ''uint8''))
      | _ \<Rightarrow> (old, Some (typeError ''uint8'')))"

definition dec_strings :: "string list decoder" where
  "dec_strings = dec_slice ''entities.Nodes'' [] dec_string"

definition SimpleAlert_fields :: "SimpleAlert fields" where
  "SimpleAlert_fields =
     [field ''timestamp'' dec_int64 sa_Timestamp (\<lambda>x r. r\<lparr>sa_Timestamp := x\<rparr>),
      field ''description'' dec_string sa_Description (\<lambda>x r. r\<lparr>sa_Description := x\<rparr>)]"

definition UnreachableAlert_fields :: "UnreachableAlert fields" where
  "UnreachableAlert_fields =
     [field ''timestamp'' dec_int64 ua_Timestamp (\<lambda>x r. r\<lparr>ua_Timestamp := x\<rparr>),
      field ''node'' dec_string ua_Node (\<lambda>x r. r\<lparr>ua_Node := x\<rparr>)]"

definition HeightGroup_fields :: "HeightGroup fields" where
  "HeightGroup_fields =
     [field ''height'' dec_uint64 hg_Height (\<lambda>x r. r\<lparr>hg_Height := x\<rparr>),
      field ''group'' dec_strings hg_Nodes (\<lambda>x r. r\<lparr>hg_Nodes := x\<rparr>)]"

definition dec_HeightGroup :: "HeightGroup decoder" where
  "dec_HeightGroup = dec_struct ''entities.HeightGroup'' HeightGroup_fields"

definition HeightAlert_fields :: "HeightAlert fields" where
  "HeightAlert_fields =
     [field ''timestamp'' dec_int64 ha_Timestamp (\<lambda>x r. r\<lparr>ha_Timestamp := x\<rparr>),
      field ''max_height_group'' dec_HeightGroup ha_MaxHeightGroup (\<lambda>x r. r\<lparr>ha_MaxHeightGroup := x\<rparr>),
      field ''other_height_group'' dec_HeightGroup ha_OtherHeightGroup (\<lambda>x r. r\<lparr>ha_OtherHeightGroup := x\<rparr>)]"

definition StateHashGroup_fields :: "gowaves \<Rightarrow> StateHashGroup fields" where
  "StateHashGroup_fields gw =
     [field ''nodes'' dec_strings shg_Nodes (\<lambda>x r. r\<lparr>shg_Nodes := x\<rparr>),
      field ''state_hash'' (StateHash_UnmarshalJSON gw) shg_StateHash (\<lambda>x r. r\<lparr>shg_StateHash := x\<rparr>)]"

definition dec_StateHashGroup :: "gowaves \<Rightarrow> StateHashGroup decoder" where
  "dec_StateHashGroup gw = dec_struct ''entities.StateHashGroup'' (StateHashGroup_fields gw)"

definition StateHashAlert_fields :: "gowaves \<Rightarrow> StateHashAlert fields" where
  "StateHashAlert_fields gw =
     [field ''timestamp'' dec_int64 sha_Timestamp (\<lambda>x r. r\<lparr>sha_Timestamp := x\<rparr>),
      field ''current_groups_bucket_height'' dec_uint64 sha_CurrentGroupsBucketHeight
        (\<lambda>x r. r\<lparr>sha_CurrentGroupsBucketHeight := x\<rparr>),
      field ''last_common_state_hash_exist'' dec_bool sha_LastCommonStateHashExist
        (\<lambda>x r. r\<lparr>sha_LastCommonStateHashExist := x\<rparr>),
      field ''last_common_state_hash_height'' dec_uint64 sha_LastCommonStateHashHeight
        (\<lambda>x r. r\<lparr>sha_LastCommonStateHashHeight := x\<rparr>),
      field ''last_common_state_hash'' (StateHash_UnmarshalJSON gw) sha_LastCommonStateHash
        (\<lambda>x r. r\<lparr>sha_LastCommonStateHash := x\<rparr>),
      field ''first_group'' (dec_StateHashGroup gw) sha_FirstGroup (\<lambda>x r. r\<lparr>sha_FirstGroup := x\<rparr>),
      field ''second_group'' (dec_StateHashGroup gw) sha_SecondGroup (\<lambda>x r. r\<lparr>sha_SecondGroup := x\<rparr>)]"

definition BaseTargetValue_fields :: "BaseTargetValue fields" where
  "BaseTargetValue_fields =
     [field ''node'' dec_string btv_Node (\<lambda>x r. r\<lparr>btv_Node := x\<rparr>),
      field ''base_target'' dec_uint64 btv_BaseTarget (\<lambda>x r. r\<lparr>btv_BaseTarget := x\<rparr>)]"

definition dec_BaseTargetValues :: "BaseTargetValue list decoder" where
  "dec_BaseTargetValues = dec_slice ''[]entities.BaseTargetValue'' \<lparr>btv_Node = [], btv_BaseTarget = 0\<rparr>
     (dec_struct ''entities.BaseTargetValue'' BaseTargetValue_fields)"

definition BaseTargetAlert_fields :: "BaseTargetAlert fields" where
  "BaseTargetAlert_fields =
     [field ''timestamp'' dec_int64 bta_Timestamp (\<lambda>x r. r\<lparr>bta_Timestamp := x\<rparr>),
      field ''thresh_holds'' dec_BaseTargetValues
        bta_BaseTargetValues (\<lambda>x r. r\<lparr>bta_BaseTargetValues := x\<rparr>),
      field ''default_value'' dec_uint64 bta_Threshold (\<lambda>x r. r\<lparr>bta_Threshold := x\<rparr>)]"

definition InternalErrorAlert_fields :: "InternalErrorAlert fields" where
  "InternalErrorAlert_fields =
     [field ''timestamp'' dec_int64 iea_Timestamp (\<lambda>x r. r\<lparr>iea_Timestamp := x\<rparr>),
      field ''error'' dec_string iea_Error (\<lambda>x r. r\<lparr>iea_Error := x\<rparr>)]"

definition ChallengedBlockAlert_fields :: "gowaves \<Rightarrow> ChallengedBlockAlert fields" where
  "ChallengedBlockAlert_fields gw =
     [field ''timestamp'' dec_int64 cba_Timestamp (\<lambda>x r. r\<lparr>cba_Timestamp := x\<rparr>),
      field ''block_id'' (dec_custom (unjson_BlockID gw)) cba_BlockID (\<lambda>x r. r\<lparr>cba_BlockID := x\<rparr>),
      field ''nodes'' dec_strings cba_Nodes (\<lambda>x r. r\<lparr>cba_Nodes := x\<rparr>)]"

definition L2StuckAlert_fields :: "L2StuckAlert fields" where
  "L2StuckAlert_fields =
     [field ''l2_height'' dec_uint64 l2_L2Height (\<lambda>x r. r\<lparr>l2_L2Height := x\<rparr>),
      field ''l2_node'' dec_string l2_L2Node (\<lambda>x r. r\<lparr>l2_L2Node := x\<rparr>),
      field ''timestamp'' dec_int64 l2_Timestamp (\<lambda>x r. r\<lparr>l2_Timestamp := x\<rparr>)]"

definition zeroHeightGroup :: HeightGroup where
  "zeroHeightGroup = \<lparr>hg_Height = 0, hg_Nodes = []\<rparr>"

definition zeroStateHashGroup :: "gowaves \<Rightarrow> StateHashGroup" where
  "zeroStateHashGroup gw = \<lparr>shg_Nodes = [], shg_StateHash = zeroStateHash gw\<rparr>"

definition zeroSimpleAlert :: SimpleAlert where
  "zeroSimpleAlert = \<lparr>sa_Timestamp = 0, sa_Description = []\<rparr>"

definition zeroUnreachableAlert :: UnreachableAlert where
  "zeroUnreachableAlert = \<lparr>ua_Timestamp = 0, ua_Node = []\<rparr>"

definition zeroBaseTargetAlert :: BaseTargetAlert where
  "zeroBaseTargetAlert = \<lparr>bta_Timestamp = 0, bta_BaseTargetValues = [], bta_Threshold = 0\<rparr>"

definition zeroInternalErrorAlert :: InternalErrorAlert where
  "zeroInternalErrorAlert = \<lparr>iea_Timestamp = 0, iea_Error = []\<rparr>"

definition zeroL2StuckAlert :: L2StuckAlert where
  "zeroL2StuckAlert = \<lparr>l2_L2Height = 0, l2_L2Node = [], l2_Timestamp = 0\<rparr>"

definition zeroHeightAlert :: HeightAlert where
  "zeroHeightAlert = \<lparr>ha_Timestamp = 0, ha_MaxHeightGroup = zeroHeightGroup, ha_OtherHeightGroup = zeroHeightGroup\<rparr>"

definition zeroStateHashAlert :: "gowaves \<Rightarrow> StateHashAlert" where
  "zeroStateHashAlert gw =
     \<lparr>sha_Timestamp = 0, sha_CurrentGroupsBucketHeight = 0, sha_LastCommonStateHashExist = False,
      sha_LastCommonStateHashHeight = 0, sha_LastCommonStateHash = zeroStateHash gw,
      sha_FirstGroup = zeroStateHashGroup gw, sha_SecondGroup = zeroStateHashGroup gw\<rparr>"

definition zeroChallengedBlockAlert :: "gowaves \<Rightarrow> ChallengedBlockAlert" where
  "zeroChallengedBlockAlert gw = \<lparr>cba_Timestamp = 0, cba_BlockID = zeroBlockID gw, cba_Nodes = []\<rparr>"

lemmas zeroAlert_defs =
  zeroSimpleAlert_def zeroUnreachableAlert_def zeroBaseTargetAlert_def zeroInternalErrorAlert_def
  zeroL2StuckAlert_def zeroHeightAlert_def zeroStateHashAlert_def zeroChallengedBlockAlert_def

text \<open>The new alert that \<open>AlertFixed.UnmarshalJSON\<close> chooses for a type, every field zero.\<close>

definition newFixedAlert :: "gowaves \<Rightarrow> AlertType \<Rightarrow> error + Alert" where
  "newFixedAlert gw t =
     (if t = SimpleAlertType then Inr (A_Simple zeroSimpleAlert)
      else if t = UnreachableAlertType then Inr (A_Unreachable zeroUnreachableAlert)
      else if t = IncompleteAlertType then Inr (A_Incomplete zeroStatement)
      else if t = InvalidHeightAlertType then Inr (A_InvalidHeight zeroStatement)
      else if t = HeightAlertType then
        Inr (A_Height zeroHeightAlert)
      else if t = StateHashAlertType then
        Inr (A_StateHash (zeroStateHashAlert gw))
      else if t = BaseTargetAlertType then
        Inr (A_BaseTarget zeroBaseTargetAlert)
      else if t = InternalErrorAlertType then Inr (A_InternalError zeroInternalErrorAlert)
      else if t = ChallengedBlockAlertType then
        Inr (A_ChallengedBlock (zeroChallengedBlockAlert gw))
      else if t = L2StuckAlertType then Inr (A_L2Stuck zeroL2StuckAlert)
      else if t = AlertFixedType then
        Inl (Errorf (''nested fixed alerts ('' @ FormatInt (uint t) @ '') are not allowed''))
      else Inl (Errorf (''failed to unmarshal alert fixed, unknown internal alert type ('' @ FormatInt (uint t) @ '')'')))"

text \<open>
  Decoding into the struct that a non-nil interface points to. A fixed alert is never there,
  since \<open>newFixedAlert\<close> makes none.
\<close>

definition dec_lift :: "('a \<Rightarrow> Alert) \<Rightarrow> 'a \<times> error option \<Rightarrow> Alert \<times> error option" where
  "dec_lift con r = (con (fst r), snd r)"

fun dec_into_Alert :: "gowaves \<Rightarrow> Alert decoder" where
  "dec_into_Alert gw v (A_Simple a) = dec_lift A_Simple (dec_struct ''entities.SimpleAlert'' SimpleAlert_fields v a)"
| "dec_into_Alert gw v (A_Unreachable a) =
     dec_lift A_Unreachable (dec_struct ''entities.UnreachableAlert'' UnreachableAlert_fields v a)"
| "dec_into_Alert gw v (A_Incomplete a) =
     dec_lift A_Incomplete (dec_struct ''entities.NodeStatement'' (NodeStatement_fields gw) v a)"
| "dec_into_Alert gw v (A_InvalidHeight a) =
     dec_lift A_InvalidHeight (dec_struct ''entities.NodeStatement'' (NodeStatement_fields gw) v a)"
| "dec_into_Alert gw v (A_Height a) = dec_lift A_Height (dec_struct ''entities.HeightAlert'' HeightAlert_fields v a)"
| "dec_into_Alert gw v (A_StateHash a) =
     dec_lift A_StateHash (dec_struct ''entities.StateHashAlert'' (StateHashAlert_fields gw) v a)"
| "dec_into_Alert gw v (A_Fixed ts f) = (A_Fixed ts f, Some (typeError ''entities.AlertFixed''))"
| "dec_into_Alert gw v (A_BaseTarget a) =
     dec_lift A_BaseTarget (dec_struct ''entities.BaseTargetAlert'' BaseTargetAlert_fields v a)"
| "dec_into_Alert gw v (A_InternalError a) =
     dec_lift A_InternalError (dec_struct ''entities.InternalErrorAlert'' InternalErrorAlert_fields v a)"
| "dec_into_Alert gw v (A_ChallengedBlock a) =
     dec_lift A_ChallengedBlock (dec_struct ''entities.ChallengedBlockAlert'' (ChallengedBlockAlert_fields gw) v a)"
| "dec_into_Alert gw v (A_L2Stuck a) = dec_lift A_L2Stuck (dec_struct ''entities.L2StuckAlert'' L2StuckAlert_fields v a)"

text \<open>An interface value: null makes it nil, and a nil interface with methods takes no value.\<close>

definition dec_Alert_interface :: "gowaves \<Rightarrow> Alert option decoder" where
  "dec_Alert_interface gw v old =
     (case v of JNull \<Rightarrow> (None, None)
      | _ \<Rightarrow> (case old of
          None \<Rightarrow> (None, Some (typeError ''entities.Alert''))
        | Some a \<Rightarrow> (let (x, e) = dec_into_Alert gw v a in (Some x, e))))"

record AlertFixed =
  af_Timestamp :: int
  af_Fixed :: "Alert option"

definition AlertFixed_fields :: "gowaves \<Rightarrow> AlertFixed fields" where
  "AlertFixed_fields gw =
     [field ''timestamp'' dec_int64 af_Timestamp (\<lambda>x r. r\<lparr>af_Timestamp := x\<rparr>),
      field ''fixed'' (dec_Alert_interface gw) af_Fixed (\<lambda>x r. r\<lparr>af_Fixed := x\<rparr>)]"

definition AlertFixed_UnmarshalJSON :: "gowaves \<Rightarrow> json \<Rightarrow> error + AlertFixed" where
  "AlertFixed_UnmarshalJSON gw msg =
     (case Unmarshal (dec_struct ''struct'' [field ''fixed_alert_type'' dec_uint8 id (\<lambda>x r. x)]) 0 msg of
        Inl err \<Rightarrow> Inl (wrapf err ''failed to unrmarshal alert type descriptor'')
      | Inr t \<Rightarrow>
          (case newFixedAlert gw t of
             Inl err \<Rightarrow> Inl err
           | Inr a \<Rightarrow>
               (case Unmarshal (dec_struct ''entities.shadowed'' (AlertFixed_fields gw))
                   \<lparr>af_Timestamp = 0, af_Fixed = Some a\<rparr> msg of
                  Inl err \<Rightarrow> Inl (wrapf err ''failed to unmarshal'')
                | Inr out \<Rightarrow> Inr out)))"

section \<open>Round trip\<close>

fun Alert_Timestamp :: "Alert \<Rightarrow> int" where
  "Alert_Timestamp (A_Simple a) = sa_Timestamp a"
| "Alert_Timestamp (A_Unreachable a) = ua_Timestamp a"
| "Alert_Timestamp (A_Incomplete a) = st_Timestamp a"
| "Alert_Timestamp (A_InvalidHeight a) = st_Timestamp a"
| "Alert_Timestamp (A_Height a) = ha_Timestamp a"
| "Alert_Timestamp (A_StateHash a) = sha_Timestamp a"
| "Alert_Timestamp (A_Fixed ts f) = ts"
| "Alert_Timestamp (A_BaseTarget a) = bta_Timestamp a"
| "Alert_Timestamp (A_InternalError a) = iea_Timestamp a"
| "Alert_Timestamp (A_ChallengedBlock a) = cba_Timestamp a"
| "Alert_Timestamp (A_L2Stuck a) = l2_Timestamp a"

lemma alert_tag_lower:
  "ToLower ''description'' = ''description''" "ToLower ''group'' = ''group''" "ToLower ''nodes'' = ''nodes''"
  "ToLower ''max_height_group'' = ''max_height_group''" "ToLower ''other_height_group'' = ''other_height_group''"
  "ToLower ''current_groups_bucket_height'' = ''current_groups_bucket_height''"
  "ToLower ''last_common_state_hash_exist'' = ''last_common_state_hash_exist''"
  "ToLower ''last_common_state_hash_height'' = ''last_common_state_hash_height''"
  "ToLower ''last_common_state_hash'' = ''last_common_state_hash''"
  "ToLower ''first_group'' = ''first_group''" "ToLower ''second_group'' = ''second_group''"
  "ToLower ''thresh_holds'' = ''thresh_holds''" "ToLower ''default_value'' = ''default_value''"
  "ToLower ''error'' = ''error''" "ToLower ''l2_height'' = ''l2_height''" "ToLower ''l2_node'' = ''l2_node''"
  "ToLower ''fixed_alert_type'' = ''fixed_alert_type''" "ToLower ''fixed'' = ''fixed''"
  by code_simp+

lemmas dec_alert_simps = dec_struct_def field_def tag_lower alert_tag_lower

lemma dec_strings_json [simp]: "dec_strings (json_Nodes ns) old = (ns, None)"
  by (simp add: dec_strings_def json_Nodes_def dec_slice_json)

lemma dec_HeightGroup_json [simp]: "dec_HeightGroup (HeightGroup_json g) old = (g, None)"
  by (simp add: dec_HeightGroup_def HeightGroup_json_def HeightGroup_fields_def dec_alert_simps)

lemma dec_StateHashGroup_json [simp]:
  "gowaves_ok gw \<Longrightarrow> dec_StateHashGroup gw (StateHashGroup_json gw g) old = (g, None)"
  by (simp add: dec_StateHashGroup_def StateHashGroup_json_def StateHashGroup_fields_def dec_alert_simps)

lemma dec_BaseTargetValue_json [simp]:
  "dec_struct t BaseTargetValue_fields (BaseTargetValue_json b) old = (b, None)"
  by (simp add: BaseTargetValue_json_def BaseTargetValue_fields_def dec_alert_simps)

lemma dec_BaseTargetValues_json [simp]:
  "dec_BaseTargetValues (json_slice BaseTargetValue_json bs) old = (bs, None)"
  unfolding dec_BaseTargetValues_def by (rule dec_slice_json) simp

lemma Alert_json_not_null: "Alert_json gw a \<noteq> JNull"
  by (cases a) (simp_all add: SimpleAlert_json_def UnreachableAlert_json_def NodeStatement_json_def HeightAlert_json_def
      StateHashAlert_json_def AlertFixed_MarshalJSON_def BaseTargetAlert_json_def InternalErrorAlert_json_def
      ChallengedBlockAlert_json_def L2StuckAlert_json_def)

text \<open>The new alert for the type of an alert is of its kind, and decoding into it gives the alert.\<close>

lemma newFixedAlert_roundtrip:
  assumes "gowaves_ok gw" "in_int64 (Alert_Timestamp a)" "\<forall>ts f. a \<noteq> A_Fixed ts f"
  shows "\<exists>z. newFixedAlert gw (Alert_Type a) = Inr z \<and> Alert_Type z = Alert_Type a \<and>
    dec_into_Alert gw (Alert_json gw a) z = (a, None)"
proof -
  note new = newFixedAlert_def zeroAlert_defs AlertType_defs dec_lift_def dec_alert_simps
  show ?thesis
  proof (cases a)
    case (A_Simple x)
    with assms show ?thesis by (simp add: new SimpleAlert_fields_def SimpleAlert_json_def)
  next
    case (A_Unreachable x)
    with assms show ?thesis by (simp add: new UnreachableAlert_fields_def UnreachableAlert_json_def)
  next
    case (A_Incomplete x)
    with assms NodeStatement_roundtrip_aux [OF assms(1), of x] show ?thesis
      by (simp add: newFixedAlert_def AlertType_defs dec_lift_def)
  next
    case (A_InvalidHeight x)
    with assms NodeStatement_roundtrip_aux [OF assms(1), of x] show ?thesis
      by (simp add: newFixedAlert_def AlertType_defs dec_lift_def)
  next
    case (A_Height x)
    with assms show ?thesis by (simp add: new HeightAlert_fields_def HeightAlert_json_def)
  next
    case (A_StateHash x)
    with assms show ?thesis by (simp add: new StateHashAlert_fields_def StateHashAlert_json_def)
  next
    case (A_Fixed ts f)
    with assms show ?thesis by simp
  next
    case (A_BaseTarget x)
    with assms show ?thesis by (simp add: new BaseTargetAlert_fields_def BaseTargetAlert_json_def)
  next
    case (A_InternalError x)
    with assms show ?thesis by (simp add: new InternalErrorAlert_fields_def InternalErrorAlert_json_def)
  next
    case (A_ChallengedBlock x)
    with assms show ?thesis
      by (simp add: new ChallengedBlockAlert_fields_def ChallengedBlockAlert_json_def gowaves_okD)
  next
    case (A_L2Stuck x)
    with assms show ?thesis by (simp add: new L2StuckAlert_fields_def L2StuckAlert_json_def)
  qed
qed

lemma AlertFixed_roundtrip:
  assumes "gowaves_ok gw" "in_int64 ts" "in_int64 (Alert_Timestamp a)" "\<forall>ts f. a \<noteq> A_Fixed ts f"
  shows "AlertFixed_UnmarshalJSON gw (Alert_json gw (A_Fixed ts a)) = Inr \<lparr>af_Timestamp = ts, af_Fixed = Some a\<rparr>"
proof -
  from newFixedAlert_roundtrip [OF assms(1,3,4)] obtain z where
    z: "newFixedAlert gw (Alert_Type a) = Inr z" "dec_into_Alert gw (Alert_json gw a) z = (a, None)" by blast
  have t: "dec_uint8 (JNum (uint t)) old = (t, None)" for t :: "8 word" and old
    using uint_bounded [of t] by (simp add: dec_uint8_def)
  have i: "dec_Alert_interface gw (Alert_json gw a) (Some z) = (Some a, None)"
    using Alert_json_not_null [of gw a] z(2) by (auto simp: dec_Alert_interface_def split: json.splits)
  show ?thesis
    using assms(2) by (simp add: AlertFixed_UnmarshalJSON_def AlertFixed_MarshalJSON_def Unmarshal_def
        AlertFixed_fields_def dec_alert_simps t z(1) i)
qed

end
