(* ===== verification/Messaging.thy ===== *)
theory Messaging
  imports AlertsJson NodesStorage
begin

text \<open>
  \<open>pkg/messaging\<close> and the message types of \<open>pkg/messaging/pair\<close>: how an alert is packed into
  the bytes that NATS carries, the topics, the server loop that publishes the alerts, and the
  requests and responses between the bots and the service.

  The text of a JSON document is left to the record \<open>jsontext\<close> of parameters; a nil byte slice
  is the empty list.
\<close>

section \<open>JSON texts\<close>

record jsontext =
  jt_Marshal :: "json \<Rightarrow> error + bytes"
  jt_parse :: "bytes \<Rightarrow> error + json"

text \<open>A document that survives being printed and parsed.\<close>

text \<open>\<open>json.Unmarshal\<close> of a text: after a syntax error nothing is decoded.\<close>

definition Unmarshal_text :: "jsontext \<Rightarrow> (json \<Rightarrow> error + 'a) \<Rightarrow> bytes \<Rightarrow> error + 'a" where
  "Unmarshal_text jt d b = (case jt_parse jt b of Inl err \<Rightarrow> Inl err | Inr v \<Rightarrow> d v)"

section \<open>Alert messages\<close>

record AlertMessage =
  am_alertType :: AlertType
  am_referenceID :: Digest
  am_data :: bytes

fun Alert_typeName :: "Alert \<Rightarrow> string" where
  "Alert_typeName (A_Simple _) = ''*entities.SimpleAlert''"
| "Alert_typeName (A_Unreachable _) = ''*entities.UnreachableAlert''"
| "Alert_typeName (A_Incomplete _) = ''*entities.IncompleteAlert''"
| "Alert_typeName (A_InvalidHeight _) = ''*entities.InvalidHeightAlert''"
| "Alert_typeName (A_Height _) = ''*entities.HeightAlert''"
| "Alert_typeName (A_StateHash _) = ''*entities.StateHashAlert''"
| "Alert_typeName (A_Fixed _ _) = ''*entities.AlertFixed''"
| "Alert_typeName (A_BaseTarget _) = ''*entities.BaseTargetAlert''"
| "Alert_typeName (A_InternalError _) = ''*entities.InternalErrorAlert''"
| "Alert_typeName (A_ChallengedBlock _) = ''*entities.ChallengedBlockAlert''"
| "Alert_typeName (A_L2Stuck _) = ''*entities.L2StuckAlert''"

text \<open>The id under which the bots remember an alert: a fixed alert refers to the alert it holds.\<close>

definition reference_ID :: "gowaves \<Rightarrow> Alert \<Rightarrow> Digest" where
  "reference_ID gw alert = (case alert of A_Fixed ts f \<Rightarrow> Alert_ID gw f | _ \<Rightarrow> Alert_ID gw alert)"

text \<open>The argument is an interface value; nil is written as null, and then has no id to call.\<close>

definition NewAlertMessageFromAlert :: "gowaves \<Rightarrow> jsontext \<Rightarrow> Alert option \<Rightarrow> error + AlertMessage" where
  "NewAlertMessageFromAlert gw jt alert =
     (case alert of
        None \<Rightarrow>
          (case jt_Marshal jt JNull of
             Inl err \<Rightarrow> Inl (wrapf err ''failed to marshal alert '<nil>' to JSON'')
           | Inr jsonAlert \<Rightarrow> Inl (Panic ''nil pointer dereference''))
      | Some a \<Rightarrow>
          (case jt_Marshal jt (Alert_json gw a) of
             Inl err \<Rightarrow> Inl (wrapf err (''failed to marshal alert '' @ squote (Alert_typeName a) @ '' to JSON''))
           | Inr jsonAlert \<Rightarrow>
               Inr \<lparr>am_alertType = Alert_Type a, am_referenceID = reference_ID gw a, am_data = jsonAlert\<rparr>))"

text \<open>\<open>newDigest\<close> is the library's \<open>NewDigestFromBytes\<close>.\<close>

definition byte_of :: "char \<Rightarrow> 8 word" where
  "byte_of c = of_nat (of_char c)"

definition NewAlertMessageFromBytes :: "(bytes \<Rightarrow> error + Digest) \<Rightarrow> bytes \<Rightarrow> error + AlertMessage" where
  "NewAlertMessageFromBytes newDigest msgData =
     (let minMsgSize = 1 + 32; l = length msgData
      in if l < minMsgSize then
           Inl (Errorf (''message has insufficient length: want at least '' @ FormatInt (int minMsgSize) @
             '', got '' @ FormatInt (int l)))
         else (case newDigest (take 32 (drop 1 msgData)) of
                 Inl err \<Rightarrow> Inl (wrapf err ''failed to extract alertID from serialized message'')
               | Inr referenceID \<Rightarrow>
                   Inr \<lparr>am_alertType = byte_of (msgData ! 0), am_referenceID = referenceID,
                     am_data = drop minMsgSize msgData\<rparr>))"

definition AlertMessage_MarshalBinary :: "AlertMessage \<Rightarrow> error + bytes" where
  "AlertMessage_MarshalBinary a = Inr (char_of (unat (am_alertType a)) # am_referenceID a @ am_data a)"

section \<open>Topics\<close>

definition pubSubTopicPrefix :: string where "pubSubTopicPrefix = ''alerts''"
definition botRequestsTopicPrefix :: string where "botRequestsTopicPrefix = ''bot_requests''"

definition PubSubMsgTopic :: "string \<Rightarrow> AlertType \<Rightarrow> string" where
  "PubSubMsgTopic scheme alertType =
     (case AlertType_AlertName alertType of
        None \<Rightarrow> pubSubTopicPrefix @ ''_'' @ scheme @ ''_alert-'' @ FormatInt (uint alertType)
      | Some alertName \<Rightarrow> pubSubTopicPrefix @ ''_'' @ scheme @ ''_'' @ alertName)"

definition TelegramBotRequestsTopic :: "string \<Rightarrow> string" where
  "TelegramBotRequestsTopic scheme = botRequestsTopicPrefix @ ''_'' @ scheme @ ''_telegram''"

definition DiscordBotRequestsTopic :: "string \<Rightarrow> string" where
  "DiscordBotRequestsTopic scheme = botRequestsTopicPrefix @ ''_'' @ scheme @ ''_discord''"

section \<open>Publishing\<close>

text \<open>
  The loop of the publishing server over what it receives: an alert, or the nil interface that a
  closed channel gives. It returns the messages handed to NATS with their topics, in order, and
  a panic if one occurred; the context ends the loop after the last receive.
\<close>

fun enterLoop :: "gowaves \<Rightarrow> jsontext \<Rightarrow> string \<Rightarrow> Alert option list \<Rightarrow> (string \<times> bytes) list \<times> error option" where
  "enterLoop gw jt scheme [] = ([], None)"
| "enterLoop gw jt scheme (alert # alerts) =
     (case NewAlertMessageFromAlert gw jt alert of
        Inl err \<Rightarrow> if is_panic err then ([], Some err) else enterLoop gw jt scheme alerts
      | Inr msg \<Rightarrow>
          (case AlertMessage_MarshalBinary msg of
             Inl err \<Rightarrow> enterLoop gw jt scheme alerts
           | Inr data \<Rightarrow>
               (case enterLoop gw jt scheme alerts of
                  (sent, res) \<Rightarrow> ((PubSubMsgTopic scheme (Alert_Type (the alert)), data) # sent, res))))"

section \<open>Requests and responses\<close>

type_synonym RequestPairType = "8 word"

definition RequestNodeListType :: RequestPairType where "RequestNodeListType = 1"
definition RequestSpecificNodeListType :: RequestPairType where "RequestSpecificNodeListType = 2"
definition RequestInsertNewNodeType :: RequestPairType where "RequestInsertNewNodeType = 3"
definition RequestInsertSpecificNewNodeType :: RequestPairType where "RequestInsertSpecificNewNodeType = 4"
definition RequestUpdateNodeType :: RequestPairType where "RequestUpdateNodeType = 5"
definition RequestDeleteNodeType :: RequestPairType where "RequestDeleteNodeType = 6"
definition RequestNodesStatusType :: RequestPairType where "RequestNodesStatusType = 7"
definition RequestNodeStatementType :: RequestPairType where "RequestNodeStatementType = 8"

lemmas RequestType_defs =
  RequestNodeListType_def RequestSpecificNodeListType_def RequestInsertNewNodeType_def
  RequestInsertSpecificNewNodeType_def RequestUpdateNodeType_def RequestDeleteNodeType_def
  RequestNodesStatusType_def RequestNodeStatementType_def

datatype Request =
    NodesListRequest bool
  | NodesStatusRequest "string list"
  | InsertNewNodeRequest string bool
  | UpdateNodeRequest string string
  | DeleteNodeRequest string
  | NodeStatementRequest string int

fun RequestType :: "Request \<Rightarrow> RequestPairType" where
  "RequestType (NodesListRequest specific) = (if specific then RequestSpecificNodeListType else RequestNodeListType)"
| "RequestType (NodesStatusRequest urls) = RequestNodesStatusType"
| "RequestType (InsertNewNodeRequest url specific) =
     (if specific then RequestInsertSpecificNewNodeType else RequestInsertNewNodeType)"
| "RequestType (UpdateNodeRequest url alias) = RequestUpdateNodeType"
| "RequestType (DeleteNodeRequest url) = RequestDeleteNodeType"
| "RequestType (NodeStatementRequest url height) = RequestNodeStatementType"

text \<open>The statement of a node as the responses carry it.\<close>

record PairStatement =
  pn_URL :: string
  pn_StateHash :: "StateHash option"
  pn_Height :: uint64
  pn_Status :: NodeStatus
  pn_BlockID :: "BlockID option"
  pn_Generator :: "WavesAddress option"

record NodesStatementsResponse =
  nr_NodesStatements :: "PairStatement list"
  nr_ErrMessage :: string

record NodeStatementResponse =
  sr_NodeStatement :: NodeStatement
  sr_ErrMessage :: string

datatype Response =
    NodesListResponse "Node list"
  | R_NodesStatements NodesStatementsResponse
  | R_NodeStatement NodeStatementResponse

definition zeroPairStatement :: PairStatement where
  "zeroPairStatement = \<lparr>pn_URL = [], pn_StateHash = None, pn_Height = 0, pn_Status = [], pn_BlockID = None,
     pn_Generator = None\<rparr>"

definition PairStatement_json :: "gowaves \<Rightarrow> PairStatement \<Rightarrow> json" where
  "PairStatement_json gw s = JObj [(''url'', JStr (pn_URL s)),
     (''statehash'', json_ptr (StateHash_MarshalJSON gw) (pn_StateHash s)),
     (''height'', json_uint64 (pn_Height s)), (''status'', JStr (pn_Status s)),
     (''block_id'', json_ptr (json_BlockID gw) (pn_BlockID s)),
     (''generator'', json_ptr (json_Address gw) (pn_Generator s))]"

definition PairStatement_fields :: "gowaves \<Rightarrow> PairStatement fields" where
  "PairStatement_fields gw =
     [field ''url'' dec_string pn_URL (\<lambda>x r. r\<lparr>pn_URL := x\<rparr>),
      field ''statehash'' (dec_ptr (zeroStateHash gw) (StateHash_UnmarshalJSON gw)) pn_StateHash
        (\<lambda>x r. r\<lparr>pn_StateHash := x\<rparr>),
      field ''height'' dec_uint64 pn_Height (\<lambda>x r. r\<lparr>pn_Height := x\<rparr>),
      field ''status'' dec_string pn_Status (\<lambda>x r. r\<lparr>pn_Status := x\<rparr>),
      field ''block_id'' (dec_ptr (zeroBlockID gw) (dec_custom (unjson_BlockID gw))) pn_BlockID
        (\<lambda>x r. r\<lparr>pn_BlockID := x\<rparr>),
      field ''generator'' (dec_ptr zeroAddress (dec_custom (unjson_Address gw))) pn_Generator
        (\<lambda>x r. r\<lparr>pn_Generator := x\<rparr>)]"

definition NodesListResponse_json :: "Node list \<Rightarrow> json" where
  "NodesListResponse_json nodes = JObj [(''nodes'', json_slice Node_json nodes)]"

definition NodesListResponse_Unmarshal :: "json \<Rightarrow> error + Node list" where
  "NodesListResponse_Unmarshal v =
     Unmarshal (dec_struct ''pair.NodesListResponse'' [field ''nodes'' dec_Nodes id (\<lambda>x r. x)]) [] v"

definition NodesStatementsResponse_json :: "gowaves \<Rightarrow> NodesStatementsResponse \<Rightarrow> json" where
  "NodesStatementsResponse_json gw r = JObj [(''nodes_statements'', json_slice (PairStatement_json gw) (nr_NodesStatements r)),
     (''err_message'', JStr (nr_ErrMessage r))]"

definition dec_PairStatements :: "gowaves \<Rightarrow> PairStatement list decoder" where
  "dec_PairStatements gw = dec_slice ''[]pair.NodeStatement'' zeroPairStatement
     (dec_struct ''pair.NodeStatement'' (PairStatement_fields gw))"

definition NodesStatementsResponse_fields :: "gowaves \<Rightarrow> NodesStatementsResponse fields" where
  "NodesStatementsResponse_fields gw =
     [field ''nodes_statements'' (dec_PairStatements gw) nr_NodesStatements (\<lambda>x r. r\<lparr>nr_NodesStatements := x\<rparr>),
      field ''err_message'' dec_string nr_ErrMessage (\<lambda>x r. r\<lparr>nr_ErrMessage := x\<rparr>)]"

definition NodesStatementsResponse_Unmarshal :: "gowaves \<Rightarrow> json \<Rightarrow> error + NodesStatementsResponse" where
  "NodesStatementsResponse_Unmarshal gw v =
     Unmarshal (dec_struct ''pair.NodesStatementsResponse'' (NodesStatementsResponse_fields gw))
       \<lparr>nr_NodesStatements = [], nr_ErrMessage = []\<rparr> v"

definition NodeStatementResponse_fields :: "gowaves \<Rightarrow> NodeStatementResponse fields" where
  "NodeStatementResponse_fields gw =
     [field ''node_statement'' (dec_struct ''entities.NodeStatement'' (NodeStatement_fields gw)) sr_NodeStatement
        (\<lambda>x r. r\<lparr>sr_NodeStatement := x\<rparr>),
      field ''err_message'' dec_string sr_ErrMessage (\<lambda>x r. r\<lparr>sr_ErrMessage := x\<rparr>)]"

definition NodeStatementResponse_Unmarshal :: "gowaves \<Rightarrow> json \<Rightarrow> error + NodeStatementResponse" where
  "NodeStatementResponse_Unmarshal gw v =
     Unmarshal (dec_struct ''pair.NodeStatementResponse'' (NodeStatementResponse_fields gw))
       \<lparr>sr_NodeStatement = zeroStatement, sr_ErrMessage = []\<rparr> v"

section \<open>Round trips\<close>

lemma byte_of_char [simp]: "byte_of (char_of (unat t)) = t"
  using unsigned_less [where ?'a = nat, of t] by (simp add: byte_of_def)

lemma AlertMessage_roundtrip:
  assumes "length (am_referenceID m) = 32" "newDigest (am_referenceID m) = Inr (am_referenceID m)"
    and "AlertMessage_MarshalBinary m = Inr b"
  shows "NewAlertMessageFromBytes newDigest b = Inr m"
  using assms by (cases m) (auto simp: AlertMessage_MarshalBinary_def NewAlertMessageFromBytes_def Let_def)

lemma pair_tag_lower:
  "ToLower ''url'' = ''url''" "ToLower ''statehash'' = ''statehash''" "ToLower ''nodes_statements'' = ''nodes_statements''"
  "ToLower ''err_message'' = ''err_message''" "ToLower ''node_statement'' = ''node_statement''"
  "ToLower ''enabled'' = ''enabled''" "ToLower ''alias'' = ''alias''"
  by code_simp+

lemma PairStatement_roundtrip:
  assumes "gowaves_ok gw"
  shows "dec_struct t (PairStatement_fields gw) (PairStatement_json gw s) old = (s, None)"
proof -
  have "dec_ptr (zeroBlockID gw) (dec_custom (unjson_BlockID gw)) (json_ptr (json_BlockID gw) p) old = (p, None)" for p old
    by (rule dec_ptr_json) (simp_all add: gowaves_okD [OF assms])
  moreover have "dec_ptr zeroAddress (dec_custom (unjson_Address gw)) (json_ptr (json_Address gw) p) old = (p, None)" for p old
    by (rule dec_ptr_json) (simp_all add: gowaves_okD [OF assms])
  moreover have "dec_ptr (zeroStateHash gw) (StateHash_UnmarshalJSON gw) (json_ptr (StateHash_MarshalJSON gw) p) old = (p, None)" for p old
    by (rule dec_ptr_json) (simp_all add: assms)
  ultimately show ?thesis
    by (simp add: PairStatement_json_def PairStatement_fields_def dec_alert_simps pair_tag_lower)
qed

lemma NodesStatementsResponse_roundtrip:
  assumes "gowaves_ok gw"
  shows "NodesStatementsResponse_Unmarshal gw (NodesStatementsResponse_json gw r) = Inr r"
proof -
  have "dec_PairStatements gw (json_slice (PairStatement_json gw) ss) old = (ss, None)" for ss old
    unfolding dec_PairStatements_def by (rule dec_slice_json) (simp add: PairStatement_roundtrip [OF assms])
  then show ?thesis
    by (simp add: NodesStatementsResponse_Unmarshal_def Unmarshal_def NodesStatementsResponse_json_def
        NodesStatementsResponse_fields_def dec_alert_simps pair_tag_lower)
qed

text \<open>Read as the response for one statement, that document leaves the statement zero.\<close>

lemma NodesStatementsResponse_as_statement:
  "NodeStatementResponse_Unmarshal gw (NodesStatementsResponse_json gw r) =
     Inr \<lparr>sr_NodeStatement = zeroStatement, sr_ErrMessage = nr_ErrMessage r\<rparr>"
  by (simp add: NodeStatementResponse_Unmarshal_def Unmarshal_def NodesStatementsResponse_json_def
      NodeStatementResponse_fields_def dec_alert_simps pair_tag_lower)

end
