(* ===== verification/PairServer.thy ===== *)
theory PairServer
  imports Messaging PrivateNodes
begin

text \<open>
  \<open>pkg/messaging/pair/server.go\<close>: the service's side of the requests of the bots. A request is a
  type byte and a body; the handler changes the nodes storage and the private nodes' events, or
  reads the events storage, and answers with bytes. Logging and locks are left out.
\<close>

definition okMessage :: bytes where "okMessage = ''ok''"

text \<open>What the handlers change: the nodes storage, the world it writes to, the private events.\<close>

record 'w PairServer =
  ps_ns :: "'w JSONStorage"
  ps_world :: 'w
  ps_pew :: privateNodesEvents

definition insertNodeIfNew :: "string \<Rightarrow> bool \<Rightarrow> 'w PairServer \<Rightarrow> 'w PairServer \<times> bool" where
  "insertNodeIfNew url specific s =
     (case InsertIfNew (ps_ns s) (ps_world s) url specific of
        (ns, w, appended, err) \<Rightarrow> (s\<lparr>ps_ns := ns, ps_world := w\<rparr>, appended))"

definition insertRegularNodeIfNew :: "bytes \<Rightarrow> 'w PairServer \<Rightarrow> 'w PairServer" where
  "insertRegularNodeIfNew msg s = fst (insertNodeIfNew msg False s)"

text \<open>\<open>now\<close> is the time in seconds.\<close>

definition insertSpecificNodeIfNew :: "int \<Rightarrow> bytes \<Rightarrow> 'w PairServer \<Rightarrow> 'w PairServer" where
  "insertSpecificNodeIfNew now msg s =
     (case insertNodeIfNew msg True s of
        (s, appended) \<Rightarrow>
          if appended then s\<lparr>ps_pew := WriteInitialStateForSpecificNode (ps_pew s) msg now\<rparr> else s)"

definition handleDeleteNodeRequest :: "bytes \<Rightarrow> 'w PairServer \<Rightarrow> 'w PairServer" where
  "handleDeleteNodeRequest msg s =
     (case Delete (ps_ns s) (ps_world s) msg of (ns, w, err) \<Rightarrow> s\<lparr>ps_ns := ns, ps_world := w\<rparr>)"

text \<open>An error of decoding is only logged: the update runs with what was decoded until then.\<close>

definition decodeNode :: "jsontext \<Rightarrow> bytes \<Rightarrow> Node \<times> error option" where
  "decodeNode jt msg =
     (case jt_parse jt msg of
        Inl err \<Rightarrow> (zeroNode, Some err)
      | Inr v \<Rightarrow> dec_struct ''entities.Node'' Node_fields v zeroNode)"

definition handleUpdateNodeRequest :: "jsontext \<Rightarrow> bytes \<Rightarrow> 'w PairServer \<Rightarrow> 'w PairServer" where
  "handleUpdateNodeRequest jt msg s =
     (case decodeNode jt msg of (node, err) \<Rightarrow>
        (case Update (ps_ns s) (ps_world s) node of (ns, w, err) \<Rightarrow> s\<lparr>ps_ns := ns, ps_world := w\<rparr>))"

definition handleNodesRequest :: "jsontext \<Rightarrow> bool \<Rightarrow> 'w PairServer \<Rightarrow> error + bytes" where
  "handleNodesRequest jt specific s =
     (case jt_Marshal jt (NodesListResponse_json (JSONStorage_Nodes (ps_ns s) specific)) of
        Inl err \<Rightarrow> Inl (wrapf err ''Failed to marshal node list to json'')
      | Inr marshaledResponse \<Rightarrow> Inr marshaledResponse)"

definition PairStatement_of :: "NodeStatement \<Rightarrow> PairStatement" where
  "PairStatement_of statement =
     \<lparr>pn_URL = st_Node statement, pn_StateHash = st_StateHash statement, pn_Height = st_Height statement,
      pn_Status = st_Status statement, pn_BlockID = st_BlockID statement, pn_Generator = st_Generator statement\<rparr>"

definition statements_response :: "NodeStatement list \<times> error option \<Rightarrow> NodesStatementsResponse" where
  "statements_response r =
     (let (statements, err) = r in
      \<lparr>nr_NodesStatements = map PairStatement_of statements,
       nr_ErrMessage =
         (case err of
            None \<Rightarrow> []
          | Some e \<Rightarrow>
              if errors_Is e ErrBigHeightDifference then Error (Sentinel ErrBigHeightDifference)
              else if errors_Is e ErrStorageIsNotReady then Error (Sentinel ErrStorageIsNotReady)
              else [])\<rparr>)"

text \<open>
  \<open>search\<close> is \<open>FindAllStatementsOnCommonHeight\<close> of the events storage, with its iteration orders.
  A failure to write the response is logged and gives the nil slice.
\<close>

definition handleNodesStatementsRequest ::
    "gowaves \<Rightarrow> jsontext \<Rightarrow> (string list \<Rightarrow> NodeStatement list \<times> error option) \<Rightarrow> bytes \<Rightarrow> error + bytes" where
  "handleNodesStatementsRequest gw jt search msg =
     (let listOfNodes = Split (CHR '','') msg; (statements, err) = search listOfNodes
      in if (\<exists>e. err = Some e \<and> is_panic e) then Inl (the err)
         else (case jt_Marshal jt (NodesStatementsResponse_json gw (statements_response (statements, err))) of
                 Inl err \<Rightarrow> Inr []
               | Inr response \<Rightarrow> Inr response))"

definition handleMessage ::
    "gowaves \<Rightarrow> jsontext \<Rightarrow> (string list \<Rightarrow> NodeStatement list \<times> error option) \<Rightarrow> int \<Rightarrow> bytes \<Rightarrow>
     'w PairServer \<Rightarrow> 'w PairServer \<times> (error + bytes)" where
  "handleMessage gw jt search now rawMsg s =
     (case rawMsg of
        [] \<Rightarrow> (s, Inr [])
      | c # msg \<Rightarrow>
          let t = byte_of c in
          if t = RequestNodeListType then (s, handleNodesRequest jt False s)
          else if t = RequestSpecificNodeListType then (s, handleNodesRequest jt True s)
          else if t = RequestInsertNewNodeType then (insertRegularNodeIfNew msg s, Inr okMessage)
          else if t = RequestInsertSpecificNewNodeType then (insertSpecificNodeIfNew now msg s, Inr okMessage)
          else if t = RequestUpdateNodeType then (handleUpdateNodeRequest jt msg s, Inr okMessage)
          else if t = RequestDeleteNodeType then (handleDeleteNodeRequest msg s, Inr okMessage)
          else if t = RequestNodesStatusType \<or> t = RequestNodeStatementType
            then (s, handleNodesStatementsRequest gw jt search msg)
          else (s, Inr okMessage))"

text \<open>
  \<open>StartPairMessagingServer\<close>: the subscription answers each message of the topic; on a handler's
  error nothing is sent, and a failure to respond is logged.
\<close>

definition PairServer_subscription ::
    "gowaves \<Rightarrow> jsontext \<Rightarrow> (string list \<Rightarrow> NodeStatement list \<times> error option) \<Rightarrow> int \<Rightarrow> bytes \<Rightarrow>
     'w PairServer \<Rightarrow> 'w PairServer \<times> bytes option" where
  "PairServer_subscription gw jt search now request s =
     (case handleMessage gw jt search now request s of
        (s', Inl handleErr) \<Rightarrow> (s', None)
      | (s', Inr response) \<Rightarrow> (s', Some response))"

text \<open>\<open>connect\<close> and \<open>subscribe\<close> are the outcomes of the NATS calls; the result is the error returned.\<close>

definition StartPairMessagingServer :: "error option \<Rightarrow> string \<Rightarrow> error option \<Rightarrow> error option" where
  "StartPairMessagingServer connect natsPairURL subscribe =
     (case connect of
        Some err \<Rightarrow> Some err
      | None \<Rightarrow>
          if length natsPairURL = 0 then Some (Errorf ''invalid nats URL for pair messaging'')
          else subscribe)"

end
