(* ===== verification/PairClient.thy ===== *)
theory PairClient
  imports Messaging
begin

text \<open>
  \<open>cmd/bots/internal/bots/messaging\<close>: the bots' side. A requester writes a request to a channel
  and waits for the response on another; the client takes the request, sends it over NATS and
  passes the decoded response on. A response that never comes is the value \<open>None\<close>: the
  requester waits forever.

  \<open>nq\<close> is the request call of the NATS library, on a state of the network; \<open>ready\<close> says whether
  the requester takes the response before the client's timeout.
\<close>

type_synonym 'n nats_request = "'n \<Rightarrow> string \<Rightarrow> bytes \<Rightarrow> 'n \<times> (error + bytes)"

definition deadlineExceeded :: error where
  "deadlineExceeded = Errorf ''context deadline exceeded''"

definition NodeHeight_json :: "string \<Rightarrow> int \<Rightarrow> json" where
  "NodeHeight_json url height = JObj [(''url'', JStr url), (''height'', JNum height)]"

text \<open>Each handler returns the network, its error, and the response that it passed on.\<close>

type_synonym 'n handled = "'n \<times> error option \<times> Response option"

definition pass_on :: "bool \<Rightarrow> 'n \<Rightarrow> Response \<Rightarrow> 'n handled" where
  "pass_on ready n resp = (if ready then (n, None, Some resp) else (n, Some deadlineExceeded, None))"

definition client_NodesStatementRequest ::
    "gowaves \<Rightarrow> jsontext \<Rightarrow> 'n nats_request \<Rightarrow> bool \<Rightarrow> string \<Rightarrow> 'n \<Rightarrow> string \<Rightarrow> int \<Rightarrow> bytes \<Rightarrow> 'n handled" where
  "client_NodesStatementRequest gw jt nq ready topic n url height message =
     (case jt_Marshal jt (NodeHeight_json url height) of
        Inl err \<Rightarrow> (n, Some (wrapf err ''failed to marshal message to pair socket''), None)
      | Inr req \<Rightarrow>
          (case nq n topic (message @ req) of
             (n, Inl err) \<Rightarrow> (n, Some (wrapf err ''failed to receive message from nodemon''), None)
           | (n, Inr response) \<Rightarrow>
               (case Unmarshal_text jt (NodeStatementResponse_Unmarshal gw) response of
                  Inl err \<Rightarrow> (n, Some (wrapf err ''failed to unmarshal message from pair socket''), None)
                | Inr r \<Rightarrow> pass_on ready n (R_NodeStatement r))))"

definition client_NodesStatementsRequest ::
    "gowaves \<Rightarrow> jsontext \<Rightarrow> 'n nats_request \<Rightarrow> bool \<Rightarrow> string \<Rightarrow> 'n \<Rightarrow> string list \<Rightarrow> bytes \<Rightarrow> 'n handled" where
  "client_NodesStatementsRequest gw jt nq ready topic n urls message =
     (case nq n topic (message @ strings_Join urls '','') of
        (n, Inl err) \<Rightarrow> (n, Some (wrapf err ''failed to receive message from nodemon''), None)
      | (n, Inr response) \<Rightarrow>
          (case Unmarshal_text jt (NodesStatementsResponse_Unmarshal gw) response of
             Inl err \<Rightarrow> (n, Some (wrapf err ''failed to unmarshal message from pair socket''), None)
           | Inr r \<Rightarrow> pass_on ready n (R_NodesStatements r)))"

definition client_UpdateNodeRequest ::
    "jsontext \<Rightarrow> 'n nats_request \<Rightarrow> string \<Rightarrow> 'n \<Rightarrow> string \<Rightarrow> string \<Rightarrow> bytes \<Rightarrow> 'n handled" where
  "client_UpdateNodeRequest jt nq topic n url alias message =
     (case jt_Marshal jt (Node_json \<lparr>nd_URL = url, nd_Enabled = True, nd_Alias = alias\<rparr>) of
        Inl err \<Rightarrow> (n, Some (wrapf err ''failed to marshal node's info''), None)
      | Inr nodeInfo \<Rightarrow>
          (case nq n topic (message @ nodeInfo) of
             (n, Inl err) \<Rightarrow> (n, Some (wrapf err ''failed to send message''), None)
           | (n, Inr response) \<Rightarrow> (n, None, None)))"

definition client_DeleteNodeRequest ::
    "'n nats_request \<Rightarrow> string \<Rightarrow> 'n \<Rightarrow> string \<Rightarrow> bytes \<Rightarrow> 'n handled" where
  "client_DeleteNodeRequest nq topic n url message =
     (case nq n topic (message @ url) of
        (n, Inl err) \<Rightarrow> (n, Some (wrapf err ''failed to receive message from nodemon''), None)
      | (n, Inr response) \<Rightarrow> (n, None, None))"

definition client_InsertNewNodeRequest ::
    "'n nats_request \<Rightarrow> string \<Rightarrow> 'n \<Rightarrow> string \<Rightarrow> bytes \<Rightarrow> 'n handled" where
  "client_InsertNewNodeRequest nq topic n url message =
     (case nq n topic (message @ url) of
        (n, Inl err) \<Rightarrow> (n, Some (wrapf err ''failed to send message''), None)
      | (n, Inr response) \<Rightarrow> (n, None, None))"

definition client_NodesListRequest ::
    "jsontext \<Rightarrow> 'n nats_request \<Rightarrow> bool \<Rightarrow> string \<Rightarrow> 'n \<Rightarrow> bytes \<Rightarrow> 'n handled" where
  "client_NodesListRequest jt nq ready topic n message =
     (case nq n topic message of
        (n, Inl err) \<Rightarrow> (n, Some (wrapf err ''failed to receive message''), None)
      | (n, Inr response) \<Rightarrow>
          (case Unmarshal_text jt NodesListResponse_Unmarshal response of
             Inl err \<Rightarrow> (n, Some (wrapf err ''failed to unmarshal message''), None)
           | Inr r \<Rightarrow> pass_on ready n (NodesListResponse r)))"

fun handlePairRequest ::
    "gowaves \<Rightarrow> jsontext \<Rightarrow> 'n nats_request \<Rightarrow> bool \<Rightarrow> string \<Rightarrow> 'n \<Rightarrow> Request \<Rightarrow> bytes \<Rightarrow> 'n handled" where
  "handlePairRequest gw jt nq ready topic n (NodesListRequest specific) message =
     client_NodesListRequest jt nq ready topic n message"
| "handlePairRequest gw jt nq ready topic n (InsertNewNodeRequest url specific) message =
     client_InsertNewNodeRequest nq topic n url message"
| "handlePairRequest gw jt nq ready topic n (UpdateNodeRequest url alias) message =
     client_UpdateNodeRequest jt nq topic n url alias message"
| "handlePairRequest gw jt nq ready topic n (DeleteNodeRequest url) message =
     client_DeleteNodeRequest nq topic n url message"
| "handlePairRequest gw jt nq ready topic n (NodesStatusRequest urls) message =
     client_NodesStatementsRequest gw jt nq ready topic n urls message"
| "handlePairRequest gw jt nq ready topic n (NodeStatementRequest url height) message =
     client_NodesStatementRequest gw jt nq ready topic n url height message"

text \<open>One turn of \<open>runPairLoop\<close>: the buffer starts with the type byte, an error is logged.\<close>

definition pair_turn ::
    "gowaves \<Rightarrow> jsontext \<Rightarrow> 'n nats_request \<Rightarrow> bool \<Rightarrow> string \<Rightarrow> 'n \<Rightarrow> Request \<Rightarrow> 'n \<times> Response option" where
  "pair_turn gw jt nq ready topic n request =
     (case handlePairRequest gw jt nq ready topic n request [char_of (unat (RequestType request))] of
        (n, err, resp) \<Rightarrow> (n, resp))"

fun runPairLoop ::
    "gowaves \<Rightarrow> jsontext \<Rightarrow> 'n nats_request \<Rightarrow> string \<Rightarrow> 'n \<Rightarrow> (Request \<times> bool) list \<Rightarrow> 'n \<times> Response list" where
  "runPairLoop gw jt nq topic n [] = (n, [])"
| "runPairLoop gw jt nq topic n ((request, ready) # rest) =
     (case pair_turn gw jt nq ready topic n request of
        (n, resp) \<Rightarrow> (case runPairLoop gw jt nq topic n rest of
            (n, resps) \<Rightarrow> (n, (case resp of None \<Rightarrow> [] | Some r \<Rightarrow> [r]) @ resps)))"

section \<open>The requesters\<close>

definition insufficientPermissionMsg :: string where
  "insufficientPermissionMsg = ''Sorry, you have no right to add a new node''"

definition incorrectURLMsg :: string where
  "incorrectURLMsg = ''Sorry, the url seems to be incorrect''"

text \<open>
  The commands that change the registry: the answer for the chat, the error, and the request
  written to the channel. \<open>eligible\<close> is the bot's \<open>IsEligibleForAction\<close>.
\<close>

definition checked_request ::
    "neturl \<Rightarrow> (string \<Rightarrow> bool) \<Rightarrow> string \<Rightarrow> string \<Rightarrow> (string \<Rightarrow> string \<times> Request) \<Rightarrow>
     (string \<times> error option) \<times> Request option" where
  "checked_request nu eligible chatID url f =
     (if \<not> eligible chatID then ((insufficientPermissionMsg, Some (Sentinel ErrInsufficientPermissions)), None)
      else (case CheckAndUpdateURL nu url of
              Inl err \<Rightarrow> ((incorrectURLMsg, errors_Join [Some (Sentinel ErrIncorrectURL), Some err]), None)
            | Inr updatedURL \<Rightarrow> (case f updatedURL of (msg, request) \<Rightarrow> ((msg, None), Some request))))"

definition AddNewNodeHandler ::
    "neturl \<Rightarrow> (string \<Rightarrow> bool) \<Rightarrow> string \<Rightarrow> string \<Rightarrow> bool \<Rightarrow> (string \<times> error option) \<times> Request option" where
  "AddNewNodeHandler nu eligible chatID url specific =
     checked_request nu eligible chatID url (\<lambda>updatedURL.
       ((if specific then ''New specific node '' else ''New node '') @ squote updatedURL @ '' was added'',
        InsertNewNodeRequest updatedURL specific))"

definition UpdateAliasHandler ::
    "neturl \<Rightarrow> (string \<Rightarrow> bool) \<Rightarrow> string \<Rightarrow> string \<Rightarrow> string \<Rightarrow> (string \<times> error option) \<times> Request option" where
  "UpdateAliasHandler nu eligible chatID url alias =
     checked_request nu eligible chatID url (\<lambda>updatedURL.
       (''Node '' @ squote updatedURL @ '' was updated with alias '' @ alias, UpdateNodeRequest updatedURL alias))"

definition RemoveNodeHandler ::
    "neturl \<Rightarrow> (string \<Rightarrow> bool) \<Rightarrow> string \<Rightarrow> string \<Rightarrow> (string \<times> error option) \<times> Request option" where
  "RemoveNodeHandler nu eligible chatID url =
     checked_request nu eligible chatID url (\<lambda>updatedURL.
       (''Node '' @ squote url @ '' was deleted'', DeleteNodeRequest updatedURL))"

text \<open>
  What these commands rely on, the interface \<open>Bot\<close>: a bot has one chat, and only this chat may change
  the registry. Both bots implement it in their environments.
\<close>

locale chat_bot =
  fixes eligible :: "string \<Rightarrow> bool" and home :: string
  assumes eligible_iff: "eligible chatID \<longleftrightarrow> chatID = home"
begin

lemma home_answered:
  "CheckAndUpdateURL nu url = Inr u \<Longrightarrow> checked_request nu eligible home url f = ((fst (f u), None), Some (snd (f u)))"
  by (simp add: checked_request_def eligible_iff split: prod.split)

lemma request_written:
  "snd (checked_request nu eligible chatID url f) =
    (if chatID = home then (case CheckAndUpdateURL nu url of Inl err \<Rightarrow> None | Inr u \<Rightarrow> Some (snd (f u))) else None)"
  by (simp add: checked_request_def eligible_iff split: sum.split prod.split)

text \<open>A request is written exactly when no error is reported.\<close>

lemma error_iff_no_request:
  "snd (checked_request nu eligible chatID url f) = None \<longleftrightarrow> snd (fst (checked_request nu eligible chatID url f)) \<noteq> None"
  by (simp add: checked_request_def errors_Join_def split: sum.split prod.split)

end

text \<open>
  The commands that wait for a response. The client serves them through \<open>pair_turn\<close>, no other
  requester in between; the outer option is \<open>None\<close> when the response never comes.
\<close>

definition await ::
    "gowaves \<Rightarrow> jsontext \<Rightarrow> 'n nats_request \<Rightarrow> string \<Rightarrow> 'n \<Rightarrow> Request \<Rightarrow> (Response \<Rightarrow> error + 'a) \<Rightarrow>
     'n \<times> (error + 'a) option" where
  "await gw jt nq topic n request convert =
     (case pair_turn gw jt nq True topic n request of
        (n, None) \<Rightarrow> (n, None)
      | (n, Some response) \<Rightarrow> (n, Some (convert response)))"

definition as_nodes :: "Response \<Rightarrow> error + Node list" where
  "as_nodes response = (case response of NodesListResponse nodes \<Rightarrow> Inr nodes
     | _ \<Rightarrow> Inl (Errorf ''failed to convert response interface to the node list type''))"

definition as_statements :: "Response \<Rightarrow> error + NodesStatementsResponse" where
  "as_statements response = (case response of R_NodesStatements r \<Rightarrow> Inr r
     | _ \<Rightarrow> Inl (Errorf ''failed to convert response interface to the nodes status type''))"

definition as_statement :: "Response \<Rightarrow> error + NodeStatementResponse" where
  "as_statement response = (case response of R_NodeStatement r \<Rightarrow> Inr r
     | _ \<Rightarrow> Inl (Errorf ''failed to convert response interface to the node list type''))"

definition RequestNodesStatements ::
    "gowaves \<Rightarrow> jsontext \<Rightarrow> 'n nats_request \<Rightarrow> string \<Rightarrow> 'n \<Rightarrow> string list \<Rightarrow>
     'n \<times> (error + NodesStatementsResponse) option" where
  "RequestNodesStatements gw jt nq topic n urls = await gw jt nq topic n (NodesStatusRequest urls) as_statements"

definition RequestNodeStatement ::
    "gowaves \<Rightarrow> jsontext \<Rightarrow> 'n nats_request \<Rightarrow> string \<Rightarrow> 'n \<Rightarrow> string \<Rightarrow> int \<Rightarrow>
     'n \<times> (error + NodeStatementResponse) option" where
  "RequestNodeStatement gw jt nq topic n node height =
     await gw jt nq topic n (NodeStatementRequest node height) as_statement"

text \<open>\<open>deadline\<close>: the error of the context when it ends before the response; nil for the background context.\<close>

definition RequestNodesWithCtx ::
    "error option \<Rightarrow> gowaves \<Rightarrow> jsontext \<Rightarrow> 'n nats_request \<Rightarrow> string \<Rightarrow> 'n \<Rightarrow> bool \<Rightarrow>
     'n \<times> (error + Node list) option" where
  "RequestNodesWithCtx deadline gw jt nq topic n specific =
     (case await gw jt nq topic n (NodesListRequest specific) as_nodes of
        (n, None) \<Rightarrow> (n, map_option Inl deadline)
      | (n, Some r) \<Rightarrow> (n, Some r))"

definition RequestNodes ::
    "gowaves \<Rightarrow> jsontext \<Rightarrow> 'n nats_request \<Rightarrow> string \<Rightarrow> 'n \<Rightarrow> bool \<Rightarrow> 'n \<times> (error + Node list) option" where
  "RequestNodes gw jt nq topic n specific = RequestNodesWithCtx None gw jt nq topic n specific"

definition RequestAllNodes ::
    "gowaves \<Rightarrow> jsontext \<Rightarrow> 'n nats_request \<Rightarrow> string \<Rightarrow> 'n \<Rightarrow> 'n \<times> (error + Node list) option" where
  "RequestAllNodes gw jt nq topic n =
     (case RequestNodes gw jt nq topic n False of
        (n, None) \<Rightarrow> (n, None)
      | (n, Some (Inl err)) \<Rightarrow> (n, Some (Inl err))
      | (n, Some (Inr regularNodes)) \<Rightarrow>
          (case RequestNodes gw jt nq topic n True of
             (n, None) \<Rightarrow> (n, None)
           | (n, Some (Inl err)) \<Rightarrow> (n, Some (Inl err))
           | (n, Some (Inr specificNodes)) \<Rightarrow> (n, Some (Inr (regularNodes @ specificNodes)))))"

definition NodesToUrls :: "Node list \<Rightarrow> string list" where
  "NodesToUrls nodes = map nd_URL nodes"

end
