(* ===== verification/PairPolicy.thy ===== *)
theory PairPolicy
  imports PairServer PairClient NodesPolicy AlertsPolicy
begin

text \<open>
  The bots and the service together: requests travel from the requester over the client and NATS
  to the server and the answers back. What the bots see and change is the registry of the nodes
  storage; the request for one statement is answered in the wrong form; and a failed request is
  never answered.
\<close>

section \<open>Hypotheses on the libraries\<close>

text \<open>Parsing the text of a document gives the document; the empty text is no document.\<close>

definition texts_faithful :: "jsontext \<Rightarrow> bool" where
  "texts_faithful jt \<longleftrightarrow> (\<forall>v b. jt_Marshal jt v = Inr b \<longrightarrow> jt_parse jt b = Inr v) \<and> (\<exists>e. jt_parse jt [] = Inl e)"

lemma texts_faithfulD: "texts_faithful jt \<Longrightarrow> jt_Marshal jt v = Inr b \<Longrightarrow> Unmarshal_text jt d b = d v"
  by (simp add: texts_faithful_def Unmarshal_text_def)

text \<open>
  NATS gives the requester the response of the subscriber of the topic, or an error when there
  is none in time.
\<close>

definition delivered ::
    "gowaves \<Rightarrow> jsontext \<Rightarrow> (string list \<Rightarrow> NodeStatement list \<times> error option) \<Rightarrow> int \<Rightarrow> string \<Rightarrow>
     'w PairServer nats_request \<Rightarrow> bool" where
  "delivered gw jt search now topic nq \<longleftrightarrow>
     (\<forall>s msg. case PairServer_subscription gw jt search now msg s of
        (s', Some r) \<Rightarrow> nq s topic msg = (s', Inr r)
      | (s', None) \<Rightarrow> (\<exists>err. nq s topic msg = (s', Inl err)))"

lemma deliveredD:
  assumes "delivered gw jt search now topic nq" "PairServer_subscription gw jt search now msg s = (s', Some r)"
  shows "nq s topic msg = (s', Inr r)"
  using assms(1) [unfolded delivered_def, rule_format, of s msg] assms(2) by simp

lemma delivered_None:
  assumes "delivered gw jt search now topic nq" "PairServer_subscription gw jt search now msg s = (s', None)"
  shows "\<exists>err. nq s topic msg = (s', Inl err)"
  using assms(1) [unfolded delivered_def, rule_format, of s msg] assms(2) by simp

text \<open>A network of only the server, and a finite table of documents, for the witnesses.\<close>

definition demo_net ::
    "gowaves \<Rightarrow> jsontext \<Rightarrow> (string list \<Rightarrow> NodeStatement list \<times> error option) \<Rightarrow> int \<Rightarrow> 'w PairServer nats_request" where
  "demo_net gw jt search now s topic msg =
     (case PairServer_subscription gw jt search now msg s of
        (s', None) \<Rightarrow> (s', Inl (Errorf ''nats: timeout''))
      | (s', Some r) \<Rightarrow> (s', Inr r))"

lemma demo_net_delivers: "delivered gw jt search now topic (demo_net gw jt search now)"
  by (auto simp: delivered_def demo_net_def split: prod.splits option.splits)

fun doc_index :: "json list \<Rightarrow> json \<Rightarrow> nat option" where
  "doc_index [] v = None"
| "doc_index (d # ds) v = (if d = v then Some 0 else map_option Suc (doc_index ds v))"

definition demo_text :: "json list \<Rightarrow> jsontext" where
  "demo_text docs =
     \<lparr>jt_Marshal = (\<lambda>v. case doc_index docs v of None \<Rightarrow> Inl (Errorf ''unsupported'') | Some i \<Rightarrow> Inr (replicate (Suc i) CHR ''x'')),
      jt_parse = (\<lambda>b. if b \<noteq> [] \<and> length b \<le> length docs then Inr (docs ! (length b - 1)) else Inl (Errorf ''syntax''))\<rparr>"

lemma doc_index_Some: "doc_index ds v = Some i \<Longrightarrow> i < length ds \<and> ds ! i = v"
  by (induction ds arbitrary: i) (auto split: if_splits)

lemma demo_text_faithful: "texts_faithful (demo_text docs)"
  by (auto simp: texts_faithful_def demo_text_def Suc_le_eq dest!: doc_index_Some split: option.splits)

section \<open>What the server does with each request\<close>

lemma subscription_simps:
  fixes s :: "'w PairServer"
  shows "PairServer_subscription gw jt search now (char_of (unat RequestNodeListType) # msg) s =
      (case handleNodesRequest jt False s of Inl e \<Rightarrow> (s, None) | Inr r \<Rightarrow> (s, Some r))"
    "PairServer_subscription gw jt search now (char_of (unat RequestSpecificNodeListType) # msg) s =
      (case handleNodesRequest jt True s of Inl e \<Rightarrow> (s, None) | Inr r \<Rightarrow> (s, Some r))"
    "PairServer_subscription gw jt search now (char_of (unat RequestInsertNewNodeType) # msg) s =
      (insertRegularNodeIfNew msg s, Some okMessage)"
    "PairServer_subscription gw jt search now (char_of (unat RequestInsertSpecificNewNodeType) # msg) s =
      (insertSpecificNodeIfNew now msg s, Some okMessage)"
    "PairServer_subscription gw jt search now (char_of (unat RequestUpdateNodeType) # msg) s =
      (handleUpdateNodeRequest jt msg s, Some okMessage)"
    "PairServer_subscription gw jt search now (char_of (unat RequestDeleteNodeType) # msg) s =
      (handleDeleteNodeRequest msg s, Some okMessage)"
    "PairServer_subscription gw jt search now (char_of (unat RequestNodesStatusType) # msg) s =
      (case handleNodesStatementsRequest gw jt search msg of Inl e \<Rightarrow> (s, None) | Inr r \<Rightarrow> (s, Some r))"
    "PairServer_subscription gw jt search now (char_of (unat RequestNodeStatementType) # msg) s =
      (case handleNodesStatementsRequest gw jt search msg of Inl e \<Rightarrow> (s, None) | Inr r \<Rightarrow> (s, Some r))"
  by (simp_all only: PairServer_subscription_def handleMessage_def list.case byte_of_char Let_def)
     (simp_all add: RequestType_defs split: sum.split)

section \<open>The bots change the registry\<close>

text \<open>The operation on the registry that a command of a bot stands for.\<close>

fun request_op :: "Request \<Rightarrow> node_op option" where
  "request_op (InsertNewNodeRequest url specific) = Some (OpInsert url specific)"
| "request_op (UpdateNodeRequest url al) = Some (OpUpdate \<lparr>nd_URL = url, nd_Enabled = True, nd_Alias = al\<rparr>)"
| "request_op (DeleteNodeRequest url) = Some (OpDelete url)"
| "request_op _ = None"

fun_cases request_op_SomeE [consumes 1, case_names insert update delete]: "request_op r = Some p"
fun_cases request_op_NoneE [consumes 1, case_names nodes statements statement]: "request_op r = None"

abbreviation server_registry :: "'w PairServer \<Rightarrow> registry" where
  "server_registry s \<equiv> db_abs (js_db (ps_ns s))"

definition server_ok :: "'w PairServer \<Rightarrow> bool" where
  "server_ok s \<longleftrightarrow> db_ok (js_db (ps_ns s))"

text \<open>A state in which the storage has made the step of an operation.\<close>

lemma stepped:
  assumes "server_ok s" "js_step (ps_ns s) (ps_world s) p = (ns, w, err)" "ps_ns s' = ns"
  shows "server_ok s' \<and> server_registry s' = fst (reg_step (server_registry s) p)"
  using js_step_refines [of "ps_ns s" "ps_world s" p] assms by (simp add: server_ok_def)

lemma insert_stepped:
  assumes "server_ok s" "insertNodeIfNew url specific s = (s', b)"
  shows "server_ok s' \<and> server_registry s' = fst (reg_step (server_registry s) (OpInsert url specific))"
proof -
  obtain ns w b' err where i: "InsertIfNew (ps_ns s) (ps_world s) url specific = (ns, w, b', err)"
    by (cases "InsertIfNew (ps_ns s) (ps_world s) url specific") auto
  with assms(2) have "ps_ns s' = ns" by (auto simp: insertNodeIfNew_def)
  with stepped [OF assms(1), of "OpInsert url specific" ns w err s'] i show ?thesis by simp
qed

lemma decodeNode_text:
  assumes "texts_faithful jt" "jt_Marshal jt (Node_json n) = Inr b"
  shows "decodeNode jt b = (n, None)"
  using assms by (cases n) (simp add: decodeNode_def texts_faithful_def Node_json_dec)

lemma turn_refines:
  assumes "delivered gw jt search now topic nq" "texts_faithful jt" "server_ok s" "request_op r = Some p"
    and "\<And>url al. r = UpdateNodeRequest url al \<Longrightarrow>
      \<exists>b. jt_Marshal jt (Node_json \<lparr>nd_URL = url, nd_Enabled = True, nd_Alias = al\<rparr>) = Inr b"
    and "pair_turn gw jt nq ready topic s r = (s', resp)"
  shows "resp = None \<and> server_ok s' \<and> server_registry s' = fst (reg_step (server_registry s) p)"
proof -
  have nq: "nq s topic msg = (t, Inr x)" if "PairServer_subscription gw jt search now msg s = (t, Some x)" for msg t x
    using deliveredD [OF assms(1) that] .
  from assms(4) show ?thesis
  proof (cases rule: request_op_SomeE)
    case (insert url specific)
    note InsertNewNodeRequest = insert(1)
    obtain t b where i: "insertNodeIfNew url specific s = (t, b)" by fastforce
    have "\<exists>pew. s' = (if specific \<and> b then t\<lparr>ps_pew := pew\<rparr> else t)" "resp = None"
      using assms(6) nq [OF subscription_simps(3)] nq [OF subscription_simps(4)] i
      by (auto simp: InsertNewNodeRequest pair_turn_def client_InsertNewNodeRequest_def insertRegularNodeIfNew_def
          insertSpecificNodeIfNew_def split: if_splits)
    with insert_stepped [OF assms(3) i] insert(2) show ?thesis
      by (auto simp: server_ok_def)
  next
    case (update url al)
    note UpdateNodeRequest = update(1) and p = update(2)
    let ?n = "\<lparr>nd_URL = url, nd_Enabled = True, nd_Alias = al\<rparr>"
    from assms(5) [OF UpdateNodeRequest] obtain b where b: "jt_Marshal jt (Node_json ?n) = Inr b" by blast
    have "s' = handleUpdateNodeRequest jt b s" "resp = None"
      using assms(6) nq [OF subscription_simps(5)]
      by (auto simp: UpdateNodeRequest pair_turn_def client_UpdateNodeRequest_def b)
    moreover obtain ns w err where u: "Update (ps_ns s) (ps_world s) ?n = (ns, w, err)"
      by (cases "Update (ps_ns s) (ps_world s) ?n") auto
    ultimately show ?thesis
      using stepped [OF assms(3), of "OpUpdate ?n" ns w err s'] p
      by (simp del: reg_step.simps add: handleUpdateNodeRequest_def decodeNode_text [OF assms(2) b])
  next
    case (delete url)
    note DeleteNodeRequest = delete(1) and p = delete(2)
    have "s' = handleDeleteNodeRequest url s" "resp = None"
      using assms(6) nq [OF subscription_simps(6)]
      by (auto simp: DeleteNodeRequest pair_turn_def client_DeleteNodeRequest_def)
    moreover obtain ns w err where u: "Delete (ps_ns s) (ps_world s) url = (ns, w, err)"
      by (cases "Delete (ps_ns s) (ps_world s) url") auto
    ultimately show ?thesis
      using stepped [OF assms(3), of "OpDelete url" ns w err s'] p
      by (simp del: reg_step.simps add: handleDeleteNodeRequest_def)
  qed
qed

text \<open>
  C21: The commands of the bots act on the registry. Whatever sequence of insertions, updates and
  deletions the bots request, the client sends nothing back, and the registry that the nodes
  storage implements ends as the specification's operations leave it, in this order.
\<close>

theorem bot_commands_refine:
  assumes "delivered gw jt search now topic nq" "texts_faithful jt" "server_ok s"
    and "list_all2 (\<lambda>(r, b) p. request_op r = Some p) requests ops"
    and "\<forall>(r, ready) \<in> set requests. \<forall>url al. r = UpdateNodeRequest url al \<longrightarrow>
      (\<exists>b. jt_Marshal jt (Node_json \<lparr>nd_URL = url, nd_Enabled = True, nd_Alias = al\<rparr>) = Inr b)"
    and "runPairLoop gw jt nq topic s requests = (s', responses)"
  shows "responses = [] \<and> server_ok s' \<and>
    server_registry s' = foldl (\<lambda>A p. fst (reg_step A p)) (server_registry s) ops"
  using assms(4,3,5,6)
proof (induction arbitrary: s responses rule: list_all2_induct)
  case Nil
  then show ?case by simp
next
  case (Cons x xs p ps)
  obtain r ready where x: "x = (r, ready)" by fastforce
  obtain t resp where t: "pair_turn gw jt nq ready topic s r = (t, resp)" by fastforce
  have "resp = None \<and> server_ok t \<and> server_registry t = fst (reg_step (server_registry s) p)"
    by (rule turn_refines [OF assms(1,2) _ _ _ t]) (use Cons x in auto)
  moreover from this Cons.prems(3) t x obtain responses' where
    "runPairLoop gw jt nq topic t xs = (s', responses')" "responses = responses'"
    by (auto split: prod.splits)
  ultimately show ?case using Cons.IH [of t responses'] Cons.prems(2) by auto
qed

section \<open>The bots read the registry\<close>

lemma NodesListResponse_roundtrip: "NodesListResponse_Unmarshal (NodesListResponse_json ns) = Inr ns"
  by (simp add: NodesListResponse_Unmarshal_def NodesListResponse_json_def Unmarshal_def dec_struct_def field_def
      tag_lower alert_tag_lower dec_Nodes_json)

lemma nodes_request:
  assumes "delivered gw jt search now topic nq" "texts_faithful jt"
    and "jt_Marshal jt (NodesListResponse_json (JSONStorage_Nodes (ps_ns s) specific)) = Inr b"
  shows "RequestNodes gw jt nq topic s specific = (s, Some (Inr (JSONStorage_Nodes (ps_ns s) specific)))"
proof -
  have "PairServer_subscription gw jt search now [char_of (unat (RequestType (NodesListRequest specific)))] s = (s, Some b)"
    using assms(3) by (cases specific) (simp_all add: subscription_simps handleNodesRequest_def)
  from deliveredD [OF assms(1) this]
  have "nq s topic [char_of (unat (RequestType (NodesListRequest specific)))] = (s, Inr b)" .
  then show ?thesis
    by (simp add: RequestNodes_def RequestNodesWithCtx_def await_def pair_turn_def client_NodesListRequest_def
        texts_faithfulD [OF assms(2,3)] NodesListResponse_roundtrip pass_on_def as_nodes_def)
qed

text \<open>
  The bots see the registry: when the lists can be written, asking for all nodes returns the
  common and then the specific nodes of the storage, and changes nothing.
\<close>

lemma bots_see_all_nodes:
  assumes "delivered gw jt search now topic nq" "texts_faithful jt"
    and "\<And>specific. \<exists>b. jt_Marshal jt (NodesListResponse_json (JSONStorage_Nodes (ps_ns s) specific)) = Inr b"
  shows "RequestAllNodes gw jt nq topic s =
    (s, Some (Inr (db_CommonNodes (js_db (ps_ns s)) @ db_SpecificNodes (js_db (ps_ns s)))))"
proof -
  from assms(3) [of False] assms(3) [of True] obtain b c where
    "jt_Marshal jt (NodesListResponse_json (JSONStorage_Nodes (ps_ns s) False)) = Inr b"
    "jt_Marshal jt (NodesListResponse_json (JSONStorage_Nodes (ps_ns s) True)) = Inr c" by blast
  from nodes_request [OF assms(1,2) this(1)] nodes_request [OF assms(1,2) this(2)] show ?thesis
    by (simp add: RequestAllNodes_def JSONStorage_Nodes_def db_Nodes_def)
qed

section \<open>The request for one statement\<close>

lemma statements_answer:
  assumes "handleNodesStatementsRequest gw jt search msg = Inr b"
  shows "b = [] \<or> (\<exists>v. jt_Marshal jt (NodesStatementsResponse_json gw v) = Inr b)"
proof -
  obtain sts err where "search (Split (CHR '','') msg) = (sts, err)" by fastforce
  with assms have "(case jt_Marshal jt (NodesStatementsResponse_json gw (statements_response (sts, err))) of
      Inl err \<Rightarrow> Inr [] | Inr response \<Rightarrow> Inr response) = (Inr b :: error + bytes)"
    by (simp add: handleNodesStatementsRequest_def split: if_splits)
  then show ?thesis by (cases "jt_Marshal jt (NodesStatementsResponse_json gw (statements_response (sts, err)))") auto
qed

text \<open>
  The request for the statement of a node at a height is never answered: the server reads the
  JSON of the request as a list of URLs and answers with a list of statements, of which the
  client decodes the error message only. Whatever the storage holds, the requester gets the zero
  statement or waits forever.
\<close>

theorem node_statement_never_answered:
  assumes "delivered gw jt search now topic nq" "texts_faithful jt"
    and "RequestNodeStatement gw jt nq topic s node height = (s', Some r)"
  shows "\<exists>err. r = Inr \<lparr>sr_NodeStatement = zeroStatement, sr_ErrMessage = err\<rparr>"
proof -
  let ?t = "char_of (unat RequestNodeStatementType)"
  have waits: "False" if "snd (pair_turn gw jt nq True topic s (NodeStatementRequest node height)) = None"
    using that assms(3) by (auto simp: RequestNodeStatement_def await_def split: prod.splits)
  obtain req where req: "jt_Marshal jt (NodeHeight_json node height) = Inr req"
    using waits by (cases "jt_Marshal jt (NodeHeight_json node height)")
      (auto simp: pair_turn_def client_NodesStatementRequest_def)
  obtain b where nq: "nq s topic (?t # req) = (s, Inr b)" and h: "handleNodesStatementsRequest gw jt search req = Inr b"
  proof (cases "handleNodesStatementsRequest gw jt search req")
    case (Inl e)
    then have "PairServer_subscription gw jt search now (?t # req) s = (s, None)" by (simp add: subscription_simps)
    from delivered_None [OF assms(1) this] waits req show ?thesis by (auto simp: pair_turn_def client_NodesStatementRequest_def)
  next
    case (Inr b)
    then have "PairServer_subscription gw jt search now (?t # req) s = (s, Some b)" by (simp add: subscription_simps)
    from deliveredD [OF assms(1) this] Inr that show ?thesis by blast
  qed
  from statements_answer [OF h] consider "b = []" | v where "jt_Marshal jt (NodesStatementsResponse_json gw v) = Inr b"
    by blast
  then show ?thesis
  proof cases
    case 1
    from assms(2) obtain e where "jt_parse jt [] = Inl e" by (auto simp: texts_faithful_def)
    with 1 waits req nq show ?thesis
      by (simp add: pair_turn_def client_NodesStatementRequest_def Unmarshal_text_def)
  next
    case (2 v)
    then have u: "Unmarshal_text jt (NodeStatementResponse_Unmarshal gw) b =
        Inr \<lparr>sr_NodeStatement = zeroStatement, sr_ErrMessage = nr_ErrMessage v\<rparr>"
      using texts_faithfulD [OF assms(2)] NodesStatementsResponse_as_statement by metis
    show ?thesis using assms(3) req nq
      by (auto simp: RequestNodeStatement_def await_def pair_turn_def client_NodesStatementRequest_def u
          pass_on_def as_statement_def)
  qed
qed

section \<open>Failed requests\<close>

text \<open>
  A failed request is never answered: when NATS gives an error, the client only logs it, and
  everything that waits for a response without a deadline waits forever; this holds for the
  node lists, the statements and the single statement. With a deadline the waiting ends with the
  error of the context.
\<close>

theorem failed_request_never_answered:
  assumes "\<And>m msg. \<exists>m' err. nq m topic msg = (m', Inl err)"
  shows "snd (RequestAllNodes gw jt nq topic n) = None \<and> snd (RequestNodesStatements gw jt nq topic n nodes) = None \<and>
    snd (RequestNodeStatement gw jt nq topic n node height) = None \<and>
    snd (RequestNodesWithCtx (Some e) gw jt nq topic n specific) = Some (Inl e)"
proof -
  have turn: "snd (pair_turn gw jt nq True topic n r) = None" for r
  proof -
    have "\<exists>m err. nq n topic msg = (m, Inl err)" for msg by (rule assms)
    then show ?thesis
      by (cases r) (auto simp: pair_turn_def client_NodesListRequest_def client_InsertNewNodeRequest_def
          client_UpdateNodeRequest_def client_DeleteNodeRequest_def client_NodesStatementsRequest_def
          client_NodesStatementRequest_def split: sum.splits prod.splits; metis prod.inject sum.distinct(1))+
  qed
  then have wait: "\<exists>m. pair_turn gw jt nq True topic n r = (m, None)" for r
    by (metis prod.collapse)
  then show ?thesis
  proof -
    from wait [of "NodesListRequest False"] wait [of "NodesListRequest specific"] wait [of "NodesStatusRequest nodes"]
      wait [of "NodeStatementRequest node height"]
    show ?thesis
      by (auto simp: RequestAllNodes_def RequestNodes_def RequestNodesWithCtx_def RequestNodesStatements_def
          RequestNodeStatement_def await_def)
  qed
qed

section \<open>Witnesses\<close>

text \<open>A server with no nodes whose storage writes to nowhere, and one with a node of each kind.\<close>

definition demo_server :: "Node list \<Rightarrow> Node list \<Rightarrow> unit PairServer" where
  "demo_server common specific =
     \<lparr>ps_ns = \<lparr>js_db = \<lparr>db_CommonNodes = common, db_SpecificNodes = specific\<rparr>, js_syncDBStruct = (\<lambda>db w. (w, None))\<rparr>,
      ps_world = (), ps_pew = (\<lambda>_. None)\<rparr>"

definition demo_search :: "string list \<Rightarrow> NodeStatement list \<times> error option" where
  "demo_search listOfNodes = ([], Some (Sentinel ErrStorageIsNotReady))"

theorem bot_commands_refine_witness:
  "\<exists>s'. runPairLoop demo_gowaves (demo_text [Node_json \<lparr>nd_URL = ''u'', nd_Enabled = True, nd_Alias = ''a''\<rparr>])
      (demo_net demo_gowaves (demo_text [Node_json \<lparr>nd_URL = ''u'', nd_Enabled = True, nd_Alias = ''a''\<rparr>]) demo_search 7)
      ''t'' (demo_server [] [])
      [(InsertNewNodeRequest ''u'' True, True), (UpdateNodeRequest ''u'' ''a'', True), (DeleteNodeRequest ''v'', True)] = (s', []) \<and>
    server_registry s' True = [''u'' \<mapsto> \<lparr>nd_URL = ''u'', nd_Enabled = True, nd_Alias = ''a''\<rparr>]"
proof -
  let ?n = "\<lparr>nd_URL = ''u'', nd_Enabled = True, nd_Alias = ''a''\<rparr>"
  let ?jt = "demo_text [Node_json ?n]" and ?s = "demo_server [] []"
  let ?rs = "[(InsertNewNodeRequest ''u'' True, True), (UpdateNodeRequest ''u'' ''a'', True), (DeleteNodeRequest ''v'', True)]"
  obtain s' resps where r: "runPairLoop demo_gowaves ?jt (demo_net demo_gowaves ?jt demo_search 7) ''t'' ?s ?rs = (s', resps)"
    by fastforce
  have ok: "server_ok ?s" by (simp add: server_ok_def db_ok_def demo_server_def)
  have ops: "list_all2 (\<lambda>(r, b) p. request_op r = Some p) ?rs [OpInsert ''u'' True, OpUpdate ?n, OpDelete ''v'']" by simp
  have f: "resps = [] \<and> server_ok s' \<and> server_registry s' =
      foldl (\<lambda>A p. fst (reg_step A p)) (server_registry ?s) [OpInsert ''u'' True, OpUpdate ?n, OpDelete ''v'']"
    by (rule bot_commands_refine [OF demo_net_delivers demo_text_faithful ok ops _ r]) (simp add: demo_text_def)
  have "server_registry ?s = (\<lambda>_ _. None)"
    by (intro ext) (simp add: demo_server_def db_abs_def db_Nodes_def)
  then have "foldl (\<lambda>A p. fst (reg_step A p)) (server_registry ?s) [OpInsert ''u'' True, OpUpdate ?n, OpDelete ''v''] True
      = [''u'' \<mapsto> ?n]" by (simp add: reg_place_def)
  with f r show ?thesis by metis
qed

theorem node_statement_never_answered_witness:
  "\<exists>docs s' r. RequestNodeStatement demo_gowaves (demo_text docs) (demo_net demo_gowaves (demo_text docs) demo_search 7) ''t''
      (demo_server [new_node ''u''] []) ''u'' 5 = (s', Some r) \<and>
    (\<exists>err. r = Inr \<lparr>sr_NodeStatement = zeroStatement, sr_ErrMessage = err\<rparr>)"
proof -
  let ?resp = "NodesStatementsResponse_json demo_gowaves (statements_response (demo_search []))"
  let ?docs = "[NodeHeight_json ''u'' 5, ?resp]" and ?s = "demo_server [new_node ''u''] []"
  let ?jt = "demo_text ?docs"
  have ne: "NodeHeight_json ''u'' 5 \<noteq> ?resp" by (simp add: NodeHeight_json_def NodesStatementsResponse_json_def)
  have m: "jt_Marshal ?jt (NodeHeight_json ''u'' 5) = Inr ''x''" "jt_Marshal ?jt ?resp = Inr ''xx''"
    using ne by (simp_all add: demo_text_def)
  have "handleNodesStatementsRequest demo_gowaves ?jt demo_search ''x'' = Inr ''xx''"
    using m(2) by (simp add: handleNodesStatementsRequest_def demo_search_def Let_def)
  then have "PairServer_subscription demo_gowaves ?jt demo_search 7 (char_of (unat RequestNodeStatementType) # ''x'') ?s = (?s, Some ''xx'')"
    by (simp add: subscription_simps)
  moreover have "Unmarshal_text ?jt (NodeStatementResponse_Unmarshal demo_gowaves) ''xx'' =
      NodeStatementResponse_Unmarshal demo_gowaves ?resp"
    by (rule texts_faithfulD [OF demo_text_faithful m(2)])
  ultimately obtain s' r where q: "RequestNodeStatement demo_gowaves ?jt (demo_net demo_gowaves ?jt demo_search 7) ''t'' ?s ''u'' 5 = (s', Some r)"
    by (simp add: RequestNodeStatement_def await_def pair_turn_def client_NodesStatementRequest_def m(1) demo_net_def
        NodesStatementsResponse_as_statement pass_on_def)
  from node_statement_never_answered [OF demo_net_delivers demo_text_faithful q] q show ?thesis by blast
qed

theorem failed_request_never_answered_witness:
  "snd (RequestAllNodes demo_gowaves (demo_text []) (\<lambda>m topic msg. (m, Inl (Errorf ''nats: timeout''))) ''t'' ()) = None"
  using failed_request_never_answered [of "\<lambda>m topic msg. (m, Inl (Errorf ''nats: timeout''))" "''t''" demo_gowaves "demo_text []" "()"]
  by simp

end
