(* ===== verification/BotMessages.thy ===== *)
theory BotMessages
  imports Messaging
begin

text \<open>
  The texts of the bots, \<open>cmd/bots/internal/bots/environment.go\<close> from \<open>removeHTTPOrHTTPSScheme\<close> on:
  alerts are decoded from their JSON, node URLs are replaced by aliases, and the data is given to
  a template; answers to the status requests are sorted, compared and rendered.

  The template engines of the Go library with the template files are the record \<open>templates\<close> of
  parameters, which takes the name of a template and the data.
\<close>

section \<open>Templates\<close>

type_synonym ExpectedExtension = string

definition HTML :: ExpectedExtension where "HTML = ''.html''"
definition Markdown :: ExpectedExtension where "Markdown = ''.md''"

record NodeStatusLine =
  ns_URL :: string
  ns_SumHash :: string
  ns_Status :: string
  ns_Height :: string
  ns_BlockID :: string

record heightStatementGroup =
  hsg_Nodes :: "string list"
  hsg_Height :: uint64

record heightStatement =
  hs_HeightDifference :: uint64
  hs_FirstGroup :: heightStatementGroup
  hs_SecondGroup :: heightStatementGroup

record stateHashStatementGroup =
  ssg_BlockID :: string
  ssg_Nodes :: "string list"
  ssg_StateHash :: string

record stateHashStatement =
  shs_SameHeight :: uint64
  shs_LastCommonStateHashExist :: bool
  shs_ForkHeight :: uint64
  shs_ForkBlockID :: string
  shs_ForkStateHash :: string
  shs_FirstGroup :: stateHashStatementGroup
  shs_SecondGroup :: stateHashStatementGroup

record chain =
  ch_BlockID :: string
  ch_GeneratorAddress :: string

record nodeStatement =
  nst_Node :: string
  nst_Height :: uint64
  nst_Timestamp :: int
  nst_StateHash :: string
  nst_Version :: string

record shortOkNodes =
  ok_TimeEmoji :: string
  ok_NodesNumber :: int
  ok_Height :: string

record nodesSingleChain =
  sc_NodesNumber :: int
  sc_Height :: string
  sc_BlockID :: string
  sc_GeneratorAddress :: string

text \<open>The data of the templates.\<close>

datatype TemplateData =
    T_Simple SimpleAlert
  | T_ChallengedBlock ChallengedBlockAlert
  | T_InternalError InternalErrorAlert
  | T_BaseTarget BaseTargetAlert
  | T_Fixed string
  | T_StateHash stateHashStatement
  | T_Height heightStatement
  | T_Statement NodeStatement
  | T_Unreachable UnreachableAlert
  | T_L2Stuck L2StuckAlert
  | T_NodeLines "NodeStatusLine list"
  | T_ShortOk shortOkNodes
  | T_Chains string "chain list"
  | T_SingleChain nodesSingleChain
  | T_NodeStatement nodeStatement
  | T_Urls "string list"
  | T_Subscriptions "string list" "string list"

record templates =
  tm_html :: "string \<Rightarrow> TemplateData \<Rightarrow> error + string"
  tm_text :: "string \<Rightarrow> TemplateData \<Rightarrow> error + string"

definition executeTemplate :: "templates \<Rightarrow> string \<Rightarrow> TemplateData \<Rightarrow> ExpectedExtension \<Rightarrow> error + string" where
  "executeTemplate tm templateName data extension =
     (if extension = HTML then tm_html tm (templateName @ extension) data
      else if extension = Markdown then tm_text tm (templateName @ extension) data
      else Inl (Errorf ''unknown message type to execute a template''))"

section \<open>Aliases\<close>

definition removeHTTPOrHTTPSScheme :: "string \<Rightarrow> string" where
  "removeHTTPOrHTTPSScheme s = ReplaceAll (ReplaceAll s (HTTPSScheme @ ''://'') []) (HTTPScheme @ ''://'') []"

definition nodesToUrls :: "Node list \<Rightarrow> string list" where
  "nodesToUrls nodes = map (\<lambda>n. if nd_Alias n \<noteq> [] then nd_Alias n else removeHTTPOrHTTPSScheme (nd_URL n)) nodes"

definition replaceNodeWithAlias :: "string \<Rightarrow> (string, string) gomap \<Rightarrow> string" where
  "replaceNodeWithAlias node nodesAlias =
     (case nodesAlias node of Some al \<Rightarrow> al | None \<Rightarrow> removeHTTPOrHTTPSScheme node)"

definition nodeURLToAlias :: "Node list \<Rightarrow> (string, string) gomap" where
  "nodeURLToAlias allNodes =
     foldl (\<lambda>m n. if nd_Alias n \<noteq> [] then m(nd_URL n \<mapsto> nd_Alias n) else m) (\<lambda>_. None) allNodes"

fun GetNodeURLByAlias :: "string \<Rightarrow> Node list \<Rightarrow> string" where
  "GetNodeURLByAlias al [] = al"
| "GetNodeURLByAlias al (n # nodes) = (if nd_Alias n = al then nd_URL n else GetNodeURLByAlias al nodes)"

section \<open>Alerts\<close>

text \<open>\<open>json.Unmarshal\<close> into a new struct.\<close>

abbreviation decode_struct :: "jsontext \<Rightarrow> string \<Rightarrow> 'r fields \<Rightarrow> 'r \<Rightarrow> bytes \<Rightarrow> error + 'r" where
  "decode_struct jt name tbl zero \<equiv> Unmarshal_text jt (Unmarshal (dec_struct name tbl) zero)"

text \<open>Decoding, a change of the decoded value, and the template.\<close>

definition rendered :: "error + 'a \<Rightarrow> ('a \<Rightarrow> error + string) \<Rightarrow> error + string" where
  "rendered decoded f = (case decoded of Inl err \<Rightarrow> Inl err | Inr a \<Rightarrow> f a)"

lemma rendered_simps [simp]: "rendered (Inl e) f = Inl e" "rendered (Inr a) f = f a"
  by (simp_all add: rendered_def)

definition executeSimpleAlertTemplate :: "jsontext \<Rightarrow> templates \<Rightarrow> bytes \<Rightarrow> ExpectedExtension \<Rightarrow> error + string" where
  "executeSimpleAlertTemplate jt tm alertJSON extension =
     rendered (decode_struct jt ''entities.SimpleAlert'' SimpleAlert_fields zeroSimpleAlert alertJSON)
       (\<lambda>simpleAlert. executeTemplate tm ''templates/alerts/simple_alert'' (T_Simple simpleAlert) extension)"

definition executeChallengedBlockTemplate ::
    "gowaves \<Rightarrow> jsontext \<Rightarrow> templates \<Rightarrow> bytes \<Rightarrow> ExpectedExtension \<Rightarrow> error + string" where
  "executeChallengedBlockTemplate gw jt tm alertJSON extension =
     rendered (decode_struct jt ''entities.ChallengedBlockAlert'' (ChallengedBlockAlert_fields gw)
         (zeroChallengedBlockAlert gw) alertJSON)
       (\<lambda>a. executeTemplate tm ''templates/alerts/challenged_block_alert'' (T_ChallengedBlock a) extension)"

definition executeInternalErrorTemplate :: "jsontext \<Rightarrow> templates \<Rightarrow> bytes \<Rightarrow> ExpectedExtension \<Rightarrow> error + string" where
  "executeInternalErrorTemplate jt tm alertJSON extension =
     rendered (decode_struct jt ''entities.InternalErrorAlert'' InternalErrorAlert_fields zeroInternalErrorAlert alertJSON)
       (\<lambda>a. executeTemplate tm ''templates/alerts/internal_error_alert'' (T_InternalError a) extension)"

definition executeBaseTargetTemplate ::
    "jsontext \<Rightarrow> templates \<Rightarrow> bytes \<Rightarrow> (string, string) gomap \<Rightarrow> ExpectedExtension \<Rightarrow> error + string" where
  "executeBaseTargetTemplate jt tm alertJSON nodesAliases extension =
     rendered (decode_struct jt ''entities.BaseTargetAlert'' BaseTargetAlert_fields zeroBaseTargetAlert alertJSON)
       (\<lambda>btAlert. executeTemplate tm ''templates/alerts/base_target_alert''
          (T_BaseTarget (btAlert\<lparr>bta_BaseTargetValues :=
             map (\<lambda>v. v\<lparr>btv_Node := replaceNodeWithAlias (btv_Node v) nodesAliases\<rparr>) (bta_BaseTargetValues btAlert)\<rparr>))
          extension)"

text \<open>A nil interface in the decoded alert is a run-time panic.\<close>

definition executeAlertFixed ::
    "gowaves \<Rightarrow> jsontext \<Rightarrow> templates \<Rightarrow> bytes \<Rightarrow> ExpectedExtension \<Rightarrow> error + string" where
  "executeAlertFixed gw jt tm alertJSON extension =
     rendered (Unmarshal_text jt (AlertFixed_UnmarshalJSON gw) alertJSON)
       (\<lambda>alertFixed. case af_Fixed alertFixed of
          None \<Rightarrow> Inl (Panic ''nil pointer dereference'')
        | Some a \<Rightarrow> executeTemplate tm ''templates/alerts/alert_fixed'' (T_Fixed (Alert_Name gw a)) extension)"

definition replace_group :: "(string, string) gomap \<Rightarrow> Nodes \<Rightarrow> Nodes" where
  "replace_group nodesAliases nodes = map (\<lambda>n. replaceNodeWithAlias n nodesAliases) nodes"

definition stateHashGroup_of ::
    "gowaves \<Rightarrow> (string, string) gomap \<Rightarrow> StateHashGroup \<Rightarrow> stateHashStatementGroup" where
  "stateHashGroup_of gw nodesAliases g =
     \<lparr>ssg_BlockID = BlockID_String gw (sh_BlockID (shg_StateHash g)), ssg_Nodes = replace_group nodesAliases (shg_Nodes g),
      ssg_StateHash = Digest_Hex gw (sh_SumHash (shg_StateHash g))\<rparr>"

definition executeStateHashTemplate ::
    "gowaves \<Rightarrow> jsontext \<Rightarrow> templates \<Rightarrow> bytes \<Rightarrow> (string, string) gomap \<Rightarrow> ExpectedExtension \<Rightarrow> error + string" where
  "executeStateHashTemplate gw jt tm alertJSON nodesAliases extension =
     rendered (decode_struct jt ''entities.StateHashAlert'' (StateHashAlert_fields gw) (zeroStateHashAlert gw) alertJSON)
       (\<lambda>a. let statement =
              \<lparr>shs_SameHeight = sha_CurrentGroupsBucketHeight a,
               shs_LastCommonStateHashExist = sha_LastCommonStateHashExist a,
               shs_ForkHeight = sha_LastCommonStateHashHeight a,
               shs_ForkBlockID = BlockID_String gw (sh_BlockID (sha_LastCommonStateHash a)),
               shs_ForkStateHash = Digest_Hex gw (sh_SumHash (sha_LastCommonStateHash a)),
               shs_FirstGroup = stateHashGroup_of gw nodesAliases (sha_FirstGroup a),
               shs_SecondGroup = stateHashGroup_of gw nodesAliases (sha_SecondGroup a)\<rparr>
            in if ssg_BlockID (shs_FirstGroup statement) \<noteq> ssg_BlockID (shs_SecondGroup statement)
               then executeTemplate tm ''templates/alerts/state_hash_several_chains_alert'' (T_StateHash statement) extension
               else executeTemplate tm ''templates/alerts/state_hash_alert'' (T_StateHash statement) extension)"

definition heightGroup_of :: "(string, string) gomap \<Rightarrow> HeightGroup \<Rightarrow> heightStatementGroup" where
  "heightGroup_of nodesAliases g =
     \<lparr>hsg_Nodes = replace_group nodesAliases (hg_Nodes g), hsg_Height = hg_Height g\<rparr>"

definition executeHeightTemplate ::
    "jsontext \<Rightarrow> templates \<Rightarrow> bytes \<Rightarrow> (string, string) gomap \<Rightarrow> ExpectedExtension \<Rightarrow> error + string" where
  "executeHeightTemplate jt tm alertJSON nodesAliases ext =
     rendered (decode_struct jt ''entities.HeightAlert'' HeightAlert_fields zeroHeightAlert alertJSON)
       (\<lambda>a. executeTemplate tm ''templates/alerts/height_alert''
          (T_Height \<lparr>hs_HeightDifference = hg_Height (ha_MaxHeightGroup a) - hg_Height (ha_OtherHeightGroup a),
             hs_FirstGroup = heightGroup_of nodesAliases (ha_MaxHeightGroup a),
             hs_SecondGroup = heightGroup_of nodesAliases (ha_OtherHeightGroup a)\<rparr>) ext)"

definition executeStatementTemplate ::
    "string \<Rightarrow> gowaves \<Rightarrow> jsontext \<Rightarrow> templates \<Rightarrow> bytes \<Rightarrow> (string, string) gomap \<Rightarrow> ExpectedExtension \<Rightarrow> error + string" where
  "executeStatementTemplate name gw jt tm alertJSON nodesAliases extension =
     rendered (decode_struct jt ''entities.NodeStatement'' (NodeStatement_fields gw) zeroStatement alertJSON)
       (\<lambda>statement. executeTemplate tm name
          (T_Statement (statement\<lparr>st_Node := replaceNodeWithAlias (st_Node statement) nodesAliases\<rparr>)) extension)"

definition executeInvalidHeightTemplate ::
    "gowaves \<Rightarrow> jsontext \<Rightarrow> templates \<Rightarrow> bytes \<Rightarrow> (string, string) gomap \<Rightarrow> ExpectedExtension \<Rightarrow> error + string" where
  "executeInvalidHeightTemplate = executeStatementTemplate ''templates/alerts/invalid_height_alert''"

definition executeIncompleteTemplate ::
    "gowaves \<Rightarrow> jsontext \<Rightarrow> templates \<Rightarrow> bytes \<Rightarrow> (string, string) gomap \<Rightarrow> ExpectedExtension \<Rightarrow> error + string" where
  "executeIncompleteTemplate = executeStatementTemplate ''templates/alerts/incomplete_alert''"

definition executeUnreachableTemplate ::
    "jsontext \<Rightarrow> templates \<Rightarrow> bytes \<Rightarrow> (string, string) gomap \<Rightarrow> ExpectedExtension \<Rightarrow> error + string" where
  "executeUnreachableTemplate jt tm alertJSON nodesAliases extension =
     rendered (decode_struct jt ''entities.UnreachableAlert'' UnreachableAlert_fields zeroUnreachableAlert alertJSON)
       (\<lambda>a. executeTemplate tm ''templates/alerts/unreachable_alert''
          (T_Unreachable (a\<lparr>ua_Node := replaceNodeWithAlias (ua_Node a) nodesAliases\<rparr>)) extension)"

definition executeL2StuckAlertTemplate :: "jsontext \<Rightarrow> templates \<Rightarrow> bytes \<Rightarrow> ExpectedExtension \<Rightarrow> error + string" where
  "executeL2StuckAlertTemplate jt tm alertJSON extension =
     rendered (decode_struct jt ''entities.L2StuckAlert'' L2StuckAlert_fields zeroL2StuckAlert alertJSON)
       (\<lambda>a. executeTemplate tm ''templates/alerts/l2/l2_stuck_alert'' (T_L2Stuck a) extension)"

definition executeAlertTemplate ::
    "gowaves \<Rightarrow> jsontext \<Rightarrow> templates \<Rightarrow> AlertType \<Rightarrow> bytes \<Rightarrow> ExpectedExtension \<Rightarrow> Node list \<Rightarrow> error + string" where
  "executeAlertTemplate gw jt tm alertType alertJSON extension allNodes =
     (let nodesAliases = nodeURLToAlias allNodes in
      if alertType = SimpleAlertType then executeSimpleAlertTemplate jt tm alertJSON extension
      else if alertType = UnreachableAlertType then executeUnreachableTemplate jt tm alertJSON nodesAliases extension
      else if alertType = IncompleteAlertType then executeIncompleteTemplate gw jt tm alertJSON nodesAliases extension
      else if alertType = InvalidHeightAlertType then executeInvalidHeightTemplate gw jt tm alertJSON nodesAliases extension
      else if alertType = HeightAlertType then executeHeightTemplate jt tm alertJSON nodesAliases extension
      else if alertType = StateHashAlertType then executeStateHashTemplate gw jt tm alertJSON nodesAliases extension
      else if alertType = AlertFixedType then executeAlertFixed gw jt tm alertJSON extension
      else if alertType = BaseTargetAlertType then executeBaseTargetTemplate jt tm alertJSON nodesAliases extension
      else if alertType = InternalErrorAlertType then executeInternalErrorTemplate jt tm alertJSON extension
      else if alertType = ChallengedBlockAlertType then executeChallengedBlockTemplate gw jt tm alertJSON extension
      else if alertType = L2StuckAlertType then executeL2StuckAlertTemplate jt tm alertJSON extension
      else Inl (Errorf (''unknown alert type ('' @ FormatInt (uint alertType) @ '')'')))"

definition constructMessage ::
    "gowaves \<Rightarrow> jsontext \<Rightarrow> templates \<Rightarrow> AlertType \<Rightarrow> bytes \<Rightarrow> ExpectedExtension \<Rightarrow> Node list \<Rightarrow> error + string" where
  "constructMessage gw jt tm alertType alertJSON extension allNodes =
     (case executeAlertTemplate gw jt tm alertType alertJSON extension allNodes of
        Inl err \<Rightarrow> Inl (wrapf err ''failed to execute an alert template'')
      | Inr msg \<Rightarrow> Inr msg)"

section \<open>The status of the nodes\<close>

record StatusCondition =
  sc_AllNodesAreOk :: bool
  sc_NodesNumber' :: int
  sc_Height' :: string

definition noCondition :: StatusCondition where
  "noCondition = \<lparr>sc_AllNodesAreOk = False, sc_NodesNumber' = 0, sc_Height' = []\<rparr>"

text \<open>The order among lines with one URL, which \<open>sort.Slice\<close> leaves open, is kept here.\<close>

definition sortNodesStatuses :: "NodeStatusLine list \<Rightarrow> NodeStatusLine list" where
  "sortNodesStatuses statuses = sort_key ns_URL statuses"

definition urlLine :: "string \<Rightarrow> NodeStatusLine" where
  "urlLine url = \<lparr>ns_URL = url, ns_SumHash = [], ns_Status = [], ns_Height = [], ns_BlockID = []\<rparr>"

text \<open>\<open>unavailable_part\<close>: the text on the nodes whose status is not \<open>OK\<close>, empty without such nodes.\<close>

definition unavailable_part :: "templates \<Rightarrow> ExpectedExtension \<Rightarrow> NodeStatusLine list \<Rightarrow> error + string" where
  "unavailable_part tm ext unavailableNodes =
     (if unavailableNodes = [] then Inr []
      else (case executeTemplate tm ''templates/nodes_status_unavailable'' (T_NodeLines unavailableNodes) ext of
              Inl err \<Rightarrow> Inl err
            | Inr unavailableMsg \<Rightarrow> Inr (unavailableMsg @ newline)))"

definition HandleNodesStatusError ::
    "templates \<Rightarrow> NodesStatementsResponse \<Rightarrow> ExpectedExtension \<Rightarrow> error + string \<times> StatusCondition" where
  "HandleNodesStatusError tm resp ext =
     (if nr_ErrMessage resp \<noteq> Error (Sentinel ErrBigHeightDifference) then Inr (nr_ErrMessage resp, noCondition)
      else
        let unavailableNodes = map (\<lambda>st. urlLine (pn_URL st)) (filter (\<lambda>st. pn_Status st \<noteq> OK) (nr_NodesStatements resp));
            differentHeightsNodes = map (\<lambda>st. (urlLine (pn_URL st))\<lparr>ns_Height := FormatUint (pn_Height st)\<rparr>)
              (filter (\<lambda>st. pn_Status st = OK) (nr_NodesStatements resp))
        in (case unavailable_part tm ext (sortNodesStatuses unavailableNodes) of
              Inl err \<Rightarrow> Inl err
            | Inr msg \<Rightarrow>
                (case executeTemplate tm ''templates/nodes_status_different_heights''
                    (T_NodeLines (sortNodesStatuses differentHeightsNodes)) ext of
                   Inl err \<Rightarrow> Inl err
                 | Inr differentHeights \<Rightarrow>
                     Inr (nr_ErrMessage resp @ newline @ newline @ msg @ differentHeights, noCondition))))"

text \<open>
  The loop of \<open>sortedNodesByStatusWithHeight\<close>: unavailable nodes, the others, the height of the last
  of these. A statement with status \<open>OK\<close> and a nil state hash is a run-time panic.
\<close>

fun nodes_by_status ::
    "gowaves \<Rightarrow> PairStatement list \<Rightarrow> NodeStatusLine list \<Rightarrow> NodeStatusLine list \<Rightarrow> string \<Rightarrow>
     error + NodeStatusLine list \<times> NodeStatusLine list \<times> string" where
  "nodes_by_status gw [] unavailable okNodes height = Inr (unavailable, okNodes, height)"
| "nodes_by_status gw (st # sts) unavailable okNodes height =
     (if pn_Status st \<noteq> OK then nodes_by_status gw sts (unavailable @ [urlLine (pn_URL st)]) okNodes height
      else (case pn_StateHash st of
              None \<Rightarrow> Inl (Panic ''nil pointer dereference'')
            | Some sh \<Rightarrow>
                let height = FormatUint (pn_Height st);
                    s = \<lparr>ns_URL = pn_URL st, ns_SumHash = Digest_Hex gw (sh_SumHash sh), ns_Status = pn_Status st,
                         ns_Height = height, ns_BlockID = BlockID_String gw (sh_BlockID sh)\<rparr>
                in nodes_by_status gw sts unavailable (okNodes @ [s]) height))"

definition sortedNodesByStatusWithHeight ::
    "gowaves \<Rightarrow> PairStatement list \<Rightarrow> error + NodeStatusLine list \<times> NodeStatusLine list \<times> string" where
  "sortedNodesByStatusWithHeight gw sts =
     (case nodes_by_status gw sts [] [] [] of
        Inl err \<Rightarrow> Inl err
      | Inr (unavailable, okNodes, height) \<Rightarrow> Inr (sortNodesStatuses unavailable, sortNodesStatuses okNodes, height))"

fun hashesEqual_loop :: "string \<Rightarrow> bool \<Rightarrow> NodeStatusLine list \<Rightarrow> bool" where
  "hashesEqual_loop previousHash hashesEqual [] = hashesEqual"
| "hashesEqual_loop previousHash hashesEqual (node # nodes) =
     hashesEqual_loop (ns_SumHash node) (if ns_SumHash node \<noteq> previousHash then False else hashesEqual) nodes"

definition areStateHashesEqual :: "NodeStatusLine list \<Rightarrow> bool" where
  "areStateHashesEqual okNodes =
     (if okNodes = [] then True else hashesEqual_loop (ns_SumHash (okNodes ! 0)) True okNodes)"

definition HandleNodesStatus ::
    "gowaves \<Rightarrow> templates \<Rightarrow> NodesStatementsResponse \<Rightarrow> ExpectedExtension \<Rightarrow> Node list \<Rightarrow>
     error + string \<times> StatusCondition" where
  "HandleNodesStatus gw tm resp ext nodes =
     (let nodesAliases = nodeURLToAlias nodes;
          sts = map (\<lambda>st. st\<lparr>pn_URL := replaceNodeWithAlias (pn_URL st) nodesAliases\<rparr>) (nr_NodesStatements resp)
      in if nr_ErrMessage resp \<noteq> [] then HandleNodesStatusError tm (resp\<lparr>nr_NodesStatements := sts\<rparr>) ext
         else (case sortedNodesByStatusWithHeight gw sts of
            Inl err \<Rightarrow> Inl err
          | Inr (unavailableNodes, okNodes, height) \<Rightarrow>
              (case unavailable_part tm ext unavailableNodes of
                 Inl err \<Rightarrow> Inl err
               | Inr msg \<Rightarrow>
                   if \<not> areStateHashesEqual okNodes then
                     (case executeTemplate tm ''templates/nodes_status_different_hashes'' (T_NodeLines okNodes) ext of
                        Inl err \<Rightarrow> Inl err
                      | Inr differentHashes \<Rightarrow> Inr (msg @ differentHashes @ '' '' @ height, noCondition))
                   else
                     (case executeTemplate tm ''templates/nodes_status_ok'' (T_NodeLines okNodes) ext of
                        Inl err \<Rightarrow> Inl err
                      | Inr equalHashes \<Rightarrow>
                          Inr (msg @ equalHashes @ '' '' @ height,
                            if unavailableNodes = [] \<and> okNodes \<noteq> []
                            then \<lparr>sc_AllNodesAreOk = True, sc_NodesNumber' = int (length okNodes), sc_Height' = height\<rparr>
                            else noCondition)))))"

section \<open>Chains\<close>

definition chain_of :: "gowaves \<Rightarrow> PairStatement \<Rightarrow> BlockID \<Rightarrow> chain" where
  "chain_of gw statement blockID =
     \<lparr>ch_BlockID = BlockID_String gw blockID,
      ch_GeneratorAddress = (case pn_Generator statement of None \<Rightarrow> [] | Some g \<Rightarrow> Address_String gw g)\<rparr>"

fun chains_loop :: "gowaves \<Rightarrow> string \<Rightarrow> uint64 \<Rightarrow> PairStatement list \<Rightarrow> chain list \<Rightarrow> error + chain list" where
  "chains_loop gw sampleID height [] chs = Inr chs"
| "chains_loop gw sampleID height (statement # sts) chs =
     (case pn_BlockID statement of
        None \<Rightarrow> Inl (Errorf (''block ID is empty for node '' @ pn_URL statement))
      | Some blockID \<Rightarrow>
          chains_loop gw sampleID height sts
            (if BlockID_String gw blockID \<noteq> sampleID \<and> pn_Height statement = height
             then chs @ [chain_of gw statement blockID] else chs))"

definition HandleNodesChains :: "gowaves \<Rightarrow> templates \<Rightarrow> NodesStatementsResponse \<Rightarrow> ExpectedExtension \<Rightarrow> error + string" where
  "HandleNodesChains gw tm resp ext =
     (case nr_NodesStatements resp of
        [] \<Rightarrow> Inl (Errorf ''failed to collect enough statements (< 1)'')
      | sample # rest \<Rightarrow>
          (case pn_BlockID sample of
             None \<Rightarrow> Inl (Errorf (''block ID or generator are empty for node '' @ pn_URL sample))
           | Some blockID \<Rightarrow>
               (case chains_loop gw (BlockID_String gw blockID) (pn_Height sample) rest [chain_of gw sample blockID] of
                  Inl err \<Rightarrow> Inl err
                | Inr chs \<Rightarrow>
                    if length chs > 1 then
                      executeTemplate tm ''templates/nodes_chains_different''
                        (T_Chains (FormatUint (pn_Height sample)) chs) ext
                    else
                      executeTemplate tm ''templates/nodes_chains_ok''
                        (T_SingleChain \<lparr>sc_NodesNumber = int (length (nr_NodesStatements resp)),
                           sc_Height = FormatUint (pn_Height sample), sc_BlockID = BlockID_String gw blockID,
                           sc_GeneratorAddress = ch_GeneratorAddress (chain_of gw sample blockID)\<rparr>) ext)))"

definition HandleNodeStatement ::
    "gowaves \<Rightarrow> templates \<Rightarrow> NodeStatementResponse \<Rightarrow> ExpectedExtension \<Rightarrow> error + string" where
  "HandleNodeStatement gw tm resp extension =
     (if sr_ErrMessage resp \<noteq> [] then Inr (sr_ErrMessage resp)
      else
        let st = sr_NodeStatement resp;
            shSum = (case st_StateHash st of None \<Rightarrow> ''<nil>'' | Some sh \<Rightarrow> Digest_Hex gw (sh_SumHash sh))
        in executeTemplate tm ''templates/node_statement''
             (T_NodeStatement \<lparr>nst_Node = removeHTTPOrHTTPSScheme (st_Node st), nst_Height = st_Height st,
                nst_Timestamp = st_Timestamp st, nst_StateHash = shSum, nst_Version = st_Version st\<rparr>) extension)"

end
