(* ===== verification/BotEnv.thy ===== *)
theory BotEnv
  imports BotMessages PairClient
begin

text \<open>
  The environments of the Telegram and the Discord bot,
  \<open>cmd/bots/internal/bots/environment.go\<close>: sending alerts, remembering the message of each alert
  until it is reported as fixed, and the subscriptions to the topics of the alerts; with the
  subscriber of \<open>messaging/pubsub_client.go\<close>. Logging and locks are left out.

  The Telegram and Discord clients and NATS are records of parameters, on a state of the world;
  the answer to the request for all nodes is an argument (\<open>None\<close>: it never comes). A model of an
  operation also returns the messages that it sent, each with the outcome.
\<close>

datatype 'a outcome = Returned 'a | Blocked | Crashed error

section \<open>Subscriptions and remembered messages\<close>

record 'sub AlertSubscription =
  su_alertName :: AlertName
  su_subscription :: 'sub

type_synonym 'sub subscriptions = "(AlertType, 'sub AlertSubscription) gomap"

definition subscriptions_Add :: "'sub subscriptions \<Rightarrow> AlertType \<Rightarrow> AlertName \<Rightarrow> 'sub \<Rightarrow> 'sub subscriptions" where
  "subscriptions_Add subs alertType alertName subscription =
     subs(alertType \<mapsto> \<lparr>su_alertName = alertName, su_subscription = subscription\<rparr>)"

definition subscriptions_Read :: "'sub subscriptions \<Rightarrow> AlertType \<Rightarrow> 'sub AlertSubscription option" where
  "subscriptions_Read subs alertType = subs alertType"

definition subscriptions_Delete :: "'sub subscriptions \<Rightarrow> AlertType \<Rightarrow> 'sub subscriptions" where
  "subscriptions_Delete subs alertType = subs(alertType := None)"

type_synonym unhandledAlertMessages = "(Digest, int) gomap"

definition unhandled_Add :: "unhandledAlertMessages \<Rightarrow> Digest \<Rightarrow> int \<Rightarrow> unhandledAlertMessages" where
  "unhandled_Add m alertID messageID = m(alertID \<mapsto> messageID)"

definition GetMessageIDByAlertID :: "unhandledAlertMessages \<Rightarrow> Digest \<Rightarrow> int option" where
  "GetMessageIDByAlertID m alertID = m alertID"

definition unhandled_Delete :: "unhandledAlertMessages \<Rightarrow> Digest \<Rightarrow> unhandledAlertMessages" where
  "unhandled_Delete m alertID = m(alertID := None)"

section \<open>The Telegram bot\<close>

record 'sub TelegramBot =
  tg_ChatID :: int
  tg_Mute :: bool
  tg_subscriptions :: "'sub subscriptions"
  tg_unhandled :: unhandledAlertMessages
  tg_scheme :: string

definition NewTelegramBotEnvironment :: "int \<Rightarrow> bool \<Rightarrow> string \<Rightarrow> 'sub TelegramBot" where
  "NewTelegramBotEnvironment chatID mute scheme =
     \<lparr>tg_ChatID = chatID, tg_Mute = mute, tg_subscriptions = (\<lambda>_. None), tg_unhandled = (\<lambda>_. None), tg_scheme = scheme\<rparr>"

text \<open>A message: its chat, its text, and the message that it answers. Sending gives the message's id.\<close>

record 'chat sent =
  se_chat :: 'chat
  se_text :: string
  se_ReplyTo :: "int option"

type_synonym 'w telegram = "'w \<Rightarrow> int sent \<Rightarrow> 'w \<times> (error + int)"

definition tg_SendMessage :: "'w telegram \<Rightarrow> 'sub TelegramBot \<Rightarrow> 'w \<Rightarrow> string \<Rightarrow> 'w \<times> (int sent \<times> (error + int)) list" where
  "tg_SendMessage send tg w msg =
     (if tg_Mute tg then (w, [])
      else
        let m = \<lparr>se_chat = tg_ChatID tg, se_text = msg, se_ReplyTo = None\<rparr>
        in case send w m of (w, r) \<Rightarrow> (w, [(m, r)]))"

definition bot_error :: "string \<Rightarrow> error \<Rightarrow> string" where
  "bot_error msg err = ''Bot Error - '' @ msg @ '': '' @ Error err"

definition tg_sendErrMsg ::
    "'w telegram \<Rightarrow> 'sub TelegramBot \<Rightarrow> 'w \<Rightarrow> string \<Rightarrow> error \<Rightarrow> 'w \<times> (int sent \<times> (error + int)) list" where
  "tg_sendErrMsg send tg w msg err = tg_SendMessage send tg w (bot_error msg err)"

definition errUnknownAlertType :: error where
  "errUnknownAlertType = Errorf ''received unknown alert type''"

definition unknown_type_msg :: string where
  "unknown_type_msg = ''Failed to construct message, unknown alert type''"

text \<open>
  \<open>SendAlertMessage\<close>. After a failed request the list of nodes is nil and the message is sent all
  the same; after a failed send the nil message is dereferenced.
\<close>

definition tg_SendAlertMessage ::
    "gowaves \<Rightarrow> jsontext \<Rightarrow> templates \<Rightarrow> 'w telegram \<Rightarrow> (error + Node list) option \<Rightarrow> 'sub TelegramBot \<Rightarrow> 'w \<Rightarrow>
     AlertMessage \<Rightarrow> ('sub TelegramBot \<times> 'w \<times> (int sent \<times> (error + int)) list) outcome" where
  "tg_SendAlertMessage gw jt tm send answer tg w msg =
     (if tg_Mute tg then Returned (tg, w, [])
      else if AlertType_AlertName (am_alertType msg) = None then
        (case tg_sendErrMsg send tg w unknown_type_msg errUnknownAlertType of (w, out) \<Rightarrow> Returned (tg, w, out))
      else (case answer of
        None \<Rightarrow> Blocked
      | Some nodes \<Rightarrow>
          (case constructMessage gw jt tm (am_alertType msg) (am_data msg) HTML
               (case nodes of Inl err \<Rightarrow> [] | Inr ns \<Rightarrow> ns) of
             Inl err \<Rightarrow>
               if is_panic err then Crashed err
               else (case tg_sendErrMsg send tg w ''Failed to construct message'' err of (w, out) \<Rightarrow> Returned (tg, w, out))
           | Inr messageToBot \<Rightarrow>
               let alertID = am_referenceID msg in
               if am_alertType msg = AlertFixedType then
                 (case GetMessageIDByAlertID (tg_unhandled tg) alertID of
                    None \<Rightarrow>
                      (case tg_sendErrMsg send tg w ''Failed to get message ID by the given alertID''
                          (Errorf (''alertID '' @ Digest_String gw alertID @ '' hasn't been found'')) of
                         (w, out) \<Rightarrow> Returned (tg, w, out))
                  | Some messageID \<Rightarrow>
                      let m = \<lparr>se_chat = tg_ChatID tg, se_text = messageToBot, se_ReplyTo = Some messageID\<rparr> in
                      (case send w m of (w, r) \<Rightarrow>
                         Returned (tg\<lparr>tg_unhandled := unhandled_Delete (tg_unhandled tg) alertID\<rparr>, w, [(m, r)])))
               else
                 let m = \<lparr>se_chat = tg_ChatID tg, se_text = messageToBot, se_ReplyTo = None\<rparr> in
                 (case send w m of
                    (w, Inl err) \<Rightarrow> Crashed (Panic ''nil pointer dereference'')
                  | (w, Inr messageID) \<Rightarrow>
                      Returned (tg\<lparr>tg_unhandled := unhandled_Add (tg_unhandled tg) alertID messageID\<rparr>, w, [(m, Inr messageID)])))))"

definition tg_IsEligibleForAction :: "'sub TelegramBot \<Rightarrow> string \<Rightarrow> bool" where
  "tg_IsEligibleForAction tg chatID \<longleftrightarrow> chatID = FormatInt (tg_ChatID tg)"

interpretation tg_chat: chat_bot "tg_IsEligibleForAction tg" "FormatInt (tg_ChatID tg)" for tg :: "'sub TelegramBot"
  by unfold_locales (simp add: tg_IsEligibleForAction_def)

definition NodesListMessage :: "templates \<Rightarrow> Node list \<Rightarrow> error + string" where
  "NodesListMessage tm nodes = tm_html tm ''templates/nodes_list.html'' (T_Urls (sort (nodesToUrls nodes)))"

subsection \<open>Subscriptions\<close>

text \<open>The NATS connection: subscribing to a topic, and giving a subscription up.\<close>

record ('n, 'sub) nats =
  nc_Subscribe :: "'n \<Rightarrow> string \<Rightarrow> 'n \<times> (error + 'sub)"
  nc_Unsubscribe :: "'n \<Rightarrow> 'sub \<Rightarrow> 'n \<times> error option"

definition tg_IsAlreadySubscribed :: "'sub TelegramBot \<Rightarrow> AlertType \<Rightarrow> bool" where
  "tg_IsAlreadySubscribed tg alertType \<longleftrightarrow> subscriptions_Read (tg_subscriptions tg) alertType \<noteq> None"

definition tg_subscribe ::
    "('n, 'sub) nats \<Rightarrow> 'sub TelegramBot \<Rightarrow> 'n \<Rightarrow> AlertType \<Rightarrow> AlertName \<Rightarrow> 'sub TelegramBot \<times> 'n \<times> error option" where
  "tg_subscribe nc tg n alertType alertName =
     (if tg_IsAlreadySubscribed tg alertType then
        (tg, n, Some (Errorf (''failed to subscribe to '' @ alertName @ '', already subscribed to it'')))
      else (case nc_Subscribe nc n (PubSubMsgTopic (tg_scheme tg) alertType) of
              (n, Inl err) \<Rightarrow> (tg, n, Some (wrapf err ''failed to subscribe to alert''))
            | (n, Inr subscription) \<Rightarrow>
                (tg\<lparr>tg_subscriptions := subscriptions_Add (tg_subscriptions tg) alertType alertName subscription\<rparr>, n, None)))"

text \<open>The loop over the map of all types, in the order \<open>ks\<close>.\<close>

fun tg_SubscribeToAllAlerts ::
    "('n, 'sub) nats \<Rightarrow> AlertType list \<Rightarrow> 'sub TelegramBot \<Rightarrow> 'n \<Rightarrow> 'sub TelegramBot \<times> 'n \<times> error option" where
  "tg_SubscribeToAllAlerts nc [] tg n = (tg, n, None)"
| "tg_SubscribeToAllAlerts nc (alertType # ks) tg n =
     (case tg_subscribe nc tg n alertType (map_get [] GetAllAlertTypesAndNames alertType) of
        (tg, n, Some err) \<Rightarrow> (tg, n, Some err)
      | (tg, n, None) \<Rightarrow> tg_SubscribeToAllAlerts nc ks tg n)"

definition SubscribeToAlert ::
    "('n, 'sub) nats \<Rightarrow> 'sub TelegramBot \<Rightarrow> 'n \<Rightarrow> AlertType \<Rightarrow> 'sub TelegramBot \<times> 'n \<times> error option" where
  "SubscribeToAlert nc tg n alertType =
     (case AlertType_AlertName alertType of
        None \<Rightarrow> (tg, n, Some (Errorf ''failed to subscribe to alert, unknown alert type''))
      | Some alertName \<Rightarrow> tg_subscribe nc tg n alertType alertName)"

text \<open>The last check is made before the entry is deleted, so it never fails.\<close>

definition UnsubscribeFromAlert ::
    "('n, 'sub) nats \<Rightarrow> 'sub TelegramBot \<Rightarrow> 'n \<Rightarrow> AlertType \<Rightarrow> 'sub TelegramBot \<times> 'n \<times> error option" where
  "UnsubscribeFromAlert nc tg n alertType =
     (case AlertType_AlertName alertType of
        None \<Rightarrow> (tg, n, Some (Errorf ''failed to unsubscribe from alert, unknown alert type''))
      | Some alertName \<Rightarrow>
          if \<not> tg_IsAlreadySubscribed tg alertType then
            (tg, n, Some (Errorf (''failed to unsubscribe from '' @ alertName @ '', was not subscribed to it'')))
          else (case subscriptions_Read (tg_subscriptions tg) alertType of
            None \<Rightarrow> (tg, n, Some (Errorf ''subscription didn't exist even though I was subscribed to it''))
          | Some alertSub \<Rightarrow>
              (case nc_Unsubscribe nc n (su_subscription alertSub) of
                 (n, Some err) \<Rightarrow> (tg, n, Some (wrapf err ''failed to unsubscribe from alert''))
               | (n, None) \<Rightarrow>
                   if \<not> tg_IsAlreadySubscribed tg alertType then
                     (tg, n, Some (Errorf ''tried to unsubscribe from alert, but still subscribed to it''))
                   else
                     (tg\<lparr>tg_subscriptions := subscriptions_Delete (tg_subscriptions tg) alertType\<rparr>, n, None))))"

text \<open>The list of subscriptions: \<open>ks\<close> and \<open>all\<close> are orders of the two maps.\<close>

definition SubscriptionsList ::
    "templates \<Rightarrow> AlertType list \<Rightarrow> AlertType list \<Rightarrow> 'sub TelegramBot \<Rightarrow> error + string" where
  "SubscriptionsList tm ks all tg =
     (let subscribedTo = map (\<lambda>s. su_alertName s @ newline @ newline) (List.map_filter (tg_subscriptions tg) ks);
          unsubscribedFrom = map (\<lambda>t. map_get [] GetAllAlertTypesAndNames t @ newline @ newline)
            (filter (\<lambda>t. \<not> tg_IsAlreadySubscribed tg t) all)
      in tm_html tm ''templates/subscriptions.html'' (T_Subscriptions subscribedTo unsubscribedFrom))"

section \<open>The Discord bot\<close>

record 'sub DiscordBot =
  ds_ChatID :: string
  ds_Subscriptions :: "'sub subscriptions"
  ds_unhandled :: unhandledAlertMessages
  ds_scheme :: string

definition NewDiscordBotEnvironment :: "string \<Rightarrow> string \<Rightarrow> 'sub DiscordBot" where
  "NewDiscordBotEnvironment chatID scheme =
     \<lparr>ds_ChatID = chatID, ds_Subscriptions = (\<lambda>_. None), ds_unhandled = (\<lambda>_. None), ds_scheme = scheme\<rparr>"

text \<open>Discord names its messages by strings; a reply carries the printed id.\<close>

record 'chat discordMessage =
  dm_chat :: 'chat
  dm_text :: string
  dm_ReplyTo :: "string option"

type_synonym 'w discord = "'w \<Rightarrow> string discordMessage \<Rightarrow> 'w \<times> (error + string)"

definition ds_SendMessage ::
    "'w discord \<Rightarrow> 'sub DiscordBot \<Rightarrow> 'w \<Rightarrow> string \<Rightarrow> 'w \<times> (string discordMessage \<times> (error + string)) list" where
  "ds_SendMessage send ds w msg =
     (let m = \<lparr>dm_chat = ds_ChatID ds, dm_text = msg, dm_ReplyTo = None\<rparr>
      in case send w m of (w, r) \<Rightarrow> (w, [(m, r)]))"

definition ds_sendErrMsg ::
    "'w discord \<Rightarrow> 'sub DiscordBot \<Rightarrow> 'w \<Rightarrow> string \<Rightarrow> error \<Rightarrow> 'w \<times> (string discordMessage \<times> (error + string)) list" where
  "ds_sendErrMsg send ds w msg err = ds_SendMessage send ds w (bot_error msg err)"

definition ds_SendAlertMessage ::
    "gowaves \<Rightarrow> jsontext \<Rightarrow> templates \<Rightarrow> 'w discord \<Rightarrow> (error + Node list) option \<Rightarrow> 'sub DiscordBot \<Rightarrow> 'w \<Rightarrow>
     AlertMessage \<Rightarrow> ('sub DiscordBot \<times> 'w \<times> (string discordMessage \<times> (error + string)) list) outcome" where
  "ds_SendAlertMessage gw jt tm send answer ds w msg =
     (if AlertType_AlertName (am_alertType msg) = None then
        (case ds_sendErrMsg send ds w unknown_type_msg errUnknownAlertType of (w, out) \<Rightarrow> Returned (ds, w, out))
      else (case answer of
        None \<Rightarrow> Blocked
      | Some nodes \<Rightarrow>
          let (w, out0) = (case nodes of Inl err \<Rightarrow> ds_sendErrMsg send ds w ''Failed to get nodes list'' err | Inr ns \<Rightarrow> (w, []))
          in (case constructMessage gw jt tm (am_alertType msg) (am_data msg) Markdown
               (case nodes of Inl err \<Rightarrow> [] | Inr ns \<Rightarrow> ns) of
             Inl err \<Rightarrow>
               if is_panic err then Crashed err
               else (case ds_sendErrMsg send ds w ''Failed to construct message'' err of (w, out) \<Rightarrow> Returned (ds, w, out0 @ out))
           | Inr messageToBot \<Rightarrow>
               let alertID = am_referenceID msg in
               if am_alertType msg = AlertFixedType then
                 (case GetMessageIDByAlertID (ds_unhandled ds) alertID of
                    None \<Rightarrow>
                      (case ds_sendErrMsg send ds w ''Failed to get message ID by the given alertID''
                          (Errorf (''alertID '' @ Digest_String gw alertID @ '' hasn't been found'')) of
                         (w, out) \<Rightarrow> Returned (ds, w, out0 @ out))
                  | Some messageID \<Rightarrow>
                      let m = \<lparr>dm_chat = ds_ChatID ds, dm_text = messageToBot, dm_ReplyTo = Some (FormatInt messageID)\<rparr> in
                      (case send w m of (w, r) \<Rightarrow>
                         Returned (ds\<lparr>ds_unhandled := unhandled_Delete (ds_unhandled ds) alertID\<rparr>, w, out0 @ [(m, r)])))
               else
                 let m = \<lparr>dm_chat = ds_ChatID ds, dm_text = messageToBot, dm_ReplyTo = None\<rparr> in
                 (case send w m of
                    (w, Inl err) \<Rightarrow> Returned (ds, w, out0 @ [(m, Inl err)])
                  | (w, Inr sentID) \<Rightarrow>
                      (case Atoi sentID of
                         Inl err \<Rightarrow> Returned (ds, w, out0 @ [(m, Inr sentID)])
                       | Inr messageID \<Rightarrow>
                           Returned (ds\<lparr>ds_unhandled := unhandled_Add (ds_unhandled ds) alertID messageID\<rparr>, w,
                             out0 @ [(m, Inr sentID)]))))))"

definition ds_IsAlreadySubscribed :: "'sub DiscordBot \<Rightarrow> AlertType \<Rightarrow> bool" where
  "ds_IsAlreadySubscribed ds alertType \<longleftrightarrow> subscriptions_Read (ds_Subscriptions ds) alertType \<noteq> None"

definition ds_IsEligibleForAction :: "'sub DiscordBot \<Rightarrow> string \<Rightarrow> bool" where
  "ds_IsEligibleForAction ds chatID \<longleftrightarrow> chatID = ds_ChatID ds"

interpretation ds_chat: chat_bot "ds_IsEligibleForAction ds" "ds_ChatID ds" for ds :: "'sub DiscordBot"
  by unfold_locales (simp add: ds_IsEligibleForAction_def)

fun ds_SubscribeToAllAlerts ::
    "('n, 'sub) nats \<Rightarrow> AlertType list \<Rightarrow> 'sub DiscordBot \<Rightarrow> 'n \<Rightarrow> 'sub DiscordBot \<times> 'n \<times> error option" where
  "ds_SubscribeToAllAlerts nc [] ds n = (ds, n, None)"
| "ds_SubscribeToAllAlerts nc (alertType # ks) ds n =
     (let alertName = map_get [] GetAllAlertTypesAndNames alertType in
      if ds_IsAlreadySubscribed ds alertType then
        (ds, n, Some (Errorf (''failed to subscribe to '' @ alertName @ '', already subscribed to it'')))
      else (case nc_Subscribe nc n (PubSubMsgTopic (ds_scheme ds) alertType) of
              (n, Inl err) \<Rightarrow> (ds, n, Some (wrapf err ''failed to subscribe to alert''))
            | (n, Inr subscription) \<Rightarrow>
                ds_SubscribeToAllAlerts nc ks
                  (ds\<lparr>ds_Subscriptions := subscriptions_Add (ds_Subscriptions ds) alertType alertName subscription\<rparr>) n))"

section \<open>The subscriber\<close>

text \<open>
  The handler of \<open>StartSubMessagingClient\<close>: a message that cannot be read is reported as an
  internal error, at time \<open>now\<close>. The result is the message given to the bot, or none when the
  internal alert cannot be written either.
\<close>

definition received_message ::
    "gowaves \<Rightarrow> jsontext \<Rightarrow> (bytes \<Rightarrow> error + Digest) \<Rightarrow> int \<Rightarrow> bytes \<Rightarrow> AlertMessage option" where
  "received_message gw jt newDigest now msg =
     (case NewAlertMessageFromBytes newDigest msg of
        Inr alertMsg \<Rightarrow> Some alertMsg
      | Inl err \<Rightarrow>
          let hndlErr = wrapf err ''failed to parse alert message from bytes'';
              internalAlert = A_InternalError (NewInternalErrorAlert now hndlErr)
          in (case NewAlertMessageFromAlert gw jt (Some internalAlert) of
                Inl iErr \<Rightarrow> None
              | Inr alertMsg \<Rightarrow> Some alertMsg))"

section \<open>The scheduled status\<close>

definition TimerMsg :: string where "TimerMsg = [CHR 0xE2, CHR 0x8F, CHR 0xB1]"

datatype botKind = TelegramKind | DiscordKind

definition TemplatesExtension :: "botKind \<Rightarrow> ExpectedExtension" where
  "TemplatesExtension b = (case b of TelegramKind \<Rightarrow> HTML | DiscordKind \<Rightarrow> Markdown)"

definition status_text :: "botKind \<Rightarrow> string \<Rightarrow> string" where
  "status_text b handled =
     (case b of
        TelegramKind \<Rightarrow> ''Status '' @ TimerMsg @ newline @ newline @ handled
      | DiscordKind \<Rightarrow> ''```yaml'' @ newline @ ''Status '' @ TimerMsg @ newline @ newline @ handled @ newline @ ''```'')"

text \<open>
  The task of \<open>ScheduleNodesStatus\<close>: the text that the bot is told to send. The errors of the two
  requests are logged and the task goes on; without a response it dereferences nil. \<open>statements\<close> is
  the answer to the request for the statements of the given URLs.
\<close>

definition scheduled_status ::
    "gowaves \<Rightarrow> templates \<Rightarrow> botKind \<Rightarrow> (error + Node list) option \<Rightarrow>
     (string list \<Rightarrow> (error + NodesStatementsResponse) option) \<Rightarrow> string outcome" where
  "scheduled_status gw tm b answer statements =
     (case answer of
        None \<Rightarrow> Blocked
      | Some r \<Rightarrow>
          let nodes = (case r of Inl err \<Rightarrow> [] | Inr ns \<Rightarrow> ns) in
          (case statements (NodesToUrls nodes) of
             None \<Rightarrow> Blocked
           | Some (Inl err) \<Rightarrow> Crashed (Panic ''nil pointer dereference'')
           | Some (Inr nodesStatus) \<Rightarrow>
               (case HandleNodesStatus gw tm nodesStatus (TemplatesExtension b) nodes of
                  Inl err \<Rightarrow> if is_panic err then Crashed err else Returned (status_text b [])
                | Inr (handledNodesStatus, statusCondition) \<Rightarrow>
                    if sc_AllNodesAreOk statusCondition then
                      (case executeTemplate tm ''templates/nodes_status_ok_short''
                          (T_ShortOk \<lparr>ok_TimeEmoji = TimerMsg, ok_NodesNumber = sc_NodesNumber' statusCondition,
                            ok_Height = sc_Height' statusCondition\<rparr>) (TemplatesExtension b) of
                         Inl err \<Rightarrow> Returned []
                       | Inr msg \<Rightarrow> Returned msg)
                    else Returned (status_text b handledNodesStatus))))"

end
