(* ===== verification/BotPolicy.thy ===== *)
theory BotPolicy
  imports BotEnv PairPolicy AnalyzerRounds
begin

text \<open>
  An alert arrives at the bots as it was raised.
\<close>

section \<open>Alerts arrive\<close>

text \<open>An alert with times in range whose fixed report, if it is one, is not of another report.\<close>

definition alert_ok :: "Alert \<Rightarrow> bool" where
  "alert_ok a \<longleftrightarrow> in_int64 (Alert_Timestamp a) \<and>
     (\<forall>ts f. a = A_Fixed ts f \<longrightarrow> in_int64 (Alert_Timestamp f) \<and> (\<forall>ts' g. f \<noteq> A_Fixed ts' g))"

text \<open>What a template gets for an alert.\<close>

fun alert_view :: "gowaves \<Rightarrow> (string, string) gomap \<Rightarrow> Alert \<Rightarrow> string \<times> TemplateData" where
  "alert_view gw m (A_Simple a) = (''templates/alerts/simple_alert'', T_Simple a)"
| "alert_view gw m (A_Unreachable a) = (''templates/alerts/unreachable_alert'',
     T_Unreachable (a\<lparr>ua_Node := replaceNodeWithAlias (ua_Node a) m\<rparr>))"
| "alert_view gw m (A_Incomplete a) = (''templates/alerts/incomplete_alert'',
     T_Statement (a\<lparr>st_Node := replaceNodeWithAlias (st_Node a) m\<rparr>))"
| "alert_view gw m (A_InvalidHeight a) = (''templates/alerts/invalid_height_alert'',
     T_Statement (a\<lparr>st_Node := replaceNodeWithAlias (st_Node a) m\<rparr>))"
| "alert_view gw m (A_Height a) = (''templates/alerts/height_alert'',
     T_Height \<lparr>hs_HeightDifference = hg_Height (ha_MaxHeightGroup a) - hg_Height (ha_OtherHeightGroup a),
       hs_FirstGroup = heightGroup_of m (ha_MaxHeightGroup a), hs_SecondGroup = heightGroup_of m (ha_OtherHeightGroup a)\<rparr>)"
| "alert_view gw m (A_StateHash a) =
     (if BlockID_String gw (sh_BlockID (shg_StateHash (sha_FirstGroup a))) \<noteq>
         BlockID_String gw (sh_BlockID (shg_StateHash (sha_SecondGroup a)))
      then ''templates/alerts/state_hash_several_chains_alert'' else ''templates/alerts/state_hash_alert'',
      T_StateHash
        \<lparr>shs_SameHeight = sha_CurrentGroupsBucketHeight a, shs_LastCommonStateHashExist = sha_LastCommonStateHashExist a,
         shs_ForkHeight = sha_LastCommonStateHashHeight a,
         shs_ForkBlockID = BlockID_String gw (sh_BlockID (sha_LastCommonStateHash a)),
         shs_ForkStateHash = Digest_Hex gw (sh_SumHash (sha_LastCommonStateHash a)),
         shs_FirstGroup = stateHashGroup_of gw m (sha_FirstGroup a),
         shs_SecondGroup = stateHashGroup_of gw m (sha_SecondGroup a)\<rparr>)"
| "alert_view gw m (A_Fixed ts f) = (''templates/alerts/alert_fixed'', T_Fixed (Alert_Name gw f))"
| "alert_view gw m (A_BaseTarget a) = (''templates/alerts/base_target_alert'',
     T_BaseTarget (a\<lparr>bta_BaseTargetValues := map (\<lambda>v. v\<lparr>btv_Node := replaceNodeWithAlias (btv_Node v) m\<rparr>)
       (bta_BaseTargetValues a)\<rparr>))"
| "alert_view gw m (A_InternalError a) = (''templates/alerts/internal_error_alert'', T_InternalError a)"
| "alert_view gw m (A_ChallengedBlock a) = (''templates/alerts/challenged_block_alert'', T_ChallengedBlock a)"
| "alert_view gw m (A_L2Stuck a) = (''templates/alerts/l2/l2_stuck_alert'', T_L2Stuck a)"

text \<open>Decoding into a new struct of the right type gives the alert's struct.\<close>

lemma decoded_alert:
  assumes "gowaves_ok gw" "in_int64 (Alert_Timestamp a)"
  shows "a = A_Simple x1 \<Longrightarrow> Unmarshal (dec_struct ''entities.SimpleAlert'' SimpleAlert_fields) zeroSimpleAlert (Alert_json gw a) = Inr x1"
    "a = A_Unreachable x2 \<Longrightarrow> Unmarshal (dec_struct ''entities.UnreachableAlert'' UnreachableAlert_fields) zeroUnreachableAlert (Alert_json gw a) = Inr x2"
    "a = A_Incomplete x3 \<or> a = A_InvalidHeight x3 \<Longrightarrow>
      Unmarshal (dec_struct ''entities.NodeStatement'' (NodeStatement_fields gw)) zeroStatement (Alert_json gw a) = Inr x3"
    "a = A_Height x4 \<Longrightarrow> Unmarshal (dec_struct ''entities.HeightAlert'' HeightAlert_fields) zeroHeightAlert (Alert_json gw a) = Inr x4"
    "a = A_StateHash x5 \<Longrightarrow>
      Unmarshal (dec_struct ''entities.StateHashAlert'' (StateHashAlert_fields gw)) (zeroStateHashAlert gw) (Alert_json gw a) = Inr x5"
    "a = A_BaseTarget x6 \<Longrightarrow> Unmarshal (dec_struct ''entities.BaseTargetAlert'' BaseTargetAlert_fields) zeroBaseTargetAlert (Alert_json gw a) = Inr x6"
    "a = A_InternalError x7 \<Longrightarrow>
      Unmarshal (dec_struct ''entities.InternalErrorAlert'' InternalErrorAlert_fields) zeroInternalErrorAlert (Alert_json gw a) = Inr x7"
    "a = A_ChallengedBlock x8 \<Longrightarrow>
      Unmarshal (dec_struct ''entities.ChallengedBlockAlert'' (ChallengedBlockAlert_fields gw)) (zeroChallengedBlockAlert gw) (Alert_json gw a) = Inr x8"
    "a = A_L2Stuck x9 \<Longrightarrow> Unmarshal (dec_struct ''entities.L2StuckAlert'' L2StuckAlert_fields) zeroL2StuckAlert (Alert_json gw a) = Inr x9"
  using newFixedAlert_roundtrip [OF assms]
  by (auto simp: newFixedAlert_def AlertType_defs dec_lift_def Unmarshal_def prod_eq_iff split: prod.splits option.splits)

lemma executeAlertTemplate_view:
  assumes "gowaves_ok gw" "texts_faithful jt" "alert_ok a" "jt_Marshal jt (Alert_json gw a) = Inr b"
  shows "executeAlertTemplate gw jt tm (Alert_Type a) b ext nodes =
    (case alert_view gw (nodeURLToAlias nodes) a of (name, data) \<Rightarrow> executeTemplate tm name data ext)"
proof -
  have u: "Unmarshal_text jt d b = d (Alert_json gw a)" for d :: "json \<Rightarrow> error + 'x"
    by (rule texts_faithfulD [OF assms(2,4)])
  have ts: "in_int64 (Alert_Timestamp a)" using assms(3) by (simp add: alert_ok_def)
  note dec = decoded_alert [OF assms(1) ts]
  note exec = executeAlertTemplate_def AlertType_defs Let_def
  show ?thesis
  proof (cases a)
    case (A_Fixed ts' f)
    with assms(3) have f: "AlertFixed_UnmarshalJSON gw (Alert_json gw a) = Inr \<lparr>af_Timestamp = ts', af_Fixed = Some f\<rparr>"
      using AlertFixed_roundtrip [OF assms(1)] by (simp add: alert_ok_def)
    with A_Fixed show ?thesis
      by (simp add: exec executeAlertFixed_def texts_faithfulD [OF assms(2,4)])
  next
    case (A_StateHash x)
    with dec(5) [OF A_StateHash] show ?thesis
      by (simp add: exec executeStateHashTemplate_def texts_faithfulD [OF assms(2,4)] stateHashGroup_of_def)
  qed (use dec in \<open>simp_all add: exec executeSimpleAlertTemplate_def executeUnreachableTemplate_def
      executeIncompleteTemplate_def executeInvalidHeightTemplate_def executeStatementTemplate_def
      executeHeightTemplate_def executeBaseTargetTemplate_def executeInternalErrorTemplate_def
      executeChallengedBlockTemplate_def executeL2StuckAlertTemplate_def texts_faithfulD [OF assms(2,4)]\<close>)
qed

lemma Alert_ID_length: "gowaves_ok gw \<Longrightarrow> length (Alert_ID gw a) = 32"
  by (cases a) (simp_all add: Alert_methods_defs gowaves_okD)

lemma reference_ID_length: "gowaves_ok gw \<Longrightarrow> length (reference_ID gw a) = 32"
  by (cases a) (simp_all add: reference_ID_def Alert_ID_length Alert_methods_defs gowaves_okD)

text \<open>
  C16: An alert arrives as it was raised. The bytes that the service publishes for an alert are
  parsed by the subscriber into the type of the alert and the id of the alert (of the alert that is
  fixed, for a report) and given to the bot, and the template gets the data of the alert, nodes
  under their aliases.
\<close>

theorem alert_arrives:
  assumes "gowaves_ok gw" "texts_faithful jt" "alert_ok a"
    and "\<And>d. length d = 32 \<Longrightarrow> newDigest d = Inr d"
    and "enterLoop gw jt scheme [Some a] = ([(topic, data)], None)"
  shows "topic = PubSubMsgTopic scheme (Alert_Type a) \<and>
    (\<exists>m. NewAlertMessageFromBytes newDigest data = Inr m \<and> received_message gw jt newDigest t data = Some m \<and>
      am_alertType m = Alert_Type a \<and> am_referenceID m = (case a of A_Fixed ts f \<Rightarrow> Alert_ID gw f | _ \<Rightarrow> Alert_ID gw a) \<and>
      constructMessage gw jt tm (am_alertType m) (am_data m) ext nodes =
        (case (case alert_view gw (nodeURLToAlias nodes) a of (name, d) \<Rightarrow> executeTemplate tm name d ext) of
           Inl err \<Rightarrow> Inl (wrapf err ''failed to execute an alert template'') | Inr text \<Rightarrow> Inr text))"
proof -
  obtain b where b: "jt_Marshal jt (Alert_json gw a) = Inr b"
    using assms(5) by (cases "jt_Marshal jt (Alert_json gw a)") (auto simp: NewAlertMessageFromAlert_def split: if_splits)
  let ?m = "\<lparr>am_alertType = Alert_Type a, am_referenceID = reference_ID gw a, am_data = b\<rparr>"
  from assms(5) b have d: "AlertMessage_MarshalBinary ?m = Inr data" and t: "topic = PubSubMsgTopic scheme (Alert_Type a)"
    by (auto simp: NewAlertMessageFromAlert_def AlertMessage_MarshalBinary_def)
  have "length (reference_ID gw a) = 32"
    by (rule reference_ID_length [OF assms(1)])
  with AlertMessage_roundtrip [OF _ _ d] assms(4) have "NewAlertMessageFromBytes newDigest data = Inr ?m" by simp
  with t executeAlertTemplate_view [OF assms(1-3) b, of tm ext nodes] show ?thesis
    by (auto simp: constructMessage_def reference_ID_def received_message_def)
qed

section \<open>Witnesses\<close>

definition demo_templates :: templates where
  "demo_templates = \<lparr>tm_html = (\<lambda>name data. Inr name), tm_text = (\<lambda>name data. Inr name)\<rparr>"

lemma demo_text_first: "jt_Marshal (demo_text (d # ds)) d = Inr ''x''"
  by (simp add: demo_text_def)

theorem alert_arrives_witness:
  "\<exists>data m. enterLoop demo_gowaves (demo_text [Alert_json demo_gowaves demo_alert]) ''W'' [Some demo_alert] =
      ([(''alerts_W_SimpleAlert'', data)], None) \<and>
    NewAlertMessageFromBytes Inr data = Inr m \<and> am_alertType m = SimpleAlertType"
proof -
  let ?jt = "demo_text [Alert_json demo_gowaves demo_alert]"
  obtain data where e: "enterLoop demo_gowaves ?jt ''W'' [Some demo_alert] = ([(''alerts_W_SimpleAlert'', data)], None)"
    by (simp add: NewAlertMessageFromAlert_def demo_text_first AlertMessage_MarshalBinary_def PubSubMsgTopic_def
        pubSubTopicPrefix_def demo_alert_def AlertType_AlertName_def AlertType_defs SimpleAlertName_def)
  have "alert_ok demo_alert" by (simp add: alert_ok_def demo_alert_def NewSimpleAlert_def in_int64_def)
  from alert_arrives [OF demo_gowaves_ok demo_text_faithful this refl e, where tm = demo_templates and ext = HTML and nodes = "[]"] e show ?thesis
    by (auto simp: demo_alert_def)
qed

end
