(* ===== verification/BotHandlers.thy ===== *)
theory BotHandlers
  imports BotPolicy
begin

text \<open>
  The handlers of alerts as they run: a bot makes one NATS subscription per type of alert
  (\<open>SubscribeToAllAlerts\<close> in \<open>environment.go\<close>), and NATS calls the handlers of one subscription one after
  the other, and those of different subscriptions concurrently. \<open>SendAlertMessage\<close> of \<open>BotEnv\<close> is
  split here into its phases, each with at most one access to what the handlers share; the handlers
  of all messages interleave phase by phase.
\<close>

section \<open>Phases\<close>

text \<open>
  Where a handler is: the message has come, the nodes are to be requested, the text is ready, an error
  is to be sent (with its text and cause), the message that a report answers was looked up, the reply
  was sent, an alert was sent with this number.
\<close>

datatype phase =
    Arrived
  | Requesting
  | Rendered string
  | Complaining string error
  | Found string int
  | Replied
  | Delivered int

text \<open>
  What a phase does: the state of the bot and of the world after it, what it sent, and the next phase,
  or none when the handler returns. \<open>answer\<close> is the answer to the request for the nodes.
\<close>

type_synonym ('b, 'w, 'o) phase_result = "('b \<times> 'w \<times> 'o list \<times> phase option) outcome"

definition tg_phase ::
    "gowaves \<Rightarrow> jsontext \<Rightarrow> templates \<Rightarrow> 'w telegram \<Rightarrow> (error + Node list) option \<Rightarrow> AlertMessage \<Rightarrow> phase \<Rightarrow>
     'sub TelegramBot \<Rightarrow> 'w \<Rightarrow> ('sub TelegramBot, 'w, int sent \<times> (error + int)) phase_result" where
  "tg_phase gw jt tm send answer msg p tg w =
     (let alertID = am_referenceID msg; go = (\<lambda>p'. Returned (tg, w, [], Some p')) in
      case p of
        Arrived \<Rightarrow>
          if tg_Mute tg then Returned (tg, w, [], None)
          else if AlertType_AlertName (am_alertType msg) = None then go (Complaining unknown_type_msg errUnknownAlertType)
          else go Requesting
      | Requesting \<Rightarrow>
          (case answer of
             None \<Rightarrow> Blocked
           | Some nodes \<Rightarrow>
               (case constructMessage gw jt tm (am_alertType msg) (am_data msg) HTML
                    (case nodes of Inl err \<Rightarrow> [] | Inr ns \<Rightarrow> ns) of
                  Inl err \<Rightarrow> if is_panic err then Crashed err else go (Complaining ''Failed to construct message'' err)
                | Inr messageToBot \<Rightarrow> go (Rendered messageToBot)))
      | Complaining text err \<Rightarrow>
          (case tg_sendErrMsg send tg w text err of (w, out) \<Rightarrow> Returned (tg, w, out, None))
      | Rendered messageToBot \<Rightarrow>
          if am_alertType msg = AlertFixedType then
            (case GetMessageIDByAlertID (tg_unhandled tg) alertID of
               None \<Rightarrow> go (Complaining ''Failed to get message ID by the given alertID''
                 (Errorf (''alertID '' @ Digest_String gw alertID @ '' hasn't been found'')))
             | Some messageID \<Rightarrow> go (Found messageToBot messageID))
          else
            let m = \<lparr>se_chat = tg_ChatID tg, se_text = messageToBot, se_ReplyTo = None\<rparr> in
            (case send w m of
               (w, Inl err) \<Rightarrow> Crashed (Panic ''nil pointer dereference'')
             | (w, Inr messageID) \<Rightarrow> Returned (tg, w, [(m, Inr messageID)], Some (Delivered messageID)))
      | Found messageToBot messageID \<Rightarrow>
          let m = \<lparr>se_chat = tg_ChatID tg, se_text = messageToBot, se_ReplyTo = Some messageID\<rparr> in
          (case send w m of (w, r) \<Rightarrow> Returned (tg, w, [(m, r)], Some Replied))
      | Replied \<Rightarrow> Returned (tg\<lparr>tg_unhandled := unhandled_Delete (tg_unhandled tg) alertID\<rparr>, w, [], None)
      | Delivered messageID \<Rightarrow>
          Returned (tg\<lparr>tg_unhandled := unhandled_Add (tg_unhandled tg) alertID messageID\<rparr>, w, [], None))"

definition ds_phase ::
    "gowaves \<Rightarrow> jsontext \<Rightarrow> templates \<Rightarrow> 'w discord \<Rightarrow> (error + Node list) option \<Rightarrow> AlertMessage \<Rightarrow> phase \<Rightarrow>
     'sub DiscordBot \<Rightarrow> 'w \<Rightarrow> ('sub DiscordBot, 'w, string discordMessage \<times> (error + string)) phase_result" where
  "ds_phase gw jt tm send answer msg p ds w =
     (let alertID = am_referenceID msg; go = (\<lambda>p'. Returned (ds, w, [], Some p')) in
      case p of
        Arrived \<Rightarrow>
          if AlertType_AlertName (am_alertType msg) = None then go (Complaining unknown_type_msg errUnknownAlertType)
          else go Requesting
      | Requesting \<Rightarrow>
          (case answer of
             None \<Rightarrow> Blocked
           | Some nodes \<Rightarrow>
               let (w, out) = (case nodes of Inl err \<Rightarrow> ds_sendErrMsg send ds w ''Failed to get nodes list'' err | Inr ns \<Rightarrow> (w, []))
               in (case constructMessage gw jt tm (am_alertType msg) (am_data msg) Markdown
                    (case nodes of Inl err \<Rightarrow> [] | Inr ns \<Rightarrow> ns) of
                  Inl err \<Rightarrow>
                    if is_panic err then Crashed err
                    else Returned (ds, w, out, Some (Complaining ''Failed to construct message'' err))
                | Inr messageToBot \<Rightarrow> Returned (ds, w, out, Some (Rendered messageToBot))))
      | Complaining text err \<Rightarrow>
          (case ds_sendErrMsg send ds w text err of (w, out) \<Rightarrow> Returned (ds, w, out, None))
      | Rendered messageToBot \<Rightarrow>
          if am_alertType msg = AlertFixedType then
            (case GetMessageIDByAlertID (ds_unhandled ds) alertID of
               None \<Rightarrow> go (Complaining ''Failed to get message ID by the given alertID''
                 (Errorf (''alertID '' @ Digest_String gw alertID @ '' hasn't been found'')))
             | Some messageID \<Rightarrow> go (Found messageToBot messageID))
          else
            let m = \<lparr>dm_chat = ds_ChatID ds, dm_text = messageToBot, dm_ReplyTo = None\<rparr> in
            (case send w m of
               (w, Inl err) \<Rightarrow> Returned (ds, w, [(m, Inl err)], None)
             | (w, Inr sentID) \<Rightarrow>
                 (case Atoi sentID of
                    Inl err \<Rightarrow> Returned (ds, w, [(m, Inr sentID)], None)
                  | Inr messageID \<Rightarrow> Returned (ds, w, [(m, Inr sentID)], Some (Delivered messageID))))
      | Found messageToBot messageID \<Rightarrow>
          let m = \<lparr>dm_chat = ds_ChatID ds, dm_text = messageToBot, dm_ReplyTo = Some (FormatInt messageID)\<rparr> in
          (case send w m of (w, r) \<Rightarrow> Returned (ds, w, [(m, r)], Some Replied))
      | Replied \<Rightarrow> Returned (ds\<lparr>ds_unhandled := unhandled_Delete (ds_unhandled ds) alertID\<rparr>, w, [], None)
      | Delivered messageID \<Rightarrow>
          Returned (ds\<lparr>ds_unhandled := unhandled_Add (ds_unhandled ds) alertID messageID\<rparr>, w, [], None))"

section \<open>One handler alone\<close>

text \<open>The phases of one handler, with nothing between; five are enough.\<close>

fun alone :: "('b \<Rightarrow> 'w \<Rightarrow> phase \<Rightarrow> ('b, 'w, 'o) phase_result) \<Rightarrow> nat \<Rightarrow> phase \<Rightarrow> 'b \<Rightarrow> 'w \<Rightarrow> ('b \<times> 'w \<times> 'o list) outcome" where
  "alone act 0 p self w = Blocked"
| "alone act (Suc k) p self w =
     (case act self w p of
        Returned (self1, w1, out1, None) \<Rightarrow> Returned (self1, w1, out1)
      | Returned (self1, w1, out1, Some p1) \<Rightarrow>
          (case alone act k p1 self1 w1 of
             Returned (self2, w2, out2) \<Rightarrow> Returned (self2, w2, out1 @ out2)
           | Blocked \<Rightarrow> Blocked
           | Crashed e \<Rightarrow> Crashed e)
      | Blocked \<Rightarrow> Blocked
      | Crashed e \<Rightarrow> Crashed e)"

lemma five: "(5 :: nat) = Suc (Suc (Suc (Suc (Suc 0))))" by simp

text \<open>The phases are those of \<open>SendAlertMessage\<close>.\<close>

lemma tg_alone:
  "alone (\<lambda>tg w p. tg_phase gw jt tm send answer msg p tg w) 5 Arrived tg w = tg_SendAlertMessage gw jt tm send answer tg w msg"
  unfolding five
  by (simp add: tg_phase_def tg_SendAlertMessage_def Let_def split: option.splits sum.splits prod.splits)

lemma ds_alone:
  "alone (\<lambda>ds w p. ds_phase gw jt tm send answer msg p ds w) 5 Arrived ds w = ds_SendAlertMessage gw jt tm send answer ds w msg"
  unfolding five
  by (simp add: ds_phase_def ds_SendAlertMessage_def Let_def split: option.splits sum.splits prod.splits)

section \<open>The handlers of all messages\<close>

text \<open>
  The messages are numbered in the order in which they are published. The log tells which handler
  sent what, with the outcome.
\<close>

datatype status = Waiting | Running phase | Ended

record ('b, 'w, 'o) handlers =
  h_self :: 'b
  h_world :: 'w
  h_status :: "nat \<Rightarrow> status"
  h_log :: "(nat \<times> 'o) list"

definition handlers_start :: "'b \<Rightarrow> 'w \<Rightarrow> ('b, 'w, 'o) handlers" where
  "handlers_start self w = \<lparr>h_self = self, h_world = w, h_status = (\<lambda>_. Waiting), h_log = []\<rparr>"

datatype ('a, 'b) handlerEvent =
    Began nat
  | Missed nat
  | Acted nat 'a "phase option"
  | Outside 'b

definition next_status :: "phase option \<Rightarrow> status" where
  "next_status p = (case p of None \<Rightarrow> Ended | Some p' \<Rightarrow> Running p')"

text \<open>
  The steps. The handler of a message starts when those of the same type before it are over; a
  message is missed while the bot is not subscribed to its type; a handler that
  runs does its next phase. Everything else, the commands of the chat, the schedule and the
  services outside, may change the bot and the world at any time, but not what the bot remembers
  of its messages. A handler that waits for ever takes no step; one that panics ends the process,
  and with it the run.
\<close>

inductive handlers_step ::
    "('a \<Rightarrow> AlertMessage \<Rightarrow> phase \<Rightarrow> 'b \<Rightarrow> 'w \<Rightarrow> ('b, 'w, 'o) phase_result) \<Rightarrow> ('b \<Rightarrow> unhandledAlertMessages) \<Rightarrow>
     AlertMessage list \<Rightarrow> ('b, 'w, 'o) handlers \<Rightarrow> ('a, 'b) handlerEvent \<Rightarrow> ('b, 'w, 'o) handlers \<Rightarrow> bool"
  for act unhandled msgs where
  begins: "n < length msgs \<Longrightarrow> h_status s n = Waiting \<Longrightarrow>
    \<forall>k < n. am_alertType (msgs ! k) = am_alertType (msgs ! n) \<longrightarrow> h_status s k = Ended \<Longrightarrow>
    handlers_step act unhandled msgs s (Began n) (s\<lparr>h_status := (h_status s)(n := Running Arrived)\<rparr>)"
| misses: "n < length msgs \<Longrightarrow> h_status s n = Waiting \<Longrightarrow>
    handlers_step act unhandled msgs s (Missed n) (s\<lparr>h_status := (h_status s)(n := Ended)\<rparr>)"
| acts: "h_status s n = Running p \<Longrightarrow>
    act answer (msgs ! n) p (h_self s) (h_world s) = Returned (self', w', out, p') \<Longrightarrow>
    handlers_step act unhandled msgs s (Acted n answer p')
      (s\<lparr>h_self := self', h_world := w', h_status := (h_status s)(n := next_status p'),
         h_log := h_log s @ map (Pair n) out\<rparr>)"
| outside: "unhandled self' = unhandled (h_self s) \<Longrightarrow>
    handlers_step act unhandled msgs s (Outside self') (s\<lparr>h_self := self', h_world := w'\<rparr>)"

inductive handlers_run ::
    "('a \<Rightarrow> AlertMessage \<Rightarrow> phase \<Rightarrow> 'b \<Rightarrow> 'w \<Rightarrow> ('b, 'w, 'o) phase_result) \<Rightarrow> ('b \<Rightarrow> unhandledAlertMessages) \<Rightarrow>
     AlertMessage list \<Rightarrow> ('b, 'w, 'o) handlers \<Rightarrow> ('a, 'b) handlerEvent list \<Rightarrow> ('b, 'w, 'o) handlers \<Rightarrow> bool"
  for act unhandled msgs s where
  no_step: "handlers_run act unhandled msgs s [] s"
| one_step: "handlers_run act unhandled msgs s evs s' \<Longrightarrow> handlers_step act unhandled msgs s' ev s'' \<Longrightarrow>
    handlers_run act unhandled msgs s (evs @ [ev]) s''"

lemma handlers_run_append:
  "handlers_run act unhandled msgs s2 evs2 s3 \<Longrightarrow> handlers_run act unhandled msgs s1 evs1 s2 \<Longrightarrow>
    handlers_run act unhandled msgs s1 (evs1 @ evs2) s3"
proof (induction rule: handlers_run.induct)
  case (one_step evs s' ev s'')
  from handlers_run.one_step [OF one_step.IH [OF one_step.prems] one_step.hyps(2)] show ?case by simp
qed simp

text \<open>Nobody is interrupted in some runs: there \<open>SendAlertMessage\<close> happens as a whole.\<close>

lemma alone_run:
  assumes "alone (\<lambda>self w p. act answer (msgs ! n) p self w) k p (h_self s) (h_world s) = Returned (self', w', out)"
    and "h_status s n = Running p"
  shows "\<exists>evs. handlers_run act unhandled msgs s (evs @ [Acted n answer None])
      (s\<lparr>h_self := self', h_world := w', h_status := (h_status s)(n := Ended), h_log := h_log s @ map (Pair n) out\<rparr>) \<and>
    (\<forall>ev \<in> set evs. \<exists>p. ev = Acted n answer p)"
  using assms
proof (induction k arbitrary: p s out)
  case (Suc k)
  from Suc.prems(1) obtain self1 w1 out1 p1 where a: "act answer (msgs ! n) p (h_self s) (h_world s) = Returned (self1, w1, out1, p1)"
    by (auto split: outcome.splits)
  let ?s1 = "s\<lparr>h_self := self1, h_world := w1, h_status := (h_status s)(n := next_status p1), h_log := h_log s @ map (Pair n) out1\<rparr>"
  have one: "handlers_run act unhandled msgs s [Acted n answer p1] ?s1"
    using one_step [OF no_step acts [where act = act and msgs = msgs and answer = answer, OF Suc.prems(2) a]] by simp
  show ?case
  proof (cases p1)
    case None
    with one a Suc.prems(1) show ?thesis by (intro exI [of _ "[]"]) (simp add: next_status_def del: fun_upd_apply)
  next
    case (Some p2)
    with a Suc.prems(1) obtain out2 where
      rest: "alone (\<lambda>self w p. act answer (msgs ! n) p self w) k p2 self1 w1 = Returned (self', w', out2)" "out = out1 @ out2"
      by (auto split: outcome.splits)
    have st: "h_status ?s1 n = Running p2" by (simp add: Some next_status_def)
    from Suc.IH [of p2 ?s1, OF _ st] rest(1) obtain evs where
      "handlers_run act unhandled msgs ?s1 (evs @ [Acted n answer None])
        (s\<lparr>h_self := self', h_world := w', h_status := (h_status s)(n := Ended), h_log := h_log s @ map (Pair n) out\<rparr>)"
      "\<forall>ev \<in> set evs. \<exists>p. ev = Acted n answer p" by (auto simp: rest(2) fun_upd_upd simp del: fun_upd_apply)
    from handlers_run_append [OF this(1) one] this(2) show ?thesis
      by (intro exI [of _ "Acted n answer p1 # evs"]) (simp del: fun_upd_apply)
  qed
qed simp

text \<open>A handler that starts and ends without interruption.\<close>

lemma handled_alone:
  assumes "alone (\<lambda>self w p. act answer (msgs ! n) p self w) k Arrived (h_self s) (h_world s) = Returned (self', w', out)"
    and "n < length msgs" "h_status s n = Waiting"
    and "\<forall>k < n. am_alertType (msgs ! k) = am_alertType (msgs ! n) \<longrightarrow> h_status s k = Ended"
  shows "\<exists>evs. handlers_run act unhandled msgs s (Began n # evs @ [Acted n answer None])
      (s\<lparr>h_self := self', h_world := w', h_status := (h_status s)(n := Ended), h_log := h_log s @ map (Pair n) out\<rparr>) \<and>
    (\<forall>ev \<in> set evs. \<exists>p. ev = Acted n answer p)"
proof -
  let ?s1 = "s\<lparr>h_status := (h_status s)(n := Running Arrived)\<rparr>"
  have one: "handlers_run act unhandled msgs s [Began n] ?s1" using one_step [OF no_step begins [OF assms(2-4)]] by simp
  have "alone (\<lambda>self w p. act answer (msgs ! n) p self w) k Arrived (h_self ?s1) (h_world ?s1) = Returned (self', w', out)"
    "h_status ?s1 n = Running Arrived" using assms(1) by simp_all
  from alone_run [where act = act and msgs = msgs and answer = answer and unhandled = unhandled, OF this] obtain evs where
    "handlers_run act unhandled msgs ?s1 (evs @ [Acted n answer None])
      (s\<lparr>h_self := self', h_world := w', h_status := (h_status s)(n := Ended), h_log := h_log s @ map (Pair n) out\<rparr>)"
    "\<forall>ev \<in> set evs. \<exists>p. ev = Acted n answer p" by (auto simp: fun_upd_upd simp del: fun_upd_apply)
  from handlers_run_append [OF this(1) one] this(2) show ?thesis by (intro exI [of _ evs]) (simp del: fun_upd_apply)
qed

text \<open>The messages of one alert id are handled in turn: each only after those published before it.\<close>

definition in_turn :: "AlertMessage list \<Rightarrow> ('a, 'b) handlerEvent list \<Rightarrow> bool" where
  "in_turn msgs evs \<longleftrightarrow>
     (\<forall>xs n ys. evs = xs @ Began n # ys \<longrightarrow>
        (\<forall>k < n. am_referenceID (msgs ! k) = am_referenceID (msgs ! n) \<longrightarrow> (\<exists>answer. Acted k answer None \<in> set xs)))"

lemma in_turn_prefix: "in_turn msgs (evs @ evs') \<Longrightarrow> in_turn msgs evs"
  unfolding in_turn_def by (metis append_Cons append_assoc)

lemma in_turn_handled:
  assumes "in_turn msgs evs" "\<forall>ev \<in> set es. \<exists>answer p. ev = Acted n answer p"
    and "\<And>k. k < n \<Longrightarrow> am_referenceID (msgs ! k) = am_referenceID (msgs ! n) \<Longrightarrow> \<exists>answer. Acted k answer None \<in> set evs"
  shows "in_turn msgs (evs @ Began n # es)"
  unfolding in_turn_def
proof (intro allI impI)
  fix xs m ys k
  assume split: "evs @ Began n # es = xs @ Began m # ys" and k: "k < m" "am_referenceID (msgs ! k) = am_referenceID (msgs ! m)"
  have "Began m \<notin> set es" using assms(2) by auto
  then consider "xs = evs" "m = n" | us where "evs = xs @ Began m # us"
    using split by (fastforce simp: append_eq_append_conv2 append_eq_Cons_conv Cons_eq_append_conv)
  then show "\<exists>answer. Acted k answer None \<in> set xs"
    using assms(1,3) k unfolding in_turn_def by cases blast+
qed

lemma in_turn_Began:
  "in_turn msgs (evs @ [Began n]) \<Longrightarrow> k < n \<Longrightarrow> am_referenceID (msgs ! k) = am_referenceID (msgs ! n) \<Longrightarrow>
    \<exists>answer. Acted k answer None \<in> set evs"
  unfolding in_turn_def by blast

end
