(* ===== verification/BotReplies.thy ===== *)
theory BotReplies
  imports BotHandlers
begin

text \<open>
  The reports that an alert is fixed answer the message that announced it, for both bots and however
  their handlers interleave. What the phases of a bot's handler do with what it remembers is the interface
  \<open>alert_bot\<close>; what follows for all runs is proved once in it, and the Telegram and the Discord bot
  provide it.
\<close>

section \<open>Alerts and their messages\<close>

abbreviation is_report :: "Alert \<Rightarrow> bool" where
  "is_report a \<equiv> (\<exists>ts f. a = A_Fixed ts f)"

lemma reference_alert: "\<not> is_report a \<Longrightarrow> reference_ID gw a = Alert_ID gw a"
  by (cases a) (simp_all add: reference_ID_def)

lemma reference_report: "reference_ID gw (A_Fixed ts f) = Alert_ID gw f"
  by (simp add: reference_ID_def)

text \<open>Every report in a list of alerts has its alert before it, with no report of it between.\<close>

definition announced :: "gowaves \<Rightarrow> Alert list \<Rightarrow> bool" where
  "announced gw out \<longleftrightarrow> (\<forall>xs ts a ys. out = xs @ A_Fixed ts a # ys \<longrightarrow>
     (\<exists>us b vs. xs = us @ b # vs \<and> \<not> is_report b \<and> Alert_ID gw b = Alert_ID gw a \<and>
       (\<forall>c \<in> set vs. is_report c \<longrightarrow> reference_ID gw c \<noteq> Alert_ID gw a)))"

text \<open>By positions: the last alert with the id before a report is no report.\<close>

lemma announced_last:
  assumes "announced gw out" "n < length out" "out ! n = A_Fixed ts a"
  shows "\<exists>k < n. \<not> is_report (out ! k) \<and> Alert_ID gw (out ! k) = Alert_ID gw a \<and>
    (\<forall>j. k < j \<and> j < n \<and> is_report (out ! j) \<longrightarrow> reference_ID gw (out ! j) \<noteq> Alert_ID gw a)"
proof -
  have "out = take n out @ A_Fixed ts a # drop (Suc n) out" using assms(2,3) by (metis id_take_nth_drop)
  then obtain us b vs where b: "take n out = us @ b # vs" "\<not> is_report b" "Alert_ID gw b = Alert_ID gw a"
    "\<forall>c \<in> set vs. is_report c \<longrightarrow> reference_ID gw c \<noteq> Alert_ID gw a"
    using assms(1) unfolding announced_def by meson
  have n: "n = Suc (length us + length vs)" using arg_cong [OF b(1), of length] assms(2) by simp
  have nth: "out ! j = (us @ b # vs) ! j" if "j < n" for j using that b(1) by (metis nth_take)
  have "out ! j \<in> set vs" if "length us < j" "j < n" for j
    using nth [OF that(2)] that n by (simp add: nth_append nth_Cons')
  with b(2-4) nth [of "length us"] n show ?thesis by (intro exI [of _ "length us"]) auto
qed

definition message_of :: "gowaves \<Rightarrow> bytes \<Rightarrow> Alert \<Rightarrow> AlertMessage" where
  "message_of gw b a = \<lparr>am_alertType = Alert_Type a, am_referenceID = reference_ID gw a, am_data = b\<rparr>"

lemma NewAlertMessage_of: "jt_Marshal jt (Alert_json gw a) = Inr b \<Longrightarrow>
  NewAlertMessageFromAlert gw jt (Some a) = Inr (message_of gw b a)"
  by (simp add: NewAlertMessageFromAlert_def message_of_def)

lemma NewAlertMessage_elim:
  assumes "NewAlertMessageFromAlert gw jt (Some a) = Inr m"
  obtains b where "jt_Marshal jt (Alert_json gw a) = Inr b" "m = message_of gw b a"
  using assms by (auto simp: NewAlertMessageFromAlert_def message_of_def split: sum.splits)

lemma message_of_simps [simp]:
  "am_alertType (message_of gw b a) = Alert_Type a" "am_referenceID (message_of gw b a) = reference_ID gw a"
  "am_data (message_of gw b a) = b"
  by (simp_all add: message_of_def)

lemma Alert_Type_Fixed: "Alert_Type a = AlertFixedType \<longleftrightarrow> is_report a"
  by (cases a) (simp_all add: AlertType_defs)

text \<open>A message of an alert whose template can be filled.\<close>

definition proper :: "gowaves \<Rightarrow> jsontext \<Rightarrow> AlertMessage \<Rightarrow> bool" where
  "proper gw jt m \<longleftrightarrow> (\<exists>a b. alert_ok a \<and> jt_Marshal jt (Alert_json gw a) = Inr b \<and> m = message_of gw b a)"

abbreviation reports :: "AlertMessage \<Rightarrow> bool" where
  "reports m \<equiv> am_alertType m = AlertFixedType"

text \<open>Every report has its alert before it, by messages.\<close>

definition heralded :: "AlertMessage list \<Rightarrow> bool" where
  "heralded msgs \<longleftrightarrow> (\<forall>n < length msgs. reports (msgs ! n) \<longrightarrow>
     (\<exists>k < n. \<not> reports (msgs ! k) \<and> am_referenceID (msgs ! k) = am_referenceID (msgs ! n) \<and>
        (\<forall>j. k < j \<and> j < n \<and> reports (msgs ! j) \<longrightarrow> am_referenceID (msgs ! j) \<noteq> am_referenceID (msgs ! n))))"

section \<open>The interface of a bot\<close>

text \<open>
  What a phase may do with the memory of the bot. \<open>answers o i\<close> says that \<open>o\<close> was sent as a reply to
  the message \<open>i\<close>, and \<open>numbered o i\<close> that it got the number \<open>i\<close>.
\<close>

fun phase_law ::
    "('o \<Rightarrow> int \<Rightarrow> bool) \<Rightarrow> ('o \<Rightarrow> int \<Rightarrow> bool) \<Rightarrow> AlertMessage \<Rightarrow> phase \<Rightarrow> unhandledAlertMessages \<Rightarrow> 'o list \<Rightarrow>
     phase option \<Rightarrow> unhandledAlertMessages \<Rightarrow> bool" where
  "phase_law answers numbered msg Arrived m out p m' \<longleftrightarrow> m' = m \<and> (\<forall>o' \<in> set out. \<forall>i. \<not> answers o' i) \<and>
     (p = None \<or> p = Some Requesting \<or> (\<exists>t e. p = Some (Complaining t e)))"
| "phase_law answers numbered msg Requesting m out p m' \<longleftrightarrow> m' = m \<and> (\<forall>o' \<in> set out. \<forall>i. \<not> answers o' i) \<and>
     ((\<exists>t. p = Some (Rendered t)) \<or> (\<exists>t e. p = Some (Complaining t e)))"
| "phase_law answers numbered msg (Complaining t e) m out p m' \<longleftrightarrow> m' = m \<and> (\<forall>o' \<in> set out. \<forall>i. \<not> answers o' i) \<and> p = None"
| "phase_law answers numbered msg (Rendered t) m out p m' \<longleftrightarrow> m' = m \<and> (\<forall>o' \<in> set out. \<forall>i. \<not> answers o' i) \<and>
     (if reports msg then
        (case m (am_referenceID msg) of None \<Rightarrow> (\<exists>t e. p = Some (Complaining t e)) | Some i \<Rightarrow> p = Some (Found t i))
      else p = None \<or> (\<exists>i. p = Some (Delivered i) \<and> (\<exists>o' \<in> set out. numbered o' i)))"
| "phase_law answers numbered msg (Found t i) m out p m' \<longleftrightarrow> m' = m \<and> p = Some Replied \<and> (\<exists>o'. out = [o'] \<and> answers o' i)"
| "phase_law answers numbered msg Replied m out p m' \<longleftrightarrow> m' = m(am_referenceID msg := None) \<and> out = [] \<and> p = None"
| "phase_law answers numbered msg (Delivered i) m out p m' \<longleftrightarrow> m' = m(am_referenceID msg \<mapsto> i) \<and> out = [] \<and> p = None"

text \<open>A bot that is able takes every message to its end.\<close>

locale alert_bot =
  fixes act :: "'a \<Rightarrow> AlertMessage \<Rightarrow> phase \<Rightarrow> 'b \<Rightarrow> 'w \<Rightarrow> ('b, 'w, 'o) phase_result"
    and unhandled :: "'b \<Rightarrow> unhandledAlertMessages"
    and answers :: "'o \<Rightarrow> int \<Rightarrow> bool"
    and numbered :: "'o \<Rightarrow> int \<Rightarrow> bool"
    and able :: "'b \<Rightarrow> bool"
    and fit :: "AlertMessage \<Rightarrow> bool"
  assumes law: "act answer msg p self w = Returned (self', w', out, p') \<Longrightarrow>
      phase_law answers numbered msg p (unhandled self) out p' (unhandled self')"
    and able_act: "act answer msg p self w = Returned (self', w', out, p') \<Longrightarrow> able self \<Longrightarrow> fit msg \<Longrightarrow>
      able self' \<and> (p = Arrived \<longrightarrow> p' = Some Requesting) \<and> (p = Requesting \<longrightarrow> (\<exists>t. p' = Some (Rendered t))) \<and>
      (\<forall>t. p = Rendered t \<and> \<not> reports msg \<longrightarrow> p' \<noteq> None)"
begin

abbreviation run :: "AlertMessage list \<Rightarrow> ('b, 'w, 'o) handlers \<Rightarrow> ('a, 'b) handlerEvent list \<Rightarrow> ('b, 'w, 'o) handlers \<Rightarrow> bool" where
  "run \<equiv> handlers_run act unhandled"

subsection \<open>Whatever the order\<close>

text \<open>A number that a log knows for an id: that of a message that an alert with the id was sent as.\<close>

definition known :: "AlertMessage list \<Rightarrow> (nat \<times> 'o) list \<Rightarrow> Digest \<Rightarrow> int \<Rightarrow> bool" where
  "known msgs log d i \<longleftrightarrow> (\<exists>k o'. (k, o') \<in> set log \<and> \<not> reports (msgs ! k) \<and> am_referenceID (msgs ! k) = d \<and> numbered o' i)"

lemma known_append: "known msgs log d i \<Longrightarrow> known msgs (log @ more') d i"
  by (auto simp: known_def)

definition memory_ok :: "AlertMessage list \<Rightarrow> ('b, 'w, 'o) handlers \<Rightarrow> bool" where
  "memory_ok msgs s \<longleftrightarrow>
     (\<forall>d i. unhandled (h_self s) d = Some i \<longrightarrow> known msgs (h_log s) d i) \<and>
     (\<forall>n i. h_status s n = Running (Delivered i) \<longrightarrow> known msgs (h_log s) (am_referenceID (msgs ! n)) i) \<and>
     (\<forall>n t i. h_status s n = Running (Found t i) \<longrightarrow> reports (msgs ! n) \<and> known msgs (h_log s) (am_referenceID (msgs ! n)) i) \<and>
     (\<forall>xs n o' ys i. h_log s = xs @ (n, o') # ys \<and> answers o' i \<longrightarrow>
        reports (msgs ! n) \<and> (\<exists>j. answers o' j \<and> known msgs xs (am_referenceID (msgs ! n)) j))"

lemma log_split:
  assumes "log @ map (Pair n) out = xs @ (k, o') # ys"
  obtains zs where "log = xs @ (k, o') # zs" | us where "xs = log @ map (Pair n) us" "k = n" "o' \<in> set out"
proof -
  from assms obtain us where "log = xs @ us \<and> us @ map (Pair n) out = (k, o') # ys \<or> log @ us = xs \<and> map (Pair n) out = us @ (k, o') # ys"
    by (auto simp: append_eq_append_conv2)
  then show thesis
  proof
    assume "log = xs @ us \<and> us @ map (Pair n) out = (k, o') # ys"
    then show thesis using that(1) that(2) [of "[]"] by (cases us) (auto simp: Cons_eq_map_conv map_eq_Cons_conv)
  next
    assume "log @ us = xs \<and> map (Pair n) out = us @ (k, o') # ys"
    then show thesis using that(2) by (auto simp: map_eq_append_conv)
  qed
qed

lemma step_memory_ok:
  assumes "handlers_step act unhandled msgs s ev s'" "memory_ok msgs s"
  shows "memory_ok msgs s'"
  using assms(1)
proof cases
  case (acts n p answer self' w' out p')
  note step = law [OF acts(4)]
  let ?log = "h_log s @ map (Pair n) out"
  note ok = assms(2) [unfolded memory_ok_def]
  have mem: "known msgs ?log d i" if "unhandled self' d = Some i" for d i
  proof -
    have "unhandled (h_self s) d = Some i \<or> p = Delivered i \<and> d = am_referenceID (msgs ! n)"
      using step that by (cases p) (auto split: if_splits)
    then show ?thesis using ok acts(3) known_append by blast
  qed
  have delivered: "known msgs ?log (am_referenceID (msgs ! n)) i" if "p' = Some (Delivered i)" for i
  proof -
    from step that obtain t where "p = Rendered t" by (cases p) auto
    with step that obtain o' where "o' \<in> set out" "numbered o' i" "\<not> reports (msgs ! n)"
      by (auto split: if_splits option.splits)
    then show ?thesis by (auto simp: known_def)
  qed
  have found: "reports (msgs ! n) \<and> known msgs ?log (am_referenceID (msgs ! n)) i" if "p' = Some (Found t i)" for t i
  proof -
    from step that obtain t where "p = Rendered t" by (cases p) auto
    with step that have "reports (msgs ! n)" "unhandled (h_self s) (am_referenceID (msgs ! n)) = Some i"
      by (auto split: if_splits option.splits)
    then show ?thesis using ok known_append by blast
  qed
  have log: "reports (msgs ! k) \<and> (\<exists>j. answers o' j \<and> known msgs xs (am_referenceID (msgs ! k)) j)"
    if "?log = xs @ (k, o') # ys" "answers o' i" for xs k o' ys i
    using that(1)
  proof (cases rule: log_split)
    case (1 zs)
    with ok that(2) show ?thesis by blast
  next
    case (2 us)
    with step that(2) obtain t j where p: "p = Found t j" "answers o' j" by (cases p) (auto, blast?)
    with ok acts(3) 2 known_append show ?thesis by blast
  qed
  show ?thesis
    using ok mem delivered found log known_append
    unfolding memory_ok_def acts(2) by (auto simp: next_status_def split: option.splits)
next
  case (outside self' w')
  with assms(2) show ?thesis by (simp add: memory_ok_def)
qed (use assms(2) in \<open>auto simp: memory_ok_def\<close>)

lemma run_memory_ok: "run msgs s evs s' \<Longrightarrow> memory_ok msgs s \<Longrightarrow> memory_ok msgs s'"
  by (induction rule: handlers_run.induct) (auto intro: step_memory_ok)

lemma start_memory_ok: "unhandled self = (\<lambda>_. None) \<Longrightarrow> memory_ok msgs (handlers_start self w)"
  by (simp add: memory_ok_def handlers_start_def)

lemma reply_to_sent:
  assumes "run msgs (handlers_start self w) evs s" "unhandled self = (\<lambda>_. None)"
    and "h_log s = xs @ (n, o') # ys" "answers o' i"
  shows "reports (msgs ! n) \<and> (\<exists>j. answers o' j \<and> known msgs xs (am_referenceID (msgs ! n)) j)"
  using run_memory_ok [OF assms(1) start_memory_ok [OF assms(2)]] assms(3,4) unfolding memory_ok_def by blast

lemma step_in_range:
  assumes "handlers_step act unhandled msgs s ev s'"
    and "(\<forall>n. h_status s n \<noteq> Waiting \<longrightarrow> n < length msgs) \<and> (\<forall>n \<in> fst ` set (h_log s). n < length msgs)"
  shows "(\<forall>n. h_status s' n \<noteq> Waiting \<longrightarrow> n < length msgs) \<and> (\<forall>n \<in> fst ` set (h_log s'). n < length msgs)"
  using assms by cases (auto split: if_splits)

lemma run_in_range:
  assumes "run msgs (handlers_start self w) evs s" "(n, o') \<in> set (h_log s)"
  shows "n < length msgs"
proof -
  have "(\<forall>n. h_status s n \<noteq> Waiting \<longrightarrow> n < length msgs) \<and> (\<forall>n \<in> fst ` set (h_log s). n < length msgs)"
    using assms(1)
    by (induction rule: handlers_run.induct) (simp add: handlers_start_def, rule step_in_range)
  with assms(2) show ?thesis by force
qed

subsection \<open>In turn\<close>

text \<open>The message \<open>i\<close> is that of the last alert with the id of \<open>n\<close> before \<open>n\<close>.\<close>

definition last_sent :: "AlertMessage list \<Rightarrow> (nat \<times> 'o) list \<Rightarrow> nat \<Rightarrow> int \<Rightarrow> bool" where
  "last_sent msgs log n i \<longleftrightarrow> (\<exists>k < n. am_referenceID (msgs ! k) = am_referenceID (msgs ! n) \<and> \<not> reports (msgs ! k) \<and>
     (\<forall>j. k < j \<and> j < n \<longrightarrow> am_referenceID (msgs ! j) \<noteq> am_referenceID (msgs ! n)) \<and>
     (\<exists>o'. (k, o') \<in> set log \<and> numbered o' i))"

definition replied :: "AlertMessage list \<Rightarrow> (nat \<times> 'o) list \<Rightarrow> nat \<Rightarrow> bool" where
  "replied msgs log n \<longleftrightarrow> (\<exists>i o'. last_sent msgs log n i \<and> (n, o') \<in> set log \<and> answers o' i)"

fun phase_inv :: "AlertMessage list \<Rightarrow> (nat \<times> 'o) list \<Rightarrow> nat \<Rightarrow> phase \<Rightarrow> bool" where
  "phase_inv msgs log n (Complaining t e) = False"
| "phase_inv msgs log n (Found t i) = (reports (msgs ! n) \<and> last_sent msgs log n i)"
| "phase_inv msgs log n Replied = (reports (msgs ! n) \<and> replied msgs log n)"
| "phase_inv msgs log n (Delivered i) = (\<not> reports (msgs ! n) \<and> (\<exists>o'. (n, o') \<in> set log \<and> numbered o' i))"
| "phase_inv msgs log n _ = True"

lemma log_mono:
  "last_sent msgs log n i \<Longrightarrow> last_sent msgs (log @ zs) n i"
  "replied msgs log n \<Longrightarrow> replied msgs (log @ zs) n"
  "phase_inv msgs log n p \<Longrightarrow> phase_inv msgs (log @ zs) n p"
proof -
  show sent: "last_sent msgs log n i \<Longrightarrow> last_sent msgs (log @ zs) n i" for n i
    unfolding last_sent_def set_append by blast
  show rep: "replied msgs log n \<Longrightarrow> replied msgs (log @ zs) n" for n
    unfolding replied_def set_append using sent by blast
  show "phase_inv msgs log n p \<Longrightarrow> phase_inv msgs (log @ zs) n p"
    using sent rep by (cases p) auto
qed

definition finished :: "('a, 'b) handlerEvent list \<Rightarrow> nat set" where
  "finished evs = {k. \<exists>answer. Acted k answer None \<in> set evs}"

lemma finished_simps [simp]:
  "finished [] = {}" "finished (evs @ [Began n]) = finished evs" "finished (evs @ [Missed n]) = finished evs"
  "finished (evs @ [Outside self]) = finished evs" "finished (evs @ [Acted n answer (Some p)]) = finished evs"
  "finished (evs @ [Acted n answer None]) = insert n (finished evs)"
  by (auto simp: finished_def)

text \<open>
  The memory for an id is what its last finished message left. \<open>F\<close> is the set of the finished messages.
\<close>

definition memory_of_last :: "AlertMessage list \<Rightarrow> nat set \<Rightarrow> (nat \<times> 'o) list \<Rightarrow> Digest \<Rightarrow> int option \<Rightarrow> bool" where
  "memory_of_last msgs F log d m \<longleftrightarrow>
     (\<forall>k \<in> F. am_referenceID (msgs ! k) \<noteq> d) \<and> m = None \<or>
     (\<exists>l \<in> F. am_referenceID (msgs ! l) = d \<and> (\<forall>k \<in> F. am_referenceID (msgs ! k) = d \<longrightarrow> k \<le> l) \<and>
        (if reports (msgs ! l) then m = None else \<exists>i o'. m = Some i \<and> (l, o') \<in> set log \<and> numbered o' i))"

lemma memory_of_last_mono: "memory_of_last msgs F log d m \<Longrightarrow> memory_of_last msgs F (log @ zs) d m"
  unfolding memory_of_last_def by (auto split: if_splits)

definition turn_inv :: "AlertMessage list \<Rightarrow> nat set \<Rightarrow> ('b, 'w, 'o) handlers \<Rightarrow> bool" where
  "turn_inv msgs F s \<longleftrightarrow> able (h_self s) \<and>
     (\<forall>n p. h_status s n = Running p \<longrightarrow> n < length msgs \<and>
        (\<forall>k < n. am_referenceID (msgs ! k) = am_referenceID (msgs ! n) \<longrightarrow> k \<in> F) \<and> phase_inv msgs (h_log s) n p) \<and>
     (\<forall>n \<in> F. n < length msgs \<and> h_status s n = Ended \<and>
        (\<forall>k < n. am_referenceID (msgs ! k) = am_referenceID (msgs ! n) \<longrightarrow> k \<in> F) \<and>
        (reports (msgs ! n) \<longrightarrow> replied msgs (h_log s) n)) \<and>
     (\<forall>d. memory_of_last msgs F (h_log s) d (unhandled (h_self s) d))"

lemma turn_invD:
  assumes "turn_inv msgs F s"
  shows "able (h_self s)"
    and "h_status s n = Running p \<Longrightarrow> n < length msgs"
    and "h_status s n = Running p \<Longrightarrow> k < n \<Longrightarrow> am_referenceID (msgs ! k) = am_referenceID (msgs ! n) \<Longrightarrow> k \<in> F"
    and "h_status s n = Running p \<Longrightarrow> phase_inv msgs (h_log s) n p"
    and "n \<in> F \<Longrightarrow> n < length msgs" and "n \<in> F \<Longrightarrow> h_status s n = Ended"
    and "n \<in> F \<Longrightarrow> k < n \<Longrightarrow> am_referenceID (msgs ! k) = am_referenceID (msgs ! n) \<Longrightarrow> k \<in> F"
    and "n \<in> F \<Longrightarrow> reports (msgs ! n) \<Longrightarrow> replied msgs (h_log s) n"
    and "memory_of_last msgs F (h_log s) d (unhandled (h_self s) d)"
  using assms unfolding turn_inv_def by blast+

lemma turn_invI:
  assumes "able (h_self s)"
    and "\<And>n p. h_status s n = Running p \<Longrightarrow> n < length msgs \<and>
        (\<forall>k < n. am_referenceID (msgs ! k) = am_referenceID (msgs ! n) \<longrightarrow> k \<in> F) \<and> phase_inv msgs (h_log s) n p"
    and "\<And>n. n \<in> F \<Longrightarrow> n < length msgs \<and> h_status s n = Ended \<and>
        (\<forall>k < n. am_referenceID (msgs ! k) = am_referenceID (msgs ! n) \<longrightarrow> k \<in> F) \<and>
        (reports (msgs ! n) \<longrightarrow> replied msgs (h_log s) n)"
    and "\<And>d. memory_of_last msgs F (h_log s) d (unhandled (h_self s) d)"
  shows "turn_inv msgs F s"
  using assms unfolding turn_inv_def by blast

text \<open>While a handler runs, no later message of its id is finished.\<close>

lemma running_last:
  assumes "turn_inv msgs F s" "h_status s n = Running p" "k \<in> F" "am_referenceID (msgs ! k) = am_referenceID (msgs ! n)"
  shows "k < n"
proof (rule ccontr)
  assume "\<not> k < n"
  moreover have "k \<noteq> n" using turn_invD(6) [OF assms(1,3)] assms(2) by auto
  ultimately have "n < k" by simp
  from turn_invD(7) [OF assms(1,3) this] assms(4) have "n \<in> F" by simp
  from turn_invD(6) [OF assms(1) this] assms(2) show False by simp
qed

text \<open>So the look-up of a report finds the message of the last alert.\<close>

lemma lookup_finds:
  assumes "turn_inv msgs F s" "h_status s n = Running p" "heralded msgs" "reports (msgs ! n)"
  shows "\<exists>i. unhandled (h_self s) (am_referenceID (msgs ! n)) = Some i \<and> last_sent msgs (h_log s) n i"
proof -
  let ?d = "am_referenceID (msgs ! n)"
  from assms(3,4) turn_invD(2) [OF assms(1,2)] obtain k where
    k: "k < n" "\<not> reports (msgs ! k)" "am_referenceID (msgs ! k) = ?d"
      "\<forall>j. k < j \<and> j < n \<and> reports (msgs ! j) \<longrightarrow> am_referenceID (msgs ! j) \<noteq> ?d"
    unfolding heralded_def by blast
  have "k \<in> F" by (rule turn_invD(3) [OF assms(1,2) k(1,3)])
  with k(3) turn_invD(9) [OF assms(1), of ?d] obtain l where
    l: "l \<in> F" "am_referenceID (msgs ! l) = ?d" "\<forall>j \<in> F. am_referenceID (msgs ! j) = ?d \<longrightarrow> j \<le> l"
      "if reports (msgs ! l) then unhandled (h_self s) ?d = None
       else \<exists>i o'. unhandled (h_self s) ?d = Some i \<and> (l, o') \<in> set (h_log s) \<and> numbered o' i"
    unfolding memory_of_last_def by blast
  have ln: "l < n" by (rule running_last [OF assms(1,2) l(1,2)])
  have "k \<le> l" using l(3) \<open>k \<in> F\<close> k(3) by blast
  then have alert: "\<not> reports (msgs ! l)" using k(2,4) l(2) ln by (cases "k = l") auto
  have between: "am_referenceID (msgs ! j) \<noteq> ?d" if "l < j" "j < n" for j
    using turn_invD(3) [OF assms(1,2) that(2)] l(3) that(1) by (metis leD)
  from l(4) alert obtain i o' where "unhandled (h_self s) ?d = Some i" "(l, o') \<in> set (h_log s)" "numbered o' i" by auto
  with ln l(2) alert between show ?thesis unfolding last_sent_def by blast
qed

text \<open>The last phase of a handler makes its message the last finished one of its id.\<close>

lemma memory_finish:
  assumes "turn_inv msgs F s" "h_status s n = Running p" "d = am_referenceID (msgs ! n)"
    and "if reports (msgs ! n) then m = None else \<exists>i o'. m = Some i \<and> (n, o') \<in> set log \<and> numbered o' i"
  shows "memory_of_last msgs (insert n F) log d m"
  unfolding memory_of_last_def using running_last [OF assms(1,2)] assms(3,4)
  by (intro disjI2 bexI [of _ n]) (auto intro: less_imp_le)

lemma memory_other: "am_referenceID (msgs ! n) \<noteq> d \<Longrightarrow> memory_of_last msgs F log d m \<Longrightarrow> memory_of_last msgs (insert n F) log d m"
  unfolding memory_of_last_def by blast

lemma act_turn_inv:
  assumes inv: "turn_inv msgs F s" and run: "h_status s n = Running p"
    and act: "act answer (msgs ! n) p (h_self s) (h_world s) = Returned (self', w', out, p')"
    and her: "heralded msgs" and fits: "\<forall>n < length msgs. fit (msgs ! n)"
  shows "able self'" and "p' = None \<longrightarrow> p = Replied \<or> (\<exists>i. p = Delivered i)"
    and "\<forall>q. p' = Some q \<longrightarrow> unhandled self' = unhandled (h_self s) \<and> phase_inv msgs (h_log s @ map (Pair n) out) n q"
proof -
  have n: "n < length msgs" by (rule turn_invD(2) [OF inv run])
  note step = law [OF act] and ab = able_act [OF act turn_invD(1) [OF inv] fits [rule_format, OF n]]
  note ph = turn_invD(4) [OF inv run] and look = lookup_finds [OF inv run her]
  show "able self'" using ab by blast
  show "p' = None \<longrightarrow> p = Replied \<or> (\<exists>i. p = Delivered i)"
    using step ab ph look by (cases p) (auto split: if_splits option.splits)
  show "\<forall>q. p' = Some q \<longrightarrow> unhandled self' = unhandled (h_self s) \<and> phase_inv msgs (h_log s @ map (Pair n) out) n q"
  proof (cases p)
    case Arrived
    with step ab show ?thesis by auto
  next
    case Requesting
    with step ab show ?thesis by auto
  next
    case (Complaining t e)
    with ph show ?thesis by simp
  next
    case (Rendered t)
    with step look log_mono(1) show ?thesis by (auto simp: image_iff split: if_splits option.splits)
  next
    case (Found t i)
    with ph log_mono(1) have "reports (msgs ! n)" "last_sent msgs (h_log s @ map (Pair n) out) n i" by auto
    moreover from Found step obtain o' where o': "out = [o']" "answers o' i" "p' = Some Replied"
      "unhandled self' = unhandled (h_self s)" by auto
    ultimately have "replied msgs (h_log s @ map (Pair n) out) n"
      unfolding replied_def by (intro exI [of _ i] exI [of _ o']) simp
    with \<open>reports (msgs ! n)\<close> o'(3,4) show ?thesis by simp
  next
    case Replied
    with step show ?thesis by auto
  next
    case (Delivered i)
    with step show ?thesis by auto
  qed
qed

lemma turn_inv_update:
  assumes inv: "turn_inv msgs F s" and "able self'" and nF: "n \<notin> F" and FF: "F' = F \<or> F' = insert n F \<and> st = Ended"
    and at_n: "n \<in> F' \<or> (\<exists>p. st = Running p) \<Longrightarrow> n < length msgs \<and>
      (\<forall>k < n. am_referenceID (msgs ! k) = am_referenceID (msgs ! n) \<longrightarrow> k \<in> F)"
    and ph: "\<And>p. st = Running p \<Longrightarrow> phase_inv msgs (h_log s @ zs) n p"
    and rep: "n \<in> F' \<Longrightarrow> reports (msgs ! n) \<Longrightarrow> replied msgs (h_log s @ zs) n"
    and mem: "\<And>d. memory_of_last msgs F' (h_log s @ zs) d (unhandled self' d)"
  shows "turn_inv msgs F' (s\<lparr>h_self := self', h_world := w', h_status := (h_status s)(n := st), h_log := h_log s @ zs\<rparr>)"
    (is "turn_inv msgs F' ?s'")
proof (rule turn_invI)
  have sub: "k \<in> F \<Longrightarrow> k \<in> F'" for k using FF by blast
  fix m p assume r: "h_status ?s' m = Running p"
  show "m < length msgs \<and> (\<forall>k < m. am_referenceID (msgs ! k) = am_referenceID (msgs ! m) \<longrightarrow> k \<in> F') \<and>
      phase_inv msgs (h_log ?s') m p"
  proof (cases "m = n")
    case True
    with r have "st = Running p" by simp
    with at_n ph sub True show ?thesis by simp
  next
    case False
    with r have m: "h_status s m = Running p" by simp
    show ?thesis
      using turn_invD(2-4) [OF inv m] log_mono(3) sub by simp
  qed
next
  fix m assume m: "m \<in> F'"
  show "m < length msgs \<and> h_status ?s' m = Ended \<and>
      (\<forall>k < m. am_referenceID (msgs ! k) = am_referenceID (msgs ! m) \<longrightarrow> k \<in> F') \<and>
      (reports (msgs ! m) \<longrightarrow> replied msgs (h_log ?s') m)"
  proof (cases "m = n")
    case True
    with m nF FF have "F' = insert n F" "st = Ended" by auto
    with at_n rep m True show ?thesis by simp
  next
    case False
    with m FF have mF: "m \<in> F" by blast
    from turn_invD(5-8) [OF inv mF] log_mono(2) FF False show ?thesis by auto
  qed
qed (use assms(2) mem in simp_all)

lemma turn_inv_status:
  assumes inv: "turn_inv msgs F s" and nF: "n \<notin> F"
    and st: "\<And>p. st = Running p \<Longrightarrow> n < length msgs \<and>
      (\<forall>k < n. am_referenceID (msgs ! k) = am_referenceID (msgs ! n) \<longrightarrow> k \<in> F) \<and> p = Arrived"
  shows "turn_inv msgs F (s\<lparr>h_status := (h_status s)(n := st)\<rparr>)"
proof -
  have "turn_inv msgs F (s\<lparr>h_self := h_self s, h_world := h_world s, h_status := (h_status s)(n := st), h_log := h_log s @ []\<rparr>)"
  proof (rule turn_inv_update [OF inv turn_invD(1) [OF inv] nF])
    show "F = F \<or> F = insert n F \<and> st = Ended" by simp
    show "n < length msgs \<and> (\<forall>k < n. am_referenceID (msgs ! k) = am_referenceID (msgs ! n) \<longrightarrow> k \<in> F)"
      if "n \<in> F \<or> (\<exists>p. st = Running p)" using that nF st by blast
    show "phase_inv msgs (h_log s @ []) n p" if "st = Running p" for p using st [OF that] by simp
    show "replied msgs (h_log s @ []) n" if "n \<in> F" using that nF by simp
    show "memory_of_last msgs F (h_log s @ []) d (unhandled (h_self s) d)" for d using turn_invD(9) [OF inv] by simp
  qed
  then show ?thesis by (simp del: fun_upd_apply)
qed

lemma turn_inv_outside:
  assumes inv: "turn_inv msgs F s" and "able self'" and un: "unhandled self' = unhandled (h_self s)"
  shows "turn_inv msgs F (s\<lparr>h_self := self', h_world := w'\<rparr>)"
proof (rule turn_invI)
  show "able (h_self (s\<lparr>h_self := self', h_world := w'\<rparr>))" using assms(2) by simp
  fix d show "memory_of_last msgs F (h_log (s\<lparr>h_self := self', h_world := w'\<rparr>)) d
      (unhandled (h_self (s\<lparr>h_self := self', h_world := w'\<rparr>)) d)"
    using turn_invD(9) [OF inv, of d] by (simp add: un)
next
  fix n p assume "h_status (s\<lparr>h_self := self', h_world := w'\<rparr>) n = Running p"
  then have "h_status s n = Running p" by simp
  from turn_invD(2-4) [OF inv this] show "n < length msgs \<and>
      (\<forall>k < n. am_referenceID (msgs ! k) = am_referenceID (msgs ! n) \<longrightarrow> k \<in> F) \<and>
      phase_inv msgs (h_log (s\<lparr>h_self := self', h_world := w'\<rparr>)) n p" by simp
next
  fix n assume "n \<in> F"
  from turn_invD(5-8) [OF inv this] show "n < length msgs \<and> h_status (s\<lparr>h_self := self', h_world := w'\<rparr>) n = Ended \<and>
      (\<forall>k < n. am_referenceID (msgs ! k) = am_referenceID (msgs ! n) \<longrightarrow> k \<in> F) \<and>
      (reports (msgs ! n) \<longrightarrow> replied msgs (h_log (s\<lparr>h_self := self', h_world := w'\<rparr>)) n)" by simp
qed

text \<open>The last phase of a handler, which replies or remembers.\<close>

lemma turn_inv_last:
  assumes inv: "turn_inv msgs F s" and run: "h_status s n = Running p" and phase: "p = Replied \<or> (\<exists>i. p = Delivered i)"
    and act: "act answer (msgs ! n) p (h_self s) (h_world s) = Returned (self', w', out, None)" and "able self'" "n \<notin> F"
  shows "turn_inv msgs (insert n F)
    (s\<lparr>h_self := self', h_world := w', h_status := (h_status s)(n := Ended), h_log := h_log s @ map (Pair n) out\<rparr>)"
proof -
  have out: "out = []" using law [OF act] phase by auto
  have mem: "memory_of_last msgs (insert n F) (h_log s) d (unhandled self' d)" for d
  proof (cases "d = am_referenceID (msgs ! n)")
    case True
    show ?thesis
      using law [OF act] turn_invD(4) [OF inv run] phase True by (intro memory_finish [OF inv run True]) auto
  next
    case False
    then have "unhandled self' d = unhandled (h_self s) d" using law [OF act] phase by auto
    with False turn_invD(9) [OF inv] show ?thesis by (metis memory_other)
  qed
  have rep: "reports (msgs ! n) \<Longrightarrow> replied msgs (h_log s) n" using turn_invD(4) [OF inv run] phase by auto
  show ?thesis
    by (rule turn_inv_update [OF inv assms(5,6)]) (use rep mem turn_invD(2,3) [OF inv run] in \<open>auto simp: out\<close>)
qed

lemma step_turn_inv:
  assumes step: "handlers_step act unhandled msgs s ev s'" and inv: "turn_inv msgs (finished evs) s"
    and her: "heralded msgs" and fits: "\<forall>n < length msgs. fit (msgs ! n)"
    and turn: "in_turn msgs (evs @ [ev])" and able: "\<forall>self. ev = Outside self \<longrightarrow> able self"
  shows "turn_inv msgs (finished (evs @ [ev])) s'"
  using step
proof cases
  case (begins n)
  have first: "k \<in> finished evs" if "k < n" "am_referenceID (msgs ! k) = am_referenceID (msgs ! n)" for k
    using in_turn_Began [OF turn [unfolded begins(1)] that] by (simp add: finished_def)
  have nF: "n \<notin> finished evs" using turn_invD(6) [OF inv, of n] begins(4) by auto
  show ?thesis
    unfolding begins(1,2) finished_simps by (rule turn_inv_status [OF inv nF]) (use first begins(3) in simp)
next
  case (misses n)
  have nF: "n \<notin> finished evs" using turn_invD(6) [OF inv, of n] misses(4) by auto
  show ?thesis
    unfolding misses(1,2) finished_simps by (rule turn_inv_status [OF inv nF]) simp
next
  case (outside self' w')
  from able outside(1) have "able self'" by simp
  from turn_inv_outside [OF inv this outside(3)] show ?thesis unfolding outside(1,2) finished_simps .
next
  case (acts n p answer self' w' out p')
  note a = act_turn_inv [OF inv acts(3,4) her fits]
  have nF: "n \<notin> finished evs" using turn_invD(6) [OF inv, of n] acts(3) by auto
  show ?thesis
  proof (cases p')
    case (Some q)
    with a(3) have q: "unhandled self' = unhandled (h_self s)" "phase_inv msgs (h_log s @ map (Pair n) out) n q" by auto
    show ?thesis unfolding acts(1,2) Some next_status_def option.case finished_simps
      by (rule turn_inv_update [OF inv a(1) nF])
        (use q turn_invD(2,3) [OF inv acts(3)] memory_of_last_mono [OF turn_invD(9) [OF inv]] nF in auto)
  next
    case None
    from turn_inv_last [OF inv acts(3) _ _ a(1) nF] a(2) acts(4) None show ?thesis
      unfolding acts(1,2) None next_status_def option.case finished_simps by blast
  qed
qed

lemma run_turn_inv:
  assumes "run msgs (handlers_start self w) evs s" "able self" "unhandled self = (\<lambda>_. None)" "heralded msgs"
    and "\<forall>n < length msgs. fit (msgs ! n)" "in_turn msgs evs" "\<forall>self. Outside self \<in> set evs \<longrightarrow> able self"
  shows "turn_inv msgs (finished evs) s"
  using assms
proof (induction rule: handlers_run.induct)
  case no_step
  then show ?case by (simp add: turn_inv_def handlers_start_def memory_of_last_def)
next
  case (one_step evs s' ev s'')
  have "turn_inv msgs (finished evs) s'"
    by (rule one_step.IH) (use one_step.prems in_turn_prefix [of msgs evs "[ev]"] in auto)
  from step_turn_inv [OF one_step.hyps(2) this one_step.prems(3,4,5)] one_step.prems(6) show ?case by simp
qed

lemma finished_replied:
  assumes "run msgs (handlers_start self w) evs s" "able self" "unhandled self = (\<lambda>_. None)" "heralded msgs"
    and "\<forall>n < length msgs. fit (msgs ! n)" "in_turn msgs evs" "\<forall>self. Outside self \<in> set evs \<longrightarrow> able self"
    and "Acted n answer None \<in> set evs" "reports (msgs ! n)"
  shows "replied msgs (h_log s) n"
  using turn_invD(8) [OF run_turn_inv [OF assms(1-7)]] assms(8,9) by (auto simp: finished_def)

end

section \<open>A bot that says one thing at a time\<close>

text \<open>A handler that has sent something only cleans up after it.\<close>

locale terse_bot = alert_bot act unhandled answers numbered able fit
  for act :: "'a \<Rightarrow> AlertMessage \<Rightarrow> phase \<Rightarrow> 'b \<Rightarrow> 'w \<Rightarrow> ('b, 'w, 'o) phase_result"
    and unhandled answers numbered able fit +
  assumes once: "act answer msg p self w = Returned (self', w', out, p') \<Longrightarrow>
      length out \<le> 1 \<and> (out \<noteq> [] \<longrightarrow> p' = None \<or> p' = Some Replied \<or> (\<exists>i. p' = Some (Delivered i)))"
begin

definition said_once :: "('b, 'w, 'o) handlers \<Rightarrow> bool" where
  "said_once s \<longleftrightarrow> distinct (map fst (h_log s)) \<and>
     (\<forall>n \<in> fst ` set (h_log s). h_status s n = Ended \<or> h_status s n = Running Replied \<or> (\<exists>i. h_status s n = Running (Delivered i)))"

lemma step_said_once:
  assumes "handlers_step act unhandled msgs s ev s'" "said_once s"
  shows "said_once s'"
  using assms(1)
proof cases
  case (acts n p answer self' w' out p')
  show ?thesis
  proof (cases "out = []")
    case True
    have "next_status p' = Ended" if "p = Replied \<or> (\<exists>i. p = Delivered i)"
      using law [OF acts(4)] that by (auto simp: next_status_def)
    with assms(2) acts(3) True show ?thesis unfolding said_once_def acts(2) by auto
  next
    case False
    with once [OF acts(4)] obtain o' where out: "out = [o']"
      "p' = None \<or> p' = Some Replied \<or> (\<exists>i. p' = Some (Delivered i))" by (cases out) auto
    have "p \<noteq> Replied" "p \<noteq> Delivered i" for i using law [OF acts(4)] False by auto
    with assms(2) acts(3) have "n \<notin> fst ` set (h_log s)" by (auto simp: said_once_def)
    with assms(2) out show ?thesis unfolding said_once_def acts(2) by (auto simp: next_status_def)
  qed
qed (use assms(2) in \<open>auto simp: said_once_def\<close>)

lemma run_said_once: "run msgs s evs s' \<Longrightarrow> said_once s \<Longrightarrow> said_once s'"
  by (induction rule: handlers_run.induct) (auto intro: step_said_once)

lemma one_message_each: "run msgs (handlers_start self w) evs s \<Longrightarrow> distinct (map fst (h_log s))"
  using run_said_once [of msgs "handlers_start self w" evs s] by (simp add: said_once_def handlers_start_def)

end

section \<open>The Telegram bot\<close>

lemma alert_name_known: "AlertType_AlertName (Alert_Type a) \<noteq> None"
  by (simp add: Alert_Type_Name [where gw = gw])

lemma alert_text:
  assumes "gowaves_ok gw" "texts_faithful jt" "alert_ok a" "jt_Marshal jt (Alert_json gw a) = Inr b"
    and "\<And>name data. \<exists>text. executeTemplate tm name data ext = Inr text"
  shows "\<exists>str. constructMessage gw jt tm (Alert_Type a) b ext ns = Inr str"
proof -
  obtain name data where "alert_view gw (nodeURLToAlias ns) a = (name, data)" by fastforce
  with assms(5) [of name data] show ?thesis
    by (auto simp: constructMessage_def executeAlertTemplate_view [OF assms(1-4)])
qed

lemma proper_text:
  assumes "proper gw jt msg" "gowaves_ok gw" "texts_faithful jt" "\<And>name data. \<exists>text. executeTemplate tm name data ext = Inr text"
  shows "AlertType_AlertName (am_alertType msg) \<noteq> None"
    and "\<exists>str. constructMessage gw jt tm (am_alertType msg) (am_data msg) ext ns = Inr str"
  using assms alert_text [OF assms(2,3) _ _ assms(4)] alert_name_known by (auto simp: proper_def)

definition templates_work :: "templates \<Rightarrow> bool" where
  "templates_work tm \<longleftrightarrow> (\<forall>name data. \<exists>text. tm_html tm name data = Inr text)"

lemma templates_work_HTML: "templates_work tm \<Longrightarrow> \<exists>text. executeTemplate tm name data HTML = Inr text"
  by (simp add: templates_work_def executeTemplate_def)

definition tg_able :: "gowaves \<Rightarrow> jsontext \<Rightarrow> templates \<Rightarrow> 'sub TelegramBot \<Rightarrow> bool" where
  "tg_able gw jt tm tg \<longleftrightarrow> gowaves_ok gw \<and> texts_faithful jt \<and> templates_work tm \<and> \<not> tg_Mute tg"

abbreviation tg_answers :: "int sent \<times> (error + int) \<Rightarrow> int \<Rightarrow> bool" where
  "tg_answers sent i \<equiv> se_ReplyTo (fst sent) = Some i"

abbreviation tg_numbered :: "int sent \<times> (error + int) \<Rightarrow> int \<Rightarrow> bool" where
  "tg_numbered sent i \<equiv> snd sent = Inr i"

lemma tg_law:
  "tg_phase gw jt tm send answer msg p tg w = Returned (tg', w', out, p') \<Longrightarrow>
    phase_law tg_answers tg_numbered msg p (tg_unhandled tg) out p' (tg_unhandled tg')"
  by (cases p)
    (auto simp: tg_phase_def Let_def tg_sendErrMsg_def tg_SendMessage_def GetMessageIDByAlertID_def unhandled_Add_def
      unhandled_Delete_def split: if_splits option.splits sum.splits prod.splits)

lemma tg_able_act:
  assumes "tg_phase gw jt tm send answer msg p tg w = Returned (tg', w', out, p')" "tg_able gw jt tm tg" "proper gw jt msg"
  shows "tg_able gw jt tm tg' \<and> (p = Arrived \<longrightarrow> p' = Some Requesting) \<and> (p = Requesting \<longrightarrow> (\<exists>t. p' = Some (Rendered t))) \<and>
    (\<forall>t. p = Rendered t \<and> \<not> reports msg \<longrightarrow> p' \<noteq> None)"
proof -
  have libs: "gowaves_ok gw" "texts_faithful jt" "templates_work tm" "\<not> tg_Mute tg" using assms(2) by (simp_all add: tg_able_def)
  note filled = proper_text [OF assms(3) libs(1,2) templates_work_HTML [OF libs(3)]]
  have "\<And>ns err. constructMessage gw jt tm (am_alertType msg) (am_data msg) HTML ns \<noteq> Inl err" using filled(2) by (metis Inr_not_Inl)
  with assms(1,2) filled(1) libs(4) show ?thesis
    by (cases p) (auto simp: tg_phase_def Let_def tg_able_def split: if_splits option.splits sum.splits prod.splits)
qed

lemma tg_once:
  "tg_phase gw jt tm send answer msg p tg w = Returned (tg', w', out, p') \<Longrightarrow>
    length out \<le> 1 \<and> (out \<noteq> [] \<longrightarrow> p' = None \<or> p' = Some Replied \<or> (\<exists>i. p' = Some (Delivered i)))"
  by (cases p)
    (auto simp: tg_phase_def Let_def tg_sendErrMsg_def tg_SendMessage_def split: if_splits option.splits sum.splits prod.splits)

interpretation tg_bot: terse_bot "tg_phase gw jt tm send" tg_unhandled tg_answers tg_numbered "tg_able gw jt tm" "proper gw jt"
  for gw jt tm send
  by unfold_locales (rule tg_law tg_able_act tg_once; assumption)+

abbreviation tg_run ::
    "gowaves \<Rightarrow> jsontext \<Rightarrow> templates \<Rightarrow> 'w telegram \<Rightarrow> AlertMessage list \<Rightarrow>
     ('sub TelegramBot, 'w, int sent \<times> (error + int)) handlers \<Rightarrow>
     ((error + Node list) option, 'sub TelegramBot) handlerEvent list \<Rightarrow>
     ('sub TelegramBot, 'w, int sent \<times> (error + int)) handlers \<Rightarrow> bool" where
  "tg_run gw jt tm send \<equiv> handlers_run (tg_phase gw jt tm send) tg_unhandled"

section \<open>The Discord bot\<close>

text \<open>
  The ids of Discord are decimal numbers, which the bot keeps as \<open>int\<close>.
\<close>

definition discord_works :: "templates \<Rightarrow> 'w discord \<Rightarrow> bool" where
  "discord_works tm send \<longleftrightarrow> (\<forall>name data. \<exists>text. tm_text tm name data = Inr text) \<and>
     (\<forall>w m. \<exists>w' t i. send w m = (w', Inr t) \<and> Atoi t = Inr i)"

definition ds_able :: "gowaves \<Rightarrow> jsontext \<Rightarrow> templates \<Rightarrow> 'w discord \<Rightarrow> 'sub DiscordBot \<Rightarrow> bool" where
  "ds_able gw jt tm send ds \<longleftrightarrow> gowaves_ok gw \<and> texts_faithful jt \<and> discord_works tm send"

abbreviation ds_answers :: "string discordMessage \<times> (error + string) \<Rightarrow> int \<Rightarrow> bool" where
  "ds_answers sent i \<equiv> dm_ReplyTo (fst sent) = Some (FormatInt i)"

abbreviation ds_numbered :: "string discordMessage \<times> (error + string) \<Rightarrow> int \<Rightarrow> bool" where
  "ds_numbered sent i \<equiv> (\<exists>t. snd sent = Inr t \<and> Atoi t = Inr i)"

lemma ds_law:
  "ds_phase gw jt tm send answer msg p ds w = Returned (ds', w', out, p') \<Longrightarrow>
    phase_law ds_answers ds_numbered msg p (ds_unhandled ds) out p' (ds_unhandled ds')"
  by (cases p)
    (auto simp: ds_phase_def Let_def ds_sendErrMsg_def ds_SendMessage_def GetMessageIDByAlertID_def unhandled_Add_def
      unhandled_Delete_def split: if_splits option.splits sum.splits prod.splits)

lemma ds_able_act:
  assumes "ds_phase gw jt tm send answer msg p ds w = Returned (ds', w', out, p')" "ds_able gw jt tm send ds" "proper gw jt msg"
  shows "ds_able gw jt tm send ds' \<and> (p = Arrived \<longrightarrow> p' = Some Requesting) \<and> (p = Requesting \<longrightarrow> (\<exists>t. p' = Some (Rendered t))) \<and>
    (\<forall>t. p = Rendered t \<and> \<not> reports msg \<longrightarrow> p' \<noteq> None)"
proof -
  have libs: "gowaves_ok gw" "texts_faithful jt" "discord_works tm send" using assms(2) by (simp_all add: ds_able_def)
  have "\<exists>text. executeTemplate tm name data Markdown = Inr text" for name data
    using libs(3) by (auto simp: discord_works_def executeTemplate_def HTML_def Markdown_def)
  note filled = proper_text [OF assms(3) libs(1,2) this]
  have no: "\<And>ns err. constructMessage gw jt tm (am_alertType msg) (am_data msg) Markdown ns \<noteq> Inl err" using filled(2) by (metis Inr_not_Inl)
  have sent: "\<And>w m w' err. send w m \<noteq> (w', Inl err)" "\<And>w m w' t err. send w m = (w', Inr t) \<Longrightarrow> Atoi t \<noteq> Inl err"
    using libs(3) unfolding discord_works_def by (metis Inr_not_Inl prod.inject sum.inject(2))+
  show ?thesis
    using assms(1,2) filled(1) no sent
    by (cases p) (auto simp: ds_phase_def Let_def ds_able_def split: if_splits option.splits sum.splits prod.splits)
qed

interpretation ds_bot: alert_bot "ds_phase gw jt tm send" ds_unhandled ds_answers ds_numbered "ds_able gw jt tm send" "proper gw jt"
  for gw jt tm send
  by unfold_locales (rule ds_law ds_able_act; assumption)+

section \<open>What the analyzer wrote\<close>

text \<open>Whatever the analyzer writes announces its reports.\<close>

lemma Start_announced:
  assumes "Start gw bd (fst (NewAnalyzer o')) (snd (NewAnalyzer o')) ns alerts s'"
  shows "announced gw alerts"
  unfolding announced_def
proof (intro allI impI)
  fix xs ts a ys assume x: "alerts = xs @ A_Fixed ts a # ys"
  from Start_weave [OF assms] obtain ops outs where
    ops: "as_run gw (snd (NewAnalyzer o')) ops outs s'" "weave outs alerts" by blast
  from weave_fixed_after_sent [OF ops(1) ops(2) [unfolded x]] obtain us b vs where
    "xs = us @ b # vs" "\<forall>ts' c. b \<noteq> A_Fixed ts' c" "Alert_ID gw b = Alert_ID gw a"
    "\<forall>ts' c. A_Fixed ts' c \<in> set vs \<longrightarrow> Alert_ID gw c \<noteq> Alert_ID gw a" by auto
  then show "\<exists>us b vs. xs = us @ b # vs \<and> \<not> is_report b \<and> Alert_ID gw b = Alert_ID gw a \<and>
      (\<forall>c \<in> set vs. is_report c \<longrightarrow> reference_ID gw c \<noteq> Alert_ID gw a)"
    by (intro exI [of _ us] exI [of _ b] exI [of _ vs]) (auto simp: reference_report)
qed

definition messages_of :: "gowaves \<Rightarrow> jsontext \<Rightarrow> Alert list \<Rightarrow> AlertMessage list \<Rightarrow> bool" where
  "messages_of gw jt = list_all2 (\<lambda>a m. NewAlertMessageFromAlert gw jt (Some a) = Inr m)"

lemma messages_ofD:
  assumes "messages_of gw jt alerts msgs"
  shows "length msgs = length alerts"
    and "n < length alerts \<Longrightarrow> \<exists>b. jt_Marshal jt (Alert_json gw (alerts ! n)) = Inr b \<and> msgs ! n = message_of gw b (alerts ! n)"
    and "n < length alerts \<Longrightarrow> am_referenceID (msgs ! n) = reference_ID gw (alerts ! n)"
    and "n < length alerts \<Longrightarrow> reports (msgs ! n) \<longleftrightarrow> is_report (alerts ! n)"
proof -
  show "length msgs = length alerts" using assms by (auto simp: messages_of_def list_all2_lengthD)
  show m: "\<exists>b. jt_Marshal jt (Alert_json gw (alerts ! n)) = Inr b \<and> msgs ! n = message_of gw b (alerts ! n)" if "n < length alerts" for n
  proof -
    from list_all2_nthD [OF assms [unfolded messages_of_def] that]
    have "NewAlertMessageFromAlert gw jt (Some (alerts ! n)) = Inr (msgs ! n)" .
    then show ?thesis by (rule NewAlertMessage_elim) blast
  qed
  show "am_referenceID (msgs ! n) = reference_ID gw (alerts ! n)" if "n < length alerts" using m [OF that] by auto
  show "reports (msgs ! n) \<longleftrightarrow> is_report (alerts ! n)" if "n < length alerts" using m [OF that] by (auto simp: Alert_Type_Fixed)
qed

lemma heralded_messages:
  assumes "messages_of gw jt alerts msgs" "announced gw alerts"
  shows "heralded msgs"
  unfolding heralded_def
proof (intro allI impI)
  note m = messages_ofD [OF assms(1)]
  fix n assume n: "n < length msgs" "reports (msgs ! n)"
  then obtain ts a where a: "alerts ! n = A_Fixed ts a" using m by auto
  from announced_last [OF assms(2) _ a] n m(1) obtain k where
    k: "k < n" "\<not> is_report (alerts ! k)" "Alert_ID gw (alerts ! k) = Alert_ID gw a"
      "\<forall>j. k < j \<and> j < n \<and> is_report (alerts ! j) \<longrightarrow> reference_ID gw (alerts ! j) \<noteq> Alert_ID gw a" by auto
  with n m(1,3,4) a show "\<exists>k < n. \<not> reports (msgs ! k) \<and> am_referenceID (msgs ! k) = am_referenceID (msgs ! n) \<and>
      (\<forall>j. k < j \<and> j < n \<and> reports (msgs ! j) \<longrightarrow> am_referenceID (msgs ! j) \<noteq> am_referenceID (msgs ! n))"
    by (intro exI [of _ k]) (auto simp: reference_alert reference_report)
qed

lemma proper_messages:
  assumes "messages_of gw jt alerts msgs" "\<forall>a \<in> set alerts. alert_ok a" "n < length msgs"
  shows "proper gw jt (msgs ! n)"
  using messages_ofD(1,2) [OF assms(1)] assms(2,3) unfolding proper_def by (metis nth_mem)

section \<open>Reports answer the message of their alert\<close>

text \<open>
  C15: What answers what. Let the analyzer write a list of alerts, and let the handlers of a Telegram
  bot run on their messages, interleaved in any way, with failures of the requests and of sending, and with other
  activity between. The bot sends at most one message for each alert. Whatever it sends as a reply
  is sent for a report that an alert is fixed, and answers the number that was given to an
  earlier message for an alert with the id of the one that is fixed. And if the bot is never muted, the
  templates work, and the messages of each id are handled in turn, one after the other as
  they were published, then every report whose handler ends is sent as a reply to the message of the last
  alert with this id before it.
\<close>

theorem fixed_reports_reply:
  assumes "Start gw bd (fst (NewAnalyzer o')) (snd (NewAnalyzer o')) ns alerts s'" "messages_of gw jt alerts msgs"
    and "tg_run gw jt tm send msgs (handlers_start (NewTelegramBotEnvironment chatID mute scheme) w) evs s"
  shows "distinct (map fst (h_log s)) \<and>
    (\<forall>xs n m r ys i. h_log s = xs @ (n, m, r) # ys \<and> se_ReplyTo m = Some i \<longrightarrow>
      (\<exists>ts a k m'. n < length alerts \<and> alerts ! n = A_Fixed ts a \<and> k < length alerts \<and> \<not> is_report (alerts ! k) \<and>
        Alert_ID gw (alerts ! k) = Alert_ID gw a \<and> (k, m', Inr i) \<in> set xs)) \<and>
    (gowaves_ok gw \<and> texts_faithful jt \<and> templates_work tm \<and> (\<forall>a \<in> set alerts. alert_ok a) \<and> \<not> mute \<and>
     (\<forall>tg. Outside tg \<in> set evs \<longrightarrow> \<not> tg_Mute tg) \<and> in_turn msgs evs \<longrightarrow>
      (\<forall>n ts a answer. n < length alerts \<and> alerts ! n = A_Fixed ts a \<and> Acted n answer None \<in> set evs \<longrightarrow>
        (\<exists>k i m m' r. k < n \<and> \<not> is_report (alerts ! k) \<and> Alert_ID gw (alerts ! k) = Alert_ID gw a \<and>
          (\<forall>j. k < j \<and> j < n \<longrightarrow> reference_ID gw (alerts ! j) \<noteq> Alert_ID gw a) \<and>
          (k, m', Inr i) \<in> set (h_log s) \<and> (n, m, r) \<in> set (h_log s) \<and> se_ReplyTo m = Some i)))"
proof (intro conjI allI impI; (elim conjE)?)
  let ?self = "NewTelegramBotEnvironment chatID mute scheme :: 'b TelegramBot"
  note msgs = messages_ofD [OF assms(2)]
  have none: "tg_unhandled ?self = (\<lambda>_. None)" by (simp add: NewTelegramBotEnvironment_def)
  show "distinct (map fst (h_log s))" by (rule tg_bot.one_message_each [OF assms(3)])
  note range = tg_bot.run_in_range [OF assms(3)]
  show "\<exists>ts a k m'. n < length alerts \<and> alerts ! n = A_Fixed ts a \<and> k < length alerts \<and> \<not> is_report (alerts ! k) \<and>
      Alert_ID gw (alerts ! k) = Alert_ID gw a \<and> (k, m', Inr i) \<in> set xs"
    if "h_log s = xs @ (n, m, r) # ys" "se_ReplyTo m = Some i" for xs n m r ys i
  proof -
    from tg_bot.reply_to_sent [OF assms(3) none that(1), of i] that(2) obtain k m' where
      k: "(k, m', Inr i) \<in> set xs" "\<not> reports (msgs ! k)" "am_referenceID (msgs ! k) = am_referenceID (msgs ! n)"
      and n: "reports (msgs ! n)" by (auto simp: tg_bot.known_def)
    have "n < length alerts" "k < length alerts" using range that(1) k(1) msgs(1) by force+
    with k n msgs(3,4) show ?thesis by (auto simp: reference_alert reference_report) (metis reference_alert reference_report)
  qed
  show "\<exists>k i m m' r. k < n \<and> \<not> is_report (alerts ! k) \<and> Alert_ID gw (alerts ! k) = Alert_ID gw a \<and>
      (\<forall>j. k < j \<and> j < n \<longrightarrow> reference_ID gw (alerts ! j) \<noteq> Alert_ID gw a) \<and>
      (k, m', Inr i) \<in> set (h_log s) \<and> (n, m, r) \<in> set (h_log s) \<and> se_ReplyTo m = Some i"
    if libs: "gowaves_ok gw" "texts_faithful jt" "templates_work tm" "\<forall>a \<in> set alerts. alert_ok a" "\<not> mute"
      "\<forall>tg. Outside tg \<in> set evs \<longrightarrow> \<not> tg_Mute tg" "in_turn msgs evs"
      and n: "n < length alerts" "alerts ! n = A_Fixed ts a" "Acted n answer None \<in> set evs" for n ts a answer
  proof -
    have able: "tg_able gw jt tm ?self" "\<forall>tg. Outside tg \<in> set evs \<longrightarrow> tg_able gw jt tm tg"
      using libs by (simp_all add: tg_able_def NewTelegramBotEnvironment_def)
    have "tg_bot.replied msgs (h_log s) n"
      using tg_bot.finished_replied [OF assms(3) able(1) none heralded_messages [OF assms(2) Start_announced [OF assms(1)]]
        _ libs(7) able(2) n(3)] proper_messages [OF assms(2) libs(4)] msgs(4) n(1,2) by blast
    then obtain k i m m' r where
      k: "k < n" "am_referenceID (msgs ! k) = am_referenceID (msgs ! n)" "\<not> reports (msgs ! k)"
        "\<forall>j. k < j \<and> j < n \<longrightarrow> am_referenceID (msgs ! j) \<noteq> am_referenceID (msgs ! n)"
        "(k, m', Inr i) \<in> set (h_log s)" "(n, m, r) \<in> set (h_log s)" "se_ReplyTo m = Some i"
      by (auto simp: tg_bot.replied_def tg_bot.last_sent_def)
    then show ?thesis
      using n(1,2) msgs(3,4)
      by (intro exI [of _ k] exI [of _ i] exI [of _ m] exI [of _ m'] exI [of _ r]) (auto simp: reference_alert reference_report)
  qed
qed

text \<open>The Discord bot replies in the same way, under the id that Discord gave to the message.\<close>

lemma discord_fixed_reports_reply:
  assumes "Start gw bd (fst (NewAnalyzer o')) (snd (NewAnalyzer o')) ns alerts s'" "messages_of gw jt alerts msgs"
    and "handlers_run (ds_phase gw jt tm send) ds_unhandled msgs (handlers_start (NewDiscordBotEnvironment chatID scheme) w) evs s"
    and libs: "gowaves_ok gw" "texts_faithful jt" "discord_works tm send" "\<forall>a \<in> set alerts. alert_ok a" "in_turn msgs evs"
    and n: "n < length alerts" "alerts ! n = A_Fixed ts a" "Acted n answer None \<in> set evs"
  shows "\<exists>k i t m m' r. k < n \<and> \<not> is_report (alerts ! k) \<and> Alert_ID gw (alerts ! k) = Alert_ID gw a \<and>
    (\<forall>j. k < j \<and> j < n \<longrightarrow> reference_ID gw (alerts ! j) \<noteq> Alert_ID gw a) \<and>
    (k, m', Inr t) \<in> set (h_log s) \<and> Atoi t = Inr i \<and> (n, m, r) \<in> set (h_log s) \<and> dm_ReplyTo m = Some (FormatInt i)"
proof -
  let ?self = "NewDiscordBotEnvironment chatID scheme :: 'b DiscordBot"
  note msgs = messages_ofD [OF assms(2)]
  have none: "ds_unhandled ?self = (\<lambda>_. None)" by (simp add: NewDiscordBotEnvironment_def)
  have able: "ds_able gw jt tm send ds" for ds using libs by (simp add: ds_able_def)
  have "ds_bot.replied msgs (h_log s) n"
    using ds_bot.finished_replied [OF assms(3) able none heralded_messages [OF assms(2) Start_announced [OF assms(1)]]
      _ libs(5) _ n(3)] able proper_messages [OF assms(2) libs(4)] msgs(4) n(1,2) by blast
  then obtain k i t m m' r where
    k: "k < n" "am_referenceID (msgs ! k) = am_referenceID (msgs ! n)" "\<not> reports (msgs ! k)"
      "\<forall>j. k < j \<and> j < n \<longrightarrow> am_referenceID (msgs ! j) \<noteq> am_referenceID (msgs ! n)"
      "(k, m', Inr t) \<in> set (h_log s)" "Atoi t = Inr i" "(n, m, r) \<in> set (h_log s)" "dm_ReplyTo m = Some (FormatInt i)"
    by (auto simp: ds_bot.replied_def ds_bot.last_sent_def)
  then show ?thesis
    using n(1,2) msgs(3,4)
    by (intro exI [of _ k] exI [of _ i] exI [of _ t] exI [of _ m] exI [of _ m'] exI [of _ r])
      (auto simp: reference_alert reference_report)
qed

section \<open>Uninterrupted handlers, and a report that overtakes its alert\<close>

definition sending_works :: "'w telegram \<Rightarrow> bool" where
  "sending_works send \<longleftrightarrow> (\<forall>w m. \<exists>w' i. send w m = (w', Inr i))"

text \<open>What the bot is after it handled an alert, whose message got the number \<open>i\<close>, and what the message answers.\<close>

definition tg_after :: "gowaves \<Rightarrow> 'sub TelegramBot \<Rightarrow> Alert \<Rightarrow> int \<Rightarrow> 'sub TelegramBot" where
  "tg_after gw self a i = (case a of
     A_Fixed ts f \<Rightarrow> (if tg_unhandled self (Alert_ID gw f) = None then self
       else self\<lparr>tg_unhandled := (tg_unhandled self)(Alert_ID gw f := None)\<rparr>)
   | _ \<Rightarrow> self\<lparr>tg_unhandled := (tg_unhandled self)(Alert_ID gw a \<mapsto> i)\<rparr>)"

definition tg_answer :: "gowaves \<Rightarrow> 'sub TelegramBot \<Rightarrow> Alert \<Rightarrow> int option" where
  "tg_answer gw self a = (case a of A_Fixed ts f \<Rightarrow> tg_unhandled self (Alert_ID gw f) | _ \<Rightarrow> None)"

lemma tg_after_alert:
  "\<not> is_report a \<Longrightarrow> tg_after gw self a i = self\<lparr>tg_unhandled := (tg_unhandled self)(Alert_ID gw a \<mapsto> i)\<rparr>"
  "\<not> is_report a \<Longrightarrow> tg_answer gw self a = None"
  by (cases a; simp add: tg_after_def tg_answer_def)+

lemma tg_after_report:
  "tg_after gw self (A_Fixed ts f) i = (if tg_unhandled self (Alert_ID gw f) = None then self
     else self\<lparr>tg_unhandled := (tg_unhandled self)(Alert_ID gw f := None)\<rparr>)"
  "tg_answer gw self (A_Fixed ts f) = tg_unhandled self (Alert_ID gw f)"
  by (simp_all add: tg_after_def tg_answer_def)

lemma tg_sends:
  assumes "tg_able gw jt tm self" "sending_works send" "alert_ok a" "jt_Marshal jt (Alert_json gw a) = Inr b"
  shows "\<exists>w' m i. tg_SendAlertMessage gw jt tm send (Some r) self w (message_of gw b a) =
      Returned (tg_after gw self a i, w', [(m, Inr i)]) \<and> se_ReplyTo m = tg_answer gw self a"
proof -
  have libs: "gowaves_ok gw" "texts_faithful jt" "templates_work tm" "\<not> tg_Mute self" using assms(1) by (simp_all add: tg_able_def)
  obtain str where c: "constructMessage gw jt tm (Alert_Type a) b HTML (case r of Inl err \<Rightarrow> [] | Inr ns \<Rightarrow> ns) = Inr str"
    using alert_text [OF libs(1,2) assms(3,4) templates_work_HTML [OF libs(3)]] by blast
  have sent: "\<exists>w' i. send w m = (w', Inr i)" for m using assms(2) by (simp add: sending_works_def)
  note unfold = tg_SendAlertMessage_def tg_sendErrMsg_def tg_SendMessage_def libs alert_name_known [of a] c Let_def
    GetMessageIDByAlertID_def unhandled_Delete_def unhandled_Add_def
  show ?thesis
  proof (cases "is_report a")
    case True
    then obtain ts f where a: "a = A_Fixed ts f" by blast
    obtain w1 i1 where "send w \<lparr>se_chat = tg_ChatID self, se_text = bot_error ''Failed to get message ID by the given alertID''
        (Errorf (''alertID '' @ Digest_String gw (Alert_ID gw f) @ '' hasn't been found'')), se_ReplyTo = None\<rparr> = (w1, Inr i1)"
      using sent by blast
    moreover obtain w2 i2 where "send w \<lparr>se_chat = tg_ChatID self, se_text = str,
        se_ReplyTo = Some (the (tg_unhandled self (Alert_ID gw f)))\<rparr> = (w2, Inr i2)"
      using sent by blast
    moreover have "AlertType_AlertName AlertFixedType = Some AlertFixedName"
      by (simp add: AlertType_AlertName_def AlertType_defs)
    ultimately show ?thesis using c
      by (cases "tg_unhandled self (Alert_ID gw f)") (simp_all add: unfold a reference_report tg_after_report)
  next
    case False
    obtain w' i where "send w \<lparr>se_chat = tg_ChatID self, se_text = str, se_ReplyTo = None\<rparr> = (w', Inr i)" using sent by blast
    with False show ?thesis by (simp add: unfold Alert_Type_Fixed reference_alert tg_after_alert)
  qed
qed

lemma tg_handles:
  assumes "tg_able gw jt tm (h_self s)" "sending_works send" "messages_of gw jt alerts msgs" "\<forall>a \<in> set alerts. alert_ok a"
    and n: "n < length alerts" "h_status s n = Waiting"
    and "\<forall>k < n. am_alertType (msgs ! k) = am_alertType (msgs ! n) \<longrightarrow> h_status s k = Ended"
  shows "\<exists>evs w' m i. tg_run gw jt tm send msgs s (Began n # evs @ [Acted n (Some (Inr [])) None])
      (s\<lparr>h_self := tg_after gw (h_self s) (alerts ! n) i, h_world := w', h_status := (h_status s)(n := Ended),
         h_log := h_log s @ [(n, m, Inr i)]\<rparr>) \<and>
    (\<forall>ev \<in> set evs. \<exists>p. ev = Acted n (Some (Inr [])) p) \<and>
    se_ReplyTo m = tg_answer gw (h_self s) (alerts ! n)"
proof -
  from messages_ofD(2) [OF assms(3) n(1)] obtain b where
    b: "jt_Marshal jt (Alert_json gw (alerts ! n)) = Inr b" "msgs ! n = message_of gw b (alerts ! n)" by blast
  have "alert_ok (alerts ! n)" using assms(4) n(1) by simp
  from tg_sends [OF assms(1,2) this b(1), of "Inr []" "h_world s"] obtain w' m i where
    one: "tg_SendAlertMessage gw jt tm send (Some (Inr [])) (h_self s) (h_world s) (msgs ! n) =
        Returned (tg_after gw (h_self s) (alerts ! n) i, w', [(m, Inr i)])"
      "se_ReplyTo m = tg_answer gw (h_self s) (alerts ! n)"
    unfolding b(2) by blast
  have "n < length msgs" using n(1) messages_ofD(1) [OF assms(3)] by simp
  from handled_alone [where act = "tg_phase gw jt tm send" and unhandled = tg_unhandled,
      OF one(1) [folded tg_alone] this n(2) assms(7)] one(2)
  show ?thesis by (auto simp del: fun_upd_apply)
qed

text \<open>
  A report and its alert have different types, so NATS may call the handler of the report first,
  although the alert was published before it. The report then finds no number: the bot sends an
  error instead of a reply, and the number of the alert's message stays in the memory for good.
\<close>

lemma report_may_overtake:
  assumes "tg_able gw jt tm self" "tg_unhandled self = (\<lambda>_. None)" "sending_works send"
    and "messages_of gw jt [a, A_Fixed ts f] msgs" "alert_ok a" "alert_ok (A_Fixed ts f)"
    and "\<not> is_report a" "Alert_ID gw a = Alert_ID gw f"
  shows "\<exists>evs s. tg_run gw jt tm send msgs (handlers_start self w) evs s \<and> h_status s 0 = Ended \<and> h_status s 1 = Ended \<and>
    (\<forall>(n, m, r) \<in> set (h_log s). se_ReplyTo m = None) \<and> tg_unhandled (h_self s) (Alert_ID gw f) \<noteq> None"
proof -
  let ?as = "[a, A_Fixed ts f]" and ?s0 = "handlers_start self w :: ('a TelegramBot, 'b, int sent \<times> (error + int)) handlers"
  have ok: "\<forall>a \<in> set ?as. alert_ok a" using assms(5,6) by simp
  have start: "h_self ?s0 = self" "h_status ?s0 = (\<lambda>_. Waiting)" "h_log ?s0 = []" by (simp_all add: handlers_start_def)
  have types: "am_alertType (msgs ! 0) \<noteq> am_alertType (msgs ! 1)"
    using messages_ofD(4) [OF assms(4), of 0] messages_ofD(4) [OF assms(4), of 1] assms(7) by auto
  from tg_handles [of gw jt tm ?s0 send ?as msgs 1, OF _ assms(3,4) ok] assms(1,2) types start
  obtain evs1 w1 m1 i1 where
    1: "tg_run gw jt tm send msgs ?s0 evs1 (?s0\<lparr>h_self := self, h_world := w1, h_status := (\<lambda>_. Waiting)(1 := Ended), h_log := [(1, m1, Inr i1)]\<rparr>)"
      "se_ReplyTo m1 = None" by (auto simp: tg_after_report simp del: fun_upd_apply)
  let ?s1 = "?s0\<lparr>h_self := self, h_world := w1, h_status := (\<lambda>_. Waiting)(1 := Ended), h_log := [(1, m1, Inr i1)]\<rparr>"
  from tg_handles [of gw jt tm ?s1 send ?as msgs 0, OF _ assms(3,4) ok] assms(1,7) obtain evs2 w2 m2 i2 where
    2: "tg_run gw jt tm send msgs ?s1 evs2 (?s1\<lparr>h_self := tg_after gw self a i2, h_world := w2,
        h_status := (h_status ?s1)(0 := Ended), h_log := [(1, m1, Inr i1), (0, m2, Inr i2)]\<rparr>)"
      "se_ReplyTo m2 = None" by (auto simp: tg_after_alert fun_upd_other simp del: fun_upd_apply)
  from handlers_run_append [OF 2(1) 1(1)] 1(2) 2(2) assms(7,8) show ?thesis
    by (intro exI [of _ "evs1 @ evs2"]) (fastforce simp: tg_after_alert)
qed

section \<open>Witnesses\<close>

text \<open>A Telegram service that numbers the messages.\<close>

definition demo_telegram :: "int telegram" where
  "demo_telegram w m = (w + 1, Inr w)"

lemma demo_sending_works: "sending_works demo_telegram"
  by (simp add: sending_works_def demo_telegram_def)

lemma demo_templates_work: "templates_work demo_templates"
  by (simp add: templates_work_def demo_templates_def)

text \<open>An alert, its report, and their messages.\<close>

abbreviation demo_announced :: "Alert list" where
  "demo_announced \<equiv> [A_InvalidHeight (Event_Statement demo_invalid), A_Fixed 2 (A_InvalidHeight (Event_Statement demo_invalid))]"

abbreviation demo_announced_text :: jsontext where
  "demo_announced_text \<equiv> demo_text (map (Alert_json demo_gowaves) demo_announced)"

lemma demo_announced_ok: "\<forall>a \<in> set demo_announced. alert_ok a"
  by (simp add: alert_ok_def in_int64_def demo_invalid_def New_event_defs Statement_defs)

lemma demo_announced_messages: "\<exists>msgs. messages_of demo_gowaves demo_announced_text demo_announced msgs"
proof -
  have "\<exists>b. jt_Marshal demo_announced_text (Alert_json demo_gowaves a) = Inr b" if "a \<in> set demo_announced" for a
    using that by (auto simp: demo_text_def)
  then have "\<exists>m. NewAlertMessageFromAlert demo_gowaves demo_announced_text (Some a) = Inr m" if "a \<in> set demo_announced" for a
    using that NewAlertMessage_of by metis
  from this [of "demo_announced ! 0"] this [of "demo_announced ! 1"] show ?thesis by (auto simp: messages_of_def)
qed

abbreviation demo_telegram_bot :: "unit TelegramBot" where
  "demo_telegram_bot \<equiv> NewTelegramBotEnvironment 7 False ''W''"

theorem fixed_reports_reply_witness:
  "\<exists>msgs evs s. tg_run demo_gowaves demo_announced_text demo_templates demo_telegram msgs
      (handlers_start demo_telegram_bot 100) evs s \<and> in_turn msgs evs \<and>
    (\<exists>i m m' r. (0, m', Inr i) \<in> set (h_log s) \<and> (1, m, r) \<in> set (h_log s) \<and> se_ReplyTo m = Some i)"
proof -
  let ?run = "tg_run demo_gowaves demo_announced_text demo_templates demo_telegram"
  let ?s0 = "handlers_start demo_telegram_bot 100 :: (unit TelegramBot, int, int sent \<times> (error + int)) handlers"
  from demo_analyzer_run obtain s' where run: "Start demo_gowaves demo_db (fst demo_new) (snd demo_new)
      [(demo_round, NewNodesGatheringComplete [''a''] 1), (demo_round, NewNodesGatheringComplete [''a''] 2)]
      demo_announced s'" by blast
  from demo_announced_messages obtain msgs where msgs: "messages_of demo_gowaves demo_announced_text demo_announced msgs" by blast
  have able: "tg_able demo_gowaves demo_announced_text demo_templates (tg_after demo_gowaves demo_telegram_bot a i)"
    "tg_able demo_gowaves demo_announced_text demo_templates demo_telegram_bot" for a i
    using demo_gowaves_ok demo_text_faithful demo_templates_work
    by (simp_all add: tg_able_def tg_after_def NewTelegramBotEnvironment_def split: Alert.split)
  note handles = tg_handles [where tm = demo_templates, OF _ demo_sending_works msgs demo_announced_ok]
  from handles [where s = ?s0 and n = 0] able(2) obtain es1 w1 m1 i1 where
    1: "?run msgs ?s0 (Began 0 # es1 @ [Acted 0 (Some (Inr [])) None]) (?s0\<lparr>h_self := tg_after demo_gowaves demo_telegram_bot (demo_announced ! 0) i1,
        h_world := w1, h_status := (h_status ?s0)(0 := Ended), h_log := [(0, m1, Inr i1)]\<rparr>)"
      "\<forall>ev \<in> set es1. \<exists>p. ev = Acted 0 (Some (Inr [])) p" by (auto simp: handlers_start_def simp del: fun_upd_apply)
  let ?s1 = "?s0\<lparr>h_self := tg_after demo_gowaves demo_telegram_bot (demo_announced ! 0) i1,
        h_world := w1, h_status := (h_status ?s0)(0 := Ended), h_log := [(0, m1, Inr i1)]\<rparr>"
  have st: "1 < length demo_announced" "h_status ?s1 1 = Waiting"
    "\<forall>k < 1. am_alertType (msgs ! k) = am_alertType (msgs ! 1) \<longrightarrow> h_status ?s1 k = Ended"
    by (simp_all add: handlers_start_def)
  from handles [where s = ?s1 and n = 1, OF _ st] able(1) obtain es2 s2 where
    2: "?run msgs ?s1 (Began 1 # es2 @ [Acted 1 (Some (Inr [])) None]) s2"
      "\<forall>ev \<in> set es2. \<exists>p. ev = Acted 1 (Some (Inr [])) p" by (auto simp del: fun_upd_apply)
  let ?evs = "(Began 0 # es1 @ [Acted 0 (Some (Inr [])) None]) @ Began 1 # es2 @ [Acted 1 (Some (Inr [])) None]"
  note all = handlers_run_append [OF 2(1) 1(1)]
  have turn: "in_turn msgs ?evs"
  proof (rule in_turn_handled)
    have "in_turn msgs ([] @ Began 0 # es1 @ [Acted 0 (Some (Inr [])) None])"
      by (rule in_turn_handled) (use 1(2) in \<open>auto simp: in_turn_def\<close>)
    then show "in_turn msgs (Began 0 # es1 @ [Acted 0 (Some (Inr [])) None])" by simp
  qed (use 2(2) in auto)
  have "\<forall>tg. Outside tg \<notin> set ?evs" using 1(2) 2(2) by auto
  with fixed_reports_reply [OF run msgs all] turn demo_gowaves_ok demo_text_faithful demo_templates_work demo_announced_ok
  have "\<forall>n ts a answer. n < length demo_announced \<and> demo_announced ! n = A_Fixed ts a \<and> Acted n answer None \<in> set ?evs \<longrightarrow>
      (\<exists>k i m m' r. k < n \<and> (k, m', Inr i) \<in> set (h_log s2) \<and> (n, m, r) \<in> set (h_log s2) \<and> se_ReplyTo m = Some i)" by blast
  from this [rule_format, of 1 2 "A_InvalidHeight (Event_Statement demo_invalid)" "Some (Inr [])"]
  have "\<exists>i m m' r. (0, m', Inr i) \<in> set (h_log s2) \<and> (1, m, r) \<in> set (h_log s2) \<and> se_ReplyTo m = Some i" by auto
  with all turn show ?thesis by blast
qed

end
