(* ===== verification/BotStatus.thy ===== *)
theory BotStatus
  imports BotEnv
begin

text \<open>
  The subscriptions of the Telegram bot against those that NATS keeps, and the meaning of the
  status texts.
\<close>

section \<open>Subscriptions\<close>

datatype sub_op = SubAll "AlertType list" | SubOne AlertType | UnsubOne AlertType

fun sub_step :: "('n, 'sub) nats \<Rightarrow> sub_op \<Rightarrow> 'sub TelegramBot \<times> 'n \<Rightarrow> 'sub TelegramBot \<times> 'n" where
  "sub_step nc (SubAll ks) (tg, n) = (case tg_SubscribeToAllAlerts nc ks tg n of (tg', n', err) \<Rightarrow> (tg', n'))"
| "sub_step nc (SubOne t) (tg, n) = (case SubscribeToAlert nc tg n t of (tg', n', err) \<Rightarrow> (tg', n'))"
| "sub_step nc (UnsubOne t) (tg, n) = (case UnsubscribeFromAlert nc tg n t of (tg', n', err) \<Rightarrow> (tg', n'))"

text \<open>
  What NATS documents: \<open>live n\<close> are the subscriptions with their topics; a new one is added, one
  given up is removed, and nothing changes on an error.
\<close>

definition nats_ok :: "('n, 'sub) nats \<Rightarrow> ('n \<Rightarrow> ('sub \<times> string) set) \<Rightarrow> bool" where
  "nats_ok nc live \<longleftrightarrow>
     (\<forall>n topic n' s. nc_Subscribe nc n topic = (n', Inr s) \<longrightarrow> live n' = insert (s, topic) (live n) \<and> s \<notin> fst ` live n) \<and>
     (\<forall>n topic n' e. nc_Subscribe nc n topic = (n', Inl e) \<longrightarrow> live n' = live n) \<and>
     (\<forall>n s n'. nc_Unsubscribe nc n s = (n', None) \<longrightarrow> live n' = {x \<in> live n. fst x \<noteq> s}) \<and>
     (\<forall>n s n' e. nc_Unsubscribe nc n s = (n', Some e) \<longrightarrow> live n' = live n)"

lemma nats_okD:
  assumes "nats_ok nc live"
  shows "nc_Subscribe nc n topic = (n', Inr s) \<Longrightarrow> live n' = insert (s, topic) (live n) \<and> s \<notin> fst ` live n"
    "nc_Subscribe nc n topic = (n', Inl e) \<Longrightarrow> live n' = live n"
    "nc_Unsubscribe nc n s = (n', None) \<Longrightarrow> live n' = {x \<in> live n. fst x \<noteq> s}"
    "nc_Unsubscribe nc n s = (n', Some err) \<Longrightarrow> live n' = live n"
  by (simp_all add: assms [unfolded nats_ok_def, THEN conjunct1, rule_format]
      assms [unfolded nats_ok_def, THEN conjunct2, THEN conjunct1, rule_format]
      assms [unfolded nats_ok_def, THEN conjunct2, THEN conjunct2, THEN conjunct1, rule_format]
      assms [unfolded nats_ok_def, THEN conjunct2, THEN conjunct2, THEN conjunct2, rule_format])

text \<open>The invariant: the bot's map is the set of live subscriptions, under the right names.\<close>

definition subs_live :: "string \<Rightarrow> 'sub subscriptions \<Rightarrow> ('sub \<times> string) set" where
  "subs_live scheme subs = {(su_subscription e, PubSubMsgTopic scheme t) | t e. subs t = Some e}"

definition subs_ok :: "('n \<Rightarrow> ('sub \<times> string) set) \<Rightarrow> string \<Rightarrow> 'sub TelegramBot \<times> 'n \<Rightarrow> bool" where
  "subs_ok live scheme s \<longleftrightarrow> (case s of (tg, n) \<Rightarrow>
     tg_scheme tg = scheme \<and> live n = subs_live scheme (tg_subscriptions tg) \<and>
     (\<forall>t e. tg_subscriptions tg t = Some e \<longrightarrow> AlertType_AlertName t = Some (su_alertName e)) \<and>
     (\<forall>t t' e e'. tg_subscriptions tg t = Some e \<longrightarrow> tg_subscriptions tg t' = Some e' \<longrightarrow>
        su_subscription e = su_subscription e' \<longrightarrow> t = t'))"

lemma subs_live_upd:
  assumes "m t = None"
  shows "subs_live scheme (m(t \<mapsto> e)) = insert (su_subscription e, PubSubMsgTopic scheme t) (subs_live scheme m)"
proof -
  have "m u = Some x \<Longrightarrow> u \<noteq> t" for u x using assms by auto
  then show ?thesis unfolding subs_live_def by (intro set_eqI) (simp, metis option.inject)
qed

lemma subs_live_del:
  assumes "m t = Some e" "\<And>u x. m u = Some x \<Longrightarrow> su_subscription x = su_subscription e \<Longrightarrow> u = t"
  shows "{x \<in> subs_live scheme m. fst x \<noteq> su_subscription e} = subs_live scheme (m(t := None))"
proof (intro set_eqI iffI)
  fix x assume "x \<in> {x \<in> subs_live scheme m. fst x \<noteq> su_subscription e}"
  then obtain u y where x: "x = (su_subscription y, PubSubMsgTopic scheme u)" "m u = Some y"
      "su_subscription y \<noteq> su_subscription e"
    unfolding subs_live_def by auto
  with assms(1) have "(m(t := None)) u = Some y" by auto
  with x(1) show "x \<in> subs_live scheme (m(t := None))" unfolding subs_live_def by blast
next
  fix x assume "x \<in> subs_live scheme (m(t := None))"
  then obtain u y where x: "x = (su_subscription y, PubSubMsgTopic scheme u)" "(m(t := None)) u = Some y"
    unfolding subs_live_def by auto
  then have u: "m u = Some y" "u \<noteq> t" by (simp_all split: if_splits)
  with assms(2) have "su_subscription y \<noteq> su_subscription e" by blast
  with x(1) u(1) show "x \<in> {x \<in> subs_live scheme m. fst x \<noteq> su_subscription e}" unfolding subs_live_def by auto
qed

lemma subs_ok_subscribe:
  assumes "nats_ok nc live" "subs_ok live scheme (tg, n)" "AlertType_AlertName t = Some name"
    and "tg_subscribe nc tg n t name = (tg', n', err)"
  shows "subs_ok live scheme (tg', n')"
proof (cases "tg_IsAlreadySubscribed tg t")
  case True
  with assms(2,4) show ?thesis by (simp add: tg_subscribe_def)
next
  case False
  then have free: "tg_subscriptions tg t = None"
    by (simp add: tg_IsAlreadySubscribed_def subscriptions_Read_def)
  from assms(2) have ok: "tg_scheme tg = scheme" "live n = subs_live scheme (tg_subscriptions tg)"
    by (simp_all add: subs_ok_def)
  obtain n1 r where s: "nc_Subscribe nc n (PubSubMsgTopic scheme t) = (n1, r)" by fastforce
  show ?thesis
  proof (cases r)
    case (Inl e)
    with assms(2,4) False s ok(1) nats_okD(2) [OF assms(1)] show ?thesis
      by (auto simp: tg_subscribe_def subs_ok_def)
  next
    case (Inr sub)
    from nats_okD(1) [OF assms(1) s [unfolded Inr]]
    have live: "live n1 = insert (sub, PubSubMsgTopic scheme t) (live n)" and new: "sub \<notin> fst ` live n" by auto
    have tg': "tg' = tg\<lparr>tg_subscriptions := subscriptions_Add (tg_subscriptions tg) t name sub\<rparr>" "n' = n1"
      using assms(4) False s ok(1) by (simp_all add: tg_subscribe_def Inr)
    have "live n1 = subs_live scheme (subscriptions_Add (tg_subscriptions tg) t name sub)"
      unfolding live ok(2) using subs_live_upd [of "tg_subscriptions tg" t] free by (simp add: subscriptions_Add_def)
    moreover have "sub \<noteq> su_subscription e" if "tg_subscriptions tg u = Some e" for u e
      using new that unfolding ok(2) subs_live_def by force
    ultimately show ?thesis
      using assms(2,3) unfolding tg' by (auto simp: subs_ok_def subscriptions_Add_def split: if_splits)
  qed
qed

lemma subs_ok_all:
  assumes "nats_ok nc live" "subs_ok live scheme (tg, n)" "set ks \<subseteq> dom GetAllAlertTypesAndNames"
    and "tg_SubscribeToAllAlerts nc ks tg n = (tg', n', err)"
  shows "subs_ok live scheme (tg', n')"
  using assms(2-4)
proof (induction ks arbitrary: tg n)
  case Nil
  then show ?case by simp
next
  case (Cons t ks)
  then obtain name where name: "AlertType_AlertName t = Some name" "map_get [] GetAllAlertTypesAndNames t = name"
    by (auto simp: GetAllAlertTypesAndNames_eq map_get_def)
  obtain tg1 n1 e where one: "tg_subscribe nc tg n t name = (tg1, n1, e)" by (metis surj_pair)
  from subs_ok_subscribe [OF assms(1) Cons.prems(1) name(1) one] have "subs_ok live scheme (tg1, n1)" .
  with Cons.IH [of tg1 n1] Cons.prems(2,3) one name(2) show ?case by (cases e) auto
qed

lemma subs_ok_unsubscribe:
  assumes "nats_ok nc live" "subs_ok live scheme (tg, n)" "UnsubscribeFromAlert nc tg n t = (tg', n', err)"
  shows "subs_ok live scheme (tg', n')"
proof (cases "AlertType_AlertName t = None \<or> tg_subscriptions tg t = None")
  case True
  with assms(2,3) show ?thesis
    by (auto simp: UnsubscribeFromAlert_def tg_IsAlreadySubscribed_def subscriptions_Read_def split: option.splits)
next
  case False
  then obtain e name where e: "tg_subscriptions tg t = Some e" "AlertType_AlertName t = Some name" by auto
  obtain n1 r where u: "nc_Unsubscribe nc n (su_subscription e) = (n1, r)" by fastforce
  show ?thesis
  proof (cases r)
    case (Some err')
    with assms(2,3) e u nats_okD(4) [OF assms(1)] show ?thesis
      by (auto simp: UnsubscribeFromAlert_def tg_IsAlreadySubscribed_def subscriptions_Read_def subs_ok_def)
  next
    case None
    from assms(2) have ok: "live n = subs_live scheme (tg_subscriptions tg)"
      and inj: "\<And>t' e'. tg_subscriptions tg t' = Some e' \<Longrightarrow> su_subscription e' = su_subscription e \<Longrightarrow> t' = t"
      using e(1) unfolding subs_ok_def by fastforce+
    have tg': "tg' = tg\<lparr>tg_subscriptions := subscriptions_Delete (tg_subscriptions tg) t\<rparr>" "n' = n1"
      using assms(3) e u None
      by (simp_all add: UnsubscribeFromAlert_def tg_IsAlreadySubscribed_def subscriptions_Read_def)
    have "live n1 = {x \<in> live n. fst x \<noteq> su_subscription e}" using nats_okD(3) [OF assms(1)] u None by simp
    also have "\<dots> = subs_live scheme (subscriptions_Delete (tg_subscriptions tg) t)"
      unfolding ok subscriptions_Delete_def by (rule subs_live_del) (fact e(1), rule inj)
    finally show ?thesis
      using assms(2) unfolding tg' by (auto simp: subs_ok_def subscriptions_Delete_def split: if_splits)
  qed
qed

lemma subs_ok_step:
  assumes "nats_ok nc live" "subs_ok live scheme s" "\<forall>ks. op = SubAll ks \<longrightarrow> iter_order GetAllAlertTypesAndNames ks"
  shows "subs_ok live scheme (sub_step nc op s)"
proof -
  obtain tg n where s: "s = (tg, n)" by fastforce
  show ?thesis
  proof (cases op)
    case (SubAll ks)
    obtain tg' n' e where r: "tg_SubscribeToAllAlerts nc ks tg n = (tg', n', e)" by (metis surj_pair)
    from assms(3) SubAll have "set ks \<subseteq> dom GetAllAlertTypesAndNames" by (simp add: iter_order_def)
    from subs_ok_all [OF assms(1) assms(2) [unfolded s] this r] show ?thesis by (simp add: SubAll s r)
  next
    case (SubOne t)
    obtain tg' n' e where r: "SubscribeToAlert nc tg n t = (tg', n', e)" by (metis surj_pair)
    have "subs_ok live scheme (tg', n')"
      using r subs_ok_subscribe [OF assms(1) assms(2) [unfolded s]] assms(2) s
      by (auto simp: SubscribeToAlert_def split: option.splits)
    then show ?thesis by (simp add: SubOne s r)
  next
    case (UnsubOne t)
    obtain tg' n' e where r: "UnsubscribeFromAlert nc tg n t = (tg', n', e)" by (metis surj_pair)
    from subs_ok_unsubscribe [OF assms(1) assms(2) [unfolded s] r] show ?thesis by (simp add: UnsubOne s r)
  qed
qed

lemma topic_inj:
  assumes "PubSubMsgTopic scheme t = PubSubMsgTopic scheme t'" "AlertType_AlertName t = Some a" "AlertType_AlertName t' = Some a'"
  shows "t = t'"
proof -
  have "a = a'" using assms by (simp add: PubSubMsgTopic_def)
  with assms(2,3) show ?thesis by (simp add: AlertType_name_iff)
qed

text \<open>
  C26: The subscriptions of the bot are those of NATS. After any sequence of subscribing to all
  alerts, to one, and unsubscribing, with failures of NATS in between, the bot lists an alert
  type as subscribed exactly if the type exists and NATS delivers its topic to the bot, and NATS
  keeps no other subscription for it.
\<close>

theorem subscriptions_match_nats:
  assumes "nats_ok nc live" "live n = {}"
    and "\<forall>ks. SubAll ks \<in> set ops \<longrightarrow> iter_order GetAllAlertTypesAndNames ks"
    and "foldl (\<lambda>s op. sub_step nc op s) (NewTelegramBotEnvironment chatID mute scheme, n) ops = (tg', n')"
  shows "(\<forall>t. tg_IsAlreadySubscribed tg' t \<longleftrightarrow>
      AlertType_AlertName t \<noteq> None \<and> (\<exists>s. (s, PubSubMsgTopic scheme t) \<in> live n')) \<and>
    live n' = {(su_subscription e, PubSubMsgTopic scheme t) | t e. tg_subscriptions tg' t = Some e}"
proof -
  have "subs_ok live scheme (foldl (\<lambda>s op. sub_step nc op s) s ops)" if "subs_ok live scheme s" for s
    using that assms(3)
  proof (induction ops arbitrary: s)
    case (Cons op ops)
    from subs_ok_step [OF assms(1) Cons.prems(1)] Cons.prems(2) have "subs_ok live scheme (sub_step nc op s)" by simp
    with Cons show ?case by simp
  qed simp
  moreover have "subs_ok live scheme (NewTelegramBotEnvironment chatID mute scheme, n)"
    using assms(2) by (simp add: subs_ok_def NewTelegramBotEnvironment_def subs_live_def)
  ultimately have ok: "subs_ok live scheme (tg', n')" using assms(4) by metis
  then have live: "live n' = subs_live scheme (tg_subscriptions tg')"
    and name: "\<And>t e. tg_subscriptions tg' t = Some e \<Longrightarrow> AlertType_AlertName t = Some (su_alertName e)"
    by (auto simp: subs_ok_def)
  have "tg_IsAlreadySubscribed tg' t \<longleftrightarrow> AlertType_AlertName t \<noteq> None \<and> (\<exists>s. (s, PubSubMsgTopic scheme t) \<in> live n')" for t
  proof
    assume "tg_IsAlreadySubscribed tg' t"
    then obtain e where "tg_subscriptions tg' t = Some e"
      by (auto simp: tg_IsAlreadySubscribed_def subscriptions_Read_def)
    with name show "AlertType_AlertName t \<noteq> None \<and> (\<exists>s. (s, PubSubMsgTopic scheme t) \<in> live n')"
      by (auto simp: live subs_live_def)
  next
    assume r: "AlertType_AlertName t \<noteq> None \<and> (\<exists>s. (s, PubSubMsgTopic scheme t) \<in> live n')"
    then obtain u e where u: "tg_subscriptions tg' u = Some e" "PubSubMsgTopic scheme u = PubSubMsgTopic scheme t"
      by (auto simp: live subs_live_def)
    from r obtain a where "AlertType_AlertName t = Some a" by blast
    from topic_inj [OF u(2) name [OF u(1)] this] u(1) show "tg_IsAlreadySubscribed tg' t"
      by (simp add: tg_IsAlreadySubscribed_def subscriptions_Read_def)
  qed
  with live show ?thesis by (simp add: subs_live_def)
qed

text \<open>A NATS connection that numbers its subscriptions, for the witness.\<close>

definition demo_nats :: "(nat \<times> (nat \<times> string) set, nat) nats" where
  "demo_nats =
     \<lparr>nc_Subscribe = (\<lambda>(k, l) topic. ((Suc k, insert (k, topic) {x \<in> l. fst x < k}), Inr k)),
      nc_Unsubscribe = (\<lambda>(k, l) s. ((k, {x \<in> l. fst x \<noteq> s}), None))\<rparr>"

definition demo_live :: "nat \<times> (nat \<times> string) set \<Rightarrow> (nat \<times> string) set" where
  "demo_live n = {x \<in> snd n. fst x < fst n}"

lemma demo_nats_ok: "nats_ok demo_nats demo_live"
  by (auto simp: nats_ok_def demo_nats_def demo_live_def)

theorem subscriptions_match_nats_witness:
  "\<exists>tg' n'. foldl (\<lambda>s op. sub_step demo_nats op s) (NewTelegramBotEnvironment 7 False ''W'', (0, {}))
      [SubOne SimpleAlertType, SubOne L2StuckAlertType, UnsubOne SimpleAlertType] = (tg', n') \<and>
    \<not> tg_IsAlreadySubscribed tg' SimpleAlertType \<and> (\<exists>s. (s, ''alerts_W_L2StuckAlert'') \<in> demo_live n')"
proof -
  obtain tg' n' where r: "foldl (\<lambda>s op. sub_step demo_nats op s) (NewTelegramBotEnvironment 7 False ''W'', (0, {}))
      [SubOne SimpleAlertType, SubOne L2StuckAlertType, UnsubOne SimpleAlertType] = (tg', n')" by (metis surj_pair)
  have t: "PubSubMsgTopic ''W'' L2StuckAlertType = ''alerts_W_L2StuckAlert''"
    by (simp add: PubSubMsgTopic_def pubSubTopicPrefix_def AlertType_AlertName_def AlertType_defs L2StuckAlertName_def)
  have "(\<forall>t. tg_IsAlreadySubscribed tg' t \<longleftrightarrow>
      AlertType_AlertName t \<noteq> None \<and> (\<exists>s. (s, PubSubMsgTopic ''W'' t) \<in> demo_live n')) \<and>
    demo_live n' = {(su_subscription e, PubSubMsgTopic ''W'' t) | t e. tg_subscriptions tg' t = Some e}"
    by (rule subscriptions_match_nats [OF demo_nats_ok _ _ r]) (simp_all add: demo_live_def)
  moreover have "\<not> tg_IsAlreadySubscribed tg' SimpleAlertType \<and> tg_IsAlreadySubscribed tg' L2StuckAlertType"
    using r by (auto simp: SubscribeToAlert_def UnsubscribeFromAlert_def AlertType_AlertName_def AlertType_defs
        tg_subscribe_def tg_IsAlreadySubscribed_def subscriptions_Read_def subscriptions_Add_def subscriptions_Delete_def
        demo_nats_def NewTelegramBotEnvironment_def)
  ultimately show ?thesis using r t by metis
qed

section \<open>The status texts\<close>

lemma hashesEqual_loop_iff:
  "hashesEqual_loop h b ns \<longleftrightarrow> b \<and> (\<forall>n \<in> set ns. ns_SumHash n = h)"
  by (induction ns arbitrary: h b) auto

lemma areStateHashesEqual_iff: "areStateHashesEqual ns \<longleftrightarrow> (\<forall>n \<in> set ns. \<forall>m \<in> set ns. ns_SumHash n = ns_SumHash m)"
  by (cases ns) (auto simp: areStateHashesEqual_def hashesEqual_loop_iff)

lemma sortNodesStatuses_simps:
  "sortNodesStatuses ns = [] \<longleftrightarrow> ns = []" "length (sortNodesStatuses ns) = length ns"
  using length_sort [of ns_URL ns] by (auto simp: sortNodesStatuses_def simp del: length_sort)

lemma nodes_by_status_eq:
  assumes "nodes_by_status gw sts un ok h = Inr (un', ok', h')"
  shows "un' = un @ map (\<lambda>st. urlLine (pn_URL st)) (filter (\<lambda>st. pn_Status st \<noteq> OK) sts) \<and>
    length ok' = length ok + length (filter (\<lambda>st. pn_Status st = OK) sts) \<and>
    ns_SumHash ` set ok' = ns_SumHash ` set ok \<union>
      {Digest_Hex gw (sh_SumHash sh) | st sh. st \<in> set sts \<and> pn_Status st = OK \<and> pn_StateHash st = Some sh}"
  using assms
proof (induction gw sts un ok h arbitrary: un' ok' h' rule: nodes_by_status.induct)
  case (2 gw st sts un ok h)
  show ?case
  proof (cases "pn_Status st = OK")
    case False
    with 2 show ?thesis by auto
  next
    case True
    with "2.prems" obtain sh where sh: "pn_StateHash st = Some sh" by (cases "pn_StateHash st") auto
    let ?line = "\<lparr>ns_URL = pn_URL st, ns_SumHash = Digest_Hex gw (sh_SumHash sh), ns_Status = pn_Status st,
      ns_Height = FormatUint (pn_Height st), ns_BlockID = BlockID_String gw (sh_BlockID sh)\<rparr>"
    have "nodes_by_status gw sts un (ok @ [?line]) (FormatUint (pn_Height st)) = Inr (un', ok', h')"
      using "2.prems" by (simp add: True sh Let_def)
    from "2.IH"(2) [OF _ sh refl refl this] True
    have IH: "un' = un @ map (\<lambda>st. urlLine (pn_URL st)) (filter (\<lambda>st. pn_Status st \<noteq> OK) sts)"
      "length ok' = Suc (length ok) + length (filter (\<lambda>st. pn_Status st = OK) sts)"
      "ns_SumHash ` set ok' = ns_SumHash ` set (ok @ [?line]) \<union>
        {Digest_Hex gw (sh_SumHash sh) | st sh. st \<in> set sts \<and> pn_Status st = OK \<and> pn_StateHash st = Some sh}"
      by simp_all
    have "{Digest_Hex gw (sh_SumHash sh) | s sh. s \<in> set (st # sts) \<and> pn_Status s = OK \<and> pn_StateHash s = Some sh} =
      insert (Digest_Hex gw (sh_SumHash sh))
        {Digest_Hex gw (sh_SumHash sh) | st sh. st \<in> set sts \<and> pn_Status st = OK \<and> pn_StateHash st = Some sh}"
      using True sh by auto
    with IH True show ?thesis by simp
  qed
qed auto

lemma digests_map:
  assumes "\<And>st. pn_Status (f st) = pn_Status st" "\<And>st. pn_StateHash (f st) = pn_StateHash st"
  shows "{g sh | st sh. st \<in> set (map f sts) \<and> pn_Status st = OK \<and> pn_StateHash st = Some sh} =
    {g sh | st sh. st \<in> set sts \<and> pn_Status st = OK \<and> pn_StateHash st = Some sh}"
proof (intro set_eqI iffI)
  fix x assume "x \<in> {g sh | st sh. st \<in> set (map f sts) \<and> pn_Status st = OK \<and> pn_StateHash st = Some sh}"
  then obtain st sh where "x = g sh" "st \<in> set sts" "pn_Status (f st) = OK" "pn_StateHash (f st) = Some sh" by auto
  with assms show "x \<in> {g sh | st sh. st \<in> set sts \<and> pn_Status st = OK \<and> pn_StateHash st = Some sh}" by auto
next
  fix x assume "x \<in> {g sh | st sh. st \<in> set sts \<and> pn_Status st = OK \<and> pn_StateHash st = Some sh}"
  then obtain st sh where "x = g sh" "f st \<in> set (map f sts)" "pn_Status (f st) = OK" "pn_StateHash (f st) = Some sh"
    using assms by auto
  then show "x \<in> {g sh | st sh. st \<in> set (map f sts) \<and> pn_Status st = OK \<and> pn_StateHash st = Some sh}" by blast
qed

lemma hashes_agree:
  assumes "\<forall>st \<in> S. P st"
  shows "(\<forall>x \<in> {g sh | st sh. st \<in> S \<and> P st \<and> h st = Some sh}. \<forall>y \<in> {g sh | st sh. st \<in> S \<and> P st \<and> h st = Some sh}. x = y) \<longleftrightarrow>
    (\<forall>s \<in> S. \<forall>t \<in> S. \<forall>sh sh'. h s = Some sh \<longrightarrow> h t = Some sh' \<longrightarrow> g sh = g sh')" (is "?l = ?r")
proof
  assume l: ?l
  show ?r
  proof (intro ballI allI impI)
    fix s t sh sh' assume "s \<in> S" "t \<in> S" "h s = Some sh" "h t = Some sh'"
    with assms have "g sh \<in> {g sh | st sh. st \<in> S \<and> P st \<and> h st = Some sh}" "g sh' \<in> {g sh | st sh. st \<in> S \<and> P st \<and> h st = Some sh}"
      by blast+
    with l show "g sh = g sh'" by blast
  qed
next
  assume r: ?r
  show ?l
  proof (intro ballI)
    fix x y assume "x \<in> {g sh | st sh. st \<in> S \<and> P st \<and> h st = Some sh}" "y \<in> {g sh | st sh. st \<in> S \<and> P st \<and> h st = Some sh}"
    then obtain s sh t sh' where "x = g sh" "s \<in> S" "h s = Some sh" "y = g sh'" "t \<in> S" "h t = Some sh'" by auto
    with r show "x = y" by metis
  qed
qed

lemma all_ok_hashes_agree:
  assumes "nodes_by_status gw (map (\<lambda>st. st\<lparr>pn_URL := f st\<rparr>) sts) [] [] [] = Inr (un, ok, h)" "\<forall>st \<in> set sts. pn_Status st = OK"
  shows "areStateHashesEqual (sortNodesStatuses ok) \<longleftrightarrow>
    (\<forall>s \<in> set sts. \<forall>t \<in> set sts. \<forall>sh sh'. pn_StateHash s = Some sh \<longrightarrow> pn_StateHash t = Some sh' \<longrightarrow>
      Digest_Hex gw (sh_SumHash sh) = Digest_Hex gw (sh_SumHash sh'))"
proof -
  have hashes: "areStateHashesEqual (sortNodesStatuses ok) \<longleftrightarrow> (\<forall>x \<in> ns_SumHash ` set ok. \<forall>y \<in> ns_SumHash ` set ok. x = y)"
    by (auto simp: areStateHashesEqual_iff sortNodesStatuses_def)
  have "{Digest_Hex gw (sh_SumHash sh) | st sh. st \<in> set (map (\<lambda>st. st\<lparr>pn_URL := f st\<rparr>) sts) \<and> pn_Status st = OK \<and>
      pn_StateHash st = Some sh} =
    {Digest_Hex gw (sh_SumHash sh) | st sh. st \<in> set sts \<and> pn_Status st = OK \<and> pn_StateHash st = Some sh}" (is "_ = ?hs")
    by (rule digests_map) simp_all
  with nodes_by_status_eq [OF assms(1)] have "ns_SumHash ` set ok = ?hs" by simp
  then show ?thesis
    unfolding hashes
    by (simp only: hashes_agree [where g = "\<lambda>sh. Digest_Hex gw (sh_SumHash sh)" and P = "\<lambda>st. pn_Status st = OK"
        and h = pn_StateHash, OF assms(2)])
qed

text \<open>
  C27: The status condition means what it says. For an answer without an error message, the
  condition says that all nodes are fine exactly if there are statements, every one has the status
  \<open>OK\<close>, and the state hashes of all of them print alike; then it counts the statements.
\<close>

theorem all_ok_status:
  assumes "HandleNodesStatus gw tm resp ext nodes = Inr (msg, cond)" "nr_ErrMessage resp = []"
  shows "(sc_AllNodesAreOk cond \<longleftrightarrow> nr_NodesStatements resp \<noteq> [] \<and>
      (\<forall>st \<in> set (nr_NodesStatements resp). pn_Status st = OK) \<and>
      (\<forall>s \<in> set (nr_NodesStatements resp). \<forall>t \<in> set (nr_NodesStatements resp). \<forall>sh sh'.
        pn_StateHash s = Some sh \<longrightarrow> pn_StateHash t = Some sh' \<longrightarrow>
        Digest_Hex gw (sh_SumHash sh) = Digest_Hex gw (sh_SumHash sh'))) \<and>
    (sc_AllNodesAreOk cond \<longrightarrow> sc_NodesNumber' cond = int (length (nr_NodesStatements resp)))"
proof -
  let ?f = "\<lambda>st. st\<lparr>pn_URL := replaceNodeWithAlias (pn_URL st) (nodeURLToAlias nodes)\<rparr>"
  let ?sts = "map ?f (nr_NodesStatements resp)"
  from assms obtain un ok h where l: "nodes_by_status gw ?sts [] [] [] = Inr (un, ok, h)"
    by (auto simp: HandleNodesStatus_def Let_def sortedNodesByStatusWithHeight_def split: sum.splits)
  have cond: "sc_AllNodesAreOk cond \<longleftrightarrow> un = [] \<and> ok \<noteq> [] \<and> areStateHashesEqual (sortNodesStatuses ok)"
    "sc_AllNodesAreOk cond \<Longrightarrow> sc_NodesNumber' cond = int (length ok)"
    using assms l by (auto simp: HandleNodesStatus_def Let_def sortedNodesByStatusWithHeight_def sortNodesStatuses_simps
        noCondition_def split: sum.splits if_splits)
  note e = nodes_by_status_eq [OF l]
  have un: "un = [] \<longleftrightarrow> (\<forall>st \<in> set (nr_NodesStatements resp). pn_Status st = OK)"
    using e by (auto simp: filter_empty_conv)
  have len: "length ok = length (filter (\<lambda>st. pn_Status st = OK) (nr_NodesStatements resp))"
    using e by (simp add: filter_map comp_def)
  show ?thesis
  proof (cases "un = []")
    case True
    with un have all: "\<forall>st \<in> set (nr_NodesStatements resp). pn_Status st = OK" by simp
    with len have len': "length ok = length (nr_NodesStatements resp)" by (simp add: filter_id_conv)
    then have "ok \<noteq> [] \<longleftrightarrow> nr_NodesStatements resp \<noteq> []" by auto
    with cond(1) True all_ok_hashes_agree [OF l all] have "sc_AllNodesAreOk cond \<longleftrightarrow> nr_NodesStatements resp \<noteq> [] \<and>
      (\<forall>s \<in> set (nr_NodesStatements resp). \<forall>t \<in> set (nr_NodesStatements resp). \<forall>sh sh'.
        pn_StateHash s = Some sh \<longrightarrow> pn_StateHash t = Some sh' \<longrightarrow>
        Digest_Hex gw (sh_SumHash sh) = Digest_Hex gw (sh_SumHash sh'))" by argo
    then show ?thesis using all cond(2) len' by metis
  qed (use cond un in auto)
qed

theorem all_ok_status_witness:
  "\<exists>msg cond. HandleNodesStatus demo_gowaves \<lparr>tm_html = (\<lambda>name data. Inr name), tm_text = (\<lambda>name data. Inr name)\<rparr>
      \<lparr>nr_NodesStatements = [zeroPairStatement\<lparr>pn_URL := ''u'', pn_Status := OK,
          pn_StateHash := Some \<lparr>sh_BlockID = ''b'', sh_SumHash = ''s''\<rparr>\<rparr>], nr_ErrMessage = []\<rparr> HTML [] = Inr (msg, cond) \<and>
    sc_AllNodesAreOk cond \<and> sc_NodesNumber' cond = 1"
proof -
  let ?tm = "\<lparr>tm_html = (\<lambda>name data. Inr name), tm_text = (\<lambda>name data. Inr name)\<rparr>"
  let ?resp = "\<lparr>nr_NodesStatements = [zeroPairStatement\<lparr>pn_URL := ''u'', pn_Status := OK,
          pn_StateHash := Some \<lparr>sh_BlockID = ''b'', sh_SumHash = ''s''\<rparr>\<rparr>], nr_ErrMessage = []\<rparr>"
  have "\<exists>msg cond. HandleNodesStatus demo_gowaves ?tm ?resp HTML [] = Inr (msg, cond)"
    by (simp add: HandleNodesStatus_def sortedNodesByStatusWithHeight_def unavailable_part_def executeTemplate_def HTML_def
        sortNodesStatuses_def areStateHashesEqual_def zeroPairStatement_def replaceNodeWithAlias_def nodeURLToAlias_def Let_def)
  then obtain msg cond where r: "HandleNodesStatus demo_gowaves ?tm ?resp HTML [] = Inr (msg, cond)" by blast
  from all_ok_status [OF r] r show ?thesis by (simp add: zeroPairStatement_def)
qed

end
