(* ===== verification/LogAttrs.thy ===== *)
theory LogAttrs
  imports GoLib
begin

text \<open>
  The values of log attributes, \<open>pkg/tools/logging/attrs/slog.go\<close>, and of the wrappers that
  \<open>pkg/api/api.go\<close> logs: bodies that come from other hosts are printed as they are if they are UTF-8,
  and in base64 or hexadecimal otherwise. \<open>unicode/utf8\<close>, \<open>encoding/base64\<close> and \<open>encoding/hex\<close> are
  written out; the attributes of gowaves (errors, type names) are left out. A decoder for each
  encoding serves as its specification.
\<close>

abbreviation byte :: "char \<Rightarrow> nat" where
  "byte c \<equiv> of_char c"

section \<open>UTF-8\<close>

text \<open>
  \<open>utf8.Valid\<close>. The first byte of a sequence tells its size and the range of its second byte;
  the others are continuation bytes. \<open>utf8_first\<close> is the tables \<open>first\<close> and \<open>acceptRanges\<close>.
\<close>

definition utf8_first :: "nat \<Rightarrow> (nat \<times> nat \<times> nat) option" where
  "utf8_first b =
     (if 0xC2 \<le> b \<and> b \<le> 0xDF then Some (2, 0x80, 0xBF)
      else if b = 0xE0 then Some (3, 0xA0, 0xBF)
      else if b = 0xED then Some (3, 0x80, 0x9F)
      else if 0xE1 \<le> b \<and> b \<le> 0xEF then Some (3, 0x80, 0xBF)
      else if b = 0xF0 then Some (4, 0x90, 0xBF)
      else if 0xF1 \<le> b \<and> b \<le> 0xF3 then Some (4, 0x80, 0xBF)
      else if b = 0xF4 then Some (4, 0x80, 0x8F)
      else None)"

definition utf8_cont :: "char \<Rightarrow> bool" where
  "utf8_cont c \<longleftrightarrow> 0x80 \<le> byte c \<and> byte c \<le> 0xBF"

function utf8_Valid :: "bytes \<Rightarrow> bool" where
  "utf8_Valid [] = True"
| "utf8_Valid (b # p) =
     (if byte b < 0x80 then utf8_Valid p
      else case utf8_first (byte b) of
        None \<Rightarrow> False
      | Some (sz, lo, hi) \<Rightarrow>
          sz - 1 \<le> length p \<and> lo \<le> byte (p ! 0) \<and> byte (p ! 0) \<le> hi \<and>
          list_all utf8_cont (take (sz - 2) (drop 1 p)) \<and> utf8_Valid (drop (sz - 1) p))"
  by pat_completeness auto
termination
  by (relation "measure length") auto

text \<open>The specification: a text is valid if it is the encoding of a list of scalar values.\<close>

definition scalar :: "nat \<Rightarrow> bool" where
  "scalar r \<longleftrightarrow> r < 0xD800 \<or> 0xE000 \<le> r \<and> r \<le> 0x10FFFF"

definition utf8_encode :: "nat \<Rightarrow> bytes" where
  "utf8_encode r = map char_of
     (if r < 0x80 then [r]
      else if r < 0x800 then [0xC0 + r div 64, 0x80 + r mod 64]
      else if r < 0x10000 then [0xE0 + r div 4096, 0x80 + r div 64 mod 64, 0x80 + r mod 64]
      else [0xF0 + r div 262144, 0x80 + r div 4096 mod 64, 0x80 + r div 64 mod 64, 0x80 + r mod 64])"


lemma digit_div_mod: "z < 64 \<Longrightarrow> (q * 64 + z) div 64 = (q :: nat)" "z < 64 \<Longrightarrow> (q * 64 + z) mod 64 = (z :: nat)"
  by simp_all

lemma div_4096: "(r :: nat) div 4096 = r div 64 div 64" and div_262144: "(r :: nat) div 262144 = r div 64 div 64 div 64"
  by (simp_all flip: div_mult2_eq)

lemmas digits = digit_div_mod div_4096 div_262144

text \<open>Scalar values of two, three and four bytes, by their digits of six bits.\<close>

lemma utf8_encode_two:
  "2 \<le> x \<Longrightarrow> x < 32 \<Longrightarrow> y < 64 \<Longrightarrow> utf8_encode (x * 64 + y) = map char_of [0xC0 + x, 0x80 + y]"
  by (simp add: utf8_encode_def)

lemma utf8_encode_three:
  assumes "x < 16" "y < 64" "z < 64" "x = 0 \<longrightarrow> 32 \<le> y"
  shows "utf8_encode ((x * 64 + y) * 64 + z) = map char_of [0xE0 + x, 0x80 + y, 0x80 + z]"
proof -
  let ?r = "(x * 64 + y) * 64 + z"
  have "?r div 64 mod 64 = y" "?r mod 64 = z" "?r div 4096 = x" using assms by (simp_all only: digits)
  moreover have "0x800 \<le> ?r" "?r < 0x10000" using assms by (cases "x = 0"; simp)+
  ultimately show ?thesis using assms by (simp add: utf8_encode_def)
qed

lemma utf8_encode_four:
  assumes "x < 64" "y < 64" "z < 64" "w = 0 \<longrightarrow> 16 \<le> x"
  shows "utf8_encode (((w * 64 + x) * 64 + y) * 64 + z) = map char_of [0xF0 + w, 0x80 + x, 0x80 + y, 0x80 + z]"
proof -
  let ?r = "((w * 64 + x) * 64 + y) * 64 + z"
  have "?r div 64 mod 64 = y" "?r mod 64 = z" "?r div 4096 mod 64 = x" "?r div 262144 = w"
    using assms by (simp_all only: digits)
  moreover have "0x10000 \<le> ?r" using assms by (cases "w = 0") simp_all
  ultimately show ?thesis using assms by (simp add: utf8_encode_def)
qed

lemma scalar_three:
  "scalar ((x * 64 + y) * 64 + z) \<Longrightarrow> y < 64 \<Longrightarrow> z < 64 \<Longrightarrow> 0x800 \<le> (x * 64 + y) * 64 + z \<Longrightarrow>
   (x * 64 + y) * 64 + z < 0x10000 \<Longrightarrow> x < 16 \<and> (x = 0 \<longrightarrow> 32 \<le> y) \<and> (x = 13 \<longrightarrow> y < 32)"
  by (auto simp: scalar_def)

lemma scalar_four:
  "scalar (((w * 64 + x) * 64 + y) * 64 + z) \<Longrightarrow> x < 64 \<Longrightarrow> y < 64 \<Longrightarrow> z < 64 \<Longrightarrow>
   0x10000 \<le> ((w * 64 + x) * 64 + y) * 64 + z \<Longrightarrow> w \<le> 4 \<and> (w = 0 \<longrightarrow> 16 \<le> x) \<and> (w = 4 \<longrightarrow> x < 16)"
  by (auto simp: scalar_def)

lemma utf8_digits:
  fixes r :: nat
  assumes "scalar r"
  obtains (one) "r < 0x80"
  | (two) x y where "r = x * 64 + y" "2 \<le> x" "x < 32" "y < 64"
  | (three) x y z where "r = (x * 64 + y) * 64 + z" "x < 16" "y < 64" "z < 64" "x = 0 \<longrightarrow> 32 \<le> y" "x = 13 \<longrightarrow> y < 32"
  | (four) w x y z where "r = ((w * 64 + x) * 64 + y) * 64 + z" "w \<le> 4" "x < 64" "y < 64" "z < 64"
      "w = 0 \<longrightarrow> 16 \<le> x" "w = 4 \<longrightarrow> x < 16"
proof -
  have a: "r = r div 64 * 64 + r mod 64" and b: "r div 64 = r div 64 div 64 * 64 + r div 64 mod 64"
    and c: "r div 64 div 64 = r div 64 div 64 div 64 * 64 + r div 64 div 64 mod 64" by (rule div_mult_mod_eq [symmetric])+
  consider "r < 0x80" | "0x80 \<le> r" "r < 0x800" | "0x800 \<le> r" "r < 0x10000" | "0x10000 \<le> r" by linarith
  then show thesis
  proof cases
    case 2
    with two [OF a] show thesis by (simp add: div_less_iff_less_mult less_eq_div_iff_mult_less_eq)
  next
    case 3
    let ?x = "r div 64 div 64" and ?y = "r div 64 mod 64"
    have r: "r = (?x * 64 + ?y) * 64 + r mod 64" using a b by simp
    show thesis using scalar_three [of ?x ?y "r mod 64"] 3 assms three [OF r] r by simp
  next
    case 4
    let ?w = "r div 64 div 64 div 64" and ?x = "r div 64 div 64 mod 64" and ?y = "r div 64 mod 64"
    have r: "r = ((?w * 64 + ?x) * 64 + ?y) * 64 + r mod 64" using a b c by simp
    show thesis using scalar_four [of ?w ?x ?y "r mod 64"] 4 assms four [OF r] r by simp
  qed (rule one)
qed

lemma utf8_Valid_encode: 
  assumes "scalar r"
  shows "utf8_Valid (utf8_encode r @ p) = utf8_Valid p"
  using assms
proof (cases r rule: utf8_digits)
  case one
  then show ?thesis by (simp add: utf8_encode_def)
next
  case (two x y)
  then show ?thesis unfolding two(1) utf8_encode_two [OF two(2-4)] by (simp add: utf8_first_def)
next
  case (three x y z)
  then show ?thesis unfolding three(1) utf8_encode_three [OF three(2-5)] by (auto simp: utf8_first_def utf8_cont_def)
next
  case (four w x y z)
  then show ?thesis unfolding four(1) utf8_encode_four [OF four(3-6)] by (auto simp: utf8_first_def utf8_cont_def)
qed

text \<open>Conversely, a valid text that does not start with ASCII starts with an encoded scalar value.\<close>

lemma utf8_first_cases:
  assumes "utf8_first b = Some (sz, lo, hi)"
  obtains (two) x where "b = 0xC0 + x" "2 \<le> x" "x < 32" "sz = 2" "lo = 0x80" "hi = 0xBF"
  | (three) x where "b = 0xE0 + x" "x < 16" "sz = 3" "lo = (if x = 0 then 0xA0 else 0x80)" "hi = (if x = 13 then 0x9F else 0xBF)"
  | (four) w where "b = 0xF0 + w" "w \<le> 4" "sz = 4" "lo = (if w = 0 then 0x90 else 0x80)" "hi = (if w = 4 then 0x8F else 0xBF)"
proof -
  have "b = 0xC0 + (b - 0xC0) \<and> 2 \<le> b - 0xC0 \<and> b - 0xC0 < 32 \<and> sz = 2 \<and> lo = 0x80 \<and> hi = 0xBF \<or>
    b = 0xE0 + (b - 0xE0) \<and> b - 0xE0 < 16 \<and> sz = 3 \<and> lo = (if b - 0xE0 = 0 then 0xA0 else 0x80) \<and>
      hi = (if b - 0xE0 = 13 then 0x9F else 0xBF) \<or>
    b = 0xF0 + (b - 0xF0) \<and> b - 0xF0 \<le> 4 \<and> sz = 4 \<and> lo = (if b - 0xF0 = 0 then 0x90 else 0x80) \<and>
      hi = (if b - 0xF0 = 4 then 0x8F else 0xBF)"
    using assms by (auto simp: utf8_first_def split: if_splits)
  then show thesis using two three four by blast
qed

lemma char_of_byteI: "byte c = n \<Longrightarrow> c = char_of n"
  by (metis char_of_char)

lemma utf8_cont_digit: "0x80 \<le> byte c \<Longrightarrow> byte c \<le> 0xBF \<Longrightarrow> \<exists>y < 64. c = char_of (0x80 + y) \<and> byte c = 0x80 + y"
  by (intro exI [of _ "byte c - 0x80"]) auto

lemma utf8_Valid_first:
  assumes "utf8_Valid (b # p)" "0x80 \<le> byte b"
  obtains r q where "scalar r" "b # p = utf8_encode r @ q" "utf8_Valid q" "length q \<le> length p"
proof -
  from assms obtain sz lo hi where first: "utf8_first (byte b) = Some (sz, lo, hi)" and len: "sz - 1 \<le> length p"
    and c: "lo \<le> byte (p ! 0)" "byte (p ! 0) \<le> hi" and cont: "list_all utf8_cont (take (sz - 2) (drop 1 p))"
    and q: "utf8_Valid (drop (sz - 1) p)" by (auto split: option.splits)
  from first show thesis
  proof (cases rule: utf8_first_cases)
    case (two x)
    with c obtain y :: nat where y: "y < 64" "p ! 0 = char_of (0x80 + y)" using utf8_cont_digit [of "p ! 0"] by metis
    have "scalar (x * 64 + y)" "b = char_of (0xC0 + x)" using two y by (auto simp: scalar_def intro: char_of_byteI)
    then show thesis using that [of "x * 64 + y" "drop 1 p"] two y q len utf8_encode_two [OF two(2,3) y(1)]
      by (cases p) auto
  next
    case (three x)
    then obtain c1 c2 q' where p: "p = c1 # c2 # q'" using len by (cases p rule: remdups_adj.cases) auto
    have "0x80 \<le> byte c1" "byte c1 \<le> 0xBF" using c three p by (auto split: if_splits)
    then obtain y where y: "y < 64" "c1 = char_of (0x80 + y)" "byte c1 = 0x80 + y" using utf8_cont_digit by blast
    obtain z :: nat where z: "z < 64" "c2 = char_of (0x80 + z)"
      using cont three p utf8_cont_digit [of c2] by (auto simp: utf8_cont_def)
    have xy: "x = 0 \<longrightarrow> 32 \<le> y" "x = 13 \<longrightarrow> y < 32" using c three p y by auto
    then have "scalar ((x * 64 + y) * 64 + z)" using three y z
      by (cases "x \<le> 12"; cases "x = 13") (auto simp: scalar_def)
    moreover have "b = char_of (0xE0 + x)" using three by (auto intro: char_of_byteI)
    ultimately show thesis using that [of "(x * 64 + y) * 64 + z" q'] p three y z q utf8_encode_three [OF three(2) y(1) z(1) xy(1)]
      by auto
  next
    case (four w)
    then obtain c1 c2 c3 q' where p: "p = c1 # c2 # c3 # q'"
      using len by (auto simp: numeral_3_eq_3 Suc_le_length_iff)
    have "0x80 \<le> byte c1" "byte c1 \<le> 0xBF" using c four p by (auto split: if_splits)
    then obtain x where x: "x < 64" "c1 = char_of (0x80 + x)" "byte c1 = 0x80 + x" using utf8_cont_digit by blast
    obtain y z :: nat where yz: "y < 64" "c2 = char_of (0x80 + y)" "z < 64" "c3 = char_of (0x80 + z)"
      using cont four p utf8_cont_digit [of c2] utf8_cont_digit [of c3] by (auto simp: utf8_cont_def)
    have wx: "w = 0 \<longrightarrow> 16 \<le> x" "w = 4 \<longrightarrow> x < 16" using c four p x by auto
    then have "scalar (((w * 64 + x) * 64 + y) * 64 + z)" using four x yz by (auto simp: scalar_def)
    moreover have "b = char_of (0xF0 + w)" using four by (auto intro: char_of_byteI)
    ultimately show thesis
      using that [of "((w * 64 + x) * 64 + y) * 64 + z" q'] p four x yz q utf8_encode_four [OF x(1) yz(1,3) wx(1)] by auto
  qed
qed

lemma utf8_Valid_iff: "utf8_Valid p \<longleftrightarrow> (\<exists>rs. list_all scalar rs \<and> p = concat (map utf8_encode rs))"
proof
  assume "utf8_Valid p"
  then show "\<exists>rs. list_all scalar rs \<and> p = concat (map utf8_encode rs)"
  proof (induction "length p" arbitrary: p rule: less_induct)
    case less
    show ?case
    proof (cases p)
      case (Cons b q)
      obtain r q' where r: "scalar r" "p = utf8_encode r @ q'" "utf8_Valid q'" "length q' < length p"
      proof (cases "byte b < 0x80")
        case True
        with less.prems Cons that [of "byte b" q] show thesis by (simp add: scalar_def utf8_encode_def)
      next
        case False
        then have "0x80 \<le> byte b" by simp
        from utf8_Valid_first [OF less.prems [unfolded Cons] this] obtain r q' where
          "scalar r" "b # q = utf8_encode r @ q'" "utf8_Valid q'" "length q' \<le> length q" .
        with that [of r q'] Cons show thesis by (metis le_imp_less_Suc length_Cons)
      qed
      with less.hyps [OF r(4,3)] obtain rs where "list_all scalar rs" "q' = concat (map utf8_encode rs)" by blast
      with r show ?thesis by (intro exI [of _ "r # rs"]) simp
    qed (auto intro: exI [of _ "[]"])
  qed
next
  have "list_all scalar rs \<Longrightarrow> utf8_Valid (concat (map utf8_encode rs))" for rs
    by (induction rs) (simp_all add: utf8_Valid_encode)
  then show "\<exists>rs. list_all scalar rs \<and> p = concat (map utf8_encode rs) \<Longrightarrow> utf8_Valid p" by blast
qed

lemma utf8_Valid_append: "utf8_Valid p \<Longrightarrow> utf8_Valid q \<Longrightarrow> utf8_Valid (p @ q)"
  unfolding utf8_Valid_iff by (metis concat_append list_all_append map_append)

lemma utf8_Valid_ascii: "list_all (\<lambda>c. byte c < 0x80) p \<Longrightarrow> utf8_Valid p"
  by (induction p) simp_all

section \<open>Base64\<close>

text \<open>
  \<open>base64.StdEncoding.AppendEncode(nil, b)\<close>: three bytes make four characters, and the last ones
  are padded.
\<close>

definition base64_alphabet :: string where
  "base64_alphabet = ''ABCDEFGHIJKLMNOPQRSTUVWXYZabcdefghijklmnopqrstuvwxyz0123456789+/''"

definition base64_char :: "nat \<Rightarrow> char" where
  "base64_char n = base64_alphabet ! n"

fun base64_Encode :: "bytes \<Rightarrow> bytes" where
  "base64_Encode [] = []"
| "base64_Encode [a] =
     (let val = byte a * 2 ^ 16
      in [base64_char (val div 2 ^ 18 mod 64), base64_char (val div 2 ^ 12 mod 64), CHR ''='', CHR ''=''])"
| "base64_Encode [a, b] =
     (let val = byte a * 2 ^ 16 + byte b * 2 ^ 8
      in [base64_char (val div 2 ^ 18 mod 64), base64_char (val div 2 ^ 12 mod 64),
          base64_char (val div 2 ^ 6 mod 64), CHR ''=''])"
| "base64_Encode (a # b # c # src) =
     (let val = byte a * 2 ^ 16 + byte b * 2 ^ 8 + byte c
      in [base64_char (val div 2 ^ 18 mod 64), base64_char (val div 2 ^ 12 mod 64),
          base64_char (val div 2 ^ 6 mod 64), base64_char (val mod 64)] @ base64_Encode src)"

text \<open>The specification: the value of a character, and of a text.\<close>

definition base64_val :: "char \<Rightarrow> nat option" where
  "base64_val c =
     (let n = byte c in
      if 65 \<le> n \<and> n \<le> 90 then Some (n - 65)
      else if 97 \<le> n \<and> n \<le> 122 then Some (n - 71)
      else if 48 \<le> n \<and> n \<le> 57 then Some (n + 4)
      else if n = 43 then Some 62
      else if n = 47 then Some 63
      else None)"

fun base64_Decode :: "bytes \<Rightarrow> bytes option" where
  "base64_Decode [] = Some []"
| "base64_Decode (a # b # c # d # src) =
     (case (base64_val a, base64_val b) of
        (Some x, Some y) \<Rightarrow>
          (if d = CHR ''='' then
             if src \<noteq> [] then None
             else if c = CHR ''='' then Some [char_of (x * 4 + y div 16)]
             else map_option (\<lambda>z. [char_of (x * 4 + y div 16), char_of (y mod 16 * 16 + z div 4)]) (base64_val c)
           else case (base64_val c, base64_val d, base64_Decode src) of
             (Some z, Some u, Some bs) \<Rightarrow>
               Some (char_of (x * 4 + y div 16) # char_of (y mod 16 * 16 + z div 4) # char_of (z mod 4 * 64 + u) # bs)
           | _ \<Rightarrow> None)
      | _ \<Rightarrow> None)"
| "base64_Decode _ = None"

lemma base64_vals: "map base64_val base64_alphabet = map Some [0..<64]"
  by (simp add: base64_alphabet_def base64_val_def upt_conv_Cons)

lemma base64_ascii: "list_all (\<lambda>c. byte c < 0x80 \<and> c \<noteq> CHR ''='') base64_alphabet"
  by (simp add: base64_alphabet_def)

lemma base64_length: "length base64_alphabet = 64"
  by (simp add: base64_alphabet_def)

lemma base64_val_char [simp]: "n < 64 \<Longrightarrow> base64_val (base64_char n) = Some n"
  using arg_cong [OF base64_vals, of "\<lambda>xs. xs ! n"] by (simp add: base64_char_def base64_length)

lemma base64_char_ascii [simp]: "n < 64 \<Longrightarrow> byte (base64_char n) < 0x80" "n < 64 \<Longrightarrow> base64_char n \<noteq> CHR ''=''"
  using base64_ascii by (simp_all add: base64_char_def list_all_length base64_length)

lemma base64_regroup:
  "(x1 * 4 + x0) * 2 ^ 16 + (y1 * 16 + y0) * 2 ^ 8 + (z1 * 64 + z0) =
   (((x1 * 64 + (x0 * 16 + y1)) * 64 + (y0 * 4 + z1)) * 64 + z0 :: nat)"
  by simp

lemma base64_split:
  assumes "val = ((a * 64 + b) * 64 + c) * 64 + d" "a < 64" "b < 64" "c < 64" "d < 64"
  shows "val div 262144 mod 64 = a" "val div 4096 mod 64 = b" "val div 64 mod 64 = c" "val mod 64 = (d :: nat)"
  unfolding assms(1) using assms(2-5) by (simp_all only: digits mod_less)

text \<open>The digits of three bytes, where fewer bytes count as zero, and the bytes of the digits.\<close>

lemma base64_digits:
  fixes x y z :: nat
  assumes "x < 256" "y < 256" "z < 256" "val = x * 65536 + y * 256 + z"
  shows "val div 262144 mod 64 = x div 4" "val div 4096 mod 64 = x mod 4 * 16 + y div 16"
    "val div 64 mod 64 = y mod 16 * 4 + z div 64" "val mod 64 = z mod 64"
proof -
  have val: "val = ((x div 4 * 64 + (x mod 4 * 16 + y div 16)) * 64 + (y mod 16 * 4 + z div 64)) * 64 + z mod 64"
    using assms(4) base64_regroup [of "x div 4" "x mod 4" "y div 16" "y mod 16" "z div 64" "z mod 64"] by simp
  have "x div 4 < 64" "x mod 4 * 16 + y div 16 < 64" "y mod 16 * 4 + z div 64 < 64" "z mod 64 < 64"
    using assms(1-3) by simp_all
  from base64_split [OF val this] show "val div 262144 mod 64 = x div 4" "val div 4096 mod 64 = x mod 4 * 16 + y div 16"
    "val div 64 mod 64 = y mod 16 * 4 + z div 64" "val mod 64 = z mod 64" .
qed

lemma base64_byte_1: "y < 256 \<Longrightarrow> x div 4 * 4 + (x mod 4 * 16 + y div 16) div 16 = (x :: nat)"
proof -
  assume "y < 256"
  then have "y div 16 < 16" by simp
  then show ?thesis by simp
qed

lemma base64_byte_2:
  "y < 256 \<Longrightarrow> z < 256 \<Longrightarrow> (x mod 4 * 16 + y div 16) mod 16 * 16 + (y mod 16 * 4 + z div 64) div 4 = (y :: nat)"
proof -
  assume "y < 256" "z < 256"
  then have "y div 16 < 16" "z div 64 < 4" by simp_all
  then show ?thesis by simp
qed

lemma base64_byte_3: "z < 256 \<Longrightarrow> (y mod 16 * 4 + z div 64) mod 4 * 64 + z mod 64 = (z :: nat)"
proof -
  assume "z < 256"
  then have "z div 64 < 4" by simp
  then show ?thesis by simp
qed

lemma base64_chars:
  "char_of (byte a div 4 * 4 + (byte a mod 4 * 16 + byte b div 16) div 16) = a"
  "char_of ((byte a mod 4 * 16 + byte b div 16) mod 16 * 16 + (byte b mod 16 * 4 + byte c div 64) div 4) = b"
  "char_of ((byte b mod 16 * 4 + byte c div 64) mod 4 * 64 + byte c mod 64) = c"
  by (simp_all only: base64_byte_1 base64_byte_2 base64_byte_3 nat_of_char_less_256 char_of_char)

lemma base64_Encode_digits:
  "base64_Encode [a] = [base64_char (byte a div 4), base64_char (byte a mod 4 * 16), CHR ''='', CHR ''='']"
  "base64_Encode [a, b] = [base64_char (byte a div 4), base64_char (byte a mod 4 * 16 + byte b div 16),
     base64_char (byte b mod 16 * 4), CHR ''='']"
  "base64_Encode (a # b # c # src) = [base64_char (byte a div 4), base64_char (byte a mod 4 * 16 + byte b div 16),
     base64_char (byte b mod 16 * 4 + byte c div 64), base64_char (byte c mod 64)] @ base64_Encode src"
proof -
  note a = base64_digits [OF nat_of_char_less_256 _ _ refl, of 0 0 a]
  note b = base64_digits [OF nat_of_char_less_256 nat_of_char_less_256 _ refl, of 0 a b]
  note c = base64_digits [OF nat_of_char_less_256 nat_of_char_less_256 nat_of_char_less_256 refl, of a b c]
  show "base64_Encode [a] = [base64_char (byte a div 4), base64_char (byte a mod 4 * 16), CHR ''='', CHR ''='']"
    using a by simp
  show "base64_Encode [a, b] = [base64_char (byte a div 4), base64_char (byte a mod 4 * 16 + byte b div 16),
     base64_char (byte b mod 16 * 4), CHR ''='']"
    using b by simp
  show "base64_Encode (a # b # c # src) = [base64_char (byte a div 4), base64_char (byte a mod 4 * 16 + byte b div 16),
     base64_char (byte b mod 16 * 4 + byte c div 64), base64_char (byte c mod 64)] @ base64_Encode src"
    using c by simp
qed

declare base64_Encode.simps(2-4) [simp del]

lemma base64_Decode_chars:
  assumes "x < 64" "y < 64" "z < 64" "u < 64"
  shows "base64_Decode [base64_char x, base64_char y, CHR ''='', CHR ''=''] = Some [char_of (x * 4 + y div 16)]"
    "base64_Decode [base64_char x, base64_char y, base64_char z, CHR ''=''] =
       Some [char_of (x * 4 + y div 16), char_of (y mod 16 * 16 + z div 4)]"
    "base64_Decode (base64_char x # base64_char y # base64_char z # base64_char u # src) =
       map_option (\<lambda>bs. [char_of (x * 4 + y div 16), char_of (y mod 16 * 16 + z div 4), char_of (z mod 4 * 64 + u)] @ bs)
         (base64_Decode src)"
  using assms by (simp_all split: option.split)

lemma base64_digit_bounds:
  fixes x y z :: nat
  assumes "x < 256" "y < 256" "z < 256"
  shows "x div 4 < 64" "x mod 4 * 16 + y div 16 < 64" "y mod 16 * 4 + z div 64 < 64" "z mod 64 < 64"
  using assms by simp_all

lemma base64_Decode_Encode: "base64_Decode (base64_Encode bs) = Some bs"
proof (induction bs rule: base64_Encode.induct)
  case (2 a)
  show ?case using base64_digit_bounds [of "byte a" 0 0] base64_byte_1 [of 0 "byte a"]
    by (simp add: base64_Encode_digits base64_Decode_chars)
next
  case (3 a b)
  show ?case using base64_digit_bounds [of "byte a" "byte b" 0] base64_byte_1 [of "byte b" "byte a"]
      base64_byte_2 [of "byte b" 0 "byte a"]
    by (simp add: base64_Encode_digits base64_Decode_chars)
next
  case (4 a b c src)
  then have src: "base64_Decode (base64_Encode src) = Some src" by blast
  note bounds = base64_digit_bounds [of "byte a" "byte b" "byte c", OF nat_of_char_less_256 nat_of_char_less_256 nat_of_char_less_256]
  show ?case
    by (simp only: base64_Encode_digits append.simps base64_Decode_chars bounds base64_chars src option.map)
qed simp

lemma base64_Encode_ascii: "list_all (\<lambda>c. byte c < 0x80) (base64_Encode bs)"
proof (induction bs rule: base64_Encode.induct)
  case (2 a)
  show ?case using base64_digit_bounds [of "byte a" 0 0] by (simp add: base64_Encode_digits)
next
  case (3 a b)
  show ?case using base64_digit_bounds [of "byte a" "byte b" 0] by (simp add: base64_Encode_digits)
next
  case (4 a b c src)
  then show ?case using base64_digit_bounds [of "byte a" "byte b" "byte c"] by (simp add: base64_Encode_digits)
qed simp

section \<open>Hexadecimal\<close>

text \<open>\<open>hex.EncodeToString\<close>, with the decoder that reads it back.\<close>

definition hex_EncodeToString :: "bytes \<Rightarrow> string" where
  "hex_EncodeToString src = concat (map (\<lambda>c. [hex_digit (byte c div 16), hex_digit (byte c mod 16)]) src)"

fun hex_Decode :: "string \<Rightarrow> bytes option" where
  "hex_Decode [] = Some []"
| "hex_Decode (h # l # s) =
     (case (digit_val h, digit_val l, hex_Decode s) of
        (Some x, Some y, Some bs) \<Rightarrow> if x < 16 \<and> y < 16 then Some (char_of (x * 16 + y) # bs) else None
      | _ \<Rightarrow> None)"
| "hex_Decode _ = None"

lemma hex_Decode_Encode: "hex_Decode (hex_EncodeToString bs) = Some bs"
proof (induction bs)
  case (Cons c bs)
  have "byte c div 16 < 16" by (simp add: less_mult_imp_div_less)
  with Cons show ?case by (simp add: hex_EncodeToString_def digit_val_hex)
qed (simp add: hex_EncodeToString_def)

section \<open>The attributes\<close>

text \<open>An attribute, and the text that the log handler prints for its value.\<close>

record slogAttr =
  at_Key :: string
  at_text :: "error + bytes"

definition textMarshaler :: "string \<Rightarrow> error + bytes \<Rightarrow> slogAttr" where
  "textMarshaler key value_MarshalText = \<lparr>at_Key = key, at_text = value_MarshalText\<rparr>"

definition byteStringPrinter_MarshalText :: "bytes \<Rightarrow> error + bytes" where
  "byteStringPrinter_MarshalText b = (if \<not> utf8_Valid b then Inr (base64_Encode b) else Inr b)"

definition ByteString :: "string \<Rightarrow> bytes \<Rightarrow> slogAttr" where
  "ByteString key val = textMarshaler key (byteStringPrinter_MarshalText val)"

definition Stringer :: "string \<Rightarrow> string \<Rightarrow> slogAttr" where
  "Stringer key value_String = \<lparr>at_Key = key, at_text = Inr value_String\<rparr>"

definition stringSlicePrinter_MarshalText :: "string list \<Rightarrow> error + bytes" where
  "stringSlicePrinter_MarshalText s = Inr (strings_Join s '','')"

definition Strings :: "string \<Rightarrow> string list \<Rightarrow> slogAttr" where
  "Strings key val = textMarshaler key (stringSlicePrinter_MarshalText val)"

definition binaryPrinter_MarshalText :: "bytes \<Rightarrow> error + bytes" where
  "binaryPrinter_MarshalText b = Inr (base64_Encode b)"

definition Binary :: "string \<Rightarrow> bytes \<Rightarrow> slogAttr" where
  "Binary key val = textMarshaler key (binaryPrinter_MarshalText val)"

lemmas attr_defs = textMarshaler_def byteStringPrinter_MarshalText_def ByteString_def Stringer_def
  stringSlicePrinter_MarshalText_def Strings_def binaryPrinter_MarshalText_def Binary_def

text \<open>A text is UTF-8 if it is the encoding of a list of scalar values.\<close>

definition is_utf8 :: "bytes \<Rightarrow> bool" where
  "is_utf8 b \<longleftrightarrow> (\<exists>rs. list_all scalar rs \<and> b = concat (map utf8_encode rs))"

lemma utf8_Valid_is_utf8: "utf8_Valid b \<longleftrightarrow> is_utf8 b"
  unfolding is_utf8_def by (rule utf8_Valid_iff)

lemma is_utf8_base64: "is_utf8 (base64_Encode b)"
  by (simp add: base64_Encode_ascii utf8_Valid_ascii flip: utf8_Valid_is_utf8)

lemma is_utf8_Join: "\<forall>w \<in> set ws. is_utf8 w \<Longrightarrow> is_utf8 sep \<Longrightarrow> is_utf8 (strings_Join ws sep)"
  unfolding utf8_Valid_is_utf8 [symmetric]
  by (induction ws sep rule: strings_Join.induct) (simp_all add: utf8_Valid_append)

text \<open>
  What is logged can be read. A byte string is printed as UTF-8 text: as it is, exactly if it is
  the encoding of scalar values, and otherwise in base64, from which it is read back. Binary data is
  always printed in ASCII and read back. A list of names in UTF-8 is printed in UTF-8, and is read back if no
  name contains a comma.
\<close>

lemma log_attributes_readable:
  assumes "names \<noteq> []" "\<forall>w \<in> set names. is_utf8 w \<and> CHR '','' \<notin> set w"
  shows "(\<exists>t. at_text (ByteString key b) = Inr t \<and> is_utf8 t \<and> (if is_utf8 b then t = b else base64_Decode t = Some b)) \<and>
    (\<exists>t. at_text (Binary key b) = Inr t \<and> list_all (\<lambda>c. byte c < 128) t \<and> base64_Decode t = Some b) \<and>
    (\<exists>t. at_text (Strings key names) = Inr t \<and> is_utf8 t \<and> Split CHR '','' t = names)"
proof (intro conjI)
  show "\<exists>t. at_text (ByteString key b) = Inr t \<and> is_utf8 t \<and> (if is_utf8 b then t = b else base64_Decode t = Some b)"
    by (simp add: attr_defs utf8_Valid_is_utf8 is_utf8_base64 base64_Decode_Encode)
  show "\<exists>t. at_text (Binary key b) = Inr t \<and> list_all (\<lambda>c. byte c < 128) t \<and> base64_Decode t = Some b"
    by (simp add: attr_defs base64_Encode_ascii base64_Decode_Encode)
  have "is_utf8 '',''" by (simp flip: utf8_Valid_is_utf8)
  with assms show "\<exists>t. at_text (Strings key names) = Inr t \<and> is_utf8 t \<and> Split CHR '','' t = names"
    by (simp add: attr_defs is_utf8_Join Split_Join)
qed

end
