(* ===== verification/Api.thy ===== *)
theory Api
  imports Messaging PrivateNodes EventsStorage LogAttrs
begin

text \<open>
  The HTTP interface of the service, \<open>pkg/api/api.go\<close>: private nodes post their statements, and
  operators read the registry and the health of the service. The server that calls the handlers,
  with its router and middleware, is in \<open>HttpServers\<close>; logging is left out.

  \<open>net/http\<close> appears as what a handler sees of it: the body and the header of the request, and a
  response whose status is that of the first \<open>WriteHeader\<close>. The text of JSON and \<open>NonNullableSlice\<close>
  of gowaves are parameters.
\<close>

section \<open>Requests and responses\<close>

text \<open>
  A body is what can be read of it and the error that ends it, nil for \<open>io.EOF\<close>; an error comes
  with a \<open>Read\<close> of its own.
\<close>

record httpRequest =
  hr_Body :: bytes
  hr_readErr :: "error option"
  hr_nodeName :: string

record httpResponse =
  rw_status :: "int option"
  rw_body :: bytes

definition newResponse :: httpResponse where
  "newResponse = \<lparr>rw_status = None, rw_body = []\<rparr>"

definition StatusOK :: int where "StatusOK = 200"
definition StatusBadRequest :: int where "StatusBadRequest = 400"
definition StatusForbidden :: int where "StatusForbidden = 403"
definition StatusInternalServerError :: int where "StatusInternalServerError = 500"

text \<open>A second \<open>WriteHeader\<close> is ignored; \<open>Write\<close> sends the status 200 if none was sent.\<close>

definition WriteHeader :: "httpResponse \<Rightarrow> int \<Rightarrow> httpResponse" where
  "WriteHeader w code = (if rw_status w = None then w\<lparr>rw_status := Some code\<rparr> else w)"

definition http_Write :: "httpResponse \<Rightarrow> bytes \<Rightarrow> httpResponse" where
  "http_Write w b = (let w = WriteHeader w StatusOK in w\<lparr>rw_body := rw_body w @ b\<rparr>)"

definition http_Error :: "httpResponse \<Rightarrow> string \<Rightarrow> int \<Rightarrow> httpResponse" where
  "http_Error w error code = http_Write (WriteHeader w code) (error @ newline)"

text \<open>What the client gets: a handler that sent no status sends 200.\<close>

definition sentStatus :: "httpResponse \<Rightarrow> int" where
  "sentStatus w = (case rw_status w of None \<Rightarrow> StatusOK | Some code \<Rightarrow> code)"

lemmas http_defs = newResponse_def WriteHeader_def http_Write_def http_Error_def sentStatus_def
  StatusOK_def StatusBadRequest_def StatusForbidden_def StatusInternalServerError_def

text \<open>
  Parameters: decoding the first JSON value of a text, the text that \<open>Encode\<close> writes, and the JSON
  form of a non-nullable slice.
\<close>

record apiLib =
  al_Decode :: "bytes \<Rightarrow> error + json"
  al_Encode :: "json \<Rightarrow> error + bytes"
  al_NonNullableSlice :: "json list \<Rightarrow> json"

section \<open>The registry and the health\<close>

definition specificNodeRequestLimit :: nat where
  "specificNodeRequestLimit = 10 * 1024"

text \<open>The nodes storage appears as its answers. \<open>health_loop\<close> is the loop over the enabled nodes.\<close>

fun health_loop :: "gowaves \<Rightarrow> 'd buntDB \<Rightarrow> 'd Storage \<Rightarrow> Node list \<Rightarrow> httpResponse \<Rightarrow> httpResponse" where
  "health_loop gw bd es [] w = w"
| "health_loop gw bd es (node # nodes) w =
     health_loop gw bd es nodes
       (case LatestHeight gw bd es (nd_URL node) of
          Inr h \<Rightarrow> w
        | Inl lhErr \<Rightarrow>
            if \<not> errors_Is lhErr ErrNoFullStatement
            then http_Error w (''Failed to get non specific nodes: '' @ Error lhErr) StatusInternalServerError
            else w)"

definition health ::
    "gowaves \<Rightarrow> 'd buntDB \<Rightarrow> error + Node list \<Rightarrow> 'd Storage \<Rightarrow> httpResponse \<Rightarrow> httpResponse" where
  "health gw bd enabledNodes es w =
     (let w = (case enabledNodes of
                 Inl enErr \<Rightarrow> http_Error w (''Failed to get non specific nodes: '' @ Error enErr) StatusInternalServerError
               | Inr nodes \<Rightarrow> health_loop gw bd es nodes w)
      in WriteHeader w StatusOK)"

definition nodesResponse_json :: "apiLib \<Rightarrow> Node list \<Rightarrow> Node list \<Rightarrow> json" where
  "nodesResponse_json al regular specific =
     JObj [(''regular'', al_NonNullableSlice al (map Node_json regular)),
           (''specific'', al_NonNullableSlice al (map Node_json specific))]"

text \<open>\<open>nodes\<close> and \<open>enabled\<close> differ in the lists that they ask the storage for.\<close>

definition nodes_answer :: "apiLib \<Rightarrow> error + Node list \<Rightarrow> error + Node list \<Rightarrow> httpResponse \<Rightarrow> httpResponse" where
  "nodes_answer al regular specific w =
     (case regular of
        Inl err \<Rightarrow> http_Error w (''Failed to complete request: '' @ Error err) StatusInternalServerError
      | Inr regularNodes \<Rightarrow>
          (case specific of
             Inl err \<Rightarrow> http_Error w (''Failed to complete request: '' @ Error err) StatusInternalServerError
           | Inr specificNodes \<Rightarrow>
               (case al_Encode al (nodesResponse_json al regularNodes specificNodes) of
                  Inl err \<Rightarrow> http_Error w (''Failed to marshal nodes to JSON: '' @ Error err) StatusInternalServerError
                | Inr text \<Rightarrow> http_Write w text)))"

definition API_nodes :: "apiLib \<Rightarrow> 'w JSONStorage \<Rightarrow> httpResponse \<Rightarrow> httpResponse" where
  "API_nodes al ns w = nodes_answer al (Inr (JSONStorage_Nodes ns False)) (Inr (JSONStorage_Nodes ns True)) w"

definition API_enabled :: "apiLib \<Rightarrow> 'w JSONStorage \<Rightarrow> httpResponse \<Rightarrow> httpResponse" where
  "API_enabled al ns w = nodes_answer al (Inr (EnabledNodes ns)) (Inr (EnabledSpecificNodes ns)) w"

section \<open>Statements of private nodes\<close>

record nodeShortStatement =
  ns_Node :: string
  ns_Version :: string
  ns_Height :: uint64

definition nodeShortStatement_fields :: "nodeShortStatement fields" where
  "nodeShortStatement_fields =
     [field ''node'' dec_string ns_Node (\<lambda>x r. r\<lparr>ns_Node := x\<rparr>),
      field ''version'' dec_string ns_Version (\<lambda>x r. r\<lparr>ns_Version := x\<rparr>),
      field ''height'' dec_uint64 ns_Height (\<lambda>x r. r\<lparr>ns_Height := x\<rparr>)]"

definition zeroShortStatement :: nodeShortStatement where
  "zeroShortStatement = \<lparr>ns_Node = [], ns_Version = [], ns_Height = 0\<rparr>"

definition nodeShortStatement_json :: "nodeShortStatement \<Rightarrow> json" where
  "nodeShortStatement_json s = JObj (
     omitempty (ns_Node s = []) ''node'' (JStr (ns_Node s)) @
     omitempty (ns_Version s = []) ''version'' (JStr (ns_Version s)) @
     omitempty (ns_Height s = 0) ''height'' (json_uint64 (ns_Height s)))"

text \<open>
  The forms in which a statement and a body are logged. The text of the statement is a parameter,
  as is its error.
\<close>

definition statementLogWrapper_String :: "jsontext \<Rightarrow> nodeShortStatement \<Rightarrow> string" where
  "statementLogWrapper_String jt s =
     (case jt_Marshal jt (nodeShortStatement_json s) of
        Inl err \<Rightarrow> ''{'' @ [CHR 0x22] @ ''error'' @ [CHR 0x22] @ '':'' @ Quote (Error err) @ ''}''
      | Inr data \<Rightarrow> data)"

definition hexBodyStringer_String :: "bytes \<Rightarrow> string" where
  "hexBodyStringer_String b = hex_EncodeToString b"

definition cleanCRLF :: "string \<Rightarrow> string" where
  "cleanCRLF s = ReplaceAll (ReplaceAll s newline []) [CHR 0x0D] []"

text \<open>\<open>io.ReadAll\<close> of an \<open>io.LimitReader\<close>: at the limit the reader ends without an error.\<close>

definition read_limited :: "nat \<Rightarrow> httpRequest \<Rightarrow> error + bytes" where
  "read_limited n r =
     (if n \<le> length (hr_Body r) then Inr (take n (hr_Body r))
      else case hr_readErr r of Some err \<Rightarrow> Inl err | None \<Rightarrow> Inr (hr_Body r))"

text \<open>
  \<open>parseStatementAndStateHash\<close>: the response, and the statement and the state hash when it is
  \<open>ok\<close>. The statement is decoded through a pointer to a pointer, which the document \<open>null\<close> makes nil;
  setting its node is then a run-time panic, given as the error.
\<close>

definition parseStatementAndStateHash ::
    "gowaves \<Rightarrow> apiLib \<Rightarrow> neturl \<Rightarrow> httpResponse \<Rightarrow> httpRequest \<Rightarrow> bytes \<Rightarrow>
     error + httpResponse \<times> (nodeShortStatement \<times> StateHash) option" where
  "parseStatementAndStateHash gw al nu w r body =
     (case (case al_Decode al body of
              Inl err \<Rightarrow> Inl err
            | Inr v \<Rightarrow> Unmarshal
                (dec_ptr zeroShortStatement (dec_struct ''api.nodeShortStatement'' nodeShortStatement_fields))
                (Some zeroShortStatement) v) of
        Inl err \<Rightarrow> Inr (http_Error w (''Failed to decode statements: '' @ Error err) StatusBadRequest, None)
      | Inr statement \<Rightarrow>
          (case (case al_Decode al body of
                   Inl err \<Rightarrow> Inl err | Inr v \<Rightarrow> Unmarshal (StateHash_UnmarshalJSON gw) (zeroStateHash gw) v) of
             Inl err \<Rightarrow> Inr (http_Error w (''Failed to decode statehash: '' @ Error err) StatusBadRequest, None)
           | Inr statehash \<Rightarrow>
               (case CheckAndUpdateURL nu (cleanCRLF (hr_nodeName r)) of
                  Inl err \<Rightarrow> Inr (http_Error w (''Failed to check node name: '' @ Error err) StatusBadRequest, None)
                | Inr updatedURL \<Rightarrow>
                    (case statement of
                       None \<Rightarrow> Inl (Panic ''nil pointer dereference'')
                     | Some s \<Rightarrow> Inr (w, Some (s\<lparr>ns_Node := updatedURL\<rparr>, statehash))))))"

fun specificNodeFound_loop :: "Node list \<Rightarrow> nodeShortStatement \<Rightarrow> bool \<Rightarrow> bool" where
  "specificNodeFound_loop [] statement found = found"
| "specificNodeFound_loop (enabled # ns) statement found =
     specificNodeFound_loop ns statement (if nd_URL enabled = ns_Node statement then True else found)"

definition specificNodeFoundInStorage :: "Node list \<Rightarrow> nodeShortStatement \<Rightarrow> bool" where
  "specificNodeFoundInStorage enabledSpecificNodes statement =
     specificNodeFound_loop enabledSpecificNodes statement False"

text \<open>The event of a statement, with the timestamp 0 until the round of the scraper.\<close>

definition api_minValidHeight :: uint64 where "api_minValidHeight = 2"

definition specific_event :: "nodeShortStatement \<Rightarrow> StateHash \<Rightarrow> Event" where
  "specific_event statement statehash =
     (if ns_Height statement < api_minValidHeight
      then Ev_InvalidHeight (NewInvalidHeightEvent (ns_Node statement) 0 (ns_Version statement) (ns_Height statement))
      else Ev_StateHash (NewStateHashEvent (ns_Node statement) 0 (ns_Version statement) (ns_Height statement)
             (Some statehash) 0 (Some (sh_BlockID statehash)) None False))"

definition specificNodesHandler ::
    "gowaves \<Rightarrow> apiLib \<Rightarrow> neturl \<Rightarrow> error + Node list \<Rightarrow> httpRequest \<Rightarrow> privateNodesEvents \<Rightarrow> httpResponse \<Rightarrow>
     privateNodesEvents \<times> (error + httpResponse)" where
  "specificNodesHandler gw al nu enabledSpecific r p w =
     (case read_limited specificNodeRequestLimit r of
        Inl err \<Rightarrow> (p, Inr (http_Error w (''Failed to read body: '' @ Error err) StatusInternalServerError))
      | Inr body \<Rightarrow>
          if length body = 0 then (p, Inr (http_Error w ''Empty request body'' StatusBadRequest))
          else (case parseStatementAndStateHash gw al nu w r body of
            Inl panic \<Rightarrow> (p, Inl panic)
          | Inr (w, None) \<Rightarrow> (p, Inr w)
          | Inr (w, Some (statement, statehash)) \<Rightarrow>
              (case enabledSpecific of
                 Inl err \<Rightarrow> (p, Inr (http_Error w (''Failed to fetch specific nodes from storage: '' @ Error err)
                              StatusInternalServerError))
               | Inr enabledSpecificNodes \<Rightarrow>
                   if \<not> specificNodeFoundInStorage enabledSpecificNodes statement
                   then (p, Inr (WriteHeader w StatusForbidden))
                   else
                     let p = private_Write p (specific_event statement statehash)
                     in if ns_Height statement < api_minValidHeight then (p, Inr w)
                        else (case al_Encode al (nodeShortStatement_json statement) of
                                Inl err \<Rightarrow> (p, Inr (http_Error w (''Failed to marshal statements to JSON: '' @ Error err)
                                             StatusInternalServerError))
                              | Inr text \<Rightarrow> (p, Inr (WriteHeader (http_Write w text) StatusOK))))))"

section \<open>The routes\<close>

datatype apiHandler = H_nodes | H_enabled | H_specificNodes | H_health | H_metrics | H_version

text \<open>The table of the router: method (none for any), path, handler.\<close>

definition API_routes :: "(string option \<times> string \<times> apiHandler) list" where
  "API_routes =
     [(Some ''GET'', ''/nodes/all'', H_nodes),
      (Some ''GET'', ''/nodes/enabled'', H_enabled),
      (Some ''POST'', ''/nodes/specific/statements'', H_specificNodes),
      (Some ''GET'', ''/health'', H_health),
      (None, ''/metrics'', H_metrics),
      (Some ''GET'', ''/version'', H_version)]"

section \<open>Facts\<close>

lemma specificNodeFound_iff:
  "specificNodeFoundInStorage ns st \<longleftrightarrow> (\<exists>n \<in> set ns. nd_URL n = ns_Node st)"
proof -
  have "specificNodeFound_loop ns st b \<longleftrightarrow> b \<or> (\<exists>n \<in> set ns. nd_URL n = ns_Node st)" for b
    by (induction ns arbitrary: b) auto
  then show ?thesis by (simp add: specificNodeFoundInStorage_def)
qed

lemma Event_Node_specific [simp]: "Event_Node (specific_event st sh) = ns_Node st"
  by (simp add: specific_event_def New_event_defs)

lemma Statement_specific:
  "Event_Statement (specific_event st sh) =
     (if ns_Height st < 2
      then zeroStatement\<lparr>st_Node := ns_Node st, st_Version := ns_Version st, st_Height := ns_Height st,
             st_Status := InvalidHeight\<rparr>
      else zeroStatement\<lparr>st_Node := ns_Node st, st_Version := ns_Version st, st_Height := ns_Height st,
             st_Status := OK, st_StateHash := Some sh, st_BlockID := Some (sh_BlockID sh)\<rparr>)"
  by (simp add: specific_event_def New_event_defs Statement_defs api_minValidHeight_def)

end
