(* ===== verification/ApiPolicy.thy ===== *)
theory ApiPolicy
  imports Api CollectionPolicy NodesPolicy
begin

text \<open>
  Theorems on the HTTP interface: what a private node's post leaves behind, how its statement
  reaches the analyzer, and what the health check tells.
\<close>

section \<open>Posted statements\<close>

definition posted_url :: "neturl \<Rightarrow> httpRequest \<Rightarrow> error + string" where
  "posted_url nu r = CheckAndUpdateURL nu (cleanCRLF (hr_nodeName r))"

text \<open>The statement and the state hash that a body holds.\<close>

definition posted :: "gowaves \<Rightarrow> apiLib \<Rightarrow> httpRequest \<Rightarrow> nodeShortStatement \<Rightarrow> StateHash \<Rightarrow> bool" where
  "posted gw al r st sh \<longleftrightarrow>
     (\<exists>v. al_Decode al (take specificNodeRequestLimit (hr_Body r)) = Inr v \<and> v \<noteq> JNull \<and>
        Unmarshal (dec_struct ''api.nodeShortStatement'' nodeShortStatement_fields) zeroShortStatement v = Inr st \<and>
        Unmarshal (StateHash_UnmarshalJSON gw) (zeroStateHash gw) v = Inr sh)"

lemma read_limited_Inr: "read_limited n r = Inr b \<Longrightarrow> b = take n (hr_Body r)"
  by (auto simp: read_limited_def split: if_splits option.splits)

lemma dec_ptr_Some:
  assumes "Unmarshal (dec_ptr zero d) (Some old) v = Inr (Some x)"
  shows "v \<noteq> JNull \<and> Unmarshal d old v = Inr x"
  using assms by (cases v) (auto simp: Unmarshal_def dec_ptr_def split: prod.splits option.splits)

lemma parse_ok:
  assumes "parseStatementAndStateHash gw al nu w r (take specificNodeRequestLimit (hr_Body r)) = Inr (w', Some (st, sh))"
  obtains s u where "w' = w" "posted gw al r s sh" "posted_url nu r = Inr u" "st = s\<lparr>ns_Node := u\<rparr>"
  using assms unfolding parseStatementAndStateHash_def posted_def posted_url_def
  by (auto split: sum.splits option.splits dest!: dec_ptr_Some)

lemma parse_error:
  assumes "parseStatementAndStateHash gw al nu newResponse r body = Inr (w, None)"
  shows "sentStatus w = 400"
  using assms unfolding parseStatementAndStateHash_def by (auto simp: http_defs split: sum.splits option.splits)

text \<open>The statement that a post of \<open>s\<close> with the state hash \<open>sh\<close> makes for the node \<open>u\<close>.\<close>

definition posted_statement :: "string \<Rightarrow> nodeShortStatement \<Rightarrow> StateHash \<Rightarrow> NodeStatement" where
  "posted_statement u s sh =
     (let st = zeroStatement\<lparr>st_Node := u, st_Version := ns_Version s, st_Height := ns_Height s\<rparr>
      in if ns_Height s < 2 then st\<lparr>st_Status := InvalidHeight\<rparr>
         else st\<lparr>st_Status := OK, st_StateHash := Some sh, st_BlockID := Some (sh_BlockID sh)\<rparr>)"

lemma post_cases:
  assumes "specificNodesHandler gw al nu (Inr nodes) r p newResponse = (p', Inr w)" "\<forall>v. \<exists>b. al_Encode al v = Inr b"
  obtains (accepted) u s sh e where "sentStatus w = 200" "posted_url nu r = Inr u" "u \<in> nd_URL ` set nodes"
      "posted gw al r s sh" "p' = private_Write p e" "Event_Node e = u" "Event_Statement e = posted_statement u s sh"
  | (refused) "sentStatus w \<in> {400, 403, 500}" "p' = p"
proof (cases "read_limited specificNodeRequestLimit r")
  case (Inl err)
  with assms(1) refused show thesis by (auto simp: specificNodesHandler_def http_defs)
next
  case (Inr body)
  note body = read_limited_Inr [OF Inr]
  show thesis
  proof (cases "body = []")
    case True
    with assms(1) Inr refused show thesis by (auto simp: specificNodesHandler_def http_defs)
  next
    case False
    with assms(1) Inr obtain w1 o1 where parse: "parseStatementAndStateHash gw al nu newResponse r body = Inr (w1, o1)"
      by (auto simp: specificNodesHandler_def split: sum.splits)
    show thesis
    proof (cases o1)
      case None
      with assms(1) Inr False parse have "p' = p" "w = w1" by (auto simp: specificNodesHandler_def)
      with parse_error parse None refused show thesis by blast
    next
      case (Some x)
      obtain st sh where x: "x = (st, sh)" by fastforce
      from parse_ok [OF parse [unfolded body Some x]] obtain s u where
        ok: "w1 = newResponse" "posted gw al r s sh" "posted_url nu r = Inr u" "st = s\<lparr>ns_Node := u\<rparr>" by blast
      have found: "specificNodeFoundInStorage nodes st \<longleftrightarrow> u \<in> nd_URL ` set nodes"
        by (auto simp: specificNodeFound_iff ok(4))
      obtain b where b: "al_Encode al (nodeShortStatement_json st) = Inr b" using assms(2) by blast
      show thesis
      proof (cases "u \<in> nd_URL ` set nodes")
        case False
        with assms(1) Inr \<open>body \<noteq> []\<close> parse Some x found have "p' = p" "w = WriteHeader w1 StatusForbidden"
          by (auto simp: specificNodesHandler_def)
        with refused show thesis by (simp add: ok(1) http_defs)
      next
        case True
        with assms(1) Inr \<open>body \<noteq> []\<close> parse Some x found b ok(1)
        have res: "p' = private_Write p (specific_event st sh)" "sentStatus w = 200"
          by (auto simp: specificNodesHandler_def Let_def http_defs split: if_splits)
        have "Event_Statement (specific_event st sh) = posted_statement u s sh"
          by (simp add: Statement_specific posted_statement_def ok(4) Let_def)
        with True ok res accepted [of u s sh "specific_event st sh"] show thesis by simp
      qed
    qed
  qed
qed

text \<open>
  What a post leaves behind. If the handler answers a request with status 200, then the node
  name of the request is the URL of an enabled specific node, and the last event of this node
  is the statement of the body: version, height and, from height 2 on, the state hash with its
  block id; below, the status is invalid height. With any other status, 400, 403 or 500,
  no event is changed.
\<close>

lemma private_statement_recorded:
  assumes "specificNodesHandler gw al nu (Inr nodes) r p newResponse = (p', Inr w)" "\<forall>v. \<exists>b. al_Encode al v = Inr b"
  shows "(sentStatus w = 200 \<and> (\<exists>u s sh e. posted_url nu r = Inr u \<and> u \<in> nd_URL ` set nodes \<and> posted gw al r s sh \<and>
      p' = p(u \<mapsto> e) \<and> Event_Statement e = posted_statement u s sh)) \<or>
    (sentStatus w \<in> {400, 403, 500} \<and> p' = p)"
  using assms
proof (cases rule: post_cases)
  case (accepted u s sh e)
  then show ?thesis by (auto simp: private_Write_def unsafeWrite_def)
qed blast

text \<open>
  A posted statement reaches the analyzer. Let a private node post a statement that is
  answered with status 200, and let the next poll be passed on while the node is still enabled,
  on a storage that works. Then the notification names the node, and the storage returns the
  posted statement for the node at the timestamp of the poll.
\<close>

theorem pushed_statement_stored:
  assumes "specificNodesHandler gw al nu (Inr nodes) r p newResponse = (p1, Inr w)" "\<forall>v. \<exists>b. al_Encode al v = Inr b"
    and "sentStatus w = 200" "posted_url nu r = Inr u"
    and "store_ok gw bd cont glob es" "private_ok p" "in_int64 ts" "\<forall>n \<in> set nodes. node_ok (nd_URL n)"
    and "\<forall>q. finite (dom q) \<longrightarrow> iter_order q (order q)" "u \<in> nd_URL ` set specific"
    and "handlePrivateEvent gw bd (Inr specific) order (NodesGatheringComplete polled ts) es p1 = (es', p2, out)"
  shows "\<exists>pns s sh. out = [NodesGatheringComplete (polled @ pns) ts] \<and> u \<in> set pns \<and> posted gw al r s sh \<and>
    GetStatement gw bd es' u ts = Inr ((posted_statement u s sh)\<lparr>st_Timestamp := ts\<rparr>)"
  using assms(1,2)
proof (cases rule: post_cases)
  case (accepted v s sh e)
  with assms(4) have v: "v = u" by simp
  with accepted assms(8) have u: "node_ok u" by blast
  from private_ok_write [OF assms(6), of e] accepted v u have ok1: "private_ok p1" by simp
  from private_round [OF assms(5) ok1 assms(7,9,11)] obtain pns where
    out: "out = [NodesGatheringComplete (polled @ pns) ts]" "set pns = dom p2" and
    p2: "\<And>n. p2 n = (if n \<in> nd_URL ` set specific then p1 n else None)" and ok2: "store_ok gw bd cont glob es'" and
    st: "\<And>n e. node_ok n \<Longrightarrow> p2 n = Some e \<Longrightarrow> stored gw cont es' n ts = Some ((Event_Statement e)\<lparr>st_Timestamp := ts\<rparr>)"
    using assms(7) by fastforce
  have e: "p2 u = Some e" using assms(10) accepted v by (simp add: p2 private_Write_def unsafeWrite_def)
  with st [OF u e] have "GetStatement gw bd es' u ts = Inr ((posted_statement u s sh)\<lparr>st_Timestamp := ts\<rparr>)"
    using accepted v by (simp add: GetStatement_stored [OF ok2 u assms(7)])
  moreover have "u \<in> set pns" using e by (auto simp: out(2))
  ultimately show ?thesis using out(1) accepted(4) by blast
qed (use assms(3) in auto)

section \<open>The health\<close>

text \<open>Whether the height of a node can be told, or is only not known yet.\<close>

definition height_readable :: "gowaves \<Rightarrow> 'd buntDB \<Rightarrow> 'd Storage \<Rightarrow> string \<Rightarrow> bool" where
  "height_readable gw bd es url \<longleftrightarrow>
     (case LatestHeight gw bd es url of Inr h \<Rightarrow> True | Inl err \<Rightarrow> errors_Is err ErrNoFullStatement)"

lemma health_loop_status:
  "rw_status w \<in> {None, Some 500} \<Longrightarrow> rw_status (health_loop gw bd es ns w) =
     (if list_all (\<lambda>n. height_readable gw bd es (nd_URL n)) ns then rw_status w else Some 500)"
proof (induction ns arbitrary: w)
  case (Cons n ns)
  let ?w = "case LatestHeight gw bd es (nd_URL n) of Inr h \<Rightarrow> w
    | Inl lhErr \<Rightarrow> if \<not> errors_Is lhErr ErrNoFullStatement
        then http_Error w (''Failed to get non specific nodes: '' @ Error lhErr) StatusInternalServerError else w"
  have w: "rw_status ?w = (if height_readable gw bd es (nd_URL n) then rw_status w else Some 500)"
    using Cons.prems by (auto simp: height_readable_def http_defs Let_def split: sum.split)
  with Cons.IH [of ?w] Cons.prems show ?case by auto
qed simp

text \<open>
  The health check. It answers 200 if the enabled nodes can be listed and, for each of them,
  the latest height can be read or no full statement is stored yet; otherwise it answers 500,
  although the handler sets the status 200 at its end.
\<close>

theorem health_status:
  "sentStatus (health gw bd enabledNodes es newResponse) =
     (case enabledNodes of
        Inl err \<Rightarrow> 500
      | Inr nodes \<Rightarrow> if list_all (\<lambda>n. height_readable gw bd es (nd_URL n)) nodes then 200 else 500)"
proof (cases enabledNodes)
  case (Inl err)
  then show ?thesis by (simp add: health_def http_defs Let_def)
next
  case (Inr nodes)
  with health_loop_status [of newResponse gw bd es nodes] show ?thesis
    by (auto simp: health_def sentStatus_def WriteHeader_def newResponse_def StatusOK_def Let_def)
qed

section \<open>Witnesses\<close>

definition demo_doc :: json where
  "demo_doc = JObj [(''version'', JStr ''v1''), (''height'', JNum 7), (''blockId'', JStr ''B''), (''stateHash'', JStr ''S'')]"

definition demo_apiLib :: apiLib where
  "demo_apiLib = \<lparr>al_Decode = (\<lambda>b. Inr demo_doc), al_Encode = (\<lambda>v. Inr ''x''), al_NonNullableSlice = JArr\<rparr>"

definition demo_post :: httpRequest where
  "demo_post = \<lparr>hr_Body = ''body'', hr_readErr = None, hr_nodeName = ''c''\<rparr>"

lemma demo_encode: "\<forall>v. \<exists>b. al_Encode demo_apiLib v = Inr b"
  by (simp add: demo_apiLib_def)

lemma demo_clean: "cleanCRLF ''c'' = ''c''"
  by (simp add: cleanCRLF_def newline_def ReplaceAll_absent sublist_Cons_right)

lemma demo_posted_url: "posted_url demo_neturl demo_post = Inr ''http://c''"
  by (simp add: posted_url_def demo_post_def demo_clean demo_neturl_def CheckAndUpdateURL_def HTTPScheme_def
      Contains_def TrimPrefix_def sublist_Cons_right)

lemma demo_lower:
  "ToLower ''version'' = ''version''" "ToLower ''blockId'' = ''blockid''" "ToLower ''stateHash'' = ''statehash''"
  "ToLower ''node'' = ''node''" "ToLower ''height'' = ''height''"
  by code_simp+

lemma demo_parse:
  "parseStatementAndStateHash demo_gowaves demo_apiLib demo_neturl newResponse demo_post ''body'' =
     Inr (newResponse, Some (\<lparr>ns_Node = ''http://c'', ns_Version = ''v1'', ns_Height = 7\<rparr>,
       \<lparr>sh_BlockID = ''B'', sh_SumHash = ''S''\<rparr>))"
  using demo_posted_url
  by (simp add: parseStatementAndStateHash_def posted_url_def demo_apiLib_def demo_doc_def dec_ptr_def dec_struct_def
      Unmarshal_def nodeShortStatement_fields_def field_def zeroShortStatement_def dec_string_def dec_uint64_def
      StateHash_UnmarshalJSON_def stateHashJSON_fields_def dec_custom_def demo_gowaves_def demo_unjson_def zeroStateHash_def
      demo_lower)

lemma demo_handler:
  "specificNodesHandler demo_gowaves demo_apiLib demo_neturl (Inr [demo_node_of ''http://c'']) demo_post (\<lambda>_. None) newResponse =
     ([''http://c'' \<mapsto> specific_event \<lparr>ns_Node = ''http://c'', ns_Version = ''v1'', ns_Height = 7\<rparr>
        \<lparr>sh_BlockID = ''B'', sh_SumHash = ''S''\<rparr>],
      Inr \<lparr>rw_status = Some 200, rw_body = ''x''\<rparr>)"
  using demo_parse
  by (simp add: specificNodesHandler_def read_limited_def specificNodeRequestLimit_def demo_post_def specificNodeFound_iff
      api_minValidHeight_def demo_apiLib_def http_defs private_Write_def unsafeWrite_def)

lemma demo_url_ok: "node_ok ''http://c''"
  by (simp add: node_ok_def key_node_def literal_def statementKeyPartSeparator_def)

theorem pushed_statement_stored_witness:
  "\<exists>p1 w es' p2 out s sh. specificNodesHandler demo_gowaves demo_apiLib demo_neturl (Inr [demo_node_of ''http://c'']) demo_post
      (\<lambda>_. None) newResponse = (p1, Inr w) \<and>
    handlePrivateEvent demo_gowaves demo_db (Inr [demo_node_of ''http://c'']) demo_order
      (NodesGatheringComplete [''a''] 5) demo_events p1 = (es', p2, out) \<and>
    GetStatement demo_gowaves demo_db es' ''http://c'' 5 = Inr ((posted_statement ''http://c'' s sh)\<lparr>st_Timestamp := 5\<rparr>)"
proof -
  obtain p1 w where run: "specificNodesHandler demo_gowaves demo_apiLib demo_neturl (Inr [demo_node_of ''http://c'']) demo_post
      (\<lambda>_. None) newResponse = (p1, Inr w)" "sentStatus w = 200"
    using demo_handler by (auto simp: http_defs)
  obtain es' p2 out where round: "handlePrivateEvent demo_gowaves demo_db (Inr [demo_node_of ''http://c'']) demo_order
      (NodesGatheringComplete [''a''] 5) demo_events p1 = (es', p2, out)" by (metis surj_pair)
  have p: "private_ok (\<lambda>_. None)" by (simp add: private_ok_def)
  from pushed_statement_stored [OF run(1) demo_encode run(2) demo_posted_url demo_events_ok p _ _ demo_order_ok _ round]
  show ?thesis using run(1) round demo_url_ok by auto
qed

end
