(* ===== verification/Config.thy ===== *)
theory Config
  imports NodesStorage L2 Analyzer
begin

text \<open>
  The configuration of the service and the wiring that depends on it, from
  \<open>cmd/nodemon/nodemon.go\<close> and \<open>pkg/messaging/messaging_server.go\<close>: the validation of the
  parameters, the L2 nodes, the choice of the nodes storage, the analyzers and the merging of
  their alerts. Reading flags and the environment is in \<open>Flags\<close>, starting and stopping the services in
  \<open>Service\<close>. Durations are nanoseconds.
\<close>

section \<open>Parameters\<close>

abbreviation errInvalidParameters :: error where
  "errInvalidParameters \<equiv> Sentinel ErrInvalidParameters"

record nodemonL2Config =
  L2nodeURLs :: string
  L2nodeNames :: string

definition l2_present :: "nodemonL2Config \<Rightarrow> bool" where
  "l2_present c \<longleftrightarrow> L2nodeURLs c \<noteq> []"

definition l2_Nodes :: "nodemonL2Config \<Rightarrow> L2Node list" where
  "l2_Nodes c =
     (if \<not> l2_present c then []
      else
        let urls = Fields (L2nodeURLs c); names = Fields (L2nodeNames c)
        in map (\<lambda>i. \<lparr>l2n_URL = urls ! i, l2n_Name = (if length names = length urls then names ! i else urls ! i)\<rparr>)
             [0..<length urls])"

text \<open>\<open>parse\<close> is \<open>url.ParseRequestURI\<close>, of which only the error is used.\<close>

definition validateURLs :: "(string \<Rightarrow> error option) \<Rightarrow> string list \<Rightarrow> error option" where
  "validateURLs parse urls =
     errors_Join (map (\<lambda>i. map_option (\<lambda>err. wrapf err (FormatInt (int i + 1) @ ''-th URL '' @ squote (urls ! i) @ '' is invalid''))
       (parse (urls ! i))) [0..<length urls])"

definition l2_validate :: "(string \<Rightarrow> error option) \<Rightarrow> nodemonL2Config \<Rightarrow> error option" where
  "l2_validate parse c =
     (if \<not> l2_present c then None
      else
        let urls = Fields (L2nodeURLs c); names = Fields (L2nodeNames c)
        in if length names \<noteq> 0 \<and> length urls \<noteq> length names then Some errInvalidParameters
           else (case validateURLs parse urls of
                   Some err \<Rightarrow> errors_Join [Some errInvalidParameters, Some err]
                 | None \<Rightarrow> if [] \<in> set names then Some errInvalidParameters else None))"

record nodemonVaultConfig =
  vc_address :: string
  vc_user :: string
  vc_password :: string
  vc_mountPath :: string
  vc_secretPath :: string

definition vault_present :: "nodemonVaultConfig \<Rightarrow> bool" where
  "vault_present n \<longleftrightarrow> vc_address n \<noteq> []"

definition vault_validate :: "nodemonVaultConfig \<Rightarrow> error option" where
  "vault_validate n =
     (if vc_address n = [] then None
      else if vc_user n = [] then Some errInvalidParameters
      else if vc_password n = [] then Some errInvalidParameters
      else if vc_mountPath n = [] then Some errInvalidParameters
      else if vc_secretPath n = [] then Some errInvalidParameters
      else None)"

record natsOptionalConfig =
  nats_enable :: bool
  nats_serverAddress :: string
  nats_maxPayload :: uint64
  nats_readyForConnectionsTimeout :: int

record nodemonConfig =
  nc_storage :: string
  nc_nodes :: string
  nc_L2nodeName :: string
  nc_L2nodeURL :: string
  nc_bindAddress :: string
  nc_interval :: int
  nc_timeout :: int
  nc_natsMessagingURL :: string
  nc_natsPairTelegram :: bool
  nc_natsPairDiscord :: bool
  nc_natsTimeout :: int
  nc_retention :: int
  nc_apiReadTimeout :: int
  nc_baseTargetThreshold :: uint64
  nc_logLevel :: string
  nc_logType :: string
  nc_development :: bool
  nc_vault :: nodemonVaultConfig
  nc_l2 :: nodemonL2Config
  nc_scheme :: string
  nc_natsOptionalConfig :: natsOptionalConfig

definition nodemonConfig_validate :: "(string \<Rightarrow> error option) \<Rightarrow> nodemonConfig \<Rightarrow> error option" where
  "nodemonConfig_validate parse c =
     (if \<not> vault_present (nc_vault c) \<and> (length (nc_storage c) = 0 \<or> length (Fields (nc_storage c)) > 1)
      then Some errInvalidParameters
      else if nc_interval c \<le> 0 then Some errInvalidParameters
      else if nc_scheme c = [] then Some errInvalidParameters
      else if nc_timeout c \<le> 0 then Some errInvalidParameters
      else if nc_retention c \<le> 0 then Some errInvalidParameters
      else if nc_baseTargetThreshold c = 0 then Some errInvalidParameters
      else errors_Join [vault_validate (nc_vault c), l2_validate parse (nc_l2 c)])"

text \<open>The exit code of \<open>main\<close>; \<open>canceled\<close> tells whether an error is \<open>context.Canceled\<close>.\<close>

definition main_exitCode :: "(error \<Rightarrow> bool) \<Rightarrow> error option \<Rightarrow> int" where
  "main_exitCode canceled err =
     (case err of
        None \<Rightarrow> 0
      | Some e \<Rightarrow> if canceled e then 130 else if errors_Is e ErrInvalidParameters then 2 else 1)"

section \<open>Wiring\<close>

text \<open>\<open>client\<close> is the outcome of \<open>NewVaultSimpleClient\<close>.\<close>

definition createNodesStorage ::
    "'w os \<Rightarrow> error + 'w vault \<Rightarrow> neturl \<Rightarrow> nodemonConfig \<Rightarrow> 'w \<Rightarrow> 'w \<times> (error + 'w JSONStorage)" where
  "createNodesStorage fs client nu cfg w =
     (if vault_present (nc_vault cfg) then
        (case client of
           Inl clErr \<Rightarrow> (w, Inl clErr)
         | Inr cl \<Rightarrow> NewJSONVaultStorage cl nu w (vc_mountPath (nc_vault cfg)) (vc_secretPath (nc_vault cfg))
                       (Fields (nc_nodes cfg)))
      else NewJSONFileStorage fs nu w (nc_storage cfg) (Fields (nc_nodes cfg)))"

definition analyzerOptions :: "nodemonConfig \<Rightarrow> AnalyzerOptions" where
  "analyzerOptions cfg =
     zeroAnalyzerOptions\<lparr>ao_BaseTargetCriterionOpts := Some \<lparr>bto_Threshold = nc_baseTargetThreshold cfg\<rparr>\<rparr>"

text \<open>
  \<open>runAnalyzer\<close> and \<open>runAnalyzers\<close>: the alerts of the node analyzer, merged with those of the L2
  analyzers when there are any.
\<close>

definition runAnalyzer ::
    "gowaves \<Rightarrow> 'd buntDB \<Rightarrow> nodemonConfig \<Rightarrow> ('d Storage \<times> Notification) list \<Rightarrow> Alert list \<Rightarrow> bool" where
  "runAnalyzer gw bd cfg notifications alerts \<longleftrightarrow>
     (\<exists>s. Start gw bd (fst (NewAnalyzer (Some (analyzerOptions cfg)))) (snd (NewAnalyzer (Some (analyzerOptions cfg))))
        notifications alerts s)"

definition runAnalyzers ::
    "gowaves \<Rightarrow> 'd buntDB \<Rightarrow> nodemonConfig \<Rightarrow> ('d Storage \<times> Notification) list \<Rightarrow> int \<Rightarrow> Alert list \<Rightarrow> bool" where
  "runAnalyzers gw bd cfg notifications now out \<longleftrightarrow>
     (\<exists>alerts. runAnalyzer gw bd cfg notifications alerts \<and>
        (if l2_present (nc_l2 cfg)
         then \<exists>alertL2. RunL2Analyzers gw (l2_Nodes (nc_l2 cfg)) now alertL2 \<and> FanIn [alerts, alertL2] out
         else out = alerts))"

section \<open>The embedded NATS server\<close>

text \<open>The standard library's \<open>net.SplitHostPort\<close>, and the server: creating it, and whether it gets ready.\<close>

record natsServer =
  sv_SplitHostPort :: "string \<Rightarrow> error + string \<times> string"
  sv_NewServer :: "int \<Rightarrow> string \<Rightarrow> int \<Rightarrow> error option"
  sv_Ready :: "int \<Rightarrow> bool"

text \<open>The error of \<open>RunNatsMessagingServer\<close>, nil for success, and whether a server was started and not shut down.\<close>

definition RunNatsMessagingServer :: "natsServer \<Rightarrow> string \<Rightarrow> uint64 \<Rightarrow> int \<Rightarrow> error option \<times> bool" where
  "RunNatsMessagingServer sv serverAddress maxPayload connectionTimeout =
     (case sv_SplitHostPort sv serverAddress of
        Inl err \<Rightarrow> (Some (Errorf (''failed to parse host and port: '' @ Error err)), False)
      | Inr (host, portString) \<Rightarrow>
          (case Atoi portString of
             Inl err \<Rightarrow> (Some (Errorf (''failed to parse port from the URL: '' @ Error err)), False)
           | Inr port \<Rightarrow>
               if port \<le> 0 \<or> port > 65535 then (Some (Errorf (''invalid port number ('' @ FormatInt port @ '')'')), False)
               else if connectionTimeout \<le> 0 then (Some (Errorf ''connection timeout must be positive''), False)
               else if uint maxPayload > 2147483647 then
                 (Some (Errorf ''max payload is too big, must be in range of int32''), False)
               else (case sv_NewServer sv (uint maxPayload) host port of
                       Some err \<Rightarrow> (Some (wrapf err ''failed to create NATS server''), False)
                     | None \<Rightarrow>
                         if \<not> sv_Ready sv connectionTimeout then (Some (Errorf ''NATS server is not ready for connections''), False)
                         else (None, True))))"

section \<open>What validation guarantees\<close>

lemma errors_Join_Nil_iff: "errors_Join es = None \<longleftrightarrow> set es \<subseteq> {None}"
  by (auto simp: errors_Join_None_iff)

lemma validateURLs_None: "validateURLs parse urls = None \<longleftrightarrow> (\<forall>u \<in> set urls. parse u = None)"
  by (auto simp: validateURLs_def errors_Join_None_iff set_conv_nth)

lemma l2_Nodes_urls: "map l2n_URL (l2_Nodes c) = Fields (L2nodeURLs c)"
  by (cases "l2_present c")
    (auto simp: l2_Nodes_def Let_def comp_def map_nth l2_present_def Fields.simps [of "[]"])

lemma l2_Nodes_names:
  "map l2n_Name (l2_Nodes c) = Fields (L2nodeNames c) \<or> map l2n_Name (l2_Nodes c) = Fields (L2nodeURLs c)"
proof (cases "l2_present c \<and> length (Fields (L2nodeNames c)) = length (Fields (L2nodeURLs c))")
  case True
  then have "map l2n_Name (l2_Nodes c) = map (\<lambda>i. Fields (L2nodeNames c) ! i) [0..<length (Fields (L2nodeNames c))]"
    by (simp add: l2_Nodes_def Let_def comp_def)
  then show ?thesis by (simp add: map_nth)
next
  case False
  then have "map l2n_Name (l2_Nodes c) = Fields (L2nodeURLs c)"
    by (cases "l2_present c") (auto simp: l2_Nodes_def Let_def comp_def map_nth l2_present_def Fields.simps [of "[]"])
  then show ?thesis ..
qed

text \<open>
  What a validated configuration guarantees. The intervals are positive, the scheme is given,
  the base target criterion can be made from the options of the analyzer; a Vault, if there is
  one, has user, password, mount and secret path, otherwise the path of the file is one word;
  and there is one L2 node for each configured URL, each URL parses, and the nodes carry the
  configured names in order, or their URLs when no names are given.
\<close>

theorem validated_config:
  assumes "nodemonConfig_validate parse c = None"
  shows "0 < nc_interval c \<and> 0 < nc_timeout c \<and> 0 < nc_retention c \<and> nc_scheme c \<noteq> [] \<and>
    (\<exists>criterion. NewBaseTargetCriterion (ao_BaseTargetCriterionOpts (fst (NewAnalyzer (Some (analyzerOptions c))))) = Inr criterion) \<and>
    (if vault_present (nc_vault c)
     then vc_user (nc_vault c) \<noteq> [] \<and> vc_password (nc_vault c) \<noteq> [] \<and> vc_mountPath (nc_vault c) \<noteq> [] \<and>
       vc_secretPath (nc_vault c) \<noteq> []
     else nc_storage c \<noteq> [] \<and> length (Fields (nc_storage c)) \<le> 1) \<and>
    map l2n_URL (l2_Nodes (nc_l2 c)) = Fields (L2nodeURLs (nc_l2 c)) \<and>
    (\<forall>u \<in> set (Fields (L2nodeURLs (nc_l2 c))). parse u = None) \<and>
    (map l2n_Name (l2_Nodes (nc_l2 c)) = Fields (L2nodeNames (nc_l2 c)) \<or>
     map l2n_Name (l2_Nodes (nc_l2 c)) = Fields (L2nodeURLs (nc_l2 c)))"
proof -
  have base: "0 < nc_interval c" "0 < nc_timeout c" "0 < nc_retention c" "nc_scheme c \<noteq> []" "nc_baseTargetThreshold c \<noteq> 0"
    and storage: "vault_present (nc_vault c) \<or> nc_storage c \<noteq> [] \<and> length (Fields (nc_storage c)) \<le> 1"
    and vault: "vault_validate (nc_vault c) = None" and l2: "l2_validate parse (nc_l2 c) = None"
    using assms by (auto simp: nodemonConfig_validate_def errors_Join_None_iff split: if_splits)
  have criterion: "\<exists>criterion. NewBaseTargetCriterion
      (ao_BaseTargetCriterionOpts (fst (NewAnalyzer (Some (analyzerOptions c))))) = Inr criterion"
    using base(5) by (simp add: NewAnalyzer_def analyzerOptions_def Let_def NewBaseTargetCriterion_def)
  have v: "vc_user (nc_vault c) \<noteq> [] \<and> vc_password (nc_vault c) \<noteq> [] \<and> vc_mountPath (nc_vault c) \<noteq> [] \<and>
      vc_secretPath (nc_vault c) \<noteq> []" if "vault_present (nc_vault c)"
    using vault that by (auto simp: vault_validate_def vault_present_def split: if_splits)
  have parsed: "\<forall>u \<in> set (Fields (L2nodeURLs (nc_l2 c))). parse u = None"
    using l2 validateURLs_None by (auto simp: l2_validate_def Let_def l2_present_def errors_Join_None_iff
        Fields.simps [of "[]"] split: if_splits option.splits)
  have names: "map l2n_Name (l2_Nodes (nc_l2 c)) = Fields (L2nodeNames (nc_l2 c)) \<or>
      map l2n_Name (l2_Nodes (nc_l2 c)) = Fields (L2nodeURLs (nc_l2 c))"
    by (rule l2_Nodes_names)
  show ?thesis using base(1-4) criterion storage v l2_Nodes_urls parsed names by auto
qed

definition demo_config :: nodemonConfig where
  "demo_config =
     \<lparr>nc_storage = ''f'', nc_nodes = [], nc_L2nodeName = [], nc_L2nodeURL = [], nc_bindAddress = '':8080'', nc_interval = 60,
      nc_timeout = 15, nc_natsMessagingURL = [], nc_natsPairTelegram = True, nc_natsPairDiscord = False, nc_natsTimeout = 5,
      nc_retention = 100, nc_apiReadTimeout = 30, nc_baseTargetThreshold = 7, nc_logLevel = ''INFO'', nc_logType = ''pretty'',
      nc_development = False,
      nc_vault = \<lparr>vc_address = [], vc_user = [], vc_password = [], vc_mountPath = [], vc_secretPath = []\<rparr>,
      nc_l2 = \<lparr>L2nodeURLs = ''u v'', L2nodeNames = []\<rparr>, nc_scheme = ''W'',
      nc_natsOptionalConfig = \<lparr>nats_enable = False, nats_serverAddress = [], nats_maxPayload = 0,
        nats_readyForConnectionsTimeout = 5\<rparr>\<rparr>"

lemma demo_Fields: "Fields ''f'' = [''f'']" "Fields ''u v'' = [''u'', ''v'']" "Fields [] = []"
  by (simp_all add: Fields.simps [of "[]"] Fields.simps [of "''f''"] Fields.simps [of "''u v''"] Fields.simps [of "'' v''"]
      Fields.simps [of "''v''"] is_space_def)

theorem validated_config_witness:
  "nodemonConfig_validate (\<lambda>u. None) demo_config = None \<and> map l2n_Name (l2_Nodes (nc_l2 demo_config)) = [''u'', ''v''] \<and>
    0 < nc_retention demo_config"
proof -
  have v: "nodemonConfig_validate (\<lambda>u. None) demo_config = None"
    by (simp add: nodemonConfig_validate_def demo_config_def vault_present_def vault_validate_def l2_validate_def l2_present_def
        demo_Fields validateURLs_def errors_Join_def List.map_filter_def)
  from validated_config [OF v] v show ?thesis by (auto simp: demo_config_def l2_Nodes_def l2_present_def demo_Fields)
qed

text \<open>
  The embedded server starts only on a port and with a payload in range; it never returns an
  error and leaves a server behind.
\<close>

lemma nats_server_started:
  "RunNatsMessagingServer sv addr maxPayload timeout = (err, started) \<Longrightarrow> started \<longleftrightarrow> err = None"
  by (auto simp: RunNatsMessagingServer_def split: sum.splits prod.splits if_splits option.splits)

end
