(* ===== verification/Flags.thy ===== *)
theory Flags
  imports Config
begin

text \<open>
  How the parameters of the three programs get their values: \<open>pkg/tools/flag.go\<close> over the standard
  package flag, and the constructors of the configurations. The configuration is the state that the
  pointers of the flags write to: a pointer is its write function. Defining a flag is a step on that
  state, and the constructor of a part of the configuration is a list of such steps. The environment, the arguments,
  \<open>strcase.UpperSnakeCase\<close> and \<open>time.ParseDuration\<close> are parameters. The left side of a sum is the exit
  code of the process: 1 for \<open>log.Fatal\<close>, 2 for an invalid command line or a panic, 0 after the
  help text.
\<close>

section \<open>Numbers on the command line\<close>

text \<open>
  The flag package reads integers with base 0: a prefix gives the base, and underscores may
  separate digits. The texts of the errors are only printed.
\<close>

definition base_prefix :: "string \<Rightarrow> nat \<times> string" where
  "base_prefix s =
     (case s of
        c0 # c1 # rest \<Rightarrow>
          if c0 = CHR ''0'' then
            if rest \<noteq> [] \<and> lower_char c1 = CHR ''b'' then (2, rest)
            else if rest \<noteq> [] \<and> lower_char c1 = CHR ''o'' then (8, rest)
            else if rest \<noteq> [] \<and> lower_char c1 = CHR ''x'' then (16, rest)
            else (8, c1 # rest)
          else (10, s)
      | [c0] \<Rightarrow> if c0 = CHR ''0'' then (8, []) else (10, s)
      | [] \<Rightarrow> (10, s))"

fun underscore_loop :: "bool \<Rightarrow> char \<Rightarrow> string \<Rightarrow> bool" where
  "underscore_loop hex saw [] \<longleftrightarrow> saw \<noteq> CHR ''_''"
| "underscore_loop hex saw (c # cs) \<longleftrightarrow>
     (if (case digit_val c of None \<Rightarrow> False | Some d \<Rightarrow> d < (if hex then 16 else 10)) then underscore_loop hex CHR ''0'' cs
      else if c = CHR ''_'' then saw = CHR ''0'' \<and> underscore_loop hex CHR ''_'' cs
      else saw \<noteq> CHR ''_'' \<and> underscore_loop hex CHR ''!'' cs)"

definition underscoreOK :: "string \<Rightarrow> bool" where
  "underscoreOK s =
     (case s of
        c0 # c1 # rest \<Rightarrow>
          if c0 = CHR ''0'' \<and> lower_char c1 \<in> {CHR ''b'', CHR ''o'', CHR ''x''}
          then underscore_loop (lower_char c1 = CHR ''x'') CHR ''0'' rest
          else underscore_loop False CHR ''^'' s
      | _ \<Rightarrow> underscore_loop False CHR ''^'' s)"

definition ParseUint0 :: "string \<Rightarrow> error + nat" where
  "ParseUint0 s =
     (if s = [] then Inl (Errorf ''parse error'')
      else
        let (base, digits) = base_prefix s
        in case parse_digits base 0 (filter (\<lambda>c. c \<noteq> CHR ''_'') digits) of
             None \<Rightarrow> Inl (Errorf ''parse error'')
           | Some n \<Rightarrow>
               if 2 ^ 64 \<le> n then Inl (Errorf ''value out of range'')
               else if CHR ''_'' \<in> set digits \<and> \<not> underscoreOK s then Inl (Errorf ''parse error'')
               else Inr n)"

definition ParseInt0 :: "string \<Rightarrow> error + int" where
  "ParseInt0 s =
     (let (neg, ds) =
        (case s of [] \<Rightarrow> (False, [])
         | c # cs \<Rightarrow> if c = CHR ''-'' then (True, cs) else if c = CHR ''+'' then (False, cs) else (False, s))
      in case ParseUint0 ds of
           Inl e \<Rightarrow> Inl e
         | Inr n \<Rightarrow>
             if \<not> neg \<and> 2 ^ 63 \<le> n then Inl (Errorf ''value out of range'')
             else if neg \<and> 2 ^ 63 < n then Inl (Errorf ''value out of range'')
             else Inr (if neg then - int n else int n))"

definition ParseBool :: "string \<Rightarrow> error + bool" where
  "ParseBool s =
     (if s \<in> {''1'', ''t'', ''T'', ''TRUE'', ''true'', ''True''} then Inr True
      else if s \<in> {''0'', ''f'', ''F'', ''FALSE'', ''false'', ''False''} then Inr False
      else Inl (Errorf ''parse error''))"

text \<open>A natural number that a \<open>strconv\<close> function found to fit, as the \<open>uint64\<close> that Go has.\<close>

definition to_uint64 :: "error + nat \<Rightarrow> error + uint64" where
  "to_uint64 r = map_sum id of_nat r"

section \<open>The package flag\<close>

record flagEnv =
  fe_LookupEnv :: "string \<Rightarrow> string option"
  fe_UpperSnakeCase :: "string \<Rightarrow> string"
  fe_ParseDuration :: "string \<Rightarrow> error + int"

record 'c flag =
  fl_Name :: string
  fl_IsBool :: bool
  fl_Set :: "string \<Rightarrow> 'c \<Rightarrow> error + 'c"

type_synonym 'c flagSet = "'c \<times> 'c flag list"

definition newFlag :: "bool \<Rightarrow> (string \<Rightarrow> error + 'a) \<Rightarrow> ('a \<Rightarrow> 'c \<Rightarrow> 'c) \<Rightarrow> string \<Rightarrow> 'c flag" where
  "newFlag isBool parse p name =
     \<lparr>fl_Name = name, fl_IsBool = isBool,
      fl_Set = (\<lambda>s c. case parse s of Inl err \<Rightarrow> Inl err | Inr v \<Rightarrow> Inr (p v c))\<rparr>"

text \<open>Defining a flag writes its default value; a bad or repeated name is a panic.\<close>

definition Var ::
    "bool \<Rightarrow> (string \<Rightarrow> error + 'a) \<Rightarrow> ('a \<Rightarrow> 'c \<Rightarrow> 'c) \<Rightarrow> string \<Rightarrow> 'a \<Rightarrow> 'c flagSet \<Rightarrow> int + 'c flagSet" where
  "Var isBool parse p name value fs =
     (let (c, formal) = fs in
      if prefix ''-'' name \<or> CHR ''='' \<in> set name \<or> name \<in> fl_Name ` set formal then Inl 2
      else Inr (p value c, formal @ [newFlag isBool parse p name]))"

text \<open>One argument: where the flags end, a syntax error, or a name with the value after \<open>=\<close>.\<close>

datatype arg = NoFlag | BadFlag | FlagArg string "string option"

definition read_arg :: "string \<Rightarrow> arg" where
  "read_arg s =
     (if length s < 2 \<or> hd s \<noteq> CHR ''-'' then NoFlag
      else if s = ''--'' then NoFlag
      else
        let name = (if s ! 1 = CHR ''-'' then drop 2 s else drop 1 s)
        in if name = [] \<or> hd name = CHR ''-'' \<or> hd name = CHR ''='' then BadFlag
           else if CHR ''='' \<in> set name
           then FlagArg (takeWhile (\<lambda>c. c \<noteq> CHR ''='') name) (Some (tl (dropWhile (\<lambda>c. c \<noteq> CHR ''='') name)))
           else FlagArg name None)"

text \<open>\<open>flag.Parse\<close>: the arguments after the flags are not used.\<close>

fun Parse :: "'c flag list \<Rightarrow> string list \<Rightarrow> 'c \<Rightarrow> int + 'c" where
  "Parse formal [] c = Inr c"
| "Parse formal (s # args) c =
     (case read_arg s of
        NoFlag \<Rightarrow> Inr c
      | BadFlag \<Rightarrow> Inl 2
      | FlagArg name value \<Rightarrow>
          (case List.find (\<lambda>f. fl_Name f = name) formal of
             None \<Rightarrow> if name \<in> {''help'', ''h''} then Inl 0 else Inl 2
           | Some f \<Rightarrow>
               if fl_IsBool f then
                 (case fl_Set f (case value of None \<Rightarrow> ''true'' | Some v \<Rightarrow> v) c of
                    Inl err \<Rightarrow> Inl 2
                  | Inr c' \<Rightarrow> Parse formal args c')
               else (case value of
                       Some v \<Rightarrow> (case fl_Set f v c of Inl err \<Rightarrow> Inl 2 | Inr c' \<Rightarrow> Parse formal args c')
                     | None \<Rightarrow>
                         (case args of [] \<Rightarrow> Inl 2
                          | v # args' \<Rightarrow>
                              (case fl_Set f v c of Inl err \<Rightarrow> Inl 2 | Inr c' \<Rightarrow> Parse formal args' c')))))"

section \<open>Flags with defaults from the environment\<close>

definition lookupEnvOrValue :: "flagEnv \<Rightarrow> string \<Rightarrow> 'a \<Rightarrow> (string \<Rightarrow> error + 'a) \<Rightarrow> int + 'a" where
  "lookupEnvOrValue fe envKey defaultVal parse =
     (case fe_LookupEnv fe envKey of
        Some val \<Rightarrow> (case parse val of Inl err \<Rightarrow> Inl 1 | Inr parsedVal \<Rightarrow> Inr parsedVal)
      | None \<Rightarrow> Inr defaultVal)"

definition lookupEnvOrString :: "flagEnv \<Rightarrow> string \<Rightarrow> string \<Rightarrow> int + string" where
  "lookupEnvOrString fe envKey defaultVal = lookupEnvOrValue fe envKey defaultVal Inr"

definition lookupEnvOrInt :: "flagEnv \<Rightarrow> string \<Rightarrow> int \<Rightarrow> int + int" where
  "lookupEnvOrInt fe envKey defaultVal = lookupEnvOrValue fe envKey defaultVal Atoi"

definition lookupEnvOrInt64 :: "flagEnv \<Rightarrow> string \<Rightarrow> int \<Rightarrow> int + int" where
  "lookupEnvOrInt64 fe envKey defaultVal = lookupEnvOrValue fe envKey defaultVal (ParseInt 10)"

definition lookupEnvOrUint64 :: "flagEnv \<Rightarrow> string \<Rightarrow> uint64 \<Rightarrow> int + uint64" where
  "lookupEnvOrUint64 fe envKey defaultVal = lookupEnvOrValue fe envKey defaultVal (\<lambda>val. to_uint64 (ParseUint 10 val))"

definition lookupEnvOrDuration :: "flagEnv \<Rightarrow> string \<Rightarrow> int \<Rightarrow> int + int" where
  "lookupEnvOrDuration fe envKey defaultVal = lookupEnvOrValue fe envKey defaultVal (fe_ParseDuration fe)"

definition lookupEnvOrBool :: "flagEnv \<Rightarrow> string \<Rightarrow> bool \<Rightarrow> int + bool" where
  "lookupEnvOrBool fe envKey defaultVal = lookupEnvOrValue fe envKey defaultVal ParseBool"

text \<open>A default that is computed first, then the flag.\<close>

definition with_default :: "int + 'a \<Rightarrow> ('a \<Rightarrow> 'c flagSet \<Rightarrow> int + 'c flagSet) \<Rightarrow> 'c flagSet \<Rightarrow> int + 'c flagSet" where
  "with_default r define_flag fs = (case r of Inl code \<Rightarrow> Inl code | Inr value \<Rightarrow> define_flag value fs)"

definition StringVarFlagWithEnv :: "flagEnv \<Rightarrow> (string \<Rightarrow> 'c \<Rightarrow> 'c) \<Rightarrow> string \<Rightarrow> string \<Rightarrow> 'c flagSet \<Rightarrow> int + 'c flagSet" where
  "StringVarFlagWithEnv fe p name value =
     with_default (lookupEnvOrString fe (fe_UpperSnakeCase fe name) value) (Var False Inr p name)"

definition IntVarFlagWithEnv :: "flagEnv \<Rightarrow> (int \<Rightarrow> 'c \<Rightarrow> 'c) \<Rightarrow> string \<Rightarrow> int \<Rightarrow> 'c flagSet \<Rightarrow> int + 'c flagSet" where
  "IntVarFlagWithEnv fe p name value =
     with_default (lookupEnvOrInt fe (fe_UpperSnakeCase fe name) value) (Var False ParseInt0 p name)"

definition Int64VarFlagWithEnv :: "flagEnv \<Rightarrow> (int \<Rightarrow> 'c \<Rightarrow> 'c) \<Rightarrow> string \<Rightarrow> int \<Rightarrow> 'c flagSet \<Rightarrow> int + 'c flagSet" where
  "Int64VarFlagWithEnv fe p name value =
     with_default (lookupEnvOrInt64 fe (fe_UpperSnakeCase fe name) value) (Var False ParseInt0 p name)"

definition Uint64VarFlagWithEnv ::
    "flagEnv \<Rightarrow> (uint64 \<Rightarrow> 'c \<Rightarrow> 'c) \<Rightarrow> string \<Rightarrow> uint64 \<Rightarrow> 'c flagSet \<Rightarrow> int + 'c flagSet" where
  "Uint64VarFlagWithEnv fe p name value =
     with_default (lookupEnvOrUint64 fe (fe_UpperSnakeCase fe name) value)
       (Var False (\<lambda>s. to_uint64 (ParseUint0 s)) p name)"

definition DurationVarFlagWithEnv :: "flagEnv \<Rightarrow> (int \<Rightarrow> 'c \<Rightarrow> 'c) \<Rightarrow> string \<Rightarrow> int \<Rightarrow> 'c flagSet \<Rightarrow> int + 'c flagSet" where
  "DurationVarFlagWithEnv fe p name value =
     with_default (lookupEnvOrDuration fe (fe_UpperSnakeCase fe name) value) (Var False (fe_ParseDuration fe) p name)"

definition BoolVarFlagWithEnv :: "flagEnv \<Rightarrow> (bool \<Rightarrow> 'c \<Rightarrow> 'c) \<Rightarrow> string \<Rightarrow> bool \<Rightarrow> 'c flagSet \<Rightarrow> int + 'c flagSet" where
  "BoolVarFlagWithEnv fe p name value =
     with_default (lookupEnvOrBool fe (fe_UpperSnakeCase fe name) value) (Var True ParseBool p name)"

text \<open>Statements one after the other, up to the end of the process.\<close>

fun in_sequence :: "('s \<Rightarrow> int + 's) list \<Rightarrow> 's \<Rightarrow> int + 's" where
  "in_sequence [] s = Inr s"
| "in_sequence (f # fs) s = (case f s of Inl code \<Rightarrow> Inl code | Inr s' \<Rightarrow> in_sequence fs s')"

section \<open>The parameters of the service\<close>

definition seconds :: "int \<Rightarrow> int" where
  "seconds n = n * 1000000000"

definition zeroNodemonConfig :: nodemonConfig where
  "zeroNodemonConfig =
     \<lparr>nc_storage = [], nc_nodes = [], nc_L2nodeName = [], nc_L2nodeURL = [], nc_bindAddress = [], nc_interval = 0,
      nc_timeout = 0, nc_natsMessagingURL = [], nc_natsPairTelegram = False, nc_natsPairDiscord = False,
      nc_natsTimeout = 0, nc_retention = 0, nc_apiReadTimeout = 0, nc_baseTargetThreshold = 0, nc_logLevel = [],
      nc_logType = [], nc_development = False,
      nc_vault = \<lparr>vc_address = [], vc_user = [], vc_password = [], vc_mountPath = [], vc_secretPath = []\<rparr>,
      nc_l2 = \<lparr>L2nodeURLs = [], L2nodeNames = []\<rparr>, nc_scheme = [],
      nc_natsOptionalConfig = \<lparr>nats_enable = False, nats_serverAddress = [], nats_maxPayload = 0,
        nats_readyForConnectionsTimeout = 0\<rparr>\<rparr>"

definition newNodemonVaultConfig ::
    "flagEnv \<Rightarrow> ((nodemonVaultConfig \<Rightarrow> nodemonVaultConfig) \<Rightarrow> 'c \<Rightarrow> 'c) \<Rightarrow> ('c flagSet \<Rightarrow> int + 'c flagSet) list" where
  "newNodemonVaultConfig fe c = [
     StringVarFlagWithEnv fe (\<lambda>v. c (vc_address_update (\<lambda>_. v))) ''vault-address'' [],
     StringVarFlagWithEnv fe (\<lambda>v. c (vc_user_update (\<lambda>_. v))) ''vault-user'' [],
     StringVarFlagWithEnv fe (\<lambda>v. c (vc_password_update (\<lambda>_. v))) ''vault-password'' [],
     StringVarFlagWithEnv fe (\<lambda>v. c (vc_mountPath_update (\<lambda>_. v))) ''vault-mount-path'' ''gonodemonitoring'',
     StringVarFlagWithEnv fe (\<lambda>v. c (vc_secretPath_update (\<lambda>_. v))) ''vault-secret-path'' []]"

definition newNodemonL2Config ::
    "flagEnv \<Rightarrow> ((nodemonL2Config \<Rightarrow> nodemonL2Config) \<Rightarrow> 'c \<Rightarrow> 'c) \<Rightarrow> ('c flagSet \<Rightarrow> int + 'c flagSet) list" where
  "newNodemonL2Config fe c = [
     StringVarFlagWithEnv fe (\<lambda>v. c (L2nodeURLs_update (\<lambda>_. v))) ''l2-urls'' [],
     StringVarFlagWithEnv fe (\<lambda>v. c (L2nodeNames_update (\<lambda>_. v))) ''l2-names'' []]"

definition natsConnectionsTimeoutDefault :: int where
  "natsConnectionsTimeoutDefault = seconds 5"

definition natsMaxPayloadSize :: int where
  "natsMaxPayloadSize = 1024 * 1024"

definition newNatsOptionalConfig ::
    "flagEnv \<Rightarrow> ((natsOptionalConfig \<Rightarrow> natsOptionalConfig) \<Rightarrow> 'c \<Rightarrow> 'c) \<Rightarrow> ('c flagSet \<Rightarrow> int + 'c flagSet) list" where
  "newNatsOptionalConfig fe c = [
     BoolVarFlagWithEnv fe (\<lambda>v. c (nats_enable_update (\<lambda>_. v))) ''nats-server-enable'' False,
     StringVarFlagWithEnv fe (\<lambda>v. c (nats_serverAddress_update (\<lambda>_. v))) ''nats-server-address'' ''127.0.0.1:4222'',
     Uint64VarFlagWithEnv fe (\<lambda>v. c (nats_maxPayload_update (\<lambda>_. v))) ''nats-server-max-payload''
       (word_of_int natsMaxPayloadSize),
     DurationVarFlagWithEnv fe (\<lambda>v. c (nats_readyForConnectionsTimeout_update (\<lambda>_. v))) ''nats-server-ready-timeout''
       natsConnectionsTimeoutDefault]"

definition nodemonFlags :: "flagEnv \<Rightarrow> nodemonConfig flagSet \<Rightarrow> int + nodemonConfig flagSet" where
  "nodemonFlags fe = in_sequence ([
     StringVarFlagWithEnv fe (\<lambda>v. nc_storage_update (\<lambda>_. v)) ''storage'' ''.nodes.json'',
     StringVarFlagWithEnv fe (\<lambda>v. nc_nodes_update (\<lambda>_. v)) ''nodes'' [],
     StringVarFlagWithEnv fe (\<lambda>v. nc_bindAddress_update (\<lambda>_. v)) ''bind'' '':8080'',
     DurationVarFlagWithEnv fe (\<lambda>v. nc_interval_update (\<lambda>_. v)) ''interval'' (seconds 60),
     DurationVarFlagWithEnv fe (\<lambda>v. nc_timeout_update (\<lambda>_. v)) ''timeout'' (seconds 15),
     Uint64VarFlagWithEnv fe (\<lambda>v. nc_baseTargetThreshold_update (\<lambda>_. v)) ''base-target-threshold'' 0,
     StringVarFlagWithEnv fe (\<lambda>v. nc_natsMessagingURL_update (\<lambda>_. v)) ''nats-msg-url'' ''nats://127.0.0.1:4222'',
     DurationVarFlagWithEnv fe (\<lambda>v. nc_natsTimeout_update (\<lambda>_. v)) ''nats-connection-timeout''
       natsConnectionsTimeoutDefault,
     DurationVarFlagWithEnv fe (\<lambda>v. nc_retention_update (\<lambda>_. v)) ''retention'' (seconds (12 * 3600)),
     DurationVarFlagWithEnv fe (\<lambda>v. nc_apiReadTimeout_update (\<lambda>_. v)) ''api-read-timeout'' (seconds 30),
     BoolVarFlagWithEnv fe (\<lambda>v. nc_development_update (\<lambda>_. v)) ''development'' False,
     BoolVarFlagWithEnv fe (\<lambda>v. nc_natsPairDiscord_update (\<lambda>_. v)) ''bot-requests-discord'' False,
     BoolVarFlagWithEnv fe (\<lambda>v. nc_natsPairTelegram_update (\<lambda>_. v)) ''bot-requests-telegram'' True,
     StringVarFlagWithEnv fe (\<lambda>v. nc_logLevel_update (\<lambda>_. v)) ''log-level'' ''INFO'',
     StringVarFlagWithEnv fe (\<lambda>v. nc_logType_update (\<lambda>_. v)) ''log-type'' ''pretty'',
     StringVarFlagWithEnv fe (\<lambda>v. nc_scheme_update (\<lambda>_. v)) ''scheme'' []] @
     newNodemonVaultConfig fe nc_vault_update @
     newNodemonL2Config fe nc_l2_update @
     newNatsOptionalConfig fe nc_natsOptionalConfig_update)"

definition newNodemonConfig :: "flagEnv \<Rightarrow> int + nodemonConfig flagSet" where
  "newNodemonConfig fe = nodemonFlags fe (zeroNodemonConfig, [])"

text \<open>The first two statements of each program: the constructor of its configuration and \<open>flag.Parse\<close>.\<close>

definition parsed :: "int + 'c flagSet \<Rightarrow> string list \<Rightarrow> int + 'c" where
  "parsed registered args = (case registered of Inl code \<Rightarrow> Inl code | Inr (c, formal) \<Rightarrow> Parse formal args c)"

section \<open>What the command line says\<close>

text \<open>The flags that the arguments give, with their values, in order; \<open>isBool\<close> are the names of the boolean flags.\<close>

fun givenFlags :: "string set \<Rightarrow> string list \<Rightarrow> (string \<times> string) list" where
  "givenFlags isBool [] = []"
| "givenFlags isBool (s # args) =
     (case read_arg s of
        FlagArg name value \<Rightarrow>
          if name \<in> isBool then (name, case value of None \<Rightarrow> ''true'' | Some v \<Rightarrow> v) # givenFlags isBool args
          else (case value of
                  Some v \<Rightarrow> (name, v) # givenFlags isBool args
                | None \<Rightarrow> (case args of [] \<Rightarrow> [] | v # args' \<Rightarrow> (name, v) # givenFlags isBool args'))
      | _ \<Rightarrow> [])"

text \<open>The last value given for a flag counts.\<close>

definition onCommandLine :: "string set \<Rightarrow> string list \<Rightarrow> string \<Rightarrow> string option" where
  "onCommandLine isBool args name = map_of (rev (givenFlags isBool args)) name"

definition boolFlags :: "'c flag list \<Rightarrow> string set" where
  "boolFlags formal = fl_Name ` {f \<in> set formal. fl_IsBool f}"

text \<open>A field that only one flag writes has the value of the last use of this flag.\<close>

definition only_set_by :: "string \<Rightarrow> (string \<Rightarrow> error + 'a) \<Rightarrow> ('c \<Rightarrow> 'a) \<Rightarrow> 'c flag list \<Rightarrow> bool" where
  "only_set_by name parse sel formal \<longleftrightarrow>
     (\<forall>f \<in> set formal. \<forall>v c c'. fl_Set f v c = Inr c' \<longrightarrow>
        (if fl_Name f = name then parse v = Inr (sel c') else sel c' = sel c))"

lemma find_name:
  "List.find (\<lambda>f. fl_Name f = name) formal = Some f \<Longrightarrow> f \<in> set formal \<and> fl_Name f = name"
  by (auto simp: find_Some_iff)

lemma distinct_name:
  "distinct (map fl_Name formal) \<Longrightarrow> f \<in> set formal \<Longrightarrow> fl_Name f \<in> boolFlags formal \<longleftrightarrow> fl_IsBool f"
  by (auto simp: distinct_map inj_on_def boolFlags_def)

definition field_after :: "string \<Rightarrow> (string \<Rightarrow> error + 'a) \<Rightarrow> 'a \<Rightarrow> (string \<times> string) list \<Rightarrow> 'a \<Rightarrow> bool" where
  "field_after name parse before gs after \<longleftrightarrow>
     (case map_of (rev gs) name of None \<Rightarrow> after = before | Some v \<Rightarrow> parse v = Inr after)"

lemma field_after_Cons:
  assumes "field_after name parse mid gs after"
    and "if n = name then parse v = Inr mid else mid = before"
  shows "field_after name parse before ((n, v) # gs) after"
  using assms by (auto simp: field_after_def map_add_def split: option.splits if_splits)

lemma Parse_field:
  assumes "Parse formal args c = Inr c'" "distinct (map fl_Name formal)" "only_set_by name parse sel formal"
  shows "field_after name parse (sel c) (givenFlags (boolFlags formal) args) (sel c')"
  using assms
proof (induction formal args c rule: Parse.induct)
  case (1 formal c)
  then show ?case by (simp add: field_after_def)
next
  case (2 formal s args c)
  show ?case
  proof (cases "read_arg s")
    case (FlagArg n val)
    with "2.prems"(1) obtain f where f: "List.find (\<lambda>f. fl_Name f = n) formal = Some f"
      by (auto split: option.splits if_splits)
    note m = find_name [OF f] and b = distinct_name [OF "2.prems"(2), of f]
    have step: "field_after name parse (sel c) ((n, v) # gs) r"
      if "fl_Set f v c = Inr d" "field_after name parse (sel d) gs r" for v d gs r
    proof -
      from "2.prems"(3) m that(1) have "if n = name then parse v = Inr (sel d) else sel d = sel c"
        unfolding only_set_by_def by fastforce
      with that(2) show ?thesis by (rule field_after_Cons)
    qed
    show ?thesis
    proof (cases "fl_IsBool f")
      case True
      with "2.prems"(1) FlagArg f obtain d where
        d: "fl_Set f (case val of None \<Rightarrow> ''true'' | Some v \<Rightarrow> v) c = Inr d" "Parse formal args d = Inr c'"
        by (auto split: sum.splits)
      from "2.IH"(1) [OF FlagArg f True d(1) d(2) "2.prems"(2,3)] True b m show ?thesis
        by (simp add: FlagArg step [OF d(1)])
    next
      case False
      show ?thesis
      proof (cases val)
        case (Some v)
        with "2.prems"(1) FlagArg f False obtain d where d: "fl_Set f v c = Inr d" "Parse formal args d = Inr c'"
          by (auto split: sum.splits)
        from "2.IH"(3) [OF FlagArg f False Some d(1) d(2) "2.prems"(2,3)] False Some b m show ?thesis
          by (simp add: FlagArg step [OF d(1)])
      next
        case None
        with "2.prems"(1) FlagArg f False obtain v args' d where
          d: "args = v # args'" "fl_Set f v c = Inr d" "Parse formal args' d = Inr c'"
          by (auto split: sum.splits list.splits)
        from "2.IH"(2) [OF FlagArg f False None d(1) d(2) d(3) "2.prems"(2,3)] False None b m show ?thesis
          by (simp add: FlagArg d(1) step [OF d(2)])
      qed
    qed
  qed (use "2.prems" in \<open>simp_all add: field_after_def\<close>)
qed

lemma newFlag_sel [simp]:
  "fl_Name (newFlag b parse p name) = name" "fl_IsBool (newFlag b parse p name) = b"
  "fl_Set (newFlag b parse p name) s c = Inr c' \<longleftrightarrow> (\<exists>v. parse s = Inr v \<and> c' = p v c)"
  by (auto simp: newFlag_def split: sum.splits)

lemma with_default_Inr:
  "with_default r (Var b parse p name) (c, formal) = Inr fs \<longleftrightarrow>
     (\<exists>v. r = Inr v \<and> \<not> prefix ''-'' name \<and> CHR ''='' \<notin> set name \<and> name \<notin> fl_Name ` set formal \<and>
        fs = (p v c, formal @ [newFlag b parse p name]))"
  by (auto simp: with_default_def Var_def split: sum.splits)

lemma boolFlags_append: "boolFlags (fs @ gs) = boolFlags fs \<union> boolFlags gs"
  by (auto simp: boolFlags_def)

lemma boolFlags_newFlag: "boolFlags [newFlag b parse p name] = (if b then {name} else {})"
  by (auto simp: boolFlags_def)

text \<open>
  What defining flags does to one field: \<open>keeps\<close> it, or \<open>sets_field\<close> it to \<open>init\<close> and leaves exactly
  the flag of this name to write it.
\<close>

definition keeps :: "string \<Rightarrow> ('c \<Rightarrow> 'a) \<Rightarrow> ('c flagSet \<Rightarrow> int + 'c flagSet) \<Rightarrow> bool" where
  "keeps name sel f \<longleftrightarrow>
     (\<forall>c formal c' formal'. f (c, formal) = Inr (c', formal') \<longrightarrow> sel c' = sel c \<and>
        (\<exists>new. formal' = formal @ new \<and>
           (\<forall>g \<in> set new. fl_Name g \<noteq> name \<and> (\<forall>v c c'. fl_Set g v c = Inr c' \<longrightarrow> sel c' = sel c))))"

definition sets_field ::
    "string \<Rightarrow> (string \<Rightarrow> error + 'a) \<Rightarrow> int + 'a \<Rightarrow> ('c \<Rightarrow> 'a) \<Rightarrow> ('c flagSet \<Rightarrow> int + 'c flagSet) \<Rightarrow> bool" where
  "sets_field name parse init sel f \<longleftrightarrow>
     (\<forall>c formal c' formal'. f (c, formal) = Inr (c', formal') \<longrightarrow> init = Inr (sel c') \<and>
        (\<exists>new. formal' = formal @ new \<and> only_set_by name parse sel new))"

definition adds_bools :: "string set \<Rightarrow> ('c flagSet \<Rightarrow> int + 'c flagSet) \<Rightarrow> bool" where
  "adds_bools B f \<longleftrightarrow>
     (\<forall>c formal c' formal'. f (c, formal) = Inr (c', formal') \<longrightarrow>
        boolFlags formal' = boolFlags formal \<union> B \<and> (distinct (map fl_Name formal) \<longrightarrow> distinct (map fl_Name formal')))"

lemma keeps_Var: "n \<noteq> name \<Longrightarrow> (\<And>v c. sel (p v c) = sel c) \<Longrightarrow> keeps name sel (with_default r (Var b parse p n))"
  by (auto simp: keeps_def with_default_Inr)

lemma sets_Var: "(\<And>v c. sel (p v c) = v) \<Longrightarrow> sets_field n parse r sel (with_default r (Var b parse p n))"
  by (auto simp: sets_field_def only_set_by_def with_default_Inr)

lemma adds_Var: "adds_bools (if b then {n} else {}) (with_default r (Var b parse p n))"
  by (auto simp: adds_bools_def with_default_Inr boolFlags_append boolFlags_newFlag)

lemma in_sequence_Inr:
  "in_sequence (f # fs) s = Inr r \<longleftrightarrow> (\<exists>c formal. f s = Inr (c, formal) \<and> in_sequence fs (c, formal) = Inr r)"
  by (auto split: sum.splits)

lemma keeps_Nil: "keeps name sel (in_sequence [])"
  by (simp add: keeps_def)

lemma keeps_Cons: "keeps name sel f \<Longrightarrow> keeps name sel (in_sequence fs) \<Longrightarrow> keeps name sel (in_sequence (f # fs))"
  unfolding keeps_def in_sequence_Inr by fastforce

lemma sets_here:
  assumes f: "sets_field name parse r sel f" and fs: "keeps name sel (in_sequence fs)"
  shows "sets_field name parse r sel (in_sequence (f # fs))"
  unfolding sets_field_def in_sequence_Inr
proof (intro allI impI, elim exE conjE)
  fix c formal c' formal' d g
  assume "f (c, formal) = Inr (d, g)" and rest: "in_sequence fs (d, g) = Inr (c', formal')"
  with f obtain new where "r = Inr (sel d)" "g = formal @ new" "only_set_by name parse sel new"
    unfolding sets_field_def by blast
  moreover from fs rest obtain new' where "sel c' = sel d" "formal' = g @ new'"
    "\<forall>g \<in> set new'. fl_Name g \<noteq> name \<and> (\<forall>v c c'. fl_Set g v c = Inr c' \<longrightarrow> sel c' = sel c)"
    unfolding keeps_def by blast
  ultimately show "r = Inr (sel c') \<and> (\<exists>new. formal' = formal @ new \<and> only_set_by name parse sel new)"
    by (auto simp: only_set_by_def)
qed

lemma sets_later:
  assumes f: "keeps name sel f" and fs: "sets_field name parse r sel (in_sequence fs)"
  shows "sets_field name parse r sel (in_sequence (f # fs))"
  unfolding sets_field_def in_sequence_Inr
proof (intro allI impI, elim exE conjE)
  fix c formal c' formal' d g
  assume "f (c, formal) = Inr (d, g)" and rest: "in_sequence fs (d, g) = Inr (c', formal')"
  with f obtain new where "g = formal @ new"
    "\<forall>g \<in> set new. fl_Name g \<noteq> name \<and> (\<forall>v c c'. fl_Set g v c = Inr c' \<longrightarrow> sel c' = sel c)"
    unfolding keeps_def by blast
  moreover from fs rest obtain new' where "r = Inr (sel c')" "formal' = g @ new'" "only_set_by name parse sel new'"
    unfolding sets_field_def by blast
  ultimately show "r = Inr (sel c') \<and> (\<exists>new. formal' = formal @ new \<and> only_set_by name parse sel new)"
    by (auto simp: only_set_by_def)
qed

lemma adds_Nil: "adds_bools {} (in_sequence [])"
  by (simp add: adds_bools_def)

lemma adds_Cons: "adds_bools B f \<Longrightarrow> adds_bools B' (in_sequence fs) \<Longrightarrow> adds_bools (B \<union> B') (in_sequence (f # fs))"
  unfolding adds_bools_def in_sequence_Inr by (auto 0 3)

lemmas flag_definitions =
  StringVarFlagWithEnv_def IntVarFlagWithEnv_def Int64VarFlagWithEnv_def Uint64VarFlagWithEnv_def
  DurationVarFlagWithEnv_def BoolVarFlagWithEnv_def lookupEnvOrString_def lookupEnvOrInt_def
  lookupEnvOrInt64_def lookupEnvOrUint64_def lookupEnvOrDuration_def lookupEnvOrBool_def append.simps

lemmas nodemon_definitions =
  nodemonFlags_def newNodemonVaultConfig_def newNodemonL2Config_def newNatsOptionalConfig_def flag_definitions

lemmas adds_intros = adds_Cons adds_Nil adds_Var
lemmas keeps_intros = keeps_Cons keeps_Nil keeps_Var

text \<open>Where the value of one parameter comes from.\<close>

definition configured ::
    "flagEnv \<Rightarrow> string set \<Rightarrow> string list \<Rightarrow> (string \<Rightarrow> error + 'a) \<Rightarrow> (string \<Rightarrow> error + 'a) \<Rightarrow> string \<Rightarrow> 'a \<Rightarrow> 'a \<Rightarrow> bool" where
  "configured fe isBool args parseEnv parse name dflt v \<longleftrightarrow>
     (\<forall>s. fe_LookupEnv fe (fe_UpperSnakeCase fe name) = Some s \<longrightarrow> (\<exists>v'. parseEnv s = Inr v')) \<and>
     (case onCommandLine isBool args name of
        Some s \<Rightarrow> parse s = Inr v
      | None \<Rightarrow>
          (case fe_LookupEnv fe (fe_UpperSnakeCase fe name) of
             Some s \<Rightarrow> parseEnv s = Inr v
           | None \<Rightarrow> v = dflt))"

lemma configured_field:
  assumes "parsed (f (c0, [])) args = Inr cfg" "adds_bools B f"
    and "sets_field name parse (lookupEnvOrValue fe (fe_UpperSnakeCase fe name) dflt parseEnv) sel f"
  shows "configured fe B args parseEnv parse name dflt (sel cfg)"
proof -
  from assms(1) obtain c formal where r: "f (c0, []) = Inr (c, formal)" "Parse formal args c = Inr cfg"
    by (auto simp: parsed_def split: sum.splits)
  from assms(2) r(1) have B: "boolFlags formal = B" "distinct (map fl_Name formal)"
    unfolding adds_bools_def by (fastforce simp: boolFlags_def)+
  from assms(3) r(1) have init: "lookupEnvOrValue fe (fe_UpperSnakeCase fe name) dflt parseEnv = Inr (sel c)"
    and "only_set_by name parse sel formal"
    unfolding sets_field_def by fastforce+
  from Parse_field [OF r(2) B(2) this(2)] init show ?thesis
    by (auto simp: B configured_def onCommandLine_def field_after_def lookupEnvOrValue_def split: option.splits sum.splits)
qed

definition nodemonBools :: "string set" where
  "nodemonBools = {''development'', ''bot-requests-discord'', ''bot-requests-telegram'', ''nats-server-enable''}"


lemma nodemon_adds: "adds_bools nodemonBools (nodemonFlags fe)"
  unfolding nodemon_definitions
  by (rule back_subst [of "\<lambda>B. adds_bools B _"], (rule adds_intros)+) (auto simp: nodemonBools_def)

definition nodemonStrings :: "(string \<times> (nodemonConfig \<Rightarrow> string) \<times> string) list" where
  "nodemonStrings = [
     (''storage'', nc_storage, ''.nodes.json''), (''nodes'', nc_nodes, []), (''bind'', nc_bindAddress, '':8080''),
     (''nats-msg-url'', nc_natsMessagingURL, ''nats://127.0.0.1:4222''), (''log-level'', nc_logLevel, ''INFO''),
     (''log-type'', nc_logType, ''pretty''), (''scheme'', nc_scheme, []),
     (''vault-address'', \<lambda>c. vc_address (nc_vault c), []), (''vault-user'', \<lambda>c. vc_user (nc_vault c), []),
     (''vault-password'', \<lambda>c. vc_password (nc_vault c), []),
     (''vault-mount-path'', \<lambda>c. vc_mountPath (nc_vault c), ''gonodemonitoring''),
     (''vault-secret-path'', \<lambda>c. vc_secretPath (nc_vault c), []),
     (''l2-urls'', \<lambda>c. L2nodeURLs (nc_l2 c), []), (''l2-names'', \<lambda>c. L2nodeNames (nc_l2 c), []),
     (''nats-server-address'', \<lambda>c. nats_serverAddress (nc_natsOptionalConfig c), ''127.0.0.1:4222'')]"

definition nodemonDurations :: "(string \<times> (nodemonConfig \<Rightarrow> int) \<times> int) list" where
  "nodemonDurations = [
     (''interval'', nc_interval, seconds 60), (''timeout'', nc_timeout, seconds 15),
     (''nats-connection-timeout'', nc_natsTimeout, natsConnectionsTimeoutDefault), (''retention'', nc_retention, seconds (12 * 3600)),
     (''api-read-timeout'', nc_apiReadTimeout, seconds 30),
     (''nats-server-ready-timeout'', \<lambda>c. nats_readyForConnectionsTimeout (nc_natsOptionalConfig c), natsConnectionsTimeoutDefault)]"

definition nodemonNumbers :: "(string \<times> (nodemonConfig \<Rightarrow> uint64) \<times> uint64) list" where
  "nodemonNumbers = [
     (''base-target-threshold'', nc_baseTargetThreshold, 0),
     (''nats-server-max-payload'', \<lambda>c. nats_maxPayload (nc_natsOptionalConfig c), word_of_int natsMaxPayloadSize)]"

definition nodemonSwitches :: "(string \<times> (nodemonConfig \<Rightarrow> bool) \<times> bool) list" where
  "nodemonSwitches = [
     (''development'', nc_development, False), (''bot-requests-discord'', nc_natsPairDiscord, False),
     (''bot-requests-telegram'', nc_natsPairTelegram, True),
     (''nats-server-enable'', \<lambda>c. nats_enable (nc_natsOptionalConfig c), False)]"

lemma table_Nil: "list_all P []" by simp
lemma table_Cons: "P x \<Longrightarrow> list_all P xs \<Longrightarrow> list_all P (x # xs)" by simp

abbreviation nodemon_init :: "flagEnv \<Rightarrow> string \<Rightarrow> 'a \<Rightarrow> (string \<Rightarrow> error + 'a) \<Rightarrow> int + 'a" where
  "nodemon_init fe name \<equiv> lookupEnvOrValue fe (fe_UpperSnakeCase fe name)"

lemma nodemon_strings:
  "list_all (\<lambda>(name, sel, d). sets_field name (Inr) (nodemon_init fe name d (Inr)) sel (nodemonFlags fe)) nodemonStrings"
  unfolding nodemon_definitions nodemonStrings_def
  by ((rule table_Cons, simp only: prod.case,
       ((rule sets_later, rule keeps_Var, (simp; fail), (simp; fail))+)?,
       rule sets_here, rule sets_Var, (simp; fail),
       ((rule keeps_Cons, rule keeps_Var, (simp; fail), (simp; fail))+)?,
       rule keeps_Nil)+) (rule table_Nil)

lemma nodemon_durations:
  "list_all (\<lambda>(name, sel, d). sets_field name (fe_ParseDuration fe) (nodemon_init fe name d (fe_ParseDuration fe)) sel (nodemonFlags fe)) nodemonDurations"
  unfolding nodemon_definitions nodemonDurations_def
  by ((rule table_Cons, simp only: prod.case,
       ((rule sets_later, rule keeps_Var, (simp; fail), (simp; fail))+)?,
       rule sets_here, rule sets_Var, (simp; fail),
       ((rule keeps_Cons, rule keeps_Var, (simp; fail), (simp; fail))+)?,
       rule keeps_Nil)+) (rule table_Nil)

lemma nodemon_numbers:
  "list_all (\<lambda>(name, sel, d). sets_field name (\<lambda>s. to_uint64 (ParseUint0 s)) (nodemon_init fe name d (\<lambda>s. to_uint64 (ParseUint 10 s))) sel (nodemonFlags fe)) nodemonNumbers"
  unfolding nodemon_definitions nodemonNumbers_def
  by ((rule table_Cons, simp only: prod.case,
       ((rule sets_later, rule keeps_Var, (simp; fail), (simp; fail))+)?,
       rule sets_here, rule sets_Var, (simp; fail),
       ((rule keeps_Cons, rule keeps_Var, (simp; fail), (simp; fail))+)?,
       rule keeps_Nil)+) (rule table_Nil)

lemma nodemon_switches:
  "list_all (\<lambda>(name, sel, d). sets_field name (ParseBool) (nodemon_init fe name d (ParseBool)) sel (nodemonFlags fe)) nodemonSwitches"
  unfolding nodemon_definitions nodemonSwitches_def
  by ((rule table_Cons, simp only: prod.case,
       ((rule sets_later, rule keeps_Var, (simp; fail), (simp; fail))+)?,
       rule sets_here, rule sets_Var, (simp; fail),
       ((rule keeps_Cons, rule keeps_Var, (simp; fail), (simp; fail))+)?,
       rule keeps_Nil)+) (rule table_Nil)


lemma nodemon_configured:
  assumes "parsed (newNodemonConfig fe) args = Inr cfg"
    and "list_all (\<lambda>(name, sel, d). sets_field name parse (nodemon_init fe name d parseEnv) sel (nodemonFlags fe)) table"
  shows "\<forall>(name, sel, d) \<in> set table. configured fe nodemonBools args parseEnv parse name d (sel cfg)"
  using assms configured_field [OF assms(1) [unfolded newNodemonConfig_def] nodemon_adds]
  by (fastforce simp: list_all_iff)

section \<open>Where each parameter comes from\<close>

text \<open>An environment that names the scheme and a threshold, and a command line that overrides the threshold.\<close>

definition demo_flagEnv :: flagEnv where
  "demo_flagEnv =
     \<lparr>fe_LookupEnv = [''scheme'' \<mapsto> ''W'', ''base-target-threshold'' \<mapsto> ''70''], fe_UpperSnakeCase = id,
      fe_ParseDuration = (\<lambda>s. Inl (Errorf ''not a duration''))\<rparr>"

definition makes_flags :: "'c flag list \<Rightarrow> ('c flagSet \<Rightarrow> int + 'c flagSet) \<Rightarrow> bool" where
  "makes_flags fs f \<longleftrightarrow>
     (\<forall>c formal. distinct (map fl_Name (formal @ fs)) \<longrightarrow> (\<exists>c'. f (c, formal) = Inr (c', formal @ fs)))"

lemma makes_flags_Nil: "makes_flags [] (in_sequence [])"
  by (simp add: makes_flags_def)

lemma makes_flags_Var:
  "\<not> isl r \<Longrightarrow> \<not> prefix ''-'' n \<and> CHR ''='' \<notin> set n \<Longrightarrow>
   makes_flags [newFlag b parse p n] (with_default r (Var b parse p n))"
  by (cases r) (auto simp: makes_flags_def with_default_Inr)

lemma makes_flags_Cons:
  assumes "makes_flags [x] f" "makes_flags gs (in_sequence rest)"
  shows "makes_flags (x # gs) (in_sequence (f # rest))"
  unfolding makes_flags_def in_sequence_Inr
proof (intro allI impI)
  fix c and formal :: "'a flag list"
  assume "distinct (map fl_Name (formal @ x # gs))"
  then have "distinct (map fl_Name (formal @ [x]))" and d: "distinct (map fl_Name ((formal @ [x]) @ gs))" by auto
  with assms(1) obtain d where f: "f (c, formal) = Inr (d, formal @ [x])" unfolding makes_flags_def by blast
  from assms(2) d obtain c' where "in_sequence rest (d, formal @ [x]) = Inr (c', (formal @ [x]) @ gs)"
    unfolding makes_flags_def by blast
  with f show "\<exists>c' d' g. f (c, formal) = Inr (d', g) \<and> in_sequence rest (d', g) = Inr (c', formal @ x # gs)" by auto
qed

lemma demo_args:
  "read_arg ''-base-target-threshold'' = FlagArg ''base-target-threshold'' None"
  "read_arg ''--nats-server-enable'' = FlagArg ''nats-server-enable'' None"
  "ParseBool ''true'' = Inr True"
  by (simp_all add: read_arg_def ParseBool_def)

lemma demo_threshold: "ParseUint0 ''0x10'' = Inr 16"
  by (simp add: ParseUint0_def base_prefix_def lower_char_def is_upper_def digit_val_def)

lemma demo_defined:
  "\<exists>fs. makes_flags fs (nodemonFlags demo_flagEnv) \<and> distinct (map fl_Name fs) \<and>
     (\<forall>c. \<exists>cfg. Parse fs [''-base-target-threshold'', ''0x10'', ''--nats-server-enable''] c = Inr cfg)"
  unfolding nodemon_definitions
  by (rule exI, rule conjI,
      ((rule makes_flags_Cons, rule makes_flags_Var,
        (simp add: lookupEnvOrValue_def demo_flagEnv_def ParseUint_def to_uint64_def digit_val_def Let_def; fail),
        (simp; fail))+, rule makes_flags_Nil),
      rule conjI, (simp only: list.map newFlag_sel, code_simp))
    (simp add: demo_args demo_threshold newFlag_def to_uint64_def)

abbreviation demo_commandLine :: "string list" where
  "demo_commandLine \<equiv> [''-base-target-threshold'', ''0x10'', ''--nats-server-enable'']"

lemma demo_parsed: "\<exists>cfg. parsed (newNodemonConfig demo_flagEnv) demo_commandLine = Inr cfg"
proof -
  from demo_defined obtain fs where fs: "makes_flags fs (nodemonFlags demo_flagEnv)" "distinct (map fl_Name fs)"
    "\<And>c. \<exists>cfg. Parse fs demo_commandLine c = Inr cfg" by blast
  from fs(1,2) obtain c where "newNodemonConfig demo_flagEnv = Inr (c, fs)"
    unfolding makes_flags_def newNodemonConfig_def by (metis append_Nil)
  with fs(3) show ?thesis by (simp add: parsed_def)
qed

text \<open>
  C37: Where the parameters of the service come from, when the process survives reading them: each
  is the last value of its flag on the command line, else the value of its environment variable,
  else the default. Every variable that is set must be readable, also when the command line
  overrides it. Numbers are decimal in the environment and have any base on the command line.
\<close>

theorem parameters_configured:
  assumes "parsed (newNodemonConfig fe) args = Inr cfg"
  shows "(\<forall>(name, sel, d) \<in> set nodemonStrings. configured fe nodemonBools args Inr Inr name d (sel cfg)) \<and>
    (\<forall>(name, sel, d) \<in> set nodemonDurations.
       configured fe nodemonBools args (fe_ParseDuration fe) (fe_ParseDuration fe) name d (sel cfg)) \<and>
    (\<forall>(name, sel, d) \<in> set nodemonNumbers.
       configured fe nodemonBools args (\<lambda>s. to_uint64 (ParseUint 10 s)) (\<lambda>s. to_uint64 (ParseUint0 s)) name d (sel cfg)) \<and>
    (\<forall>(name, sel, d) \<in> set nodemonSwitches. configured fe nodemonBools args ParseBool ParseBool name d (sel cfg))"
  using nodemon_configured [OF assms nodemon_strings] nodemon_configured [OF assms nodemon_durations]
    nodemon_configured [OF assms nodemon_numbers] nodemon_configured [OF assms nodemon_switches]
  by blast

lemma demo_env [simp]:
  "fe_LookupEnv demo_flagEnv = [''scheme'' \<mapsto> ''W'', ''base-target-threshold'' \<mapsto> ''70'']"
  "fe_UpperSnakeCase demo_flagEnv name = name"
  by (simp_all add: demo_flagEnv_def)

lemma demo_given:
  "onCommandLine nodemonBools demo_commandLine ''scheme'' = None"
  "onCommandLine nodemonBools demo_commandLine ''log-type'' = None"
  "onCommandLine nodemonBools demo_commandLine ''base-target-threshold'' = Some ''0x10''"
  by (simp_all add: onCommandLine_def demo_args nodemonBools_def)

theorem parameters_configured_witness:
  "\<exists>cfg. parsed (newNodemonConfig demo_flagEnv) demo_commandLine = Inr cfg \<and>
     nc_scheme cfg = ''W'' \<and> nc_baseTargetThreshold cfg = 16 \<and> nc_logType cfg = ''pretty''"
proof -
  from demo_parsed obtain cfg where r: "parsed (newNodemonConfig demo_flagEnv) demo_commandLine = Inr cfg"
    by blast
  note p = parameters_configured [OF r]
  from p have "configured demo_flagEnv nodemonBools demo_commandLine Inr Inr ''scheme'' [] (nc_scheme cfg)"
    "configured demo_flagEnv nodemonBools demo_commandLine Inr Inr ''log-type'' ''pretty'' (nc_logType cfg)"
    by (simp_all add: nodemonStrings_def)
  moreover from p have "configured demo_flagEnv nodemonBools demo_commandLine (\<lambda>s. to_uint64 (ParseUint 10 s))
      (\<lambda>s. to_uint64 (ParseUint0 s)) ''base-target-threshold'' 0 (nc_baseTargetThreshold cfg)"
    by (simp add: nodemonNumbers_def)
  ultimately show ?thesis
    using r by (simp add: configured_def demo_given demo_threshold to_uint64_def)
qed

end
