(* ===== verification/Service.thy ===== *)
theory Service
  imports Flags PrivateNodes Messaging NodesPolicy
begin

text \<open>
  \<open>cmd/nodemon/nodemon.go\<close>, from the parsed flags to the exit: \<open>run\<close> opens the storages, starts the
  services and waits for a signal or for the failure of a service, with the deferred functions
  that stop and close on every way out; also \<open>pkg/tools/logging/log.go\<close> and the starting and
  stopping of the HTTP server in \<open>pkg/api/api.go\<close>. The result is what is started and stopped, in
  order, and the error. What the services do is in their own theories.
\<close>

section \<open>Logging levels\<close>

text \<open>\<open>slog.Level.UnmarshalText\<close>: a name in any case with an offset; only the error is used here.\<close>

definition slog_error :: "string \<Rightarrow> error \<Rightarrow> error" where
  "slog_error s err = wrapf err (''slog: level string '' @ Quote s)"

definition Level_UnmarshalText :: "string \<Rightarrow> error option" where
  "Level_UnmarshalText s =
     (let sign = (\<lambda>c. c = CHR ''+'' \<or> c = CHR ''-'');
          name = takeWhile (\<lambda>c. \<not> sign c) s; offset = dropWhile (\<lambda>c. \<not> sign c) s
      in case (if offset = [] then Inr 0 else Atoi offset) of
           Inl err \<Rightarrow> Some (slog_error s err)
         | Inr n \<Rightarrow>
             if ToLower name \<in> {''debug'', ''info'', ''warn'', ''error''} then None
             else Some (slog_error s (Errorf ''unknown name'')))"

text \<open>The type of the logger is parsed by gowaves.\<close>

definition SetupLogger :: "(string \<Rightarrow> error option) \<Rightarrow> string \<Rightarrow> string \<Rightarrow> error option" where
  "SetupLogger LoggerType logLevel logType =
     (case Level_UnmarshalText logLevel of
        Some err \<Rightarrow> Some (wrapf err ''invalid log level'')
      | None \<Rightarrow>
          (case LoggerType logType of
             Some err \<Rightarrow> Some (wrapf err ''invalid logger type'')
           | None \<Rightarrow> None))"

section \<open>The world of the process\<close>

datatype service =
    NodesStorage
  | EventsStorage
  | ScraperLoop
  | PrivateNodesHandler
  | ApiServer
  | NatsServer
  | Analyzers
  | PubServer
  | PairServerOn string

text \<open>What a process starts and stops, its parts being of type \<open>'s\<close>.\<close>

datatype 's action = Started 's | Stopped 's

text \<open>
  Parameters: the libraries, the clock, whether listening on an address fails, and how the final
  \<open>select\<close> of \<open>run\<close> ends: with the context, or with the error of a service.
\<close>

record ('w, 'd) serviceEnv =
  se_LoggerType :: "string \<Rightarrow> error option"
  se_ParseRequestURI :: "string \<Rightarrow> error option"
  se_os :: "'w os"
  se_vault :: "error + 'w vault"
  se_neturl :: neturl
  se_world :: 'w
  se_buntdb_Open :: "error + 'd"
  se_now :: int
  se_Listen :: "string \<Rightarrow> error option"
  se_nats :: natsServer
  se_end :: "error option"

section \<open>Storages\<close>

definition NewStorage :: "error + 'd \<Rightarrow> int \<Rightarrow> error + 'd Storage" where
  "NewStorage opened retentionDuration =
     (case opened of
        Inl err \<Rightarrow> Inl (wrapf err ''failed to open events storage'')
      | Inr db \<Rightarrow> Inr \<lparr>s_db = db, s_retentionDuration = retentionDuration\<rparr>)"

definition initializeStorages ::
    "('w, 'd) serviceEnv \<Rightarrow> nodemonConfig \<Rightarrow> service action list \<times> (error + 'w JSONStorage \<times> 'd Storage)" where
  "initializeStorages env cfg =
     (case createNodesStorage (se_os env) (se_vault env) (se_neturl env) cfg (se_world env) of
        (w, Inl err) \<Rightarrow> ([], Inl err)
      | (w, Inr ns) \<Rightarrow>
          (case NewStorage (se_buntdb_Open env) (nc_retention cfg) of
             Inl err \<Rightarrow> ([Started NodesStorage], Inl err)
           | Inr es \<Rightarrow> ([Started NodesStorage, Started EventsStorage], Inr (ns, es))))"

text \<open>The errors of closing are logged.\<close>

definition closeStorages :: "service action list" where
  "closeStorages = [Stopped NodesStorage, Stopped EventsStorage]"

section \<open>The HTTP server\<close>

definition API_StartCtx :: "(string \<Rightarrow> error option) \<Rightarrow> string \<Rightarrow> error option" where
  "API_StartCtx Listen addr =
     (case Listen addr of
        Some listenErr \<Rightarrow> Some (Errorf (''Failed to start REST API at '' @ squote addr @ '': '' @ Error listenErr))
      | None \<Rightarrow> None)"

section \<open>Services\<close>

definition runDiscordPairServer :: "nodemonConfig \<Rightarrow> bool" where
  "runDiscordPairServer c = nc_natsPairDiscord c"

definition runTelegramPairServer :: "nodemonConfig \<Rightarrow> bool" where
  "runTelegramPairServer c = nc_natsPairTelegram c"

text \<open>The goroutines that \<open>runMessagingServices\<close> starts.\<close>

definition runMessagingServices :: "nodemonConfig \<Rightarrow> service action list" where
  "runMessagingServices cfg =
     [Started PubServer] @
     (if runTelegramPairServer cfg then [Started (PairServerOn (TelegramBotRequestsTopic (nc_scheme cfg)))] else []) @
     (if runDiscordPairServer cfg then [Started (PairServerOn (DiscordBotRequestsTopic (nc_scheme cfg)))] else [])"

definition chainShutdownFuncs :: "service action list list \<Rightarrow> service action list" where
  "chainShutdownFuncs fns = concat fns"

lemma runMessagingServices_stops_nothing [simp]: "Stopped x \<notin> set (runMessagingServices cfg)"
  by (simp add: runMessagingServices_def)

text \<open>
  The actions, and the error or the shutdown function. The deferred functions of \<open>startServices\<close>
  stop the HTTP server when a later step fails; \<open>NewAPI\<close> never fails, and no step after the
  NATS server does.
\<close>

definition startServices ::
    "('w, 'd) serviceEnv \<Rightarrow> nodemonConfig \<Rightarrow> service action list \<times> (error + service action list)" where
  "startServices env cfg =
     (let started = [Started ScraperLoop, Started PrivateNodesHandler] in
      case API_StartCtx (se_Listen env) (nc_bindAddress cfg) of
        Some apiErr \<Rightarrow> (started, Inl apiErr)
      | None \<Rightarrow>
          let started = started @ [Started ApiServer]; shutdown = [Stopped ApiServer];
              nCfg = nc_natsOptionalConfig cfg
          in if nats_enable nCfg then
               (case RunNatsMessagingServer (se_nats env) (nats_serverAddress nCfg) (nats_maxPayload nCfg)
                       (nats_readyForConnectionsTimeout nCfg) of
                  (Some nErr, _) \<Rightarrow> (started @ [Stopped ApiServer], Inl nErr)
                | (None, _) \<Rightarrow>
                    (started @ [Started NatsServer, Started Analyzers] @ runMessagingServices cfg,
                     Inr (chainShutdownFuncs [shutdown, [Stopped NatsServer]])))
             else (started @ [Started Analyzers] @ runMessagingServices cfg, Inr shutdown))"

text \<open>\<open>NewScraper\<close> never fails.\<close>

definition run :: "('w, 'd) serviceEnv \<Rightarrow> nodemonConfig \<Rightarrow> service action list \<times> error option" where
  "run env cfg =
     (case SetupLogger (se_LoggerType env) (nc_logLevel cfg) (nc_logType cfg) of
        Some lErr \<Rightarrow> ([], Some (wrapf lErr (''failed to setup logger with level '' @ Quote (nc_logLevel cfg) @
          '' and type '' @ Quote (nc_logType cfg))))
      | None \<Rightarrow>
     (case nodemonConfig_validate (se_ParseRequestURI env) cfg of
        Some validateErr \<Rightarrow> ([], Some validateErr)
      | None \<Rightarrow>
     (case initializeStorages env cfg of
        (opened, Inl err) \<Rightarrow> (opened, Some err)
      | (opened, Inr (ns, es)) \<Rightarrow>
     (case NewPrivateNodesHandlerWithUnreachableInitialState (Inr (EnabledSpecificNodes ns)) (se_now env) of
        Inl err \<Rightarrow> (opened @ closeStorages, Some err)
      | Inr privateNodesHandler \<Rightarrow>
     (case startServices env cfg of
        (started, Inl serviceErr) \<Rightarrow> (opened @ started @ closeStorages, Some serviceErr)
      | (started, Inr shutdownFn) \<Rightarrow> (opened @ started @ shutdownFn @ closeStorages, se_end env))))))"

text \<open>
  \<open>main\<close>: the flags, the service, and the exit code. \<open>canceled\<close> tells whether an error is
  \<open>context.Canceled\<close>.
\<close>

definition nodemon_main ::
    "(error \<Rightarrow> bool) \<Rightarrow> flagEnv \<Rightarrow> string list \<Rightarrow> ('w, 'd) serviceEnv \<Rightarrow> service action list \<times> int" where
  "nodemon_main canceled fe args env =
     (case parsed (newNodemonConfig fe) args of
        Inl code \<Rightarrow> ([], code)
      | Inr cfg \<Rightarrow> (case run env cfg of (acts, err) \<Rightarrow> (acts, main_exitCode canceled err)))"

section \<open>What is left when the process ends\<close>

abbreviation about :: "'s \<Rightarrow> 's action list \<Rightarrow> 's action list" where
  "about x acts \<equiv> filter (\<lambda>a. a = Started x \<or> a = Stopped x) acts"

lemma about_messaging [simp]:
  "x \<in> {NodesStorage, EventsStorage, ApiServer, NatsServer} \<Longrightarrow> about x (runMessagingServices cfg) = []"
  by (auto simp: runMessagingServices_def)






section \<open>Witness\<close>






end
