(* ===== verification/BotMain.thy ===== *)
theory BotMain
  imports Service BotEnv PairClient Api
begin

text \<open>
  The main programs of the bots: \<open>cmd/bots/telegram/telegram.go\<close>, \<open>cmd/bots/discord/discord.go\<close>, the
  creation of their clients in \<open>cmd/bots/internal/bots/initial\<close> and
  \<open>cmd/bots/internal/telegram/config\<close>, their HTTP server in \<open>cmd/bots/internal/bots/api\<close>, and the
  version of \<open>internal/version.go\<close>. As for the service, a program's result is what it starts and
  stops, in order, and its error; here also whether it ends at all.
\<close>

section \<open>Configuration\<close>

definition bots_ErrInvalidParameters :: error where
  "bots_ErrInvalidParameters = Errorf ''invalid parameters for telegram bot''"

definition PollingMethod :: string where "PollingMethod = ''polling''"
definition WebhookMethod :: string where "WebhookMethod = ''webhook''"

record telegramBotConfig =
  tc_natsMessagingURL :: string
  tc_behavior :: string
  tc_webhookLocalAddress :: string
  tc_publicURL :: string
  tc_tgBotToken :: string
  tc_tgChatID :: int
  tc_development :: bool
  tc_bindAddress :: string
  tc_scheme :: string
  tc_logLevel :: string
  tc_logType :: string

definition zeroTelegramBotConfig :: telegramBotConfig where
  "zeroTelegramBotConfig =
     \<lparr>tc_natsMessagingURL = [], tc_behavior = [], tc_webhookLocalAddress = [], tc_publicURL = [], tc_tgBotToken = [],
      tc_tgChatID = 0, tc_development = False, tc_bindAddress = [], tc_scheme = [], tc_logLevel = [], tc_logType = []\<rparr>"

definition telegramFlags :: "flagEnv \<Rightarrow> telegramBotConfig flagSet \<Rightarrow> int + telegramBotConfig flagSet" where
  "telegramFlags fe = in_sequence [
     StringVarFlagWithEnv fe (\<lambda>v. tc_natsMessagingURL_update (\<lambda>_. v)) ''nats-msg-url'' ''nats://127.0.0.1:4222'',
     StringVarFlagWithEnv fe (\<lambda>v. tc_behavior_update (\<lambda>_. v)) ''behavior'' ''webhook'',
     StringVarFlagWithEnv fe (\<lambda>v. tc_webhookLocalAddress_update (\<lambda>_. v)) ''webhook-local-address'' '':8081'',
     StringVarFlagWithEnv fe (\<lambda>v. tc_tgBotToken_update (\<lambda>_. v)) ''tg-bot-token'' [],
     StringVarFlagWithEnv fe (\<lambda>v. tc_publicURL_update (\<lambda>_. v)) ''public-url'' [],
     Int64VarFlagWithEnv fe (\<lambda>v. tc_tgChatID_update (\<lambda>_. v)) ''telegram-chat-id'' 0,
     StringVarFlagWithEnv fe (\<lambda>v. tc_logLevel_update (\<lambda>_. v)) ''log-level'' ''INFO'',
     StringVarFlagWithEnv fe (\<lambda>v. tc_logType_update (\<lambda>_. v)) ''log-type'' ''pretty'',
     BoolVarFlagWithEnv fe (\<lambda>v. tc_development_update (\<lambda>_. v)) ''development'' False,
     StringVarFlagWithEnv fe (\<lambda>v. tc_bindAddress_update (\<lambda>_. v)) ''bind'' [],
     StringVarFlagWithEnv fe (\<lambda>v. tc_scheme_update (\<lambda>_. v)) ''scheme'' []]"

definition newTelegramBotConfig :: "flagEnv \<Rightarrow> int + telegramBotConfig flagSet" where
  "newTelegramBotConfig fe = telegramFlags fe (zeroTelegramBotConfig, [])"

definition telegram_validate :: "telegramBotConfig \<Rightarrow> error option" where
  "telegram_validate c =
     (if tc_tgBotToken c = [] then Some bots_ErrInvalidParameters
      else if tc_behavior c = WebhookMethod \<and> tc_publicURL c = [] then Some bots_ErrInvalidParameters
      else if tc_scheme c = [] then Some bots_ErrInvalidParameters
      else if tc_tgChatID c = 0 then Some bots_ErrInvalidParameters
      else None)"

record discordBotConfig =
  dc_natsMessagingURL :: string
  dc_discordBotToken :: string
  dc_discordChatID :: string
  dc_development :: bool
  dc_bindAddress :: string
  dc_scheme :: string
  dc_logLevel :: string
  dc_logType :: string

definition zeroDiscordBotConfig :: discordBotConfig where
  "zeroDiscordBotConfig =
     \<lparr>dc_natsMessagingURL = [], dc_discordBotToken = [], dc_discordChatID = [], dc_development = False,
      dc_bindAddress = [], dc_scheme = [], dc_logLevel = [], dc_logType = []\<rparr>"

definition discordFlags :: "flagEnv \<Rightarrow> discordBotConfig flagSet \<Rightarrow> int + discordBotConfig flagSet" where
  "discordFlags fe = in_sequence [
     StringVarFlagWithEnv fe (\<lambda>v. dc_natsMessagingURL_update (\<lambda>_. v)) ''nats-msg-url'' ''nats://127.0.0.1:4222'',
     StringVarFlagWithEnv fe (\<lambda>v. dc_discordBotToken_update (\<lambda>_. v)) ''discord-bot-token'' [],
     StringVarFlagWithEnv fe (\<lambda>v. dc_discordChatID_update (\<lambda>_. v)) ''discord-chat-id'' [],
     StringVarFlagWithEnv fe (\<lambda>v. dc_logLevel_update (\<lambda>_. v)) ''log-level'' ''INFO'',
     StringVarFlagWithEnv fe (\<lambda>v. dc_logType_update (\<lambda>_. v)) ''log-type'' ''pretty'',
     BoolVarFlagWithEnv fe (\<lambda>v. dc_development_update (\<lambda>_. v)) ''development'' False,
     StringVarFlagWithEnv fe (\<lambda>v. dc_bindAddress_update (\<lambda>_. v)) ''bind'' [],
     StringVarFlagWithEnv fe (\<lambda>v. dc_scheme_update (\<lambda>_. v)) ''scheme'' []]"

definition newDiscordBotConfigConfig :: "flagEnv \<Rightarrow> int + discordBotConfig flagSet" where
  "newDiscordBotConfigConfig fe = discordFlags fe (zeroDiscordBotConfig, [])"

definition discord_validate :: "discordBotConfig \<Rightarrow> error option" where
  "discord_validate c =
     (if dc_discordBotToken c = [] then Some bots_ErrInvalidParameters
      else if dc_scheme c = [] then Some bots_ErrInvalidParameters
      else if dc_discordChatID c = [] then Some bots_ErrInvalidParameters
      else None)"

section \<open>The clients of Telegram and Discord\<close>

text \<open>
  An HTTP client: creating a POST request for a URL, and doing it; a response is its status code,
  its status line, and the error of closing its body.
\<close>

record httpClient =
  hc_NewRequest :: "string \<Rightarrow> error option"
  hc_Do :: "string \<Rightarrow> error + int \<times> string \<times> error option"

definition telegramRemoveWebhook :: "string \<Rightarrow> string" where
  "telegramRemoveWebhook botToken = ''https://api.telegram.org/bot'' @ botToken @ ''/setWebhook?remove''"

definition tryRemoveWebhookIfExists :: "httpClient \<Rightarrow> string \<Rightarrow> error option" where
  "tryRemoveWebhookIfExists hc botToken =
     (case hc_NewRequest hc (telegramRemoveWebhook botToken) of
        Some err \<Rightarrow> Some (wrapf err ''failed to create HTTP request with context'')
      | None \<Rightarrow>
          (case hc_Do hc (telegramRemoveWebhook botToken) of
             Inl err \<Rightarrow> Some (wrapf err ''failed to remove webhook'')
           | Inr (statusCode, status, closeErr) \<Rightarrow>
               let err = (if statusCode = StatusInternalServerError
                          then Some (Errorf (''failed to remove webhook: '' @ status)) else None)
               in case closeErr of
                    None \<Rightarrow> err
                  | Some ce \<Rightarrow> (case err of Some e \<Rightarrow> Some (wrapf e (Error ce)) | None \<Rightarrow> Some ce)))"

definition longPollingTimeout :: int where
  "longPollingTimeout = seconds 10"

datatype poller = Webhook (listen: string) (public: string) | LongPoller int

record tgSettings =
  ts_Token :: string
  ts_Poller :: poller

definition NewTgBotSettings :: "httpClient \<Rightarrow> string \<Rightarrow> string \<Rightarrow> string \<Rightarrow> string \<Rightarrow> error + tgSettings" where
  "NewTgBotSettings hc behavior webhookLocalAddress publicURL botToken =
     (if behavior = WebhookMethod then
        if publicURL = [] then Inl (Errorf ''no public url for webhook method was provided'')
        else Inr \<lparr>ts_Token = botToken, ts_Poller = Webhook webhookLocalAddress publicURL\<rparr>
      else if behavior = PollingMethod then
        (case tryRemoveWebhookIfExists hc botToken of
           Some err \<Rightarrow> Inl (wrapf err ''failed to remove webhook if exists'')
         | None \<Rightarrow> Inr \<lparr>ts_Token = botToken, ts_Poller = LongPoller longPollingTimeout\<rparr>)
      else Inl (Errorf (''wrong type of bot behavior '' @ Quote behavior @ '' was provided'')))"

text \<open>\<open>NewBot\<close> is telebot's, \<open>New\<close> discordgo's; the client itself is part of the outside world.\<close>

definition InitTgBot ::
    "httpClient \<Rightarrow> (tgSettings \<Rightarrow> error option) \<Rightarrow> string \<Rightarrow> string \<Rightarrow> string \<Rightarrow> string \<Rightarrow> int \<Rightarrow> string \<Rightarrow>
     error + 'sub TelegramBot" where
  "InitTgBot hc NewBot behavior webhookLocalAddress publicURL botToken chatID scheme =
     (case NewTgBotSettings hc behavior webhookLocalAddress publicURL botToken of
        Inl err \<Rightarrow> Inl (wrapf err ''failed to set up bot configuration'')
      | Inr botSettings \<Rightarrow>
          (case NewBot botSettings of
             Some err \<Rightarrow> Inl (wrapf err ''failed to start telegram bot'')
           | None \<Rightarrow> Inr (NewTelegramBotEnvironment chatID False scheme)))"

definition InitDiscordBot :: "(string \<Rightarrow> error option) \<Rightarrow> string \<Rightarrow> string \<Rightarrow> string \<Rightarrow> error + 'sub DiscordBot" where
  "InitDiscordBot New botToken chatID scheme =
     (case New (''Bot '' @ botToken) of
        Some err \<Rightarrow> Inl (wrapf err ''failed to start discord bot'')
      | None \<Rightarrow> Inr (NewDiscordBotEnvironment chatID scheme))"

section \<open>The HTTP server of the bots\<close>

definition BotAPI_health ::
    "error \<Rightarrow> gowaves \<Rightarrow> jsontext \<Rightarrow> 'n nats_request \<Rightarrow> string \<Rightarrow> 'n \<Rightarrow> httpResponse \<Rightarrow> 'n \<times> httpResponse option" where
  "BotAPI_health timeout gw jt nq topic n w =
     (case RequestNodesWithCtx (Some timeout) gw jt nq topic n False of
        (n, None) \<Rightarrow> (n, None)
      | (n, Some (Inl err)) \<Rightarrow>
          (n, Some (http_Error w (''Failed to get non specific nodes: '' @ Error err) StatusInternalServerError))
      | (n, Some (Inr _)) \<Rightarrow> (n, Some (WriteHeader w StatusOK)))"

datatype botHandler = BH_health | BH_metrics | BH_version

definition BotAPI_routes :: "(string option \<times> string \<times> botHandler) list" where
  "BotAPI_routes =
     [(Some ''GET'', ''/health'', BH_health),
      (None, ''/metrics'', BH_metrics),
      (Some ''GET'', ''/version'', BH_version)]"

definition BotAPI_StartCtx :: "(string \<Rightarrow> error option) \<Rightarrow> string \<Rightarrow> error option" where
  "BotAPI_StartCtx Listen addr =
     (case Listen addr of
        Some listenErr \<Rightarrow> Some (Errorf (''Failed to start REST API at '' @ squote addr @ '': '' @ Error listenErr))
      | None \<Rightarrow> None)"

text \<open>
  \<open>version\<close> may be set by the linker. \<open>escape\<close> is \<open>html.EscapeString\<close>; \<open>http.Error\<close> replaces the
  content type.
\<close>

definition VersionHTTPHandler ::
    "string \<Rightarrow> apiLib \<Rightarrow> (string \<Rightarrow> string) \<Rightarrow> (string, string) gomap \<Rightarrow> httpResponse \<Rightarrow>
     (string, string) gomap \<times> httpResponse" where
  "VersionHTTPHandler version al escape h w =
     (let h = h(''Content-Type'' \<mapsto> ''application/json'', ''X-Content-Type-Options'' \<mapsto> ''nosniff'')
      in case al_Encode al (JObj [(''version'', JStr version)]) of
           Inl err \<Rightarrow>
             (h(''Content-Type'' \<mapsto> ''text/plain; charset=utf-8''),
              http_Error w (''{'' @ [CHR 0x22] @ ''error'' @ [CHR 0x22] @ '':'' @ Quote (escape (Error err)) @ ''}'' @ newline)
                StatusInternalServerError)
         | Inr text \<Rightarrow> (h, http_Write w text))"

section \<open>The NATS clients\<close>

text \<open>
  What the clients return: the error of connecting, or of subscribing, else nil when the context
  is done.
\<close>

definition StartSubMessagingClient :: "error option \<Rightarrow> error option \<Rightarrow> error option" where
  "StartSubMessagingClient connect subscrErr =
     (case connect of Some err \<Rightarrow> Some err | None \<Rightarrow> subscrErr)"

definition StartPairMessagingClient :: "error option \<Rightarrow> error option" where
  "StartPairMessagingClient connect = connect"

section \<open>The world of a bot\<close>

datatype botPart = BotClients string | BotHTTP | StatusSchedule | TelegramUpdates | DiscordSocket

text \<open>
  What can happen while a bot runs: a signal, the failure of a messaging client, the failure of the
  HTTP server.
\<close>

datatype moment = SignalReceived | SubClientReturned | PairClientReturned | ServerFailed error

text \<open>
  The other goroutines: each handler of an alert (\<open>tg_SendAlertMessage\<close>, \<open>ds_SendAlertMessage\<close>), each
  handler of a message that discordgo calls (\<open>handleStatusCmd\<close>), and each run of the scheduled status
  (\<open>scheduled_status\<close>) that is started before the scheduler is shut down. The code does not recover from
  their panics.
\<close>

datatype task = AlertHandler | ChatHandler | StatusTask

text \<open>How a program ends: with an error or none, not at all, or by the panic of a goroutine.\<close>

datatype botEnd = Ends "error option" | WaitsForEver | Panics error

text \<open>
  \<open>bp_tasks\<close>: the other goroutines in the order of their ends, with the number of actions that
  the main goroutine has taken by then. \<open>bp_moments\<close> is what happens from the start of the messaging clients on, in order; of it, the
  first \<open>bp_starting\<close> happen before the bot waits, and \<open>bp_stopping\<close> more while telebot stops. A
  \<open>select\<close> with several ready cases takes the one that \<open>bp_choice\<close> names.
\<close>

record botProcess =
  bp_LoggerType :: "string \<Rightarrow> error option"
  bp_http :: httpClient
  bp_NewBot :: "tgSettings \<Rightarrow> error option"
  bp_discordgo_New :: "string \<Rightarrow> error option"
  bp_Open :: "error option"
  bp_Listen :: "string \<Rightarrow> error option"
  bp_ScheduleWithCron :: "error option"
  bp_connect :: "error option"
  bp_subscribe :: "error option"
  bp_tasks :: "(task \<times> nat \<times> unit outcome) list"
  bp_moments :: "moment list"
  bp_starting :: nat
  bp_stopping :: nat
  bp_choice :: nat

text \<open>How a task ends, whatever it returns.\<close>

definition task_end :: "'a outcome \<Rightarrow> unit outcome" where
  "task_end r = (case r of Returned x \<Rightarrow> Returned () | Blocked \<Rightarrow> Blocked | Crashed e \<Rightarrow> Crashed e)"

text \<open>The channel of \<open>taskScheduler.Shutdown()\<close> is written when all runs have ended: the wait for it ends
  unless one of them waits for ever for a response.\<close>

definition taskScheduler_ends :: "botProcess \<Rightarrow> bool" where
  "taskScheduler_ends bp = list_all (\<lambda>(k, n, r). \<not> (k = StatusTask \<and> r = Blocked)) (bp_tasks bp)"

text \<open>A panic ends the process where the main goroutine is, without its deferred calls.\<close>

fun first_panic :: "(task \<times> nat \<times> unit outcome) list \<Rightarrow> (nat \<times> error) option" where
  "first_panic [] = None"
| "first_panic ((k, n, r) # tasks) = (case r of Crashed e \<Rightarrow> Some (n, e) | _ \<Rightarrow> first_panic tasks)"

definition with_panics :: "botProcess \<Rightarrow> botPart action list \<times> botEnd \<Rightarrow> botPart action list \<times> botEnd" where
  "with_panics bp program =
     (case first_panic (bp_tasks bp) of
        None \<Rightarrow> program
      | Some (n, e) \<Rightarrow> if 1 \<le> n \<and> n \<le> length (fst program) then (take n (fst program), Panics e) else program)"

text \<open>What \<open>runMessagingClients\<close> sends on its channel: the clients' errors, when they return with one.\<close>

fun tg_runMessagingClients :: "botProcess \<Rightarrow> moment \<Rightarrow> error option" where
  "tg_runMessagingClients bp SubClientReturned = StartSubMessagingClient (bp_connect bp) (bp_subscribe bp)"
| "tg_runMessagingClients bp PairClientReturned = StartPairMessagingClient (bp_connect bp)"
| "tg_runMessagingClients bp _ = None"

fun dsc_runMessagingClients :: "botProcess \<Rightarrow> moment \<Rightarrow> error option" where
  "dsc_runMessagingClients bp SubClientReturned = StartSubMessagingClient (bp_connect bp) (bp_subscribe bp)"
| "dsc_runMessagingClients bp PairClientReturned = StartPairMessagingClient (bp_connect bp)"
| "dsc_runMessagingClients bp _ = None"

text \<open>
  The case of the final \<open>select\<close> that becomes ready at a moment, as the error that it assigns.
  Without an HTTP server its channel is nil.
\<close>

definition ready :: "(moment \<Rightarrow> error option) \<Rightarrow> string \<Rightarrow> moment \<Rightarrow> error option option" where
  "ready msgErrCh bindAddress m =
     (case m of
        SignalReceived \<Rightarrow> Some None
      | ServerFailed err \<Rightarrow> if bindAddress \<noteq> [] then Some (Some err) else None
      | _ \<Rightarrow> map_option Some (msgErrCh m))"

definition select_one :: "nat \<Rightarrow> error option list \<Rightarrow> error option" where
  "select_one choice cases = cases ! (choice mod length cases)"

text \<open>The \<open>select\<close> of a bot that has waited for nothing before: \<open>None\<close> when it waits forever.\<close>

definition select_end :: "botProcess \<Rightarrow> string \<Rightarrow> error option option" where
  "select_end bp bindAddress =
     (let early = List.map_filter (ready (dsc_runMessagingClients bp) bindAddress) (take (bp_starting bp) (bp_moments bp));
          later = List.map_filter (ready (dsc_runMessagingClients bp) bindAddress) (drop (bp_starting bp) (bp_moments bp))
      in if early \<noteq> [] then Some (select_one (bp_choice bp) early)
         else case later of [] \<Rightarrow> None | err # _ \<Rightarrow> Some err)"

text \<open>
  \<open>TelegramBotEnvironment.Start\<close>: telebot's \<open>Start\<close> returns when the bot is stopped, and the bot is
  stopped when the context is done. The result is what has happened when it returns.
\<close>

definition TelegramBot_Start :: "botProcess \<Rightarrow> moment list option" where
  "TelegramBot_Start bp =
     (if SignalReceived \<in> set (bp_moments bp)
      then Some (takeWhile (\<lambda>m. m \<noteq> SignalReceived) (bp_moments bp) @ [SignalReceived] @
                 take (bp_stopping bp) (tl (dropWhile (\<lambda>m. m \<noteq> SignalReceived) (bp_moments bp))))
      else None)"

definition DiscordBot_Start :: "botProcess \<Rightarrow> error option" where
  "DiscordBot_Start bp = bp_Open bp"

text \<open>The HTTP server is started when there is an address; \<open>NewBotAPI\<close> never fails.\<close>

definition start_BotAPI :: "botProcess \<Rightarrow> string \<Rightarrow> botPart action list \<times> error option" where
  "start_BotAPI bp bindAddress =
     (if bindAddress = [] then ([], None)
      else case BotAPI_StartCtx (bp_Listen bp) bindAddress of
             Some startErr \<Rightarrow> ([], Some startErr)
           | None \<Rightarrow> ([Started BotHTTP], None))"

text \<open>The deferred \<open>Shutdown\<close> of an HTTP server that was started.\<close>

definition shutdown_BotAPI :: "string \<Rightarrow> botPart action list" where
  "shutdown_BotAPI bindAddress = (if bindAddress = [] then [] else [Stopped BotHTTP])"

section \<open>The programs\<close>

text \<open>The main goroutine: its actions, and how it ends when nothing panics.\<close>

definition telegram_goroutine :: "botProcess \<Rightarrow> telegramBotConfig \<Rightarrow> botPart action list \<times> botEnd" where
  "telegram_goroutine bp cfg =
     (case SetupLogger (bp_LoggerType bp) (tc_logLevel cfg) (tc_logType cfg) of
        Some lErr \<Rightarrow> ([], Ends (Some (wrapf lErr (''failed to setup logger with level '' @ Quote (tc_logLevel cfg) @
          '' and type '' @ Quote (tc_logType cfg)))))
      | None \<Rightarrow>
     (case telegram_validate cfg of
        Some validationErr \<Rightarrow> ([], Ends (Some validationErr))
      | None \<Rightarrow>
     (case InitTgBot (bp_http bp) (bp_NewBot bp) (tc_behavior cfg) (tc_webhookLocalAddress cfg) (tc_publicURL cfg)
             (tc_tgBotToken cfg) (tc_tgChatID cfg) (tc_scheme cfg) :: error + unit TelegramBot of
        Inl initErr \<Rightarrow> ([], Ends (Some initErr))
      | Inr tgBotEnv \<Rightarrow>
     (case start_BotAPI bp (tc_bindAddress cfg) of
        (api, Some err) \<Rightarrow> ([Started (BotClients (TelegramBotRequestsTopic (tc_scheme cfg)))] @ api, Ends (Some err))
      | (api, None) \<Rightarrow>
     (case bp_ScheduleWithCron bp of
        Some err \<Rightarrow> ([Started (BotClients (TelegramBotRequestsTopic (tc_scheme cfg)))] @ api @ shutdown_BotAPI (tc_bindAddress cfg), Ends (Some err))
      | None \<Rightarrow>
          let acts = [Started (BotClients (TelegramBotRequestsTopic (tc_scheme cfg)))] @ api @ [Started StatusSchedule, Started TelegramUpdates]
          in case TelegramBot_Start bp of
               None \<Rightarrow> (acts, WaitsForEver)
             | Some happened \<Rightarrow>
                 let acts = acts @ [Stopped TelegramUpdates];
                     err = select_one (bp_choice bp) (List.map_filter (ready (tg_runMessagingClients bp) (tc_bindAddress cfg)) happened)
                 in if taskScheduler_ends bp
                    then (acts @ [Stopped StatusSchedule] @ shutdown_BotAPI (tc_bindAddress cfg), Ends err)
                    else (acts, WaitsForEver))))))"

definition runTelegramBot :: "botProcess \<Rightarrow> telegramBotConfig \<Rightarrow> botPart action list \<times> botEnd" where
  "runTelegramBot bp cfg = with_panics bp (telegram_goroutine bp cfg)"

definition waitScheduler :: "botProcess \<Rightarrow> botPart action list option" where
  "waitScheduler bp = (if taskScheduler_ends bp then Some [Stopped StatusSchedule] else None)"

definition discord_goroutine :: "botProcess \<Rightarrow> discordBotConfig \<Rightarrow> botPart action list \<times> botEnd" where
  "discord_goroutine bp cfg =
     (case SetupLogger (bp_LoggerType bp) (dc_logLevel cfg) (dc_logType cfg) of
        Some lErr \<Rightarrow> ([], Ends (Some (wrapf lErr (''failed to setup logger with level '' @ Quote (dc_logLevel cfg) @
          '' and type '' @ Quote (dc_logType cfg)))))
      | None \<Rightarrow>
     (case discord_validate cfg of
        Some validationErr \<Rightarrow> ([], Ends (Some validationErr))
      | None \<Rightarrow>
     (case InitDiscordBot (bp_discordgo_New bp) (dc_discordBotToken cfg) (dc_discordChatID cfg) (dc_scheme cfg)
             :: error + unit DiscordBot of
        Inl initErr \<Rightarrow> ([], Ends (Some (wrapf initErr ''failed to init discord bot'')))
      | Inr discordBotEnv \<Rightarrow>
     (case start_BotAPI bp (dc_bindAddress cfg) of
        (api, Some err) \<Rightarrow> ([Started (BotClients (DiscordBotRequestsTopic (dc_scheme cfg)))] @ api, Ends (Some err))
      | (api, None) \<Rightarrow>
     (case bp_ScheduleWithCron bp of
        Some err \<Rightarrow> ([Started (BotClients (DiscordBotRequestsTopic (dc_scheme cfg)))] @ api @ shutdown_BotAPI (dc_bindAddress cfg), Ends (Some err))
      | None \<Rightarrow>
     (case DiscordBot_Start bp of
        Some err \<Rightarrow> ([Started (BotClients (DiscordBotRequestsTopic (dc_scheme cfg)))] @ api @ [Started StatusSchedule] @ shutdown_BotAPI (dc_bindAddress cfg), Ends (Some err))
      | None \<Rightarrow>
          let acts = [Started (BotClients (DiscordBotRequestsTopic (dc_scheme cfg)))] @ api @ [Started StatusSchedule, Started DiscordSocket]
          in case select_end bp (dc_bindAddress cfg) of
               None \<Rightarrow> (acts, WaitsForEver)
             | Some err \<Rightarrow>
                 (case waitScheduler bp of
                    None \<Rightarrow> (acts, WaitsForEver)
                  | Some waited \<Rightarrow> (acts @ waited @ [Stopped DiscordSocket] @ shutdown_BotAPI (dc_bindAddress cfg), Ends err))))))))"

definition runDiscordBot :: "botProcess \<Rightarrow> discordBotConfig \<Rightarrow> botPart action list \<times> botEnd" where
  "runDiscordBot bp cfg = with_panics bp (discord_goroutine bp cfg)"

definition bot_exitCode :: "(error \<Rightarrow> bool) \<Rightarrow> error option \<Rightarrow> int" where
  "bot_exitCode canceled err =
     (case err of None \<Rightarrow> 0 | Some e \<Rightarrow> if canceled e then 130 else 1)"

text \<open>The exit code, if there is one: the Go runtime exits with 2 after a panic.\<close>

definition botEnd_exitCode :: "(error \<Rightarrow> bool) \<Rightarrow> botEnd \<Rightarrow> int option" where
  "botEnd_exitCode canceled r =
     (case r of Ends err \<Rightarrow> Some (bot_exitCode canceled err) | WaitsForEver \<Rightarrow> None | Panics e \<Rightarrow> Some 2)"

text \<open>\<open>main\<close> of a bot: the flags and the program.\<close>

definition telegram_main :: "(error \<Rightarrow> bool) \<Rightarrow> flagEnv \<Rightarrow> string list \<Rightarrow> botProcess \<Rightarrow> botPart action list \<times> int option" where
  "telegram_main canceled fe args bp =
     (case parsed (newTelegramBotConfig fe) args of
        Inl code \<Rightarrow> ([], Some code)
      | Inr cfg \<Rightarrow> (case runTelegramBot bp cfg of (acts, r) \<Rightarrow> (acts, botEnd_exitCode canceled r)))"

definition discord_main :: "(error \<Rightarrow> bool) \<Rightarrow> flagEnv \<Rightarrow> string list \<Rightarrow> botProcess \<Rightarrow> botPart action list \<times> int option" where
  "discord_main canceled fe args bp =
     (case parsed (newDiscordBotConfigConfig fe) args of
        Inl code \<Rightarrow> ([], Some code)
      | Inr cfg \<Rightarrow> (case runDiscordBot bp cfg of (acts, r) \<Rightarrow> (acts, botEnd_exitCode canceled r)))"

section \<open>When the programs end\<close>

lemma start_BotAPI_failed: "start_BotAPI bp addr = (api, Some err) \<Longrightarrow> api = []"
  by (auto simp: start_BotAPI_def split: option.splits if_splits)

lemma start_BotAPI_done:
  "start_BotAPI bp addr = (api, None) \<Longrightarrow>
   api = [] \<and> shutdown_BotAPI addr = [] \<or> api = [Started BotHTTP] \<and> shutdown_BotAPI addr = [Stopped BotHTTP]"
  by (auto simp: start_BotAPI_def shutdown_BotAPI_def split: option.splits if_splits)

text \<open>How far the main goroutines get.\<close>

lemma telegram_goroutine_cases:
  assumes "telegram_goroutine bp cfg = (acts, r)"
  obtains e where "acts = []" "r = Ends (Some e)"
  | e where "acts = [Started (BotClients (TelegramBotRequestsTopic (tc_scheme cfg)))]" "r = Ends (Some e)"
  | api e where "start_BotAPI bp (tc_bindAddress cfg) = (api, None)"
      "acts = Started (BotClients (TelegramBotRequestsTopic (tc_scheme cfg))) # api @ shutdown_BotAPI (tc_bindAddress cfg)" "r = Ends (Some e)"
  | api where "start_BotAPI bp (tc_bindAddress cfg) = (api, None)" "SignalReceived \<notin> set (bp_moments bp)"
      "acts = Started (BotClients (TelegramBotRequestsTopic (tc_scheme cfg))) # api @ [Started StatusSchedule, Started TelegramUpdates]"
      "r = WaitsForEver"
  | api where "start_BotAPI bp (tc_bindAddress cfg) = (api, None)" "SignalReceived \<in> set (bp_moments bp)" "\<not> taskScheduler_ends bp"
      "acts = Started (BotClients (TelegramBotRequestsTopic (tc_scheme cfg))) # api @ [Started StatusSchedule, Started TelegramUpdates,
        Stopped TelegramUpdates]" "r = WaitsForEver"
  | api err where "start_BotAPI bp (tc_bindAddress cfg) = (api, None)" "SignalReceived \<in> set (bp_moments bp)" "taskScheduler_ends bp"
      "acts = Started (BotClients (TelegramBotRequestsTopic (tc_scheme cfg))) # api @ [Started StatusSchedule, Started TelegramUpdates,
        Stopped TelegramUpdates, Stopped StatusSchedule] @ shutdown_BotAPI (tc_bindAddress cfg)" "r = Ends err"
proof (cases "start_BotAPI bp (tc_bindAddress cfg)")
  case (Pair api err)
  show ?thesis
  proof (cases err)
    case None
    with Pair assms that show ?thesis
      unfolding telegram_goroutine_def TelegramBot_Start_def by (auto simp: Let_def split: option.splits sum.splits if_splits)
  next
    case (Some e)
    from Pair Some have "api = []" by (simp add: start_BotAPI_failed)
    with Pair Some assms that(1,2) show ?thesis
      unfolding telegram_goroutine_def by (auto split: option.splits sum.splits)
  qed
qed

lemma discord_goroutine_cases:
  assumes "discord_goroutine bp cfg = (acts, r)"
  obtains e where "acts = []" "r = Ends (Some e)"
  | e where "acts = [Started (BotClients (DiscordBotRequestsTopic (dc_scheme cfg)))]" "r = Ends (Some e)"
  | api e where "start_BotAPI bp (dc_bindAddress cfg) = (api, None)"
      "acts = Started (BotClients (DiscordBotRequestsTopic (dc_scheme cfg))) # api @ shutdown_BotAPI (dc_bindAddress cfg)" "r = Ends (Some e)"
  | api e where "start_BotAPI bp (dc_bindAddress cfg) = (api, None)" "bp_Open bp = Some e"
      "acts = Started (BotClients (DiscordBotRequestsTopic (dc_scheme cfg))) # api @ Started StatusSchedule # shutdown_BotAPI (dc_bindAddress cfg)"
      "r = Ends (Some e)"
  | api where "start_BotAPI bp (dc_bindAddress cfg) = (api, None)" "bp_Open bp = None"
      "select_end bp (dc_bindAddress cfg) = None \<or> \<not> taskScheduler_ends bp"
      "acts = Started (BotClients (DiscordBotRequestsTopic (dc_scheme cfg))) # api @ [Started StatusSchedule, Started DiscordSocket]"
      "r = WaitsForEver"
  | api err where "start_BotAPI bp (dc_bindAddress cfg) = (api, None)" "bp_Open bp = None"
      "select_end bp (dc_bindAddress cfg) = Some err" "taskScheduler_ends bp"
      "acts = Started (BotClients (DiscordBotRequestsTopic (dc_scheme cfg))) # api @ [Started StatusSchedule, Started DiscordSocket, Stopped StatusSchedule,
        Stopped DiscordSocket] @ shutdown_BotAPI (dc_bindAddress cfg)" "r = Ends err"
proof (cases "start_BotAPI bp (dc_bindAddress cfg)")
  case (Pair api err)
  show ?thesis
  proof (cases err)
    case None
    with Pair assms that show ?thesis
      unfolding discord_goroutine_def DiscordBot_Start_def waitScheduler_def
      by (auto simp: Let_def split: option.splits sum.splits if_splits)
  next
    case (Some e)
    from Pair Some have "api = []" by (simp add: start_BotAPI_failed)
    with Pair Some assms that(1,2) show ?thesis
      unfolding discord_goroutine_def by (auto split: option.splits sum.splits)
  qed
qed

lemma first_panic_task: "first_panic tasks = Some (n, e) \<Longrightarrow> \<exists>k n. (k, n, Crashed e) \<in> set tasks"
  by (induction tasks rule: first_panic.induct) (auto split: outcome.splits)

text \<open>A program that a panic ends has taken the actions up to the panic; the others run as if none came.\<close>

lemma with_panics_cases:
  assumes "with_panics bp program = (acts, r)"
  obtains "program = (acts, r)" "\<And>n e. first_panic (bp_tasks bp) = Some (n, e) \<Longrightarrow> n = 0 \<or> length acts < n"
  | n e where "first_panic (bp_tasks bp) = Some (n, e)" "r = Panics e" "acts = take n (fst program)" "length acts = n"
  using assms that by (cases program) (auto simp: with_panics_def split: option.splits if_splits)

lemma map_filter_Nil_iff: "List.map_filter f xs = [] \<longleftrightarrow> (\<forall>x \<in> set xs. f x = None)"
  by (induction xs) (auto simp: List.map_filter_def split: option.splits)

lemma select_end_None: "select_end bp addr = None \<longleftrightarrow> (\<forall>m \<in> set (bp_moments bp). ready (dsc_runMessagingClients bp) addr m = None)"
proof -
  have "set (bp_moments bp) = set (take (bp_starting bp) (bp_moments bp)) \<union> set (drop (bp_starting bp) (bp_moments bp))"
    by (metis append_take_drop_id set_append)
  moreover have "select_end bp addr = None \<longleftrightarrow>
      List.map_filter (ready (dsc_runMessagingClients bp) addr) (take (bp_starting bp) (bp_moments bp)) = [] \<and>
      List.map_filter (ready (dsc_runMessagingClients bp) addr) (drop (bp_starting bp) (bp_moments bp)) = []"
    by (simp add: select_end_def Let_def split: list.splits)
  ultimately show ?thesis by (simp only: map_filter_Nil_iff ball_Un)
qed

lemma telegram_started:
  assumes "telegram_goroutine bp cfg = (acts, r)" "Started TelegramUpdates \<in> set acts"
  shows "r = (if SignalReceived \<in> set (bp_moments bp) \<and> taskScheduler_ends bp then r else WaitsForEver)"
    and "SignalReceived \<in> set (bp_moments bp) \<Longrightarrow> taskScheduler_ends bp \<Longrightarrow> \<exists>err. r = Ends err"
  using assms by (cases rule: telegram_goroutine_cases; auto dest!: start_BotAPI_done)+

lemma discord_started:
  assumes "discord_goroutine bp cfg = (acts, r)" "Started DiscordSocket \<in> set acts"
  shows "r = (if select_end bp (dc_bindAddress cfg) \<noteq> None \<and> taskScheduler_ends bp then r else WaitsForEver)"
    and "select_end bp (dc_bindAddress cfg) \<noteq> None \<Longrightarrow> taskScheduler_ends bp \<Longrightarrow> \<exists>err. r = Ends err"
  using assms by (cases rule: discord_goroutine_cases; auto dest!: start_BotAPI_done)+

text \<open>
  C38: No failure of its clients or of its server ends the Telegram bot. Once its updates are started,
  it returns only after a signal, because telebot's \<open>Start\<close> blocks until then: a bot that never got
  a connection to NATS, or whose HTTP server failed, stays up and is deaf. If no goroutine panics,
  it waits for ever exactly when there is no signal, or when the scheduler waits for a run of the
  status that never gets its response. The Discord bot, once its socket is open, returns only after
  a signal or a failure, and waits for ever exactly when there is neither, or because of the
  scheduler. A panic of another goroutine, as the handler of an alert has it after a failed \<open>Send\<close>
  and the scheduled status after a failed request, ends either bot if it comes before the end, and
  nothing else makes it panic.
\<close>

theorem telegram_bot_ignores_failures:
  assumes "runTelegramBot bp cfg = (acts, r)" "Started TelegramUpdates \<in> set acts"
    and "runDiscordBot bp cfg' = (acts', r')" "Started DiscordSocket \<in> set acts'"
  shows "(\<forall>err. r = Ends err \<longrightarrow> SignalReceived \<in> set (bp_moments bp) \<and> taskScheduler_ends bp) \<and>
    (\<forall>err. r' = Ends err \<longrightarrow> (\<exists>m \<in> set (bp_moments bp). ready (dsc_runMessagingClients bp) (dc_bindAddress cfg') m \<noteq> None) \<and>
      taskScheduler_ends bp) \<and>
    (first_panic (bp_tasks bp) = None \<longrightarrow>
      (r = WaitsForEver \<longleftrightarrow> SignalReceived \<notin> set (bp_moments bp) \<or> \<not> taskScheduler_ends bp) \<and>
      (r' = WaitsForEver \<longleftrightarrow> (\<forall>m \<in> set (bp_moments bp). ready (dsc_runMessagingClients bp) (dc_bindAddress cfg') m = None) \<or>
        \<not> taskScheduler_ends bp)) \<and>
    (\<forall>e. r = Panics e \<or> r' = Panics e \<longrightarrow> (\<exists>k n. (k, n, Crashed e) \<in> set (bp_tasks bp))) \<and>
    (\<forall>n e. first_panic (bp_tasks bp) = Some (n, e) \<and> 1 \<le> n \<longrightarrow>
      (n \<le> length acts \<longrightarrow> r = Panics e) \<and> (n \<le> length acts' \<longrightarrow> r' = Panics e))"
proof -
  have sel: "select_end bp addr \<noteq> None \<longleftrightarrow> (\<exists>m \<in> set (bp_moments bp). ready (dsc_runMessagingClients bp) addr m \<noteq> None)" for addr
    by (simp add: select_end_None)
  have tg: "(\<exists>n e. first_panic (bp_tasks bp) = Some (n, e) \<and> r = Panics e \<and> length acts = n) \<or>
    (\<forall>n e. first_panic (bp_tasks bp) = Some (n, e) \<longrightarrow> n = 0 \<or> length acts < n) \<and>
    r = (if SignalReceived \<in> set (bp_moments bp) \<and> taskScheduler_ends bp then r else WaitsForEver) \<and>
    (SignalReceived \<in> set (bp_moments bp) \<and> taskScheduler_ends bp \<longrightarrow> (\<exists>err. r = Ends err))"
    using assms(1) unfolding runTelegramBot_def
    by (cases rule: with_panics_cases) (use telegram_started [OF _ assms(2)] in blast)+
  have ds: "(\<exists>n e. first_panic (bp_tasks bp) = Some (n, e) \<and> r' = Panics e \<and> length acts' = n) \<or>
    (\<forall>n e. first_panic (bp_tasks bp) = Some (n, e) \<longrightarrow> n = 0 \<or> length acts' < n) \<and>
    r' = (if select_end bp (dc_bindAddress cfg') \<noteq> None \<and> taskScheduler_ends bp then r' else WaitsForEver) \<and>
    (select_end bp (dc_bindAddress cfg') \<noteq> None \<and> taskScheduler_ends bp \<longrightarrow> (\<exists>err. r' = Ends err))"
    using assms(3) unfolding runDiscordBot_def
    by (cases rule: with_panics_cases) (use discord_started [OF _ assms(4)] in blast)+
  have "(\<forall>err. r = Ends err \<longrightarrow> SignalReceived \<in> set (bp_moments bp) \<and> taskScheduler_ends bp) \<and>
    (first_panic (bp_tasks bp) = None \<longrightarrow> (r = WaitsForEver \<longleftrightarrow> SignalReceived \<notin> set (bp_moments bp) \<or> \<not> taskScheduler_ends bp)) \<and>
    (\<forall>e. r = Panics e \<longrightarrow> (\<exists>k n. (k, n, Crashed e) \<in> set (bp_tasks bp))) \<and>
    (\<forall>n e. first_panic (bp_tasks bp) = Some (n, e) \<and> 1 \<le> n \<and> n \<le> length acts \<longrightarrow> r = Panics e)"
    using tg by (elim disjE exE) (auto split: if_splits intro: first_panic_task)
  moreover have "(\<forall>err. r' = Ends err \<longrightarrow> select_end bp (dc_bindAddress cfg') \<noteq> None \<and> taskScheduler_ends bp) \<and>
    (first_panic (bp_tasks bp) = None \<longrightarrow>
      (r' = WaitsForEver \<longleftrightarrow> select_end bp (dc_bindAddress cfg') = None \<or> \<not> taskScheduler_ends bp)) \<and>
    (\<forall>e. r' = Panics e \<longrightarrow> (\<exists>k n. (k, n, Crashed e) \<in> set (bp_tasks bp))) \<and>
    (\<forall>n e. first_panic (bp_tasks bp) = Some (n, e) \<and> 1 \<le> n \<and> n \<le> length acts' \<longrightarrow> r' = Panics e)"
    using ds by (elim disjE exE) (auto split: if_splits intro: first_panic_task)
  ultimately show ?thesis unfolding sel select_end_None by blast
qed

text \<open>
  What a bot that returns has stopped: its HTTP server, the scheduled status, and telebot or the
  socket of Discord, each once if it was started. The exception is a Discord bot whose socket
  cannot be opened: its scheduler is left running.
\<close>

lemma bots_clean_up:
  assumes "runTelegramBot bp cfg = (acts, Ends err)" "runDiscordBot bp cfg' = (acts', Ends err')"
  shows "(\<forall>x \<in> {BotHTTP, StatusSchedule, TelegramUpdates}. about x acts \<in> {[], [Started x, Stopped x]}) \<and>
    (\<forall>x \<in> {BotHTTP, DiscordSocket}. about x acts' \<in> {[], [Started x, Stopped x]}) \<and>
    (Started StatusSchedule \<in> set acts' \<longrightarrow>
       about StatusSchedule acts' = (if bp_Open bp = None then [Started StatusSchedule, Stopped StatusSchedule]
                                      else [Started StatusSchedule]))"
proof -
  from assms(1) have "telegram_goroutine bp cfg = (acts, Ends err)"
    unfolding runTelegramBot_def by (cases rule: with_panics_cases) simp_all
  then have "\<forall>x \<in> {BotHTTP, StatusSchedule, TelegramUpdates}. about x acts \<in> {[], [Started x, Stopped x]}"
    by (cases rule: telegram_goroutine_cases) (auto dest!: start_BotAPI_done)
  moreover from assms(2) have "discord_goroutine bp cfg' = (acts', Ends err')"
    unfolding runDiscordBot_def by (cases rule: with_panics_cases) simp_all
  then have "(\<forall>x \<in> {BotHTTP, DiscordSocket}. about x acts' \<in> {[], [Started x, Stopped x]}) \<and>
    (Started StatusSchedule \<in> set acts' \<longrightarrow>
       about StatusSchedule acts' = (if bp_Open bp = None then [Started StatusSchedule, Stopped StatusSchedule]
                                      else [Started StatusSchedule]))"
    by (cases rule: discord_goroutine_cases) (auto dest!: start_BotAPI_done)
  ultimately show ?thesis by blast
qed

section \<open>Witnesses\<close>

text \<open>
  A Telegram bot without an HTTP server and a Discord bot with one; NATS cannot be reached, and a
  run of the scheduled status returns. In \<open>demo_crash\<close> a run whose request for the statements fails
  panics when all is started.
\<close>

definition demo_bot :: botProcess where
  "demo_bot =
     \<lparr>bp_LoggerType = (\<lambda>_. None),
      bp_http = \<lparr>hc_NewRequest = (\<lambda>_. None), hc_Do = (\<lambda>_. Inr (200, ''200 OK'', None))\<rparr>,
      bp_NewBot = (\<lambda>_. None), bp_discordgo_New = (\<lambda>_. None), bp_Open = None, bp_Listen = (\<lambda>_. None),
      bp_ScheduleWithCron = None, bp_connect = Some (Errorf ''nats: no servers available''), bp_subscribe = None,
      bp_tasks = [(StatusTask, 3, Returned ())],
      bp_moments = [SubClientReturned, PairClientReturned], bp_starting = 0, bp_stopping = 0, bp_choice = 0\<rparr>"

definition demo_telegram_config :: telegramBotConfig where
  "demo_telegram_config = zeroTelegramBotConfig
     \<lparr>tc_behavior := PollingMethod, tc_tgBotToken := ''t'', tc_tgChatID := 7, tc_scheme := ''W'', tc_logLevel := ''INFO''\<rparr>"

definition demo_discord_config :: discordBotConfig where
  "demo_discord_config = zeroDiscordBotConfig
     \<lparr>dc_discordBotToken := ''t'', dc_discordChatID := ''7'', dc_scheme := ''W'', dc_logLevel := ''INFO'', dc_bindAddress := '':1''\<rparr>"

definition demo_crash :: botProcess where
  "demo_crash = demo_bot\<lparr>bp_tasks := [(StatusTask, 3, Crashed (Panic ''nil pointer dereference''))]\<rparr>"

lemma demo_crash_task:
  "bp_tasks demo_crash = [(StatusTask, 3, task_end (scheduled_status gw tm b (Some (Inr nodes)) (\<lambda>_. Some (Inl err))))]"
  by (simp add: demo_crash_def task_end_def scheduled_status_def)

lemma demo_bots:
  "fst (runTelegramBot demo_bot demo_telegram_config) = [Started (BotClients (TelegramBotRequestsTopic ''W'')), Started StatusSchedule, Started TelegramUpdates]"
  "fst (runDiscordBot demo_bot demo_discord_config) =
     [Started (BotClients (DiscordBotRequestsTopic ''W'')), Started BotHTTP, Started StatusSchedule, Started DiscordSocket, Stopped StatusSchedule,
      Stopped DiscordSocket, Stopped BotHTTP]"
  "fst (runTelegramBot demo_crash demo_telegram_config) = [Started (BotClients (TelegramBotRequestsTopic ''W'')), Started StatusSchedule, Started TelegramUpdates]"
  by code_simp+

lemma demo_facts:
  "bp_moments demo_bot = [SubClientReturned, PairClientReturned]" "bp_connect demo_bot \<noteq> None"
  "first_panic (bp_tasks demo_bot) = None" "taskScheduler_ends demo_bot"
  by (simp_all add: demo_bot_def taskScheduler_ends_def)

theorem telegram_bot_ignores_failures_witness:
  "snd (runTelegramBot demo_bot demo_telegram_config) = WaitsForEver \<and> snd (runDiscordBot demo_bot demo_discord_config) \<noteq> WaitsForEver"
proof -
  have "Started TelegramUpdates \<in> set (fst (runTelegramBot demo_bot demo_telegram_config))"
    "Started DiscordSocket \<in> set (fst (runDiscordBot demo_bot demo_discord_config))"
    by (simp_all add: demo_bots)
  from telegram_bot_ignores_failures [OF prod.collapse [symmetric] this(1) prod.collapse [symmetric] this(2)]
  show ?thesis using demo_facts by (simp add: StartPairMessagingClient_def ready_def)
qed

text \<open>The exit codes of the crashed bot and of one that is signalled.\<close>

lemma demo_ends:
  "snd (runTelegramBot demo_crash demo_telegram_config) = Panics (Panic ''nil pointer dereference'')"
  "snd (runTelegramBot (demo_bot\<lparr>bp_moments := [SubClientReturned, SignalReceived]\<rparr>) demo_telegram_config) =
     Ends (Some (Errorf ''nats: no servers available''))"
  "botEnd_exitCode canceled (Panics e) = Some 2"
  by (code_simp, code_simp, simp add: botEnd_exitCode_def)

end
