(* ===== verification/HttpServers.thy ===== *)
theory HttpServers
  imports ApiPolicy BotMain
begin

text \<open>
  The HTTP servers of the service (\<open>NewAPI\<close> of \<open>pkg/api/api.go\<close>) and of the bots (\<open>NewBotAPI\<close> of
  \<open>cmd/bots/internal/bots/api/api.go\<close>): the middleware around the routes, the handler that each
  route calls, serving and shutting down. A handler sees the request, the state of the
  program and the response; it answers, panics, or waits for ever. Headers of the response are left
  out. chi and its middleware are a record of parameters.
\<close>

section \<open>Handlers and middleware\<close>

record webRequest =
  wr_method :: string
  wr_path :: string
  wr_request :: httpRequest

record 's exchange =
  x_state :: 's
  x_response :: Api.httpResponse

datatype 's webResult = Answered "'s exchange" | Panicked "'s exchange" error | NoAnswer "'s exchange"

type_synonym 's httpHandler = "webRequest \<Rightarrow> 's exchange \<Rightarrow> 's webResult"
type_synonym 's middleware = "'s httpHandler \<Rightarrow> 's httpHandler"
type_synonym 's routes = "(string option \<times> string \<times> 's httpHandler) list"

record 's chi =
  ch_Use :: "'s middleware list \<Rightarrow> 's httpHandler \<Rightarrow> 's httpHandler"
  ch_Mount :: "string \<Rightarrow> 's httpHandler \<Rightarrow> 's httpHandler"
  ch_Router :: "'s routes \<Rightarrow> 's httpHandler"
  ch_RequestID :: "'s middleware"
  ch_ClientIPFromHeader :: "string \<Rightarrow> 's middleware"
  ch_RequestLogger :: "bool \<Rightarrow> 's middleware"
  ch_Recoverer :: "'s middleware"
  ch_SetHeader :: "string \<Rightarrow> string \<Rightarrow> 's middleware"

text \<open>
  What chi documents. Middleware is run in the order of its registration; the routes are literal
  paths; request ids, client addresses, the log and the header of the response do not change the answer; the
  recoverer turns a panic into the status 500, if none was sent. (The recoverer of chi leaves the
  status out for a request with the header \<open>Connection: Upgrade\<close>, which no client of these
  servers has a reason to send: a \<open>webRequest\<close> is one without this header.)
\<close>

definition route_for :: "'s routes \<Rightarrow> webRequest \<Rightarrow> 's httpHandler option" where
  "route_for rs r =
     map_option (\<lambda>(m, p, h). h) (find (\<lambda>(m, p, h). p = wr_path r \<and> (m = None \<or> m = Some (wr_method r))) rs)"

definition recovered :: "'s webResult \<Rightarrow> 's webResult" where
  "recovered a =
     (case a of
        Panicked x e \<Rightarrow> Answered (x\<lparr>x_response := WriteHeader (x_response x) StatusInternalServerError\<rparr>)
      | _ \<Rightarrow> a)"

definition chi_ok :: "'s chi \<Rightarrow> bool" where
  "chi_ok chi \<longleftrightarrow>
     (\<forall>ms h. ch_Use chi ms h = foldr (\<lambda>m h. m h) ms h) \<and> (\<forall>h. ch_Mount chi ''/'' h = h) \<and>
     (\<forall>h. ch_RequestID chi h = h) \<and> (\<forall>name h. ch_ClientIPFromHeader chi name h = h) \<and>
     (\<forall>c h. ch_RequestLogger chi c h = h) \<and> (\<forall>k v h. ch_SetHeader chi k v h = h) \<and>
     (\<forall>h r x. ch_Recoverer chi h r x = recovered (h r x)) \<and>
     (\<forall>rs r x. rw_status (x_response x) = None \<longrightarrow>
        (case route_for rs r of
           Some h \<Rightarrow> ch_Router chi rs r x = h r x
         | None \<Rightarrow> \<exists>w. ch_Router chi rs r x = Answered (x\<lparr>x_response := w\<rparr>) \<and> rw_status w \<in> {Some 404, Some 405}))"

record 's httpServer =
  srv_Addr :: string
  srv_Handler :: "'s httpHandler"
  srv_ReadHeaderTimeout :: int
  srv_ReadTimeout :: int

text \<open>A server with its channel for the error of \<open>Serve\<close>, which has room for one.\<close>

record 's API =
  api_srv :: "'s httpServer"
  api_serveErrCh :: "error list"

section \<open>The server of the service\<close>

record ('w, 'd) apiState =
  ap_nodesStorage :: "'w JSONStorage"
  ap_eventsStorage :: "'d Storage"
  ap_private :: privateNodesEvents

text \<open>Parameters: the libraries of the handlers, the linked version, and the handler of Prometheus.\<close>

record 'd apiDeps =
  ad_gowaves :: gowaves
  ad_buntdb :: "'d buntDB"
  ad_lib :: apiLib
  ad_neturl :: neturl
  ad_version :: string
  ad_escape :: "string \<Rightarrow> string"
  ad_metrics :: "webRequest \<Rightarrow> Api.httpResponse \<Rightarrow> Api.httpResponse"

fun API_handle :: "'d apiDeps \<Rightarrow> apiHandler \<Rightarrow> ('w, 'd) apiState httpHandler" where
  "API_handle ad H_nodes r x =
     Answered (x\<lparr>x_response := API_nodes (ad_lib ad) (ap_nodesStorage (x_state x)) (x_response x)\<rparr>)"
| "API_handle ad H_enabled r x =
     Answered (x\<lparr>x_response := API_enabled (ad_lib ad) (ap_nodesStorage (x_state x)) (x_response x)\<rparr>)"
| "API_handle ad H_specificNodes r x =
     (case specificNodesHandler (ad_gowaves ad) (ad_lib ad) (ad_neturl ad)
             (Inr (EnabledSpecificNodes (ap_nodesStorage (x_state x)))) (wr_request r) (ap_private (x_state x)) (x_response x) of
        (p, Inl panic) \<Rightarrow> Panicked (x\<lparr>x_state := (x_state x)\<lparr>ap_private := p\<rparr>\<rparr>) panic
      | (p, Inr w) \<Rightarrow> Answered (x\<lparr>x_state := (x_state x)\<lparr>ap_private := p\<rparr>, x_response := w\<rparr>))"
| "API_handle ad H_health r x =
     Answered (x\<lparr>x_response := health (ad_gowaves ad) (ad_buntdb ad) (Inr (EnabledNodes (ap_nodesStorage (x_state x))))
       (ap_eventsStorage (x_state x)) (x_response x)\<rparr>)"
| "API_handle ad H_metrics r x = Answered (x\<lparr>x_response := ad_metrics ad r (x_response x)\<rparr>)"
| "API_handle ad H_version r x =
     Answered (x\<lparr>x_response := snd (VersionHTTPHandler (ad_version ad) (ad_lib ad) (ad_escape ad) (\<lambda>_. None) (x_response x))\<rparr>)"

definition NewAPI :: "('w, 'd) apiState chi \<Rightarrow> 'd apiDeps \<Rightarrow> string \<Rightarrow> int \<Rightarrow> bool \<Rightarrow> error + ('w, 'd) apiState API" where
  "NewAPI chi ad bind apiReadTimeout development =
     (let r = ch_Use chi
            [ch_RequestID chi,
             ch_ClientIPFromHeader chi ''X-Real-IP'',
             ch_ClientIPFromHeader chi ''CF-Connecting-IP'',
             ch_RequestLogger chi (\<not> development),
             ch_Recoverer chi,
             ch_SetHeader chi ''Content-Type'' ''application/json'']
            (ch_Mount chi ''/'' (ch_Router chi (map (\<lambda>(m, p, h). (m, p, API_handle ad h)) API_routes)))
      in Inr \<lparr>api_srv = \<lparr>srv_Addr = bind, srv_Handler = r, srv_ReadHeaderTimeout = apiReadTimeout,
                         srv_ReadTimeout = apiReadTimeout\<rparr>,
              api_serveErrCh = []\<rparr>)"

text \<open>
  The goroutine of \<open>StartCtx\<close> when \<open>Serve\<close> returns: an error other than the one of a closed server
  is sent without waiting.
\<close>

definition API_Serve_returned :: "'s API \<Rightarrow> error option \<Rightarrow> 's API" where
  "API_Serve_returned a err =
     (case err of
        None \<Rightarrow> a
      | Some e \<Rightarrow>
          if \<not> errors_Is e ErrServerClosed
          then (if length (api_serveErrCh a) < 1 then a\<lparr>api_serveErrCh := api_serveErrCh a @ [e]\<rparr> else a)
          else a)"

definition API_ServeErr :: "'s API \<Rightarrow> error list" where
  "API_ServeErr a = api_serveErrCh a"

text \<open>\<open>Shutdown\<close> of \<open>net/http\<close> gets the time it has; its error is only logged.\<close>

definition apiShutdownTimeout :: int where
  "apiShutdownTimeout = 5 * Second"

definition API_Shutdown :: "(int \<Rightarrow> 's httpServer \<Rightarrow> 'os \<Rightarrow> 'os \<times> error option) \<Rightarrow> 's API \<Rightarrow> 'os \<Rightarrow> 'os" where
  "API_Shutdown Shutdown a os = fst (Shutdown apiShutdownTimeout (api_srv a) os)"

section \<open>The server of the bots\<close>

text \<open>
  Parameters: the libraries of the health check, the error of its context after five seconds, the
  topic of the bot, and the handlers of the version and of Prometheus. The state is that of NATS.
\<close>

record 'n botDeps =
  bd_timeout :: error
  bd_gowaves :: gowaves
  bd_json :: jsontext
  bd_request :: "'n nats_request"
  bd_topic :: string
  bd_lib :: apiLib
  bd_version :: string
  bd_escape :: "string \<Rightarrow> string"
  bd_metrics :: "webRequest \<Rightarrow> Api.httpResponse \<Rightarrow> Api.httpResponse"

fun BotAPI_handle :: "'n botDeps \<Rightarrow> botHandler \<Rightarrow> 'n httpHandler" where
  "BotAPI_handle bd BH_health r x =
     (case BotAPI_health (bd_timeout bd) (bd_gowaves bd) (bd_json bd) (bd_request bd) (bd_topic bd) (x_state x) (x_response x) of
        (n, None) \<Rightarrow> NoAnswer (x\<lparr>x_state := n\<rparr>)
      | (n, Some w) \<Rightarrow> Answered (x\<lparr>x_state := n, x_response := w\<rparr>))"
| "BotAPI_handle bd BH_metrics r x = Answered (x\<lparr>x_response := bd_metrics bd r (x_response x)\<rparr>)"
| "BotAPI_handle bd BH_version r x =
     Answered (x\<lparr>x_response := snd (VersionHTTPHandler (bd_version bd) (bd_lib bd) (bd_escape bd) (\<lambda>_. None) (x_response x))\<rparr>)"

definition NewBotAPI :: "'n chi \<Rightarrow> 'n botDeps \<Rightarrow> string \<Rightarrow> int \<Rightarrow> bool \<Rightarrow> error + 'n API" where
  "NewBotAPI chi bd bind apiReadTimeout development =
     (let r = ch_Use chi
            [ch_RequestID chi,
             ch_ClientIPFromHeader chi ''X-Real-IP'',
             ch_ClientIPFromHeader chi ''CF-Connecting-IP'',
             ch_RequestLogger chi (\<not> development),
             ch_Recoverer chi,
             ch_SetHeader chi ''Content-Type'' ''application/json'']
            (ch_Mount chi ''/'' (ch_Router chi (map (\<lambda>(m, p, h). (m, p, BotAPI_handle bd h)) BotAPI_routes)))
      in Inr \<lparr>api_srv = \<lparr>srv_Addr = bind, srv_Handler = r, srv_ReadHeaderTimeout = apiReadTimeout,
                         srv_ReadTimeout = apiReadTimeout\<rparr>,
              api_serveErrCh = []\<rparr>)"

definition BotAPI_Serve_returned :: "'s API \<Rightarrow> error option \<Rightarrow> 's API" where
  "BotAPI_Serve_returned a err =
     (case err of
        None \<Rightarrow> a
      | Some e \<Rightarrow>
          if \<not> errors_Is e ErrServerClosed
          then (if length (api_serveErrCh a) < 1 then a\<lparr>api_serveErrCh := api_serveErrCh a @ [e]\<rparr> else a)
          else a)"

definition BotAPI_ServeErr :: "'s API \<Rightarrow> error list" where
  "BotAPI_ServeErr a = api_serveErrCh a"

definition botAPIShutdownTimeout :: int where
  "botAPIShutdownTimeout = 5 * Second"

definition BotAPI_Shutdown :: "(int \<Rightarrow> 's httpServer \<Rightarrow> 'os \<Rightarrow> 'os \<times> error option) \<Rightarrow> 's API \<Rightarrow> 'os \<Rightarrow> 'os" where
  "BotAPI_Shutdown Shutdown a os = fst (Shutdown botAPIShutdownTimeout (api_srv a) os)"

section \<open>What a client gets\<close>

definition API_serve :: "'s API \<Rightarrow> webRequest \<Rightarrow> 's \<Rightarrow> 's webResult" where
  "API_serve a r s = srv_Handler (api_srv a) r \<lparr>x_state = s, x_response = newResponse\<rparr>"

lemma chi_okD:
  assumes "chi_ok chi"
  shows "ch_Use chi ms h = foldr (\<lambda>m h. m h) ms h" "ch_Mount chi ''/'' h = h" "ch_RequestID chi h = h"
    "ch_ClientIPFromHeader chi name h = h" "ch_RequestLogger chi c h = h" "ch_SetHeader chi k v h = h"
    "ch_Recoverer chi h r x = recovered (h r x)"
  using assms by (simp_all add: chi_ok_def)

lemma chi_router:
  assumes "chi_ok chi" "rw_status (x_response x) = None"
  obtains h where "route_for rs r = Some h" "ch_Router chi rs r x = h r x"
  | w where "route_for rs r = None" "ch_Router chi rs r x = Answered (x\<lparr>x_response := w\<rparr>)" "sentStatus w \<in> {404, 405}"
proof -
  have *: "case route_for rs r of Some h \<Rightarrow> ch_Router chi rs r x = h r x
    | None \<Rightarrow> \<exists>w. ch_Router chi rs r x = Answered (x\<lparr>x_response := w\<rparr>) \<and> rw_status w \<in> {Some 404, Some 405}"
    using assms unfolding chi_ok_def by blast
  show thesis
  proof (cases "route_for rs r")
    case None
    with * that(2) show thesis by (auto simp: sentStatus_def)
  qed (use * that(1) in simp)
qed

lemma NewAPI_serve:
  assumes "chi_ok chi" "NewAPI chi ad bind t dev = Inr a"
  shows "API_serve a r s = recovered (ch_Router chi (map (\<lambda>(m, p, h). (m, p, API_handle ad h)) API_routes) r
    \<lparr>x_state = s, x_response = newResponse\<rparr>)"
  using assms(2) unfolding NewAPI_def API_serve_def by (auto simp: chi_okD [OF assms(1)])

lemma NewBotAPI_serve:
  assumes "chi_ok chi" "NewBotAPI chi bd bind t dev = Inr a"
  shows "API_serve a r s = recovered (ch_Router chi (map (\<lambda>(m, p, h). (m, p, BotAPI_handle bd h)) BotAPI_routes) r
    \<lparr>x_state = s, x_response = newResponse\<rparr>)"
  using assms(2) unfolding NewBotAPI_def API_serve_def by (auto simp: chi_okD [OF assms(1)])

lemma recovered_simps [simp]:
  "recovered (Answered x) = Answered x" "recovered (NoAnswer x) = NoAnswer x"
  "recovered (Panicked x e) = Answered (x\<lparr>x_response := WriteHeader (x_response x) StatusInternalServerError\<rparr>)"
  by (simp_all add: recovered_def)

lemma newResponse_status [simp]: "rw_status newResponse = None"
  by (simp add: newResponse_def)

text \<open>The handler of a request to the service.\<close>

definition API_target :: "webRequest \<Rightarrow> apiHandler option" where
  "API_target r =
     (if wr_path r = ''/metrics'' then Some H_metrics
      else if wr_method r = ''POST'' then (if wr_path r = ''/nodes/specific/statements'' then Some H_specificNodes else None)
      else if wr_method r = ''GET'' then
        (if wr_path r = ''/nodes/all'' then Some H_nodes
         else if wr_path r = ''/nodes/enabled'' then Some H_enabled
         else if wr_path r = ''/health'' then Some H_health
         else if wr_path r = ''/version'' then Some H_version
         else None)
      else None)"

lemma API_route: "route_for (map (\<lambda>(m, p, h). (m, p, f h)) API_routes) r = map_option f (API_target r)"
  by (simp add: route_for_def API_routes_def API_target_def)

lemma API_serve_cases:
  assumes "chi_ok chi" "NewAPI chi ad bind t dev = Inr a"
  obtains (routed) h where "API_target r = Some h"
      "API_serve a r s = recovered (API_handle ad h r \<lparr>x_state = s, x_response = newResponse\<rparr>)"
  | (unrouted) w where "API_target r = None" "API_serve a r s = Answered \<lparr>x_state = s, x_response = w\<rparr>" "sentStatus w \<in> {404, 405}"
  by (cases rule: chi_router [OF assms(1), of "\<lparr>x_state = s, x_response = newResponse\<rparr>"
      "map (\<lambda>(m, p, h). (m, p, API_handle ad h)) API_routes" r])
    (auto simp: API_route NewAPI_serve [OF assms])

lemma post_panic: "specificNodesHandler gw al nu specific r p w = (p', Inl panic) \<Longrightarrow> p' = p"
  by (auto simp: specificNodesHandler_def Let_def split: sum.splits option.splits prod.splits if_splits)

text \<open>
  C23: What a request to the service does. Every request (without \<open>Connection: Upgrade\<close>) is answered, also
  when a handler panics, and no request changes the registry or the database. A \<open>POST\<close> to \<open>/nodes/specific/statements\<close> that is
  answered with 200 names the URL of an enabled specific node, and the last event of this node is then
  the statement of the body: version, height and, from height 2 on, the state hash with its block
  id; below, the status is invalid height. With another answer, 400, 403 or 500, no event changes,
  and so with every other request.
\<close>

theorem api_requests:
  assumes "chi_ok chi" "NewAPI chi ad bind t dev = Inr a" "\<forall>v. \<exists>b. al_Encode (ad_lib ad) v = Inr b"
  shows "\<exists>s' w. API_serve a r s = Answered \<lparr>x_state = s', x_response = w\<rparr> \<and>
    ap_nodesStorage s' = ap_nodesStorage s \<and> ap_eventsStorage s' = ap_eventsStorage s \<and>
    (if wr_method r = ''POST'' \<and> wr_path r = ''/nodes/specific/statements''
     then sentStatus w = 200 \<and>
         (\<exists>u st sh e. posted_url (ad_neturl ad) (wr_request r) = Inr u \<and>
            u \<in> nd_URL ` set (EnabledSpecificNodes (ap_nodesStorage s)) \<and>
            posted (ad_gowaves ad) (ad_lib ad) (wr_request r) st sh \<and>
            ap_private s' = (ap_private s)(u \<mapsto> e) \<and> Event_Statement e = posted_statement u st sh) \<or>
       sentStatus w \<in> {400, 403, 500} \<and> ap_private s' = ap_private s
     else ap_private s' = ap_private s)"
  using assms(1,2)
proof (cases rule: API_serve_cases [of _ _ _ _ _ _ r s])
  case (routed h)
  show ?thesis
  proof (cases "h = H_specificNodes")
    case False
    with routed show ?thesis by (cases h) (auto simp: API_target_def split: if_splits)
  next
    case True
    with routed(1) have target: "wr_method r = ''POST''" "wr_path r = ''/nodes/specific/statements''"
      by (auto simp: API_target_def split: if_splits)
    obtain p' res where run: "specificNodesHandler (ad_gowaves ad) (ad_lib ad) (ad_neturl ad)
        (Inr (EnabledSpecificNodes (ap_nodesStorage s))) (wr_request r) (ap_private s) newResponse = (p', res)" by fastforce
    show ?thesis
    proof (cases res)
      case (Inl panic)
      with run post_panic have "p' = ap_private s" by blast
      with routed(2) True run Inl target show ?thesis by (simp add: http_defs)
    next
      case (Inr w)
      with private_statement_recorded [OF run [unfolded Inr] assms(3)] routed(2) True run target show ?thesis by simp
    qed
  qed
next
  case (unrouted w)
  then show ?thesis by (auto simp: API_target_def split: if_splits)
qed

text \<open>What the requests that read the service are answered.\<close>

theorem api_reads:
  assumes "chi_ok chi" "NewAPI chi ad bind t dev = Inr a" "\<forall>v. \<exists>b. al_Encode (ad_lib ad) v = Inr b" "wr_method r = ''GET''"
  shows "\<exists>w. API_serve a r s = Answered \<lparr>x_state = s, x_response = w\<rparr> \<and>
    (wr_path r = ''/nodes/all'' \<longrightarrow> sentStatus w = 200 \<and> al_Encode (ad_lib ad) (nodesResponse_json (ad_lib ad)
       (JSONStorage_Nodes (ap_nodesStorage s) False) (JSONStorage_Nodes (ap_nodesStorage s) True)) = Inr (rw_body w)) \<and>
    (wr_path r = ''/nodes/enabled'' \<longrightarrow> sentStatus w = 200 \<and> al_Encode (ad_lib ad) (nodesResponse_json (ad_lib ad)
       (EnabledNodes (ap_nodesStorage s)) (EnabledSpecificNodes (ap_nodesStorage s))) = Inr (rw_body w)) \<and>
    (wr_path r = ''/health'' \<longrightarrow> sentStatus w =
       (if list_all (\<lambda>n. height_readable (ad_gowaves ad) (ad_buntdb ad) (ap_eventsStorage s) (nd_URL n))
             (EnabledNodes (ap_nodesStorage s)) then 200 else 500)) \<and>
    (wr_path r = ''/version'' \<longrightarrow> sentStatus w = 200 \<and>
       al_Encode (ad_lib ad) (JObj [(''version'', JStr (ad_version ad))]) = Inr (rw_body w))"
  using assms(1,2)
proof (cases rule: API_serve_cases [of _ _ _ _ _ _ r s])
  case (routed h)
  have answered: "\<exists>text. al_Encode (ad_lib ad) (nodesResponse_json (ad_lib ad) ns sp) = Inr text \<and>
      nodes_answer (ad_lib ad) (Inr ns) (Inr sp) newResponse = \<lparr>rw_status = Some 200, rw_body = text\<rparr>" for ns sp
    using assms(3) by (cases "al_Encode (ad_lib ad) (nodesResponse_json (ad_lib ad) ns sp)")
      (auto simp: nodes_answer_def http_defs dest: spec [of _ "nodesResponse_json (ad_lib ad) ns sp"])
  from assms(3) obtain v where v: "al_Encode (ad_lib ad) (JObj [(''version'', JStr (ad_version ad))]) = Inr v" by blast
  show ?thesis
  proof (cases h)
    case H_nodes
    with routed answered [of "JSONStorage_Nodes (ap_nodesStorage s) False" "JSONStorage_Nodes (ap_nodesStorage s) True"]
    show ?thesis by (auto simp: API_target_def API_nodes_def sentStatus_def split: if_splits)
  next
    case H_enabled
    with routed answered [of "EnabledNodes (ap_nodesStorage s)" "EnabledSpecificNodes (ap_nodesStorage s)"]
    show ?thesis by (auto simp: API_target_def API_enabled_def sentStatus_def split: if_splits)
  next
    case H_health
    with routed health_status [of "ad_gowaves ad" "ad_buntdb ad" "Inr (EnabledNodes (ap_nodesStorage s))" "ap_eventsStorage s"]
    show ?thesis by (auto simp: API_target_def split: if_splits)
  qed (use routed assms(4) v in \<open>auto simp: API_target_def VersionHTTPHandler_def http_defs split: if_splits\<close>)
next
  case (unrouted w)
  with assms(4) show ?thesis by (auto simp: API_target_def split: if_splits)
qed

text \<open>
  The server of the bots answers every request, as long as the client takes requests from its channel. Only
  the health check talks to the service, with one request for the nodes, and answers 200 exactly if it gets them
  before the deadline.
\<close>

definition BotAPI_target :: "webRequest \<Rightarrow> botHandler option" where
  "BotAPI_target r =
     (if wr_path r = ''/metrics'' then Some BH_metrics
      else if wr_method r = ''GET'' then
        (if wr_path r = ''/health'' then Some BH_health else if wr_path r = ''/version'' then Some BH_version else None)
      else None)"

lemma BotAPI_route: "route_for (map (\<lambda>(m, p, h). (m, p, f h)) BotAPI_routes) r = map_option f (BotAPI_target r)"
  by (simp add: route_for_def BotAPI_routes_def BotAPI_target_def)

lemma BotAPI_health_answers:
  obtains n' w where "BotAPI_health timeout gw jt nq topic n newResponse = (n', Some w)"
    "n' = fst (RequestNodesWithCtx (Some timeout) gw jt nq topic n False)"
    "sentStatus w = (case snd (RequestNodesWithCtx (Some timeout) gw jt nq topic n False) of Some (Inr _) \<Rightarrow> 200 | _ \<Rightarrow> 500)"
proof -
  obtain n' res where run: "RequestNodesWithCtx (Some timeout) gw jt nq topic n False = (n', Some res)"
    unfolding RequestNodesWithCtx_def
    by (cases "await gw jt nq topic n (NodesListRequest False) as_nodes"; cases "snd (await gw jt nq topic n (NodesListRequest False) as_nodes)") auto
  with that show thesis by (cases res) (auto simp: BotAPI_health_def http_defs)
qed

theorem bot_requests:
  assumes "chi_ok chi" "NewBotAPI chi bd bind t dev = Inr a"
  shows "\<exists>n' w. API_serve a r n = Answered \<lparr>x_state = n', x_response = w\<rparr> \<and>
    (if wr_method r = ''GET'' \<and> wr_path r = ''/health''
     then let res = RequestNodesWithCtx (Some (bd_timeout bd)) (bd_gowaves bd) (bd_json bd) (bd_request bd) (bd_topic bd) n False
       in n' = fst res \<and> sentStatus w = (case snd res of Some (Inr _) \<Rightarrow> 200 | _ \<Rightarrow> 500)
     else n' = n)"
proof (cases rule: chi_router [OF assms(1), of "\<lparr>x_state = n, x_response = newResponse\<rparr>"
      "map (\<lambda>(m, p, h). (m, p, BotAPI_handle bd h)) BotAPI_routes" r])
  case (2 h)
  then obtain b where b: "BotAPI_target r = Some b" "h = BotAPI_handle bd b" by (auto simp: BotAPI_route)
  with 2 have run: "API_serve a r n = recovered (BotAPI_handle bd b r \<lparr>x_state = n, x_response = newResponse\<rparr>)"
    by (simp add: NewBotAPI_serve [OF assms])
  show ?thesis
  proof (cases "b = BH_health")
    case True
    with b have "wr_method r = ''GET'' \<and> wr_path r = ''/health''" by (auto simp: BotAPI_target_def split: if_splits)
    with True run show ?thesis
      by (cases rule: BotAPI_health_answers [of "bd_timeout bd" "bd_gowaves bd" "bd_json bd" "bd_request bd" "bd_topic bd" n])
        (simp add: Let_def)
  qed (use b run in \<open>cases b; auto simp: BotAPI_target_def split: if_splits\<close>)
next
  case (3 w)
  then show ?thesis by (auto simp: BotAPI_route BotAPI_target_def NewBotAPI_serve [OF assms] split: if_splits)
qed simp

section \<open>Witnesses\<close>

definition demo_chi :: "'s chi" where
  "demo_chi =
     \<lparr>ch_Use = (\<lambda>ms h. foldr (\<lambda>m h. m h) ms h), ch_Mount = (\<lambda>_ h. h),
      ch_Router = (\<lambda>rs r x. case route_for rs r of
         Some h \<Rightarrow> h r x | None \<Rightarrow> Answered (x\<lparr>x_response := http_Error (x_response x) ''404 page not found'' 404\<rparr>)),
      ch_RequestID = (\<lambda>h. h), ch_ClientIPFromHeader = (\<lambda>_ h. h), ch_RequestLogger = (\<lambda>_ h. h),
      ch_Recoverer = (\<lambda>h r x. recovered (h r x)), ch_SetHeader = (\<lambda>_ _ h. h)\<rparr>"

lemma demo_chi_ok: "chi_ok demo_chi"
  by (auto simp: chi_ok_def demo_chi_def http_defs split: option.split)

definition demo_deps :: "demo_pairs apiDeps" where
  "demo_deps = \<lparr>ad_gowaves = demo_gowaves, ad_buntdb = demo_db, ad_lib = demo_apiLib, ad_neturl = demo_neturl,
     ad_version = ''v'', ad_escape = (\<lambda>s. s), ad_metrics = (\<lambda>_ w. w)\<rparr>"

definition demo_apiState :: "((string, document) gomap, demo_pairs) apiState" where
  "demo_apiState = \<lparr>ap_nodesStorage = \<lparr>js_db = \<lparr>db_CommonNodes = [], db_SpecificNodes = [demo_node_of ''http://c'']\<rparr>,
       js_syncDBStruct = syncToFile demo_os ''f''\<rparr>,
     ap_eventsStorage = demo_events, ap_private = (\<lambda>_. None)\<rparr>"

definition demo_webRequest :: webRequest where
  "demo_webRequest = \<lparr>wr_method = ''POST'', wr_path = ''/nodes/specific/statements'', wr_request = demo_post\<rparr>"

lemma demo_apiState_simps:
  "EnabledSpecificNodes (ap_nodesStorage demo_apiState) = [demo_node_of ''http://c'']"
  "ap_private demo_apiState = (\<lambda>_. None)"
  by (simp_all add: demo_apiState_def EnabledSpecificNodes_def queryNodes_all)

theorem api_requests_witness:
  "\<exists>a s' w e. NewAPI demo_chi demo_deps '':80'' 0 False = Inr a \<and>
    API_serve a demo_webRequest demo_apiState = Answered \<lparr>x_state = s', x_response = w\<rparr> \<and>
    sentStatus w = 200 \<and> ap_private s' = [''http://c'' \<mapsto> e]"
proof -
  obtain a :: "((string, document) gomap, demo_pairs) apiState API" where a: "NewAPI demo_chi demo_deps '':80'' 0 False = Inr a" by (simp add: NewAPI_def Let_def)
  have encode: "\<forall>v. \<exists>b. al_Encode (ad_lib demo_deps) v = Inr b" using demo_encode by (simp add: demo_deps_def)
  have "API_target demo_webRequest = Some H_specificNodes" by (simp add: API_target_def demo_webRequest_def)
  then have run: "\<exists>x. API_serve a demo_webRequest demo_apiState = Answered x \<and> sentStatus (x_response x) = 200"
    using demo_handler
    by (cases rule: API_serve_cases [OF demo_chi_ok a, of demo_webRequest demo_apiState])
      (simp_all add: demo_apiState_simps demo_webRequest_def demo_deps_def sentStatus_def)
  from api_requests [OF demo_chi_ok a encode, of demo_webRequest demo_apiState] run show ?thesis
    using a demo_posted_url by (auto simp: demo_webRequest_def demo_deps_def demo_apiState_simps)
qed

end
