(* ===== verification/DscHandlers.thy ===== *)
theory DscHandlers
  imports BotEnv
begin

text \<open>
  The commands of the Discord bot, \<open>cmd/bots/internal/discord/handlers\<close>. Errors end in the log,
  which is left out. The Discord session and the link to the service are parameters.
\<close>

text \<open>A message: whether it is the bot's own, its channel, and its text.\<close>

record dscMessage =
  dm_self :: bool
  dm_ChannelID :: string
  dm_Content :: string

record ('n, 'w) dscState =
  dt_link :: 'n
  dt_chats :: 'w
  dt_sent :: "(string \<times> string) list"

record ('n, 'w) dscParams =
  de_gw :: gowaves
  de_jt :: jsontext
  de_tm :: templates
  de_nu :: neturl
  de_nq :: "'n nats_request"
  de_topic :: string
  de_Send :: "'w \<Rightarrow> string \<Rightarrow> string \<Rightarrow> 'w \<times> error option"

definition dsc_HelpInfoText :: string where
  "dsc_HelpInfoText = [CHR 0xE2, CHR 0x84, CHR 0xB9, CHR 0xEF, CHR 0xB8, CHR 0x8F] @
     '' This is a bot for monitoring Waves nodes. The next commands are available:'' @ newline @ newline @ newline @
     ''`/ping` - the command to check whether the bot is available,'' @ newline @ newline @
     ''`/status` - to see status of all monitored nodes,'' @ newline @ newline @
     ''`/add <node_name>` - to add a node to the list,'' @ newline @ newline @
     ''`/remove <node_name>` - to remove a node from the list.''"

definition ChannelMessageSend ::
    "('n, 'w) dscParams \<Rightarrow> string \<Rightarrow> string \<Rightarrow> ('n, 'w) dscState \<Rightarrow> ('n, 'w) dscState \<times> error option" where
  "ChannelMessageSend env chat msg s =
     (case de_Send env (dt_chats s) chat msg of
        (w, err) \<Rightarrow> (s\<lparr>dt_chats := w, dt_sent := dt_sent s @ [(chat, msg)]\<rparr>, err))"

section \<open>Adding and removing nodes\<close>

text \<open>
  The common part of \<open>RequestAddNode\<close> and \<open>RequestRemoveNode\<close>: the request is written, the answer
  sent. After the answer to a wrong URL the error is nil, and wrapping nil gives nil.
\<close>

definition dsc_answer ::
    "('n, 'w) dscParams \<Rightarrow> string \<Rightarrow> (string \<times> error option) \<times> Request option \<Rightarrow> string \<Rightarrow> ('n, 'w) dscState \<Rightarrow>
     ('n, 'w) dscState \<times> error option" where
  "dsc_answer env chatID result failure s =
     (case result of ((response, err), request) \<Rightarrow>
        let s = (case request of
                   None \<Rightarrow> s
                 | Some r \<Rightarrow> s\<lparr>dt_link := fst (pair_turn (de_gw env) (de_jt env) (de_nq env) False (de_topic env) (dt_link s) r)\<rparr>)
        in (case err of
              Some e \<Rightarrow>
                if errors_Is e ErrIncorrectURL \<or> errors_Is e ErrInsufficientPermissions then
                  (case ChannelMessageSend env chatID response s of
                     (s, Some sendErr) \<Rightarrow> (s, Some (wrapf sendErr ''failed to send a message to discord''))
                   | (s, None) \<Rightarrow> (s, None))
                else (s, Some (wrapf e failure))
            | None \<Rightarrow>
                (case ChannelMessageSend env chatID response s of
                   (s, Some sendErr) \<Rightarrow> (s, Some (wrapf sendErr ''failed to send a message to discord''))
                 | (s, None) \<Rightarrow> (s, None))))"

definition RequestAddNode ::
    "('n, 'w) dscParams \<Rightarrow> 'sub DiscordBot \<Rightarrow> string \<Rightarrow> string \<Rightarrow> bool \<Rightarrow> ('n, 'w) dscState \<Rightarrow> ('n, 'w) dscState \<times> error option" where
  "RequestAddNode env ds chatID url specific s =
     dsc_answer env chatID (AddNewNodeHandler (de_nu env) (ds_IsEligibleForAction ds) chatID url specific)
       ''failed to add a new node'' s"

definition RequestRemoveNode ::
    "('n, 'w) dscParams \<Rightarrow> 'sub DiscordBot \<Rightarrow> string \<Rightarrow> string \<Rightarrow> ('n, 'w) dscState \<Rightarrow> ('n, 'w) dscState \<times> error option" where
  "RequestRemoveNode env ds chatID url s =
     dsc_answer env chatID (RemoveNodeHandler (de_nu env) (ds_IsEligibleForAction ds) chatID url)
       ''failed to remove a node'' s"

text \<open>The common part of the two commands: the URL is what is left of the text.\<close>

definition dsc_nodeCmd ::
    "('n, 'w) dscParams \<Rightarrow> 'sub DiscordBot \<Rightarrow> string \<Rightarrow> string \<Rightarrow> string \<Rightarrow>
     (string \<Rightarrow> ('n, 'w) dscState \<Rightarrow> ('n, 'w) dscState \<times> error option) \<Rightarrow> ('n, 'w) dscState \<Rightarrow> ('n, 'w) dscState" where
  "dsc_nodeCmd env ds url missing failed request s =
     (if url = [] then fst (ChannelMessageSend env (ds_ChatID ds) missing s)
      else (case request url s of
              (s, None) \<Rightarrow> s
            | (s, Some err) \<Rightarrow> fst (ChannelMessageSend env (ds_ChatID ds) (failed @ Error err) s)))"

definition handleRemoveCmd ::
    "('n, 'w) dscParams \<Rightarrow> 'sub DiscordBot \<Rightarrow> dscMessage \<Rightarrow> ('n, 'w) dscState \<Rightarrow> ('n, 'w) dscState" where
  "handleRemoveCmd env ds m s =
     dsc_nodeCmd env ds (Replace1 (dm_Content m) ''/remove '' []) ''Please provide a URL to remove''
       ''Failed to remove a node, '' (RequestRemoveNode env ds (dm_ChannelID m)) s"

definition handleAddCmd ::
    "('n, 'w) dscParams \<Rightarrow> 'sub DiscordBot \<Rightarrow> dscMessage \<Rightarrow> ('n, 'w) dscState \<Rightarrow> ('n, 'w) dscState" where
  "handleAddCmd env ds m s =
     dsc_nodeCmd env ds (Replace1 (dm_Content m) ''/add '' []) ''Please provide a URL to add''
       ''Failed to add a node, '' (\<lambda>url. RequestAddNode env ds (dm_ChannelID m) url False) s"

section \<open>The other commands\<close>

text \<open>
  The errors of the requests and of the text are logged, and the handler goes on; without an
  answer for the statements it dereferences nil.
\<close>

definition handleStatusCmd ::
    "('n, 'w) dscParams \<Rightarrow> 'sub DiscordBot \<Rightarrow> ('n, 'w) dscState \<Rightarrow> ('n, 'w) dscState outcome" where
  "handleStatusCmd env ds s =
     (case RequestAllNodes (de_gw env) (de_jt env) (de_nq env) (de_topic env) (dt_link s) of
        (n, None) \<Rightarrow> Blocked
      | (n, Some r) \<Rightarrow>
          let nodes = (case r of Inl err \<Rightarrow> [] | Inr ns \<Rightarrow> ns) in
          (case RequestNodesStatements (de_gw env) (de_jt env) (de_nq env) (de_topic env) n (NodesToUrls nodes) of
             (n, None) \<Rightarrow> Blocked
           | (n, Some (Inl err)) \<Rightarrow> Crashed (Panic ''nil pointer dereference'')
           | (n, Some (Inr nodesStatus)) \<Rightarrow>
               let send = (\<lambda>msg. Returned (fst (ChannelMessageSend env (ds_ChatID ds)
                     (''```yaml'' @ newline @ msg @ newline @ ''```'') (s\<lparr>dt_link := n\<rparr>))))
               in (case HandleNodesStatus (de_gw env) (de_tm env) nodesStatus Markdown nodes of
                     Inl err \<Rightarrow> if is_panic err then Crashed err else send []
                   | Inr (msg, statusCondition) \<Rightarrow>
                       send (if sc_AllNodesAreOk statusCondition
                             then FormatInt (sc_NodesNumber' statusCondition) @ '' '' @ msg else msg))))"

definition handleHelpCmd :: "('n, 'w) dscParams \<Rightarrow> 'sub DiscordBot \<Rightarrow> ('n, 'w) dscState \<Rightarrow> ('n, 'w) dscState" where
  "handleHelpCmd env ds s = fst (ChannelMessageSend env (ds_ChatID ds) dsc_HelpInfoText s)"

definition handlePingCmd :: "('n, 'w) dscParams \<Rightarrow> 'sub DiscordBot \<Rightarrow> ('n, 'w) dscState \<Rightarrow> ('n, 'w) dscState" where
  "handlePingCmd env ds s = fst (ChannelMessageSend env (ds_ChatID ds) ''Pong!'' s)"

text \<open>The handler that \<open>InitDscHandlers\<close> adds.\<close>

definition dsc_eligible ::
    "('n, 'w) dscParams \<Rightarrow> 'sub DiscordBot \<Rightarrow> dscMessage \<Rightarrow> ('n, 'w) dscState \<Rightarrow> ('n, 'w) dscState \<times> bool" where
  "dsc_eligible env ds m s =
     (if ds_IsEligibleForAction ds (dm_ChannelID m) then (s, True)
      else (fst (ChannelMessageSend env (dm_ChannelID m) ''Sorry, you have no right to use this command'' s), False))"

definition InitDscHandlers ::
    "('n, 'w) dscParams \<Rightarrow> 'sub DiscordBot \<Rightarrow> dscMessage \<Rightarrow> ('n, 'w) dscState \<Rightarrow> ('n, 'w) dscState outcome" where
  "InitDscHandlers env ds m s =
     (if dm_self m then Returned s
      else if dm_Content m = ''/ping'' then Returned (handlePingCmd env ds s)
      else if dm_Content m = ''/help'' then Returned (handleHelpCmd env ds s)
      else if dm_Content m = ''/status'' then handleStatusCmd env ds s
      else if Contains (dm_Content m) ''/add'' then
        (case dsc_eligible env ds m s of (s, ok) \<Rightarrow> Returned (if ok then handleAddCmd env ds m s else s))
      else if Contains (dm_Content m) ''/remove'' then
        (case dsc_eligible env ds m s of (s, ok) \<Rightarrow> Returned (if ok then handleRemoveCmd env ds m s else s))
      else Returned s)"

section \<open>Facts\<close>

lemma dt_link_Send [simp]: "dt_link (fst (ChannelMessageSend env chat msg s)) = dt_link s"
  by (simp add: ChannelMessageSend_def split: prod.split)

lemma dt_link_dsc_eligible [simp]: "dt_link (fst (dsc_eligible env ds m s)) = dt_link s"
  by (simp add: dsc_eligible_def)

lemma dsc_eligible_snd [simp]: "snd (dsc_eligible env ds m s) \<longleftrightarrow> dm_ChannelID m = ds_ChatID ds"
  by (simp add: dsc_eligible_def ds_IsEligibleForAction_def)

text \<open>Any text that mentions \<open>/add\<close> is a request to add a node, also one to remove a node.\<close>

lemma Contains_append: "Contains u x \<Longrightarrow> Contains (a @ u) x"
  by (simp add: Contains_def sublist_append)

lemma remove_taken_for_add:
  assumes "dm_ChannelID m = ds_ChatID ds" "\<not> dm_self m" "dm_Content m = ''/remove '' @ url" "Contains url ''/add''"
  shows "InitDscHandlers env ds m s = Returned (handleAddCmd env ds m s)"
proof -
  have "Contains (dm_Content m) ''/add''"
    unfolding assms(3) using assms(4) by (rule Contains_append)
  moreover have "dm_Content m \<noteq> ''/ping''" "dm_Content m \<noteq> ''/help''" "dm_Content m \<noteq> ''/status''"
    by (simp_all add: assms(3))
  ultimately show ?thesis
    using assms(1,2) by (simp only: InitDscHandlers_def if_False if_True dsc_eligible_def ds_IsEligibleForAction_def refl prod.case)
qed

end
