(* ===== verification/TgHandlers.thy ===== *)
theory TgHandlers
  imports BotEnv
begin

text \<open>
  The commands of the Telegram bot, \<open>cmd/bots/internal/telegram/handlers\<close> with its texts in
  \<open>messages\<close> and \<open>buttons\<close>.

  A handler runs on the state of the bot, of the link to the service, of the NATS connection and
  of the chats, and ends with an error or a value; it may also wait forever or panic. The calls of
  the Telegram library that it makes through its \<open>telebot.Context\<close>, and the link, are parameters.
  Upper case is that of ASCII.
\<close>

section \<open>Texts\<close>

definition MonitoringMsg :: string where "MonitoringMsg = [CHR 0xF0, CHR 0x9F, CHR 0x93, CHR 0xA1]"
definition SleepingMsg :: string where "SleepingMsg = [CHR 0xF0, CHR 0x9F, CHR 0x92, CHR 0xA4]"

definition PongText :: string where
  "PongText = ''Pong!'' @ [CHR 0xF0, CHR 0x9F, CHR 0x8F, CHR 0x93]"

definition HelpInfoText :: string where
  "HelpInfoText = [CHR 0xE2, CHR 0x84, CHR 0xB9, CHR 0xEF, CHR 0xB8, CHR 0x8F] @
     '' This is a bot for monitoring Waves nodes. The next commands are available:'' @ newline @ newline @
     ''/ping -  the command to check whether the bot is available and what his current state is'' @ newline @
     ''/start - the command to make the bot <b>start getting alerts</b>'' @ newline @
     ''/mute -  the command to make the bot <b>stop listening to alerts</b>'' @ newline @
     ''/pool -  to see the list of nodes and edit it'' @ newline @
     ''/subscriptions - to see the list of subscriptions and edit it'' @ newline @
     ''/status - to see the status of all nodes'' @ newline @
     ''/statement <b>node</b> <b>height</b> - to see a node statement at a specific height.'' @ newline @
     ''/add <b>node</b> - to add a node to the list'' @ newline @
     ''/add_specific <b>node</b> - to add a specific node to the list'' @ newline @
     ''/remove <b>node</b> - to remove a node from the list'' @ newline @
     ''/subscribe <b>alert name</b> - to subscribe to a specific alert'' @ newline @
     ''/unsubscribe <b>alert name</b> - to unsubscribe from a specific alert'' @
     ''/add_alias <b>node</b> <b>alias</b>'' @
     ''/aliases - to see the matching list with aliases''"

definition RemoveNodeText :: string where
  "RemoveNodeText = ''Please type the url of the node you want to remove'' @ newline @ ''Example: Remove <url>'' @ newline"

definition AddNewNodeMsg :: string where
  "AddNewNodeMsg = ''Please type the url of the node you want to add'' @ newline @ ''Example: Add <url>'' @ newline"

definition SubscribeTo :: string where
  "SubscribeTo = ''Please type the name of alert you want to subscribe to'' @ newline @ ''Example: Subscribe to <alert>'' @ newline"

definition UnsubscribeFrom :: string where
  "UnsubscribeFrom =
     ''Please type the name of alert you want to unsubscribe from'' @ newline @ ''Example: Unsubscribe from <alert>'' @ newline"

definition AddWrongNumberOfNodes :: string where "AddWrongNumberOfNodes = ''Add one node at a time''"
definition RemovedDoesNotEqualOne :: string where
  "RemovedDoesNotEqualOne = ''You can remove only one node at a time. Provide only one node URL''"
definition AliasWrongFormat :: string where "AliasWrongFormat = ''Format: /add_alias <url> <alias>''"
definition SubscribeWrongNumberOfNodes :: string where
  "SubscribeWrongNumberOfNodes = ''Subscribe to or unsubscribe from only one node at a time''"
definition StatementWrongFormat :: string where
  "StatementWrongFormat = ''Statement should be in format: /statement <node> <height>''"
definition InvalidURL :: string where "InvalidURL = ''Invalid URL''"

definition button_AddNewNode :: string where "button_AddNewNode = ''ANN''"
definition button_RemoveNode :: string where "button_RemoveNode = ''RN''"
definition button_SubscribeTo :: string where "button_SubscribeTo = ''ST''"
definition button_UnsubscribeFrom :: string where "button_UnsubscribeFrom = ''UF''"

section \<open>Handlers as actions\<close>

text \<open>The update that a handler gets: its chat, the arguments of the command, the text.\<close>

record tgContext =
  cx_chatID :: int
  cx_Args :: "string list"
  cx_Text :: string

text \<open>What is sent: a text or, from two handlers, an error value, nil included; and the options.\<close>

datatype what = W_text string | W_error "error option"

datatype sendOptions = NoOptions | ModeDefault | ModeHTML | HTMLKeyboard "(string \<times> string) list"

record ('sub, 'n, 'c, 'w) tgState =
  ts_bot :: "'sub TelegramBot"
  ts_link :: 'n
  ts_conn :: 'c
  ts_chats :: 'w
  ts_sent :: "(int \<times> what \<times> sendOptions) list"

text \<open>
  The parameters: the libraries, the link to the service with its topic, the NATS connection, the
  sending of a message, and orders of the maps that are listed.
\<close>

record ('sub, 'n, 'c, 'w) tgParams =
  te_gw :: gowaves
  te_jt :: jsontext
  te_tm :: templates
  te_nu :: neturl
  te_nq :: "'n nats_request"
  te_topic :: string
  te_nc :: "('c, 'sub) nats"
  te_Send :: "'w \<Rightarrow> int \<Rightarrow> what \<Rightarrow> sendOptions \<Rightarrow> 'w \<times> error option"
  te_order :: "'sub subscriptions \<Rightarrow> AlertType list"
  te_all :: "AlertType list"

type_synonym ('sub, 'n, 'c, 'w, 'a) act =
  "('sub, 'n, 'c, 'w) tgState \<Rightarrow> (('sub, 'n, 'c, 'w) tgState \<times> (error + 'a)) outcome"

definition act_return :: "'a \<Rightarrow> ('sub, 'n, 'c, 'w, 'a) act" where
  "act_return x s = Returned (s, Inr x)"

definition act_bind ::
    "('sub, 'n, 'c, 'w, 'a) act \<Rightarrow> ('a \<Rightarrow> ('sub, 'n, 'c, 'w, 'b) act) \<Rightarrow> ('sub, 'n, 'c, 'w, 'b) act" where
  "act_bind f g s =
     (case f s of
        Returned (s, Inl err) \<Rightarrow> Returned (s, Inl err)
      | Returned (s, Inr x) \<Rightarrow> g x s
      | Blocked \<Rightarrow> Blocked
      | Crashed err \<Rightarrow> Crashed err)"

text \<open>A result computed without effects; a panic is a crash.\<close>

definition act_lift :: "error + 'a \<Rightarrow> ('sub, 'n, 'c, 'w, 'a) act" where
  "act_lift r s = (case r of Inl err \<Rightarrow> if is_panic err then Crashed err else Returned (s, Inl err) | Inr x \<Rightarrow> Returned (s, Inr x))"

definition act_wrap :: "string \<Rightarrow> ('sub, 'n, 'c, 'w, 'a) act \<Rightarrow> ('sub, 'n, 'c, 'w, 'a) act" where
  "act_wrap msg f s = (case f s of Returned (s, Inl err) \<Rightarrow> Returned (s, Inl (wrapf err msg)) | r \<Rightarrow> r)"

definition c_Send ::
    "('sub, 'n, 'c, 'w) tgParams \<Rightarrow> tgContext \<Rightarrow> what \<Rightarrow> sendOptions \<Rightarrow> ('sub, 'n, 'c, 'w, unit) act" where
  "c_Send env c msg opts s =
     (case te_Send env (ts_chats s) (cx_chatID c) msg opts of
        (w, err) \<Rightarrow> Returned (s\<lparr>ts_chats := w, ts_sent := ts_sent s @ [(cx_chatID c, msg, opts)]\<rparr>,
                      case err of None \<Rightarrow> Inr () | Some e \<Rightarrow> Inl e))"

text \<open>A request that is waited for, and one that is only written to the channel.\<close>

definition act_request :: "('n \<Rightarrow> 'n \<times> (error + 'a) option) \<Rightarrow> ('sub, 'n, 'c, 'w, 'a) act" where
  "act_request f s =
     (case f (ts_link s) of
        (n, None) \<Rightarrow> Blocked
      | (n, Some r) \<Rightarrow> Returned (s\<lparr>ts_link := n\<rparr>, r))"

definition act_command ::
    "('sub, 'n, 'c, 'w) tgParams \<Rightarrow> Request option \<Rightarrow> ('sub, 'n, 'c, 'w, unit) act" where
  "act_command env request s =
     (case request of
        None \<Rightarrow> Returned (s, Inr ())
      | Some r \<Rightarrow>
          (case pair_turn (te_gw env) (te_jt env) (te_nq env) False (te_topic env) (ts_link s) r of
             (n, resp) \<Rightarrow> Returned (s\<lparr>ts_link := n\<rparr>, Inr ())))"

definition act_allNodes :: "('sub, 'n, 'c, 'w) tgParams \<Rightarrow> ('sub, 'n, 'c, 'w, Node list) act" where
  "act_allNodes env = act_request (RequestAllNodes (te_gw env) (te_jt env) (te_nq env) (te_topic env))"

definition act_statements ::
    "('sub, 'n, 'c, 'w) tgParams \<Rightarrow> Node list \<Rightarrow> ('sub, 'n, 'c, 'w, NodesStatementsResponse) act" where
  "act_statements env nodes =
     act_request (\<lambda>n. RequestNodesStatements (te_gw env) (te_jt env) (te_nq env) (te_topic env) n (NodesToUrls nodes))"

definition eligible :: "('sub, 'n, 'c, 'w) tgState \<Rightarrow> tgContext \<Rightarrow> bool" where
  "eligible s c \<longleftrightarrow> tg_IsEligibleForAction (ts_bot s) (FormatInt (cx_chatID c))"

section \<open>The handlers of text.go\<close>

text \<open>The list of the nodes, at the end of adding and removing.\<close>

definition send_nodes_list ::
    "('sub, 'n, 'c, 'w) tgParams \<Rightarrow> tgContext \<Rightarrow> ('sub, 'n, 'c, 'w, Node list) act \<Rightarrow> ('sub, 'n, 'c, 'w, unit) act" where
  "send_nodes_list env c request =
     act_bind (act_wrap ''failed to request nodes list buttons'' request) (\<lambda>urls.
     act_bind (act_wrap ''failed to construct nodes list message'' (act_lift (NodesListMessage (te_tm env) urls))) (\<lambda>message.
     c_Send env c (W_text message) ModeHTML))"

text \<open>
  The common start of the three commands: \<open>result\<close> is the answer and the request of the package
  \<open>messaging\<close>; wrong URLs and rights are told to the chat, other errors returned.
\<close>

definition answer_command ::
    "('sub, 'n, 'c, 'w) tgParams \<Rightarrow> tgContext \<Rightarrow> (string \<times> error option) \<times> Request option \<Rightarrow> string \<Rightarrow>
     ('sub, 'n, 'c, 'w, unit) act \<Rightarrow> ('sub, 'n, 'c, 'w, unit) act" where
  "answer_command env c result failure next_step =
     (case result of ((response, err), request) \<Rightarrow>
        act_bind (act_command env request) (\<lambda>_.
        case err of
          Some e \<Rightarrow>
            if errors_Is e ErrIncorrectURL \<or> errors_Is e ErrInsufficientPermissions
            then c_Send env c (W_text response) ModeDefault
            else act_lift (Inl (wrapf e failure))
        | None \<Rightarrow> act_bind (c_Send env c (W_text response) ModeHTML) (\<lambda>_. next_step)))"

definition tg_AddNewNodeHandler ::
    "('sub, 'n, 'c, 'w) tgParams \<Rightarrow> tgContext \<Rightarrow> string \<Rightarrow> bool \<Rightarrow> ('sub, 'n, 'c, 'w, unit) act" where
  "tg_AddNewNodeHandler env c url specific s =
     answer_command env c
       (AddNewNodeHandler (te_nu env) (tg_IsEligibleForAction (ts_bot s)) (FormatInt (cx_chatID c)) url specific)
       ''failed to add a new node'' (send_nodes_list env c (act_allNodes env)) s"

definition tg_RemoveNodeHandler ::
    "('sub, 'n, 'c, 'w) tgParams \<Rightarrow> tgContext \<Rightarrow> string \<Rightarrow> ('sub, 'n, 'c, 'w, unit) act" where
  "tg_RemoveNodeHandler env c url =
     act_bind (act_wrap ''failed to request nodes list buttons'' (act_allNodes env)) (\<lambda>nodes s.
     answer_command env c
       (RemoveNodeHandler (te_nu env) (tg_IsEligibleForAction (ts_bot s)) (FormatInt (cx_chatID c))
          (GetNodeURLByAlias url nodes))
       ''failed to remove a node'' (send_nodes_list env c (act_allNodes env)) s)"

definition tg_UpdateAliasHandler ::
    "('sub, 'n, 'c, 'w) tgParams \<Rightarrow> tgContext \<Rightarrow> string \<Rightarrow> string \<Rightarrow> ('sub, 'n, 'c, 'w, unit) act" where
  "tg_UpdateAliasHandler env c url alias s =
     answer_command env c
       (UpdateAliasHandler (te_nu env) (tg_IsEligibleForAction (ts_bot s)) (FormatInt (cx_chatID c)) url alias)
       ''failed to update a node'' (act_return ()) s"

text \<open>An operation of the bot on its subscriptions.\<close>

definition act_subscription ::
    "('sub TelegramBot \<Rightarrow> 'c \<Rightarrow> 'sub TelegramBot \<times> 'c \<times> error option) \<Rightarrow> ('sub, 'n, 'c, 'w, unit) act" where
  "act_subscription f s =
     (case f (ts_bot s) (ts_conn s) of
        (tg, n, err) \<Rightarrow> Returned (s\<lparr>ts_bot := tg, ts_conn := n\<rparr>, case err of None \<Rightarrow> Inr () | Some e \<Rightarrow> Inl e))"

definition send_subscriptions ::
    "('sub, 'n, 'c, 'w) tgParams \<Rightarrow> tgContext \<Rightarrow> string \<Rightarrow> ('sub, 'n, 'c, 'w, unit) act" where
  "send_subscriptions env c failure s =
     act_bind (act_wrap failure
         (act_lift (SubscriptionsList (te_tm env) (te_order env (tg_subscriptions (ts_bot s))) (te_all env) (ts_bot s))))
       (\<lambda>msg. c_Send env c (W_text msg) ModeHTML) s"

definition SubscribeHandler ::
    "('sub, 'n, 'c, 'w) tgParams \<Rightarrow> tgContext \<Rightarrow> AlertName \<Rightarrow> ('sub, 'n, 'c, 'w, unit) act" where
  "SubscribeHandler env c alertName s =
     (if \<not> eligible s c then c_Send env c (W_text ''Sorry, you have no right to subscribe to alerts'') NoOptions s
      else (case AlertName_AlertType alertName of
        None \<Rightarrow> c_Send env c (W_text ''Sorry, this alert does not exist'') ModeDefault s
      | Some alertType \<Rightarrow>
          if tg_IsAlreadySubscribed (ts_bot s) alertType
          then c_Send env c (W_text ''I am already subscribed to it'') ModeDefault s
          else
            act_bind (act_wrap (''failed to subscribe to alert '' @ alertName)
                (act_subscription (\<lambda>tg n. SubscribeToAlert (te_nc env) tg n alertType))) (\<lambda>_.
            act_bind (act_wrap ''failed to send a message''
                (c_Send env c (W_text (''I succesfully subscribed to '' @ alertName)) ModeHTML)) (\<lambda>_.
            send_subscriptions env c ''failed to receive list of subscriptions'')) s))"

definition UnsubscribeHandler ::
    "('sub, 'n, 'c, 'w) tgParams \<Rightarrow> tgContext \<Rightarrow> AlertName \<Rightarrow> ('sub, 'n, 'c, 'w, unit) act" where
  "UnsubscribeHandler env c alertName s =
     (if \<not> eligible s c then c_Send env c (W_text ''Sorry, you have no right to unsubscribe from alerts'') NoOptions s
      else (case AlertName_AlertType alertName of
        None \<Rightarrow> c_Send env c (W_text ''Sorry, this alert does not exist'') ModeDefault s
      | Some alertType \<Rightarrow>
          if \<not> tg_IsAlreadySubscribed (ts_bot s) alertType
          then c_Send env c (W_text ''I was not subscribed to it'') ModeDefault s
          else
            act_bind (act_wrap (''failed to unsubscribe from alert '' @ alertName)
                (act_subscription (\<lambda>tg n. UnsubscribeFromAlert (te_nc env) tg n alertType))) (\<lambda>_.
            act_bind (act_wrap ''failed to send a message''
                (c_Send env c (W_text (''I succesfully unsubscribed from '' @ alertName)) ModeHTML)) (\<lambda>_.
            send_subscriptions env c ''failed to receive list of subscriptions'')) s))"

section \<open>The commands\<close>

definition removeCmd :: "('sub, 'n, 'c, 'w) tgParams \<Rightarrow> tgContext \<Rightarrow> ('sub, 'n, 'c, 'w, unit) act" where
  "removeCmd env c =
     (case cx_Args c of
        [url] \<Rightarrow> tg_RemoveNodeHandler env c url
      | _ \<Rightarrow> c_Send env c (W_text RemovedDoesNotEqualOne) ModeDefault)"

definition addAliasCmd :: "('sub, 'n, 'c, 'w) tgParams \<Rightarrow> tgContext \<Rightarrow> ('sub, 'n, 'c, 'w, unit) act" where
  "addAliasCmd env c =
     (case cx_Args c of
        [url, alias] \<Rightarrow> tg_UpdateAliasHandler env c url alias
      | _ \<Rightarrow> c_Send env c (W_text AliasWrongFormat) ModeDefault)"

definition alias_line :: "Node \<Rightarrow> string" where
  "alias_line n =
     (if nd_Alias n \<noteq> [] then ''Node: '' @ nd_URL n @ newline @ ''Alias: '' @ nd_Alias n @ newline @ newline else [])"

definition aliasesCmd :: "('sub, 'n, 'c, 'w) tgParams \<Rightarrow> tgContext \<Rightarrow> ('sub, 'n, 'c, 'w, unit) act" where
  "aliasesCmd env c =
     act_bind (act_wrap ''failed to get nodes list'' (act_allNodes env)) (\<lambda>nodes.
       let msg = concat (map alias_line nodes)
       in c_Send env c (W_text (if msg = [] then ''No aliases have been found'' else msg)) ModeHTML)"

definition onTextMsgHandler :: "('sub, 'n, 'c, 'w) tgParams \<Rightarrow> tgContext \<Rightarrow> ('sub, 'n, 'c, 'w, unit) act" where
  "onTextMsgHandler env c =
     (let command = ToLower (cx_Text c)
      in if HasPrefix command ''add specific'' then tg_AddNewNodeHandler env c (TrimPrefix command ''add specific '') True
         else if HasPrefix command ''add'' then tg_AddNewNodeHandler env c (TrimPrefix command ''add '') False
         else if HasPrefix command ''remove'' then tg_RemoveNodeHandler env c (TrimPrefix command ''remove '')
         else if HasPrefix command ''subscribe to'' then
           SubscribeHandler env c (TrimSpace (TrimPrefix command ''subscribe to ''))
         else if HasPrefix command ''unsubscribe from'' then
           UnsubscribeHandler env c (TrimSpace (TrimPrefix command ''unsubscribe from ''))
         else act_return ())"

definition viewChains :: "('sub, 'n, 'c, 'w) tgParams \<Rightarrow> tgContext \<Rightarrow> ('sub, 'n, 'c, 'w, unit) act" where
  "viewChains env c =
     act_bind (act_allNodes env) (\<lambda>nodes.
     act_bind (act_statements env nodes) (\<lambda>nodesStatements.
     if nr_ErrMessage nodesStatements \<noteq> [] then c_Send env c (W_text (nr_ErrMessage nodesStatements)) ModeHTML
     else act_bind (act_lift (HandleNodesChains (te_gw env) (te_tm env) nodesStatements HTML)) (\<lambda>msg.
       c_Send env c (W_text msg) ModeHTML)))"

text \<open>An error of the first request is logged, and the status goes on without nodes.\<close>

definition act_nodes_or_none :: "('sub, 'n, 'c, 'w) tgParams \<Rightarrow> ('sub, 'n, 'c, 'w, Node list) act" where
  "act_nodes_or_none env s =
     (case act_allNodes env s of Returned (s, Inl err) \<Rightarrow> Returned (s, Inr []) | r \<Rightarrow> r)"

definition statusCmd :: "('sub, 'n, 'c, 'w) tgParams \<Rightarrow> tgContext \<Rightarrow> ('sub, 'n, 'c, 'w, unit) act" where
  "statusCmd env c =
     act_bind (act_nodes_or_none env) (\<lambda>nodes.
     act_bind (act_statements env nodes) (\<lambda>nodesStatus.
     act_bind (act_lift (HandleNodesStatus (te_gw env) (te_tm env) nodesStatus HTML nodes)) (\<lambda>(msg, statusCondition).
     let msg = (if sc_AllNodesAreOk statusCondition
                then ''<b>'' @ FormatInt (sc_NodesNumber' statusCondition) @ ''</b> '' @ msg else msg)
     in c_Send env c (W_text msg) ModeHTML)))"

definition statementCmd :: "('sub, 'n, 'c, 'w) tgParams \<Rightarrow> tgContext \<Rightarrow> ('sub, 'n, 'c, 'w, unit) act" where
  "statementCmd env c =
     (case cx_Args c of
        [url, arg] \<Rightarrow>
          (case CheckAndUpdateURL (te_nu env) url of
             Inl err \<Rightarrow> c_Send env c (W_text InvalidURL) ModeDefault
           | Inr updatedURL \<Rightarrow>
               (case Atoi arg of
                  Inl err \<Rightarrow> c_Send env c (W_text (''failed to parse height: '' @ Error err)) ModeDefault
                | Inr height \<Rightarrow>
                    act_bind (act_request (\<lambda>n.
                        RequestNodeStatement (te_gw env) (te_jt env) (te_nq env) (te_topic env) n updatedURL height)) (\<lambda>statement.
                    act_bind (act_lift (HandleNodeStatement (te_gw env) (te_tm env) statement HTML)) (\<lambda>msg.
                    c_Send env c (W_text msg) ModeHTML))))
      | _ \<Rightarrow> c_Send env c (W_text StatementWrongFormat) ModeDefault)"

definition unsubscribeCmd :: "('sub, 'n, 'c, 'w) tgParams \<Rightarrow> tgContext \<Rightarrow> ('sub, 'n, 'c, 'w, unit) act" where
  "unsubscribeCmd env c =
     (case cx_Args c of
        [alertName] \<Rightarrow> UnsubscribeHandler env c alertName
      | _ \<Rightarrow> c_Send env c (W_text SubscribeWrongNumberOfNodes) ModeDefault)"

definition subscribeCmd :: "('sub, 'n, 'c, 'w) tgParams \<Rightarrow> tgContext \<Rightarrow> ('sub, 'n, 'c, 'w, unit) act" where
  "subscribeCmd env c =
     (case cx_Args c of
        [alertName] \<Rightarrow> SubscribeHandler env c alertName
      | _ \<Rightarrow> c_Send env c (W_text SubscribeWrongNumberOfNodes) ModeDefault)"

text \<open>The error of an action as a value: what \<open>addSpecificCmd\<close> and \<open>addCmd\<close> take for a response.\<close>

definition act_error :: "('sub, 'n, 'c, 'w, unit) act \<Rightarrow> ('sub, 'n, 'c, 'w, error option) act" where
  "act_error f s =
     (case f s of
        Returned (s, Inl err) \<Rightarrow> Returned (s, Inr (Some err))
      | Returned (s, Inr x) \<Rightarrow> Returned (s, Inr None)
      | Blocked \<Rightarrow> Blocked
      | Crashed err \<Rightarrow> Crashed err)"

definition addSpecificCmd :: "('sub, 'n, 'c, 'w) tgParams \<Rightarrow> tgContext \<Rightarrow> ('sub, 'n, 'c, 'w, unit) act" where
  "addSpecificCmd env c =
     (case cx_Args c of
        [url] \<Rightarrow> act_bind (act_error (tg_AddNewNodeHandler env c url True)) (\<lambda>response. c_Send env c (W_error response) ModeHTML)
      | _ \<Rightarrow> c_Send env c (W_text AddWrongNumberOfNodes) ModeDefault)"

definition addCmd :: "('sub, 'n, 'c, 'w) tgParams \<Rightarrow> tgContext \<Rightarrow> ('sub, 'n, 'c, 'w, unit) act" where
  "addCmd env c =
     (case cx_Args c of
        [url] \<Rightarrow>
          act_bind (act_error (tg_AddNewNodeHandler env c url False)) (\<lambda>response.
          act_bind (c_Send env c (W_error response) ModeHTML) (\<lambda>_.
          send_nodes_list env c
            (act_request (\<lambda>n. RequestNodes (te_gw env) (te_jt env) (te_nq env) (te_topic env) n False))))
      | _ \<Rightarrow> c_Send env c (W_text AddWrongNumberOfNodes) ModeDefault)"

definition act_mute :: "bool \<Rightarrow> ('sub, 'n, 'c, 'w, unit) act" where
  "act_mute b s = Returned (s\<lparr>ts_bot := (ts_bot s)\<lparr>tg_Mute := b\<rparr>\<rparr>, Inr ())"

definition muteCmd :: "('sub, 'n, 'c, 'w) tgParams \<Rightarrow> tgContext \<Rightarrow> ('sub, 'n, 'c, 'w, unit) act" where
  "muteCmd env c s =
     (if tg_Mute (ts_bot s)
      then c_Send env c (W_text (''I had already been sleeping, continue sleeping..'' @ SleepingMsg)) NoOptions s
      else act_bind (act_mute True) (\<lambda>_.
        c_Send env c (W_text (''I had been monitoring, but going to sleep now..'' @ SleepingMsg)) NoOptions) s)"

definition startCmd :: "('sub, 'n, 'c, 'w) tgParams \<Rightarrow> tgContext \<Rightarrow> ('sub, 'n, 'c, 'w, unit) act" where
  "startCmd env c s =
     (if tg_Mute (ts_bot s)
      then act_bind (act_mute False) (\<lambda>_.
        c_Send env c (W_text (''I had been asleep, but started monitoring now... '' @ MonitoringMsg)) NoOptions) s
      else c_Send env c (W_text (''I had already been monitoring'' @ MonitoringMsg)) NoOptions s)"

definition pingCmd :: "('sub, 'n, 'c, 'w) tgParams \<Rightarrow> tgContext \<Rightarrow> ('sub, 'n, 'c, 'w, unit) act" where
  "pingCmd env c s =
     (if tg_Mute (ts_bot s)
      then c_Send env c (W_text (PongText @ '' I am currently sleeping'' @ SleepingMsg)) NoOptions s
      else c_Send env c (W_text (PongText @ '' I am monitoring'' @ MonitoringMsg)) NoOptions s)"

definition editPool :: "('sub, 'n, 'c, 'w) tgParams \<Rightarrow> tgContext \<Rightarrow> ('sub, 'n, 'c, 'w, unit) act" where
  "editPool env c =
     act_bind (send_nodes_list env c (act_allNodes env)) (\<lambda>_.
     c_Send env c (W_text ''Please choose'')
       (HTMLKeyboard [(''Add new node'', button_AddNewNode), (''Remove node'', button_RemoveNode)]))"

definition editSubscriptions :: "('sub, 'n, 'c, 'w) tgParams \<Rightarrow> tgContext \<Rightarrow> ('sub, 'n, 'c, 'w, unit) act" where
  "editSubscriptions env c =
     act_bind (send_subscriptions env c ''failed to request subscriptions'') (\<lambda>_.
     c_Send env c (W_text ''Please choose'')
       (HTMLKeyboard [(''Subscribe to'', button_SubscribeTo), (''Unsubscribe from'', button_UnsubscribeFrom)]))"

section \<open>The table of the handlers\<close>

text \<open>An endpoint: a command, the button with a unique name, or any other text.\<close>

datatype endpoint = Cmd string | Button string | OnText

definition isEligibleForActionMiddleware ::
    "('sub, 'n, 'c, 'w) tgParams \<Rightarrow> (tgContext \<Rightarrow> ('sub, 'n, 'c, 'w, unit) act) \<Rightarrow> tgContext \<Rightarrow> ('sub, 'n, 'c, 'w, unit) act" where
  "isEligibleForActionMiddleware env next_handler c s =
     (if \<not> eligible s c then c_Send env c (W_text ''Sorry, you have no right to use this command'') NoOptions s
      else next_handler c s)"

definition chatCmd :: "('sub, 'n, 'c, 'w) tgParams \<Rightarrow> tgContext \<Rightarrow> ('sub, 'n, 'c, 'w, unit) act" where
  "chatCmd env c s =
     c_Send env c (W_text (''I am sending alerts through '' @ FormatInt (tg_ChatID (ts_bot s)) @ '' chat id'')) NoOptions s"

definition InitTgHandlers ::
    "('sub, 'n, 'c, 'w) tgParams \<Rightarrow> (endpoint \<times> (tgContext \<Rightarrow> ('sub, 'n, 'c, 'w, unit) act)) list" where
  "InitTgHandlers env =
     (let guarded = isEligibleForActionMiddleware env in
      [(Cmd ''/chat'', chatCmd env),
       (Cmd ''/ping'', pingCmd env),
       (Cmd ''/start'', guarded (startCmd env)),
       (Cmd ''/mute'', guarded (muteCmd env)),
       (Cmd ''/help'', \<lambda>c. c_Send env c (W_text HelpInfoText) ModeHTML),
       (Button button_AddNewNode, \<lambda>c. c_Send env c (W_text AddNewNodeMsg) ModeDefault),
       (Button button_RemoveNode, \<lambda>c. c_Send env c (W_text RemoveNodeText) ModeDefault),
       (Button button_SubscribeTo, \<lambda>c. c_Send env c (W_text SubscribeTo) ModeDefault),
       (Button button_UnsubscribeFrom, \<lambda>c. c_Send env c (W_text UnsubscribeFrom) ModeDefault),
       (Cmd ''/pool'', guarded (editPool env)),
       (Cmd ''/subscriptions'', guarded (editSubscriptions env)),
       (Cmd ''/add'', guarded (addCmd env)),
       (Cmd ''/add_specific'', guarded (addSpecificCmd env)),
       (Cmd ''/remove'', guarded (removeCmd env)),
       (Cmd ''/add_alias'', guarded (addAliasCmd env)),
       (Cmd ''/aliases'', aliasesCmd env),
       (Cmd ''/subscribe'', guarded (subscribeCmd env)),
       (Cmd ''/unsubscribe'', guarded (unsubscribeCmd env)),
       (Cmd ''/statement'', statementCmd env),
       (OnText, guarded (onTextMsgHandler env)),
       (Cmd ''/status'', statusCmd env),
       (Cmd ''/viewchains'', viewChains env)])"

end
