(* ===== verification/TgPolicy.thy ===== *)
theory TgPolicy
  imports TgHandlers PairPolicy
begin

text \<open>
  Theorems on the commands of the Telegram bot: which chat may change what, what adding a node
  does from the command to the registry, and the texts that subscribe.
\<close>

section \<open>What an action keeps\<close>

definition keeps :: "('sub, 'n, 'c, 'w, 'a) act \<Rightarrow> bool" where
  "keeps f \<longleftrightarrow> (\<forall>s s' r. f s = Returned (s', r) \<longrightarrow>
     ts_bot s' = ts_bot s \<and> ts_conn s' = ts_conn s \<and> ts_link s' = ts_link s)"

lemma keepsD:
  "keeps f \<Longrightarrow> f s = Returned (s', r) \<Longrightarrow> ts_bot s' = ts_bot s \<and> ts_conn s' = ts_conn s \<and> ts_link s' = ts_link s"
  by (simp add: keeps_def)

named_theorems keeps_intros

lemma keeps_return [keeps_intros]: "keeps (act_return x)"
  by (simp add: keeps_def act_return_def)

lemma keeps_lift [keeps_intros]: "keeps (act_lift r)"
  by (simp add: keeps_def act_lift_def split: sum.split)

lemma keeps_Send [keeps_intros]: "keeps (c_Send env c msg opts)"
  by (auto simp: keeps_def c_Send_def split: prod.splits)

lemma keeps_bind [keeps_intros]:
  assumes "keeps f" "\<And>x. keeps (g x)"
  shows "keeps (act_bind f g)"
  unfolding keeps_def
proof (intro allI impI)
  fix s s' r assume b: "act_bind f g s = Returned (s', r)"
  then obtain s1 r1 where f: "f s = Returned (s1, r1)"
    by (auto simp: act_bind_def split: outcome.splits prod.splits)
  show "ts_bot s' = ts_bot s \<and> ts_conn s' = ts_conn s \<and> ts_link s' = ts_link s"
  proof (cases r1)
    case (Inl e)
    with b f keepsD [OF assms(1) f] show ?thesis by (simp add: act_bind_def)
  next
    case (Inr x)
    with b f have "g x s1 = Returned (s', r)" by (simp add: act_bind_def)
    from keepsD [OF assms(2) this] keepsD [OF assms(1) f] show ?thesis by simp
  qed
qed

lemma keeps_wrap [keeps_intros]: "keeps f \<Longrightarrow> keeps (act_wrap msg f)"
  unfolding keeps_def act_wrap_def by (auto split: outcome.splits prod.splits sum.splits)

lemma keeps_request: "(\<And>n n' r. f n = (n', Some r) \<Longrightarrow> n' = n) \<Longrightarrow> keeps (act_request f)"
  unfolding keeps_def act_request_def by (fastforce split: prod.splits option.splits)

lemma keeps_if [keeps_intros]: "keeps f \<Longrightarrow> keeps g \<Longrightarrow> keeps (if b then f else g)"
  by simp

lemma keeps_state: "(\<And>t. keeps (f t)) \<Longrightarrow> keeps (\<lambda>s. f s s)"
  unfolding keeps_def by blast

lemma keeps_eq:
  assumes "\<And>s. \<exists>g. keeps g \<and> f s = g s"
  shows "keeps f"
  unfolding keeps_def
proof (intro allI impI)
  fix s s' r assume f: "f s = Returned (s', r)"
  from assms [of s] obtain g where "keeps g" "f s = g s" by blast
  with keepsD [of g s s' r] f show "ts_bot s' = ts_bot s \<and> ts_conn s' = ts_conn s \<and> ts_link s' = ts_link s" by simp
qed

section \<open>Reading requests\<close>

lemma read_turn:
  assumes "delivered gw jt search now topic nq" "request_op r = None" "pair_turn gw jt nq ready topic s r = (s', resp)"
  shows "s' = s"
proof -
  have nq: "fst (nq s topic msg) = s" if "fst (PairServer_subscription gw jt search now msg s) = s" for msg
  proof (cases "PairServer_subscription gw jt search now msg s")
    case (Pair t x)
    with that deliveredD [OF assms(1), of msg s t] delivered_None [OF assms(1), of msg s t] show ?thesis
      by (cases x) auto
  qed
  have sub: "fst (PairServer_subscription gw jt search now (char_of (unat (RequestType r)) # msg) s) = s" for msg
    using assms(2) by (cases r) (auto simp: subscription_simps split: sum.split)
  note n = nq [OF sub]
  from assms(2) show ?thesis
  proof (cases rule: request_op_NoneE)
    case (nodes specific)
    with assms(3) n [of "[]"] show ?thesis
      by (auto simp: pair_turn_def client_NodesListRequest_def pass_on_def split: prod.splits sum.splits if_splits)
  next
    case (statements urls)
    with assms(3) n [of "strings_Join urls '',''"] show ?thesis
      by (auto simp: pair_turn_def client_NodesStatementsRequest_def pass_on_def split: prod.splits sum.splits if_splits)
  next
    case (statement url height)
    note NodeStatementRequest = this
    show ?thesis
    proof (cases "jt_Marshal jt (NodeHeight_json url height)")
      case (Inr req)
      with NodeStatementRequest assms(3) n [of req] show ?thesis
        by (auto simp: pair_turn_def client_NodesStatementRequest_def pass_on_def split: prod.splits sum.splits if_splits)
    qed (use NodeStatementRequest assms(3) in \<open>simp add: pair_turn_def client_NodesStatementRequest_def\<close>)
  qed
qed

text \<open>The requesters of the package \<open>messaging\<close> leave the service as it is.\<close>

lemma await_keeps:
  assumes "delivered gw jt search now topic nq" "request_op r = None" "await gw jt nq topic n r convert = (n', x)"
  shows "n' = n"
  using read_turn [OF assms(1,2)] assms(3) by (auto simp: await_def split: prod.splits option.splits)

lemma RequestNodes_keeps:
  assumes "delivered gw jt search now topic nq" "RequestNodes gw jt nq topic n specific = (n', x)"
  shows "n' = n"
  using await_keeps [OF assms(1), of "NodesListRequest specific"] assms(2)
  by (auto simp: RequestNodes_def RequestNodesWithCtx_def split: prod.splits option.splits)

lemma RequestAllNodes_keeps:
  assumes "delivered gw jt search now topic nq" "RequestAllNodes gw jt nq topic n = (n', x)"
  shows "n' = n"
  using assms(2) RequestNodes_keeps [OF assms(1)]
  by (auto simp: RequestAllNodes_def split: prod.splits option.splits sum.splits dest!: RequestNodes_keeps [OF assms(1)])

section \<open>Who may change what\<close>

lemma keeps_allNodes:
  assumes "delivered (te_gw env) (te_jt env) search now (te_topic env) (te_nq env)"
  shows "keeps (act_allNodes env)"
  unfolding act_allNodes_def by (rule keeps_request) (rule RequestAllNodes_keeps [OF assms])

lemma keeps_statements:
  assumes "delivered (te_gw env) (te_jt env) search now (te_topic env) (te_nq env)"
  shows "keeps (act_statements env nodes)"
  unfolding act_statements_def RequestNodesStatements_def
  by (rule keeps_request) (rule await_keeps [OF assms], simp_all)

lemma keeps_nodes_or_none:
  assumes "delivered (te_gw env) (te_jt env) search now (te_topic env) (te_nq env)"
  shows "keeps (act_nodes_or_none env)"
  using keeps_allNodes [OF assms] unfolding keeps_def act_nodes_or_none_def
  by (auto split: outcome.splits prod.splits sum.splits)

lemma keeps_statement:
  assumes "delivered (te_gw env) (te_jt env) search now (te_topic env) (te_nq env)"
  shows "keeps (act_request (\<lambda>n. RequestNodeStatement (te_gw env) (te_jt env) (te_nq env) (te_topic env) n url height))"
  unfolding RequestNodeStatement_def by (rule keeps_request) (rule await_keeps [OF assms], simp_all)

text \<open>The handlers without the middleware.\<close>

lemma keeps_open_commands:
  assumes "delivered (te_gw env) (te_jt env) search now (te_topic env) (te_nq env)"
  shows "keeps (chatCmd env c)" "keeps (pingCmd env c)" "keeps (aliasesCmd env c)" "keeps (statementCmd env c)"
    "keeps (statusCmd env c)" "keeps (viewChains env c)"
proof -
  note [keeps_intros] = keeps_allNodes [OF assms] keeps_statements [OF assms] keeps_nodes_or_none [OF assms]
    keeps_statement [OF assms]
  show "keeps (chatCmd env c)" unfolding chatCmd_def by (rule keeps_state) (rule keeps_Send)
  show "keeps (pingCmd env c)"
  proof (rule keeps_eq)
    fix s
    obtain msg where "pingCmd env c s = c_Send env c msg NoOptions s"
      by (cases "tg_Mute (ts_bot s)") (simp_all add: pingCmd_def)
    then show "\<exists>g. keeps g \<and> pingCmd env c s = g s"
      by (intro exI [of _ "c_Send env c msg NoOptions"] conjI keeps_Send)
  qed
  show "keeps (aliasesCmd env c)" unfolding aliasesCmd_def Let_def by (intro keeps_intros)
  show "keeps (statementCmd env c)" unfolding statementCmd_def
    by (auto intro!: keeps_intros split: list.split sum.split)
  show "keeps (statusCmd env c)" unfolding statusCmd_def Let_def
    by (intro keeps_intros) (auto intro!: keeps_intros split: prod.split)
  show "keeps (viewChains env c)" unfolding viewChains_def by (intro keeps_intros)
qed

definition guarded_or_keeps :: "('sub, 'n, 'c, 'w) tgParams \<Rightarrow> (tgContext \<Rightarrow> ('sub, 'n, 'c, 'w, unit) act) \<Rightarrow> bool" where
  "guarded_or_keeps env handler \<longleftrightarrow>
     (\<exists>h. handler = isEligibleForActionMiddleware env h) \<or> (\<forall>c. keeps (handler c))"

lemma guarded: "guarded_or_keeps env (isEligibleForActionMiddleware env h)"
  by (auto simp: guarded_or_keeps_def)

lemma not_guarded: "(\<And>c. keeps (handler c)) \<Longrightarrow> guarded_or_keeps env handler"
  by (simp add: guarded_or_keeps_def)

lemma handlers_guarded:
  assumes "delivered (te_gw env) (te_jt env) search now (te_topic env) (te_nq env)"
  shows "\<forall>(ep, handler) \<in> set (InitTgHandlers env). guarded_or_keeps env handler"
  by (simp add: InitTgHandlers_def Let_def guarded not_guarded keeps_open_commands [OF assms] keeps_Send)

lemma not_eligible:
  assumes "cx_chatID c \<noteq> tg_ChatID (ts_bot s)" "in_int64 (cx_chatID c)" "in_int64 (tg_ChatID (ts_bot s))"
  shows "\<not> eligible s c"
  using assms FormatInt_inj by (auto simp: eligible_def tg_IsEligibleForAction_def)

text \<open>
  C20: Only the configured chat changes anything. Whatever command, button or text comes from
  another chat, when its handler ends the bot is muted as before and has its subscriptions and
  remembered messages, NATS has its subscriptions, and the service, with its registry and the
  events of the private nodes, is in the state in which it was.
\<close>

theorem only_the_chat_changes:
  assumes "delivered (te_gw env) (te_jt env) search now (te_topic env) (te_nq env)"
    and "(ep, handler) \<in> set (InitTgHandlers env)" "handler c s = Returned (s', r)"
    and "cx_chatID c \<noteq> tg_ChatID (ts_bot s)" "in_int64 (cx_chatID c)" "in_int64 (tg_ChatID (ts_bot s))"
  shows "ts_bot s' = ts_bot s \<and> ts_conn s' = ts_conn s \<and> ts_link s' = ts_link s"
proof -
  from handlers_guarded [OF assms(1)] assms(2) have "guarded_or_keeps env handler" by auto
  then show ?thesis unfolding guarded_or_keeps_def
  proof
    assume "\<exists>h. handler = isEligibleForActionMiddleware env h"
    with assms(3) not_eligible [OF assms(4-6)]
    have "c_Send env c (W_text ''Sorry, you have no right to use this command'') NoOptions s = Returned (s', r)"
      by (auto simp: isEligibleForActionMiddleware_def)
    then show ?thesis by (rule keepsD [OF keeps_Send])
  next
    assume "\<forall>c. keeps (handler c)"
    then show ?thesis using keepsD assms(3) by blast
  qed
qed

section \<open>Texts that subscribe\<close>

lemma lower_names_unknown:
  assumes "\<And>x. x \<in> set n \<Longrightarrow> \<not> is_upper x"
  shows "AlertName_AlertType n = None"
proof (cases "AlertName_AlertType n")
  case (Some t)
  have up: "is_upper CHR ''S''" "is_upper CHR ''U''" "is_upper CHR ''I''" "is_upper CHR ''H''" "is_upper CHR ''R''"
    "is_upper CHR ''B''" "is_upper CHR ''C''" "is_upper CHR ''L''" "is_upper CHR ''A''"
    by (simp_all add: is_upper_def)
  from AlertName_cases [OF Some] have "\<exists>x \<in> set n. is_upper x"
    by (simp only: insert_iff empty_iff prod.inject)
       (elim disjE conjE FalseE; simp add: AlertName_defs up)
  with assms show ?thesis by blast
qed

text \<open>
  The bot never subscribes by a text. The buttons tell the user to type \<open>Subscribe to\<close> and the
  name of an alert; but the handler reads texts in lower case, and every name of an alert has a
  capital letter. So, whatever alert an eligible chat asks for, the only effect is the answer
  that the alert does not exist; the same holds for \<open>Unsubscribe from\<close>.
\<close>

theorem text_subscription_never_works:
  assumes "HasPrefix (ToLower (cx_Text c)) ''subscribe to'' \<or> HasPrefix (ToLower (cx_Text c)) ''unsubscribe from''"
    and "eligible s c"
  shows "onTextMsgHandler env c s = c_Send env c (W_text ''Sorry, this alert does not exist'') ModeDefault s"
proof -
  let ?cmd = "ToLower (cx_Text c)"
  have unknown: "AlertName_AlertType (TrimSpace (TrimPrefix ?cmd p)) = None" for p
  proof (rule lower_names_unknown)
    fix x assume "x \<in> set (TrimSpace (TrimPrefix ?cmd p))"
    then have "x \<in> set ?cmd" using set_TrimSpace by (auto simp: TrimPrefix_def split: if_splits dest: in_set_dropD)
    then show "\<not> is_upper x" by (rule ToLower_no_upper)
  qed
  from assms(1) show ?thesis
  proof
    assume "HasPrefix ?cmd ''subscribe to''"
    then obtain rest where "?cmd = ''subscribe to'' @ rest" by (auto simp: HasPrefix_def prefix_def)
    with unknown assms(2) show ?thesis
      by (simp add: onTextMsgHandler_def Let_def HasPrefix_def SubscribeHandler_def)
  next
    assume "HasPrefix ?cmd ''unsubscribe from''"
    then obtain rest where "?cmd = ''unsubscribe from'' @ rest" by (auto simp: HasPrefix_def prefix_def)
    with unknown assms(2) show ?thesis
      by (simp add: onTextMsgHandler_def Let_def HasPrefix_def UnsubscribeHandler_def)
  qed
qed

section \<open>The command that adds a node\<close>

text \<open>
  The Telegram library: a text is sent, and a value of any other type that is no \<open>Sendable\<close> is
  refused with an error.
\<close>

definition telebot_ok :: "('w \<Rightarrow> int \<Rightarrow> what \<Rightarrow> sendOptions \<Rightarrow> 'w \<times> error option) \<Rightarrow> bool" where
  "telebot_ok send \<longleftrightarrow>
     (\<forall>w chat t opts. snd (send w chat (W_text t) opts) = None) \<and>
     (\<forall>w chat e opts. \<exists>err. snd (send w chat (W_error e) opts) = Some err)"

lemma c_Send_text:
  assumes "telebot_ok (te_Send env)"
  obtains w where "c_Send env c (W_text t) opts s =
    Returned (s\<lparr>ts_chats := w, ts_sent := ts_sent s @ [(cx_chatID c, W_text t, opts)]\<rparr>, Inr ())"
proof -
  obtain w x where r: "te_Send env (ts_chats s) (cx_chatID c) (W_text t) opts = (w, x)" by fastforce
  with assms have "x = None" unfolding telebot_ok_def by (metis snd_conv)
  with r that show thesis by (simp add: c_Send_def)
qed

lemma c_Send_error:
  assumes "telebot_ok (te_Send env)"
  obtains w err where "c_Send env c (W_error e) opts s =
    Returned (s\<lparr>ts_chats := w, ts_sent := ts_sent s @ [(cx_chatID c, W_error e, opts)]\<rparr>, Inl err)"
proof -
  obtain w x where r: "te_Send env (ts_chats s) (cx_chatID c) (W_error e) opts = (w, x)" by fastforce
  with assms obtain err where "x = Some err" unfolding telebot_ok_def by (metis snd_conv)
  with r that show thesis by (simp add: c_Send_def)
qed

text \<open>The service after a command, and that its lists of nodes can be written.\<close>

definition link_after :: "('sub, 'n, 'c, 'w) tgParams \<Rightarrow> 'n \<Rightarrow> Request \<Rightarrow> 'n" where
  "link_after env n r = fst (pair_turn (te_gw env) (te_jt env) (te_nq env) False (te_topic env) n r)"

definition lists_writable :: "jsontext \<Rightarrow> 'w PairServer \<Rightarrow> bool" where
  "lists_writable jt t \<longleftrightarrow> (\<forall>specific. \<exists>b. jt_Marshal jt (NodesListResponse_json (JSONStorage_Nodes (ps_ns t) specific)) = Inr b)"

lemma act_command_Some:
  "act_command env (Some r) s = Returned (s\<lparr>ts_link := link_after env (ts_link s) r\<rparr>, Inr ())"
  by (simp add: act_command_def link_after_def split: prod.split)

lemma nodes_list_sent:
  assumes "telebot_ok (te_Send env)" "\<And>ns. \<exists>m. NodesListMessage (te_tm env) ns = Inr m"
    and "act_allNodes env s = Returned (s, Inr nodes)"
  obtains w shown where "send_nodes_list env c (act_allNodes env) s =
    Returned (s\<lparr>ts_chats := w, ts_sent := ts_sent s @ [(cx_chatID c, W_text shown, ModeHTML)]\<rparr>, Inr ())"
proof -
  obtain m where m: "NodesListMessage (te_tm env) nodes = Inr m" using assms(2) by blast
  obtain w where "c_Send env c (W_text m) ModeHTML s =
    Returned (s\<lparr>ts_chats := w, ts_sent := ts_sent s @ [(cx_chatID c, W_text m, ModeHTML)]\<rparr>, Inr ())"
    using c_Send_text [OF assms(1)] .
  with m assms(3) that show thesis by (simp add: send_nodes_list_def act_bind_def act_wrap_def act_lift_def)
qed

lemma all_nodes_action:
  assumes "delivered (te_gw env) (te_jt env) search now (te_topic env) (te_nq env)" "texts_faithful (te_jt env)"
    and "lists_writable (te_jt env) (ts_link s)"
  shows "\<exists>nodes. act_allNodes env s = Returned (s, Inr nodes)"
proof -
  have "RequestAllNodes (te_gw env) (te_jt env) (te_nq env) (te_topic env) (ts_link s) =
      (ts_link s, Some (Inr (db_CommonNodes (js_db (ps_ns (ts_link s))) @ db_SpecificNodes (js_db (ps_ns (ts_link s))))))"
    by (rule bots_see_all_nodes [OF assms(1,2)]) (use assms(3) in \<open>simp add: lists_writable_def\<close>)
  then show ?thesis by (simp add: act_allNodes_def act_request_def)
qed

text \<open>The handler of both commands: the node is inserted, the answer and the list are sent.\<close>

lemma add_handler:
  assumes "delivered (te_gw env) (te_jt env) search now (te_topic env) (te_nq env)" "texts_faithful (te_jt env)"
    and "telebot_ok (te_Send env)" "\<And>ns. \<exists>m. NodesListMessage (te_tm env) ns = Inr m"
    and "eligible s c" "CheckAndUpdateURL (te_nu env) url = Inr u"
    and "lists_writable (te_jt env) (link_after env (ts_link s) (InsertNewNodeRequest u specific))"
  obtains w shown where "tg_AddNewNodeHandler env c url specific s =
    Returned (s\<lparr>ts_link := link_after env (ts_link s) (InsertNewNodeRequest u specific), ts_chats := w,
      ts_sent := ts_sent s @ [
        (cx_chatID c, W_text ((if specific then ''New specific node '' else ''New node '') @ squote u @ '' was added''), ModeHTML),
        (cx_chatID c, W_text shown, ModeHTML)]\<rparr>, Inr ())"
proof -
  let ?t = "link_after env (ts_link s) (InsertNewNodeRequest u specific)"
  let ?msg = "(if specific then ''New specific node '' else ''New node '') @ squote u @ '' was added''"
  have res: "AddNewNodeHandler (te_nu env) (tg_IsEligibleForAction (ts_bot s)) (FormatInt (cx_chatID c)) url specific =
      ((?msg, None), Some (InsertNewNodeRequest u specific))"
    using assms(5) by (simp add: AddNewNodeHandler_def eligible_def tg_chat.eligible_iff tg_chat.home_answered [OF assms(6)])
  obtain w1 where 1: "c_Send env c (W_text ?msg) ModeHTML (s\<lparr>ts_link := ?t\<rparr>) =
      Returned (s\<lparr>ts_link := ?t, ts_chats := w1, ts_sent := ts_sent s @ [(cx_chatID c, W_text ?msg, ModeHTML)]\<rparr>, Inr ())"
    using c_Send_text [OF assms(3), of c ?msg ModeHTML "s\<lparr>ts_link := ?t\<rparr>"] by auto
  let ?s1 = "s\<lparr>ts_link := ?t, ts_chats := w1, ts_sent := ts_sent s @ [(cx_chatID c, W_text ?msg, ModeHTML)]\<rparr>"
  from all_nodes_action [OF assms(1,2), of ?s1] assms(7) obtain nodes where
    "act_allNodes env ?s1 = Returned (?s1, Inr nodes)" by auto
  from nodes_list_sent [OF assms(3,4) this] obtain w2 shown where
    "send_nodes_list env c (act_allNodes env) ?s1 =
      Returned (?s1\<lparr>ts_chats := w2, ts_sent := ts_sent ?s1 @ [(cx_chatID c, W_text shown, ModeHTML)]\<rparr>, Inr ())" by blast
  with 1 res that [where w = w2 and shown = shown] show thesis
    by (simp add: tg_AddNewNodeHandler_def answer_command_def act_bind_def act_command_Some)
qed

text \<open>
  C25: The commands that add a node do it and always fail. When the configured chat sends \<open>/add\<close>
  or \<open>/add_specific\<close> with a valid URL, and everything works, the node is inserted into the
  registry as the specification says, the answer and the list of the nodes are shown; then the
  nil error of that is sent as a message, which the Telegram library refuses, and the command
  ends with this error.
\<close>

theorem add_commands_insert_and_fail:
  assumes "(cmd, specific) = (addCmd env, False) \<or> (cmd, specific) = (addSpecificCmd env, True)"
    and "delivered (te_gw env) (te_jt env) search now (te_topic env) (te_nq env)" "texts_faithful (te_jt env)"
    and "telebot_ok (te_Send env)" "\<And>ns. \<exists>m. NodesListMessage (te_tm env) ns = Inr m"
    and "eligible s c" "cx_Args c = [url]" "CheckAndUpdateURL (te_nu env) url = Inr u" "server_ok (ts_link s)"
    and "lists_writable (te_jt env) (link_after env (ts_link s) (InsertNewNodeRequest u specific))"
  shows "\<exists>s' err shown. cmd c s = Returned (s', Inl err) \<and> ts_bot s' = ts_bot s \<and>
    server_registry (ts_link s') = fst (reg_step (server_registry (ts_link s)) (OpInsert u specific)) \<and>
    ts_sent s' = ts_sent s @ [
      (cx_chatID c, W_text ((if specific then ''New specific node '' else ''New node '') @ squote u @ '' was added''), ModeHTML),
      (cx_chatID c, W_text shown, ModeHTML), (cx_chatID c, W_error None, ModeHTML)]"
proof -
  let ?t = "link_after env (ts_link s) (InsertNewNodeRequest u specific)"
  let ?msg = "(if specific then ''New specific node '' else ''New node '') @ squote u @ '' was added''"
  obtain resp where turn: "pair_turn (te_gw env) (te_jt env) (te_nq env) False (te_topic env) (ts_link s)
      (InsertNewNodeRequest u specific) = (?t, resp)" unfolding link_after_def by (metis prod.collapse)
  have reg: "server_registry ?t = fst (reg_step (server_registry (ts_link s)) (OpInsert u specific))"
    using turn_refines [OF assms(2,3,9) _ _ turn] by simp
  from add_handler [OF assms(2-6,8,10)] obtain w shown where add: "tg_AddNewNodeHandler env c url specific s =
      Returned (s\<lparr>ts_link := ?t, ts_chats := w, ts_sent := ts_sent s @
        [(cx_chatID c, W_text ?msg, ModeHTML), (cx_chatID c, W_text shown, ModeHTML)]\<rparr>, Inr ())" (is "_ = Returned (?s1, _)")
    by blast
  obtain w2 err where "c_Send env c (W_error None) ModeHTML ?s1 =
      Returned (?s1\<lparr>ts_chats := w2, ts_sent := ts_sent ?s1 @ [(cx_chatID c, W_error None, ModeHTML)]\<rparr>, Inl err)"
    using c_Send_error [OF assms(4)] .
  with add assms(1,7) have "cmd c s =
      Returned (?s1\<lparr>ts_chats := w2, ts_sent := ts_sent ?s1 @ [(cx_chatID c, W_error None, ModeHTML)]\<rparr>, Inl err)"
    by (auto simp: addCmd_def addSpecificCmd_def act_bind_def act_error_def)
  with reg show ?thesis by (intro exI conjI) (assumption, simp_all)
qed

section \<open>Witnesses\<close>

text \<open>A bot for the chat 7, with a service that has no nodes yet.\<close>

definition demo_send :: "unit \<Rightarrow> int \<Rightarrow> what \<Rightarrow> sendOptions \<Rightarrow> unit \<times> error option" where
  "demo_send w chat msg opts =
     (w, case msg of W_text t \<Rightarrow> None | W_error e \<Rightarrow> Some (Errorf ''telebot: unsupported what argument''))"

definition demo_params :: "json list \<Rightarrow> (unit, unit PairServer, unit, unit) tgParams" where
  "demo_params docs =
     \<lparr>te_gw = demo_gowaves, te_jt = demo_text docs, te_tm = \<lparr>tm_html = (\<lambda>name d. Inr name), tm_text = (\<lambda>name d. Inr name)\<rparr>,
      te_nu = demo_neturl, te_nq = demo_net demo_gowaves (demo_text docs) demo_search 7, te_topic = ''t'',
      te_nc = \<lparr>nc_Subscribe = (\<lambda>n topic. (n, Inr ())), nc_Unsubscribe = (\<lambda>n sub. (n, None))\<rparr>,
      te_Send = demo_send, te_order = (\<lambda>subs. []), te_all = []\<rparr>"

definition demo_state :: "(unit, unit PairServer, unit, unit) tgState" where
  "demo_state =
     \<lparr>ts_bot = NewTelegramBotEnvironment 7 False ''W'', ts_link = demo_server [] [], ts_conn = (), ts_chats = (), ts_sent = []\<rparr>"

definition demo_context :: "int \<Rightarrow> string list \<Rightarrow> string \<Rightarrow> tgContext" where
  "demo_context chat args msg = \<lparr>cx_chatID = chat, cx_Args = args, cx_Text = msg\<rparr>"

lemma demo_params_delivered:
  "delivered (te_gw (demo_params docs)) (te_jt (demo_params docs)) demo_search 7 (te_topic (demo_params docs)) (te_nq (demo_params docs))"
  "texts_faithful (te_jt (demo_params docs))" "telebot_ok (te_Send (demo_params docs))"
  "\<exists>m. NodesListMessage (te_tm (demo_params docs)) ns = Inr m"
  by (simp_all add: demo_params_def demo_net_delivers demo_text_faithful telebot_ok_def demo_send_def NodesListMessage_def)

lemma demo_eligible: "eligible demo_state (demo_context 7 args msg)"
  by (simp add: eligible_def demo_state_def demo_context_def tg_IsEligibleForAction_def NewTelegramBotEnvironment_def)

theorem only_the_chat_changes_witness:
  "\<exists>handler s' r. (Cmd ''/mute'', handler) \<in> set (InitTgHandlers (demo_params [])) \<and>
    handler (demo_context 8 [] []) demo_state = Returned (s', r) \<and> \<not> tg_Mute (ts_bot s')"
proof -
  let ?h = "isEligibleForActionMiddleware (demo_params []) (muteCmd (demo_params []))"
  have mem: "(Cmd ''/mute'', ?h) \<in> set (InitTgHandlers (demo_params []))" by (simp add: InitTgHandlers_def Let_def)
  have bot: "tg_ChatID (ts_bot demo_state) = 7" "\<not> tg_Mute (ts_bot demo_state)"
    by (simp_all add: demo_state_def NewTelegramBotEnvironment_def)
  have "\<not> eligible demo_state (demo_context 8 [] [])"
    by (rule not_eligible) (simp_all add: bot demo_context_def in_int64_def)
  then obtain s' r where run: "?h (demo_context 8 [] []) demo_state = Returned (s', r)"
    by (simp add: isEligibleForActionMiddleware_def c_Send_def demo_params_def demo_send_def)
  from only_the_chat_changes [OF demo_params_delivered(1) mem run] mem run bot show ?thesis
    by (auto simp: demo_context_def in_int64_def)
qed

theorem text_subscription_never_works_witness:
  "onTextMsgHandler (demo_params []) (demo_context 7 [] ''Subscribe to SimpleAlert'') demo_state =
    c_Send (demo_params []) (demo_context 7 [] ''Subscribe to SimpleAlert'') (W_text ''Sorry, this alert does not exist'')
      ModeDefault demo_state"
proof -
  have "ToLower ''Subscribe to SimpleAlert'' = ''subscribe to simplealert''" by code_simp
  then have "HasPrefix (ToLower (cx_Text (demo_context 7 [] ''Subscribe to SimpleAlert''))) ''subscribe to''"
    by (simp add: demo_context_def HasPrefix_def)
  then show ?thesis by (intro text_subscription_never_works disjI1 demo_eligible)
qed

theorem add_commands_insert_and_fail_witness:
  "\<exists>docs s' err. addCmd (demo_params docs) (demo_context 7 [''x''] []) demo_state = Returned (s', Inl err) \<and>
    server_registry (ts_link s') False = [''http://x'' \<mapsto> new_node ''http://x''] \<and> length (ts_sent s') = 3"
proof -
  let ?docs = "[NodesListResponse_json [new_node ''http://x''], NodesListResponse_json []]"
  let ?c = "demo_context 7 [''x''] []"
  have url: "CheckAndUpdateURL (te_nu (demo_params ?docs)) ''x'' = Inr ''http://x''"
    by (simp add: demo_params_def demo_neturl_def CheckAndUpdateURL_def HTTPScheme_def Contains_def TrimPrefix_def sublist_Cons_right)
  have link: "ts_link demo_state = demo_server [] []" by (simp add: demo_state_def)
  have after: "link_after (demo_params ?docs) (demo_server [] []) (InsertNewNodeRequest ''http://x'' False) =
      demo_server [new_node ''http://x''] []"
    by (simp add: link_after_def pair_turn_def client_InsertNewNodeRequest_def demo_params_def demo_net_def subscription_simps
        insertRegularNodeIfNew_def insertNodeIfNew_def InsertIfNew_def demo_server_def appendIfNew_def new_node_def syncDB_def Let_def)
  have wr: "lists_writable (te_jt (demo_params ?docs)) (demo_server [new_node ''http://x''] [])"
    by (auto simp: lists_writable_def demo_params_def demo_text_def demo_server_def JSONStorage_Nodes_def db_Nodes_def)
  have ok: "server_ok (demo_server [] [])" by (simp add: server_ok_def demo_server_def db_ok_def)
  have r: "\<exists>s' err shown. addCmd (demo_params ?docs) ?c demo_state = Returned (s', Inl err) \<and> ts_bot s' = ts_bot demo_state \<and>
    server_registry (ts_link s') = fst (reg_step (server_registry (ts_link demo_state)) (OpInsert ''http://x'' False)) \<and>
    ts_sent s' = ts_sent demo_state @ [
      (cx_chatID ?c, W_text ((if False then ''New specific node '' else ''New node '') @ squote ''http://x'' @ '' was added''), ModeHTML),
      (cx_chatID ?c, W_text shown, ModeHTML), (cx_chatID ?c, W_error None, ModeHTML)]"
    by (rule add_commands_insert_and_fail [OF disjI1 demo_params_delivered(1-4) demo_eligible _ url])
      (simp_all add: link after wr ok demo_context_def)
  have reg: "fst (reg_step (server_registry (ts_link demo_state)) (OpInsert ''http://x'' False)) False =
      [''http://x'' \<mapsto> new_node ''http://x'']"
    by (auto simp: link demo_server_def db_abs_def db_Nodes_def reg_place_def fun_eq_iff)
  have "ts_sent demo_state = []" by (simp add: demo_state_def)
  with r reg show ?thesis by (elim exE conjE) (intro exI conjI, assumption, simp del: reg_step.simps, simp)
qed

end
