(* ===== verification/DscPolicy.thy ===== *)
theory DscPolicy
  imports DscHandlers TgPolicy
begin

text \<open>
  What the messages of Discord do to the registry of the service, and who gets an answer. The facts
  on \<open>IsEligibleForAction\<close> are those of the interface \<open>chat_bot\<close> in \<open>PairClient\<close>.
\<close>

section \<open>What a message stands for\<close>

definition given_url :: "neturl \<Rightarrow> string \<Rightarrow> string option" where
  "given_url nu url =
     (if url = [] then None else (case CheckAndUpdateURL nu url of Inl err \<Rightarrow> None | Inr u \<Rightarrow> Some u))"

text \<open>The operation on the registry that a message asks for.\<close>

definition dsc_request :: "neturl \<Rightarrow> string \<Rightarrow> dscMessage \<Rightarrow> Request option" where
  "dsc_request nu home m =
     (if dm_self m \<or> dm_ChannelID m \<noteq> home \<or> dm_Content m \<in> {''/ping'', ''/help'', ''/status''} then None
      else if Contains (dm_Content m) ''/add'' then
        map_option (\<lambda>u. InsertNewNodeRequest u False) (given_url nu (Replace1 (dm_Content m) ''/add '' []))
      else if Contains (dm_Content m) ''/remove'' then
        map_option DeleteNodeRequest (given_url nu (Replace1 (dm_Content m) ''/remove '' []))
      else None)"

section \<open>The link to the service\<close>

abbreviation dsc_link_after :: "('n, 'w) dscParams \<Rightarrow> 'n \<Rightarrow> Request option \<Rightarrow> 'n" where
  "dsc_link_after env n r \<equiv>
     (case r of None \<Rightarrow> n | Some r \<Rightarrow> fst (pair_turn (de_gw env) (de_jt env) (de_nq env) False (de_topic env) n r))"

lemma dt_link_answer [simp]:
  "dt_link (fst (dsc_answer env chat result failure s)) = dsc_link_after env (dt_link s) (snd result)"
  by (auto simp: dsc_answer_def Let_def ChannelMessageSend_def split: option.splits prod.splits)

lemma dt_link_nodeCmd:
  "dt_link (dsc_nodeCmd env ds url missing failed request s) = (if url = [] then dt_link s else dt_link (fst (request url s)))"
  by (simp add: dsc_nodeCmd_def split: prod.split option.split)

lemma home_link:
  assumes "dm_ChannelID m = ds_ChatID ds"
  shows "dt_link (handleAddCmd env ds m s) = dsc_link_after env (dt_link s)
      (map_option (\<lambda>u. InsertNewNodeRequest u False) (given_url (de_nu env) (Replace1 (dm_Content m) ''/add '' [])))"
    "dt_link (handleRemoveCmd env ds m s) = dsc_link_after env (dt_link s)
      (map_option DeleteNodeRequest (given_url (de_nu env) (Replace1 (dm_Content m) ''/remove '' [])))"
  using assms
  by (simp_all add: handleAddCmd_def handleRemoveCmd_def dt_link_nodeCmd RequestAddNode_def RequestRemoveNode_def
      AddNewNodeHandler_def RemoveNodeHandler_def ds_chat.request_written given_url_def split: sum.split)

lemma dsc_status_link:
  assumes "delivered (de_gw env) (de_jt env) search now (de_topic env) (de_nq env)" "handleStatusCmd env ds s = Returned s'"
  shows "dt_link s' = dt_link s"
proof -
  obtain n r where r: "RequestAllNodes (de_gw env) (de_jt env) (de_nq env) (de_topic env) (dt_link s) = (n, r)" by fastforce
  obtain n' r' where r': "RequestNodesStatements (de_gw env) (de_jt env) (de_nq env) (de_topic env) n
      (NodesToUrls (case r of Some (Inr ns) \<Rightarrow> ns | _ \<Rightarrow> [])) = (n', r')" by fastforce
  have "n = dt_link s" by (rule RequestAllNodes_keeps [OF assms(1) r])
  moreover have "n' = n"
    using await_keeps [OF assms(1) _ r' [unfolded RequestNodesStatements_def]] by simp
  ultimately show ?thesis
    using assms(2) r r'
    by (auto simp: handleStatusCmd_def Let_def split: option.splits sum.splits if_splits prod.splits)
qed

text \<open>What a message does to the service is what its request does.\<close>

lemma message_link:
  assumes "delivered (de_gw env) (de_jt env) search now (de_topic env) (de_nq env)" "InitDscHandlers env ds m s = Returned s'"
  shows "dt_link s' = dsc_link_after env (dt_link s) (dsc_request (de_nu env) (ds_ChatID ds) m)"
proof (cases "dm_self m \<or> dm_Content m \<in> {''/ping'', ''/help'', ''/status''}")
  case True
  then show ?thesis
    using assms(2) dsc_status_link [OF assms(1)] unfolding InitDscHandlers_def
    by (auto simp: handlePingCmd_def handleHelpCmd_def dsc_request_def split: if_splits)
next
  case False
  then show ?thesis
    using assms(2) unfolding InitDscHandlers_def
    by (auto simp: dsc_request_def home_link dsc_eligible_def ds_chat.eligible_iff split: if_splits)
qed

section \<open>Who gets an answer\<close>

definition says :: "string \<Rightarrow> string \<Rightarrow> ('n, 'w) dscState \<Rightarrow> ('n, 'w) dscState \<Rightarrow> bool" where
  "says home channel s s' \<longleftrightarrow>
     (\<exists>out. dt_sent s' = dt_sent s @ out \<and>
        (\<forall>(chat, msg) \<in> set out. chat = home \<or> chat = channel \<and> msg = ''Sorry, you have no right to use this command''))"

lemma says_refl [intro]: "says home channel s s"
  by (simp add: says_def)

lemma says_same: "dt_sent s' = dt_sent s \<Longrightarrow> says home channel s s'"
  by (simp add: says_def)

lemma says_trans: "says home channel s t \<Longrightarrow> says home channel t s' \<Longrightarrow> says home channel s s'"
  unfolding says_def by fastforce

lemma says_Send [intro]: "says home channel s (fst (ChannelMessageSend env home msg s))"
  by (simp add: says_def ChannelMessageSend_def split: prod.split)

lemma says_link [simp]: "says home channel (s\<lparr>dt_link := n\<rparr>) s' \<longleftrightarrow> says home channel s s'"
  by (simp add: says_def)

lemma says_answer: "says home channel s (fst (dsc_answer env home result failure s))"
proof -
  obtain response err request where result: "result = ((response, err), request)" by (metis surj_pair)
  obtain n where n: "(case request of None \<Rightarrow> s
      | Some r \<Rightarrow> s\<lparr>dt_link := fst (pair_turn (de_gw env) (de_jt env) (de_nq env) False (de_topic env) (dt_link s) r)\<rparr>) =
      s\<lparr>dt_link := n\<rparr>"
    by (cases request) (auto intro: that [of "dt_link s"])
  have "fst (dsc_answer env home result failure s) \<in>
      {fst (ChannelMessageSend env home response (s\<lparr>dt_link := n\<rparr>)), s\<lparr>dt_link := n\<rparr>}"
    unfolding dsc_answer_def result prod.case Let_def n by (auto split: option.splits prod.splits)
  moreover have "says home channel s (fst (ChannelMessageSend env home response (s\<lparr>dt_link := n\<rparr>)))"
    using says_Send [of home channel "s\<lparr>dt_link := n\<rparr>"] by simp
  ultimately show ?thesis by (auto simp: says_same)
qed

lemma says_nodeCmd:
  assumes "\<And>url. says (ds_ChatID ds) channel s (fst (request url s))"
  shows "says (ds_ChatID ds) channel s (dsc_nodeCmd env ds url missing failed request s)"
proof (cases "request url s")
  case (Pair t err)
  with assms [of url] show ?thesis
    by (auto simp: dsc_nodeCmd_def split: option.split intro: says_trans)
qed

lemma says_home:
  assumes "dm_ChannelID m = ds_ChatID ds"
  shows "says (ds_ChatID ds) channel s (handleAddCmd env ds m s)" "says (ds_ChatID ds) channel s (handleRemoveCmd env ds m s)"
  unfolding handleAddCmd_def handleRemoveCmd_def RequestAddNode_def RequestRemoveNode_def assms
  by (rule says_nodeCmd, rule says_answer)+

lemma says_status:
  assumes "handleStatusCmd env ds s = Returned s'"
  shows "says (ds_ChatID ds) channel s s'"
proof -
  have "\<exists>n msg. s' = fst (ChannelMessageSend env (ds_ChatID ds) msg (s\<lparr>dt_link := n\<rparr>))"
    using assms by (auto simp: handleStatusCmd_def Let_def split: option.splits sum.splits if_splits prod.splits)
  then obtain n msg where s': "s' = fst (ChannelMessageSend env (ds_ChatID ds) msg (s\<lparr>dt_link := n\<rparr>))" by blast
  show ?thesis
    unfolding s' using says_Send [of "ds_ChatID ds" channel "s\<lparr>dt_link := n\<rparr>"] by simp
qed

lemma says_eligible: "says (ds_ChatID ds) (dm_ChannelID m) s (fst (dsc_eligible env ds m s))"
  by (simp add: dsc_eligible_def says_def ChannelMessageSend_def split: prod.split)

lemma message_says:
  assumes "InitDscHandlers env ds m s = Returned s'"
  shows "says (ds_ChatID ds) (dm_ChannelID m) s s'"
proof (cases "dm_self m \<or> dm_Content m \<in> {''/ping'', ''/help'', ''/status''}")
  case True
  then show ?thesis
    using assms says_status unfolding InitDscHandlers_def
    by (auto simp: handlePingCmd_def handleHelpCmd_def split: if_splits)
next
  case False
  show ?thesis
  proof (cases "dm_ChannelID m = ds_ChatID ds")
    case True
    with False assms says_home [OF True] show ?thesis unfolding InitDscHandlers_def
      by (auto simp: dsc_eligible_def ds_chat.eligible_iff split: if_splits)
  next
    case other: False
    with False assms have "s' = s \<or> s' = fst (dsc_eligible env ds m s)" unfolding InitDscHandlers_def
      by (auto simp: dsc_eligible_def ds_chat.eligible_iff split: if_splits)
    with says_eligible show ?thesis by blast
  qed
qed

section \<open>The messages act on the registry\<close>

text \<open>
  C28: A message of Discord does to the registry what its text asks for, and nothing else. When the
  handler of a message ends, the service is changed only if the message comes from the bot's
  channel and adds or removes a node under a valid URL, and then as the operation on the registry
  does; after any other message, of whatever channel and text, it is as before. All that the bot
  says goes to its own channel, but for the refusal, which the channel of the message gets.
\<close>

theorem discord_messages_refine:
  assumes "delivered (de_gw env) (de_jt env) search now (de_topic env) (de_nq env)" "texts_faithful (de_jt env)"
    and "server_ok (dt_link s)" "InitDscHandlers env ds m s = Returned s'"
  shows "server_ok (dt_link s') \<and> says (ds_ChatID ds) (dm_ChannelID m) s s' \<and>
    (case Option.bind (dsc_request (de_nu env) (ds_ChatID ds) m) request_op of
       None \<Rightarrow> dt_link s' = dt_link s
     | Some p \<Rightarrow> server_registry (dt_link s') = fst (reg_step (server_registry (dt_link s)) p))"
proof (cases "dsc_request (de_nu env) (ds_ChatID ds) m")
  case None
  with message_link [OF assms(1,4)] message_says [OF assms(4)] assms(3) show ?thesis by simp
next
  case (Some r)
  then have r: "(\<exists>u. r = InsertNewNodeRequest u False) \<or> (\<exists>u. r = DeleteNodeRequest u)"
    by (auto simp: dsc_request_def split: if_splits)
  then obtain p where p: "request_op r = Some p" by auto
  obtain t resp where t: "pair_turn (de_gw env) (de_jt env) (de_nq env) False (de_topic env) (dt_link s) r = (t, resp)" by fastforce
  have "server_ok t \<and> server_registry t = fst (reg_step (server_registry (dt_link s)) p)"
    using turn_refines [OF assms(1-3) p _ t] r by auto
  with Some p t message_link [OF assms(1,4)] message_says [OF assms(4)] show ?thesis by simp
qed

section \<open>Witnesses\<close>

definition demo_discord :: "(unit PairServer, unit) dscParams" where
  "demo_discord =
     \<lparr>de_gw = demo_gowaves, de_jt = demo_text [], de_tm = \<lparr>tm_html = (\<lambda>name d. Inr name), tm_text = (\<lambda>name d. Inr name)\<rparr>,
      de_nu = demo_neturl, de_nq = demo_net demo_gowaves (demo_text []) demo_search 7, de_topic = ''t'',
      de_Send = (\<lambda>w chat msg. (w, None))\<rparr>"

definition demo_dscState :: "(unit PairServer, unit) dscState" where
  "demo_dscState = \<lparr>dt_link = demo_server [] [], dt_chats = (), dt_sent = []\<rparr>"

definition demo_dscMessage :: "string \<Rightarrow> dscMessage" where
  "demo_dscMessage msg = \<lparr>dm_self = False, dm_ChannelID = ''7'', dm_Content = msg\<rparr>"

theorem discord_messages_refine_witness:
  "\<exists>s'. InitDscHandlers demo_discord (NewDiscordBotEnvironment ''7'' ''W'' :: unit DiscordBot) (demo_dscMessage ''/add x'')
      demo_dscState = Returned s' \<and>
    server_registry (dt_link s') False = [''http://x'' \<mapsto> new_node ''http://x'']"
proof -
  let ?ds = "NewDiscordBotEnvironment ''7'' ''W'' :: unit DiscordBot" and ?m = "demo_dscMessage ''/add x''"
  have c: "Contains ''/add x'' ''/add''" by code_simp
  have url: "CheckAndUpdateURL demo_neturl ''x'' = Inr ''http://x''"
    by (simp add: demo_neturl_def CheckAndUpdateURL_def HTTPScheme_def Contains_def TrimPrefix_def sublist_Cons_right)
  have replaced: "Replace1 ''/add x'' ''/add '' [] = ''x''" by code_simp
  have request: "dsc_request (de_nu demo_discord) (ds_ChatID ?ds) ?m = Some (InsertNewNodeRequest ''http://x'' False)"
    by (simp add: dsc_request_def demo_dscMessage_def NewDiscordBotEnvironment_def c replaced given_url_def url demo_discord_def)
  obtain s' where run: "InitDscHandlers demo_discord ?ds ?m demo_dscState = Returned s'"
    by (simp add: InitDscHandlers_def demo_dscMessage_def c case_prod_beta')
  have ok: "server_ok (dt_link demo_dscState)"
    by (simp add: server_ok_def demo_dscState_def demo_server_def db_ok_def)
  have env: "delivered (de_gw demo_discord) (de_jt demo_discord) demo_search 7 (de_topic demo_discord) (de_nq demo_discord)"
    "texts_faithful (de_jt demo_discord)"
    by (simp_all add: demo_discord_def demo_net_delivers demo_text_faithful)
  have "server_registry (dt_link s') =
      fst (reg_step (server_registry (dt_link demo_dscState)) (OpInsert ''http://x'' False))"
    using discord_messages_refine [OF env ok run] by (simp only: request Option.bind.simps request_op.simps option.case)
  moreover have "fst (reg_step (server_registry (dt_link demo_dscState)) (OpInsert ''http://x'' False)) False =
      [''http://x'' \<mapsto> new_node ''http://x'']"
    by (auto simp: demo_dscState_def demo_server_def db_abs_def db_Nodes_def reg_place_def fun_eq_iff)
  ultimately show ?thesis using run by (intro exI [of _ s'] conjI) simp_all
qed

end
