(* ===== verification/AnalyzerSafety.thy ===== *)
theory AnalyzerSafety
  imports AnalyzerRounds ApiPolicy
begin

text \<open>
  The criteria dereference the state hash of every statement with status \<open>OK\<close>, divide by the bucket
  size, and bisect heights; a nil pointer, a zero and a wrapped midpoint would end the program or
  keep a goroutine busy for ever. This theory states the type of the statements, shows that
  storing typed events preserves it (preservation), and that on typed statements every
  routine of an analysis ends without a panic, so that each notification has a result (progress).
\<close>

section \<open>Typed events and statements\<close>

definition statement_typed :: "NodeStatement \<Rightarrow> bool" where
  "statement_typed st \<longleftrightarrow> (st_Status st = OK \<longrightarrow> full st) \<and> (full st \<longrightarrow> st_Height st < 2 ^ 63)"

definition event_typed :: "Event \<Rightarrow> bool" where
  "event_typed e \<longleftrightarrow> (case e of Ev_StateHash s \<Rightarrow> she_sh s \<noteq> None \<and> he_h s < 2 ^ 63 | _ \<Rightarrow> True)"

lemma event_typed_statement: "event_typed e \<Longrightarrow> statement_typed (Event_Statement e)"
  by (cases e) (simp_all add: event_typed_def statement_typed_def Statement_defs)

text \<open>The events of the scraper and of the private nodes are typed when the nodes tell heights below \<open>2\<^sup>6\<^sup>3\<close>.\<close>

lemma event_typed_queryNode:
  assumes "\<And>h. api_Height api url = Inr h \<Longrightarrow> h \<le> 2 ^ 63"
  shows "event_typed (queryNode api url ts)"
proof -
  have "h - 1 < 2 ^ 63" if "\<not> h < 2" "h \<le> 2 ^ 63" for h :: uint64
    using that by unat_arith
  with assms show ?thesis
    by (auto simp: event_typed_def queryNode_def Let_def New_event_defs client_height_def minValidHeight_def split: sum.split)
qed

lemma event_typed_specific:
  "ns_Height statement < 2 ^ 63 \<Longrightarrow> event_typed (specific_event statement sh)"
  by (simp add: event_typed_def specific_event_def New_event_defs)

lemma event_typed_unreachable: "event_typed (Ev_Unreachable e)"
  by (simp add: event_typed_def)

lemma event_typed_WithTimestamp [simp]: "event_typed (Event_WithTimestamp e ts) = event_typed e"
  by (cases e) (simp_all add: event_typed_def)

definition typed_store :: "gowaves \<Rightarrow> ('d \<Rightarrow> (string, json) gomap) \<Rightarrow> 'd Storage \<Rightarrow> bool" where
  "typed_store gw cont s \<longleftrightarrow>
     (\<forall>n ts st. node_ok n \<and> in_int64 ts \<and> stored gw cont s n ts = Some st \<longrightarrow> statement_typed st)"

lemma typed_put_all:
  assumes "store_ok gw bd cont glob s" "typed_store gw cont s" "\<forall>e \<in> set evs. event_ok e \<and> event_typed e"
  shows "typed_store gw cont (put_all gw bd s evs)"
  unfolding typed_store_def
proof (intro allI impI, elim conjE)
  fix n ts st
  assume n: "node_ok n" "in_int64 ts" and st: "stored gw cont (put_all gw bd s evs) n ts = Some st"
  have "\<forall>e \<in> set evs. event_ok e" using assms(3) by blast
  from stored_put_all [OF assms(1) this n] st consider e where "e \<in> set evs" "st = Event_Statement e"
    | "stored gw cont s n ts = Some st"
    by (auto split: option.splits simp: find_Some_iff dest: nth_mem)
       (metis nth_mem rev_nth set_rev length_rev)
  then show "statement_typed st"
    using assms(2,3) n event_typed_statement unfolding typed_store_def by cases blast+
qed

lemma typed_history:
  assumes "store_ok gw bd cont glob s" "typed_store gw cont s" "node_ok n" "st \<in> set (history gw cont s n)"
  shows "statement_typed st"
  using assms set_history [OF assms(1,3)] unfolding typed_store_def by blast

lemma typed_latest:
  assumes "store_ok gw bd cont glob s" "typed_store gw cont s" "node_ok n" "latest gw cont s n = Some h"
  shows "h < 2 ^ 63"
proof -
  from assms(4) obtain st where st: "find full (history gw cont s n) = Some st" "st_Height st = h"
    by (auto simp: latest_def newest_full_height_def split: option.splits if_splits)
  then have "st \<in> set (history gw cont s n)" "full st" by (auto simp: find_Some_iff)
  with typed_history [OF assms(1-3)] st(2) show ?thesis by (auto simp: statement_typed_def)
qed

section \<open>Results without a panic\<close>

definition no_panic :: "criterion_result \<Rightarrow> bool" where
  "no_panic r \<longleftrightarrow> (case snd r of None \<Rightarrow> True | Some e \<Rightarrow> \<not> is_panic e)"

lemma no_panic_simps [simp]:
  "no_panic (sent, None)" "no_panic (sent, Some e) \<longleftrightarrow> \<not> is_panic e"
  by (simp_all add: no_panic_def)

lemma errors_Is_not_panic: "errors_Is e t \<Longrightarrow> \<not> is_panic e"
  by (cases e) auto

lemma analyze_nodes_no_error: "(\<And>s. s \<in> set ss \<Longrightarrow> snd (f s) = None) \<Longrightarrow> snd (analyze_nodes f ss) = None"
proof (induction ss)
  case (Cons s ss)
  then have "snd (f s) = None" "snd (analyze_nodes f ss) = None" by simp_all
  then show ?case by (auto split: prod.splits)
qed simp

lemma run_steps_no_panic:
  assumes "\<And>r. r \<in> set rs \<Longrightarrow> \<exists>x. r = Some x \<and> no_panic x"
  shows "\<exists>x. run_steps rs = Some x \<and> no_panic x"
  using assms
proof (induction rs)
  case (Cons r rs)
  from Cons.prems [of r] obtain sent err where r: "r = Some (sent, err)" "no_panic (sent, err)" by auto
  from Cons obtain sent' err' where rs: "run_steps rs = Some (sent', err')" "no_panic (sent', err')" by fastforce
  show ?case using r rs by (cases err) (auto simp: no_panic_def)
qed simp

section \<open>The state hash criterion\<close>

lemma different_at_no_panic:
  assumes "store_ok gw bd cont glob s" "node_ok a" "node_ok b" "different_at pick gw bd s a b h = Inl e"
  shows "\<not> is_panic e"
  using assms(1,2)
proof (cases rule: StateHashAtHeight_cases [where h = h])
  case (1 e')
  with assms(4) show ?thesis by (simp add: different_at_def)
next
  case a: 2
  show ?thesis using assms(1,3)
    by (cases rule: StateHashAtHeight_cases [where h = h]) (use assms(4) a in \<open>simp_all add: different_at_def\<close>)
qed

lemma hash_no_panic:
  assumes "store_ok gw bd cont glob s" "node_ok n" "StateHashAtHeight gw bd s n h = Inl e"
  shows "\<not> is_panic e"
  using assms(1,2) by (cases rule: StateHashAtHeight_cases [where h = h]) (use assms(3) in simp_all)

lemma linear_loop_no_panic:
  assumes "store_ok gw bd cont glob s" "node_ok a" "node_ok b" "linear_loop gw bd s a b start stop n i = Inl e"
  shows "\<not> is_panic e"
  using assms(4)
proof (induction n arbitrary: i)
  case (Suc n)
  show ?case
    using Suc.prems hash_no_panic [OF assms(1,2), of "stop - i"]
      different_at_no_panic [OF assms(1-3), of sh_SumHash "stop - i"]
    by (fastforce simp: differentStateHashesAt_def Let_def split: if_splits sum.splits bool.splits dest: Suc.IH)
qed auto

lemma FindLastCommonStateHash_no_panic:
  assumes "store_ok gw bd cont glob s" "typed_store gw cont s" "node_ok a" "node_ok b"
  shows "\<exists>x. FindLastCommonStateHash gw bd s f a b = Some x \<and> (\<forall>e. x = Inl e \<longrightarrow> \<not> is_panic e)"
  using assms(1,3,4)
proof (cases rule: search_range_cases [where bl = b])
  case (1 e)
  then show ?thesis using errors_Is_not_panic by (auto simp: FindLastCommonStateHash_def)
next
  case (2 sa sb ta tb)
  have "ta < 2 ^ 63" by (rule typed_latest [OF assms(1-3) 2(3)])
  then have "min ta tb < 2 ^ 63" by (simp add: min_less_iff_disj)
  from bisect_total [OF 2(6) this, of "binsearch_query gw bd s a b" 0] obtain y where
    y: "bisect (binsearch_query gw bd s a b) (max sa sb) (min ta tb) 0 = Some y"
      "\<forall>e. y = Inl e \<longrightarrow> (\<exists>m. binsearch_query gw bd s a b m = Inl e)" by blast
  have query: "\<not> is_panic e" if "binsearch_query gw bd s a b m = Inl e" for m e
    using that different_at_no_panic [OF assms(1,3,4), of sh_SumHash m]
    by (auto simp: binsearch_query_def differentStateHashesAt_def split: sum.splits)
  have linear: "\<not> is_panic e" if "tryLinearStateHashSearch gw bd s f a b (max sa sb) (min ta tb) = Inl e" for e
    using that linear_loop_no_panic [OF assms(1,3,4)] by (auto simp: tryLinearStateHashSearch_def split: option.splits)
  have hash: "\<not> is_panic e" if "StateHashAtHeight gw bd s a h = Inl e" for h e
    using hash_no_panic [OF assms(1,3) that] .
  show ?thesis
    using y query linear hash 2(5)
    by (auto simp: FindLastCommonStateHash_def Let_def no_common_blocks_def split: sum.splits if_splits)
qed

lemma handleSamplesPair_no_panic:
  assumes "store_ok gw bd cont glob es" "typed_store gw cont es" "node_ok (st_Node first)" "node_ok (st_Node second)"
    and "full first" "full second"
  shows "\<exists>x. handleSamplesPair gw bd es opts bucket ts ff first second split = Some x \<and> no_panic x"
proof -
  obtain x where x: "FindLastCommonStateHash gw bd es ff (st_Node first) (st_Node second) = Some x"
      "\<forall>e. x = Inl e \<longrightarrow> \<not> is_panic e"
    using FindLastCommonStateHash_no_panic [OF assms(1-4)] by blast
  obtain sh1 sh2 where "st_StateHash first = Some sh1" "st_StateHash second = Some sh2" using assms(5,6) by blast
  with x show ?thesis
    unfolding handleSamplesPair_def Let_def by (cases x) (auto simp: no_panic_def)
qed


definition round_typed :: "NodeStatements \<Rightarrow> bool" where
  "round_typed ss \<longleftrightarrow> (\<forall>s \<in> set ss. node_ok (st_Node s) \<and> statement_typed s)"

lemma getAll_typed:
  assumes "store_ok gw bd cont glob es" "typed_store gw cont es" "round_typed ss"
  shows "\<exists>sts. getAllStatementsAtBucketHeight gw bd es ss bucket = Inr sts \<and> round_typed sts"
  using assms(3)
proof (induction ss)
  case (Cons s ss)
  then obtain sts where sts: "getAllStatementsAtBucketHeight gw bd es ss bucket = Inr sts" "round_typed sts"
    and s: "node_ok (st_Node s)" "statement_typed s" by (auto simp: round_typed_def)
  show ?case
  proof (cases "full_at bucket (history gw cont es (st_Node s))")
    case None
    with GetFull_full_at [OF assms(1) s(1), of bucket] sts s show ?thesis
      by (auto simp: Let_def round_typed_def)
  next
    case (Some st)
    from full_at_SomeD(1) [OF Some] have st: "st \<in> set (history gw cont es (st_Node s))" .
    from typed_history [OF assms(1,2) s(1) st] history_node [OF assms(1) s(1) st]
    have "statement_typed st" "st_Node st = st_Node s" .
    with Some GetFull_full_at [OF assms(1) s(1), of bucket] sts s show ?thesis
      by (auto simp: Let_def round_typed_def)
  qed
qed (simp add: round_typed_def)

lemma bucket_statements_typed:
  assumes "store_ok gw bd cont glob es" "typed_store gw cont es" "round_typed ss"
  shows "\<exists>h sts. bucket_statements gw bd es hks bucket ss = Inr (h, sts) \<and> round_typed sts"
proof -
  from getAll_typed [OF assms] obtain sts where
    "getAllStatementsAtBucketHeight gw bd es ss bucket = Inr sts" "round_typed sts" by blast
  with assms(3) show ?thesis
    by (cases "MinMaxHeight hks (SplitByNodeHeight ss)") (auto simp: bucket_statements_def)
qed

lemma sample_pairs_mem:
  assumes "(a, b) \<in> set (sample_pairs ss)"
  shows "a \<in> set ss" "b \<in> set ss"
  using sample_pairs_sub [OF assms] by auto

lemma analyzeNodesOnSameHeight_no_panic:
  assumes "store_ok gw bd cont glob es" "typed_store gw cont es" "round_typed ss"
    and "\<And>split others. SplitBySumStateHash ss = Inr (split, others) \<Longrightarrow> iter_order split dks"
  shows "\<exists>x. analyzeNodesOnSameHeight gw bd es opts dks bucket ts ss = Some x \<and> no_panic x"
proof -
  let ?split = "group_by (\<lambda>s. sh_SumHash (the (st_StateHash s))) (filter (\<lambda>s. st_Status s = OK) ss)"
    and ?others = "filter (\<lambda>s. st_Status s \<noteq> OK) ss"
  let ?samples = "SortByNodeAsc (map (\<lambda>d. hd (map_get [] ?split d)) dks)"
    and ?ff = "WithLinearSearchParams NewForkFinder (ucast (sco_MaxForkDepth opts + 1))"
  have split: "SplitBySumStateHash ss = Inr (?split, ?others)"
    using assms(3) by (intro SplitBySumStateHash_total) (simp add: round_typed_def statement_typed_def)
  have sample: "node_ok (st_Node s) \<and> full s" if s: "s \<in> set ?samples" for s
  proof -
    from s obtain d where d: "d \<in> set dks" "s = hd (map_get [] ?split d)" by auto
    have "map_get [] ?split d \<noteq> []"
      using d(1) iter_orderD [OF assms(4) [OF split]] by (auto simp: map_get_def dest: group_by_SomeD)
    then have "s \<in> set (map_get [] ?split d)" using d(2) by simp
    then show ?thesis using assms(3) by (auto simp: map_get_group_by round_typed_def statement_typed_def)
  qed
  have "\<exists>x. run_steps (map (\<lambda>(first, second).
      handleSamplesPair gw bd es opts bucket ts ?ff first second ?split) (sample_pairs ?samples)) = Some x \<and> no_panic x"
  proof (rule run_steps_no_panic, clarsimp)
    fix first second assume "(first, second) \<in> set (sample_pairs ?samples)"
    then have "first \<in> set ?samples" "second \<in> set ?samples" by (rule sample_pairs_mem)+
    then show "\<exists>a b. handleSamplesPair gw bd es opts bucket ts ?ff first second ?split = Some (a, b) \<and> no_panic (a, b)"
      using handleSamplesPair_no_panic [OF assms(1,2)] sample by (metis surj_pair)
  qed
  then show ?thesis by (auto simp: analyzeNodesOnSameHeight_def split Let_def)
qed

lemma analyze_bucket_no_panic:
  assumes "store_ok gw bd cont glob es" "typed_store gw cont es" "round_typed ss"
    and "\<And>h sts split others. bucket_statements gw bd es hks bucket ss = Inr (h, sts) \<Longrightarrow>
      SplitBySumStateHash sts = Inr (split, others) \<Longrightarrow> iter_order split dks"
  shows "\<exists>x. analyze_bucket gw bd es opts hks dks ts bucket ss = Some x \<and> no_panic x"
proof -
  obtain h sts where b: "bucket_statements gw bd es hks bucket ss = Inr (h, sts)" "round_typed sts"
    using bucket_statements_typed [OF assms(1-3)] by blast
  from analyzeNodesOnSameHeight_no_panic [OF assms(1,2) b(2) assms(4) [OF b(1)]] obtain sent err where
    x: "analyzeNodesOnSameHeight gw bd es opts dks h ts sts = Some (sent, err)" "no_panic (sent, err)" by fastforce
  then show ?thesis by (cases err) (auto simp: analyze_bucket_def b)
qed

lemma ucast_uint32_zero: "(ucast (w :: uint32) :: uint64) = 0 \<longleftrightarrow> w = 0"
proof -
  have "uint (ucast w :: uint64) = uint w"
    using uint_lt2p [of w] by (simp add: unsigned_ucast_eq take_bit_int_eq_self)
  then show ?thesis by (metis uint_0_eq uint_0_iff)
qed

lemma round_typed_sub: "round_typed ss \<Longrightarrow> set ss' \<subseteq> set ss \<Longrightarrow> round_typed ss'"
  by (auto simp: round_typed_def)

lemma StateHash_Analyze_no_panic:
  assumes "store_ok gw bd cont glob es" "typed_store gw cont es" "round_typed ss" "sco_HeightBucketSize opts \<noteq> 0"
    and "\<And>buckets. SplitByNodeHeightBuckets (ucast (sco_HeightBucketSize opts)) ss = Inr buckets \<Longrightarrow>
      iter_order buckets bks \<and>
      (\<forall>b \<in> dom buckets. \<forall>h sts split others.
         bucket_statements gw bd es (hks b) b (map_get [] buckets b) = Inr (h, sts) \<and>
         SplitBySumStateHash sts = Inr (split, others) \<longrightarrow> iter_order split (dks b))"
  shows "\<exists>x. StateHash_Analyze gw bd es opts bks hks dks ts ss = Some x \<and> no_panic x"
proof -
  let ?buckets = "group_by (bucketHeight (ucast (sco_HeightBucketSize opts))) ss"
  have split: "SplitByNodeHeightBuckets (ucast (sco_HeightBucketSize opts)) ss = Inr ?buckets"
    using assms(4) by (simp add: SplitByNodeHeightBuckets_def ucast_uint32_zero)
  note ord = assms(5) [OF split]
  have "\<exists>x. analyze_bucket gw bd es opts (hks b) (dks b) ts b (map_get [] ?buckets b) = Some x \<and> no_panic x"
    if "b \<in> set bks" for b
  proof (rule analyze_bucket_no_panic [OF assms(1,2)])
    show "round_typed (map_get [] ?buckets b)"
      by (rule round_typed_sub [OF assms(3)]) (auto simp: map_get_group_by)
    fix h sts split others
    assume "bucket_statements gw bd es (hks b) b (map_get [] ?buckets b) = Inr (h, sts)"
      "SplitBySumStateHash sts = Inr (split, others)"
    moreover from that ord have "b \<in> dom ?buckets" by (auto simp: iter_order_def)
    ultimately show "iter_order split (dks b)" using ord by blast
  qed
  then have "\<exists>x. run_steps (map (\<lambda>b. analyze_bucket gw bd es opts (hks b) (dks b) ts b (map_get [] ?buckets b)) bks) = Some x \<and>
      no_panic x" by (intro run_steps_no_panic) auto
  then show ?thesis by (simp add: StateHash_Analyze_def split)
qed

section \<open>An analysis\<close>

lemma Incomplete_no_error:
  assumes "store_ok gw bd cont glob es" "round_typed ss"
  shows "snd (Incomplete_Analyze gw bd es opts ss) = None"
  unfolding Incomplete_Analyze_def
proof (rule analyze_nodes_no_error)
  fix s assume "s \<in> set ss"
  with assms(2) have "node_ok (st_Node s)" by (simp add: round_typed_def)
  then show "snd (Incomplete_analyzeNode gw bd es opts s) = None"
    by (simp add: Incomplete_analyzeNode_def view_node [OF assms(1)] split: prod.split)
qed

lemma Unreachable_no_error:
  assumes "store_ok gw bd cont glob es" "round_typed ss"
  shows "snd (Unreachable_Analyze gw bd es opts ts ss) = None"
  unfolding Unreachable_Analyze_def
proof (rule analyze_nodes_no_error)
  fix s assume "s \<in> set ss"
  with assms(2) have "node_ok (st_Node s)" by (simp add: round_typed_def)
  then show "snd (Unreachable_analyzeNode gw bd es opts ts (st_Node s)) = None"
    by (simp add: Unreachable_analyzeNode_def view_node [OF assms(1)] split: prod.split)
qed

lemma all_Some: "\<forall>x \<in> set xs. \<exists>y. x = Some y \<and> P y \<Longrightarrow> \<exists>ys. xs = map Some ys \<and> (\<forall>y \<in> set ys. P y)"
proof (induction xs)
  case (Cons x xs)
  then obtain y ys where "x = Some y" "P y" "xs = map Some ys" "\<forall>y \<in> set ys. P y" by auto
  then show ?case by (intro exI [of _ "y # ys"]) simp
qed simp

lemma criteriaRoutines_no_panic:
  assumes "store_ok gw bd cont glob es" "typed_store gw cont es" "round_typed sts"
    and "sco_HeightBucketSize (NewStateHashCriterion (ao_StateHashCriteriaOpts opts)) \<noteq> 0"
    and "orders_ok gw bd es opts ords sts"
  shows "\<exists>rs. criteriaRoutines gw bd es opts ords sts ts = map Some rs \<and> (\<forall>r \<in> set rs. no_panic r)"
proof (rule all_Some, intro ballI)
  fix x assume x: "x \<in> set (criteriaRoutines gw bd es opts ords sts ts)"
  have split: "round_typed (statusSplit sts status)" for status
    by (rule round_typed_sub [OF assms(3)]) (auto simp: statusSplit_filter)
  note ord = assms(5) [unfolded orders_ok_def Let_def]
  have hash: "\<exists>y. StateHash_Analyze gw bd es (NewStateHashCriterion (ao_StateHashCriteriaOpts opts)) (mo_buckets ords)
      (mo_bucket_heights ords) (mo_digests ords) ts (statusSplit sts OK) = Some y \<and> no_panic y"
    by (rule StateHash_Analyze_no_panic [OF assms(1,2) split assms(4)]) (use ord in blast)
  have bt: "no_panic (case NewBaseTargetCriterion (ao_BaseTargetCriterionOpts opts) of Inl err \<Rightarrow> ([], Some err)
      | Inr criterion \<Rightarrow> (BaseTarget_Analyze criterion ts (statusSplit sts OK), None))"
    by (cases "ao_BaseTargetCriterionOpts opts") (simp_all add: NewBaseTargetCriterion_def)
  have nodes: "no_panic (Incomplete_Analyze gw bd es o1 (statusSplit sts Incomplete))"
      "no_panic (Unreachable_Analyze gw bd es o2 ts (statusSplit sts Unreachable))" for o1 o2
    using Incomplete_no_error [OF assms(1) split] Unreachable_no_error [OF assms(1) split]
    by (simp_all add: no_panic_def)
  show "\<exists>y. x = Some y \<and> no_panic y"
    using x unfolding criteriaRoutines_def Let_def list.set
    by (elim insertE emptyE) (use hash bt nodes in \<open>simp_all\<close>)
qed


text \<open>What an analysis does to the storage of alerts is a sequence of its operations.\<close>

lemma processNotification_ok:
  assumes "processNotification gw bd es opts s n err out s'" "storage_ok gw s"
  shows "storage_ok gw s'"
proof -
  from processNotification_weave [OF assms(1)] obtain ops outs where "as_run gw s ops outs s'" by blast
  from this assms(2) show ?thesis by (rule as.run_inv)
qed

text \<open>
  C33: An analysis never panics and always ends. Let the events storage be valid and hold typed
  statements: a statement with status \<open>OK\<close> has a state hash, and a statement with a state hash has a
  height below \<open>2\<^sup>6\<^sup>3\<close>. Store any events of which the state hash events have both. Then the events
  storage is valid and typed again; and for every notification, every choice of map orders and
  options with a positive bucket size, each of the seven routines ends, with or without an error
  but without a panic, and processing the notification has a result. Every result leaves a valid
  alerts storage, so the same holds of the next notification.
\<close>

theorem analysis_never_panics:
  assumes "store_ok gw bd cont glob es0" "typed_store gw cont es0" "\<forall>e \<in> set evs. event_ok e \<and> event_typed e"
    and "es = put_all gw bd es0 evs" "in_int64 (n_Timestamp n)" "storage_ok gw s"
    and "sco_HeightBucketSize (NewStateHashCriterion (ao_StateHashCriteriaOpts opts)) \<noteq> 0"
  shows "store_ok gw bd cont glob es \<and> typed_store gw cont es \<and>
    (\<forall>ords. orders_ok gw bd es opts ords (at_timestamp gw cont es (n_Timestamp n)) \<longrightarrow>
      (\<exists>rs. criteriaRoutines gw bd es opts ords (at_timestamp gw cont es (n_Timestamp n)) (n_Timestamp n) = map Some rs \<and>
        (\<forall>sent err. (sent, Some err) \<in> set rs \<longrightarrow> \<not> is_panic err))) \<and>
    (\<exists>err out s'. processNotification gw bd es opts s n err out s') \<and>
    (\<forall>err out s'. processNotification gw bd es opts s n err out s' \<longrightarrow> storage_ok gw s')"
proof -
  let ?sts = "at_timestamp gw cont es (n_Timestamp n)"
  have ok: "store_ok gw bd cont glob es"
    unfolding assms(4) by (rule put_all_ok [OF assms(1)]) (use assms(3) in blast)
  have typed: "typed_store gw cont es" unfolding assms(4) by (rule typed_put_all [OF assms(1-3)])
  have round: "round_typed ?sts"
    unfolding round_typed_def set_at_timestamp [OF ok assms(5)]
    using typed assms(5) stored_SomeD [OF ok] unfolding typed_store_def by blast
  note routines = criteriaRoutines_no_panic [OF ok typed round assms(7), where ts = "n_Timestamp n"]
  obtain ords where ords: "orders_ok gw bd es opts ords ?sts" using orders_exist by blast
  from routines [OF this] obtain rs where rs: "criteriaRoutines gw bd es opts ords ?sts (n_Timestamp n) = map Some rs"
    "\<forall>r \<in> set rs. no_panic r" by blast
  obtain out s' where "proxy gw (n_Timestamp n) (map (routine_output (n_Timestamp n)) rs) s out s'"
    using proxy_total [OF assms(6)] by blast
  from analyze_runs [OF view_round [OF ok] ords rs(1) _ this] rs(2)
  have "analyze gw bd es opts s n None out s'" by (simp add: no_panic_def)
  moreover have "StatementsCount bd es = Inr (int (card (dom (cont (s_db es)))))"
    using buntdb_lawsD(4) [OF store_okD(2) [OF ok]] by (simp add: StatementsCount_def)
  ultimately have "\<exists>err out s'. processNotification gw bd es opts s n err out s'"
    using nothing_to_analyze analyzed by (cases "n_NodesCount n = 0") blast+
  moreover have "storage_ok gw s'" if "processNotification gw bd es opts s n err out s'" for err out s'
    using processNotification_ok [OF that assms(6)] .
  ultimately show ?thesis using ok typed routines by (fastforce simp: no_panic_def)
qed

text \<open>Two nodes that agree and a third one that lags behind.\<close>

theorem analysis_never_panics_witness:
  "\<exists>err out s'. processNotification demo_gowaves demo_db
      (put_all demo_gowaves demo_db demo_events (demo_chain_events @ [demo_event ''c'' 1 3 demo_hash]))
      demo_options demo_storage1 (NewNodesGatheringComplete [''a'', ''b'', ''c''] 1) err out s'"
proof -
  have "event_ok e \<and> event_typed e" if "e \<in> set (demo_chain_events @ [demo_event ''c'' 1 3 demo_hash])" for e
    using that by (auto simp: demo_chain_events_def event_ok_def event_typed_def demo_event_def New_event_defs)
  then have evs: "\<forall>e \<in> set (demo_chain_events @ [demo_event ''c'' 1 3 demo_hash]). event_ok e \<and> event_typed e" by blast
  have typed: "typed_store demo_gowaves map_of demo_events"
    by (simp add: typed_store_def stored_demo_events)
  have size: "sco_HeightBucketSize (NewStateHashCriterion (ao_StateHashCriteriaOpts demo_options)) \<noteq> 0"
    by (simp add: NewStateHashCriterion_def demo_options_def zeroAnalyzerOptions_def)
  have ts: "in_int64 (n_Timestamp (NewNodesGatheringComplete [''a'', ''b'', ''c''] 1))"
    by (simp add: NewNodesGatheringComplete_def)
  have ok: "storage_ok demo_gowaves demo_storage1" by (simp add: demo_storage1_def)
  from analysis_never_panics [OF demo_events_ok typed evs refl ts ok size] show ?thesis by blast
qed

end
