(* ===== verification/Requesters.thy ===== *)
theory Requesters
  imports PairPolicy
begin

text \<open>
  The goroutines of a bot that share the two channels of the client: the handlers of the chat
  commands, the scheduled status and the health check of the bot's API all write to \<open>requestChan\<close>
  and read from \<open>responseChan\<close>, and the client serves one request at a time. \<open>await\<close> of
  \<open>PairClient\<close> is the view of one requester that is alone; here their steps interleave.
\<close>

section \<open>The channels\<close>

text \<open>
  The client waits for a request, handles one, or passes its response on; with the requester
  that wrote the request.
\<close>

datatype 'i clientPhase = Idle | Handling 'i Request | Passing 'i Request Response

text \<open>
  The state: the network, the client, and the requesters blocked on the response channel with
  what they asked for. The last two fields are a history: the requests handled, with whether
  the response was taken, and the responses taken, with the receiver, what it had asked for,
  and the request that the response belongs to.
\<close>

record ('n, 'i) channels =
  ch_net :: 'n
  ch_client :: "'i clientPhase"
  ch_waiting :: "('i \<times> Request) list"
  ch_log :: "(Request \<times> bool) list"
  ch_got :: "(('i \<times> Request) \<times> ('i \<times> Request) \<times> Response) list"

definition idle_channels :: "'n \<Rightarrow> ('n, 'i) channels" where
  "idle_channels n = \<lparr>ch_net = n, ch_client = Idle, ch_waiting = [], ch_log = [], ch_got = []\<rparr>"

text \<open>Whether a requester waits for a response after it wrote the request.\<close>

fun awaits :: "Request \<Rightarrow> bool" where
  "awaits (NodesListRequest specific) = True"
| "awaits (NodesStatusRequest ns) = True"
| "awaits (NodeStatementRequest url height) = True"
| "awaits _ = False"

text \<open>
  The steps. \<open>Failed\<close> and \<open>Expired\<close> tell whether somebody waits on the response channel while the
  client gives a response up.
\<close>

datatype 'i channelEvent =
    Took 'i Request
  | Handled
  | Failed Request bool
  | Received 'i
  | Expired bool
  | GaveUp 'i

text \<open>
  A channel without buffer joins a sender and a receiver: a request is taken only by the idle
  client, from a requester that is not blocked itself; a response goes to any requester that is
  blocked on the channel. A command is over when NATS has answered. The client gives a response
  up when its timeout is over, a requester gives up when its context ends.
\<close>

inductive channel_step ::
    "gowaves \<Rightarrow> jsontext \<Rightarrow> 'n nats_request \<Rightarrow> string \<Rightarrow>
     ('n, 'i) channels \<Rightarrow> 'i channelEvent \<Rightarrow> ('n, 'i) channels \<Rightarrow> bool"
  for gw jt nq topic where
  take_request:
    "ch_client s = Idle \<Longrightarrow> i \<notin> fst ` set (ch_waiting s) \<Longrightarrow>
     channel_step gw jt nq topic s (Took i r)
       (s\<lparr>ch_client := Handling i r, ch_waiting := ch_waiting s @ (if awaits r then [(i, r)] else [])\<rparr>)"
| handle_request:
    "ch_client s = Handling i r \<Longrightarrow> pair_turn gw jt nq True topic (ch_net s) r = (n, Some resp) \<Longrightarrow>
     channel_step gw jt nq topic s Handled (s\<lparr>ch_net := n, ch_client := Passing i r resp\<rparr>)"
| handle_failed:
    "ch_client s = Handling i r \<Longrightarrow> pair_turn gw jt nq True topic (ch_net s) r = (n, None) \<Longrightarrow>
     channel_step gw jt nq topic s (Failed r (ch_waiting s \<noteq> []))
       (s\<lparr>ch_net := n, ch_client := Idle, ch_log := ch_log s @ [(r, True)]\<rparr>)"
| receive_response:
    "ch_client s = Passing i r resp \<Longrightarrow> ch_waiting s = us @ (j, q) # vs \<Longrightarrow>
     channel_step gw jt nq topic s (Received j)
       (s\<lparr>ch_client := Idle, ch_waiting := us @ vs, ch_log := ch_log s @ [(r, True)],
          ch_got := ch_got s @ [((j, q), (i, r), resp)]\<rparr>)"
| expire:
    "ch_client s = Passing i r resp \<Longrightarrow>
     channel_step gw jt nq topic s (Expired (ch_waiting s \<noteq> []))
       (s\<lparr>ch_client := Idle, ch_log := ch_log s @ [(r, False)]\<rparr>)"
| give_up:
    "ch_waiting s = us @ (j, q) # vs \<Longrightarrow>
     channel_step gw jt nq topic s (GaveUp j) (s\<lparr>ch_waiting := us @ vs\<rparr>)"

inductive channel_run ::
    "gowaves \<Rightarrow> jsontext \<Rightarrow> 'n nats_request \<Rightarrow> string \<Rightarrow>
     ('n, 'i) channels \<Rightarrow> 'i channelEvent list \<Rightarrow> ('n, 'i) channels \<Rightarrow> bool"
  for gw jt nq topic where
  run_start: "channel_run gw jt nq topic s [] s"
| run_step: "channel_run gw jt nq topic s evs s' \<Longrightarrow> channel_step gw jt nq topic s' ev s'' \<Longrightarrow>
    channel_run gw jt nq topic s (evs @ [ev]) s''"

text \<open>The type assertion of the requester on the response.\<close>

fun response_fits :: "Request \<Rightarrow> Response \<Rightarrow> bool" where
  "response_fits (NodesListRequest specific) resp = (case resp of NodesListResponse _ \<Rightarrow> True | _ \<Rightarrow> False)"
| "response_fits (NodesStatusRequest ns) resp = (case resp of R_NodesStatements _ \<Rightarrow> True | _ \<Rightarrow> False)"
| "response_fits (NodeStatementRequest url height) resp = (case resp of R_NodeStatement _ \<Rightarrow> True | _ \<Rightarrow> False)"
| "response_fits _ resp = False"

section \<open>The turns of the client\<close>

lemmas client_defs = client_NodesListRequest_def client_InsertNewNodeRequest_def client_UpdateNodeRequest_def
  client_DeleteNodeRequest_def client_NodesStatementsRequest_def client_NodesStatementRequest_def pass_on_def

text \<open>A response of the client is one for the request, and a command has none.\<close>

lemma turn_fits: "pair_turn gw jt nq ready topic n r = (n', Some resp) \<Longrightarrow> awaits r \<and> response_fits r resp"
  by (cases r) (auto simp: pair_turn_def client_defs split: sum.splits prod.splits if_splits)

text \<open>A response that is given up changes nothing else.\<close>

lemma turn_not_ready:
  "pair_turn gw jt nq True topic n r = (n', resp) \<Longrightarrow> pair_turn gw jt nq False topic n r = (n', None)"
  by (cases r) (auto simp: pair_turn_def client_defs split: sum.splits prod.splits if_splits)

lemma runPairLoop_snoc:
  "runPairLoop gw jt nq topic n (xs @ [(r, ready)]) =
    (case runPairLoop gw jt nq topic n xs of (m, resps) \<Rightarrow>
     case pair_turn gw jt nq ready topic m r of (m', resp) \<Rightarrow>
       (m', resps @ (case resp of None \<Rightarrow> [] | Some x \<Rightarrow> [x])))"
  by (induction xs arbitrary: n) (auto split: prod.splits option.splits)

section \<open>The interleaving is a sequence of turns\<close>

text \<open>
  Whatever is lost: the network is in the state to which \<open>runPairLoop\<close> brings it with the requests
  handled so far, and the responses taken are those of that loop.
\<close>

definition linear :: "gowaves \<Rightarrow> jsontext \<Rightarrow> 'n nats_request \<Rightarrow> string \<Rightarrow> 'n \<Rightarrow> ('n, 'i) channels \<Rightarrow> bool" where
  "linear gw jt nq topic n s \<longleftrightarrow>
     (\<exists>m. runPairLoop gw jt nq topic n (ch_log s) = (m, map (snd \<circ> snd) (ch_got s)) \<and>
        (case ch_client s of
           Passing i r resp \<Rightarrow> pair_turn gw jt nq True topic m r = (ch_net s, Some resp)
         | _ \<Rightarrow> m = ch_net s))"

lemma step_linear:
  assumes "channel_step gw jt nq topic s ev s'" "linear gw jt nq topic n s"
  shows "linear gw jt nq topic n s'"
  using assms
proof cases
  case (expire i r resp)
  from expire assms(2) obtain m where "runPairLoop gw jt nq topic n (ch_log s) = (m, map (snd \<circ> snd) (ch_got s))"
    "pair_turn gw jt nq True topic m r = (ch_net s, Some resp)" by (auto simp: linear_def)
  with expire turn_not_ready [OF this(2)] show ?thesis by (simp add: linear_def runPairLoop_snoc)
qed (auto simp: linear_def runPairLoop_snoc split: clientPhase.splits)

lemma run_linear: "channel_run gw jt nq topic s evs s' \<Longrightarrow> linear gw jt nq topic n s \<Longrightarrow> linear gw jt nq topic n s'"
  by (induction rule: channel_run.induct) (auto intro: step_linear)

lemma linear_idle_channels: "linear gw jt nq topic n (idle_channels n)"
  by (simp add: linear_def idle_channels_def)

section \<open>Nothing lost\<close>

text \<open>
  As long as no response is lost while somebody waits, at most one requester waits, and it is the
  one whose request the client has.
\<close>

definition in_turn :: "('n, 'i) channels \<Rightarrow> bool" where
  "in_turn s \<longleftrightarrow>
     set (ch_waiting s) \<subseteq> (case ch_client s of Idle \<Rightarrow> {} | Handling i r \<Rightarrow> {(i, r)} | Passing i r resp \<Rightarrow> {(i, r)}) \<and>
     length (ch_waiting s) \<le> 1 \<and>
     (case ch_client s of Passing i r resp \<Rightarrow> response_fits r resp | _ \<Rightarrow> True) \<and>
     (\<forall>(receiver, asker, resp) \<in> set (ch_got s). receiver = asker \<and> response_fits (snd receiver) resp)"

abbreviation lossless :: "'i channelEvent \<Rightarrow> bool" where
  "lossless ev \<equiv> ev \<noteq> Expired True \<and> (\<forall>r. ev \<noteq> Failed r True)"

lemma step_in_turn:
  assumes "channel_step gw jt nq topic s ev s'" "in_turn s" "lossless ev"
  shows "in_turn s'"
  using assms
proof cases
  case (receive_response i r resp us j q vs)
  with assms(2) have "(j, q) = (i, r)" "us = []" "vs = []" by (auto simp: in_turn_def)
  with receive_response assms(2) show ?thesis by (auto simp: in_turn_def)
qed (auto simp: in_turn_def dest: turn_fits)

lemma run_in_turn:
  "channel_run gw jt nq topic s evs s' \<Longrightarrow> in_turn s \<Longrightarrow> \<forall>ev \<in> set evs. lossless ev \<Longrightarrow> in_turn s'"
  by (induction rule: channel_run.induct) (auto intro: step_in_turn)

section \<open>Lost responses\<close>

text \<open>The response that the client owes, and the responses lost and given up by the requesters.\<close>

definition owed :: "('n, 'i) channels \<Rightarrow> nat" where
  "owed s = (case ch_client s of Idle \<Rightarrow> 0 | Handling i r \<Rightarrow> if awaits r then 1 else 0 | Passing i r resp \<Rightarrow> 1)"

fun is_loss :: "'i channelEvent \<Rightarrow> bool" where
  "is_loss (Failed r b) = awaits r"
| "is_loss (Expired b) = True"
| "is_loss _ = False"

fun is_give_up :: "'i channelEvent \<Rightarrow> bool" where
  "is_give_up (GaveUp j) = True"
| "is_give_up _ = False"

text \<open>A balance: whoever waits is owed a response, or one was lost and nobody gave up for it.\<close>

lemma step_balance:
  assumes "channel_step gw jt nq topic s ev s'"
  shows "int (length (ch_waiting s')) - int (owed s') =
    int (length (ch_waiting s)) - int (owed s) + (if is_loss ev then 1 else 0) - (if is_give_up ev then 1 else 0)"
  using assms
proof cases
  case (handle_request i r n resp)
  with turn_fits [OF handle_request(4)] show ?thesis by (simp add: owed_def)
qed (simp_all add: owed_def)

lemma run_balance:
  "channel_run gw jt nq topic s evs s' \<Longrightarrow>
    int (length (ch_waiting s')) - int (owed s') =
    int (length (ch_waiting s)) - int (owed s) + int (length (filter is_loss evs)) - int (length (filter is_give_up evs))"
  by (induction rule: channel_run.induct) (auto dest!: step_balance)

text \<open>The requester that the client works for waits last, unless it gave up.\<close>

definition asker_last :: "('n, 'i) channels \<Rightarrow> bool" where
  "asker_last s \<longleftrightarrow> distinct (map fst (ch_waiting s)) \<and>
     (case ch_client s of
        Idle \<Rightarrow> True
      | Handling i r \<Rightarrow> i \<in> fst ` set (ch_waiting s) \<longrightarrow> fst (last (ch_waiting s)) = i
      | Passing i r resp \<Rightarrow> i \<in> fst ` set (ch_waiting s) \<longrightarrow> fst (last (ch_waiting s)) = i)"

lemma step_asker_last:
  assumes "channel_step gw jt nq topic s ev s'" "asker_last s"
  shows "asker_last s'"
  using assms
proof cases
  case (give_up us j q vs)
  with assms(2) show ?thesis by (cases vs rule: rev_cases) (auto simp: asker_last_def split: clientPhase.splits)
qed (auto simp: asker_last_def)

lemma hd_not_last: "distinct (map fst xs) \<Longrightarrow> 2 \<le> length xs \<Longrightarrow> fst (hd xs) \<noteq> fst (last xs)"
  by (cases xs; cases "tl xs" rule: rev_cases) auto

text \<open>
  The Go runtime passes a value to the receiver that has been blocked longest. A requester counts
  as blocked from the moment at which the client takes its request.
\<close>

inductive fifo_run ::
    "gowaves \<Rightarrow> jsontext \<Rightarrow> 'n nats_request \<Rightarrow> string \<Rightarrow>
     ('n, 'i) channels \<Rightarrow> 'i channelEvent list \<Rightarrow> ('n, 'i) channels \<Rightarrow> bool"
  for gw jt nq topic where
  fifo_start: "fifo_run gw jt nq topic s [] s"
| fifo_step: "fifo_run gw jt nq topic s evs s' \<Longrightarrow> channel_step gw jt nq topic s' ev s'' \<Longrightarrow>
    (\<forall>j. ev = Received j \<longrightarrow> j = fst (hd (ch_waiting s'))) \<Longrightarrow>
    fifo_run gw jt nq topic s (evs @ [ev]) s''"

lemma fifo_run_run: "fifo_run gw jt nq topic s evs s' \<Longrightarrow> channel_run gw jt nq topic s evs s'"
  by (induction rule: fifo_run.induct) (auto intro: channel_run.intros)

lemma fifo_run_asker_last: "fifo_run gw jt nq topic s evs s' \<Longrightarrow> asker_last s \<Longrightarrow> asker_last s'"
  by (induction rule: fifo_run.induct) (auto intro: step_asker_last)

lemma asker_last_idle_channels: "asker_last (idle_channels n)"
  by (simp add: asker_last_def idle_channels_def)

abbreviation losses :: "'i channelEvent list \<Rightarrow> nat" where
  "losses evs \<equiv> length (filter is_loss evs)"

abbreviation give_ups :: "'i channelEvent list \<Rightarrow> nat" where
  "give_ups evs \<equiv> length (filter is_give_up evs)"

abbreviation received :: "'i channelEvent list \<Rightarrow> nat" where
  "received evs \<equiv> length (filter (\<lambda>ev. \<exists>j. ev = Received j) evs)"

lemma fifo_run_got: "fifo_run gw jt nq topic (idle_channels n) evs s \<Longrightarrow> length (ch_got s) = received evs"
proof (induction "idle_channels n :: ('a, 'b) channels" evs s rule: fifo_run.induct)
  case (fifo_step evs s' ev s'')
  from fifo_step(3) fifo_step(2) show ?case by cases simp_all
qed (simp add: idle_channels_def)

lemma fifo_run_balance:
  "fifo_run gw jt nq topic (idle_channels n) evs s \<Longrightarrow> length (ch_waiting s) + give_ups evs = owed s + losses evs"
  using run_balance [of gw jt nq topic "idle_channels n" evs s]
  by (auto simp: idle_channels_def owed_def dest!: fifo_run_run)

text \<open>A response that is received after more losses than requesters gave up is for somebody else.\<close>

lemma received_by_another:
  assumes "fifo_run gw jt nq topic (idle_channels n) evs s" "channel_step gw jt nq topic s (Received j) s'"
    and "j = fst (hd (ch_waiting s))" "give_ups evs < losses evs"
  shows "\<exists>q i r resp. ch_got s' = ch_got s @ [((j, q), (i, r), resp)] \<and> j \<noteq> i"
  using assms(2)
proof cases
  case (receive_response i r resp us q vs)
  have "owed s = 1" using receive_response(2) by (simp add: owed_def)
  with fifo_run_balance [OF assms(1)] assms(4) have two: "2 \<le> length (ch_waiting s)" by simp
  from fifo_run_asker_last [OF assms(1) asker_last_idle_channels] receive_response(2)
  have l: "distinct (map fst (ch_waiting s))" "i \<in> fst ` set (ch_waiting s) \<Longrightarrow> fst (last (ch_waiting s)) = i"
    by (simp_all add: asker_last_def)
  have j: "j \<in> fst ` set (ch_waiting s)" using two assms(3) by (cases "ch_waiting s") auto
  have "j \<noteq> i"
  proof
    assume "j = i"
    with l(2) j have "fst (last (ch_waiting s)) = j" by simp
    with hd_not_last [OF l(1) two] assms(3) show False by simp
  qed
  with receive_response show ?thesis by auto
qed

section \<open>Properties\<close>

text \<open>
  C34: The requesters may share the channels. However the steps of any number of goroutines and of
  the client interleave, as long as no response is lost while somebody waits (a requester with a
  context may give up at any time), every response is received by the requester that it is for,
  and passes its type assertion. Whenever the client is idle, nobody is left waiting, and the
  responses received and the state of the network are those of serving the requests one after
  the other.
\<close>

theorem responses_own_requests:
  assumes "channel_run gw jt nq topic (idle_channels n) evs s" "\<forall>ev \<in> set evs. lossless ev"
  shows "(\<forall>receiver asker resp. (receiver, asker, resp) \<in> set (ch_got s) \<longrightarrow>
      receiver = asker \<and> response_fits (snd receiver) resp) \<and>
    (ch_client s = Idle \<longrightarrow> ch_waiting s = [] \<and>
      runPairLoop gw jt nq topic n (ch_log s) = (ch_net s, map (\<lambda>(receiver, asker, resp). resp) (ch_got s)))"
proof -
  have "in_turn (idle_channels n)" by (simp add: in_turn_def idle_channels_def)
  from run_in_turn [OF assms(1) this assms(2)] have turn: "in_turn s" .
  from run_linear [OF assms(1) linear_idle_channels] have "linear gw jt nq topic n s" .
  moreover have "(\<lambda>(receiver, asker, resp). resp) = snd \<circ> (snd :: _ \<Rightarrow> ('b \<times> Request) \<times> Response)"
    by (auto simp: fun_eq_iff)
  ultimately show ?thesis using turn by (auto simp: in_turn_def linear_def)
qed

text \<open>
  C35: A lost response is never made up for. Let any requesters use the channels, with or without
  a deadline, and count the responses lost, by a failed request or by the client's timeout, and
  the waits given up. Then whenever the client is idle, as many requesters are blocked as losses
  exceed the waits given up. And when a response goes to the requester that has been blocked
  longest, as in the Go runtime, every response that is received while more were lost than waits
  given up goes to a requester that it is not for: each loss shifts all responses after it, until
  somebody with a deadline gives up.
\<close>

theorem lost_response_shifts_all:
  assumes "fifo_run gw jt nq topic (idle_channels n) evs s"
  shows "(ch_client s = Idle \<longrightarrow> length (ch_waiting s) + give_ups evs = losses evs) \<and>
    length (ch_got s) = received evs \<and>
    (\<forall>xs j ys. evs = xs @ Received j # ys \<and> give_ups xs < losses xs \<longrightarrow>
      (\<exists>q i r resp. ch_got s ! received xs = ((j, q), (i, r), resp) \<and> j \<noteq> i))"
proof -
  have "ch_client s = Idle \<longrightarrow> length (ch_waiting s) + give_ups evs = losses evs"
  proof
    assume "ch_client s = Idle"
    then have "owed s = 0" by (simp add: owed_def)
    with fifo_run_balance [OF assms] show "length (ch_waiting s) + give_ups evs = losses evs" by simp
  qed
  moreover have "\<exists>q i r resp. ch_got s ! received xs = ((j, q), (i, r), resp) \<and> j \<noteq> i"
    if "evs = xs @ Received j # ys" "give_ups xs < losses xs" for xs j ys
    using assms that
  proof (induction "idle_channels n :: ('a, 'b) channels" evs s arbitrary: ys rule: fifo_run.induct)
    case (fifo_step evs s' ev s'')
    show ?case
    proof (cases ys rule: rev_cases)
      case Nil
      with fifo_step.prems have "ev = Received j" "evs = xs" by simp_all
      with fifo_step received_by_another [OF fifo_step.hyps(1), of j s''] fifo_run_got [OF fifo_step.hyps(1)]
      show ?thesis by (auto simp: nth_append)
    next
      case (snoc zs z)
      with fifo_step.prems have ev: "evs = xs @ Received j # zs" by simp
      from fifo_step.hyps(3) have "\<exists>more'. ch_got s'' = ch_got s' @ more'" by cases auto
      moreover have "received xs < length (ch_got s')" using fifo_run_got [OF fifo_step.hyps(1)] ev by simp
      ultimately show ?thesis using fifo_step.hyps(2) [OF ev fifo_step.prems(2)] by (auto simp: nth_append)
    qed
  qed simp
  ultimately show ?thesis using fifo_run_got [OF assms] by blast
qed

section \<open>Witnesses\<close>

text \<open>A network that fails the first time; requester 1 asks for a statement, requester 2 for the nodes.\<close>

definition demo_once :: "nat nats_request" where
  "demo_once n topic msg = (Suc n, if n = 0 then Inl (Errorf ''nats: timeout'') else Inr ''x'')"

abbreviation "demo_list_text \<equiv> demo_text [NodesListResponse_json []]"

lemma demo_turns:
  "pair_turn demo_gowaves demo_list_text demo_once True ''t'' (Suc n) (NodesListRequest False) = (Suc (Suc n), Some (NodesListResponse []))"
  "pair_turn demo_gowaves demo_list_text demo_once True ''t'' 0 (NodesStatusRequest []) = (1, None)"
proof -
  have "Unmarshal_text demo_list_text NodesListResponse_Unmarshal ''x'' = Inr []"
    using NodesListResponse_roundtrip [of "[]"] by (simp add: Unmarshal_text_def demo_text_def)
  then show "pair_turn demo_gowaves demo_list_text demo_once True ''t'' (Suc n) (NodesListRequest False) =
      (Suc (Suc n), Some (NodesListResponse []))"
    by (simp add: pair_turn_def client_defs demo_once_def)
  show "pair_turn demo_gowaves demo_list_text demo_once True ''t'' 0 (NodesStatusRequest []) = (1, None)"
    by (simp add: pair_turn_def client_defs demo_once_def)
qed

abbreviation demo_run :: "nat \<Rightarrow> nat channelEvent list \<Rightarrow> (nat, nat) channels \<Rightarrow> bool" where
  "demo_run n \<equiv> fifo_run demo_gowaves demo_list_text demo_once ''t'' (idle_channels n)"

abbreviation demo_channels where
  "demo_channels n c w l g \<equiv> \<lparr>ch_net = n, ch_client = c, ch_waiting = w, ch_log = l, ch_got = g\<rparr>"

lemma demo_steps:
  assumes "demo_run n evs s"
  shows "s = demo_channels m Idle w l g \<Longrightarrow> i \<notin> fst ` set w \<Longrightarrow>
      demo_run n (evs @ [Took i r]) (demo_channels m (Handling i r) (w @ (if awaits r then [(i, r)] else [])) l g)"
    and "s = demo_channels (Suc m) (Handling i (NodesListRequest False)) w l g \<Longrightarrow>
      demo_run n (evs @ [Handled]) (demo_channels (Suc (Suc m)) (Passing i (NodesListRequest False) (NodesListResponse [])) w l g)"
    and "s = demo_channels 0 (Handling i (NodesStatusRequest [])) w l g \<Longrightarrow>
      demo_run n (evs @ [Failed (NodesStatusRequest []) (w \<noteq> [])]) (demo_channels 1 Idle w (l @ [(NodesStatusRequest [], True)]) g)"
    and "s = demo_channels m (Passing i r resp) ((j, q) # w) l g \<Longrightarrow>
      demo_run n (evs @ [Received j]) (demo_channels m Idle w (l @ [(r, True)]) (g @ [((j, q), (i, r), resp)]))"
    and "s = demo_channels m (Passing i r resp) w l g \<Longrightarrow>
      demo_run n (evs @ [Expired (w \<noteq> [])]) (demo_channels m Idle w (l @ [(r, False)]) g)"
    and "s = demo_channels m c ((j, q) # w) l g \<Longrightarrow> demo_run n (evs @ [GaveUp j]) (demo_channels m c w l g)"
  using fifo_step [OF assms take_request [of s i _ _ _ _ r]] fifo_step [OF assms handle_request [of s]]
    fifo_step [OF assms handle_failed [of s]] fifo_step [OF assms receive_response [of s _ _ _ "[]"]]
    fifo_step [OF assms expire [of s]] fifo_step [OF assms give_up [of s "[]"]]
  by (auto simp: demo_turns)

theorem responses_own_requests_witness:
  "\<exists>s. demo_run 1 [Took 1 (NodesListRequest False), GaveUp 1, Handled, Expired False,
      Took 2 (NodesListRequest False), Handled, Received 2] s \<and> ch_waiting s = [] \<and>
    ch_got s = [((2, NodesListRequest False), (2, NodesListRequest False), NodesListResponse [])]"
proof -
  let ?r = "NodesListRequest False"
  have "demo_run 1 [] (demo_channels 1 Idle [] [] [])" using fifo_start by (simp add: idle_channels_def)
  from demo_steps(1) [OF this refl, of 1 ?r] have "demo_run 1 [Took 1 ?r] (demo_channels 1 (Handling 1 ?r) [(1, ?r)] [] [])" by simp
  from demo_steps(6) [OF this refl] have "demo_run 1 [Took 1 ?r, GaveUp 1] (demo_channels 1 (Handling 1 ?r) [] [] [])" by simp
  from demo_steps(2) [OF this, of 0] have "demo_run 1 [Took 1 ?r, GaveUp 1, Handled]
      (demo_channels 2 (Passing 1 ?r (NodesListResponse [])) [] [] [])" by (simp add: numeral_2_eq_2)
  from demo_steps(5) [OF this refl] have "demo_run 1 [Took 1 ?r, GaveUp 1, Handled, Expired False]
      (demo_channels 2 Idle [] [(?r, False)] [])" by simp
  from demo_steps(1) [OF this refl, of 2 ?r] have "demo_run 1 [Took 1 ?r, GaveUp 1, Handled, Expired False, Took 2 ?r]
      (demo_channels 2 (Handling 2 ?r) [(2, ?r)] [(?r, False)] [])" by simp
  from demo_steps(2) [OF this, of 1] have "demo_run 1 [Took 1 ?r, GaveUp 1, Handled, Expired False, Took 2 ?r, Handled]
      (demo_channels 3 (Passing 2 ?r (NodesListResponse [])) [(2, ?r)] [(?r, False)] [])" by (simp add: numeral_eq_Suc)
  from demo_steps(4) [OF this refl] have run: "demo_run 1 [Took 1 ?r, GaveUp 1, Handled, Expired False, Took 2 ?r, Handled, Received 2]
      (demo_channels 3 Idle [] [(?r, False), (?r, True)] [((2, ?r), (2, ?r), NodesListResponse [])])" by simp
  from responses_own_requests [OF fifo_run_run [OF run]] run show ?thesis by fastforce
qed

text \<open>Requester 1's request for statements fails; then the nodes that requester 2 asks for go to requester 1.\<close>

theorem lost_response_shifts_all_witness:
  "\<exists>s. demo_run 0 [Took 1 (NodesStatusRequest []), Failed (NodesStatusRequest []) True,
      Took 2 (NodesListRequest False), Handled, Received 1] s \<and> length (ch_waiting s) = 1 \<and>
    fst (fst (ch_got s ! 0)) = 1 \<and> fst (fst (snd (ch_got s ! 0))) \<noteq> 1"
proof -
  let ?q = "NodesStatusRequest []" and ?r = "NodesListRequest False"
  let ?xs = "[Took 1 ?q, Failed ?q True, Took 2 ?r, Handled]"
  have "demo_run 0 [] (demo_channels 0 Idle [] [] [])" using fifo_start by (simp add: idle_channels_def)
  from demo_steps(1) [OF this refl, of 1 ?q] have "demo_run 0 [Took 1 ?q] (demo_channels 0 (Handling 1 ?q) [(1, ?q)] [] [])" by simp
  from demo_steps(3) [OF this refl] have "demo_run 0 [Took 1 ?q, Failed ?q True] (demo_channels 1 Idle [(1, ?q)] [(?q, True)] [])" by simp
  from demo_steps(1) [OF this refl, of 2 ?r] have "demo_run 0 [Took 1 ?q, Failed ?q True, Took 2 ?r]
      (demo_channels 1 (Handling 2 ?r) [(1, ?q), (2, ?r)] [(?q, True)] [])" by simp
  from demo_steps(2) [OF this, of 0] have "demo_run 0 ?xs
      (demo_channels 2 (Passing 2 ?r (NodesListResponse [])) [(1, ?q), (2, ?r)] [(?q, True)] [])" by (simp add: numeral_2_eq_2)
  from demo_steps(4) [OF this refl] have run: "demo_run 0 (?xs @ [Received 1])
      (demo_channels 2 Idle [(2, ?r)] [(?q, True), (?r, True)] [((1, ?q), (2, ?r), NodesListResponse [])])" by simp
  have "give_ups ?xs < losses ?xs" by simp
  with lost_response_shifts_all [OF run] show ?thesis using run by fastforce
qed

end
