(* ===== verification/Vault.thy ===== *)
theory Vault
  imports GoLib
begin

text \<open>
  \<open>pkg/clients/vault.go\<close>: logging in to Vault and keeping the token alive. The libraries of Vault
  and backoff are parameters: what their calls answer is given session by session, a session being
  one turn of the loop of \<open>renewToken\<close>. A result \<open>None\<close> means that a call has not returned yet.
\<close>

section \<open>Logging in\<close>

record vaultSecret =
  vs_RequestID :: string
  vs_Renewable :: "bool option"

definition vaultLogin :: "(string \<Rightarrow> string \<Rightarrow> error option) \<Rightarrow> error + vaultSecret option \<Rightarrow> string \<Rightarrow> string \<Rightarrow> error + vaultSecret" where
  "vaultLogin NewUserpassAuth login user pass =
     (case NewUserpassAuth user pass of
        Some err \<Rightarrow> Inl (wrapf err ''unable to initialize userpass auth method'')
      | None \<Rightarrow>
          (case login of
             Inl err \<Rightarrow> Inl (wrapf err ''unable to login to userpass auth method'')
           | Inr None \<Rightarrow> Inl (Errorf ''no auth info was returned after login'')
           | Inr (Some authInfo) \<Rightarrow> Inr authInfo))"

text \<open>\<open>ParseAddress\<close>, the error of the configuration, \<open>NewClient\<close> and the first answer to a login.\<close>

record vaultApi =
  va_ParseAddress :: "string \<Rightarrow> error option"
  va_configError :: "error option"
  va_NewClient :: "error option"
  va_NewUserpassAuth :: "string \<Rightarrow> string \<Rightarrow> error option"
  va_Canceled :: "error \<Rightarrow> bool"

definition NewVaultSimpleClient :: "vaultApi \<Rightarrow> error + vaultSecret option \<Rightarrow> string \<Rightarrow> string \<Rightarrow> string \<Rightarrow> error option" where
  "NewVaultSimpleClient va login addr user pass =
     (case va_ParseAddress va addr of
        Some err \<Rightarrow> Some (wrapf err ''failed to parse vault address'')
      | None \<Rightarrow>
     (case va_configError va of
        Some err \<Rightarrow> Some (wrapf err ''failed to create vault config'')
      | None \<Rightarrow>
     (case va_NewClient va of
        Some clErr \<Rightarrow> Some (wrapf clErr ''failed to create vault client from config'')
      | None \<Rightarrow>
     (case vaultLogin (va_NewUserpassAuth va) login user pass of
        Inl loginErr \<Rightarrow> Some (wrapf loginErr ''failed to initially login to vault'')
      | Inr _ \<Rightarrow> None))))"

section \<open>The life of a token\<close>

definition errWatcherRenewFailed :: error where
  "errWatcherRenewFailed = Errorf ''token renewal failed''"

datatype watcherEvent = ContextEnds error | DoneCh "error option" | RenewCh

fun lifecycle_loop :: "watcherEvent list \<Rightarrow> error option option" where
  "lifecycle_loop [] = None"
| "lifecycle_loop (ContextEnds err # events) = Some (Some err)"
| "lifecycle_loop (DoneCh renewErr # events) =
     (if renewErr \<noteq> None then Some (errors_Join [Some errWatcherRenewFailed, renewErr]) else Some None)"
| "lifecycle_loop (RenewCh # events) = lifecycle_loop events"

text \<open>\<open>newWatcher\<close> is the error of \<open>NewLifetimeWatcher\<close>. A secret without \<open>Auth\<close> would be dereferenced.\<close>

definition manageTokenLifecycle :: "error option \<Rightarrow> watcherEvent list \<Rightarrow> vaultSecret \<Rightarrow> error option option" where
  "manageTokenLifecycle newWatcher events token =
     (case vs_Renewable token of
        None \<Rightarrow> Some (Some (Panic ''nil pointer dereference''))
      | Some renew \<Rightarrow>
          if \<not> renew then Some None
          else (case newWatcher of
                  Some err \<Rightarrow> Some (Some (wrapf err ''unable to initialize new lifetime watcher for renewing auth token''))
                | None \<Rightarrow> lifecycle_loop events))"

section \<open>The loop of renewals\<close>

text \<open>
  One session: whether the context is done at its start, the answers to the login calls, the error
  with which \<open>backoff\<close> gives up after them (its elapsed time, or the context), and the watcher.
\<close>

record vaultSession =
  se_ctxErr :: "error option"
  se_logins :: "(error + vaultSecret option) list"
  se_giveUp :: "error option"
  se_newWatcher :: "error option"
  se_watcher :: "watcherEvent list"

text \<open>
  \<open>backoff.RetryNotify\<close> with the operation \<open>loginOp\<close>: a canceled login is permanent, any other
  failure is tried again.
\<close>

fun retry_login :: "vaultApi \<Rightarrow> string \<Rightarrow> string \<Rightarrow> error option \<Rightarrow> (error + vaultSecret option) list \<Rightarrow> (error + vaultSecret) option" where
  "retry_login va user pass giveUp [] = map_option Inl giveUp"
| "retry_login va user pass giveUp (login # logins) =
     (case vaultLogin (va_NewUserpassAuth va) login user pass of
        Inr resp \<Rightarrow> Some (Inr resp)
      | Inl loginErr \<Rightarrow> if va_Canceled va loginErr then Some (Inl loginErr) else retry_login va user pass giveUp logins)"

text \<open>The tokens obtained, and whether the goroutine has ended or panicked; errors are only logged.\<close>

datatype renewal = Renewing | Over | Renewal_panic string

fun renewToken :: "vaultApi \<Rightarrow> string \<Rightarrow> string \<Rightarrow> vaultSession list \<Rightarrow> vaultSecret list \<times> renewal" where
  "renewToken va user pass [] = ([], Renewing)"
| "renewToken va user pass (s # sessions) =
     (if se_ctxErr s \<noteq> None then ([], Over)
      else case retry_login va user pass (se_giveUp s) (se_logins s) of
             None \<Rightarrow> ([], Renewing)
           | Some (Inl err) \<Rightarrow> ([], Over)
           | Some (Inr vaultLoginResp) \<Rightarrow>
               (case manageTokenLifecycle (se_newWatcher s) (se_watcher s) vaultLoginResp of
                  None \<Rightarrow> ([vaultLoginResp], Renewing)
                | Some (Some (Panic p)) \<Rightarrow> ([vaultLoginResp], Renewal_panic p)
                | Some tokenErr \<Rightarrow>
                    (case renewToken va user pass sessions of
                       (tokens, r) \<Rightarrow> (vaultLoginResp # tokens, r))))"

section \<open>How long tokens are renewed\<close>

text \<open>A login answer that gives a secret with its \<open>Auth\<close> part, as Vault documents it.\<close>

definition granted :: "error + vaultSecret option \<Rightarrow> vaultSecret \<Rightarrow> bool" where
  "granted login token \<longleftrightarrow> login = Inr (Some token) \<and> vs_Renewable token \<noteq> None"

text \<open>
  A session in which the context lives on, some login is granted after failures that are no
  cancellation, and then the token cannot be renewed, no watcher can be made, or the watcher ends.
\<close>

definition session_passes :: "vaultApi \<Rightarrow> string \<Rightarrow> string \<Rightarrow> vaultSession \<Rightarrow> vaultSecret \<Rightarrow> bool" where
  "session_passes va user pass s token \<longleftrightarrow>
     se_ctxErr s = None \<and>
     (\<exists>failed login later. se_logins s = failed @ login # later \<and> granted login token \<and>
        (\<forall>l \<in> set failed. \<exists>e. vaultLogin (va_NewUserpassAuth va) l user pass = Inl e \<and> \<not> va_Canceled va e)) \<and>
     (vs_Renewable token = Some False \<or> se_newWatcher s \<noteq> None \<or>
      (\<exists>renewals result later. se_watcher s = replicate renewals RenewCh @ DoneCh result # later))"

lemma retry_login_granted:
  assumes "va_NewUserpassAuth va user pass = None" "granted login token"
    and "\<forall>l \<in> set failed. \<exists>e. vaultLogin (va_NewUserpassAuth va) l user pass = Inl e \<and> \<not> va_Canceled va e"
  shows "retry_login va user pass giveUp (failed @ login # later) = Some (Inr token)"
  using assms(3)
proof (induction failed)
  case Nil
  with assms(1,2) show ?case by (simp add: vaultLogin_def granted_def)
next
  case (Cons l failed)
  then show ?case by auto
qed

lemma lifecycle_done: "\<exists>err. lifecycle_loop (replicate n RenewCh @ DoneCh result # later) = Some err \<and> (\<forall>p. err \<noteq> Some (Panic p))"
  by (induction n) (auto simp: errors_Join_def List.map_filter_def split: option.splits)

lemma wrapf_no_panic: "\<not> is_panic e \<Longrightarrow> wrapf e msg \<noteq> Panic p"
  by (cases e) auto

lemma session_token:
  assumes "session_passes va user pass s token" "va_NewUserpassAuth va user pass = None"
    and "\<And>e. se_newWatcher s = Some e \<Longrightarrow> \<not> is_panic e"
  shows "renewToken va user pass (s # sessions) =
    (token # fst (renewToken va user pass sessions), snd (renewToken va user pass sessions))"
proof -
  from assms(1) obtain failed login later where l: "se_logins s = failed @ login # later" "granted login token"
    "\<forall>l \<in> set failed. \<exists>e. vaultLogin (va_NewUserpassAuth va) l user pass = Inl e \<and> \<not> va_Canceled va e"
    unfolding session_passes_def by blast
  have r: "retry_login va user pass (se_giveUp s) (se_logins s) = Some (Inr token)"
    unfolding l(1) by (rule retry_login_granted [OF assms(2) l(2,3)])
  have "\<exists>err. manageTokenLifecycle (se_newWatcher s) (se_watcher s) token = Some err \<and> (\<forall>p. err \<noteq> Some (Panic p))"
    using assms(1,3) l(2) lifecycle_done
    by (fastforce simp: session_passes_def granted_def manageTokenLifecycle_def wrapf_no_panic split: option.splits)
  with r assms(1) show ?thesis
    by (auto simp: session_passes_def split: prod.splits option.splits error.splits)
qed

text \<open>
  C40: The token is never given up while Vault lets the service in. When in every session a login
  is granted, whatever failures came before it, each end of a token, by expiry, by a failed
  renewal or for want of a watcher, is followed by a new login: every session yields its token and
  the loop goes on. Conversely the loop ends only with the context, or in a session in which no
  login was granted.
\<close>

theorem vault_token_kept:
  assumes "list_all2 (session_passes va user pass) sessions tokens"
    and "va_NewUserpassAuth va user pass = None"
    and "\<forall>s \<in> set sessions. \<forall>e. se_newWatcher s = Some e \<longrightarrow> \<not> is_panic e"
  shows "renewToken va user pass sessions = (tokens, Renewing) \<and>
    (\<forall>more. snd (renewToken va user pass (sessions @ more)) = Over \<longrightarrow>
      (\<exists>s \<in> set more. se_ctxErr s \<noteq> None \<or> (\<exists>err. retry_login va user pass (se_giveUp s) (se_logins s) = Some (Inl err))))"
proof -
  have ends: "\<exists>s \<in> set more. se_ctxErr s \<noteq> None \<or> (\<exists>err. retry_login va user pass (se_giveUp s) (se_logins s) = Some (Inl err))"
    if "snd (renewToken va user pass more) = Over" for more
    using that
  proof (induction more)
    case (Cons s more)
    then show ?case
      by (auto split: if_splits option.splits sum.splits prod.splits error.splits)
  qed simp
  from assms(1,3) show ?thesis
  proof (induction rule: list_all2_induct)
    case Nil
    show ?case using ends by simp
  next
    case (Cons s sessions token tokens)
    have step: "renewToken va user pass (s # ss) = (token # fst (renewToken va user pass ss), snd (renewToken va user pass ss))"
      for ss
      using session_token [OF Cons.hyps(1) assms(2)] Cons.prems by simp
    from Cons show ?case by (simp add: step del: renewToken.simps)
  qed
qed

section \<open>Witness\<close>

text \<open>
  A renewable token after one failed login; it is renewed twice and expires. The next one cannot
  be renewed: the login is repeated at once.
\<close>

definition demo_vault :: vaultApi where
  "demo_vault =
     \<lparr>va_ParseAddress = (\<lambda>_. None), va_configError = None, va_NewClient = None, va_NewUserpassAuth = (\<lambda>_ _. None),
      va_Canceled = (\<lambda>_. False)\<rparr>"

definition demo_token :: "bool \<Rightarrow> vaultSecret" where
  "demo_token renewable = \<lparr>vs_RequestID = ''r'', vs_Renewable = Some renewable\<rparr>"

definition demo_session :: "bool \<Rightarrow> vaultSession" where
  "demo_session renewable =
     \<lparr>se_ctxErr = None, se_logins = [Inl (Errorf ''sealed''), Inr (Some (demo_token renewable))], se_giveUp = None,
      se_newWatcher = None, se_watcher = (if renewable then [RenewCh, RenewCh, DoneCh None] else [])\<rparr>"

lemma demo_session_passes: "session_passes demo_vault ''u'' ''p'' (demo_session b) (demo_token b)"
proof -
  have "granted (Inr (Some (demo_token b))) (demo_token b)"
    by (simp add: granted_def demo_token_def)
  moreover have "\<exists>e. vaultLogin (va_NewUserpassAuth demo_vault) (Inl (Errorf ''sealed'')) ''u'' ''p'' = Inl e \<and> \<not> va_Canceled demo_vault e"
    by (simp add: vaultLogin_def demo_vault_def)
  ultimately have "\<exists>failed login later. se_logins (demo_session b) = failed @ login # later \<and> granted login (demo_token b) \<and>
      (\<forall>l \<in> set failed. \<exists>e. vaultLogin (va_NewUserpassAuth demo_vault) l ''u'' ''p'' = Inl e \<and> \<not> va_Canceled demo_vault e)"
    by (intro exI [of _ "[Inl (Errorf ''sealed'')]"] exI [of _ "Inr (Some (demo_token b))"] exI [of _ "[]"])
      (simp add: demo_session_def)
  moreover have "b \<Longrightarrow> se_watcher (demo_session b) = replicate 2 RenewCh @ DoneCh None # []"
    by (simp add: demo_session_def numeral_2_eq_2)
  ultimately show ?thesis
    unfolding session_passes_def by (cases b) (fastforce simp: demo_session_def demo_token_def)+
qed

theorem vault_token_kept_witness:
  "renewToken demo_vault ''u'' ''p'' [demo_session True, demo_session False] = ([demo_token True, demo_token False], Renewing)"
proof -
  have "list_all2 (session_passes demo_vault ''u'' ''p'') [demo_session True, demo_session False]
      [demo_token True, demo_token False]"
    by (simp add: demo_session_passes)
  from vault_token_kept [OF this] show ?thesis by (simp add: demo_vault_def demo_session_def)
qed

end
