(* ===== verification/Shutdown.thy ===== *)
theory Shutdown
  imports BotPolicy
begin

text \<open>
  How the goroutines of the service end. The scraper, the private nodes handler, the analyzer, the
  L2 analyzers, the merging of their alerts and the publisher are a chain: each closes the channel
  to the next when its input is closed, and the scraper and the L2 analyzers begin when the context
  is done. The publisher of \<open>pkg/messaging/pubsub/server.go\<close> waits for an alert or for the context;
  what it does with one alert is \<open>enterLoop\<close> of \<open>Messaging\<close>.
\<close>

section \<open>The chain\<close>

text \<open>
  The publisher is about to evaluate its \<open>select\<close>, blocked in it, publishing an alert, or at its
  end. A goroutine that is blocked in a \<open>select\<close> is woken with the first case that gets ready.
\<close>

datatype publisher = Selecting | Blocked_in_select | Publishing | Left_loop | Panicked error

text \<open>
  \<open>pl_alerts\<close> and \<open>pl_sent\<close> are what the publisher took from its channel and what it handed to NATS.
\<close>

record pipeline =
  pl_ctxDone :: bool
  pl_notifications_closed :: bool
  pl_handled_closed :: bool
  pl_analyzed_closed :: bool
  pl_l2_closed :: bool
  pl_alerts_closed :: bool
  pl_publisher :: publisher
  pl_alerts :: "Alert list"
  pl_sent :: "(string \<times> bytes) list"

definition running_pipeline :: pipeline where
  "running_pipeline =
     \<lparr>pl_ctxDone = False, pl_notifications_closed = False, pl_handled_closed = False, pl_analyzed_closed = False,
      pl_l2_closed = False, pl_alerts_closed = False, pl_publisher = Selecting, pl_alerts = [], pl_sent = []\<rparr>"

text \<open>
  Whether somebody can still write to the publisher's channel. \<open>l2\<close> are the L2 nodes, \<open>None\<close> when
  their analyzers are not run at all.
\<close>

definition alerts_open :: "'n list option \<Rightarrow> pipeline \<Rightarrow> bool" where
  "alerts_open l2 s \<longleftrightarrow> \<not> pl_alerts_closed s \<and> (\<not> pl_analyzed_closed s \<or> l2 \<noteq> None \<and> \<not> pl_l2_closed s)"

inductive pipeline_step :: "gowaves \<Rightarrow> jsontext \<Rightarrow> string \<Rightarrow> 'n list option \<Rightarrow> pipeline \<Rightarrow> pipeline \<Rightarrow> bool"
  for gw jt scheme l2 where
  cancel: "\<not> pl_ctxDone s \<Longrightarrow>
    pipeline_step gw jt scheme l2 s
      (s\<lparr>pl_ctxDone := True,
         pl_publisher := (if pl_publisher s = Blocked_in_select then Left_loop else pl_publisher s)\<rparr>)"
| scraper_stops: "pl_ctxDone s \<Longrightarrow> pipeline_step gw jt scheme l2 s (s\<lparr>pl_notifications_closed := True\<rparr>)"
| handler_stops: "pl_notifications_closed s \<Longrightarrow> pipeline_step gw jt scheme l2 s (s\<lparr>pl_handled_closed := True\<rparr>)"
| analyzer_stops: "pl_handled_closed s \<Longrightarrow> pipeline_step gw jt scheme l2 s (s\<lparr>pl_analyzed_closed := True\<rparr>)"
| l2_stops: "pl_ctxDone s \<or> l2 = Some [] \<Longrightarrow> pipeline_step gw jt scheme l2 s (s\<lparr>pl_l2_closed := True\<rparr>)"
| merge_stops: "pl_analyzed_closed s \<Longrightarrow> l2 \<noteq> None \<longrightarrow> pl_l2_closed s \<Longrightarrow>
    pipeline_step gw jt scheme l2 s (s\<lparr>pl_alerts_closed := True\<rparr>)"
| blocks: "pl_publisher s = Selecting \<Longrightarrow> \<not> pl_ctxDone s \<Longrightarrow> \<not> pl_alerts_closed s \<Longrightarrow>
    pipeline_step gw jt scheme l2 s (s\<lparr>pl_publisher := Blocked_in_select\<rparr>)"
| receives: "pl_publisher s = Selecting \<or> pl_publisher s = Blocked_in_select \<Longrightarrow> alerts_open l2 s \<Longrightarrow>
    enterLoop gw jt scheme [Some alert] = (sent, None) \<Longrightarrow>
    pipeline_step gw jt scheme l2 s
      (s\<lparr>pl_publisher := Publishing, pl_alerts := pl_alerts s @ [alert], pl_sent := pl_sent s @ sent\<rparr>)"
| published: "pl_publisher s = Publishing \<Longrightarrow> pipeline_step gw jt scheme l2 s (s\<lparr>pl_publisher := Selecting\<rparr>)"
| context_selected: "pl_publisher s = Selecting \<Longrightarrow> pl_ctxDone s \<Longrightarrow>
    pipeline_step gw jt scheme l2 s (s\<lparr>pl_publisher := Left_loop\<rparr>)"
| nil_received: "pl_publisher s = Selecting \<Longrightarrow> pl_alerts_closed s \<Longrightarrow> enterLoop gw jt scheme [None] = ([], Some err) \<Longrightarrow>
    pipeline_step gw jt scheme l2 s (s\<lparr>pl_publisher := Panicked err\<rparr>)"
| nil_refused: "pl_publisher s = Selecting \<Longrightarrow> pl_alerts_closed s \<Longrightarrow> enterLoop gw jt scheme [None] = ([], None) \<Longrightarrow>
    pipeline_step gw jt scheme l2 s s"

abbreviation pipeline_reaches :: "gowaves \<Rightarrow> jsontext \<Rightarrow> string \<Rightarrow> 'n list option \<Rightarrow> pipeline \<Rightarrow> pipeline \<Rightarrow> bool" where
  "pipeline_reaches gw jt scheme l2 \<equiv> (pipeline_step gw jt scheme l2)\<^sup>*\<^sup>*"

text \<open>\<open>StartPubMessagingServer\<close> around the loop; \<open>canceled\<close> tells whether an error is \<open>context.Canceled\<close>.\<close>

definition StartPubMessagingServer :: "(error \<Rightarrow> bool) \<Rightarrow> error option \<Rightarrow> error option \<Rightarrow> error option" where
  "StartPubMessagingServer canceled connect loopErr =
     (case connect of
        Some err \<Rightarrow> Some err
      | None \<Rightarrow>
          (case loopErr of
             Some err \<Rightarrow> if \<not> canceled err then Some err else None
           | None \<Rightarrow> None))"

section \<open>The order of the end\<close>

text \<open>
  Each channel is closed after the one before it, a blocked publisher has not seen the context
  end, and it has published what \<open>enterLoop\<close> makes of the alerts it took.
\<close>

definition pipeline_ok :: "gowaves \<Rightarrow> jsontext \<Rightarrow> string \<Rightarrow> 'n list option \<Rightarrow> pipeline \<Rightarrow> bool" where
  "pipeline_ok gw jt scheme l2 s \<longleftrightarrow>
     (pl_notifications_closed s \<longrightarrow> pl_ctxDone s) \<and> (pl_handled_closed s \<longrightarrow> pl_notifications_closed s) \<and>
     (pl_analyzed_closed s \<longrightarrow> pl_handled_closed s) \<and> (pl_l2_closed s \<longrightarrow> pl_ctxDone s \<or> l2 = Some []) \<and>
     (pl_alerts_closed s \<longrightarrow> pl_analyzed_closed s \<and> (l2 \<noteq> None \<longrightarrow> pl_l2_closed s)) \<and>
     (pl_publisher s = Blocked_in_select \<longrightarrow> \<not> pl_ctxDone s) \<and>
     (pl_publisher s = Left_loop \<longrightarrow> pl_ctxDone s) \<and>
     (\<forall>err. pl_publisher s = Panicked err \<longrightarrow> is_panic err \<and> pl_alerts_closed s) \<and>
     enterLoop gw jt scheme (map Some (pl_alerts s)) = (pl_sent s, None)"

lemma enterLoop_append:
  assumes "enterLoop gw jt scheme xs = (sent, None)"
  shows "enterLoop gw jt scheme (xs @ ys) =
    (sent @ fst (enterLoop gw jt scheme ys), snd (enterLoop gw jt scheme ys))"
  using assms
  by (induction xs arbitrary: sent) (auto split: sum.splits prod.splits if_splits)

lemma enterLoop_error: "enterLoop gw jt scheme xs = (sent, Some err) \<Longrightarrow> is_panic err"
  by (induction xs arbitrary: sent) (auto split: sum.splits prod.splits if_splits)

lemma pipeline_ok_step:
  assumes "pipeline_step gw jt scheme l2 s s'" "pipeline_ok gw jt scheme l2 s"
  shows "pipeline_ok gw jt scheme l2 s'"
  using assms(1)
proof cases
  case (receives alert sent)
  then show ?thesis
    using assms(2) enterLoop_append [of gw jt scheme "map Some (pl_alerts s)" "pl_sent s" "[Some alert]"]
    by (simp add: pipeline_ok_def alerts_open_def del: enterLoop.simps)
next
  case (nil_received err)
  then show ?thesis
    using assms(2) enterLoop_error [of gw jt scheme "[None]"] by (simp add: pipeline_ok_def del: enterLoop.simps)
qed (use assms(2) in \<open>auto simp: pipeline_ok_def simp del: enterLoop.simps split: if_splits\<close>)

lemma pipeline_ok_reachable:
  "pipeline_reaches gw jt scheme l2 running_pipeline s \<Longrightarrow> pipeline_ok gw jt scheme l2 s"
proof (induction rule: rtranclp_induct)
  case base
  show ?case by (simp add: pipeline_ok_def running_pipeline_def)
next
  case (step s s')
  from pipeline_ok_step [OF step.hyps(2) step.IH] show ?case .
qed

lemma nil_alert_panics:
  "jt_Marshal jt JNull = Inr txt \<Longrightarrow> enterLoop gw jt scheme [None] = ([], Some (Panic ''nil pointer dereference''))"
  by (simp add: NewAlertMessageFromAlert_def)

text \<open>A publisher that takes an alert before the signal and is done with it when its channel is closed.\<close>

lemma panic_reachable:
  assumes "jt_Marshal jt JNull = Inr txt" "enterLoop gw jt scheme [Some alert] = (sent, None)"
  shows "\<exists>s. pipeline_reaches gw jt scheme l2 running_pipeline s \<and> pl_publisher s = Panicked (Panic ''nil pointer dereference'')"
proof -
  let ?step = "pipeline_step gw jt scheme l2"
  let ?s1 = "running_pipeline\<lparr>pl_publisher := Publishing, pl_alerts := [alert], pl_sent := sent\<rparr>"
  let ?s2 = "?s1\<lparr>pl_ctxDone := True\<rparr>"
  let ?s3 = "?s2\<lparr>pl_notifications_closed := True\<rparr>"
  let ?s4 = "?s3\<lparr>pl_handled_closed := True\<rparr>"
  let ?s5 = "?s4\<lparr>pl_analyzed_closed := True\<rparr>"
  let ?s6 = "?s5\<lparr>pl_l2_closed := True\<rparr>"
  let ?s7 = "?s6\<lparr>pl_alerts_closed := True\<rparr>"
  let ?s8 = "?s7\<lparr>pl_publisher := Selecting\<rparr>"
  have "?step running_pipeline ?s1"
    using receives [of running_pipeline l2 gw jt scheme alert sent] assms(2)
    by (simp add: running_pipeline_def alerts_open_def)
  moreover have "?step ?s1 ?s2" using cancel [of ?s1] by (simp add: running_pipeline_def)
  moreover have "?step ?s2 ?s3" by (rule scraper_stops) simp
  moreover have "?step ?s3 ?s4" by (rule handler_stops) simp
  moreover have "?step ?s4 ?s5" by (rule analyzer_stops) simp
  moreover have "?step ?s5 ?s6" by (rule l2_stops) simp
  moreover have "?step ?s6 ?s7" by (rule merge_stops) simp_all
  moreover have "?step ?s7 ?s8" by (rule published) simp
  moreover have "?step ?s8 (?s8\<lparr>pl_publisher := Panicked (Panic ''nil pointer dereference'')\<rparr>)"
    by (rule nil_received) (use nil_alert_panics [OF assms(1)] in \<open>simp_all del: enterLoop.simps\<close>)
  ultimately have "pipeline_reaches gw jt scheme l2 running_pipeline
      (?s8\<lparr>pl_publisher := Panicked (Panic ''nil pointer dereference'')\<rparr>)"
    by (meson converse_rtranclp_into_rtranclp rtranclp.rtrancl_refl)
  then show ?thesis by (intro exI conjI) (assumption, simp)
qed

section \<open>The property\<close>

text \<open>
  C39: The end of the service, in every reachable state. While no signal came, no channel of the
  chain is closed and the publisher is in its loop; at any time it has handed exactly the messages of the alerts it
  took to NATS. It can panic, on the nil alert of its closed channel, only after the signal and
  after every part of the chain before it has stopped; and it can get there, when it was busy with
  an alert at the signal, because its \<open>select\<close> may then choose the closed channel before the context.
\<close>

theorem publisher_panics_only_at_shutdown:
  assumes "pipeline_reaches gw jt scheme l2 running_pipeline s"
    and "jt_Marshal jt JNull = Inr txt" "enterLoop gw jt scheme [Some alert] = (sent, None)"
  shows "(\<not> pl_ctxDone s \<longrightarrow> \<not> pl_notifications_closed s \<and> \<not> pl_handled_closed s \<and> \<not> pl_analyzed_closed s \<and>
      \<not> pl_alerts_closed s \<and> pl_publisher s \<in> {Selecting, Blocked_in_select, Publishing}) \<and>
    enterLoop gw jt scheme (map Some (pl_alerts s)) = (pl_sent s, None) \<and>
    (\<forall>err. pl_publisher s = Panicked err \<longrightarrow> is_panic err \<and> pl_ctxDone s \<and> pl_notifications_closed s \<and>
      pl_handled_closed s \<and> pl_analyzed_closed s \<and> (l2 \<noteq> None \<longrightarrow> pl_l2_closed s)) \<and>
    (\<exists>t err. pipeline_reaches gw jt scheme l2 running_pipeline t \<and> pl_publisher t = Panicked err)"
proof -
  from pipeline_ok_reachable [OF assms(1)] have ok: "pipeline_ok gw jt scheme l2 s" .
  then have "\<not> pl_ctxDone s \<longrightarrow> pl_publisher s \<in> {Selecting, Blocked_in_select, Publishing}"
    by (cases "pl_publisher s") (auto simp: pipeline_ok_def simp del: enterLoop.simps)
  with ok show ?thesis
    using panic_reachable [OF assms(2,3)] unfolding pipeline_ok_def by blast
qed

section \<open>Witness\<close>

lemma demo_published:
  "\<exists>msg. enterLoop demo_gowaves (demo_text [Alert_json demo_gowaves demo_alert, JNull]) ''W'' [Some demo_alert] = ([msg], None)"
  by (simp add: NewAlertMessageFromAlert_def demo_text_first AlertMessage_MarshalBinary_def)

theorem publisher_panics_only_at_shutdown_witness:
  "\<exists>t err. pipeline_reaches demo_gowaves (demo_text [Alert_json demo_gowaves demo_alert, JNull]) ''W'' (None :: unit list option)
     running_pipeline t \<and> pl_publisher t = Panicked err"
proof -
  have "jt_Marshal (demo_text [Alert_json demo_gowaves demo_alert, JNull]) JNull = Inr ''xx''"
    by (simp add: demo_text_def demo_alert_def SimpleAlert_json_def)
  moreover from demo_published obtain msg where
    "enterLoop demo_gowaves (demo_text [Alert_json demo_gowaves demo_alert, JNull]) ''W'' [Some demo_alert] = ([msg], None)"
    by blast
  ultimately show ?thesis
    using publisher_panics_only_at_shutdown [OF rtranclp.rtrancl_refl] by blast
qed

end
