(* ===== verification/Spec2Isabelle.thy ===== *)
theory Spec2Isabelle
  imports AnalyzerRounds NodesPolicy CollectionPolicy L2Failures PairPolicy BotReplies BotStatus
    HttpServers DscPolicy AnalyzerSafety Requesters Vault Shutdown
begin

text \<open>
  A verification development of nodemon, the monitoring service for Waves nodes, and of its Telegram
  and Discord bots. It translates the Go sources under \<open>cmd\<close>, \<open>pkg\<close> and \<open>internal\<close> into definitions
  that can be executed, and proves what makes each part and their composition correct. Names follow
  the sources; where a Go name is taken in HOL or by another part, it has a prefix or a suffix
  (\<open>tg_\<close> and \<open>ds_\<close> for methods of the two bots, \<open>client_\<close> for the pair client).

  \<^bold>\<open>The program.\<close> Three processes. The service polls the public nodes of its registry
  (\<open>pkg/scraping\<close>), accepts statements that private nodes post to its HTTP API (\<open>pkg/api\<close>,
  \<open>pkg/storing/specific\<close>), keeps all statements for a while in an in-memory database
  (\<open>pkg/storing/events\<close>), and after each poll runs the criteria over the statements of that time
  (\<open>pkg/analysis\<close>). The alerts pass a storage that confirms, delays and retires them, are merged with
  those of the watchdogs of layer-2 nodes (\<open>pkg/analysis/l2\<close>) and published over NATS
  (\<open>pkg/messaging\<close>). The bots (\<open>cmd/bots\<close>) receive them, render them for the chat, and send the
  commands of the chat back as requests (\<open>pkg/messaging/pair\<close>), which read and change the registry
  (\<open>pkg/storing/nodes\<close>, a file or a secret in Vault, \<open>pkg/clients\<close>).

  \<^bold>\<open>Theories, from the bottom.\<close>

  \<^item> \<open>Prelude\<close>: machine integers and their wrap-around, Go error values (\<open>errors.Is\<close>, \<open>Wrap\<close>, \<open>Join\<close>,
    panics), Go maps. \<open>GoLib\<close>: what is used of \<open>strings\<close> and \<open>strconv\<close>. \<open>Json\<close>: documents, and
    \<open>encoding/json\<close> on structs. \<open>Tools\<close>: \<open>pkg/tools/processing.go\<close>, the merging of channels.
  \<^item> \<open>Statements\<close>, \<open>Events\<close>, \<open>Alerts\<close>, \<open>AlertsJson\<close>, \<open>Notifications\<close>: \<open>pkg/entities\<close>.
  \<^item> \<open>EventKeys\<close>, \<open>EventsStorage\<close>: \<open>pkg/storing/events\<close>; \<open>EventsHistory\<close> is its specification, the history
    of statements per node that a database stands for, with the invariant \<open>store_ok\<close>; \<open>EventsPolicy\<close>
    and \<open>CommonHeight\<close> hold the theorems: reading back, the order of views, the search for a height
    that all nodes have.
  \<^item> \<open>ForkFinder\<close>, \<open>ForkPolicy\<close>: \<open>pkg/analysis/finders\<close>, two bisections that end, whose answers are
    common to both nodes, and greatest on chains that fork once.
  \<^item> \<open>Criteria\<close>: \<open>pkg/analysis/criteria\<close>; \<open>CriteriaPolicy\<close> and \<open>CriteriaAlerts\<close>: when each criterion raises
    which alert.
  \<^item> \<open>AlertsStorage\<close>, \<open>AlertsPolicy\<close>: \<open>pkg/analysis/storage\<close>, the life of one alert from the first report
    to the report that it is fixed.
  \<^item> \<open>Analyzer\<close>: \<open>pkg/analysis/analyzer.go\<close>, the criteria in parallel, the proxy and the loop over
    notifications; \<open>AnalyzerPolicy\<close>, \<open>AnalyzerRounds\<close> and \<open>AnalyzerSafety\<close>: fixed reports, independence of
    the interleaving, healthy rounds, and that no round panics or runs for ever.
  \<^item> \<open>Scraper\<close>, \<open>PrivateNodes\<close>, \<open>CollectionPolicy\<close>: from the answers of the nodes to the statements that the
    analyzer reads.
  \<^item> \<open>NodesStorage\<close>, \<open>NodesPolicy\<close>: the registry, as an implementation of two maps from URLs to nodes, and
    its restart from disk. \<open>Vault\<close>: \<open>pkg/clients/vault.go\<close>, how the token for the secret is kept.
  \<^item> \<open>L2\<close>, \<open>L2Policy\<close>, \<open>L2Failures\<close>: the layer-2 watchdog, when it raises its two alerts and when they are fixed.
  \<^item> \<open>Messaging\<close>: alert messages, the publisher, the types and bytes of requests and responses;
    \<open>PairServer\<close>, \<open>PairClient\<close>, \<open>PairPolicy\<close>: the two ends of the bots' requests and their composition;
    \<open>Requesters\<close>: the goroutines of a bot that share one pair of channels, as a step relation.
  \<^item> \<open>BotMessages\<close>, \<open>BotEnv\<close>, \<open>BotPolicy\<close>, \<open>BotStatus\<close>: the texts and the state of the bots
    (\<open>cmd/bots/internal/bots/environment.go\<close>); \<open>BotHandlers\<close>: \<open>SendAlertMessage\<close> split into its phases, and the
    handlers of all alerts that NATS runs concurrently, as a step relation; \<open>BotReplies\<close>: what the messages
    of fixed reports answer, and how a report can overtake its alert; \<open>TgHandlers\<close>, \<open>TgPolicy\<close>, \<open>DscHandlers\<close>
    and \<open>DscPolicy\<close>: their commands, and which chat may change what.
  \<^item> \<open>Api\<close>, \<open>ApiPolicy\<close>: the HTTP handlers of the service; \<open>HttpServers\<close>: the servers of the service and of the bots
    with their routes and middleware, and what each request does. \<open>LogAttrs\<close>: \<open>pkg/tools/logging/attrs\<close>, the
    texts of logged bytes in UTF-8, base64 and hexadecimal.
  \<^item> \<open>Config\<close>, \<open>Flags\<close>, \<open>Service\<close>: parameters, their validation and their origin in flags and the
    environment, and \<open>run\<close> of \<open>cmd/nodemon\<close>; \<open>BotMain\<close>: the main programs of the bots, with the
    three ways they can end: a return, a panic of a handler or of the scheduled status, or a wait for ever
    in the shutdown of the scheduler. \<open>Shutdown\<close>: how the
    goroutines of the service end.

  \<^bold>\<open>State and operations.\<close> A Go struct is a record and an interface with known implementations a
  datatype; a method that changes its receiver returns it; an error is a value of \<open>error\<close> in a sum or
  an option, and a panic is the constructor \<open>Panic\<close> of it. Every branch and early return is a branch
  of the definition. Loops are recursive functions; those that may run for ever are partial
  functions (\<open>bisect\<close>) or step relations, and a wait without end is the value \<open>None\<close> or \<open>Blocked\<close>. A
  channel is the list of what passes it; where the interleaving matters, the orders are those of an
  inductive relation (\<open>FanIn\<close>, \<open>proxy\<close>, \<open>handlePrivateEvents\<close>, \<open>handlers_step\<close>, \<open>channel_step\<close>,
  \<open>pipeline_step\<close>). Ranging over
  a Go map takes its order as an argument; theorems hold for every order.

  \<^bold>\<open>Contracts.\<close> The locales state what one part relies on of another, and each is interpreted on the
  definitions of the part that provides it: \<open>alerts_store\<close> (the storage of alerts, for the analyzers),
  \<open>codec\<close> (statement keys and statements in the database), \<open>event_producer\<close> (the events of the scraper),
  \<open>height_query\<close> (blocks and state hashes, for the bisections), \<open>node_registry\<close> (the registry, for bots
  and scraper), \<open>chat_bot\<close> (the interface \<open>Bot\<close> that the commands of both bots check), \<open>alert_bot\<close> (what a phase of
  a handler of alerts may send and change, for the replies of both bots) and its extension \<open>terse_bot\<close> (at most
  one message for an alert, for the Telegram bot).

  \<^bold>\<open>Parameters.\<close> Code that is not in the repository is a record of functions, with what is assumed of
  it as a named predicate, and an instance that satisfies it: gowaves (\<open>gowaves_ok\<close>: hashes have 32
  bytes; digests, block ids and addresses are read back from their JSON), buntdb (its documented transactions, order and
  patterns), the text of JSON (\<open>texts_faithful\<close>: what is marshalled is parsed back; strings are taken to
  be UTF-8), \<open>net/url\<close>, the file system, the Vault API and backoff, NATS, telebot, discordgo, the
  templates, the HTTP client and server, \<open>time.ParseDuration\<close> and \<open>strcase\<close>, and the clock. Hashes of
  alerts are not assumed to be free of collisions: where it matters, the theorem names the alerts
  whose ids must differ.

  \<^bold>\<open>Bounds.\<close> Heights and thresholds are 64-bit words and wrap around; \<open>int\<close> and \<open>int64\<close> are integers, with
  \<open>wrap64\<close> where the code computes with them. The search for a common height has the 50 steps of the
  code, the fork finder ends for heights below \<open>2\<^sup>6\<^sup>3\<close>. A handler of an alert that runs alone needs at
  most five phases (\<open>alone\<close>). No fuel is used elsewhere.

  \<^bold>\<open>Not modelled.\<close> The text layer of JSON and the template engines; Prometheus and the writing of log
  records; chi and \<open>net/http\<close>, of which the servers use what \<open>chi_ok\<close> states; headers of responses; locks, as the operations
  under a lock are atomic steps; interfaces, which are declarations without code; the cron scheduler, of which
  the scheduled function is modelled, and that its shutdown waits for a run in progress. \<open>strings.ToLower\<close> and \<open>strconv.Quote\<close> are those of ASCII.
\<close>

end
